(* ===== verification/Prelude.thy ===== *)
theory Prelude
  imports Complex_Main "HOL-Library.List_Lexorder" "HOL-Library.Char_ord"
begin

text \<open>
  Shared vocabulary of the development: Python strings and the string methods the program
  calls, Python floats with their comparisons, timestamps, exceptions as values of a sum
  type, and the generic lemmas on lists, maps and results that every component uses.

  A Python \<open>str\<close> is a \<^typ>\<open>string\<close> whose characters are the code points below 256; the
  character predicates follow Python's tables on that range.  A \<open>datetime\<close> in UTC is an
  integer number of microseconds since the epoch, a \<open>timedelta\<close> of \<open>n\<close> seconds adds
  \<open>n * 1000000\<close>.
\<close>

named_theorems component_simps \<open>unfolding rules of the components' operations\<close>
named_theorems result_intros \<open>introduction rules for results that are not errors\<close>

section \<open>Results\<close>

text \<open>A Python call that may raise returns \<open>Inl\<close> the exception or \<open>Inr\<close> the value.\<close>

definition is_ok :: "'e + 'a \<Rightarrow> bool" where
  "is_ok r = (case r of Inl _ \<Rightarrow> False | Inr _ \<Rightarrow> True)"

definition bind_result :: "'e + 'a \<Rightarrow> ('a \<Rightarrow> 'e + 'b) \<Rightarrow> 'e + 'b" where
  "bind_result r f = (case r of Inl e \<Rightarrow> Inl e | Inr x \<Rightarrow> f x)"

text \<open>A generator of results that raises at its first error.\<close>

fun collect_results :: "('e + 'a) list \<Rightarrow> 'e + 'a list" where
  "collect_results [] = Inr []"
| "collect_results (r # rs) = bind_result r (\<lambda>x. bind_result (collect_results rs) (\<lambda>xs. Inr (x # xs)))"

text \<open>A guard clause: \<open>if bad: raise e\<close>.\<close>

definition raise_if :: "bool \<Rightarrow> 'e \<Rightarrow> 'e + unit" where
  "raise_if bad e = (if bad then Inl e else Inr ())"

text \<open>A block of guard clauses in the order of the source: the first that fires raises.\<close>

fun first_raise :: "(bool \<times> 'e) list \<Rightarrow> 'e + unit" where
  "first_raise [] = Inr ()"
| "first_raise ((bad, e) # gs) = (if bad then Inl e else first_raise gs)"

lemma is_ok_simps [simp]: "is_ok (Inr x)" "\<not> is_ok (Inl e)"
  by (simp_all add: is_ok_def)

lemma is_ok_iff: "is_ok r \<longleftrightarrow> (\<exists>x. r = Inr x)"
  by (cases r) simp_all

lemma is_ok_projr: "is_ok r \<Longrightarrow> r = Inr (projr r)"
  by (auto simp: is_ok_iff)

lemma bind_result_Inr_iff:
  "bind_result r f = Inr y \<longleftrightarrow> (\<exists>x. r = Inr x \<and> f x = Inr y)"
  by (cases r) (simp_all add: bind_result_def)

lemma bind_result_simps [simp]:
  "bind_result (Inl e) f = Inl e" "bind_result (Inr x) f = f x"
  by (simp_all add: bind_result_def)

lemma map_sum_Inr_iff: "map_sum f g r = Inr y \<longleftrightarrow> (\<exists>x. r = Inr x \<and> g x = y)"
  by (cases r) auto

lemma collect_results_Inr: "collect_results (map f xs) = Inr ys \<Longrightarrow> map f xs = map Inr ys"
  by (induction xs arbitrary: ys) (auto simp: bind_result_Inr_iff)

lemma collect_results_total: "\<forall>x \<in> set xs. is_ok (f x) \<Longrightarrow> \<exists>ys. collect_results (map f xs) = Inr ys"
  by (induction xs) (auto simp: is_ok_iff bind_result_Inr_iff)

lemma first_raise_ok_iff [simp]:
  "first_raise gs = Inr u \<longleftrightarrow> (\<forall>g \<in> set gs. \<not> fst g)"
  by (induction gs rule: first_raise.induct) auto

lemma is_ok_first_raise [simp]: "is_ok (first_raise gs) \<longleftrightarrow> (\<forall>g \<in> set gs. \<not> fst g)"
  by (simp add: is_ok_iff)

lemma first_raise_Inl_mem: "first_raise gs = Inl e \<Longrightarrow> \<exists>b. (b, e) \<in> set gs \<and> b"
  by (induction gs rule: first_raise.induct) (auto split: if_splits)

text \<open>Reasoning goes through the two equivalences, evaluation through the equations.\<close>

declare first_raise.simps [simp del]

section \<open>Characters and strings\<close>

definition code_point :: "char \<Rightarrow> nat" where
  "code_point c = of_char c"

text \<open>\<open>str.isspace\<close> on the code points below 256.\<close>

definition py_isspace :: "char \<Rightarrow> bool" where
  "py_isspace c =
     (let n = code_point c
      in (9 \<le> n \<and> n \<le> 13) \<or> (28 \<le> n \<and> n \<le> 32) \<or> n = 133 \<or> n = 160)"

definition py_isascii :: "char \<Rightarrow> bool" where
  "py_isascii c = (code_point c < 128)"

definition py_isalpha :: "char \<Rightarrow> bool" where
  "py_isalpha c =
     (let n = code_point c
      in (65 \<le> n \<and> n \<le> 90) \<or> (97 \<le> n \<and> n \<le> 122) \<or> n = 170 \<or> n = 181 \<or> n = 186
         \<or> (192 \<le> n \<and> n \<noteq> 215 \<and> n \<noteq> 247))"

definition py_isdigit_ascii :: "char \<Rightarrow> bool" where
  "py_isdigit_ascii c = (48 \<le> code_point c \<and> code_point c \<le> 57)"

definition py_isalnum :: "char \<Rightarrow> bool" where
  "py_isalnum c =
     (let n = code_point c
      in py_isalpha c \<or> py_isdigit_ascii c \<or> n = 178 \<or> n = 179 \<or> n = 185
         \<or> (188 \<le> n \<and> n \<le> 190))"

definition py_isupper_char :: "char \<Rightarrow> bool" where
  "py_isupper_char c =
     (let n = code_point c in (65 \<le> n \<and> n \<le> 90) \<or> (192 \<le> n \<and> n \<le> 222 \<and> n \<noteq> 215))"

text \<open>
  \<open>str.casefold\<close>: the letters of the range fold to their lower case, the sharp s to two
  letters.  The micro sign, whose fold lies outside the range, is kept.
\<close>

definition casefold_char :: "char \<Rightarrow> string" where
  "casefold_char c =
     (if py_isupper_char c then [char_of (code_point c + 32)]
      else if code_point c = 223 then ''ss'' else [c])"

definition casefold :: "string \<Rightarrow> string" where
  "casefold s = concat (map casefold_char s)"

text \<open>\<open>str.lower\<close>.\<close>

definition py_lower :: "string \<Rightarrow> string" where
  "py_lower s = map (\<lambda>c. if py_isupper_char c then char_of (code_point c + 32) else c) s"

definition lstrip :: "string \<Rightarrow> string" where
  "lstrip s = dropWhile py_isspace s"

definition strip :: "string \<Rightarrow> string" where
  "strip s = rev (lstrip (rev (lstrip s)))"

text \<open>The idiom \<open>not value.strip()\<close>.\<close>

definition blank :: "string \<Rightarrow> bool" where
  "blank s = (strip s = [])"

lemma lstrip_Nil_iff: "lstrip s = [] \<longleftrightarrow> (\<forall>c \<in> set s. py_isspace c)"
  by (simp add: lstrip_def dropWhile_eq_Nil_conv)

lemma lstrip_Nil [simp]: "lstrip [] = []"
  by (simp add: lstrip_def)

lemma set_lstrip: "set (lstrip s) \<subseteq> set s"
  by (auto simp: lstrip_def dest: set_dropWhileD)

lemma lstrip_hd: "lstrip s \<noteq> [] \<Longrightarrow> \<not> py_isspace (hd (lstrip s))"
  unfolding lstrip_def by (rule hd_dropWhile) (auto simp: dropWhile_eq_Nil_conv)

lemma blank_iff: "blank s \<longleftrightarrow> (\<forall>c \<in> set s. py_isspace c)"
proof (cases "lstrip s = []")
  case True
  then show ?thesis by (simp add: blank_def strip_def) (simp add: lstrip_Nil_iff)
next
  case False
  then have "hd (lstrip s) \<in> set (lstrip s)" "\<not> py_isspace (hd (lstrip s))"
    using lstrip_hd by simp_all
  moreover from this have "\<not> (\<forall>c \<in> set s. py_isspace c)" using set_lstrip by blast
  ultimately show ?thesis
    by (metis blank_def strip_def lstrip_Nil_iff rev_is_Nil_conv set_rev)
qed

lemma blank_Nil [simp]: "blank []"
  by (simp add: blank_iff)

lemma not_blank_strip: "\<not> blank s \<Longrightarrow> \<not> blank (strip s)"
proof -
  assume nb: "\<not> blank s"
  then have ne: "strip s \<noteq> []" by (simp add: blank_def)
  have "lstrip (rev (lstrip s)) \<noteq> []" using ne by (simp add: strip_def)
  then have "\<not> py_isspace (hd (lstrip (rev (lstrip s))))" by (rule lstrip_hd)
  moreover have "hd (lstrip (rev (lstrip s))) \<in> set (strip s)"
    using ne by (simp add: strip_def)
  ultimately show ?thesis by (auto simp: blank_iff)
qed

text \<open>\<open>str.join\<close> and \<open>len(xs) != len(set(xs))\<close>.\<close>

fun py_join :: "string \<Rightarrow> string list \<Rightarrow> string" where
  "py_join sep [] = []"
| "py_join sep [x] = x"
| "py_join sep (x # xs) = x @ sep @ py_join sep xs"

definition has_duplicates :: "'a list \<Rightarrow> bool" where
  "has_duplicates xs = (length xs \<noteq> card (set xs))"

lemma has_duplicates_iff [simp]: "has_duplicates xs \<longleftrightarrow> \<not> distinct xs"
  by (metis has_duplicates_def card_distinct distinct_card)

text \<open>\<open>sorted(set(xs))\<close> on strings (code point order).\<close>

definition sorted_set :: "'a::linorder list \<Rightarrow> 'a list" where
  "sorted_set xs = sort (remdups xs)"

lemma sorted_set_props [simp]:
  "set (sorted_set xs) = set xs" "distinct (sorted_set xs)" "sorted (sorted_set xs)"
  by (simp_all add: sorted_set_def)

text \<open>\<open>dict.fromkeys(xs)\<close>: the first occurrences, in order.\<close>

fun dedupe :: "'a list \<Rightarrow> 'a list" where
  "dedupe [] = []"
| "dedupe (x # xs) = x # filter (\<lambda>y. y \<noteq> x) (dedupe xs)"

lemma set_dedupe [simp]: "set (dedupe xs) = set xs"
  by (induction xs) auto

lemma distinct_dedupe [simp]: "distinct (dedupe xs)"
  by (induction xs) auto

text \<open>
  \<open>value.rsplit(".", 1)\<close>: the part after the last dot (\<open>[-1]\<close>) and the part before it
  (\<open>[0]\<close>), which are both the whole string when there is no dot.
\<close>

definition rsplit_last :: "string \<Rightarrow> string" where
  "rsplit_last s = rev (takeWhile (\<lambda>c. c \<noteq> CHR ''.'') (rev s))"

definition rsplit_first :: "string \<Rightarrow> string" where
  "rsplit_first s =
     (if CHR ''.'' \<in> set s then rev (tl (dropWhile (\<lambda>c. c \<noteq> CHR ''.'') (rev s))) else s)"

lemma takeWhile_until: "c \<notin> set n \<Longrightarrow> takeWhile (\<lambda>d. d \<noteq> c) (n @ c # p) = n"
  by (induction n) auto

lemma dropWhile_until: "c \<notin> set n \<Longrightarrow> dropWhile (\<lambda>d. d \<noteq> c) (n @ c # p) = c # p"
  by (induction n) auto

lemma rsplit_last_append: "CHR ''.'' \<notin> set n \<Longrightarrow> rsplit_last (p @ ''.'' @ n) = n"
  by (simp add: rsplit_last_def takeWhile_until)

lemma rsplit_first_append: "CHR ''.'' \<notin> set n \<Longrightarrow> rsplit_first (p @ ''.'' @ n) = p"
  by (simp add: rsplit_first_def dropWhile_until)

section \<open>Decimal text\<close>

text \<open>\<open>str(n)\<close> of an integer.\<close>

definition digit_char :: "nat \<Rightarrow> char" where
  "digit_char d = char_of (48 + d)"

fun show_nat :: "nat \<Rightarrow> string" where
  "show_nat n = (if n < 10 then [digit_char n] else show_nat (n div 10) @ [digit_char (n mod 10)])"

declare show_nat.simps [simp del]

definition show_int :: "int \<Rightarrow> string" where
  "show_int i = (if i < 0 then CHR ''-'' # show_nat (nat (- i)) else show_nat (nat i))"

lemma show_nat_nonempty [simp]: "show_nat n \<noteq> []"
  by (subst show_nat.simps) simp

lemma digit_char_inj: "a < 10 \<Longrightarrow> b < 10 \<Longrightarrow> digit_char a = digit_char b \<Longrightarrow> a = b"
proof -
  assume "a < 10" "b < 10" "digit_char a = digit_char b"
  then have "of_char (digit_char a) = (of_char (digit_char b) :: nat)" by simp
  then show "a = b" using \<open>a < 10\<close> \<open>b < 10\<close> by (simp add: digit_char_def)
qed

lemma show_nat_digits: "c \<in> set (show_nat n) \<Longrightarrow> py_isdigit_ascii c"
proof (induction n rule: show_nat.induct)
  case (1 n)
  have dig: "py_isdigit_ascii (digit_char d)" if "d < 10" for d
    using that by (simp add: py_isdigit_ascii_def digit_char_def code_point_def)
  show ?case
  proof (cases "n < 10")
    case True
    then show ?thesis using "1.prems" dig by (subst (asm) show_nat.simps) auto
  next
    case False
    then have "c \<in> set (show_nat (n div 10)) \<or> c = digit_char (n mod 10)"
      using "1.prems" by (subst (asm) show_nat.simps) auto
    then show ?thesis using "1.IH"[OF False] dig by auto
  qed
qed

lemma show_nat_inj: "show_nat m = show_nat n \<Longrightarrow> m = n"
proof (induction m arbitrary: n rule: show_nat.induct)
  case (1 m)
  have len: "length (show_nat k) = 1 \<longleftrightarrow> k < 10" for k
    by (subst show_nat.simps) (auto simp: Suc_le_eq)
  have same: "m < 10 \<longleftrightarrow> n < 10" using "1.prems" len by metis
  show ?case
  proof (cases "m < 10")
    case True
    then have "[digit_char m] = [digit_char n]"
      using "1.prems" same by (simp add: show_nat.simps[of m] show_nat.simps[of n])
    then show ?thesis using True same by (auto intro: digit_char_inj)
  next
    case False
    then have eq: "show_nat (m div 10) @ [digit_char (m mod 10)]
        = show_nat (n div 10) @ [digit_char (n mod 10)]"
      using "1.prems" same by (simp add: show_nat.simps[of m] show_nat.simps[of n])
    then have "m div 10 = n div 10" using "1.IH"[OF False] by simp
    moreover have "m mod 10 = n mod 10" using eq by (intro digit_char_inj) simp_all
    ultimately show ?thesis by (metis div_mult_mod_eq)
  qed
qed

lemma show_int_inj: "show_int a = show_int b \<Longrightarrow> a = b"
proof -
  assume eq: "show_int a = show_int b"
  have hd: "hd (show_nat n) \<noteq> CHR ''-''" for n
    using show_nat_digits[of "hd (show_nat n)" n]
    by (auto simp: py_isdigit_ascii_def code_point_def)
  show "a = b"
    using eq hd show_nat_inj
    by (fastforce simp: show_int_def split: if_splits dest: arg_cong[where f = hd])
qed

section \<open>Safe identifiers and digests\<close>

text \<open>\<open>_valid_identifier\<close> of the domain model: a letter or underscore, then ASCII word characters.\<close>

definition valid_identifier :: "string \<Rightarrow> bool" where
  "valid_identifier v =
     (v \<noteq> [] \<and> (py_isalpha (hd v) \<or> hd v = CHR ''_'')
      \<and> (\<forall>c \<in> set v. py_isascii c \<and> (py_isalnum c \<or> c = CHR ''_''))
      \<and> length v \<le> 63)"

definition valid_currency :: "string \<Rightarrow> bool" where
  "valid_currency v =
     (length v = 3 \<and> (\<forall>c \<in> set v. py_isascii c \<and> py_isalpha c)
      \<and> (\<forall>c \<in> set v. py_isalpha c \<longrightarrow> py_isupper_char c))"

definition lower_hex :: "char \<Rightarrow> bool" where
  "lower_hex c = (c \<in> set ''0123456789abcdef'')"

definition sha256_digest :: "string \<Rightarrow> bool" where
  "sha256_digest v = (length v = 64 \<and> (\<forall>c \<in> set v. lower_hex c))"

lemma valid_identifier_nonblank: "valid_identifier v \<Longrightarrow> \<not> blank v"
proof -
  assume v: "valid_identifier v"
  then have hv: "hd v \<in> set v" by (simp add: valid_identifier_def)
  have "\<not> py_isspace (hd v)"
    using v by (auto simp: valid_identifier_def py_isalpha_def py_isspace_def Let_def code_point_def)
  with hv show ?thesis by (auto simp: blank_iff)
qed

section \<open>Floats and time\<close>

text \<open>A Python \<open>float\<close>: a finite value, an infinity or not-a-number, with IEEE comparisons.\<close>

datatype pyfloat = PFin rat | PInf | PNegInf | PNaN

fun pf_less :: "pyfloat \<Rightarrow> pyfloat \<Rightarrow> bool" where
  "pf_less PNaN _ = False"
| "pf_less _ PNaN = False"
| "pf_less (PFin a) (PFin b) = (a < b)"
| "pf_less (PFin _) PInf = True"
| "pf_less (PFin _) PNegInf = False"
| "pf_less PInf _ = False"
| "pf_less PNegInf PNegInf = False"
| "pf_less PNegInf _ = True"

definition pf_le :: "pyfloat \<Rightarrow> pyfloat \<Rightarrow> bool" where
  "pf_le a b = (pf_less a b \<or> (a = b \<and> a \<noteq> PNaN))"

lemma not_pf_less_le: "\<not> pf_less b a \<Longrightarrow> a \<noteq> PNaN \<Longrightarrow> b \<noteq> PNaN \<Longrightarrow> pf_le a b"
  by (cases a; cases b) (auto simp: pf_le_def)

type_synonym timestamp = int

definition seconds :: "int \<Rightarrow> int" where
  "seconds n = n * 1000000"

lemma seconds_mono [simp]: "seconds a \<le> seconds b \<longleftrightarrow> a \<le> b" "seconds a < seconds b \<longleftrightarrow> a < b"
  by (simp_all add: seconds_def)

lemma seconds_pos [simp]: "0 < seconds n \<longleftrightarrow> 0 < n"
  by (simp add: seconds_def)

end
