(* ===== verification/Domain_Model.thy ===== *)
theory Domain_Model
  imports Prelude
begin

text \<open>
  The domain model of \<open>packages/domain/sqlverity_domain/models.py\<close>: its enumerations, the
  frozen dataclasses the modelled components exchange, and their \<open>__post_init__\<close> checks.
  A dataclass is a record, its \<open>__post_init__\<close> a function that returns the first check
  that raises; each constructor of an error type stands for one \<open>raise\<close> of the source.
\<close>

section \<open>Enumerations\<close>

datatype data_source_type =
  DIRECT_DB | LIMITED_SCHEMA | VIEW_SOURCE | AUTHORIZED_QUERY | DDL_IMPORT
  | MANUAL_SCHEMA | METADATA_FILE | HYBRID

datatype data_source_capability = INTROSPECT | PREVIEW | EXECUTE_READ_ONLY | EXPLAIN | CANCEL

datatype query_parameter_type =
  STRING_TYPE | INTEGER_TYPE | NUMBER_TYPE | BOOLEAN_TYPE | DATE_TYPE | DATETIME_TYPE | UUID_TYPE

datatype epistemic_status = CONFIRMED | IMPORTED | INFERRED | CONFLICTING | UNKNOWN

datatype classification = PUBLIC | INTERNAL | CONFIDENTIAL | PII | HIGHLY_SENSITIVE

datatype object_kind = SCHEMA_KIND | TABLE_KIND | VIEW_KIND | VIRTUAL_QUERY_KIND

datatype query_request_state =
  RECEIVED | CONTEXT_BUILDING | NEEDS_CLARIFICATION | LLM_GENERATING | GENERATED | VALIDATING
  | REJECTED | READY_FOR_PREVIEW | APPROVED | EXECUTING | SUCCEEDED | RESULT_PROCESSING
  | COMPLETED | FAILED_LLM | FAILED_VALIDATION | FAILED_EXECUTION | CANCELLED | POLICY_BLOCKED

text \<open>
  The rank table \<open>_CLASSIFICATION_RANK\<close>, which \<open>processor.py\<close>, \<open>policy.py\<close> and
  \<open>classification.py\<close> repeat.  It makes the classifications a linear order.
\<close>

fun classification_rank :: "classification \<Rightarrow> nat" where
  "classification_rank PUBLIC = 0"
| "classification_rank INTERNAL = 1"
| "classification_rank CONFIDENTIAL = 2"
| "classification_rank PII = 3"
| "classification_rank HIGHLY_SENSITIVE = 4"

lemma classification_rank_inj: "classification_rank a = classification_rank b \<Longrightarrow> a = b"
  by (cases a; cases b) simp_all

instantiation classification :: linorder
begin

definition less_eq_classification :: "classification \<Rightarrow> classification \<Rightarrow> bool" where
  "less_eq_classification a b = (classification_rank a \<le> classification_rank b)"

definition less_classification :: "classification \<Rightarrow> classification \<Rightarrow> bool" where
  "less_classification a b = (classification_rank a < classification_rank b)"

instance
  by standard
    (auto simp: less_eq_classification_def less_classification_def dest: classification_rank_inj)

end

lemma classification_le_iff: "a \<le> b \<longleftrightarrow> classification_rank a \<le> classification_rank b"
  by (simp add: less_eq_classification_def)

lemma classification_less_iff: "a < b \<longleftrightarrow> classification_rank a < classification_rank b"
  by (simp add: less_classification_def)

lemma classification_bounds [simp]: "PUBLIC \<le> c" "c \<le> HIGHLY_SENSITIVE"
  by (cases c; simp add: less_eq_classification_def)+

text \<open>Iteration over the \<open>Classification\<close> enumeration is in declaration order.\<close>

definition all_classifications :: "classification list" where
  "all_classifications = [PUBLIC, INTERNAL, CONFIDENTIAL, PII, HIGHLY_SENSITIVE]"

lemma set_all_classifications [simp]: "set all_classifications = UNIV"
proof -
  have "c \<in> set all_classifications" for c
    by (cases c) (simp_all add: all_classifications_def)
  then show ?thesis by auto
qed

fun classification_value :: "classification \<Rightarrow> string" where
  "classification_value PUBLIC = ''public''"
| "classification_value INTERNAL = ''internal''"
| "classification_value CONFIDENTIAL = ''confidential''"
| "classification_value PII = ''pii''"
| "classification_value HIGHLY_SENSITIVE = ''highly_sensitive''"

text \<open>\<open>Classification(value)\<close>, which raises \<open>ValueError\<close> (here \<open>None\<close>) for other strings.\<close>

definition parse_classification :: "string \<Rightarrow> classification option" where
  "parse_classification v =
     List.find (\<lambda>c. classification_value c = v) all_classifications"

lemma classification_value_inj: "classification_value a = classification_value b \<Longrightarrow> a = b"
  by (cases a; cases b) simp_all

lemma parse_classification_value [simp]: "parse_classification (classification_value c) = Some c"
  by (cases c) (simp_all add: parse_classification_def all_classifications_def)

lemma parse_classification_Some:
  "parse_classification v = Some c \<Longrightarrow> classification_value c = v"
  by (auto simp: parse_classification_def find_Some_iff)

section \<open>Catalog entities\<close>

record query_parameter_definition =
  qpd_name :: string
  qpd_value_type :: query_parameter_type
  qpd_nullable :: bool

definition query_parameter_definition_ok :: "query_parameter_definition \<Rightarrow> bool" where
  "query_parameter_definition_ok d = valid_identifier (qpd_name d)"

record output_column_lineage =
  ocl_output_name :: string
  ocl_source_columns :: "string list"

datatype lineage_error = LIN_NoName | LIN_BlankSource | LIN_DuplicateSource

definition output_column_lineage_post_init :: "output_column_lineage \<Rightarrow> lineage_error + unit" where
  "output_column_lineage_post_init l = first_raise
     [(blank (ocl_output_name l), LIN_NoName),
      (\<exists>v \<in> set (ocl_source_columns l). blank v, LIN_BlankSource),
      (has_duplicates (ocl_source_columns l), LIN_DuplicateSource)]"

record data_source =
  ds_tenant_id :: string
  ds_name :: string
  ds_source_type :: data_source_type
  ds_dialect :: string
  ds_capabilities :: "data_source_capability list"
  ds_connection_secret_ref :: "string option"
  ds_id :: string
  ds_created_at :: timestamp

datatype data_source_error = DS_MissingFields | DS_BlankSecretRef | DS_AuthorizedIntrospection

definition data_source_post_init :: "data_source \<Rightarrow> data_source_error + unit" where
  "data_source_post_init d = first_raise
     [(ds_tenant_id d = [] \<or> blank (ds_name d) \<or> blank (ds_dialect d), DS_MissingFields),
      (\<exists>r \<in> set_option (ds_connection_secret_ref d). blank r, DS_BlankSecretRef),
      (ds_source_type d = AUTHORIZED_QUERY \<and> INTROSPECT \<in> set (ds_capabilities d),
       DS_AuthorizedIntrospection)]"

record catalog_version =
  cv_tenant_id :: string
  cv_data_source_id :: string
  cv_version :: int
  cv_id :: string
  cv_created_at :: timestamp

record schema_object =
  so_tenant_id :: string
  so_data_source_id :: string
  so_catalog_version_id :: string
  so_schema_name :: string
  so_name :: string
  so_kind :: object_kind
  so_definition_sql :: "string option"
  so_id :: string

text \<open>The property \<open>SchemaObject.reference\<close>.\<close>

definition so_reference :: "schema_object \<Rightarrow> string" where
  "so_reference so = so_schema_name so @ ''.'' @ so_name so"

record column_definition =
  cd_tenant_id :: string
  cd_schema_object_id :: string
  cd_name :: string
  cd_physical_type :: string
  cd_ordinal :: int
  cd_nullable :: bool
  cd_classification :: classification
  cd_default_expression :: "string option"
  cd_is_primary_key :: bool
  cd_id :: string

section \<open>Execution cost policies\<close>

record execution_cost_policy =
  ecp_tenant_id :: string
  ecp_data_source_id :: string
  ecp_max_total_cost :: "pyfloat option"
  ecp_max_estimated_rows :: "int option"
  ecp_require_explain :: bool
  ecp_revision :: int
  ecp_id :: string
  ecp_updated_at :: timestamp

datatype cost_policy_error =
  ECP_MissingScope | ECP_NoThreshold | ECP_CostNotPositive | ECP_RowsNotPositive

definition execution_cost_policy_post_init :: "execution_cost_policy \<Rightarrow> cost_policy_error + unit" where
  "execution_cost_policy_post_init p = first_raise
     [(ecp_tenant_id p = [] \<or> ecp_data_source_id p = [], ECP_MissingScope),
      (ecp_max_total_cost p = None \<and> ecp_max_estimated_rows p = None, ECP_NoThreshold),
      (\<exists>c \<in> set_option (ecp_max_total_cost p). pf_le c (PFin 0), ECP_CostNotPositive),
      (\<exists>n \<in> set_option (ecp_max_estimated_rows p). n < 1, ECP_RowsNotPositive)]"

section \<open>LLM usage events\<close>

record llm_usage_event =
  lue_tenant_id :: string
  lue_provider_id :: string
  lue_model_id :: string
  lue_purpose :: string
  lue_estimated_input_tokens :: int
  lue_estimated_output_tokens :: int
  lue_input_tokens :: int
  lue_output_tokens :: int
  lue_latency_ms :: int
  lue_cached_input_tokens :: int
  lue_estimated_cost :: "string option"
  lue_actual_cost :: "string option"
  lue_currency :: "string option"
  lue_pricing_id :: "string option"
  lue_id :: string
  lue_created_at :: timestamp

datatype usage_error = LUE_MissingFields | LUE_NegativeCounter | LUE_CachedExceedsInput | LUE_BadCurrency

definition llm_usage_event_post_init :: "llm_usage_event \<Rightarrow> usage_error + unit" where
  "llm_usage_event_post_init e = first_raise
     [(blank (lue_tenant_id e) \<or> blank (lue_provider_id e) \<or> blank (lue_model_id e)
         \<or> blank (lue_purpose e), LUE_MissingFields),
      (\<exists>n \<in> set [lue_estimated_input_tokens e, lue_estimated_output_tokens e,
                  lue_input_tokens e, lue_output_tokens e, lue_cached_input_tokens e,
                  lue_latency_ms e]. n < 0, LUE_NegativeCounter),
      (lue_cached_input_tokens e > lue_input_tokens e, LUE_CachedExceedsInput),
      (\<exists>c \<in> set_option (lue_currency e). \<not> valid_currency c, LUE_BadCurrency)]"

end
