(* ===== verification/Query_Request.thy ===== *)
theory Query_Request
  imports Domain_Model
begin

text \<open>
  The \<open>QueryRequest\<close> dataclass with its invariant, and the request life cycle of
  \<open>packages/domain/sqlverity_domain/query_state.py\<close>.
\<close>

section \<open>The request\<close>

record query_request =
  qr_tenant_id :: string
  qr_data_source_id :: string
  qr_catalog_version_id :: string
  qr_sql_text :: string
  qr_normalized_sql :: "string option"
  qr_referenced_tables :: "string list"
  qr_referenced_columns :: "string list"
  qr_validation_issue_codes :: "string list"
  qr_state :: query_request_state
  qr_business_concepts :: "string list"
  qr_metrics :: "string list"
  qr_business_rules :: "string list"
  qr_assumptions :: "string list"
  qr_provider_id :: "string option"
  qr_model_id :: "string option"
  qr_llm_usage_event_id :: "string option"
  qr_estimated_db_cost :: "pyfloat option"
  qr_estimated_db_rows :: "int option"
  qr_explained_at :: "timestamp option"
  qr_explain_revision :: int
  qr_explained_sql_hash :: "string option"
  qr_approved_explain_revision :: "int option"
  qr_approved_cost_policy_revision :: "int option"
  qr_approved_sql_hash :: "string option"
  qr_approved_parameter_value_hash :: "string option"
  qr_parameter_definitions :: "query_parameter_definition list"
  qr_parameter_names :: "string list"
  qr_parameter_value_hash :: "string option"
  qr_output_lineage :: "output_column_lineage list"
  qr_output_lineage_complete :: bool
  qr_id :: string
  qr_approved_by :: "string option"
  qr_approved_at :: "timestamp option"
  qr_created_at :: timestamp
  qr_updated_at :: timestamp

datatype query_request_error =
  QR_MissingScope | QR_NoNormalizedSql | QR_BlankApprover | QR_ApprovalHalfRecorded
  | QR_ModelHalfRecorded | QR_BlankModel | QR_UsageWithoutModel | QR_BlankSemantics
  | QR_NegativeCost | QR_NegativeRows | QR_BadParameterName | QR_DuplicateParameterName
  | QR_DuplicateDefinition | QR_DefinitionMismatch | QR_DuplicateLineage | QR_BadParameterHash

text \<open>The states of a request whose SQL may run or has run.\<close>

definition executable_states :: "query_request_state list" where
  "executable_states =
     [READY_FOR_PREVIEW, APPROVED, EXECUTING, SUCCEEDED, RESULT_PROCESSING, COMPLETED]"

definition query_request_post_init :: "query_request \<Rightarrow> query_request_error + unit" where
  "query_request_post_init q =
     (let names = map casefold (qr_parameter_names q);
          definition_names = map (casefold \<circ> qpd_name) (qr_parameter_definitions q);
          semantic_values = qr_business_concepts q @ qr_metrics q @ qr_business_rules q
                              @ qr_assumptions q
      in first_raise
       [(qr_tenant_id q = [] \<or> qr_data_source_id q = [] \<or> qr_catalog_version_id q = [],
         QR_MissingScope),
        (qr_state q \<in> set executable_states \<and> qr_normalized_sql q \<in> {None, Some []},
         QR_NoNormalizedSql),
        (\<exists>a \<in> set_option (qr_approved_by q). blank a, QR_BlankApprover),
        ((qr_approved_by q = None) \<noteq> (qr_approved_at q = None), QR_ApprovalHalfRecorded),
        ((qr_provider_id q = None) \<noteq> (qr_model_id q = None), QR_ModelHalfRecorded),
        (\<exists>p \<in> set_option (qr_provider_id q).
           blank p \<or> qr_model_id q = None \<or> (\<exists>m \<in> set_option (qr_model_id q). blank m),
         QR_BlankModel),
        (\<exists>u \<in> set_option (qr_llm_usage_event_id q). blank u \<or> qr_provider_id q = None,
         QR_UsageWithoutModel),
        (\<exists>v \<in> set semantic_values. blank v, QR_BlankSemantics),
        (\<exists>c \<in> set_option (qr_estimated_db_cost q). pf_less c (PFin 0), QR_NegativeCost),
        (\<exists>n \<in> set_option (qr_estimated_db_rows q). n < 0, QR_NegativeRows),
        (\<exists>n \<in> set (qr_parameter_names q). \<not> valid_identifier n, QR_BadParameterName),
        (has_duplicates names, QR_DuplicateParameterName),
        (has_duplicates definition_names, QR_DuplicateDefinition),
        (qr_parameter_definitions q \<noteq> [] \<and> set definition_names \<noteq> set names,
         QR_DefinitionMismatch),
        (has_duplicates (map ocl_output_name (qr_output_lineage q)), QR_DuplicateLineage),
        (\<exists>h \<in> set_option (qr_parameter_value_hash q). \<not> sha256_digest h,
         QR_BadParameterHash)])"

definition query_request_ok :: "query_request \<Rightarrow> bool" where
  "query_request_ok q = is_ok (query_request_post_init q)"

lemma query_request_ok_approval_pair:
  "query_request_ok q \<Longrightarrow> (qr_approved_by q = None) = (qr_approved_at q = None)"
  by (auto simp: query_request_ok_def query_request_post_init_def Let_def)

lemma query_request_ok_normalized:
  "query_request_ok q \<Longrightarrow> qr_state q \<in> set executable_states
     \<Longrightarrow> \<exists>sql. qr_normalized_sql q = Some sql \<and> sql \<noteq> []"
  by (cases "qr_normalized_sql q")
    (auto simp: query_request_ok_def query_request_post_init_def Let_def)

text \<open>
  The checks read the approval and the state only through three of the guards, so an update
  of those fields keeps a request well formed when it keeps these guards quiet.
\<close>

lemma query_request_ok_approval_update:
  assumes "query_request_ok q"
    and "st \<in> set executable_states \<longrightarrow> qr_normalized_sql q \<notin> {None, Some []}"
    and "\<forall>a \<in> set_option by. \<not> blank a"
    and "(by = None) = (when = None)"
  shows "query_request_ok
    (q\<lparr>qr_state := st, qr_approved_by := by, qr_approved_at := when, qr_updated_at := u,
       qr_approved_explain_revision := r, qr_approved_sql_hash := h,
       qr_approved_parameter_value_hash := ph, qr_approved_cost_policy_revision := pr\<rparr>)"
  using assms
  by (simp add: query_request_ok_def query_request_post_init_def Let_def)
    (cases "qr_model_id q"; cases "qr_llm_usage_event_id q"; cases "qr_provider_id q"; simp)

section \<open>The life cycle\<close>

text \<open>The table \<open>_ALLOWED_TRANSITIONS\<close>; a state without an entry has no successors.\<close>

fun allowed_transitions :: "query_request_state \<Rightarrow> query_request_state list" where
  "allowed_transitions RECEIVED = [CONTEXT_BUILDING, CANCELLED, POLICY_BLOCKED]"
| "allowed_transitions CONTEXT_BUILDING =
     [NEEDS_CLARIFICATION, LLM_GENERATING, POLICY_BLOCKED, CANCELLED]"
| "allowed_transitions NEEDS_CLARIFICATION = [CONTEXT_BUILDING, CANCELLED]"
| "allowed_transitions LLM_GENERATING = [GENERATED, FAILED_LLM, CANCELLED]"
| "allowed_transitions GENERATED = [VALIDATING]"
| "allowed_transitions VALIDATING =
     [REJECTED, READY_FOR_PREVIEW, FAILED_VALIDATION, POLICY_BLOCKED]"
| "allowed_transitions READY_FOR_PREVIEW = [APPROVED, CANCELLED]"
| "allowed_transitions APPROVED = [EXECUTING, CANCELLED, READY_FOR_PREVIEW]"
| "allowed_transitions EXECUTING = [SUCCEEDED, FAILED_EXECUTION, CANCELLED]"
| "allowed_transitions SUCCEEDED = [RESULT_PROCESSING]"
| "allowed_transitions RESULT_PROCESSING = [COMPLETED, FAILED_EXECUTION]"
| "allowed_transitions _ = []"

record query_lifecycle =
  ql_request_id :: string
  ql_state :: query_request_state

datatype lifecycle_error = InvalidStateTransition query_request_state query_request_state

definition lifecycle_transition ::
  "query_lifecycle \<Rightarrow> query_request_state \<Rightarrow> lifecycle_error + query_lifecycle" where
  "lifecycle_transition l target =
     (if target \<notin> set (allowed_transitions (ql_state l))
      then Inl (InvalidStateTransition (ql_state l) target)
      else Inr \<lparr>ql_request_id = ql_request_id l, ql_state = target\<rparr>)"

definition terminal_states :: "query_request_state list" where
  "terminal_states =
     [REJECTED, COMPLETED, FAILED_LLM, FAILED_VALIDATION, FAILED_EXECUTION, CANCELLED,
      POLICY_BLOCKED]"

text \<open>The step relation of the life cycle and its runs.\<close>

inductive lifecycle_step :: "query_lifecycle \<Rightarrow> query_lifecycle \<Rightarrow> bool" where
  transition: "lifecycle_transition l target = Inr l' \<Longrightarrow> lifecycle_step l l'"

inductive lifecycle_run :: "query_lifecycle \<Rightarrow> query_lifecycle list \<Rightarrow> query_lifecycle \<Rightarrow> bool" where
  stop: "lifecycle_run l [] l"
| step: "lifecycle_step l l' \<Longrightarrow> lifecycle_run l' ls l'' \<Longrightarrow> lifecycle_run l (l' # ls) l''"

inductive_simps lifecycle_run_Nil [simp]: "lifecycle_run l [] l'"
inductive_simps lifecycle_run_Cons [simp]: "lifecycle_run l (m # ms) l'"

lemma lifecycle_step_iff:
  "lifecycle_step l l' \<longleftrightarrow>
     ql_request_id l' = ql_request_id l \<and> ql_state l' \<in> set (allowed_transitions (ql_state l))"
  by (auto simp: lifecycle_step.simps lifecycle_transition_def split: if_splits)

lemma terminal_iff: "allowed_transitions s = [] \<longleftrightarrow> s \<in> set terminal_states"
  by (cases s) (simp_all add: terminal_states_def)

text \<open>
  Progress measure: every cycle of the graph goes through context building (a
  clarification) or through the preview (a reopened approval).  Between two visits of
  these states a rank grows strictly.
\<close>

fun lifecycle_rank :: "query_request_state \<Rightarrow> nat" where
  "lifecycle_rank RECEIVED = 0"
| "lifecycle_rank CONTEXT_BUILDING = 1"
| "lifecycle_rank NEEDS_CLARIFICATION = 2"
| "lifecycle_rank LLM_GENERATING = 3"
| "lifecycle_rank GENERATED = 4"
| "lifecycle_rank VALIDATING = 5"
| "lifecycle_rank READY_FOR_PREVIEW = 6"
| "lifecycle_rank APPROVED = 7"
| "lifecycle_rank EXECUTING = 8"
| "lifecycle_rank SUCCEEDED = 9"
| "lifecycle_rank RESULT_PROCESSING = 10"
| "lifecycle_rank _ = 11"

definition reopening :: "query_request_state \<Rightarrow> query_request_state \<Rightarrow> bool" where
  "reopening s t = ((s = NEEDS_CLARIFICATION \<and> t = CONTEXT_BUILDING)
                     \<or> (s = APPROVED \<and> t = READY_FOR_PREVIEW))"

lemma allowed_rank_less:
  "t \<in> set (allowed_transitions s) \<Longrightarrow> \<not> reopening s t \<Longrightarrow> lifecycle_rank s < lifecycle_rank t"
  by (cases s) (auto simp: reopening_def)

lemma into_executing: "EXECUTING \<in> set (allowed_transitions s) \<longleftrightarrow> s = APPROVED"
  by (cases s) simp_all

lemma into_approved: "APPROVED \<in> set (allowed_transitions s) \<longleftrightarrow> s = READY_FOR_PREVIEW"
  by (cases s) simp_all

lemma into_completed: "COMPLETED \<in> set (allowed_transitions s) \<longleftrightarrow> s = RESULT_PROCESSING"
  by (cases s) simp_all

lemma into_result_processing: "RESULT_PROCESSING \<in> set (allowed_transitions s) \<longleftrightarrow> s = SUCCEEDED"
  by (cases s) simp_all

lemma into_succeeded: "SUCCEEDED \<in> set (allowed_transitions s) \<longleftrightarrow> s = EXECUTING"
  by (cases s) simp_all

text \<open>
  The visited states of a run, the last state reached from \<open>RECEIVED\<close>, and the chain of
  states that leads into a successful one.
\<close>

definition run_states :: "query_lifecycle \<Rightarrow> query_lifecycle list \<Rightarrow> query_request_state list" where
  "run_states l ls = map ql_state (l # ls)"

lemma lifecycle_run_last: "lifecycle_run l ls l' \<Longrightarrow> l' = last (l # ls)"
  by (induction rule: lifecycle_run.induct) auto

lemma lifecycle_run_id: "lifecycle_run l ls l' \<Longrightarrow> ql_request_id l' = ql_request_id l"
  by (induction rule: lifecycle_run.induct) (auto simp: lifecycle_step_iff)

text \<open>
  The states from which a request can still be executed need an approval on the way: a
  run from an unapproved state into the execution chain visits \<open>APPROVED\<close>.
\<close>

definition execution_chain :: "query_request_state list" where
  "execution_chain = [EXECUTING, SUCCEEDED, RESULT_PROCESSING, COMPLETED]"

lemma chain_entered_from_approved:
  "t \<in> set (allowed_transitions s) \<Longrightarrow> t \<in> set execution_chain
     \<Longrightarrow> s \<in> set (APPROVED # execution_chain)"
  by (cases s) (auto simp: execution_chain_def)

text \<open>
  No request is executed without an approval.  Every run of the life cycle that starts
  outside the execution chain and ends in a state of that chain (executing, succeeded,
  result processing, completed) passes through \<open>APPROVED\<close>.
\<close>

theorem lifecycle_run_approved:
  assumes "lifecycle_run l ls l'" and "ql_state l' \<in> set execution_chain"
    and "ql_state l \<notin> set execution_chain"
  shows "APPROVED \<in> set (run_states l ls)"
  using assms
proof (induction rule: lifecycle_run.induct)
  case (stop l)
  then show ?case by simp
next
  case (step l l' ls l'')
  show ?case
  proof (cases "ql_state l' \<in> set execution_chain")
    case True
    then have "ql_state l \<in> set (APPROVED # execution_chain)"
      using step.hyps(1) by (intro chain_entered_from_approved) (auto simp: lifecycle_step_iff)
    then have "ql_state l = APPROVED" using step.prems by auto
    then show ?thesis by (simp add: run_states_def)
  next
    case False
    then show ?thesis using step.IH step.prems by (auto simp: run_states_def)
  qed
qed

text \<open>The number of reopenings along a run.\<close>

fun reopenings :: "query_request_state list \<Rightarrow> nat" where
  "reopenings (s # t # ss) = (if reopening s t then 1 else 0) + reopenings (t # ss)"
| "reopenings _ = 0"

lemma lifecycle_rank_bound: "lifecycle_rank s \<le> 11"
  by (cases s) simp_all

text \<open>
  C40: the life cycle terminates up to reopenings.  A run takes at most eleven steps plus
  twelve for each time a clarification or a stale approval sends the request back.
\<close>

theorem lifecycle_run_length:
  assumes "lifecycle_run l ls l'"
  shows "length ls + lifecycle_rank (ql_state l)
           \<le> lifecycle_rank (ql_state l') + 12 * reopenings (run_states l ls)"
  using assms
proof (induction rule: lifecycle_run.induct)
  case (stop l)
  then show ?case by simp
next
  case (step l l' ls l'')
  have allowed: "ql_state l' \<in> set (allowed_transitions (ql_state l))"
    using step.hyps(1) by (simp add: lifecycle_step_iff)
  have bound: "lifecycle_rank (ql_state l) \<le> 11" by (rule lifecycle_rank_bound)
  have states: "run_states l (l' # ls) = ql_state l # run_states l' ls"
    "\<exists>ss. run_states l' ls = ql_state l' # ss" by (simp_all add: run_states_def)
  show ?case
  proof (cases "reopening (ql_state l) (ql_state l')")
    case True
    then show ?thesis using step.IH states bound by auto
  next
    case False
    then have "lifecycle_rank (ql_state l) < lifecycle_rank (ql_state l')"
      using allowed by (rule allowed_rank_less[rotated])
    then show ?thesis using step.IH states False by auto
  qed
qed

text \<open>A run from the preview to the end, the concrete input of the two properties.\<close>

definition sample_run :: "query_lifecycle list" where
  "sample_run = map (\<lambda>s. \<lparr>ql_request_id = ''r'', ql_state = s\<rparr>)
     [APPROVED, EXECUTING, SUCCEEDED, RESULT_PROCESSING, COMPLETED]"

lemma sample_run_ok:
  "lifecycle_run \<lparr>ql_request_id = ''r'', ql_state = READY_FOR_PREVIEW\<rparr> sample_run
     \<lparr>ql_request_id = ''r'', ql_state = COMPLETED\<rparr>"
  by (simp add: sample_run_def lifecycle_step_iff)

theorem lifecycle_run_approved_witness:
  "APPROVED \<in> set (run_states \<lparr>ql_request_id = ''r'', ql_state = READY_FOR_PREVIEW\<rparr> sample_run)"
  by (rule lifecycle_run_approved[OF sample_run_ok]) (simp_all add: execution_chain_def)

theorem lifecycle_run_length_witness:
  "length sample_run + lifecycle_rank READY_FOR_PREVIEW
     \<le> lifecycle_rank COMPLETED
        + 12 * reopenings (run_states \<lparr>ql_request_id = ''r'', ql_state = READY_FOR_PREVIEW\<rparr> sample_run)"
  using lifecycle_run_length[OF sample_run_ok] by simp

section \<open>A sample request\<close>

text \<open>A stored request ready for preview, the concrete input of the examples.\<close>

definition sample_request :: query_request where
  "sample_request =
     \<lparr>qr_tenant_id = ''t'', qr_data_source_id = ''d'', qr_catalog_version_id = ''v'',
      qr_sql_text = ''q'', qr_normalized_sql = Some ''q'',
      qr_referenced_tables = [''s.u''], qr_referenced_columns = [''s.u.name'', ''s.u.ssn''],
      qr_validation_issue_codes = [], qr_state = READY_FOR_PREVIEW,
      qr_business_concepts = [], qr_metrics = [], qr_business_rules = [], qr_assumptions = [],
      qr_provider_id = None, qr_model_id = None, qr_llm_usage_event_id = None,
      qr_estimated_db_cost = None, qr_estimated_db_rows = None, qr_explained_at = None,
      qr_explain_revision = 0, qr_explained_sql_hash = None,
      qr_approved_explain_revision = None, qr_approved_cost_policy_revision = None,
      qr_approved_sql_hash = None, qr_approved_parameter_value_hash = None,
      qr_parameter_definitions = [], qr_parameter_names = [], qr_parameter_value_hash = None,
      qr_output_lineage = [], qr_output_lineage_complete = False, qr_id = ''r'',
      qr_approved_by = None, qr_approved_at = None, qr_created_at = 0, qr_updated_at = 0\<rparr>"

lemma sample_request_ok: "query_request_ok sample_request"
  by (simp add: query_request_ok_def query_request_post_init_def sample_request_def
      executable_states_def)

end
