(* ===== verification/Sql_Tables.thy ===== *)
theory Sql_Tables
  imports Prelude "HOL-Library.Product_Lexorder"
begin

text \<open>
  The fragment of SQL the catalog repository issues, on tables that are lists of rows:
  \<open>SELECT ... WHERE\<close> with \<open>fetchone\<close>, \<open>UPDATE ... WHERE\<close> and \<open>DELETE ... WHERE\<close> with
  their \<open>rowcount\<close>, and \<open>INSERT ... ON CONFLICT DO NOTHING\<close>.  The locale \<open>keyed_update\<close>
  states what an update that keeps the primary key guarantees; each component interprets
  it on its own table and update.
\<close>

definition fetch_one :: "('r \<Rightarrow> bool) \<Rightarrow> 'r list \<Rightarrow> 'r option" where
  "fetch_one P rows = List.find P rows"

definition sql_update :: "('r \<Rightarrow> bool) \<Rightarrow> ('r \<Rightarrow> 'r) \<Rightarrow> 'r list \<Rightarrow> 'r list" where
  "sql_update P f rows = map (\<lambda>r. if P r then f r else r) rows"

definition sql_delete :: "('r \<Rightarrow> bool) \<Rightarrow> 'r list \<Rightarrow> 'r list" where
  "sql_delete P rows = filter (\<lambda>r. \<not> P r) rows"

text \<open>The \<open>rowcount\<close> of an update or delete: the rows its condition selects.\<close>

definition row_count :: "('r \<Rightarrow> bool) \<Rightarrow> 'r list \<Rightarrow> nat" where
  "row_count P rows = length (filter P rows)"

definition insert_or_ignore :: "('r \<Rightarrow> bool) \<Rightarrow> 'r \<Rightarrow> 'r list \<Rightarrow> 'r list" where
  "insert_or_ignore conflicts r rows = (if \<exists>x \<in> set rows. conflicts x then rows else rows @ [r])"

text \<open>\<open>UPDATE ... RETURNING *\<close> with \<open>fetchone\<close>, and \<open>SELECT ... ORDER BY key LIMIT 1\<close>.\<close>

definition update_returning :: "('r \<Rightarrow> bool) \<Rightarrow> ('r \<Rightarrow> 'r) \<Rightarrow> 'r list \<Rightarrow> 'r option \<times> 'r list" where
  "update_returning P f rows = (map_option f (fetch_one P rows), sql_update P f rows)"

definition first_by :: "('r \<Rightarrow> 'k::linorder) \<Rightarrow> ('r \<Rightarrow> bool) \<Rightarrow> 'r list \<Rightarrow> 'r option" where
  "first_by key P rows = (case sort_key key (filter P rows) of [] \<Rightarrow> None | r # _ \<Rightarrow> Some r)"

lemma first_by_Some:
  "first_by key P rows = Some r \<Longrightarrow> r \<in> set rows \<and> P r \<and> (\<forall>x \<in> set rows. P x \<longrightarrow> key r \<le> key x)"
proof -
  assume "first_by key P rows = Some r"
  then obtain rs where rs: "sort_key key (filter P rows) = r # rs"
    by (auto simp: first_by_def split: list.splits)
  have set: "set (r # rs) = {x \<in> set rows. P x}" by (metis rs set_sort set_filter)
  have "sorted (map key (r # rs))" by (metis rs sorted_sort_key)
  then have "\<forall>x \<in> set (r # rs). key r \<le> key x" by auto
  then show ?thesis using set by auto
qed

lemma first_by_None: "first_by key P rows = None \<longleftrightarrow> (\<forall>r \<in> set rows. \<not> P r)"
proof -
  have "first_by key P rows = None \<longleftrightarrow> sort_key key (filter P rows) = []"
    by (simp add: first_by_def split: list.splits)
  also have "\<dots> \<longleftrightarrow> filter P rows = []" by (metis length_0_conv length_sort)
  finally show ?thesis by (auto simp: filter_empty_conv)
qed

lemma fetch_one_Some_iff_mem: "fetch_one P rows = Some r \<Longrightarrow> r \<in> set rows \<and> P r"
  by (auto simp: fetch_one_def find_Some_iff)

lemma fetch_one_None_iff: "fetch_one P rows = None \<longleftrightarrow> (\<forall>r \<in> set rows. \<not> P r)"
  by (auto simp: fetch_one_def find_None_iff)

lemma fetch_one_simps [simp]:
  "fetch_one P [] = None"
  "fetch_one P (r # rows) = (if P r then Some r else fetch_one P rows)"
  by (simp_all add: fetch_one_def)

lemma update_returning_Some:
  "update_returning P f rows = (Some r, rows') \<longleftrightarrow>
     (\<exists>r0. fetch_one P rows = Some r0 \<and> r = f r0) \<and> rows' = sql_update P f rows"
  by (auto simp: update_returning_def)

lemma update_returning_None:
  "update_returning P f rows = (None, rows') \<Longrightarrow> (\<forall>r \<in> set rows. \<not> P r) \<and> rows' = rows"
  by (auto simp: update_returning_def fetch_one_None_iff sql_update_def intro: map_idI)

lemma length_sql_update [simp]: "length (sql_update P f rows) = length rows"
  by (simp add: sql_update_def)

lemma set_sql_update: "set (sql_update P f rows) = f ` {r \<in> set rows. P r} \<union> {r \<in> set rows. \<not> P r}"
  by (auto simp: sql_update_def)

lemma sql_update_mem: "r \<in> set (sql_update P f rows) \<Longrightarrow>
    (\<exists>r0 \<in> set rows. P r0 \<and> r = f r0) \<or> (r \<in> set rows \<and> \<not> P r)"
  by (auto simp: set_sql_update)

lemma set_sql_delete [simp]: "set (sql_delete P rows) = {r \<in> set rows. \<not> P r}"
  by (auto simp: sql_delete_def)

lemma row_count_pos: "row_count P rows \<noteq> 0 \<longleftrightarrow> (\<exists>r \<in> set rows. P r)"
  by (auto simp: row_count_def filter_empty_conv)

lemma row_count_delete: "length (sql_delete P rows) + row_count P rows = length rows"
  unfolding sql_delete_def row_count_def using sum_length_filter_compl[of P rows] by linarith

lemma fetch_one_cong:
  "(\<And>r. r \<in> set rows \<Longrightarrow> P r = Q r) \<Longrightarrow> fetch_one P rows = fetch_one Q rows"
  by (induction rows) auto

text \<open>A list of rows is a table with primary key \<open>key\<close> when no key occurs twice.\<close>

definition unique_key :: "('r \<Rightarrow> 'k) \<Rightarrow> 'r list \<Rightarrow> bool" where
  "unique_key key rows = distinct (map key rows)"

lemma unique_key_eq:
  "unique_key key rows \<Longrightarrow> r \<in> set rows \<Longrightarrow> r' \<in> set rows \<Longrightarrow> key r = key r' \<Longrightarrow> r = r'"
  by (auto simp: unique_key_def distinct_map inj_on_def)

lemma unique_key_fetch:
  assumes "unique_key key rows" "r \<in> set rows" "P r" "\<And>x. P x \<Longrightarrow> key x = key r"
  shows "fetch_one P rows = Some r"
proof -
  obtain r' where r': "fetch_one P rows = Some r'"
    using assms(2,3) by (cases "fetch_one P rows") (auto simp: fetch_one_None_iff)
  then have "r' \<in> set rows" "key r' = key r" using assms(4) by (auto dest: fetch_one_Some_iff_mem)
  then show ?thesis using r' unique_key_eq[OF assms(1)] assms(2) by auto
qed

lemma unique_key_row_count:
  assumes "unique_key key rows" "\<And>x. P x \<Longrightarrow> key x = k"
  shows "row_count P rows \<le> 1"
proof (rule ccontr)
  assume "\<not> row_count P rows \<le> 1"
  then have "Suc (Suc 0) \<le> length (filter P rows)" by (simp add: row_count_def)
  then obtain a b xs where ab: "filter P rows = a # b # xs"
    by (auto simp: Suc_le_length_iff)
  have "distinct (map key (filter P rows))"
    using assms(1) by (simp add: unique_key_def distinct_map_filter)
  moreover have "a \<in> set (filter P rows)" "b \<in> set (filter P rows)" using ab by simp_all
  then have "P a" "P b" by simp_all
  then have "key a = k" "key b = k" using assms(2) by auto
  ultimately show False using ab by simp
qed

lemma unique_key_delete: "unique_key key rows \<Longrightarrow> unique_key key (sql_delete P rows)"
  by (simp add: unique_key_def sql_delete_def distinct_map_filter)

lemma unique_key_append:
  "unique_key key rows \<Longrightarrow> \<forall>x \<in> set rows. key x \<noteq> key r \<Longrightarrow> unique_key key (rows @ [r])"
  by (auto simp: unique_key_def)

section \<open>Updates that keep the key\<close>

text \<open>
  The contract of the \<open>UPDATE\<close> statements of the repository: none assigns a primary key.
\<close>

locale keyed_update =
  fixes key :: "'r \<Rightarrow> 'k"
    and upd :: "'a \<Rightarrow> 'r \<Rightarrow> 'r"
  assumes key_upd: "key (upd a r) = key r"
begin

lemma unique_key_sql_update: "unique_key key rows \<Longrightarrow> unique_key key (sql_update P (upd a) rows)"
proof -
  have "map key (sql_update P (upd a) rows) = map key rows"
    by (simp add: sql_update_def key_upd)
  then show "unique_key key rows \<Longrightarrow> ?thesis" by (simp add: unique_key_def)
qed

lemma mem_sql_update_other:
  "r \<in> set rows \<Longrightarrow> \<not> P r \<Longrightarrow> r \<in> set (sql_update P (upd a) rows)"
  by (simp add: set_sql_update)

lemma fetch_after_update:
  assumes "unique_key key rows" "r \<in> set rows" "P r"
    and "\<And>x. Q x \<Longrightarrow> key x = key r" "Q (upd a r)"
  shows "fetch_one Q (sql_update P (upd a) rows) = Some (upd a r)"
proof (rule unique_key_fetch[where key = key])
  show "unique_key key (sql_update P (upd a) rows)" by (rule unique_key_sql_update[OF assms(1)])
  show "upd a r \<in> set (sql_update P (upd a) rows)" using assms(2,3) by (auto simp: set_sql_update)
  show "Q (upd a r)" by fact
  show "key x = key (upd a r)" if "Q x" for x using assms(4)[OF that] by (simp add: key_upd)
qed

lemma fetch_after_update_other:
  assumes "\<And>x. Q x \<Longrightarrow> key x = k" "\<And>x. P x \<Longrightarrow> key x \<noteq> k" "\<And>x. Q (upd a x) \<Longrightarrow> key x = k"
  shows "fetch_one Q (sql_update P (upd a) rows) = fetch_one Q rows"
  using assms by (induction rows) (auto simp: sql_update_def)

end

end
