(* ===== verification/Query_Store.thy ===== *)
theory Query_Store
  imports Query_Request Sql_Tables
begin

text \<open>
  The query tables of the catalog repository
  (\<open>packages/catalog/sqlverity_catalog/repository.py\<close>): requests, EXPLAIN revisions, cost
  policies and the audit trail, with the operations that read and change them.

  A method of the repository reads the current row, checks it, and then runs one
  transaction.  Other API replicas may commit between the read and the transaction: every
  such operation takes a function \<open>mid\<close> that stands for what they commit there (the
  identity for a single process, whose lock covers the whole method).  A transaction that
  raises leaves the store as it found it.
\<close>

section \<open>State\<close>

record explain_result =
  er_plan :: string
  er_estimated_total_cost :: "pyfloat option"
  er_estimated_rows :: "int option"
  er_elapsed_ms :: int
  er_revision :: "int option"

record explain_revision =
  xr_tenant_id :: string
  xr_request_id :: string
  xr_revision :: int
  xr_sql_hash :: string
  xr_parameter_value_hash :: "string option"
  xr_parameter_names :: "string list"
  xr_estimated_db_cost :: "pyfloat option"
  xr_estimated_db_rows :: "int option"
  xr_elapsed_ms :: int
  xr_created_at :: timestamp

record result_metadata =
  rm_row_count :: int
  rm_result_bytes :: int
  rm_elapsed_ms :: int
  rm_truncated :: bool
  rm_truncation_reason :: "string option"
  rm_processing_mode :: string
  rm_maximum_classification :: classification
  rm_masked_column_count :: nat
  rm_raw_rows_sent_to_llm :: bool

datatype audit_details =
    Created_Details string string query_request_state nat nat "string list"
  | Transition_Details query_request_state query_request_state
  | Approval_Details query_request_state query_request_state "string option" "int option"
      "string option" "int option"
  | Explain_Details int string "pyfloat option" "int option" int "string list"
  | Activity_Details result_metadata
  | Policy_Details "pyfloat option" "int option" bool int

record audit_event =
  ae_tenant_id :: string
  ae_event_type :: string
  ae_subject_type :: string
  ae_subject_id :: string
  ae_details :: audit_details

record authorized_query_parameter =
  aqp_name :: string
  aqp_physical_type :: string
  aqp_nullable :: bool

record authorized_query_definition =
  aqd_tenant_id :: string
  aqd_data_source_id :: string
  aqd_catalog_version_id :: string
  aqd_version :: int
  aqd_virtual_schema :: string
  aqd_virtual_name :: string
  aqd_description :: string
  aqd_base_sql :: string
  aqd_normalized_base_sql :: string
  aqd_parameters :: "authorized_query_parameter list"
  aqd_allow_filtering :: bool
  aqd_allow_aggregation :: bool
  aqd_id :: string
  aqd_created_at :: timestamp

record query_store =
  qs_data_sources :: "data_source list"
  qs_catalog_versions :: "catalog_version list"
  qs_schema_objects :: "schema_object list"
  qs_columns :: "column_definition list"
  qs_usage_events :: "llm_usage_event list"
  qs_authorized :: "authorized_query_definition list"
  qs_requests :: "query_request list"
  qs_explains :: "explain_revision list"
  qs_policies :: "execution_cost_policy list"
  qs_audit :: "audit_event list"

datatype store_error =
    RequestNotFound | DataSourceNotInTenant | CatalogVersionNotInTenant | IntegrityError
  | ExplainRevisionChanged | NoLongerReadyForApproval | TransitionRefused lifecycle_error
  | ApprovalNeedsActor | ApprovalNeedsRevision | ApprovalDiffersFromExplain
  | ApprovalNeedsPolicyRevision | ApprovalMetadataMisplaced
  | OnlyStaleApprovalReopens | CostPolicyChanged | RequestChangedConcurrently | ExplainStale
  | InvalidRequest query_request_error | UnsupportedActivity

text \<open>\<open>QueryRequestConflictError\<close> and its subclass \<open>QueryCostPolicyChangedError\<close>.\<close>

fun is_conflict :: "store_error \<Rightarrow> bool" where
  "is_conflict ExplainRevisionChanged = True"
| "is_conflict NoLongerReadyForApproval = True"
| "is_conflict ApprovalDiffersFromExplain = True"
| "is_conflict OnlyStaleApprovalReopens = True"
| "is_conflict CostPolicyChanged = True"
| "is_conflict RequestChangedConcurrently = True"
| "is_conflict ExplainStale = True"
| "is_conflict _ = False"

section \<open>Reads\<close>

definition get_data_source :: "query_store \<Rightarrow> string \<Rightarrow> string \<Rightarrow> data_source option" where
  "get_data_source s t d =
     fetch_one (\<lambda>r. ds_tenant_id r = t \<and> ds_id r = d) (qs_data_sources s)"

definition get_query_request :: "query_store \<Rightarrow> string \<Rightarrow> string \<Rightarrow> query_request option" where
  "get_query_request s t i =
     fetch_one (\<lambda>r. qr_tenant_id r = t \<and> qr_id r = i) (qs_requests s)"

definition get_execution_cost_policy ::
  "query_store \<Rightarrow> string \<Rightarrow> string \<Rightarrow> execution_cost_policy option" where
  "get_execution_cost_policy s t d =
     fetch_one (\<lambda>p. ecp_tenant_id p = t \<and> ecp_data_source_id p = d) (qs_policies s)"

text \<open>\<open>ORDER BY version DESC LIMIT 1\<close>.\<close>

definition get_latest_catalog_version :: "query_store \<Rightarrow> string \<Rightarrow> string \<Rightarrow> catalog_version option" where
  "get_latest_catalog_version s t d =
     (let rows = filter (\<lambda>v. cv_tenant_id v = t \<and> cv_data_source_id v = d) (qs_catalog_versions s)
      in if rows = [] then None else Some (hd (sort_key (\<lambda>v. - cv_version v) rows)))"

definition list_schema_objects :: "query_store \<Rightarrow> string \<Rightarrow> string \<Rightarrow> schema_object list" where
  "list_schema_objects s t v =
     sort_key so_schema_name (sort_key so_name
       (filter (\<lambda>so. so_tenant_id so = t \<and> so_catalog_version_id so = v) (qs_schema_objects s)))"

text \<open>
  The join of \<open>list_columns_for_catalog_version\<close>: the columns of each object of the version
  in the objects' order, by ordinal.
\<close>

definition list_columns_for_catalog_version ::
  "query_store \<Rightarrow> string \<Rightarrow> string \<Rightarrow> column_definition list" where
  "list_columns_for_catalog_version s t v =
     concat (map (\<lambda>so. sort_key cd_ordinal
         (filter (\<lambda>c. cd_tenant_id c = t \<and> cd_schema_object_id c = so_id so) (qs_columns s)))
       (list_schema_objects s t v))"

definition get_llm_usage_event :: "query_store \<Rightarrow> string \<Rightarrow> string \<Rightarrow> llm_usage_event option" where
  "get_llm_usage_event s t e =
     fetch_one (\<lambda>r. lue_tenant_id r = t \<and> lue_id r = e) (qs_usage_events s)"

definition get_authorized_query_definition ::
  "query_store \<Rightarrow> string \<Rightarrow> string \<Rightarrow> string \<Rightarrow> authorized_query_definition option" where
  "get_authorized_query_definition s t d v =
     fetch_one (\<lambda>r. aqd_tenant_id r = t \<and> aqd_data_source_id r = d
                     \<and> aqd_catalog_version_id r = v) (qs_authorized s)"

definition append_audit :: "audit_event \<Rightarrow> query_store \<Rightarrow> query_store" where
  "append_audit e s = s\<lparr>qs_audit := qs_audit s @ [e]\<rparr>"

section \<open>Creating a request\<close>

definition create_query_request ::
  "query_store \<Rightarrow> query_request \<Rightarrow> (store_error + query_request) \<times> query_store" where
  "create_query_request s q =
     (if get_data_source s (qr_tenant_id q) (qr_data_source_id q) = None
      then (Inl DataSourceNotInTenant, s)
      else if \<not> (\<exists>v \<in> set (qs_catalog_versions s).
                   cv_tenant_id v = qr_tenant_id q \<and> cv_id v = qr_catalog_version_id q
                   \<and> cv_data_source_id v = qr_data_source_id q)
      then (Inl CatalogVersionNotInTenant, s)
      else if (\<exists>r \<in> set (qs_requests s). qr_id r = qr_id q)
           \<or> (\<exists>u \<in> set_option (qr_llm_usage_event_id q).
                \<forall>e \<in> set (qs_usage_events s). lue_id e \<noteq> u)
      then (Inl IntegrityError, s)
      else (Inr q,
            append_audit
              \<lparr>ae_tenant_id = qr_tenant_id q, ae_event_type = ''query.request_created'',
               ae_subject_type = ''query_request'', ae_subject_id = qr_id q,
               ae_details = Created_Details (qr_data_source_id q) (qr_catalog_version_id q)
                 (qr_state q) (length (qr_referenced_tables q))
                 (length (qr_referenced_columns q)) (qr_validation_issue_codes q)\<rparr>
              (s\<lparr>qs_requests := qs_requests s @ [q]\<rparr>)))"

section \<open>Transitions\<close>

record transition_args =
  ta_actor_id :: "string option"
  ta_expected_explain_revision :: "int option"
  ta_expected_cost_policy_revision :: "int option"
  ta_approval_sql_hash :: "string option"
  ta_approval_parameter_value_hash :: "string option"

definition no_args :: transition_args where
  "no_args = \<lparr>ta_actor_id = None, ta_expected_explain_revision = None,
     ta_expected_cost_policy_revision = None, ta_approval_sql_hash = None,
     ta_approval_parameter_value_hash = None\<rparr>"

record request_update =
  ru_state :: query_request_state
  ru_approved_by :: "string option"
  ru_approved_at :: "timestamp option"
  ru_updated_at :: timestamp
  ru_explain_revision :: "int option"
  ru_sql_hash :: "string option"
  ru_parameter_value_hash :: "string option"
  ru_cost_policy_revision :: "int option"

text \<open>The columns the \<open>UPDATE query_requests\<close> of a transition sets.\<close>

definition apply_update :: "request_update \<Rightarrow> query_request \<Rightarrow> query_request" where
  "apply_update u q =
     q\<lparr>qr_state := ru_state u, qr_approved_by := ru_approved_by u,
       qr_approved_at := ru_approved_at u, qr_updated_at := ru_updated_at u,
       qr_approved_explain_revision := ru_explain_revision u,
       qr_approved_sql_hash := ru_sql_hash u,
       qr_approved_parameter_value_hash := ru_parameter_value_hash u,
       qr_approved_cost_policy_revision := ru_cost_policy_revision u\<rparr>"

text \<open>
  The checks before the transaction and the values it will write: an approval binds the
  actor, the EXPLAIN revision, the policy revision and both digests; a return to the
  preview clears them; every other transition keeps them.
\<close>

definition prepare_transition ::
  "query_request \<Rightarrow> query_request_state \<Rightarrow> transition_args \<Rightarrow> timestamp \<Rightarrow> timestamp
     \<Rightarrow> store_error + request_update" where
  "prepare_transition current target a approval_time update_time =
     (if ta_expected_explain_revision a \<noteq> None
           \<and> ta_expected_explain_revision a \<noteq> Some (qr_explain_revision current)
      then Inl ExplainRevisionChanged
      else if target = APPROVED \<and> qr_state current \<noteq> READY_FOR_PREVIEW
      then Inl NoLongerReadyForApproval
      else case lifecycle_transition
             \<lparr>ql_request_id = qr_id current, ql_state = qr_state current\<rparr> target of
        Inl e \<Rightarrow> Inl (TransitionRefused e)
      | Inr _ \<Rightarrow>
         if target = APPROVED then
          (case ta_actor_id a of
             None \<Rightarrow> Inl ApprovalNeedsActor
           | Some actor \<Rightarrow>
              if blank actor then Inl ApprovalNeedsActor
              else if ta_expected_explain_revision a = None
                   \<or> ta_approval_sql_hash a \<in> {None, Some []}
              then Inl ApprovalNeedsRevision
              else if qr_explained_at current \<noteq> None
                   \<and> (qr_explained_sql_hash current \<noteq> ta_approval_sql_hash a
                       \<or> qr_parameter_value_hash current \<noteq> ta_approval_parameter_value_hash a)
              then Inl ApprovalDiffersFromExplain
              else if ta_expected_cost_policy_revision a = None
              then Inl ApprovalNeedsPolicyRevision
              else Inr \<lparr>ru_state = target, ru_approved_by = Some (strip actor),
                        ru_approved_at = Some approval_time, ru_updated_at = update_time,
                        ru_explain_revision = Some (qr_explain_revision current),
                        ru_sql_hash = ta_approval_sql_hash a,
                        ru_parameter_value_hash = ta_approval_parameter_value_hash a,
                        ru_cost_policy_revision = ta_expected_cost_policy_revision a\<rparr>)
         else if ta_actor_id a \<noteq> None \<or> ta_approval_sql_hash a \<noteq> None
         then Inl ApprovalMetadataMisplaced
         else if target = READY_FOR_PREVIEW
         then Inr \<lparr>ru_state = target, ru_approved_by = None, ru_approved_at = None,
                   ru_updated_at = update_time, ru_explain_revision = None,
                   ru_sql_hash = None, ru_parameter_value_hash = None,
                   ru_cost_policy_revision = None\<rparr>
         else Inr \<lparr>ru_state = target, ru_approved_by = qr_approved_by current,
                   ru_approved_at = qr_approved_at current, ru_updated_at = update_time,
                   ru_explain_revision = qr_approved_explain_revision current,
                   ru_sql_hash = qr_approved_sql_hash current,
                   ru_parameter_value_hash = qr_approved_parameter_value_hash current,
                   ru_cost_policy_revision = qr_approved_cost_policy_revision current\<rparr>)"

definition policy_revision :: "query_store \<Rightarrow> string \<Rightarrow> string \<Rightarrow> int" where
  "policy_revision s t d =
     (case get_execution_cost_policy s t d of None \<Rightarrow> 0 | Some p \<Rightarrow> ecp_revision p)"

text \<open>The policy check inside the transaction, under the data source's row lock.\<close>

definition check_transition_policy ::
  "query_store \<Rightarrow> query_request \<Rightarrow> query_request_state \<Rightarrow> transition_args \<Rightarrow> store_error + unit" where
  "check_transition_policy s current target a =
     (if target \<in> {APPROVED, EXECUTING}
           \<or> (target = READY_FOR_PREVIEW \<and> qr_state current = APPROVED)
      then let revision = policy_revision s (qr_tenant_id current) (qr_data_source_id current)
           in if target = READY_FOR_PREVIEW
              then if qr_state current \<noteq> APPROVED
                        \<or> qr_approved_cost_policy_revision current = Some revision
                   then Inl OnlyStaleApprovalReopens else Inr ()
              else if ta_expected_cost_policy_revision a \<noteq> Some revision
                        \<or> (target = EXECUTING
                            \<and> qr_approved_cost_policy_revision current \<noteq> Some revision)
              then Inl CostPolicyChanged else Inr ()
      else Inr ())"

text \<open>The \<open>WHERE\<close> clause of the compare-and-set: state and revision as read.\<close>

definition unchanged_since :: "query_request \<Rightarrow> query_request \<Rightarrow> bool" where
  "unchanged_since current r =
     (qr_tenant_id r = qr_tenant_id current \<and> qr_id r = qr_id current
      \<and> qr_state r = qr_state current \<and> qr_explain_revision r = qr_explain_revision current)"

definition transition_audit :: "query_request \<Rightarrow> request_update \<Rightarrow> audit_event" where
  "transition_audit current u =
     \<lparr>ae_tenant_id = qr_tenant_id current, ae_event_type = ''query.state_transitioned'',
      ae_subject_type = ''query_request'', ae_subject_id = qr_id current,
      ae_details =
        (if ru_state u = APPROVED
         then Approval_Details (qr_state current) (ru_state u) (ru_approved_by u)
                (ru_explain_revision u) (ru_sql_hash u) (ru_cost_policy_revision u)
         else Transition_Details (qr_state current) (ru_state u))\<rparr>"

definition commit_transition ::
  "query_store \<Rightarrow> query_request \<Rightarrow> query_request_state \<Rightarrow> transition_args \<Rightarrow> request_update
     \<Rightarrow> (store_error + query_request) \<times> query_store" where
  "commit_transition s current target a u =
     (case check_transition_policy s current target a of
        Inl e \<Rightarrow> (Inl e, s)
      | Inr _ \<Rightarrow>
         if row_count (unchanged_since current) (qs_requests s) \<noteq> 1
         then (Inl RequestChangedConcurrently, s)
         else let s' = append_audit (transition_audit current u)
                    (s\<lparr>qs_requests :=
                         sql_update (unchanged_since current) (apply_update u) (qs_requests s)\<rparr>);
                  result = apply_update u current
              in case query_request_post_init result of
                   Inl e \<Rightarrow> (Inl (InvalidRequest e), s')
                 | Inr _ \<Rightarrow> (Inr result, s'))"

definition transition_query_request ::
  "(query_store \<Rightarrow> query_store) \<Rightarrow> query_store \<Rightarrow> string \<Rightarrow> string \<Rightarrow> query_request_state
     \<Rightarrow> transition_args \<Rightarrow> timestamp \<Rightarrow> timestamp
     \<Rightarrow> (store_error + query_request) \<times> query_store" where
  "transition_query_request mid s t i target a approval_time update_time =
     (case get_query_request s t i of
        None \<Rightarrow> (Inl RequestNotFound, s)
      | Some current \<Rightarrow>
         (case prepare_transition current target a approval_time update_time of
            Inl e \<Rightarrow> (Inl e, s)
          | Inr u \<Rightarrow> commit_transition (mid s) current target a u))"

section \<open>Recording EXPLAIN\<close>

record explain_update =
  xu_cost :: "pyfloat option"
  xu_rows :: "int option"
  xu_time :: timestamp
  xu_names :: "string list"
  xu_parameter_value_hash :: "string option"
  xu_revision :: int
  xu_sql_hash :: string

definition apply_explain :: "explain_update \<Rightarrow> query_request \<Rightarrow> query_request" where
  "apply_explain u q =
     q\<lparr>qr_estimated_db_cost := xu_cost u, qr_estimated_db_rows := xu_rows u,
       qr_explained_at := Some (xu_time u), qr_parameter_names := xu_names u,
       qr_parameter_value_hash := xu_parameter_value_hash u,
       qr_explain_revision := xu_revision u, qr_explained_sql_hash := Some (xu_sql_hash u),
       qr_updated_at := xu_time u\<rparr>"

text \<open>The \<open>CHECK\<close> constraints of \<open>query_requests\<close> on the columns an EXPLAIN sets.\<close>

definition explain_check_violated :: "explain_update \<Rightarrow> bool" where
  "explain_check_violated u =
     ((\<exists>c \<in> set_option (xu_cost u). pf_less c (PFin 0))
      \<or> (\<exists>n \<in> set_option (xu_rows u). n < 0)
      \<or> (\<exists>h \<in> set_option (xu_parameter_value_hash u). length h \<noteq> 64)
      \<or> xu_revision u \<le> 0)"

definition explainable :: "string \<Rightarrow> string \<Rightarrow> int \<Rightarrow> query_request \<Rightarrow> bool" where
  "explainable t i revision r =
     (qr_tenant_id r = t \<and> qr_id r = i \<and> qr_state r = READY_FOR_PREVIEW
      \<and> qr_explain_revision r = revision)"

definition record_query_explain ::
  "(query_store \<Rightarrow> query_store) \<Rightarrow> query_store \<Rightarrow> string \<Rightarrow> string \<Rightarrow> int \<Rightarrow> string
     \<Rightarrow> string option \<Rightarrow> string list \<Rightarrow> explain_result \<Rightarrow> timestamp
     \<Rightarrow> (store_error + query_request) \<times> query_store" where
  "record_query_explain mid s t i expected_revision sql_hash param_hash names result now =
     (case get_query_request s t i of
        None \<Rightarrow> (Inl RequestNotFound, s)
      | Some current \<Rightarrow>
         let s1 = mid s;
             revision = expected_revision + 1;
             u = \<lparr>xu_cost = er_estimated_total_cost result, xu_rows = er_estimated_rows result,
                  xu_time = now, xu_names = names, xu_parameter_value_hash = param_hash,
                  xu_revision = revision, xu_sql_hash = sql_hash\<rparr>
         in if row_count (explainable t i expected_revision) (qs_requests s1) \<noteq> 1
            then (Inl ExplainStale, s1)
            else if explain_check_violated u
                 \<or> (\<exists>x \<in> set (qs_explains s1). xr_tenant_id x = t \<and> xr_request_id x = i
                       \<and> xr_revision x = revision)
            then (Inl IntegrityError, s1)
            else let s2 = append_audit
                   \<lparr>ae_tenant_id = t, ae_event_type = ''query.explained'',
                    ae_subject_type = ''query_request'', ae_subject_id = i,
                    ae_details = Explain_Details revision sql_hash
                      (er_estimated_total_cost result) (er_estimated_rows result)
                      (er_elapsed_ms result) names\<rparr>
                   (s1\<lparr>qs_requests :=
                         sql_update (explainable t i expected_revision) (apply_explain u)
                           (qs_requests s1),
                       qs_explains := qs_explains s1 @
                         [\<lparr>xr_tenant_id = t, xr_request_id = i, xr_revision = revision,
                           xr_sql_hash = sql_hash, xr_parameter_value_hash = param_hash,
                           xr_parameter_names = names,
                           xr_estimated_db_cost = er_estimated_total_cost result,
                           xr_estimated_db_rows = er_estimated_rows result,
                           xr_elapsed_ms = er_elapsed_ms result, xr_created_at = now\<rparr>]\<rparr>);
                     saved = apply_explain u current
                 in case query_request_post_init saved of
                      Inl e \<Rightarrow> (Inl (InvalidRequest e), s2)
                    | Inr _ \<Rightarrow> (Inr saved, s2))"

section \<open>Activity and cost policies\<close>

definition record_query_activity ::
  "query_store \<Rightarrow> string \<Rightarrow> string \<Rightarrow> string \<Rightarrow> result_metadata
     \<Rightarrow> (store_error + unit) \<times> query_store" where
  "record_query_activity s t i event_type details =
     (if event_type \<noteq> ''query.result_metadata'' then (Inl UnsupportedActivity, s)
      else if get_query_request s t i = None then (Inl RequestNotFound, s)
      else (Inr (), append_audit
             \<lparr>ae_tenant_id = t, ae_event_type = event_type,
              ae_subject_type = ''query_request'', ae_subject_id = i,
              ae_details = Activity_Details details\<rparr> s))"

definition policy_for :: "string \<Rightarrow> string \<Rightarrow> execution_cost_policy \<Rightarrow> bool" where
  "policy_for t d p = (ecp_tenant_id p = t \<and> ecp_data_source_id p = d)"

text \<open>The \<open>DO UPDATE SET\<close> of the upsert: everything but the id and the key.\<close>

definition apply_policy :: "execution_cost_policy \<Rightarrow> execution_cost_policy \<Rightarrow> execution_cost_policy" where
  "apply_policy stored p =
     p\<lparr>ecp_max_total_cost := ecp_max_total_cost stored,
       ecp_max_estimated_rows := ecp_max_estimated_rows stored,
       ecp_require_explain := ecp_require_explain stored,
       ecp_updated_at := ecp_updated_at stored, ecp_revision := ecp_revision stored\<rparr>"

definition upsert_execution_cost_policy ::
  "query_store \<Rightarrow> execution_cost_policy \<Rightarrow> timestamp
     \<Rightarrow> (store_error + execution_cost_policy) \<times> query_store" where
  "upsert_execution_cost_policy s policy now =
     (let t = ecp_tenant_id policy; d = ecp_data_source_id policy
      in if get_data_source s t d = None then (Inl DataSourceNotInTenant, s)
         else if get_execution_cost_policy s t d = None
              \<and> (\<exists>p \<in> set (qs_policies s). ecp_id p = ecp_id policy)
         then (Inl IntegrityError, s)
         else let current = get_execution_cost_policy s t d;
                  stored = (case current of
                      None \<Rightarrow> policy\<lparr>ecp_revision := 1, ecp_updated_at := now\<rparr>
                    | Some c \<Rightarrow> policy\<lparr>ecp_id := ecp_id c, ecp_revision := ecp_revision c + 1,
                                       ecp_updated_at := now\<rparr>);
                  policies = (case current of
                      None \<Rightarrow> qs_policies s @ [stored]
                    | Some _ \<Rightarrow> sql_update (policy_for t d) (apply_policy stored) (qs_policies s))
              in (Inr stored, append_audit
                    \<lparr>ae_tenant_id = t, ae_event_type = ''finops.execution_policy_upserted'',
                     ae_subject_type = ''data_source'', ae_subject_id = d,
                     ae_details = Policy_Details (ecp_max_total_cost stored)
                       (ecp_max_estimated_rows stored) (ecp_require_explain stored)
                       (ecp_revision stored)\<rparr>
                    (s\<lparr>qs_policies := policies\<rparr>)))"

section \<open>The updates keep the keys\<close>

interpretation request_transition: keyed_update qr_id apply_update
  by unfold_locales (simp add: apply_update_def)

interpretation request_explain: keyed_update qr_id apply_explain
  by unfold_locales (simp add: apply_explain_def)

interpretation policy_upsert: keyed_update "\<lambda>p. (ecp_tenant_id p, ecp_data_source_id p)" apply_policy
  by unfold_locales (simp add: apply_policy_def)

end
