(* ===== verification/Interference.thy ===== *)
theory Interference
  imports Prelude
begin

text \<open>
  Rely and guarantee for repository operations that interleave with other replicas.  An
  interference is a state change that keeps the invariant and moves the state forward in
  a preorder; the changes that other clients make between two steps of an operation are a
  composition of such changes, and an operation that is itself an interference may appear
  in the middle of any other.
\<close>

definition interference :: "('s \<Rightarrow> bool) \<Rightarrow> ('s \<Rightarrow> 's \<Rightarrow> bool) \<Rightarrow> ('s \<Rightarrow> 's) \<Rightarrow> bool" where
  "interference good evolves f = (\<forall>s. good s \<longrightarrow> good (f s) \<and> evolves s (f s))"

locale forward_store =
  fixes good :: "'s \<Rightarrow> bool"
    and evolves :: "'s \<Rightarrow> 's \<Rightarrow> bool"
  assumes evolves_refl: "evolves s s"
    and evolves_trans: "evolves a b \<Longrightarrow> evolves b c \<Longrightarrow> evolves a c"
begin

lemma interference_id: "interference good evolves (\<lambda>s. s)"
  by (simp add: interference_def evolves_refl)

lemma interference_comp:
  "interference good evolves f \<Longrightarrow> interference good evolves g \<Longrightarrow> interference good evolves (\<lambda>s. g (f s))"
  unfolding interference_def using evolves_trans by blast

lemma interference_fold:
  "\<forall>f \<in> set fs. interference good evolves f \<Longrightarrow> interference good evolves (fold (\<lambda>f s. f s) fs)"
proof (induction fs)
  case Nil
  then show ?case using interference_id by (simp add: id_def)
next
  case (Cons f fs)
  then have "interference good evolves f" "interference good evolves (fold (\<lambda>f s. f s) fs)" by simp_all
  from interference_comp[OF this] show ?case by (simp add: comp_def)
qed

lemma interference_D: "interference good evolves f \<Longrightarrow> good s \<Longrightarrow> good (f s) \<and> evolves s (f s)"
  by (simp add: interference_def)

lemma interference_if:
  "interference good evolves f \<Longrightarrow> interference good evolves g \<Longrightarrow>
     interference good evolves (\<lambda>s. if P s then f s else g s)"
  by (simp add: interference_def)

end

end
