(* ===== verification/Query_Invariants.thy ===== *)
theory Query_Invariants
  imports Query_Store Interference
begin

text \<open>
  What the query store guarantees.  Every row of a request in or past approval carries a
  complete approval that agrees with its EXPLAIN (\<open>approval_bound\<close>); every operation keeps
  this; and every operation moves a row only forward (\<open>row_evolves\<close>), which is what a
  concurrent replica may rely on between its own read and its own commit.
\<close>

section \<open>The row invariant\<close>

definition approval_states :: "query_request_state list" where
  "approval_states = APPROVED # execution_chain"

definition approval_bound :: "query_request \<Rightarrow> bool" where
  "approval_bound r =
     (qr_state r \<in> set approval_states \<longrightarrow>
        (\<exists>actor. qr_approved_by r = Some actor \<and> \<not> blank actor)
        \<and> qr_approved_explain_revision r = Some (qr_explain_revision r)
        \<and> (\<exists>h. qr_approved_sql_hash r = Some h \<and> h \<noteq> [])
        \<and> qr_approved_cost_policy_revision r \<noteq> None
        \<and> (qr_explained_at r \<noteq> None \<longrightarrow>
             qr_approved_sql_hash r = qr_explained_sql_hash r
             \<and> qr_approved_parameter_value_hash r = qr_parameter_value_hash r))"

text \<open>
  The states a request passes through only inside one generation run; the program stores
  a request when that run has ended (\<open>generation.py\<close> creates it in one of the others).
\<close>

definition generation_states :: "query_request_state list" where
  "generation_states = [RECEIVED, CONTEXT_BUILDING, LLM_GENERATING, GENERATED, VALIDATING]"

definition row_inv :: "query_request \<Rightarrow> bool" where
  "row_inv r = (query_request_ok r \<and> approval_bound r \<and> qr_state r \<notin> set generation_states)"

definition store_inv :: "query_store \<Rightarrow> bool" where
  "store_inv s = (unique_key qr_id (qs_requests s) \<and> (\<forall>r \<in> set (qs_requests s). row_inv r))"

lemma store_inv_row: "store_inv s \<Longrightarrow> get_query_request s t i = Some r \<Longrightarrow> row_inv r"
  by (auto simp: store_inv_def get_query_request_def dest: fetch_one_Some_iff_mem)

lemma get_query_request_Some:
  "get_query_request s t i = Some r \<Longrightarrow>
     r \<in> set (qs_requests s) \<and> qr_tenant_id r = t \<and> qr_id r = i"
  by (auto simp: get_query_request_def dest: fetch_one_Some_iff_mem)

lemma get_query_request_unique:
  assumes "unique_key qr_id (qs_requests s)" "r \<in> set (qs_requests s)"
    "qr_tenant_id r = t" "qr_id r = i"
  shows "get_query_request s t i = Some r"
  unfolding get_query_request_def
  by (rule unique_key_fetch[where key = qr_id]) (use assms in auto)

section \<open>What a successful transition did\<close>

lemma prepare_transition_cases:
  assumes "prepare_transition current target a at1 at2 = Inr u"
  shows "target \<in> set (allowed_transitions (qr_state current))"
    and "ru_state u = target"
    and "ta_expected_explain_revision a \<in> {None, Some (qr_explain_revision current)}"
  using assms
  by (auto simp: prepare_transition_def lifecycle_transition_def
      split: if_splits option.splits sum.splits)

lemma prepare_approval:
  assumes "prepare_transition current APPROVED a at1 at2 = Inr u"
  shows "qr_state current = READY_FOR_PREVIEW"
    and "\<exists>actor. ta_actor_id a = Some actor \<and> \<not> blank actor \<and> ru_approved_by u = Some (strip actor)"
    and "ru_approved_at u = Some at1"
    and "ru_explain_revision u = Some (qr_explain_revision current)"
    and "ru_sql_hash u = ta_approval_sql_hash a" and "\<exists>h. ru_sql_hash u = Some h \<and> h \<noteq> []"
    and "ru_parameter_value_hash u = ta_approval_parameter_value_hash a"
    and "ru_cost_policy_revision u = ta_expected_cost_policy_revision a"
    and "ta_expected_cost_policy_revision a \<noteq> None"
    and "qr_explained_at current \<noteq> None \<Longrightarrow>
      qr_explained_sql_hash current = ta_approval_sql_hash a
      \<and> qr_parameter_value_hash current = ta_approval_parameter_value_hash a"
  using assms
  by (auto simp: prepare_transition_def split: if_splits option.splits sum.splits)

lemma prepare_reopen:
  assumes "prepare_transition current READY_FOR_PREVIEW a at1 at2 = Inr u"
  shows "ru_approved_by u = None" "ru_approved_at u = None" "ru_sql_hash u = None"
    "ru_explain_revision u = None" "ru_cost_policy_revision u = None"
    "ru_parameter_value_hash u = None"
  using assms
  by (auto simp: prepare_transition_def split: if_splits option.splits sum.splits)

lemma prepare_other:
  assumes "prepare_transition current target a at1 at2 = Inr u"
    and "target \<noteq> APPROVED" "target \<noteq> READY_FOR_PREVIEW"
  shows "ru_approved_by u = qr_approved_by current" "ru_approved_at u = qr_approved_at current"
    "ru_explain_revision u = qr_approved_explain_revision current"
    "ru_sql_hash u = qr_approved_sql_hash current"
    "ru_parameter_value_hash u = qr_approved_parameter_value_hash current"
    "ru_cost_policy_revision u = qr_approved_cost_policy_revision current"
  using assms
  by (auto simp: prepare_transition_def split: if_splits option.splits sum.splits)

text \<open>The written row keeps the invariant, whatever the target.\<close>

lemma apply_update_fields [simp]:
  "qr_tenant_id (apply_update u q) = qr_tenant_id q" "qr_id (apply_update u q) = qr_id q"
  "qr_data_source_id (apply_update u q) = qr_data_source_id q"
  "qr_state (apply_update u q) = ru_state u"
  "qr_explain_revision (apply_update u q) = qr_explain_revision q"
  "qr_explained_at (apply_update u q) = qr_explained_at q"
  "qr_explained_sql_hash (apply_update u q) = qr_explained_sql_hash q"
  "qr_parameter_value_hash (apply_update u q) = qr_parameter_value_hash q"
  "qr_normalized_sql (apply_update u q) = qr_normalized_sql q"
  "qr_parameter_definitions (apply_update u q) = qr_parameter_definitions q"
  "qr_referenced_tables (apply_update u q) = qr_referenced_tables q"
  "qr_referenced_columns (apply_update u q) = qr_referenced_columns q"
  "qr_estimated_db_cost (apply_update u q) = qr_estimated_db_cost q"
  "qr_estimated_db_rows (apply_update u q) = qr_estimated_db_rows q"
  "qr_approved_by (apply_update u q) = ru_approved_by u"
  "qr_approved_explain_revision (apply_update u q) = ru_explain_revision u"
  "qr_approved_sql_hash (apply_update u q) = ru_sql_hash u"
  "qr_approved_parameter_value_hash (apply_update u q) = ru_parameter_value_hash u"
  "qr_approved_cost_policy_revision (apply_update u q) = ru_cost_policy_revision u"
  by (simp_all add: apply_update_def)

text \<open>Two reads of one row that agree on what its EXPLAIN recorded.\<close>

definition same_explain :: "query_request \<Rightarrow> query_request \<Rightarrow> bool" where
  "same_explain q r =
     (qr_explain_revision q = qr_explain_revision r \<and> qr_explained_at q = qr_explained_at r
      \<and> qr_explained_sql_hash q = qr_explained_sql_hash r
      \<and> qr_parameter_value_hash q = qr_parameter_value_hash r
      \<and> qr_estimated_db_cost q = qr_estimated_db_cost r
      \<and> qr_estimated_db_rows q = qr_estimated_db_rows r
      \<and> qr_normalized_sql q = qr_normalized_sql r)"

lemma same_explain_refl [simp]: "same_explain q q"
  by (simp add: same_explain_def)

lemma approval_bound_update:
  assumes prep: "prepare_transition current target a at1 at2 = Inr u"
    and bound: "approval_bound current" and same: "same_explain current r"
  shows "approval_bound (apply_update u r)"
proof (cases "target = APPROVED")
  case True
  note p = prepare_approval[OF prep[unfolded True]]
  show ?thesis
    using p(2) p(4,5,6,7,8,9,10) same not_blank_strip
    by (auto simp: approval_bound_def same_explain_def)
next
  case na: False
  note cases = prepare_transition_cases[OF prep]
  show ?thesis
  proof (cases "target \<in> set execution_chain")
    case True
    then have "target \<noteq> READY_FOR_PREVIEW" by (auto simp: execution_chain_def)
    note other = prepare_other[OF prep na this]
    have "qr_state current \<in> set approval_states"
      using chain_entered_from_approved[OF cases(1) True] by (simp add: approval_states_def)
    then show ?thesis
      using bound same other by (auto simp: approval_bound_def same_explain_def)
  next
    case False
    then show ?thesis using na cases(2) by (simp add: approval_bound_def approval_states_def)
  qed
qed

lemma executable_predecessor:
  "t \<in> set (allowed_transitions s) \<Longrightarrow> t \<in> set executable_states
     \<Longrightarrow> s \<in> set executable_states \<or> (s = VALIDATING \<and> t = READY_FOR_PREVIEW)"
  by (cases s) (auto simp: executable_states_def)

lemma query_request_ok_update:
  assumes prep: "prepare_transition current target a at1 at2 = Inr u"
    and ok: "query_request_ok current" "query_request_ok r"
    and same: "same_explain current r"
    and normalized: "qr_state current = VALIDATING \<Longrightarrow> target = READY_FOR_PREVIEW
      \<Longrightarrow> qr_normalized_sql current \<notin> {None, Some []}"
  shows "query_request_ok (apply_update u r)"
  unfolding apply_update_def
proof (rule query_request_ok_approval_update)
  note cases = prepare_transition_cases[OF prep]
  show "query_request_ok r" by (rule ok(2))
  show "ru_state u \<in> set executable_states \<longrightarrow> qr_normalized_sql r \<notin> {None, Some []}"
  proof
    assume "ru_state u \<in> set executable_states"
    with cases(1,2) executable_predecessor
    have "qr_state current \<in> set executable_states
            \<or> (qr_state current = VALIDATING \<and> target = READY_FOR_PREVIEW)" by simp
    then have "qr_normalized_sql current \<notin> {None, Some []}"
      using query_request_ok_normalized[OF ok(1)] normalized by auto
    then show "qr_normalized_sql r \<notin> {None, Some []}" using same by (simp add: same_explain_def)
  qed
  have pair: "(qr_approved_by current = None) = (qr_approved_at current = None)"
    by (rule query_request_ok_approval_pair[OF ok(1)])
  have nb: "\<forall>b \<in> set_option (qr_approved_by current). \<not> blank b"
    using ok(1) by (simp add: query_request_ok_def query_request_post_init_def Let_def)
  consider "target = APPROVED" | "target = READY_FOR_PREVIEW"
    | "target \<noteq> APPROVED" "target \<noteq> READY_FOR_PREVIEW" by blast
  then have "(\<forall>b \<in> set_option (ru_approved_by u). \<not> blank b)
    \<and> (ru_approved_by u = None) = (ru_approved_at u = None)"
  proof cases
    case 1
    then show ?thesis
      using prepare_approval(2,3)[OF prep[unfolded 1]] by (auto dest: not_blank_strip)
  next
    case 2
    then show ?thesis using prepare_reopen[OF prep[unfolded 2]] by simp
  next
    case 3
    then show ?thesis using prepare_other(1,2)[OF prep 3] pair nb by simp
  qed
  then show "\<forall>b \<in> set_option (ru_approved_by u). \<not> blank b"
    "(ru_approved_by u = None) = (ru_approved_at u = None)" by simp_all
qed

section \<open>Forward evolution\<close>

text \<open>
  What other clients may do to a row between two looks at it: its identity and its
  validated SQL stay, its EXPLAIN revision never decreases, and while the revision stays
  the same so does everything the EXPLAIN recorded.
\<close>

definition row_evolves :: "query_request \<Rightarrow> query_request \<Rightarrow> bool" where
  "row_evolves r r' =
     (qr_data_source_id r' = qr_data_source_id r \<and> qr_normalized_sql r' = qr_normalized_sql r
      \<and> qr_referenced_tables r' = qr_referenced_tables r
      \<and> qr_referenced_columns r' = qr_referenced_columns r
      \<and> qr_parameter_definitions r' = qr_parameter_definitions r
      \<and> qr_explain_revision r \<le> qr_explain_revision r'
      \<and> (qr_explain_revision r = qr_explain_revision r' \<longrightarrow> same_explain r r'))"

text \<open>A cost policy changes only together with its revision; no policy counts as revision 0.\<close>

definition revision_of :: "execution_cost_policy option \<Rightarrow> int" where
  "revision_of p = (case p of None \<Rightarrow> 0 | Some p \<Rightarrow> ecp_revision p)"

definition policy_evolves ::
  "execution_cost_policy option \<Rightarrow> execution_cost_policy option \<Rightarrow> bool" where
  "policy_evolves p p' =
     (revision_of p \<le> revision_of p' \<and> (revision_of p = revision_of p' \<longrightarrow> p = p'))"

lemma policy_evolves_refl [simp]: "policy_evolves p p"
  by (simp add: policy_evolves_def)

lemma policy_evolves_trans: "policy_evolves a b \<Longrightarrow> policy_evolves b c \<Longrightarrow> policy_evolves a c"
  by (auto simp: policy_evolves_def)

lemma policy_revision_of: "policy_revision s t d = revision_of (get_execution_cost_policy s t d)"
  by (simp add: policy_revision_def revision_of_def)

definition store_evolves :: "query_store \<Rightarrow> query_store \<Rightarrow> bool" where
  "store_evolves s s' =
     ((\<forall>t i r. get_query_request s t i = Some r \<longrightarrow>
         (\<exists>r'. get_query_request s' t i = Some r' \<and> row_evolves r r'))
      \<and> (\<forall>t d. policy_evolves (get_execution_cost_policy s t d) (get_execution_cost_policy s' t d))
      \<and> (\<exists>es. qs_audit s' = qs_audit s @ es))"

lemma row_evolves_refl: "row_evolves r r"
  by (simp add: row_evolves_def)

lemma same_explain_trans: "same_explain a b \<Longrightarrow> same_explain b c \<Longrightarrow> same_explain a c"
  by (simp add: same_explain_def)

lemma row_evolves_trans:
  assumes "row_evolves a b" "row_evolves b c"
  shows "row_evolves a c"
proof -
  have "same_explain a c" if "qr_explain_revision a = qr_explain_revision c"
  proof -
    have "qr_explain_revision a = qr_explain_revision b" "qr_explain_revision b = qr_explain_revision c"
      using that assms by (simp_all add: row_evolves_def)
    then show ?thesis using assms same_explain_trans by (metis row_evolves_def)
  qed
  then show ?thesis using assms by (simp add: row_evolves_def)
qed

lemma store_evolves_refl: "store_evolves s s"
  by (auto simp: store_evolves_def row_evolves_refl)

lemma store_evolves_trans: "store_evolves a b \<Longrightarrow> store_evolves b c \<Longrightarrow> store_evolves a c"
proof -
  assume ab: "store_evolves a b" and bc: "store_evolves b c"
  have "\<exists>r'. get_query_request c t i = Some r' \<and> row_evolves r r'"
    if "get_query_request a t i = Some r" for t i r
    using that ab bc unfolding store_evolves_def by (meson row_evolves_trans)
  moreover have "policy_evolves (get_execution_cost_policy a t d) (get_execution_cost_policy c t d)" for t d
    using ab bc unfolding store_evolves_def by (meson policy_evolves_trans)
  moreover have "\<exists>es. qs_audit c = qs_audit a @ es"
    using ab bc unfolding store_evolves_def by (metis append_assoc)
  ultimately show "store_evolves a c" by (simp add: store_evolves_def)
qed

lemma store_evolves_row:
  assumes "store_evolves s s'" "get_query_request s t i = Some r"
  obtains r' where "get_query_request s' t i = Some r'" "row_evolves r r'"
  using assms unfolding store_evolves_def by blast

lemma append_audit_simps [simp]:
  "qs_requests (append_audit e s) = qs_requests s" "qs_policies (append_audit e s) = qs_policies s"
  "qs_data_sources (append_audit e s) = qs_data_sources s"
  "qs_explains (append_audit e s) = qs_explains s"
  "qs_audit (append_audit e s) = qs_audit s @ [e]"
  by (simp_all add: append_audit_def)

lemma get_query_request_cong:
  "qs_requests s' = qs_requests s \<Longrightarrow> get_query_request s' t i = get_query_request s t i"
  by (simp add: get_query_request_def)

lemma policy_cong:
  "qs_policies s' = qs_policies s \<Longrightarrow> get_execution_cost_policy s' t d = get_execution_cost_policy s t d"
  by (simp add: get_execution_cost_policy_def)

text \<open>The compare-and-set hits exactly the row that was read, if nobody changed it.\<close>

lemma unchanged_since_row:
  assumes "row_count (unchanged_since current) (qs_requests s) = 1"
    and "store_evolves s0 s" and "get_query_request s0 t i = Some current"
    and "unique_key qr_id (qs_requests s)"
  obtains r where "get_query_request s t i = Some r" "unchanged_since current r"
    "same_explain current r"
proof -
  obtain x where x: "x \<in> set (qs_requests s)" "unchanged_since current x"
    using assms(1) by (metis row_count_pos zero_neq_one)
  have id: "qr_tenant_id current = t" "qr_id current = i"
    using get_query_request_Some[OF assms(3)] by simp_all
  have gx: "get_query_request s t i = Some x"
    using assms(4) x id by (intro get_query_request_unique) (auto simp: unchanged_since_def)
  obtain r' where "get_query_request s t i = Some r'" "row_evolves current r'"
    using assms(2,3) by (rule store_evolves_row)
  then have "same_explain current x" using gx x(2) by (auto simp: row_evolves_def unchanged_since_def)
  then show ?thesis using gx x(2) that by blast
qed

lemma commit_transition_committed:
  assumes "commit_transition s current target a u = (res, s')"
    and "res = Inr q \<or> (\<exists>e. res = Inl (InvalidRequest e))"
  shows "check_transition_policy s current target a = Inr ()"
    and "row_count (unchanged_since current) (qs_requests s) = 1"
    and "res = Inr q \<Longrightarrow> q = apply_update u current"
    and "qs_requests s' = sql_update (unchanged_since current) (apply_update u) (qs_requests s)"
    and "qs_audit s' = qs_audit s @ [transition_audit current u]"
    and "qs_policies s' = qs_policies s"
  using assms
  by (auto simp: commit_transition_def check_transition_policy_def Let_def
      split: sum.splits if_splits)

lemma commit_transition_aborted:
  assumes "commit_transition s current target a u = (Inl e, s')" "\<forall>e'. e \<noteq> InvalidRequest e'"
  shows "s' = s"
  using assms by (auto simp: commit_transition_def Let_def split: sum.splits if_splits)

lemma get_after_request_update:
  assumes "unique_key qr_id (qs_requests s)"
    and "qs_requests s' = sql_update P f (qs_requests s)"
    and "\<And>r. qr_id (f r) = qr_id r" "\<And>r. qr_tenant_id (f r) = qr_tenant_id r"
    and "get_query_request s t i = Some r"
  shows "get_query_request s' t i = Some (if P r then f r else r)"
proof -
  have r: "r \<in> set (qs_requests s)" "qr_tenant_id r = t" "qr_id r = i"
    using get_query_request_Some[OF assms(5)] by simp_all
  have "map qr_id (qs_requests s') = map qr_id (qs_requests s)"
    by (simp add: assms(2,3) sql_update_def)
  then have "unique_key qr_id (qs_requests s')" using assms(1) by (simp add: unique_key_def)
  moreover have "(if P r then f r else r) \<in> set (qs_requests s')"
    using r(1) by (auto simp: assms(2) sql_update_def)
  ultimately show ?thesis using r assms(3,4) by (intro get_query_request_unique) auto
qed

lemma store_evolves_update:
  assumes "unique_key qr_id (qs_requests s)"
    and "qs_requests s' = sql_update P f (qs_requests s)"
    and "\<And>r. qr_id (f r) = qr_id r" "\<And>r. qr_tenant_id (f r) = qr_tenant_id r"
    and "\<And>r. P r \<Longrightarrow> row_evolves r (f r)"
    and "qs_policies s' = qs_policies s" and "qs_audit s' = qs_audit s @ es"
  shows "store_evolves s s'"
proof -
  have "\<exists>r'. get_query_request s' t i = Some r' \<and> row_evolves r r'"
    if "get_query_request s t i = Some r" for t i r
    using get_after_request_update[OF assms(1-4) that] assms(5) row_evolves_refl by auto
  moreover have "policy_evolves (get_execution_cost_policy s t d) (get_execution_cost_policy s' t d)" for t d
    using policy_cong[OF assms(6)] by simp
  ultimately show ?thesis using assms(7) by (simp add: store_evolves_def)
qed


section \<open>Every operation is an interference\<close>

interpretation query_store: forward_store store_inv store_evolves
  by unfold_locales (auto intro: store_evolves_refl store_evolves_trans)

abbreviation store_interference :: "(query_store \<Rightarrow> query_store) \<Rightarrow> bool" where
  "store_interference \<equiv> interference store_inv store_evolves"

lemma row_inv_update:
  assumes "prepare_transition current target a at1 at2 = Inr u"
    and "row_inv current" "row_inv r" "same_explain current r"
    and "target \<notin> set generation_states"
  shows "row_inv (apply_update u r)"
proof -
  have "qr_state current \<noteq> VALIDATING" using assms(2) by (auto simp: row_inv_def generation_states_def)
  then have "query_request_ok (apply_update u r)"
    using assms by (intro query_request_ok_update[OF assms(1)]) (auto simp: row_inv_def)
  moreover have "approval_bound (apply_update u r)"
    using assms by (intro approval_bound_update[OF assms(1)]) (auto simp: row_inv_def)
  ultimately show ?thesis
    using assms(5) prepare_transition_cases(2)[OF assms(1)] by (simp add: row_inv_def)
qed

lemma unchanged_since_evolves: "unchanged_since current r \<Longrightarrow> row_evolves r (apply_update u r)"
  by (simp add: row_evolves_def same_explain_def)

text \<open>A commit whose \<open>current\<close> row was read from an earlier state of the same store.\<close>

lemma commit_transition_interference:
  assumes commit: "commit_transition s current target a u = (res, s')"
    and prep: "prepare_transition current target a at1 at2 = Inr u"
    and read: "get_query_request s0 t i = Some current" and ev: "store_evolves s0 s"
    and inv: "store_inv s0" "store_inv s" and target: "target \<notin> set generation_states"
  shows "store_inv s' \<and> store_evolves s s'"
    and "\<And>e. res \<noteq> Inl (InvalidRequest e)"
proof -
  have cur: "row_inv current" by (rule store_inv_row[OF inv(1) read])
  have uk: "unique_key qr_id (qs_requests s)" using inv(2) by (simp add: store_inv_def)
  have "query_request_ok (apply_update u current)"
    using row_inv_update[OF prep cur cur _ target] by (simp add: row_inv_def)
  then obtain x where post: "query_request_post_init (apply_update u current) = Inr x"
    by (auto simp: query_request_ok_def is_ok_iff)
  show no_invalid: "\<And>e. res \<noteq> Inl (InvalidRequest e)"
    using commit post by (auto simp: commit_transition_def check_transition_policy_def Let_def
        split: sum.splits if_splits)
  show "store_inv s' \<and> store_evolves s s'"
  proof (cases res)
    case (Inl e)
    then have "s' = s" using commit no_invalid by (intro commit_transition_aborted) auto
    then show ?thesis using inv store_evolves_refl by simp
  next
    case (Inr q)
    note committed = commit_transition_committed[OF commit, of q]
    have rc: "row_count (unchanged_since current) (qs_requests s) = 1"
      and req: "qs_requests s' = sql_update (unchanged_since current) (apply_update u) (qs_requests s)"
      and aud: "qs_audit s' = qs_audit s @ [transition_audit current u]"
      and pol: "qs_policies s' = qs_policies s"
      using committed Inr by simp_all
    have "row_inv (apply_update u r)" if "r \<in> set (qs_requests s)" "unchanged_since current r" for r
    proof -
      obtain r' where r': "get_query_request s t i = Some r'" "unchanged_since current r'"
        "same_explain current r'" using unchanged_since_row[OF rc ev read uk] by blast
      have "r = r'"
        using that r' uk get_query_request_Some[OF r'(1)]
        by (auto simp: unchanged_since_def intro: unique_key_eq)
      then show ?thesis
        using row_inv_update[OF prep cur _ r'(3) target] that(1) inv(2) by (simp add: store_inv_def)
    qed
    moreover have "unique_key qr_id (qs_requests s')"
      using uk req by (simp add: request_transition.unique_key_sql_update)
    ultimately have "store_inv s'" using inv(2) req by (auto simp: store_inv_def dest: sql_update_mem)
    moreover have "store_evolves s s'"
      using uk req _ _ _ pol aud by (rule store_evolves_update) (simp_all add: unchanged_since_evolves)
    ultimately show ?thesis by simp
  qed
qed

lemma transition_cases:
  obtains (missing) "get_query_request s t i = None"
      "transition_query_request mid s t i target a at1 at2 = (Inl RequestNotFound, s)"
  | (refused) current e where "get_query_request s t i = Some current"
      "prepare_transition current target a at1 at2 = Inl e"
      "transition_query_request mid s t i target a at1 at2 = (Inl e, s)"
  | (commit) current u where "get_query_request s t i = Some current"
      "prepare_transition current target a at1 at2 = Inr u"
      "transition_query_request mid s t i target a at1 at2 = commit_transition (mid s) current target a u"
  by (cases "get_query_request s t i"; cases "prepare_transition (the (get_query_request s t i)) target a at1 at2")
    (auto simp: transition_query_request_def)

lemma transition_interference:
  assumes "store_interference mid" "target \<notin> set generation_states"
  shows "store_interference (\<lambda>s. snd (transition_query_request mid s t i target a at1 at2))"
  unfolding interference_def
proof (intro allI impI)
  fix s assume inv: "store_inv s"
  have mid: "store_inv (mid s)" "store_evolves s (mid s)"
    using query_store.interference_D[OF assms(1) inv] by simp_all
  show "store_inv (snd (transition_query_request mid s t i target a at1 at2)) \<and>
    store_evolves s (snd (transition_query_request mid s t i target a at1 at2))"
  proof (cases rule: transition_cases[of s t i mid target a at1 at2])
    case missing
    then show ?thesis using inv store_evolves_refl by simp
  next
    case (refused current e)
    then show ?thesis using inv store_evolves_refl by simp
  next
    case (commit current u)
    obtain res s' where c: "commit_transition (mid s) current target a u = (res, s')" by fastforce
    have "store_inv s' \<and> store_evolves (mid s) s'"
      using c commit(2,1) mid(2) inv mid(1) assms(2) by (rule commit_transition_interference(1))
    then show ?thesis using commit(3) c mid(2) store_evolves_trans by auto
  qed
qed

section \<open>EXPLAIN, creation, policies and activity\<close>

text \<open>The bindings an EXPLAIN records fit the request's declarations.\<close>

definition explain_binding_ok :: "query_request \<Rightarrow> string list \<Rightarrow> string option \<Rightarrow> bool" where
  "explain_binding_ok r names hash =
     ((\<forall>n \<in> set names. valid_identifier n) \<and> distinct (map casefold names)
      \<and> (qr_parameter_definitions r = []
          \<or> set (map (casefold \<circ> qpd_name) (qr_parameter_definitions r)) = set (map casefold names))
      \<and> (\<forall>h \<in> set_option hash. sha256_digest h))"

lemma apply_explain_fields [simp]:
  "qr_tenant_id (apply_explain u q) = qr_tenant_id q" "qr_id (apply_explain u q) = qr_id q"
  "qr_data_source_id (apply_explain u q) = qr_data_source_id q"
  "qr_state (apply_explain u q) = qr_state q"
  "qr_normalized_sql (apply_explain u q) = qr_normalized_sql q"
  "qr_parameter_definitions (apply_explain u q) = qr_parameter_definitions q"
  "qr_referenced_tables (apply_explain u q) = qr_referenced_tables q"
  "qr_referenced_columns (apply_explain u q) = qr_referenced_columns q"
  "qr_explain_revision (apply_explain u q) = xu_revision u"
  by (simp_all add: apply_explain_def)

lemma query_request_ok_explain:
  assumes "query_request_ok q" "explain_binding_ok q (xu_names u) (xu_parameter_value_hash u)"
    and "\<not> explain_check_violated u"
  shows "query_request_ok (apply_explain u q)"
  using assms
  by (simp add: query_request_ok_def query_request_post_init_def Let_def explain_binding_ok_def
      explain_check_violated_def apply_explain_def image_image comp_def)
    (cases "qr_model_id q"; cases "qr_llm_usage_event_id q"; cases "qr_provider_id q"; simp)

lemma approval_bound_ready: "qr_state r = READY_FOR_PREVIEW \<Longrightarrow> approval_bound r"
  by (simp add: approval_bound_def approval_states_def execution_chain_def)

lemma row_inv_explain:
  assumes "row_inv r" "qr_state r = READY_FOR_PREVIEW"
    and "explain_binding_ok r (xu_names u) (xu_parameter_value_hash u)" "\<not> explain_check_violated u"
  shows "row_inv (apply_explain u r)"
  using assms query_request_ok_explain by (simp add: row_inv_def approval_bound_ready)

lemma record_query_explain_cases:
  assumes "record_query_explain mid s t i k h ph names res now = (r, s')"
  obtains (missing) "get_query_request s t i = None" "r = Inl RequestNotFound" "s' = s"
  | (stale) e where "r = Inl e" "s' = mid s" "e \<in> {ExplainStale, IntegrityError}"
  | (saved) current u es where "get_query_request s t i = Some current"
      "u = \<lparr>xu_cost = er_estimated_total_cost res, xu_rows = er_estimated_rows res, xu_time = now,
            xu_names = names, xu_parameter_value_hash = ph, xu_revision = k + 1, xu_sql_hash = h\<rparr>"
      "row_count (explainable t i k) (qs_requests (mid s)) = 1"
      "\<not> explain_check_violated u"
      "qs_requests s' = sql_update (explainable t i k) (apply_explain u) (qs_requests (mid s))"
      "qs_policies s' = qs_policies (mid s)" "qs_audit s' = qs_audit (mid s) @ es"
      "r = (case query_request_post_init (apply_explain u current) of
              Inl e \<Rightarrow> Inl (InvalidRequest e) | Inr _ \<Rightarrow> Inr (apply_explain u current))"
  using assms
  by (cases "get_query_request s t i")
    (auto simp: record_query_explain_def Let_def split: if_splits sum.splits)

lemma record_query_explain_inv:
  assumes ex: "record_query_explain mid s t i k h ph names res now = (r, s')"
    and inv: "store_inv s" "store_inv (mid s)" and ev: "store_evolves s (mid s)"
    and binding: "\<And>q. get_query_request s t i = Some q \<Longrightarrow> explain_binding_ok q names ph"
  shows "store_inv s' \<and> store_evolves s s'" and "\<And>e. r \<noteq> Inl (InvalidRequest e)"
proof -
  show "store_inv s' \<and> store_evolves s s'"
    using ex
  proof (cases rule: record_query_explain_cases)
    case missing
    then show ?thesis using inv store_evolves_refl by simp
  next
    case (stale e)
    then show ?thesis using inv ev by simp
  next
    case (saved current u es)
    have uk: "unique_key qr_id (qs_requests (mid s))" using inv(2) by (simp add: store_inv_def)
    have "row_inv (apply_explain u x)"
      if x: "x \<in> set (qs_requests (mid s))" "explainable t i k x" for x
    proof -
      have "get_query_request (mid s) t i = Some x"
        using uk x by (intro get_query_request_unique) (auto simp: explainable_def)
      moreover obtain r' where "get_query_request (mid s) t i = Some r'" "row_evolves current r'"
        using ev saved(1) by (rule store_evolves_row)
      ultimately have "qr_parameter_definitions x = qr_parameter_definitions current"
        by (simp add: row_evolves_def)
      then have "explain_binding_ok x names ph"
        using binding[OF saved(1)] by (simp add: explain_binding_ok_def)
      then show ?thesis
        using x inv(2) saved(2,4) by (intro row_inv_explain) (auto simp: store_inv_def explainable_def)
    qed
    moreover have "unique_key qr_id (qs_requests s')"
      using uk saved(5) by (simp add: request_explain.unique_key_sql_update)
    ultimately have "store_inv s'" using inv(2) saved(5) by (auto simp: store_inv_def dest: sql_update_mem)
    moreover have "store_evolves (mid s) s'"
      using uk saved(5) _ _ _ saved(6,7)
      by (rule store_evolves_update) (simp_all add: explainable_def row_evolves_def saved(2))
    ultimately show ?thesis using ev store_evolves_trans by blast
  qed
  show "\<And>e. r \<noteq> Inl (InvalidRequest e)"
    using ex
  proof (cases rule: record_query_explain_cases)
    case (saved current u es)
    have "row_inv current" using store_inv_row[OF inv(1) saved(1)] .
    then have "query_request_ok (apply_explain u current)"
      using binding[OF saved(1)] saved(2,4)
      by (intro query_request_ok_explain) (auto simp: row_inv_def)
    then show "\<And>e. r \<noteq> Inl (InvalidRequest e)"
      using saved(8) by (auto simp: query_request_ok_def is_ok_iff)
  qed auto
qed

text \<open>A request as \<open>generation.py\<close> creates it.\<close>

definition newly_generated :: "query_request \<Rightarrow> bool" where
  "newly_generated q =
     (query_request_ok q \<and> qr_state q \<in> {NEEDS_CLARIFICATION, READY_FOR_PREVIEW, REJECTED}
      \<and> qr_explain_revision q = 0)"

lemma newly_generated_row_inv: "newly_generated q \<Longrightarrow> row_inv q"
  by (auto simp: newly_generated_def row_inv_def approval_bound_def approval_states_def
      execution_chain_def generation_states_def)

lemma create_query_request_interference:
  assumes "newly_generated q"
  shows "store_interference (\<lambda>s. snd (create_query_request s q))"
  unfolding interference_def
proof (intro allI impI)
  fix s assume inv: "store_inv s"
  obtain res s' where c: "create_query_request s q = (res, s')" by fastforce
  show "store_inv (snd (create_query_request s q)) \<and> store_evolves s (snd (create_query_request s q))"
  proof (cases res)
    case (Inl e)
    then have "s' = s" using c by (auto simp: create_query_request_def split: if_splits)
    then show ?thesis using inv c store_evolves_refl by simp
  next
    case (Inr q')
    have fresh: "\<forall>r \<in> set (qs_requests s). qr_id r \<noteq> qr_id q"
      and req: "qs_requests s' = qs_requests s @ [q]"
      and pol: "qs_policies s' = qs_policies s" and aud: "\<exists>es. qs_audit s' = qs_audit s @ es"
      using c Inr by (auto simp: create_query_request_def split: if_splits)
    have "unique_key qr_id (qs_requests s')"
      using inv fresh req by (auto simp: store_inv_def intro: unique_key_append)
    then have inv': "store_inv s'"
      using inv req newly_generated_row_inv[OF assms] by (simp add: store_inv_def)
    have "get_query_request s' t i = Some r" if "get_query_request s t i = Some r" for t i r
      using that inv' req by (intro get_query_request_unique)
        (auto simp: store_inv_def dest: get_query_request_Some)
    then have "store_evolves s s'"
      using policy_cong[OF pol] aud by (auto simp: store_evolves_def row_evolves_refl)
    then show ?thesis using inv' c by simp
  qed
qed

lemma record_query_activity_interference:
  "store_interference (\<lambda>s. snd (record_query_activity s t i ev d))"
  unfolding interference_def
proof (intro allI impI)
  fix s assume inv: "store_inv s"
  have req: "qs_requests (snd (record_query_activity s t i ev d)) = qs_requests s"
    and pol: "qs_policies (snd (record_query_activity s t i ev d)) = qs_policies s"
    and aud: "\<exists>es. qs_audit (snd (record_query_activity s t i ev d)) = qs_audit s @ es"
    by (simp_all add: record_query_activity_def)
  show "store_inv (snd (record_query_activity s t i ev d)) \<and>
      store_evolves s (snd (record_query_activity s t i ev d))"
    using inv req pol aud get_query_request_cong[OF req] policy_cong[OF pol]
    by (auto simp: store_inv_def store_evolves_def row_evolves_refl)
qed

lemma policy_evolves_apply:
  assumes "get_execution_cost_policy s t d = Some c"
    and "qs_policies s' = sql_update (policy_for t d) (apply_policy stored) (qs_policies s)"
    and "ecp_revision stored = ecp_revision c + 1"
  shows "policy_evolves (get_execution_cost_policy s t' d') (get_execution_cost_policy s' t' d')"
proof -
  have gen: "fetch_one (\<lambda>p. ecp_tenant_id p = t' \<and> ecp_data_source_id p = d')
      (sql_update (policy_for t d) (apply_policy stored) ps)
    = map_option (\<lambda>p. if policy_for t d p then apply_policy stored p else p)
        (fetch_one (\<lambda>p. ecp_tenant_id p = t' \<and> ecp_data_source_id p = d') ps)" for ps
    by (induction ps) (auto simp: sql_update_def apply_policy_def)
  show ?thesis
  proof (cases "t' = t \<and> d' = d")
    case True
    then have fetch: "fetch_one (\<lambda>p. ecp_tenant_id p = t' \<and> ecp_data_source_id p = d') (qs_policies s) = Some c"
      using assms(1) by (simp add: get_execution_cost_policy_def)
    then have "policy_for t d c" using True by (auto simp: policy_for_def dest: fetch_one_Some_iff_mem)
    then have "get_execution_cost_policy s' t' d' = Some (apply_policy stored c)"
      by (simp only: get_execution_cost_policy_def assms(2) gen fetch) simp
    moreover have "get_execution_cost_policy s t' d' = Some c" using True assms(1) by simp
    ultimately show ?thesis
      using assms(3) by (simp add: policy_evolves_def revision_of_def apply_policy_def)
  next
    case False
    have "map_option (\<lambda>p. if policy_for t d p then apply_policy stored p else p)
        (fetch_one (\<lambda>p. ecp_tenant_id p = t' \<and> ecp_data_source_id p = d') (qs_policies s))
      = fetch_one (\<lambda>p. ecp_tenant_id p = t' \<and> ecp_data_source_id p = d') (qs_policies s)"
      using False by (cases "fetch_one (\<lambda>p. ecp_tenant_id p = t' \<and> ecp_data_source_id p = d') (qs_policies s)")
        (auto simp: policy_for_def dest: fetch_one_Some_iff_mem)
    then have "get_execution_cost_policy s' t' d' = get_execution_cost_policy s t' d'"
      by (simp only: get_execution_cost_policy_def assms(2) gen)
    then show ?thesis by simp
  qed
qed

lemma policy_evolves_append:
  assumes "get_execution_cost_policy s t d = None"
    and "qs_policies s' = qs_policies s @ [stored]" "ecp_revision stored = 1"
  shows "policy_evolves (get_execution_cost_policy s t' d') (get_execution_cost_policy s' t' d')"
proof -
  have gen: "fetch_one P (ps @ [x]) =
     (case fetch_one P ps of Some y \<Rightarrow> Some y | None \<Rightarrow> if P x then Some x else None)"
    for P and x :: execution_cost_policy and ps by (induction ps) auto
  show ?thesis
    using assms
    by (auto simp: policy_evolves_def revision_of_def get_execution_cost_policy_def gen split: option.splits)
qed

lemma upsert_execution_cost_policy_interference:
  "store_interference (\<lambda>s. snd (upsert_execution_cost_policy s p now))"
  unfolding interference_def
proof (intro allI impI)
  fix s assume inv: "store_inv s"
  obtain res s' where u: "upsert_execution_cost_policy s p now = (res, s')" by fastforce
  let ?t = "ecp_tenant_id p" and ?d = "ecp_data_source_id p"
  have req: "qs_requests s' = qs_requests s" and aud: "\<exists>es. qs_audit s' = qs_audit s @ es"
    using u by (auto simp: upsert_execution_cost_policy_def Let_def split: if_splits option.splits)
  have pol: "policy_evolves (get_execution_cost_policy s t d) (get_execution_cost_policy s' t d)" for t d
  proof (cases "res")
    case (Inl e)
    then have "s' = s" using u by (auto simp: upsert_execution_cost_policy_def Let_def split: if_splits)
    then show ?thesis by simp
  next
    case (Inr stored)
    show ?thesis
    proof (cases "get_execution_cost_policy s ?t ?d")
      case None
      then show ?thesis
        using u Inr by (intro policy_evolves_append[OF None])
          (auto simp: upsert_execution_cost_policy_def Let_def split: if_splits)
    next
      case (Some c)
      then show ?thesis
        using u Inr by (intro policy_evolves_apply[OF Some])
          (auto simp: upsert_execution_cost_policy_def Let_def split: if_splits)
    qed
  qed
  show "store_inv (snd (upsert_execution_cost_policy s p now)) \<and>
      store_evolves s (snd (upsert_execution_cost_policy s p now))"
    using inv u req aud pol get_query_request_cong[OF req]
    by (auto simp: store_inv_def store_evolves_def row_evolves_refl)
qed

section \<open>Any interleaving of clients\<close>

text \<open>
  The changes any number of clients make to the catalog: operations one after another, and
  operations that commit between the read and the transaction of another.  An EXPLAIN is
  recorded with bindings that fit the request, as the service does after binding them.
\<close>

inductive client_change :: "(query_store \<Rightarrow> query_store) \<Rightarrow> bool" where
  idle: "client_change (\<lambda>s. s)"
| sequence: "client_change f \<Longrightarrow> client_change g \<Longrightarrow> client_change (\<lambda>s. g (f s))"
| create: "newly_generated q \<Longrightarrow> client_change (\<lambda>s. snd (create_query_request s q))"
| transition: "client_change mid \<Longrightarrow> target \<notin> set generation_states \<Longrightarrow>
    client_change (\<lambda>s. snd (transition_query_request mid s t i target a n1 n2))"
| explain: "client_change mid \<Longrightarrow>
    client_change (\<lambda>s. if \<forall>q \<in> set_option (get_query_request s t i). explain_binding_ok q names ph
                        then snd (record_query_explain mid s t i k h ph names res now) else s)"
| activity: "client_change (\<lambda>s. snd (record_query_activity s t i ev d))"
| policy: "client_change (\<lambda>s. snd (upsert_execution_cost_policy s p now))"

lemma explain_interference:
  assumes "store_interference mid"
  shows "store_interference (\<lambda>s. if \<forall>q \<in> set_option (get_query_request s t i). explain_binding_ok q names ph
      then snd (record_query_explain mid s t i k h ph names res now) else s)"
  unfolding interference_def
proof (intro allI impI)
  fix s assume inv: "store_inv s"
  note mid = query_store.interference_D[OF assms inv]
  obtain r s' where ex: "record_query_explain mid s t i k h ph names res now = (r, s')" by fastforce
  show "store_inv (if \<forall>q \<in> set_option (get_query_request s t i). explain_binding_ok q names ph
        then snd (record_query_explain mid s t i k h ph names res now) else s)
      \<and> store_evolves s (if \<forall>q \<in> set_option (get_query_request s t i). explain_binding_ok q names ph
        then snd (record_query_explain mid s t i k h ph names res now) else s)"
    using record_query_explain_inv(1)[OF ex inv] mid ex inv store_evolves_refl by auto
qed

lemma client_change_interference: "client_change f \<Longrightarrow> store_interference f"
proof (induction rule: client_change.induct)
  case idle
  show ?case by (rule query_store.interference_id)
next
  case (sequence f g)
  show ?case by (rule query_store.interference_comp[OF sequence.IH])
next
  case (create q)
  then show ?case by (rule create_query_request_interference)
next
  case (transition mid target t i a n1 n2)
  show ?case by (rule transition_interference[OF transition.IH transition.hyps(2)])
next
  case (explain mid t i names ph k h res now)
  show ?case by (rule explain_interference[OF explain.IH])
next
  case (activity t i ev d)
  show ?case by (rule record_query_activity_interference)
next
  case (policy p now)
  show ?case by (rule upsert_execution_cost_policy_interference)
qed

text \<open>
  C6: the approval invariant of the catalog survives any interleaving of clients.  From a
  good store, after any sequence of operations, each possibly interleaved with others
  between its read and its commit, every stored request that is approved, executing or has
  run carries a named approver and an approval of its current EXPLAIN revision, SQL and
  bindings; no request changed its validated SQL; and the audit trail only grew.
\<close>

theorem interleaved_clients_keep_approvals:
  assumes "client_change f" and "store_inv s"
  shows "store_inv (f s)
    \<and> (\<forall>r \<in> set (qs_requests (f s)). query_request_ok r \<and> approval_bound r)
    \<and> (\<forall>t i r. get_query_request s t i = Some r \<longrightarrow>
          (\<exists>r'. get_query_request (f s) t i = Some r' \<and> qr_normalized_sql r' = qr_normalized_sql r
            \<and> qr_explain_revision r \<le> qr_explain_revision r'))
    \<and> (\<exists>es. qs_audit (f s) = qs_audit s @ es)"
proof -
  have d: "store_inv (f s)" "store_evolves s (f s)"
    using query_store.interference_D[OF client_change_interference[OF assms(1)] assms(2)] by simp_all
  then have rows: "\<forall>r \<in> set (qs_requests (f s)). query_request_ok r \<and> approval_bound r"
    by (simp add: store_inv_def row_inv_def)
  have moved: "\<exists>r'. get_query_request (f s) t i = Some r' \<and> qr_normalized_sql r' = qr_normalized_sql r
      \<and> qr_explain_revision r \<le> qr_explain_revision r'" if "get_query_request s t i = Some r" for t i r
    using store_evolves_row[OF d(2) that] by (auto simp: row_evolves_def)
  have "\<exists>es. qs_audit (f s) = qs_audit s @ es" using d(2) unfolding store_evolves_def by blast
  then show ?thesis using d(1) rows moved by blast
qed

end
