(* ===== verification/Parameter_Binding.thy ===== *)
theory Parameter_Binding
  imports Domain_Model
begin

text \<open>
  \<open>packages/query/sqlverity_query/parameters.py\<close>: the values a caller supplies are checked
  against the declarations of the query and reduced to a canonical JSON text whose
  SHA-256 digest EXPLAIN, approval and execution compare.

  The parsers \<open>date.fromisoformat\<close>, \<open>datetime.fromisoformat\<close> and \<open>UUID\<close>, the text of a
  float and the digest are arguments (record \<open>stdlib\<close>).  A parser returns the canonical
  text of what it parsed (\<open>isoformat()\<close>, \<open>str()\<close>), or \<open>None\<close> for a \<open>ValueError\<close>; a parsed
  date, datetime or UUID is represented by that text.
\<close>

section \<open>Values\<close>

text \<open>The Python objects a request body can supply; \<open>OOther\<close> is any list, dict or object.\<close>

datatype pyobj = ONone | OStr string | OBool bool | OInt int | OFloat pyfloat | OOther

datatype bound_value =
  VNull | VStr string | VInt int | VFloat pyfloat | VBool bool
  | VDate string | VDatetime string | VUuid string

record stdlib =
  sl_date :: "string \<Rightarrow> string option"
  sl_datetime :: "string \<Rightarrow> string option"
  sl_uuid :: "string \<Rightarrow> string option"
  sl_float_text :: "pyfloat \<Rightarrow> string"
  sl_sha256 :: "string \<Rightarrow> string"

datatype binding_error =
    B_NoDeclarations | B_TooMany | B_Mismatch "string list" "string list"
  | B_Null string | B_NotString string | B_TooLong string | B_NotInteger string
  | B_NotNumber string | B_NotFinite string | B_NotBoolean string | B_NotDate string
  | B_NotDatetime string | B_NotUuid string

text \<open>\<open>value.replace("Z", "+00:00")\<close>.\<close>

definition replace_zulu :: "string \<Rightarrow> string" where
  "replace_zulu s = concat (map (\<lambda>c. if c = CHR ''Z'' then ''+00:00'' else [c]) s)"

section \<open>Coercion\<close>

fun is_finite :: "pyfloat \<Rightarrow> bool" where
  "is_finite (PFin _) = True"
| "is_finite _ = False"

definition parse_with ::
  "(string \<Rightarrow> string option) \<Rightarrow> (string \<Rightarrow> bound_value) \<Rightarrow> binding_error \<Rightarrow> pyobj
     \<Rightarrow> binding_error + bound_value" where
  "parse_with p f e v =
     (case v of OStr s \<Rightarrow> (case p s of None \<Rightarrow> Inl e | Some c \<Rightarrow> Inr (f c)) | _ \<Rightarrow> Inl e)"

definition coerce ::
  "stdlib \<Rightarrow> query_parameter_definition \<Rightarrow> pyobj \<Rightarrow> binding_error + bound_value" where
  "coerce lib d v =
     (let n = qpd_name d
      in if v = ONone then (if qpd_nullable d then Inr VNull else Inl (B_Null n))
         else case qpd_value_type d of
           STRING_TYPE \<Rightarrow>
             (case v of OStr s \<Rightarrow> if length s > 10000 then Inl (B_TooLong n) else Inr (VStr s)
              | _ \<Rightarrow> Inl (B_NotString n))
         | INTEGER_TYPE \<Rightarrow> (case v of OInt i \<Rightarrow> Inr (VInt i) | _ \<Rightarrow> Inl (B_NotInteger n))
         | NUMBER_TYPE \<Rightarrow>
             (case v of OInt i \<Rightarrow> Inr (VInt i)
              | OFloat x \<Rightarrow> if is_finite x then Inr (VFloat x) else Inl (B_NotFinite n)
              | _ \<Rightarrow> Inl (B_NotNumber n))
         | BOOLEAN_TYPE \<Rightarrow> (case v of OBool b \<Rightarrow> Inr (VBool b) | _ \<Rightarrow> Inl (B_NotBoolean n))
         | DATE_TYPE \<Rightarrow> parse_with (sl_date lib) VDate (B_NotDate n) v
         | DATETIME_TYPE \<Rightarrow> parse_with (sl_datetime lib \<circ> replace_zulu) VDatetime (B_NotDatetime n) v
         | UUID_TYPE \<Rightarrow> parse_with (sl_uuid lib) VUuid (B_NotUuid n) v)"

section \<open>Canonical JSON\<close>

fun type_value :: "query_parameter_type \<Rightarrow> string" where
  "type_value STRING_TYPE = ''string''"
| "type_value INTEGER_TYPE = ''integer''"
| "type_value NUMBER_TYPE = ''number''"
| "type_value BOOLEAN_TYPE = ''boolean''"
| "type_value DATE_TYPE = ''date''"
| "type_value DATETIME_TYPE = ''datetime''"
| "type_value UUID_TYPE = ''uuid''"

definition hex_digit :: "nat \<Rightarrow> char" where
  "hex_digit d = (if d < 10 then char_of (48 + d) else char_of (87 + d))"

text \<open>\<open>json.dumps(..., ensure_ascii=False)\<close> on one character of a string.\<close>

definition json_escape :: "char \<Rightarrow> string" where
  "json_escape c =
     (let n = code_point c
      in if n = 34 then [CHR 0x5C, CHR 0x22]
         else if n = 92 then [CHR 0x5C, CHR 0x5C]
         else if n = 10 then [CHR 0x5C, CHR ''n'']
         else if n = 13 then [CHR 0x5C, CHR ''r'']
         else if n = 9 then [CHR 0x5C, CHR ''t'']
         else if n = 12 then [CHR 0x5C, CHR ''f'']
         else if n = 8 then [CHR 0x5C, CHR ''b'']
         else if n < 32 then [CHR 0x5C, CHR ''u'', CHR ''0'', CHR ''0'',
                              hex_digit (n div 16), hex_digit (n mod 16)]
         else [c])"

definition json_string :: "string \<Rightarrow> string" where
  "json_string s = CHR 0x22 # concat (map json_escape s) @ [CHR 0x22]"

definition json_bool :: "bool \<Rightarrow> string" where
  "json_bool b = (if b then ''true'' else ''false'')"

fun json_value :: "stdlib \<Rightarrow> bound_value \<Rightarrow> string" where
  "json_value lib VNull = ''null''"
| "json_value lib (VStr s) = json_string s"
| "json_value lib (VInt i) = show_int i"
| "json_value lib (VFloat x) = sl_float_text lib x"
| "json_value lib (VBool b) = json_bool b"
| "json_value lib (VDate s) = json_string s"
| "json_value lib (VDatetime s) = json_string s"
| "json_value lib (VUuid s) = json_string s"

record canonical_entry =
  ce_name :: string
  ce_type :: query_parameter_type
  ce_nullable :: bool
  ce_value :: bound_value

text \<open>One member of the canonical object, with its keys sorted.\<close>

definition json_entry :: "stdlib \<Rightarrow> canonical_entry \<Rightarrow> string" where
  "json_entry lib e =
     json_string (ce_name e) @ '':{'' @ json_string ''nullable'' @ '':'' @ json_bool (ce_nullable e)
       @ '','' @ json_string ''type'' @ '':'' @ json_string (type_value (ce_type e))
       @ '','' @ json_string ''value'' @ '':'' @ json_value lib (ce_value e) @ ''}''"

definition json_entries :: "stdlib \<Rightarrow> canonical_entry list \<Rightarrow> string" where
  "json_entries lib es = ''{'' @ py_join '','' (map (json_entry lib) es) @ ''}''"

section \<open>Binding\<close>

record bound_parameters =
  bp_values :: "(string \<times> bound_value) list"
  bp_names :: "string list"
  bp_value_hash :: string

text \<open>\<open>{definition.name: definition for ...}\<close>: a later definition of a name wins.\<close>

definition definitions_by_name ::
  "query_parameter_definition list \<Rightarrow> string \<Rightarrow> query_parameter_definition option" where
  "definitions_by_name ds = map_of (rev (map (\<lambda>d. (qpd_name d, d)) ds))"

text \<open>The loop over the sorted names: the first value that does not fit raises.\<close>

fun bind_entries ::
  "stdlib \<Rightarrow> (string \<Rightarrow> query_parameter_definition option) \<Rightarrow> (string \<Rightarrow> pyobj option)
     \<Rightarrow> string list \<Rightarrow> binding_error + canonical_entry list" where
  "bind_entries lib by_name supplied [] = Inr []"
| "bind_entries lib by_name supplied (n # ns) =
     (case (by_name n, supplied n) of
        (Some d, Some v) \<Rightarrow>
          (case coerce lib d v of
             Inl e \<Rightarrow> Inl e
           | Inr c \<Rightarrow>
              (case bind_entries lib by_name supplied ns of
                 Inl e \<Rightarrow> Inl e
               | Inr es \<Rightarrow> Inr (\<lparr>ce_name = n, ce_type = qpd_value_type d,
                                  ce_nullable = qpd_nullable d, ce_value = c\<rparr> # es)))
      | _ \<Rightarrow> Inl (B_Mismatch [] []))"

definition bind_query_parameters ::
  "stdlib \<Rightarrow> query_parameter_definition list \<Rightarrow> (string \<times> pyobj) list
     \<Rightarrow> binding_error + bound_parameters" where
  "bind_query_parameters lib ds supplied =
     (if ds = [] then
        (if supplied \<noteq> [] then Inl B_NoDeclarations
         else Inr \<lparr>bp_values = [], bp_names = [], bp_value_hash = sl_sha256 lib ''{}''\<rparr>)
      else if length ds > 50 then Inl B_TooMany
      else let expected = sorted_set (map qpd_name ds); received = sorted_set (map fst supplied)
           in if expected \<noteq> received
              then Inl (B_Mismatch (filter (\<lambda>n. n \<notin> set received) expected)
                                   (filter (\<lambda>n. n \<notin> set expected) received))
              else case bind_entries lib (definitions_by_name ds) (map_of supplied) expected of
                Inl e \<Rightarrow> Inl e
              | Inr es \<Rightarrow> Inr \<lparr>bp_values = map (\<lambda>e. (ce_name e, ce_value e)) es,
                               bp_names = expected,
                               bp_value_hash = sl_sha256 lib (json_entries lib es)\<rparr>)"

section \<open>Which values are accepted\<close>

fun value_fits :: "query_parameter_type \<Rightarrow> bool \<Rightarrow> bound_value \<Rightarrow> bool" where
  "value_fits ty nullable VNull = nullable"
| "value_fits ty nullable (VStr s) = (ty = STRING_TYPE \<and> length s \<le> 10000)"
| "value_fits ty nullable (VInt i) = (ty \<in> {INTEGER_TYPE, NUMBER_TYPE})"
| "value_fits ty nullable (VFloat x) = (ty = NUMBER_TYPE \<and> is_finite x)"
| "value_fits ty nullable (VBool b) = (ty = BOOLEAN_TYPE)"
| "value_fits ty nullable (VDate s) = (ty = DATE_TYPE)"
| "value_fits ty nullable (VDatetime s) = (ty = DATETIME_TYPE)"
| "value_fits ty nullable (VUuid s) = (ty = UUID_TYPE)"

lemma coerce_fits: "coerce lib d v = Inr c \<Longrightarrow> value_fits (qpd_value_type d) (qpd_nullable d) c"
  by (cases "qpd_value_type d"; cases v)
    (auto simp: coerce_def parse_with_def Let_def split: if_splits option.splits)

lemma bind_entries_sound:
  "bind_entries lib by_name supplied ns = Inr es \<Longrightarrow>
     map ce_name es = ns \<and>
     (\<forall>e \<in> set es. \<exists>d v. by_name (ce_name e) = Some d \<and> supplied (ce_name e) = Some v
        \<and> coerce lib d v = Inr (ce_value e) \<and> ce_type e = qpd_value_type d
        \<and> ce_nullable e = qpd_nullable d)"
proof (induction ns arbitrary: es)
  case Nil
  then show ?case by simp
next
  case (Cons n ns)
  from Cons.prems obtain d v c es' where
    "by_name n = Some d" "supplied n = Some v" "coerce lib d v = Inr c"
    "bind_entries lib by_name supplied ns = Inr es'"
    "es = \<lparr>ce_name = n, ce_type = qpd_value_type d, ce_nullable = qpd_nullable d, ce_value = c\<rparr> # es'"
    by (auto split: option.splits sum.splits)
  with Cons.IH show ?case by auto
qed

lemma bind_entries_complete:
  assumes "\<forall>n \<in> set ns. \<exists>d v c. by_name n = Some d \<and> supplied n = Some v \<and> coerce lib d v = Inr c"
  shows "\<exists>es. bind_entries lib by_name supplied ns = Inr es"
  using assms by (induction ns) (auto split: option.splits sum.splits)

lemma bind_entries_cong:
  "(\<And>n. n \<in> set ns \<Longrightarrow> supplied n = supplied' n) \<Longrightarrow>
     bind_entries lib by_name supplied ns = bind_entries lib by_name supplied' ns"
  by (induction ns) (auto split: option.splits sum.splits)

lemma definitions_by_name_Some:
  "definitions_by_name ds n = Some d \<Longrightarrow> d \<in> set ds \<and> qpd_name d = n"
  by (auto simp: definitions_by_name_def dest!: map_of_SomeD)

section \<open>The canonical text determines the bindings\<close>

lemma code_point_inj: "code_point a = code_point b \<Longrightarrow> a = b"
  by (simp add: code_point_def)

text \<open>Reading one escaped character back: the escape of a character determines it.\<close>

definition unhex :: "char \<Rightarrow> nat" where
  "unhex c = (let n = code_point c in if n < 58 then n - 48 else n - 87)"

fun json_unescape :: "string \<Rightarrow> char \<times> string" where
  "json_unescape (a # b # r) =
     (if a \<noteq> CHR 0x5C then (a, b # r)
      else if b = CHR ''u'' then (char_of (16 * unhex (r ! 2) + unhex (r ! 3)), drop 4 r)
      else (if b = CHR ''n'' then char_of (10::nat) else if b = CHR ''r'' then char_of (13::nat)
            else if b = CHR ''t'' then char_of (9::nat) else if b = CHR ''f'' then char_of (12::nat)
            else if b = CHR ''b'' then char_of (8::nat) else b, r))"
| "json_unescape [a] = (a, [])"
| "json_unescape [] = (CHR 0x00, [])"

lemma unhex_hex_digit: "d < 16 \<Longrightarrow> unhex (hex_digit d) = d"
  by (auto simp: unhex_def hex_digit_def code_point_def Let_def)

lemma code_point_char_of: "code_point c = n \<Longrightarrow> c = char_of n"
  by (auto simp: code_point_def)

lemma escaped_chars:
  "char_of (34::nat) = CHR 0x22" "char_of (92::nat) = CHR 0x5C" "char_of (10::nat) = CHR 0x0A"
  "char_of (13::nat) = CHR 0x0D" "char_of (9::nat) = CHR 0x09" "char_of (12::nat) = CHR 0x0C"
  "char_of (8::nat) = CHR 0x08"
  by code_simp+

lemma json_escape_special:
  "json_escape CHR 0x22 = [CHR 0x5C, CHR 0x22]" "json_escape CHR 0x5C = [CHR 0x5C, CHR 0x5C]"
  "json_escape CHR 0x0A = [CHR 0x5C, CHR ''n'']" "json_escape CHR 0x0D = [CHR 0x5C, CHR ''r'']"
  "json_escape CHR 0x09 = [CHR 0x5C, CHR ''t'']" "json_escape CHR 0x0C = [CHR 0x5C, CHR ''f'']"
  "json_escape CHR 0x08 = [CHR 0x5C, CHR ''b'']"
  by code_simp+

lemma json_unescape_plain: "a \<noteq> CHR 0x5C \<Longrightarrow> json_unescape (a # x) = (a, x)"
  by (cases x) simp_all

lemma json_unescape_escape: "json_unescape (json_escape c @ x) = (c, x)"
proof -
  let ?n = "code_point c"
  have eq: "char_of ?n = c" by (simp add: code_point_def)
  consider "?n = 34" | "?n = 92" | "?n = 10" | "?n = 13" | "?n = 9" | "?n = 12" | "?n = 8"
    | "?n < 32" "?n \<notin> {8, 9, 10, 12, 13}" | "32 \<le> ?n" "?n \<noteq> 34" "?n \<noteq> 92" by fastforce
  then show ?thesis
  proof cases
    case 8
    then have "json_escape c = [CHR 0x5C, CHR ''u'', CHR ''0'', CHR ''0'',
        hex_digit (?n div 16), hex_digit (?n mod 16)]"
      by (simp add: json_escape_def Let_def)
    moreover have "unhex (hex_digit (?n div 16)) = ?n div 16"
      using 8(1) by (intro unhex_hex_digit) linarith
    moreover have "unhex (hex_digit (?n mod 16)) = ?n mod 16" by (intro unhex_hex_digit) simp
    ultimately show ?thesis using eq by simp
  next
    case 9
    then have "c \<noteq> CHR 0x5C" by (auto simp: code_point_def)
    then show ?thesis using 9 by (simp add: json_escape_def json_unescape_plain Let_def)
  qed (drule code_point_char_of, simp add: escaped_chars json_escape_special)+
qed

lemma json_escape_prefix:
  assumes "json_escape c @ x = json_escape d @ y"
  shows "c = d \<and> x = y"
  by (metis assms json_unescape_escape prod.inject)

lemma json_escape_hd: "\<exists>h t. json_escape c = h # t \<and> h \<noteq> CHR 0x22"
proof -
  have "code_point CHR 0x22 = 34" by (simp add: code_point_def)
  then show ?thesis by (auto simp: json_escape_def Let_def)
qed

lemma json_body_prefix:
  "concat (map json_escape a) @ CHR 0x22 # r = concat (map json_escape b) @ CHR 0x22 # s
     \<Longrightarrow> a = b \<and> r = s"
proof (induction a arbitrary: b)
  case Nil
  then show ?case
  proof (cases b)
    case (Cons d ds)
    then show ?thesis using Nil json_escape_hd[of d] by auto
  qed simp
next
  case (Cons c a)
  show ?case
  proof (cases b)
    case Nil
    then show ?thesis using Cons.prems json_escape_hd[of c] by auto
  next
    case b: (Cons d ds)
    then have "json_escape c @ (concat (map json_escape a) @ CHR 0x22 # r)
        = json_escape d @ (concat (map json_escape ds) @ CHR 0x22 # s)"
      using Cons.prems by simp
    then have "c = d" "concat (map json_escape a) @ CHR 0x22 # r = concat (map json_escape ds) @ CHR 0x22 # s"
      using json_escape_prefix by blast+
    then show ?thesis using Cons.IH b by simp
  qed
qed

lemma json_string_prefix: "json_string a @ r = json_string b @ s \<Longrightarrow> a = b \<and> r = s"
  by (auto simp: json_string_def dest: json_body_prefix)

lemma json_bool_prefix: "json_bool a @ r = json_bool b @ s \<Longrightarrow> a = b \<and> r = s"
  by (cases a; cases b) (simp_all add: json_bool_def)

lemma type_value_inj: "type_value a = type_value b \<Longrightarrow> a = b"
  by (cases a; cases b) simp_all

text \<open>
  What the digest relies on about the text of floats: finite floats have different texts,
  no such text contains a brace, starts a string or a literal, or is the text of an integer.
\<close>

definition float_text_ok :: "(pyfloat \<Rightarrow> string) \<Rightarrow> bool" where
  "float_text_ok f =
     ((\<forall>x y. is_finite x \<and> is_finite y \<and> f x = f y \<longrightarrow> x = y)
      \<and> (\<forall>x. is_finite x \<longrightarrow> CHR ''}'' \<notin> set (f x) \<and> f x \<noteq> []
              \<and> hd (f x) \<notin> {CHR 0x22, CHR ''n'', CHR ''t'', CHR ''f''}
              \<and> (\<forall>i. f x \<noteq> show_int i)))"

lemma show_int_chars: "c \<in> set (show_int i) \<Longrightarrow> py_isdigit_ascii c \<or> c = CHR ''-''"
  by (auto simp: show_int_def dest: show_nat_digits split: if_splits)

lemma show_int_nonempty [simp]: "show_int i \<noteq> []"
  by (simp add: show_int_def)

lemma hd_show_int: "hd (show_int i) \<notin> {CHR 0x22, CHR ''n'', CHR ''t'', CHR ''f''}"
proof -
  have "hd (show_int i) \<in> set (show_int i)" by simp
  then have "py_isdigit_ascii (hd (show_int i)) \<or> hd (show_int i) = CHR ''-''"
    by (rule show_int_chars)
  then show ?thesis by (auto simp: py_isdigit_ascii_def code_point_def)
qed

lemma show_int_no_brace: "CHR ''}'' \<notin> set (show_int i)"
proof
  assume "CHR ''}'' \<in> set (show_int i)"
  then have "py_isdigit_ascii CHR ''}'' \<or> CHR ''}'' = CHR ''-''" by (rule show_int_chars)
  then show False by (simp add: py_isdigit_ascii_def code_point_def)
qed

text \<open>The texts of two values of one declared type are told apart by what follows them.\<close>

lemma until_brace:
  "CHR ''}'' \<notin> set a \<Longrightarrow> CHR ''}'' \<notin> set b \<Longrightarrow> a @ CHR ''}'' # r = b @ CHR ''}'' # s
     \<Longrightarrow> a = b \<and> r = s"
  using takeWhile_until[of "CHR ''}''" a r] takeWhile_until[of "CHR ''}''" b s] by simp

definition text_kind :: "bound_value \<Rightarrow> nat" where
  "text_kind v = (case v of VNull \<Rightarrow> 0 | VBool True \<Rightarrow> 1 | VBool False \<Rightarrow> 2
     | VInt _ \<Rightarrow> 3 | VFloat _ \<Rightarrow> 3 | _ \<Rightarrow> 4)"

definition head_kind :: "char \<Rightarrow> nat" where
  "head_kind c = (if c = CHR ''n'' then 0 else if c = CHR ''t'' then 1
     else if c = CHR ''f'' then 2 else if c = CHR 0x22 then 4 else 3)"

lemma json_value_head:
  assumes "float_text_ok (sl_float_text lib)" "value_fits ty nullable v"
  shows "json_value lib v \<noteq> [] \<and> head_kind (hd (json_value lib v)) = text_kind v"
proof (cases v)
  case (VInt i)
  then show ?thesis using hd_show_int[of i] by (simp add: text_kind_def head_kind_def)
next
  case (VFloat x)
  then show ?thesis using assms by (auto simp: float_text_ok_def text_kind_def head_kind_def)
next
  case (VBool b)
  then show ?thesis by (cases b) (simp_all add: json_bool_def text_kind_def head_kind_def)
qed (simp_all add: json_string_def text_kind_def head_kind_def)

lemma json_number_no_brace:
  assumes "float_text_ok (sl_float_text lib)" "value_fits ty nullable v" "text_kind v = 3"
  shows "CHR ''}'' \<notin> set (json_value lib v)"
  using assms show_int_no_brace
  by (cases v) (auto simp: text_kind_def float_text_ok_def split: bool.splits)

lemma json_number_inj:
  assumes "float_text_ok (sl_float_text lib)" "value_fits ty nullable v" "value_fits ty nullable w"
    "text_kind v = 3" "text_kind w = 3" "json_value lib v = json_value lib w"
  shows "v = w"
proof -
  have ne: "sl_float_text lib x \<noteq> show_int i" "show_int i \<noteq> sl_float_text lib x"
    if "is_finite x" for x i using assms(1) that unfolding float_text_ok_def by metis+
  have fl: "x = y" if "is_finite x" "is_finite y" "sl_float_text lib x = sl_float_text lib y" for x y
    using assms(1) that unfolding float_text_ok_def by blast
  show ?thesis using assms(2-6) ne fl
    by (cases v; cases w) (auto simp: text_kind_def dest: show_int_inj split: bool.splits)
qed

lemma json_value_prefix:
  assumes ok: "float_text_ok (sl_float_text lib)"
    and fits: "value_fits ty nullable v" "value_fits ty nullable w"
    and eq: "json_value lib v @ CHR ''}'' # r = json_value lib w @ CHR ''}'' # s"
  shows "v = w \<and> r = s"
proof -
  note hv = json_value_head[OF ok fits(1)] and hw = json_value_head[OF ok fits(2)]
  have "hd (json_value lib v) = hd (json_value lib w)"
    using arg_cong[OF eq, of hd] hv hw by simp
  then have kind: "text_kind v = text_kind w" using hv hw by metis
  show ?thesis
  proof (cases "text_kind v = 3")
    case True
    then have "json_value lib v = json_value lib w \<and> r = s"
      using until_brace[OF _ _ eq] json_number_no_brace[OF ok] fits kind by metis
    then show ?thesis using json_number_inj[OF ok fits] True kind by simp
  next
    case False
    then show ?thesis using kind fits eq
      by (cases v; cases w)
        (auto simp: text_kind_def json_bool_def dest: json_string_prefix split: bool.splits)
  qed
qed

definition entry_fits :: "canonical_entry \<Rightarrow> bool" where
  "entry_fits e = value_fits (ce_type e) (ce_nullable e) (ce_value e)"

lemma json_entry_prefix:
  assumes "float_text_ok (sl_float_text lib)" "entry_fits a" "entry_fits b"
    and eq: "json_entry lib a @ r = json_entry lib b @ s"
  shows "a = b \<and> r = s"
proof -
  have name: "ce_name a = ce_name b" and r1:
    "'':{'' @ json_string ''nullable'' @ '':'' @ json_bool (ce_nullable a)
       @ '','' @ json_string ''type'' @ '':'' @ json_string (type_value (ce_type a))
       @ '','' @ json_string ''value'' @ '':'' @ json_value lib (ce_value a) @ ''}'' @ r
     = '':{'' @ json_string ''nullable'' @ '':'' @ json_bool (ce_nullable b)
       @ '','' @ json_string ''type'' @ '':'' @ json_string (type_value (ce_type b))
       @ '','' @ json_string ''value'' @ '':'' @ json_value lib (ce_value b) @ ''}'' @ s"
    using json_string_prefix[OF eq[unfolded json_entry_def append_assoc]] by simp_all
  then have "json_bool (ce_nullable a) @ '','' @ json_string ''type'' @ '':''
       @ json_string (type_value (ce_type a))
       @ '','' @ json_string ''value'' @ '':'' @ json_value lib (ce_value a) @ ''}'' @ r
     = json_bool (ce_nullable b) @ '','' @ json_string ''type'' @ '':''
       @ json_string (type_value (ce_type b))
       @ '','' @ json_string ''value'' @ '':'' @ json_value lib (ce_value b) @ ''}'' @ s"
    by (simp only: same_append_eq)
  then have nullable: "ce_nullable a = ce_nullable b" and
    "json_string (type_value (ce_type a)) @ '','' @ json_string ''value'' @ '':''
       @ json_value lib (ce_value a) @ ''}'' @ r
     = json_string (type_value (ce_type b)) @ '','' @ json_string ''value'' @ '':''
       @ json_value lib (ce_value b) @ ''}'' @ s"
    using json_bool_prefix by (metis same_append_eq)+
  then have ty: "ce_type a = ce_type b" and
    "json_value lib (ce_value a) @ ''}'' @ r = json_value lib (ce_value b) @ ''}'' @ s"
    using json_string_prefix type_value_inj by (metis same_append_eq)+
  then have "ce_value a = ce_value b \<and> r = s"
    using json_value_prefix[OF assms(1), of "ce_type a" "ce_nullable a" "ce_value a" "ce_value b" r s]
      assms(2,3) nullable ty by (simp add: entry_fits_def)
  then show ?thesis using name nullable ty by simp
qed

lemma json_entry_nonempty: "\<exists>t. json_entry lib e = CHR 0x22 # t"
  by (simp add: json_entry_def json_string_def)

lemma json_join_prefix:
  assumes ok: "float_text_ok (sl_float_text lib)"
  shows "\<forall>e \<in> set as. entry_fits e \<Longrightarrow> \<forall>e \<in> set bs. entry_fits e \<Longrightarrow>
    py_join '','' (map (json_entry lib) as) @ ''}'' = py_join '','' (map (json_entry lib) bs) @ ''}''
      \<Longrightarrow> as = bs"
proof (induction as arbitrary: bs)
  case Nil
  show ?case
  proof (cases bs)
    case (Cons b bs')
    then show ?thesis using Nil.prems(3) json_entry_nonempty[of lib b] by (cases bs') auto
  qed simp
next
  case (Cons a as)
  show ?case
  proof (cases bs)
    case Nil
    then show ?thesis using Cons.prems(3) json_entry_nonempty[of lib a] by (cases as) auto
  next
    case bs: (Cons b bs')
    define rest where "rest xs = (case xs of [] \<Rightarrow> ''}''
        | _ \<Rightarrow> '','' @ py_join '','' (map (json_entry lib) xs) @ ''}'')" for xs
    have split: "py_join '','' (map (json_entry lib) (x # xs)) @ ''}'' = json_entry lib x @ rest xs"
      for x xs by (cases xs) (simp_all add: rest_def)
    have "json_entry lib a @ rest as = json_entry lib b @ rest bs'"
      using Cons.prems(3) unfolding bs split .
    then have "a = b \<and> rest as = rest bs'"
      using json_entry_prefix[OF ok, of a b "rest as" "rest bs'"] Cons.prems(1,2) bs by simp
    then have ab: "a = b" and r: "rest as = rest bs'" by simp_all
    have "as = bs'"
    proof (cases "as = [] \<or> bs' = []")
      case True
      then show ?thesis using r by (cases as; cases bs') (auto simp: rest_def)
    next
      case False
      then have "py_join '','' (map (json_entry lib) as) @ ''}''
          = py_join '','' (map (json_entry lib) bs') @ ''}''"
        using r by (cases as; cases bs') (auto simp: rest_def)
      then show ?thesis using Cons.IH[of bs'] Cons.prems(1,2) bs by simp
    qed
    then show ?thesis using ab bs by simp
  qed
qed

lemma json_entries_inj:
  assumes "float_text_ok (sl_float_text lib)"
    and "\<forall>e \<in> set as. entry_fits e" "\<forall>e \<in> set bs. entry_fits e"
    and "json_entries lib as = json_entries lib bs"
  shows "as = bs"
  using assms(4) by (intro json_join_prefix[OF assms(1-3)]) (simp add: json_entries_def)

section \<open>The bindings\<close>

lemma bind_query_parameters_cases:
  assumes "bind_query_parameters lib ds supplied = Inr b" "ds \<noteq> []"
  obtains es where
    "bind_entries lib (definitions_by_name ds) (map_of supplied) (sorted_set (map qpd_name ds)) = Inr es"
    "bp_values b = map (\<lambda>e. (ce_name e, ce_value e)) es" "bp_names b = sorted_set (map qpd_name ds)"
    "bp_value_hash b = sl_sha256 lib (json_entries lib es)"
    "set (map qpd_name ds) = set (map fst supplied)" "length ds \<le> 50"
proof -
  have eq: "set (map qpd_name ds) = set (map fst supplied)"
    if "sorted_set (map qpd_name ds) = sorted_set (map fst supplied)"
    using that by (metis sorted_set_props(1))
  show ?thesis
    using assms that eq by (auto simp: bind_query_parameters_def Let_def split: if_splits sum.splits)
qed

text \<open>
  C34: a successful binding gives each declared parameter, in name order and no other, a
  value of its declared type: a string of at most 10000 characters, an integer that is not
  a Boolean, a finite number, a Boolean, a parsed date, datetime or UUID, or null where
  the declaration allows it.  The values are those the caller supplied under these names.
\<close>

theorem bound_values_fit_declarations:
  assumes "bind_query_parameters lib ds supplied = Inr b"
  shows "map fst (bp_values b) = bp_names b \<and> bp_names b = sorted_set (map qpd_name ds)
    \<and> set (bp_names b) = set (map fst supplied)
    \<and> (\<forall>(n, v) \<in> set (bp_values b). \<exists>d \<in> set ds. qpd_name d = n
          \<and> value_fits (qpd_value_type d) (qpd_nullable d) v
          \<and> (\<exists>x. map_of supplied n = Some x \<and> coerce lib d x = Inr v))"
proof (cases "ds = []")
  case True
  then show ?thesis using assms by (auto simp: bind_query_parameters_def sorted_set_def split: if_splits)
next
  case False
  obtain es where es:
    "bind_entries lib (definitions_by_name ds) (map_of supplied) (sorted_set (map qpd_name ds)) = Inr es"
    "bp_values b = map (\<lambda>e. (ce_name e, ce_value e)) es" "bp_names b = sorted_set (map qpd_name ds)"
    "set (map qpd_name ds) = set (map fst supplied)"
    using bind_query_parameters_cases[OF assms False] by metis
  note sound = bind_entries_sound[OF es(1)]
  have "\<exists>d \<in> set ds. qpd_name d = ce_name e \<and> value_fits (qpd_value_type d) (qpd_nullable d) (ce_value e)
      \<and> (\<exists>x. map_of supplied (ce_name e) = Some x \<and> coerce lib d x = Inr (ce_value e))"
    if "e \<in> set es" for e
    using sound that definitions_by_name_Some coerce_fits by blast
  moreover have "map fst (bp_values b) = bp_names b" using es(2,3) sound by (simp add: comp_def)
  ultimately show ?thesis using es by auto
qed

lemma bind_entries_fit:
  assumes "bind_entries lib by_name supplied ns = Inr es"
  shows "\<forall>e \<in> set es. entry_fits e"
proof
  fix e assume "e \<in> set es"
  then obtain d v where "coerce lib d v = Inr (ce_value e)" "ce_type e = qpd_value_type d"
    "ce_nullable e = qpd_nullable d"
    using bind_entries_sound[OF assms] by blast
  then show "entry_fits e" using coerce_fits by (simp add: entry_fits_def)
qed


text \<open>
  A concrete instance of the parameters of the model: finite floats are written as their
  numerator and denominator.
\<close>

definition ratio_text :: "pyfloat \<Rightarrow> string" where
  "ratio_text x = (case x of PFin q \<Rightarrow> show_int (fst (quotient_of q)) @ ''.'' @ show_int (snd (quotient_of q))
                    | _ \<Rightarrow> ''nan'')"

lemma show_int_no_dot: "CHR ''.'' \<notin> set (show_int i)"
  using show_int_chars[of "CHR ''.''" i] by (auto simp: py_isdigit_ascii_def code_point_def)

lemma ratio_text_ok: "float_text_ok ratio_text"
proof -
  have inj: "x = y" if xy: "is_finite x" "is_finite y" "ratio_text x = ratio_text y" for x y
  proof -
    obtain p q where pq: "x = PFin p" "y = PFin q" using xy by (cases x; cases y) auto
    obtain a b c d where ab: "quotient_of p = (a, b)" "quotient_of q = (c, d)" by fastforce
    have eq: "show_int a @ CHR ''.'' # show_int b = show_int c @ CHR ''.'' # show_int d"
      using xy(3) pq ab by (simp add: ratio_text_def)
    have "show_int a = show_int c"
      using arg_cong[OF eq, of "takeWhile (\<lambda>x. x \<noteq> CHR ''.'')"] by (simp add: takeWhile_until show_int_no_dot)
    moreover from this have "show_int b = show_int d" using eq by simp
    ultimately have "quotient_of p = quotient_of q" using ab show_int_inj by metis
    then show ?thesis using pq quotient_of_inject by metis
  qed
  have shape: "CHR ''}'' \<notin> set (ratio_text x) \<and> ratio_text x \<noteq> []
      \<and> hd (ratio_text x) \<notin> {CHR 0x22, CHR ''n'', CHR ''t'', CHR ''f''} \<and> (\<forall>i. ratio_text x \<noteq> show_int i)"
    if fin: "is_finite x" for x
  proof -
    obtain p where p: "x = PFin p" using fin by (cases x) auto
    have dot: "CHR ''.'' \<in> set (ratio_text x)" by (simp add: p ratio_text_def)
    let ?n = "show_int (fst (quotient_of p))"
    have chars: "c \<in> set (ratio_text x) \<Longrightarrow> py_isdigit_ascii c \<or> c = CHR ''-'' \<or> c = CHR ''.''" for c
      using show_int_chars by (auto simp: p ratio_text_def)
    have hd: "hd (ratio_text x) \<in> set (ratio_text x)" by (simp add: p ratio_text_def)
    have "c \<notin> set (ratio_text x)" if "c \<in> {CHR ''}'', CHR 0x22, CHR ''n'', CHR ''t'', CHR ''f''}" for c
      using chars[of c] that by (auto simp: py_isdigit_ascii_def code_point_def)
    then show ?thesis using hd dot show_int_no_dot by (metis insertCI empty_iff list.set(1))
  qed
  show ?thesis using inj shape unfolding float_text_ok_def by blast
qed

definition ratio_lib :: stdlib where
  "ratio_lib = \<lparr>sl_date = Some, sl_datetime = Some, sl_uuid = Some, sl_float_text = ratio_text,
     sl_sha256 = (\<lambda>s. s)\<rparr>"

definition sample_declarations :: "query_parameter_definition list" where
  "sample_declarations =
     [\<lparr>qpd_name = ''since'', qpd_value_type = DATE_TYPE, qpd_nullable = False\<rparr>,
      \<lparr>qpd_name = ''limit'', qpd_value_type = INTEGER_TYPE, qpd_nullable = True\<rparr>]"

definition sample_bindings :: bound_parameters where
  "sample_bindings = projr (bind_query_parameters ratio_lib sample_declarations
     [(''since'', OStr ''2024-01-01''), (''limit'', ONone)])"

lemma sample_bindings_ok:
  "bind_query_parameters ratio_lib sample_declarations [(''since'', OStr ''2024-01-01''), (''limit'', ONone)]
     = Inr sample_bindings"
  "bind_query_parameters ratio_lib sample_declarations [(''limit'', ONone), (''since'', OStr ''2024-01-01'')]
     = Inr sample_bindings"
  by code_simp+

theorem bound_values_fit_declarations_witness:
  "bp_names sample_bindings = sorted_set (map qpd_name sample_declarations)
    \<and> map fst (bp_values sample_bindings) = bp_names sample_bindings"
  using bound_values_fit_declarations[OF sample_bindings_ok(1)] by blast


end
