(* ===== verification/Result_Processor.thy ===== *)
theory Result_Processor
  imports Query_Request
begin

text \<open>
  \<open>packages/result_engine/sqlverity_result_engine/processor.py\<close>: the deterministic result
  processor, which classifies every output column, masks the columns above the visible
  classification and renders a local summary.

  A cell is a Python value; a value whose text the standard library produces (a decimal in
  fixed point, a finite float, a date, a container, any other object) is represented by that
  text.  A row is the association list of a dict, in its order.  The ellipsis character,
  which lies above the modelled code points, is represented by code point 133.
\<close>

section \<open>Results, answers and reports\<close>

datatype cell =
    Cell_None | Cell_Bool bool | Cell_Decimal string | Cell_Float string | Cell_NonFinite
  | Cell_Temporal string | Cell_Bytes string | Cell_Container string | Cell_Int int
  | Cell_Other string

type_synonym result_row = "(string \<times> cell) list"

record read_only_result =
  ro_columns :: "string list"
  ro_rows :: "result_row list"
  ro_row_count :: int
  ro_truncated :: bool
  ro_truncation_reason :: "string option"
  ro_result_bytes :: int
  ro_elapsed_ms :: int

datatype result_shape = EMPTY_SHAPE | SINGLE_VALUE | SINGLE_ROW | TABLE_SHAPE

record classification_count =
  cc_classification :: classification
  cc_column_count :: nat

record deterministic_answer =
  da_shape :: result_shape
  da_summary :: string
  da_deterministic :: bool

record result_privacy_report =
  rp_processing_mode :: string
  rp_maximum_classification :: classification
  rp_classification_counts :: "classification_count list"
  rp_raw_rows_sent_to_llm :: bool
  rp_llm_interpretation_used :: bool
  rp_masked_output_columns :: "string list"
  rp_output_lineage_complete :: bool
  rp_warnings :: "string list"

record result_provenance =
  pv_request_id :: string
  pv_data_source_id :: string
  pv_data_source_name :: string
  pv_catalog_version_id :: string
  pv_sql :: string
  pv_tables :: "string list"
  pv_columns :: "string list"
  pv_business_concepts :: "string list"
  pv_metrics :: "string list"
  pv_business_rules :: "string list"
  pv_assumptions :: "string list"
  pv_approved_by :: "string option"
  pv_approved_at :: "timestamp option"
  pv_executed_at :: timestamp
  pv_provider_id :: "string option"
  pv_model_id :: "string option"
  pv_llm_usage_event_id :: "string option"
  pv_estimated_llm_cost :: "string option"
  pv_actual_llm_cost :: "string option"
  pv_estimated_db_cost :: "pyfloat option"
  pv_estimated_db_rows :: "int option"
  pv_row_count :: int
  pv_truncated :: bool
  pv_truncation_reason :: "string option"
  pv_result_bytes :: int
  pv_execution_elapsed_ms :: int
  pv_parameter_names :: "string list"

record processed_query_result =
  pq_result :: read_only_result
  pq_answer :: deterministic_answer
  pq_privacy :: result_privacy_report
  pq_provenance :: result_provenance

record processor_config =
  pc_maximum_visible :: classification
  pc_maximum_summary_characters :: int

text \<open>The constructor's check, and the lookups of \<open>rows[0]\<close> and its first value that may raise.\<close>

datatype processor_error = PE_SummaryCharacters | PE_NoFirstRow | PE_NoFirstValue

definition processor_config_init :: "processor_config \<Rightarrow> processor_error + unit" where
  "processor_config_init c =
     raise_if (\<not> (20 \<le> pc_maximum_summary_characters c \<and> pc_maximum_summary_characters c \<le> 2000))
       PE_SummaryCharacters"

section \<open>Classification of the output columns\<close>

definition maximum_classification :: "classification list \<Rightarrow> classification" where
  "maximum_classification vs = (if vs = [] then INTERNAL else Max (set vs))"

definition above_visible :: "classification \<Rightarrow> classification \<Rightarrow> bool" where
  "above_visible c visible = (classification_rank visible < classification_rank c)"

definition classification_or_highest ::
  "(string \<Rightarrow> classification option) \<Rightarrow> string \<Rightarrow> classification" where
  "classification_or_highest classifications ref =
     (case classifications ref of None \<Rightarrow> HIGHLY_SENSITIVE | Some c \<Rightarrow> c)"

definition output_lineage_complete :: "string list \<Rightarrow> string list \<Rightarrow> bool" where
  "output_lineage_complete columns refs =
     (\<forall>c \<in> set columns. count_list (map rsplit_last refs) c = 1)"

text \<open>
  The classification of each output column, when its sources are known: from the recorded
  lineage if the request has one that matches the result, otherwise from the one
  referenced column of the same name.  A dictionary comprehension keeps the last entry of
  a repeated key, hence the reversed lists.
\<close>

definition lineage_matches :: "query_request \<Rightarrow> string list \<Rightarrow> bool" where
  "lineage_matches q columns =
     (let names = set (map ocl_output_name (qr_output_lineage q))
      in qr_output_lineage_complete q
         \<and> length columns = card (set columns) \<and> card (set columns) = card names
         \<and> names = set columns)"

definition lineage_classification ::
  "query_request \<Rightarrow> (string \<Rightarrow> classification option) \<Rightarrow> string \<Rightarrow> classification" where
  "lineage_classification q classifications c =
     maximum_classification (map (classification_or_highest classifications)
       (case map_of (rev (map (\<lambda>i. (ocl_output_name i, i)) (qr_output_lineage q))) c of
          None \<Rightarrow> [] | Some i \<Rightarrow> ocl_source_columns i))"

definition name_classification ::
  "query_request \<Rightarrow> (string \<Rightarrow> classification option) \<Rightarrow> string \<Rightarrow> classification" where
  "name_classification q classifications c =
     (case map_of (rev (map (\<lambda>r. (rsplit_last r, r)) (qr_referenced_columns q))) c of
        None \<Rightarrow> HIGHLY_SENSITIVE
      | Some r \<Rightarrow> classification_or_highest classifications r)"

definition output_classifications ::
  "query_request \<Rightarrow> string list \<Rightarrow> (string \<Rightarrow> classification option)
     \<Rightarrow> (string \<Rightarrow> classification option) \<times> bool" where
  "output_classifications q columns classifications =
     (if qr_output_lineage q \<noteq> [] then
        (if \<not> lineage_matches q columns then (Map.empty, False)
         else (map_of (map (\<lambda>c. (c, lineage_classification q classifications c)) columns), True))
      else if \<not> output_lineage_complete columns (qr_referenced_columns q) then (Map.empty, False)
      else (map_of (map (\<lambda>c. (c, name_classification q classifications c)) columns), True))"

section \<open>The summary\<close>

definition ellipsis :: string where
  "ellipsis = [CHR 0x85]"

fun render_value :: "cell \<Rightarrow> string" where
  "render_value Cell_None = ''NULL''"
| "render_value (Cell_Bool b) = (if b then ''true'' else ''false'')"
| "render_value (Cell_Decimal s) = s"
| "render_value (Cell_Float s) = s"
| "render_value Cell_NonFinite = ''non-finite number''"
| "render_value (Cell_Temporal s) = s"
| "render_value (Cell_Bytes s) = ''<'' @ show_nat (length s) @ '' bytes>''"
| "render_value (Cell_Container s) = s"
| "render_value (Cell_Int i) = show_int i"
| "render_value (Cell_Other s) = s"

definition format_value :: "cell \<Rightarrow> int \<Rightarrow> string \<times> bool" where
  "format_value v maximum =
     (let rendered = render_value v
      in if int (length rendered) \<le> maximum then (rendered, False)
         else (take (nat (maximum - 1)) rendered @ ellipsis, True))"

definition result_shape_of :: "read_only_result \<Rightarrow> result_shape" where
  "result_shape_of r =
     (if ro_row_count r = 0 then EMPTY_SHAPE
      else if ro_row_count r = 1 \<and> length (ro_columns r) = 1 then SINGLE_VALUE
      else if ro_row_count r = 1 then SINGLE_ROW
      else TABLE_SHAPE)"

definition with_truncation :: "read_only_result \<Rightarrow> string \<Rightarrow> string" where
  "with_truncation r summary =
     (if ro_truncated r
      then summary @ '' The result was truncated by ''
             @ (case ro_truncation_reason r of None \<Rightarrow> ''None'' | Some s \<Rightarrow> s) @ ''.''
      else summary)"

definition answer_with ::
  "read_only_result \<Rightarrow> string \<Rightarrow> string list \<Rightarrow> deterministic_answer \<times> string list" where
  "answer_with r summary warnings =
     (\<lparr>da_shape = result_shape_of r, da_summary = with_truncation r summary,
       da_deterministic = True\<rparr>, warnings)"

definition answer_of ::
  "processor_config \<Rightarrow> read_only_result \<Rightarrow> classification \<Rightarrow> bool
     \<Rightarrow> processor_error + deterministic_answer \<times> string list" where
  "answer_of cfg r maximum masked =
     (case result_shape_of r of
        EMPTY_SHAPE \<Rightarrow> Inr (answer_with r ''The query returned no rows.'' [])
      | shape \<Rightarrow>
         if masked then
           Inr (answer_with r (''The query returned '' @ show_int (ro_row_count r)
                  @ '' row(s); values are redacted at classification ''
                  @ classification_value maximum @ ''.'') [])
         else (case shape of
           SINGLE_VALUE \<Rightarrow>
             (case ro_rows r of
                [] \<Rightarrow> Inl PE_NoFirstRow
              | [] # _ \<Rightarrow> Inl PE_NoFirstValue
              | ((_, v) # _) # _ \<Rightarrow>
                  let (rendered, truncated) = format_value v (pc_maximum_summary_characters cfg)
                  in Inr (answer_with r (''The query returned one value: '' @ rendered @ ''.'')
                        (if truncated then [''single_value_summary_truncated''] else [])))
         | SINGLE_ROW \<Rightarrow>
             Inr (answer_with r (''The query returned one row with ''
                    @ show_nat (length (ro_columns r)) @ '' columns.'') [])
         | _ \<Rightarrow>
             Inr (answer_with r (''The query returned '' @ show_int (ro_row_count r)
                    @ '' rows across '' @ show_nat (length (ro_columns r)) @ '' columns.'') [])))"

section \<open>Processing\<close>

definition redact_cell :: "string set \<Rightarrow> string \<times> cell \<Rightarrow> string \<times> cell" where
  "redact_cell masked kv =
     (fst kv, if snd kv = Cell_None then Cell_None
              else if fst kv \<in> masked then Cell_Other ''[REDACTED]'' else snd kv)"

definition missing_warnings ::
  "(string \<Rightarrow> classification option) \<Rightarrow> string list \<Rightarrow> string list" where
  "missing_warnings classifications refs =
     map (\<lambda>r. ''classification_missing:'' @ r) (filter (\<lambda>r. classifications r = None) refs)"

definition classification_counts :: "classification list \<Rightarrow> classification_count list" where
  "classification_counts cs =
     map (\<lambda>c. \<lparr>cc_classification = c, cc_column_count = count_list cs c\<rparr>)
       (filter (\<lambda>c. count_list cs c \<noteq> 0) all_classifications)"

definition masked_columns ::
  "classification \<Rightarrow> query_request \<Rightarrow> read_only_result \<Rightarrow> (string \<Rightarrow> classification option)
     \<Rightarrow> string list" where
  "masked_columns visible q r classifications =
     (let (by_column, complete) = output_classifications q (ro_columns r) classifications;
          maximum = maximum_classification
            (map (classification_or_highest classifications) (qr_referenced_columns q))
      in if complete
         then filter (\<lambda>c. above_visible (the (by_column c)) visible) (ro_columns r)
         else if above_visible maximum visible then ro_columns r else [])"

definition provenance_of ::
  "query_request \<Rightarrow> data_source \<Rightarrow> read_only_result \<Rightarrow> llm_usage_event option \<Rightarrow> timestamp
     \<Rightarrow> result_provenance" where
  "provenance_of q d r usage now =
     \<lparr>pv_request_id = qr_id q, pv_data_source_id = ds_id d, pv_data_source_name = ds_name d,
      pv_catalog_version_id = qr_catalog_version_id q,
      pv_sql = (case qr_normalized_sql q of None \<Rightarrow> qr_sql_text q
                | Some s \<Rightarrow> if s = [] then qr_sql_text q else s),
      pv_tables = qr_referenced_tables q, pv_columns = qr_referenced_columns q,
      pv_business_concepts = qr_business_concepts q, pv_metrics = qr_metrics q,
      pv_business_rules = qr_business_rules q, pv_assumptions = qr_assumptions q,
      pv_approved_by = qr_approved_by q, pv_approved_at = qr_approved_at q,
      pv_executed_at = now, pv_provider_id = qr_provider_id q, pv_model_id = qr_model_id q,
      pv_llm_usage_event_id = qr_llm_usage_event_id q,
      pv_estimated_llm_cost = Option.bind usage lue_estimated_cost,
      pv_actual_llm_cost = Option.bind usage lue_actual_cost,
      pv_estimated_db_cost = qr_estimated_db_cost q, pv_estimated_db_rows = qr_estimated_db_rows q,
      pv_row_count = ro_row_count r, pv_truncated = ro_truncated r,
      pv_truncation_reason = ro_truncation_reason r, pv_result_bytes = ro_result_bytes r,
      pv_execution_elapsed_ms = ro_elapsed_ms r, pv_parameter_names = qr_parameter_names q\<rparr>"

definition process_result ::
  "processor_config \<Rightarrow> query_request \<Rightarrow> data_source \<Rightarrow> read_only_result
     \<Rightarrow> (string \<Rightarrow> classification option) \<Rightarrow> llm_usage_event option \<Rightarrow> timestamp
     \<Rightarrow> processor_error + processed_query_result" where
  "process_result cfg q d r classifications usage now =
     (let refs = qr_referenced_columns q;
          cs = map (classification_or_highest classifications) refs;
          maximum = maximum_classification cs;
          complete = snd (output_classifications q (ro_columns r) classifications);
          masked = masked_columns (pc_maximum_visible cfg) q r classifications;
          warnings = missing_warnings classifications refs
            @ (if \<not> complete \<and> ro_columns r \<noteq> [] then [''output_column_lineage_is_conservative'']
               else [])
            @ (if masked \<noteq> [] then [''values_redacted_by_local_display_policy''] else []);
          safe = r\<lparr>ro_rows := if masked \<noteq> [] then map (map (redact_cell (set masked))) (ro_rows r)
                            else ro_rows r\<rparr>
      in case answer_of cfg safe maximum (masked \<noteq> []) of
           Inl e \<Rightarrow> Inl e
         | Inr (answer, answer_warnings) \<Rightarrow> Inr
            \<lparr>pq_result = safe, pq_answer = answer,
             pq_privacy =
               \<lparr>rp_processing_mode = ''deterministic_local'', rp_maximum_classification = maximum,
                rp_classification_counts = classification_counts cs,
                rp_raw_rows_sent_to_llm = False, rp_llm_interpretation_used = False,
                rp_masked_output_columns = masked, rp_output_lineage_complete = complete,
                rp_warnings = dedupe (warnings @ answer_warnings)\<rparr>,
             pq_provenance = provenance_of q d r usage now\<rparr>)"

section \<open>Masking\<close>

lemma maximum_classification_ge: "c \<in> set cs \<Longrightarrow> c \<le> maximum_classification cs"
  by (auto simp: maximum_classification_def)

lemma above_visible_iff: "above_visible c visible \<longleftrightarrow> visible < c"
  by (simp add: above_visible_def classification_less_iff)

lemma above_visible_mono: "above_visible c visible \<Longrightarrow> c \<le> c' \<Longrightarrow> above_visible c' visible"
  by (auto simp: above_visible_iff)

lemma above_visible_maximum:
  assumes "above_visible (f x) visible" "x \<in> set xs"
  shows "above_visible (maximum_classification (map f xs)) visible"
  by (rule above_visible_mono[OF assms(1)], rule maximum_classification_ge) (simp add: assms(2))

text \<open>A dictionary comprehension over distinct keys.\<close>

lemma map_of_const: "map_of (map (\<lambda>c. (c, f c)) cs) k = (if k \<in> set cs then Some (f k) else None)"
  by (induction cs) auto

lemma map_of_rev_unique:
  assumes "distinct (map f is)" "i \<in> set is"
  shows "map_of (rev (map (\<lambda>i. (f i, i)) is)) (f i) = Some i"
proof (rule map_of_is_SomeI)
  show "distinct (map fst (rev (map (\<lambda>i. (f i, i)) is)))"
    using assms(1) by (simp add: rev_map[symmetric] comp_def)
  show "(f i, i) \<in> set (rev (map (\<lambda>i. (f i, i)) is))" using assms(2) by auto
qed

lemma query_request_ok_lineage:
  "query_request_ok q \<Longrightarrow> distinct (map ocl_output_name (qr_output_lineage q))"
  by (auto simp: query_request_ok_def query_request_post_init_def Let_def)

text \<open>
  A column with a sensitive source is masked, whether its lineage is complete or the whole
  result falls back to the most sensitive column the query reads.
\<close>

lemma lineage_source_masked:
  assumes ok: "query_request_ok q"
    and i: "i \<in> set (qr_output_lineage q)" "src \<in> set (ocl_source_columns i)"
    and ref: "src \<in> set (qr_referenced_columns q)"
    and above: "above_visible (classification_or_highest classifications src) visible"
    and col: "ocl_output_name i \<in> set (ro_columns r)"
  shows "ocl_output_name i \<in> set (masked_columns visible q r classifications)"
proof (cases "snd (output_classifications q (ro_columns r) classifications)")
  case True
  have ne: "qr_output_lineage q \<noteq> []" using i(1) by auto
  then have "lineage_matches q (ro_columns r)"
    using True by (cases "lineage_matches q (ro_columns r)") (simp_all add: output_classifications_def)
  then have "fst (output_classifications q (ro_columns r) classifications) (ocl_output_name i)
      = Some (lineage_classification q classifications (ocl_output_name i))"
    using ne col by (simp add: output_classifications_def map_of_const)
  moreover have "above_visible (lineage_classification q classifications (ocl_output_name i)) visible"
    unfolding lineage_classification_def map_of_rev_unique[OF query_request_ok_lineage[OF ok] i(1)]
    using above_visible_maximum[of "classification_or_highest classifications", OF above i(2)] by simp
  ultimately show ?thesis using True col by (simp add: masked_columns_def case_prod_unfold Let_def)
next
  case False
  have "above_visible (maximum_classification (map (classification_or_highest classifications)
      (qr_referenced_columns q))) visible"
    by (rule above_visible_maximum[of "classification_or_highest classifications", OF above ref])
  then show ?thesis using False col by (simp add: masked_columns_def case_prod_unfold Let_def)
qed

lemma process_result_cases:
  assumes "process_result cfg q d r classifications usage now = Inr p"
  shows "pq_result p = r\<lparr>ro_rows :=
      (if masked_columns (pc_maximum_visible cfg) q r classifications \<noteq> []
       then map (map (redact_cell (set (masked_columns (pc_maximum_visible cfg) q r classifications))))
              (ro_rows r)
       else ro_rows r)\<rparr>"
    and "rp_masked_output_columns (pq_privacy p) = masked_columns (pc_maximum_visible cfg) q r classifications"
    and "rp_output_lineage_complete (pq_privacy p)
      = snd (output_classifications q (ro_columns r) classifications)"
  using assms by (auto simp: process_result_def Let_def split: sum.splits prod.splits)

definition hidden :: "cell \<Rightarrow> bool" where
  "hidden v = (v = Cell_None \<or> v = Cell_Other ''[REDACTED]'')"

lemma process_result_hides:
  assumes "process_result cfg q d r classifications usage now = Inr p"
    and "c \<in> set (masked_columns (pc_maximum_visible cfg) q r classifications)"
    and "row \<in> set (ro_rows (pq_result p))" "(c, v) \<in> set row"
  shows "hidden v"
  using assms(2-4) unfolding process_result_cases(1)[OF assms(1)]
  by (auto simp: redact_cell_def hidden_def split: if_splits)

text \<open>
  A result column with a sensitive source column (one classified above the visible
  classification, or not classified at all) is shown only as NULL or as the redaction mark,
  in every row, whether the lineage matches the result or the whole-result fallback applies.
\<close>

theorem processor_masks_sensitive_sources:
  assumes "process_result cfg q d r classifications usage now = Inr p"
    and "query_request_ok q"
    and "i \<in> set (qr_output_lineage q)" "src \<in> set (ocl_source_columns i)"
    and "src \<in> set (qr_referenced_columns q)"
    and "pc_maximum_visible cfg < classification_or_highest classifications src"
    and "ocl_output_name i \<in> set (ro_columns r)"
  shows "\<forall>row \<in> set (ro_rows (pq_result p)). \<forall>v. (ocl_output_name i, v) \<in> set row \<longrightarrow> hidden v"
proof -
  have "ocl_output_name i \<in> set (masked_columns (pc_maximum_visible cfg) q r classifications)"
    using assms(6) by (intro lineage_source_masked[OF assms(2-5) _ assms(7)]) (simp add: above_visible_iff)
  then show ?thesis using process_result_hides[OF assms(1)] by blast
qed

section \<open>Noninterference\<close>

text \<open>Two rows that a viewer of the visible columns cannot tell apart.\<close>

definition same_visible :: "string set \<Rightarrow> result_row \<Rightarrow> result_row \<Rightarrow> bool" where
  "same_visible masked =
     list_all2 (\<lambda>(k, v) (k', v'). k = k' \<and>
       (if k \<in> masked then (v = Cell_None) = (v' = Cell_None) else v = v'))"

lemma redact_same_visible:
  "same_visible m row row' \<Longrightarrow> map (redact_cell m) row = map (redact_cell m) row'"
  unfolding same_visible_def
  by (induction row row' rule: list_all2_induct) (auto simp: redact_cell_def split: if_splits)

lemma redact_rows_same_visible:
  "list_all2 (same_visible m) rows rows' \<Longrightarrow>
     map (map (redact_cell m)) rows = map (map (redact_cell m)) rows'"
  by (induction rows rows' rule: list_all2_induct) (auto dest: redact_same_visible)

lemma same_visible_empty: "same_visible {} row row' \<Longrightarrow> row = row'"
  unfolding same_visible_def by (induction row row' rule: list_all2_induct) auto

lemma rows_same_visible_empty: "list_all2 (same_visible {}) rows rows' \<Longrightarrow> rows = rows'"
  by (induction rows rows' rule: list_all2_induct) (auto dest: same_visible_empty)

lemma masked_columns_rows [simp]:
  "masked_columns visible q (r\<lparr>ro_rows := rows\<rparr>) classifications = masked_columns visible q r classifications"
  by (simp add: masked_columns_def case_prod_unfold Let_def)

lemma result_fields_rows:
  "ro_columns (r\<lparr>ro_rows := rows\<rparr>) = ro_columns r" "ro_rows (r\<lparr>ro_rows := rows\<rparr>) = rows"
  "r\<lparr>ro_rows := rows, ro_rows := rows'\<rparr> = r\<lparr>ro_rows := rows'\<rparr>"
  by simp_all

lemma provenance_of_rows: "provenance_of q d (r\<lparr>ro_rows := rows\<rparr>) usage now = provenance_of q d r usage now"
  by (simp add: provenance_of_def)

text \<open>
  C7: noninterference of the processor.  Two results that differ only in non-null values
  of masked columns are processed to the same output: rows, summary, warnings, report and
  provenance carry no information about a masked value beyond its being null.
\<close>

theorem processor_noninterference:
  assumes "list_all2 (same_visible (set (masked_columns (pc_maximum_visible cfg) q r classifications)))
    (ro_rows r) rows'"
  shows "process_result cfg q d (r\<lparr>ro_rows := rows'\<rparr>) classifications usage now
    = process_result cfg q d r classifications usage now"
proof -
  let ?m = "masked_columns (pc_maximum_visible cfg) q r classifications"
  have rows: "(if ?m \<noteq> [] then map (map (redact_cell (set ?m))) rows' else rows')
      = (if ?m \<noteq> [] then map (map (redact_cell (set ?m))) (ro_rows r) else ro_rows r)"
    using redact_rows_same_visible[OF assms] rows_same_visible_empty assms by (cases "?m = []") auto
  show ?thesis
    by (simp only: process_result_def Let_def masked_columns_rows provenance_of_rows
        result_fields_rows rows)
qed

section \<open>What the output keeps and bounds\<close>

lemma redact_cell_keeps: "c \<notin> m \<Longrightarrow> redact_cell m (c, v) = (c, v)"
  by (simp add: redact_cell_def)

text \<open>A row of the output against the row of the result it came from.\<close>

definition row_kept :: "string set \<Rightarrow> result_row \<Rightarrow> result_row \<Rightarrow> bool" where
  "row_kept masked =
     list_all2 (\<lambda>(k, v) (k', v'). k' = k \<and> (v = Cell_None \<longrightarrow> v' = Cell_None)
                                  \<and> (k \<notin> masked \<longrightarrow> v' = v))"

lemma row_kept_redact: "row_kept m row (map (redact_cell m) row)"
  unfolding row_kept_def by (induction row) (auto simp: redact_cell_def)

lemma row_kept_refl: "row_kept m row row"
  unfolding row_kept_def by (intro list.rel_refl) auto

text \<open>
  The processor changes nothing else.  The columns, counts and truncation of the result
  are the executor's, every row keeps its keys and their order, nulls stay nulls, and the
  value of a column the report does not list as masked is the executor's value.
\<close>

theorem processor_keeps_visible_values:
  assumes "process_result cfg q d r classifications usage now = Inr p"
  shows "pq_result p = r\<lparr>ro_rows := ro_rows (pq_result p)\<rparr>
    \<and> list_all2 (row_kept (set (rp_masked_output_columns (pq_privacy p))))
        (ro_rows r) (ro_rows (pq_result p))"
proof -
  have "list_all2 (row_kept m) rows (map (map (redact_cell m)) rows)" for m rows
    by (induction rows) (simp_all add: row_kept_redact)
  moreover have "list_all2 (row_kept m) rows rows" for m rows
    by (intro list.rel_refl row_kept_refl)
  ultimately show ?thesis unfolding process_result_cases(1,2)[OF assms] by simp
qed

text \<open>The rendering of a single value respects the configured bound.\<close>

lemma format_value_bound:
  assumes "1 \<le> maximum"
  shows "int (length (fst (format_value v maximum))) \<le> maximum"
    and "snd (format_value v maximum) \<longleftrightarrow> maximum < int (length (render_value v))"
    and "\<not> snd (format_value v maximum) \<Longrightarrow> fst (format_value v maximum) = render_value v"
  using assms by (auto simp: format_value_def Let_def ellipsis_def)

lemma process_result_answer:
  assumes "process_result cfg q d r classifications usage now = Inr p"
  shows "\<exists>ws. answer_of cfg (pq_result p)
      (maximum_classification (map (classification_or_highest classifications) (qr_referenced_columns q)))
      (masked_columns (pc_maximum_visible cfg) q r classifications \<noteq> []) = Inr (pq_answer p, ws)"
  using assms by (simp add: process_result_def Let_def case_prod_unfold split: sum.splits) fastforce

text \<open>
  The whole-result fallback.  When the lineage of the result is not known, one
  referenced column above the visible classification (or unclassified) masks every column,
  and the report says that the lineage is conservative.
\<close>

theorem processor_fallback_masks_everything:
  assumes "process_result cfg q d r classifications usage now = Inr p"
    and "\<not> snd (output_classifications q (ro_columns r) classifications)"
    and "src \<in> set (qr_referenced_columns q)"
    and "pc_maximum_visible cfg < classification_or_highest classifications src"
  shows "rp_masked_output_columns (pq_privacy p) = ro_columns r
    \<and> \<not> rp_output_lineage_complete (pq_privacy p)
    \<and> (\<forall>row \<in> set (ro_rows (pq_result p)). \<forall>(c, v) \<in> set row. c \<in> set (ro_columns r) \<longrightarrow> hidden v)"
proof -
  have "above_visible (maximum_classification (map (classification_or_highest classifications)
      (qr_referenced_columns q))) (pc_maximum_visible cfg)"
    using above_visible_maximum[of "classification_or_highest classifications", OF _ assms(3)] assms(4)
    by (simp add: above_visible_iff)
  then have all: "masked_columns (pc_maximum_visible cfg) q r classifications = ro_columns r"
    using assms(2) by (simp add: masked_columns_def case_prod_unfold Let_def)
  then show ?thesis
    using process_result_cases(2,3)[OF assms(1)] assms(2) process_result_hides[OF assms(1)]
    unfolding all by fastforce
qed

text \<open>
  The query of the next property reads two columns, one public and one highly sensitive,
  and has no recorded lineage: this is what the validator stores for a set operation
  \<open>SELECT name FROM u UNION SELECT ssn FROM u\<close>.
\<close>

definition union_classifications :: "string \<Rightarrow> classification option" where
  "union_classifications = map_of [(''s.u.name'', PUBLIC), (''s.u.ssn'', HIGHLY_SENSITIVE)]"

definition union_result :: read_only_result where
  "union_result =
     \<lparr>ro_columns = [''name''], ro_rows = [[(''name'', Cell_Other ''ann'')], [(''name'', Cell_Other ''123'')]],
      ro_row_count = 2, ro_truncated = False, ro_truncation_reason = None,
      ro_result_bytes = 6, ro_elapsed_ms = 1\<rparr>"

definition sample_source :: data_source where
  "sample_source =
     \<lparr>ds_tenant_id = ''t'', ds_name = ''n'', ds_source_type = DIRECT_DB, ds_dialect = ''postgres'',
      ds_capabilities = [EXECUTE_READ_ONLY, EXPLAIN, CANCEL], ds_connection_secret_ref = Some ''s'',
      ds_id = ''d'', ds_created_at = 0\<rparr>"

definition sample_processor :: processor_config where
  "sample_processor = \<lparr>pc_maximum_visible = INTERNAL, pc_maximum_summary_characters = 200\<rparr>"


section \<open>Examples\<close>

definition union_request :: query_request where
  "union_request = sample_request
     \<lparr>qr_output_lineage := [\<lparr>ocl_output_name = ''name'', ocl_source_columns = [''s.u.ssn'']\<rparr>],
      qr_output_lineage_complete := True\<rparr>"

definition opaque_request :: query_request where
  "opaque_request = union_request\<lparr>qr_output_lineage_complete := False\<rparr>"

definition processed :: "query_request \<Rightarrow> processed_query_result" where
  "processed q = projr (process_result sample_processor q sample_source union_result
     union_classifications None 0)"

lemma processed_ok:
  "process_result sample_processor union_request sample_source union_result
     union_classifications None 0 = Inr (processed union_request)"
  "process_result sample_processor opaque_request sample_source union_result
     union_classifications None 0 = Inr (processed opaque_request)"
  unfolding processed_def by (rule is_ok_projr, code_simp)+

theorem processor_masks_sensitive_sources_witness:
  "hidden (snd (hd (hd (ro_rows (pq_result (processed union_request))))))"
proof -
  have "query_request_ok union_request" by code_simp
  moreover have "\<lparr>ocl_output_name = ''name'', ocl_source_columns = [''s.u.ssn'']\<rparr>
      \<in> set (qr_output_lineage union_request)" by code_simp
  moreover have "''s.u.ssn'' \<in> set (qr_referenced_columns union_request)" by code_simp
  moreover have "pc_maximum_visible sample_processor
      < classification_or_highest union_classifications ''s.u.ssn''" by code_simp
  moreover have "''name'' \<in> set (ro_columns union_result)" by code_simp
  ultimately have all: "\<forall>row \<in> set (ro_rows (pq_result (processed union_request))).
      \<forall>v. (''name'', v) \<in> set row \<longrightarrow> hidden v"
    using processor_masks_sensitive_sources[OF processed_ok(1), of
        "\<lparr>ocl_output_name = ''name'', ocl_source_columns = [''s.u.ssn'']\<rparr>" "''s.u.ssn''"] by simp
  have "ro_rows (pq_result (processed union_request))
      = [[(''name'', Cell_Other ''[REDACTED]'')], [(''name'', Cell_Other ''[REDACTED]'')]]"
    by code_simp
  then show ?thesis using all by simp
qed

theorem processor_noninterference_witness:
  "process_result sample_processor union_request sample_source
     (union_result\<lparr>ro_rows := [[(''name'', Cell_Other ''bob'')], [(''name'', Cell_Int 4)]]\<rparr>)
     union_classifications None 0 = Inr (processed union_request)"
proof -
  have "masked_columns (pc_maximum_visible sample_processor) union_request union_result
      union_classifications = [''name'']" by code_simp
  then have "list_all2 (same_visible (set (masked_columns (pc_maximum_visible sample_processor)
      union_request union_result union_classifications))) (ro_rows union_result)
      [[(''name'', Cell_Other ''bob'')], [(''name'', Cell_Int 4)]]"
    by (simp add: union_result_def same_visible_def)
  from processor_noninterference[OF this] show ?thesis using processed_ok(1) by simp
qed

theorem processor_keeps_visible_values_witness:
  "ro_row_count (pq_result (processed union_request)) = 2"
proof -
  have "ro_row_count union_result = 2" by code_simp
  then show ?thesis using processor_keeps_visible_values[OF processed_ok(1)]
    by (metis read_only_result.ext_inject read_only_result.surjective read_only_result.update_convs(2))
qed

theorem processor_fallback_masks_everything_witness:
  "rp_masked_output_columns (pq_privacy (processed opaque_request)) = [''name'']"
proof -
  have "\<not> snd (output_classifications opaque_request (ro_columns union_result) union_classifications)"
    "''s.u.ssn'' \<in> set (qr_referenced_columns opaque_request)"
    "pc_maximum_visible sample_processor < classification_or_highest union_classifications ''s.u.ssn''"
    "ro_columns union_result = [''name'']" by code_simp+
  then show ?thesis using processor_fallback_masks_everything[OF processed_ok(2)] by simp
qed

end
