(* ===== verification/Contracts.thy ===== *)
theory Contracts
  imports Domain_Model
begin

text \<open>
  \<open>packages/domain/sqlverity_domain/contracts.py\<close>: the values the packages exchange, with the
  checks of their constructors.  A mapping with values of any type is a list of keys with
  values of \<open>meta_value\<close>; a key that is absent reads as \<open>None\<close>.
\<close>

section \<open>SQL proposals and their validation\<close>

text \<open>The fields of a proposal the SQL engine reads; the others are for the prompt and the API.\<close>

record sql_proposal =
  sp_intent :: string
  sp_sql :: string
  sp_dialect :: string
  sp_tables :: "string list"
  sp_columns :: "string list"
  sp_parameters :: "query_parameter_definition list"
  sp_ambiguities :: "string list"
  sp_needs_clarification :: bool

record validation_issue =
  vi_code :: string
  vi_message :: string
  vi_blocking :: bool

record validation_result =
  vr_dialect :: string
  vr_normalized_sql :: "string option"
  vr_issues :: "validation_issue list"
  vr_referenced_tables :: "string list"
  vr_referenced_columns :: "string list"
  vr_output_lineage :: "output_column_lineage list"
  vr_output_lineage_complete :: bool

text \<open>The property \<open>ValidationResult.accepted\<close>.\<close>

definition vr_accepted :: "validation_result \<Rightarrow> bool" where
  "vr_accepted v = (\<not> (\<exists>i \<in> set (vr_issues v). vi_blocking i))"

section \<open>Metadata\<close>

datatype meta_value =
  Meta_None | Meta_Text string | Meta_Bool bool | Meta_Texts "string list" | Meta_Time timestamp

type_synonym metadata = "(string \<times> meta_value) list"

text \<open>\<open>mapping.get(key)\<close>, with the value of the last of equal keys, and \<open>dict.update\<close>.\<close>

definition meta_get :: "string \<Rightarrow> metadata \<Rightarrow> meta_value" where
  "meta_get k m = (case map_of (rev m) k of None \<Rightarrow> Meta_None | Some v \<Rightarrow> v)"

definition meta_update :: "metadata \<Rightarrow> metadata \<Rightarrow> metadata" where
  "meta_update m m' = m @ m'"

lemma meta_get_single [simp]: "meta_get k [(k, v)] = v"
  by (simp add: meta_get_def)

lemma meta_get_update:
  "meta_get k (meta_update m m') = (if k \<in> fst ` set m' then meta_get k m' else meta_get k m)"
proof (cases "k \<in> fst ` set m'")
  case True
  then obtain v where "map_of (rev m') k = Some v" by (metis map_of_eq_None_iff not_None_eq set_rev)
  then show ?thesis using True by (simp add: meta_get_def meta_update_def)
next
  case False
  then have "map_of (rev m') k = None" by (simp add: map_of_eq_None_iff)
  then show ?thesis using False by (simp add: meta_get_def meta_update_def map_add_def)
qed

record policy_decision =
  pd_allowed :: bool
  pd_reasons :: "string list"
  pd_redacted_fields :: "string list"
  pd_maximum_classification :: classification
  pd_metadata :: metadata

section \<open>Schema snapshots\<close>

datatype contract_error =
    Column_Needs_Name_And_Type | Column_Ordinal_Not_Positive
  | Object_Needs_Schema_And_Name
  | Relationship_Needs_Name_And_Objects | Relationship_Columns_Not_Aligned | Relationship_Column_Blank
  | Snapshot_Needs_Id_And_Dialect
  | Token_Estimate_Negative | Token_Estimate_Cached_Exceeds
  | Response_Needs_Model | Response_Counter_Negative | Response_Cached_Exceeds

record column_snapshot =
  cs_name :: string
  cs_physical_type :: string
  cs_ordinal :: int
  cs_nullable :: bool
  cs_default_expression :: "string option"
  cs_is_primary_key :: bool
  cs_comment :: "string option"
  cs_classification :: classification

definition column_snapshot_post_init :: "column_snapshot \<Rightarrow> contract_error + unit" where
  "column_snapshot_post_init c =
     first_raise
       [(blank (cs_name c) \<or> blank (cs_physical_type c), Column_Needs_Name_And_Type),
        (cs_ordinal c < 1, Column_Ordinal_Not_Positive)]"

record schema_object_snapshot =
  os_schema_name :: string
  os_name :: string
  os_kind :: object_kind
  os_columns :: "column_snapshot list"
  os_definition_sql :: "string option"
  os_comment :: "string option"

definition os_reference :: "schema_object_snapshot \<Rightarrow> string" where
  "os_reference s = os_schema_name s @ ''.'' @ os_name s"

definition schema_object_snapshot_post_init :: "schema_object_snapshot \<Rightarrow> contract_error + unit" where
  "schema_object_snapshot_post_init s =
     raise_if (blank (os_schema_name s) \<or> blank (os_name s)) Object_Needs_Schema_And_Name"

record relationship_snapshot =
  rs_name :: string
  rs_source_object_ref :: string
  rs_target_object_ref :: string
  rs_source_columns :: "string list"
  rs_target_columns :: "string list"

definition relationship_snapshot_post_init :: "relationship_snapshot \<Rightarrow> contract_error + unit" where
  "relationship_snapshot_post_init r =
     first_raise
       [(blank (rs_name r) \<or> rs_source_object_ref r = [] \<or> rs_target_object_ref r = [],
           Relationship_Needs_Name_And_Objects),
        (rs_source_columns r = [] \<or> length (rs_source_columns r) \<noteq> length (rs_target_columns r),
           Relationship_Columns_Not_Aligned),
        (\<exists>c \<in> set (rs_source_columns r @ rs_target_columns r). blank c, Relationship_Column_Blank)]"

record data_source_snapshot =
  dn_data_source_id :: string
  dn_dialect :: string
  dn_objects :: "schema_object_snapshot list"
  dn_relationships :: "relationship_snapshot list"

definition data_source_snapshot_post_init :: "data_source_snapshot \<Rightarrow> contract_error + unit" where
  "data_source_snapshot_post_init s =
     raise_if (dn_data_source_id s = [] \<or> blank (dn_dialect s)) Snapshot_Needs_Id_And_Dialect"

section \<open>LLM calls\<close>

record token_estimate =
  te_input_tokens :: int
  te_output_tokens :: int
  te_cached_input_tokens :: int
  te_estimated_cost :: "string option"

definition token_estimate_post_init :: "token_estimate \<Rightarrow> contract_error + unit" where
  "token_estimate_post_init t =
     first_raise
       [(te_input_tokens t < 0 \<or> te_output_tokens t < 0 \<or> te_cached_input_tokens t < 0,
           Token_Estimate_Negative),
        (te_cached_input_tokens t > te_input_tokens t, Token_Estimate_Cached_Exceeds)]"

record llm_response =
  lr_payload :: string
  lr_model_id :: string
  lr_input_tokens :: int
  lr_output_tokens :: int
  lr_latency_ms :: int
  lr_cached_input_tokens :: int

definition llm_response_post_init :: "llm_response \<Rightarrow> contract_error + unit" where
  "llm_response_post_init r =
     first_raise
       [(blank (lr_model_id r), Response_Needs_Model),
        (lr_input_tokens r < 0 \<or> lr_output_tokens r < 0 \<or> lr_cached_input_tokens r < 0
           \<or> lr_latency_ms r < 0, Response_Counter_Negative),
        (lr_cached_input_tokens r > lr_input_tokens r, Response_Cached_Exceeds)]"

end
