(* ===== verification/Execution_Service.thy ===== *)
theory Execution_Service
  imports Query_Invariants Parameter_Binding Result_Processor Contracts
begin

text \<open>
  \<open>packages/query/sqlverity_query/execution.py\<close>: approval, EXPLAIN, execution and
  cancellation of a stored query request.

  The service runs against a catalog that other replicas change at the same time.  The
  state is a \<open>world\<close>: the store, the changes other clients commit before each catalog call
  (\<open>w_env\<close>, indexed by a step counter), the clock, and a log of the database calls with the
  store at the moment of the call, which the program does not keep and the theorems speak
  about.  A method is an action on the world that returns a value or an error.
\<close>

section \<open>Collaborators\<close>

record prepared_query =
  pp_sql :: string
  pp_parameters :: "(string \<times> bound_value) list"
  pp_parameter_names :: "string list"
  pp_value_hash :: "string option"

text \<open>
  A database executor.  Its answers may differ from call to call: they take the step of the
  call.  A driver exception is \<open>Inl\<close> its text.
\<close>

record executor =
  ex_explain :: "nat \<Rightarrow> data_source \<Rightarrow> string \<Rightarrow> string \<Rightarrow> (string \<times> bound_value) list \<Rightarrow> int
    \<Rightarrow> string + explain_result"
  ex_execute :: "nat \<Rightarrow> data_source \<Rightarrow> string \<Rightarrow> string \<Rightarrow> (string \<times> bound_value) list \<Rightarrow> int
    \<Rightarrow> int \<Rightarrow> int \<Rightarrow> string + read_only_result"
  ex_cancel :: "nat \<Rightarrow> string \<Rightarrow> bool"

record execution_service =
  sv_validate :: "sql_proposal \<Rightarrow> string list \<Rightarrow> string list \<Rightarrow> int \<Rightarrow> validation_result"
  sv_sql_access :: "string \<Rightarrow> string \<Rightarrow> string list \<Rightarrow> string list \<Rightarrow> policy_decision"
  sv_executors :: "string \<Rightarrow> executor option"
  sv_materialize :: "authorized_query_definition \<Rightarrow> string \<Rightarrow> (string \<times> pyobj) list
    \<Rightarrow> prepared_query option"
  sv_lib :: stdlib
  sv_processor :: processor_config
  sv_timeout_seconds :: int
  sv_max_rows :: int
  sv_max_result_bytes :: int

datatype execution_service_error = ES_Timeout | ES_MaxRows | ES_MaxBytes

definition execution_service_init :: "execution_service \<Rightarrow> execution_service_error + unit" where
  "execution_service_init sv = first_raise
     [(\<not> (1 \<le> sv_timeout_seconds sv \<and> sv_timeout_seconds sv \<le> 300), ES_Timeout),
      (\<not> (1 \<le> sv_max_rows sv \<and> sv_max_rows sv \<le> 10000), ES_MaxRows),
      (\<not> (1024 \<le> sv_max_result_bytes sv \<and> sv_max_result_bytes sv \<le> 100000000), ES_MaxBytes)]"

section \<open>Errors and actions\<close>

datatype execution_error =
    RequestMissing | DataSourceMissing
  | NotReadyForApproval | NotReadyForExplain | NotApproved | NotCancellable
  | CancelConflict store_error
  | StaleCatalog | StaleExplainRevision | StaleApproval | StaleConflict store_error
  | StalePolicy
  | PolicyBlocked "string list" | ExplainRequired | CostUnavailable | CostExceeded
  | RowsUnavailable | RowsExceeded | BindingNeedsExplain | BindingDiffers
  | NoValidatedSql | InvalidProposal | UnsafeSql | LineageChanged | ClassificationMissing
  | ProvenanceMismatch | NoAuthorizedDefinition | MaterializationFailed
  | BindingInvalid binding_error | UndeclaredParameters
  | NoExecuteCapability | NoConnectionSecret | NoExecutor | NoCancelCapability | CancelFailed
  | ColumnWithoutObject | StoreRaised store_error | PolicyChanged
  | ExecutorRaised string | ProcessorRaised processor_error

datatype database_call =
    Explain_Call data_source string string query_store
  | Execute_Call data_source string string "(string \<times> bound_value) list" query_store
  | Cancel_Call string query_store

record world =
  w_store :: query_store
  w_env :: "nat \<Rightarrow> query_store \<Rightarrow> query_store"
  w_clock :: "nat \<Rightarrow> timestamp"
  w_step :: nat
  w_calls :: "database_call list"

type_synonym 'a action = "world \<Rightarrow> (execution_error + 'a) \<times> world"

definition returnA :: "'a \<Rightarrow> 'a action" where
  "returnA x w = (Inr x, w)"

definition raiseA :: "execution_error \<Rightarrow> 'a action" where
  "raiseA e w = (Inl e, w)"

definition bindA :: "'a action \<Rightarrow> ('a \<Rightarrow> 'b action) \<Rightarrow> 'b action" where
  "bindA m f w = (case m w of (Inl e, w') \<Rightarrow> (Inl e, w') | (Inr x, w') \<Rightarrow> f x w')"

definition ensureA :: "bool \<Rightarrow> execution_error \<Rightarrow> unit action" where
  "ensureA ok e = (if ok then returnA () else raiseA e)"

text \<open>\<open>try: ... except\<close>: the handler may return, re-raise or raise another error.\<close>

definition catchA :: "'a action \<Rightarrow> (execution_error \<Rightarrow> 'a action) \<Rightarrow> 'a action" where
  "catchA m h w = (case m w of (Inl e, w') \<Rightarrow> h e w' | (Inr x, w') \<Rightarrow> (Inr x, w'))"

section \<open>Catalog calls\<close>

text \<open>Before each access to the store, other clients may have committed.\<close>

definition tick :: "world \<Rightarrow> world" where
  "tick w = w\<lparr>w_store := w_env w (w_step w) (w_store w), w_step := Suc (w_step w)\<rparr>"

definition readA :: "(query_store \<Rightarrow> 'a) \<Rightarrow> 'a action" where
  "readA f w = (let w' = tick w in (Inr (f (w_store w')), w'))"

text \<open>
  A method with a read and a transaction: other clients may commit before it and between
  the two.
\<close>

definition transactA ::
  "((query_store \<Rightarrow> query_store) \<Rightarrow> query_store \<Rightarrow> timestamp \<Rightarrow> (store_error + 'a) \<times> query_store)
     \<Rightarrow> 'a action" where
  "transactA f w =
     (let w1 = tick w;
          (r, s) = f (w_env w1 (w_step w1)) (w_store w1) (w_clock w1 (w_step w1));
          w2 = w1\<lparr>w_store := s, w_step := Suc (w_step w1)\<rparr>
      in (case r of Inl e \<Rightarrow> Inl (StoreRaised e) | Inr x \<Rightarrow> Inr x, w2))"

definition transitionA ::
  "string \<Rightarrow> string \<Rightarrow> query_request_state \<Rightarrow> transition_args \<Rightarrow> query_request action" where
  "transitionA t i target a =
     transactA (\<lambda>mid s now. transition_query_request mid s t i target a now now)"

definition logA :: "(query_store \<Rightarrow> database_call) \<Rightarrow> unit action" where
  "logA c w = (Inr (), w\<lparr>w_calls := w_calls w @ [c (w_store w)]\<rparr>)"

definition stepA :: "nat action" where
  "stepA w = (Inr (w_step w), w)"

section \<open>Loading and preparing a query\<close>

definition loadA :: "string \<Rightarrow> string \<Rightarrow> string \<Rightarrow> (query_request \<times> data_source) action" where
  "loadA t d i =
     bindA (readA (\<lambda>s. get_query_request s t i)) (\<lambda>q.
       case q of None \<Rightarrow> raiseA RequestMissing
       | Some q \<Rightarrow>
          if qr_data_source_id q \<noteq> d then raiseA RequestMissing
          else bindA (readA (\<lambda>s. get_data_source s t d)) (\<lambda>ds.
            case ds of None \<Rightarrow> raiseA DataSourceMissing | Some ds \<Rightarrow> returnA (q, ds)))"

definition require_current_catalogA :: "query_request \<Rightarrow> unit action" where
  "require_current_catalogA q =
     bindA (readA (\<lambda>s. get_latest_catalog_version s (qr_tenant_id q) (qr_data_source_id q)))
       (\<lambda>latest. ensureA (map_option cv_id latest = Some (qr_catalog_version_id q)) StaleCatalog)"

text \<open>\<open>_revalidate\<close> touches no state: it is a function of the request.\<close>

definition revalidate ::
  "execution_service \<Rightarrow> query_request \<Rightarrow> string \<Rightarrow> execution_error + string" where
  "revalidate sv q dialect =
     (case qr_normalized_sql q of
        None \<Rightarrow> Inl NoValidatedSql
      | Some sql \<Rightarrow>
         if blank dialect \<or> blank sql then Inl InvalidProposal
         else let result = sv_validate sv
                \<lparr>sp_intent = ''data_query'', sp_sql = sql, sp_dialect = dialect,
                 sp_tables = qr_referenced_tables q, sp_columns = qr_referenced_columns q,
                 sp_parameters = qr_parameter_definitions q, sp_ambiguities = [],
                 sp_needs_clarification = False\<rparr>
                (qr_referenced_tables q) (qr_referenced_columns q) (sv_max_rows sv)
              in if \<not> vr_accepted result then Inl UnsafeSql
                 else case vr_normalized_sql result of
                   None \<Rightarrow> Inl UnsafeSql
                 | Some normalized \<Rightarrow>
                    if vr_referenced_tables result \<noteq> sort (qr_referenced_tables q)
                       \<or> vr_referenced_columns result \<noteq> sort (qr_referenced_columns q)
                    then Inl LineageChanged else Inr normalized)"

definition liftA :: "execution_error + 'a \<Rightarrow> 'a action" where
  "liftA r = (case r of Inl e \<Rightarrow> raiseA e | Inr x \<Rightarrow> returnA x)"

text \<open>The loop of \<open>_column_classifications\<close> over the columns of the catalog version.\<close>

definition classify_columns ::
  "schema_object list \<Rightarrow> column_definition list \<Rightarrow> string list
     \<Rightarrow> execution_error + (string \<times> classification) list" where
  "classify_columns objects columns referenced =
     (let by_id = map_of (rev (map (\<lambda>o'. (so_id o', o')) objects))
      in if \<exists>c \<in> set columns. by_id (cd_schema_object_id c) = None then Inl ColumnWithoutObject
         else Inr (filter (\<lambda>(ref, _). ref \<in> set referenced)
           (map (\<lambda>c. (so_reference (the (by_id (cd_schema_object_id c))) @ ''.'' @ cd_name c,
                       cd_classification c)) columns)))"

definition column_classificationsA ::
  "query_request \<Rightarrow> (string \<Rightarrow> classification option) action" where
  "column_classificationsA q =
     bindA (readA (\<lambda>s. list_schema_objects s (qr_tenant_id q) (qr_catalog_version_id q)))
       (\<lambda>objects. bindA
         (readA (\<lambda>s. list_columns_for_catalog_version s (qr_tenant_id q) (qr_catalog_version_id q)))
         (\<lambda>columns. bindA (liftA (classify_columns objects columns (qr_referenced_columns q)))
           (\<lambda>pairs. returnA (map_of (rev pairs)))))"

definition usageA :: "query_request \<Rightarrow> llm_usage_event option action" where
  "usageA q = (case qr_llm_usage_event_id q of
     None \<Rightarrow> returnA None
   | Some e \<Rightarrow> readA (\<lambda>s. get_llm_usage_event s (qr_tenant_id q) e))"

definition provenance_matches :: "query_request \<Rightarrow> llm_usage_event option \<Rightarrow> bool" where
  "provenance_matches q usage =
     (qr_llm_usage_event_id q \<noteq> None \<longrightarrow>
        (\<exists>u \<in> set_option usage. Some (lue_provider_id u) = qr_provider_id q
              \<and> Some (lue_model_id u) = qr_model_id q))"

text \<open>The end of \<open>_prepare\<close>: the parameters are bound to the SQL.\<close>

definition bind_preparedA ::
  "execution_service \<Rightarrow> query_request \<Rightarrow> data_source \<Rightarrow> (string \<times> pyobj) list \<Rightarrow> string
     \<Rightarrow> prepared_query action" where
  "bind_preparedA sv q d supplied sql =
     (if ds_source_type d = AUTHORIZED_QUERY then
        bindA (readA (\<lambda>s. get_authorized_query_definition s (qr_tenant_id q) (qr_data_source_id q)
                           (qr_catalog_version_id q)))
          (\<lambda>definition. case definition of None \<Rightarrow> raiseA NoAuthorizedDefinition
           | Some aq \<Rightarrow> (case sv_materialize sv aq sql supplied of
                None \<Rightarrow> raiseA MaterializationFailed | Some p \<Rightarrow> returnA p))
      else if qr_parameter_definitions q \<noteq> [] then
        (case bind_query_parameters (sv_lib sv) (qr_parameter_definitions q) supplied of
           Inl e \<Rightarrow> raiseA (BindingInvalid e)
         | Inr b \<Rightarrow> returnA \<lparr>pp_sql = sql, pp_parameters = bp_values b,
                             pp_parameter_names = bp_names b, pp_value_hash = Some (bp_value_hash b)\<rparr>)
      else if supplied \<noteq> [] then raiseA UndeclaredParameters
      else returnA \<lparr>pp_sql = sql, pp_parameters = [], pp_parameter_names = [], pp_value_hash = None\<rparr>)"

definition prepareA ::
  "execution_service \<Rightarrow> query_request \<Rightarrow> data_source \<Rightarrow> (string \<times> pyobj) list
     \<Rightarrow> prepared_query action" where
  "prepareA sv q d supplied =
     bindA (require_current_catalogA q) (\<lambda>_.
     bindA (liftA (revalidate sv q (ds_dialect d))) (\<lambda>sql.
     bindA (column_classificationsA q) (\<lambda>classified.
     bindA (ensureA (\<forall>c \<in> set (qr_referenced_columns q). classified c \<noteq> None) ClassificationMissing) (\<lambda>_.
     bindA (usageA q) (\<lambda>usage.
     bindA (ensureA (provenance_matches q usage) ProvenanceMismatch) (\<lambda>_.
     let decision = sv_sql_access sv (qr_tenant_id q) (qr_data_source_id q)
           (qr_referenced_tables q) (qr_referenced_columns q)
     in bindA (ensureA (pd_allowed decision) (PolicyBlocked (pd_reasons decision))) (\<lambda>_.
        bind_preparedA sv q d supplied sql)))))))"

definition find_executorA :: "execution_service \<Rightarrow> data_source \<Rightarrow> executor action" where
  "find_executorA sv d = (case sv_executors sv (casefold (ds_dialect d)) of
     None \<Rightarrow> raiseA NoExecutor | Some e \<Rightarrow> returnA e)"

section \<open>Cost policy and parameter binding\<close>

text \<open>The thresholds of a policy against the stored estimates, in the order of the checks.\<close>

definition cost_policy_check ::
  "execution_cost_policy option \<Rightarrow> query_request \<Rightarrow> bool \<Rightarrow> execution_error + int" where
  "cost_policy_check policy q executing =
     (let revision = (case policy of None \<Rightarrow> 0 | Some p \<Rightarrow> ecp_revision p)
      in if executing \<and> qr_approved_cost_policy_revision q \<noteq> Some revision then Inl PolicyChanged
         else case policy of None \<Rightarrow> Inr revision
         | Some p \<Rightarrow>
            if ecp_require_explain p \<and> qr_explained_at q = None then Inl ExplainRequired
            else if ecp_max_total_cost p \<noteq> None \<and> qr_estimated_db_cost q = None
            then Inl CostUnavailable
            else if \<exists>m \<in> set_option (ecp_max_total_cost p). \<exists>c \<in> set_option (qr_estimated_db_cost q).
                      pf_less m c
            then Inl CostExceeded
            else if ecp_max_estimated_rows p \<noteq> None \<and> qr_estimated_db_rows q = None
            then Inl RowsUnavailable
            else if \<exists>m \<in> set_option (ecp_max_estimated_rows p). \<exists>n \<in> set_option (qr_estimated_db_rows q).
                      m < n
            then Inl RowsExceeded
            else Inr revision)"

definition enforce_execution_cost_policyA :: "query_request \<Rightarrow> bool \<Rightarrow> int action" where
  "enforce_execution_cost_policyA q executing =
     bindA (readA (\<lambda>s. get_execution_cost_policy s (qr_tenant_id q) (qr_data_source_id q)))
       (\<lambda>policy. liftA (cost_policy_check policy q executing))"

definition parameter_binding_check ::
  "query_request \<Rightarrow> data_source \<Rightarrow> prepared_query \<Rightarrow> execution_error + unit" where
  "parameter_binding_check q d p =
     (if \<not> (ds_source_type d = AUTHORIZED_QUERY \<or> pp_parameter_names p \<noteq> []) then Inr ()
      else if qr_explained_at q = None then Inl BindingNeedsExplain
      else if qr_parameter_value_hash q \<noteq> pp_value_hash p then Inl BindingDiffers
      else Inr ())"

text \<open>A conflict error of the store becomes another error; any other is propagated.\<close>

definition conflict_of :: "execution_error \<Rightarrow> store_error option" where
  "conflict_of e =
     (case e of StoreRaised c \<Rightarrow> if is_conflict c then Some c else None | _ \<Rightarrow> None)"

definition on_conflict :: "(store_error \<Rightarrow> execution_error) \<Rightarrow> 'a action \<Rightarrow> 'a action" where
  "on_conflict f m = catchA m (\<lambda>e. case conflict_of e of
     None \<Rightarrow> raiseA e | Some c \<Rightarrow> raiseA (f c))"

section \<open>Approval and EXPLAIN\<close>

definition approveA ::
  "execution_service \<Rightarrow> string \<Rightarrow> string \<Rightarrow> string \<Rightarrow> string \<Rightarrow> (string \<times> pyobj) list \<Rightarrow> int option
     \<Rightarrow> query_request action" where
  "approveA sv t d i actor supplied expected =
     bindA (loadA t d i) (\<lambda>(q, ds).
     bindA (ensureA (qr_state q = READY_FOR_PREVIEW) NotReadyForApproval) (\<lambda>_.
     bindA (prepareA sv q ds supplied) (\<lambda>p.
     bindA (ensureA (expected \<in> {None, Some (qr_explain_revision q)}) StaleExplainRevision) (\<lambda>_.
     bindA (liftA (parameter_binding_check q ds p)) (\<lambda>_.
     bindA (enforce_execution_cost_policyA q False) (\<lambda>revision.
     bindA (ensureA (EXECUTE_READ_ONLY \<in> set (ds_capabilities ds)) NoExecuteCapability) (\<lambda>_.
     bindA (ensureA (ds_connection_secret_ref ds \<noteq> None) NoConnectionSecret) (\<lambda>_.
     bindA (find_executorA sv ds) (\<lambda>_.
       on_conflict StaleConflict (transitionA t i APPROVED
         \<lparr>ta_actor_id = Some actor,
          ta_expected_explain_revision = Some (qr_explain_revision q),
          ta_expected_cost_policy_revision = Some revision,
          ta_approval_sql_hash = Some (sl_sha256 (sv_lib sv) (pp_sql p)),
          ta_approval_parameter_value_hash = pp_value_hash p\<rparr>))))))))))"

definition explainA ::
  "execution_service \<Rightarrow> string \<Rightarrow> string \<Rightarrow> string \<Rightarrow> (string \<times> pyobj) list
     \<Rightarrow> explain_result action" where
  "explainA sv t d i supplied =
     bindA (loadA t d i) (\<lambda>(q, ds).
     bindA (ensureA (qr_state q = READY_FOR_PREVIEW) NotReadyForExplain) (\<lambda>_.
     bindA (prepareA sv q ds supplied) (\<lambda>p.
     bindA (find_executorA sv ds) (\<lambda>ex.
     bindA stepA (\<lambda>n.
     bindA (logA (Explain_Call ds (qr_id q) (pp_sql p))) (\<lambda>_.
     case ex_explain ex n ds (qr_id q) (pp_sql p) (pp_parameters p) (sv_timeout_seconds sv) of
       Inl e \<Rightarrow> raiseA (ExecutorRaised e)
     | Inr result \<Rightarrow>
        bindA (on_conflict StaleConflict (transactA (\<lambda>mid s now.
            record_query_explain mid s t i (qr_explain_revision q)
              (sl_sha256 (sv_lib sv) (pp_sql p)) (pp_value_hash p) (pp_parameter_names p) result now)))
          (\<lambda>saved. returnA (result\<lparr>er_revision := Some (qr_explain_revision saved)\<rparr>))))))))"

section \<open>Execution\<close>

record query_execution_run =
  run_query_request :: query_request
  run_result :: read_only_result
  run_answer :: deterministic_answer
  run_privacy :: result_privacy_report
  run_provenance :: result_provenance

text \<open>
  The claim on the request: the last policy check and the transition to \<open>EXECUTING\<close>.  A
  changed policy reopens the request for review, unless another client was faster.
\<close>

definition is_policy_change :: "execution_error \<Rightarrow> bool" where
  "is_policy_change e = (e = PolicyChanged \<or> e = StoreRaised CostPolicyChanged)"

definition claim_executionA :: "string \<Rightarrow> string \<Rightarrow> query_request \<Rightarrow> query_request action" where
  "claim_executionA t i q =
     catchA
       (bindA (enforce_execution_cost_policyA q True) (\<lambda>revision.
          transitionA t i EXECUTING
            (no_args\<lparr>ta_expected_explain_revision := Some (qr_explain_revision q),
                     ta_expected_cost_policy_revision := Some revision\<rparr>)))
       (\<lambda>e. if is_policy_change e then
              bindA (catchA (bindA (transitionA t i READY_FOR_PREVIEW no_args) (\<lambda>_. returnA ()))
                      (\<lambda>e'. case conflict_of e' of None \<Rightarrow> raiseA e' | Some _ \<Rightarrow> returnA ()))
                (\<lambda>_. raiseA StalePolicy)
            else case conflict_of e of
              None \<Rightarrow> raiseA e | Some c \<Rightarrow> raiseA (StaleConflict c))"

text \<open>The call of the executor; an exception marks a request that is still executing as failed.\<close>

definition run_executorA ::
  "execution_service \<Rightarrow> executor \<Rightarrow> data_source \<Rightarrow> string \<Rightarrow> string \<Rightarrow> prepared_query
     \<Rightarrow> read_only_result action" where
  "run_executorA sv ex ds t i p =
     bindA stepA (\<lambda>n.
     bindA (logA (Execute_Call ds i (pp_sql p) (pp_parameters p))) (\<lambda>_.
     case ex_execute ex n ds i (pp_sql p) (pp_parameters p) (sv_timeout_seconds sv)
            (sv_max_rows sv) (sv_max_result_bytes sv) of
       Inr result \<Rightarrow> returnA result
     | Inl e \<Rightarrow>
        bindA (readA (\<lambda>s. get_query_request s t i)) (\<lambda>latest.
        bindA (if \<exists>l \<in> set_option latest. qr_state l = EXECUTING
               then bindA (transitionA t i FAILED_EXECUTION no_args) (\<lambda>_. returnA ())
               else returnA ()) (\<lambda>_.
          raiseA (ExecutorRaised e)))))"

definition metadata_of :: "read_only_result \<Rightarrow> processed_query_result \<Rightarrow> result_metadata" where
  "metadata_of r p =
     \<lparr>rm_row_count = ro_row_count r, rm_result_bytes = ro_result_bytes r,
      rm_elapsed_ms = ro_elapsed_ms r, rm_truncated = ro_truncated r,
      rm_truncation_reason = ro_truncation_reason r,
      rm_processing_mode = rp_processing_mode (pq_privacy p),
      rm_maximum_classification = rp_maximum_classification (pq_privacy p),
      rm_masked_column_count = length (rp_masked_output_columns (pq_privacy p)),
      rm_raw_rows_sent_to_llm = rp_raw_rows_sent_to_llm (pq_privacy p)\<rparr>"

definition process_and_recordA ::
  "execution_service \<Rightarrow> query_request \<Rightarrow> data_source \<Rightarrow> string \<Rightarrow> string \<Rightarrow> read_only_result
     \<Rightarrow> processed_query_result action" where
  "process_and_recordA sv q ds t i r =
     bindA (column_classificationsA q) (\<lambda>classified.
     bindA (usageA q) (\<lambda>usage.
     bindA (\<lambda>w. case process_result (sv_processor sv) q ds r classified usage (w_clock w (w_step w)) of
              Inl e \<Rightarrow> (Inl (ProcessorRaised e), w) | Inr p \<Rightarrow> (Inr p, w)) (\<lambda>p.
     bindA (transactA (\<lambda>_ s _. record_query_activity s t i ''query.result_metadata'' (metadata_of r p)))
       (\<lambda>_. returnA p))))"

definition finish_executionA ::
  "execution_service \<Rightarrow> query_request \<Rightarrow> data_source \<Rightarrow> string \<Rightarrow> string \<Rightarrow> read_only_result
     \<Rightarrow> query_execution_run action" where
  "finish_executionA sv executing ds t i r =
     bindA (transitionA t (qr_id executing) SUCCEEDED no_args) (\<lambda>succeeded.
     bindA (transitionA t (qr_id succeeded) RESULT_PROCESSING no_args) (\<lambda>processing.
     bindA (catchA (process_and_recordA sv processing ds t i r) (\<lambda>e.
              bindA (transitionA t (qr_id processing) FAILED_EXECUTION no_args) (\<lambda>_. raiseA e)))
       (\<lambda>processed.
     bindA (transitionA t (qr_id processing) COMPLETED no_args) (\<lambda>completed.
       returnA \<lparr>run_query_request = completed, run_result = pq_result processed,
                run_answer = pq_answer processed, run_privacy = pq_privacy processed,
                run_provenance = pq_provenance processed\<rparr>))))"

definition approval_current :: "execution_service \<Rightarrow> query_request \<Rightarrow> prepared_query \<Rightarrow> bool" where
  "approval_current sv q p =
     (qr_approved_sql_hash q = Some (sl_sha256 (sv_lib sv) (pp_sql p))
      \<and> qr_approved_parameter_value_hash q = pp_value_hash p
      \<and> qr_approved_explain_revision q = Some (qr_explain_revision q))"

definition executeA ::
  "execution_service \<Rightarrow> string \<Rightarrow> string \<Rightarrow> string \<Rightarrow> (string \<times> pyobj) list
     \<Rightarrow> query_execution_run action" where
  "executeA sv t d i supplied =
     bindA (loadA t d i) (\<lambda>(q, ds).
     bindA (ensureA (qr_state q = APPROVED) NotApproved) (\<lambda>_.
     bindA (prepareA sv q ds supplied) (\<lambda>p.
     bindA (liftA (parameter_binding_check q ds p)) (\<lambda>_.
     bindA (ensureA (approval_current sv q p) StaleApproval) (\<lambda>_.
     bindA (find_executorA sv ds) (\<lambda>ex.
     bindA (claim_executionA t i q) (\<lambda>executing.
     bindA (run_executorA sv ex ds t i p) (\<lambda>result.
       finish_executionA sv executing ds t i result))))))))"

section \<open>Cancellation\<close>

text \<open>A query that is executing is cancelled in the database first.\<close>

definition confirm_cancelA ::
  "execution_service \<Rightarrow> query_request \<Rightarrow> data_source \<Rightarrow> string \<Rightarrow> unit action" where
  "confirm_cancelA sv q ds i =
     (if qr_state q = EXECUTING then
        bindA (ensureA (CANCEL \<in> set (ds_capabilities ds)) NoCancelCapability) (\<lambda>_.
        bindA (find_executorA sv ds) (\<lambda>ex.
        bindA stepA (\<lambda>n.
        bindA (logA (Cancel_Call i)) (\<lambda>_.
          ensureA (ex_cancel ex n i) CancelFailed))))
      else returnA ())"

definition cancelA ::
  "execution_service \<Rightarrow> string \<Rightarrow> string \<Rightarrow> string \<Rightarrow> query_request action" where
  "cancelA sv t d i =
     bindA (loadA t d i) (\<lambda>(q, ds).
     bindA (ensureA (qr_state q \<in> {READY_FOR_PREVIEW, APPROVED, EXECUTING}) NotCancellable) (\<lambda>_.
     bindA (confirm_cancelA sv q ds i) (\<lambda>_.
       on_conflict CancelConflict (transitionA t i CANCELLED no_args))))"

end
