(* ===== verification/Execution_Safety.thy ===== *)
theory Execution_Safety
  imports Execution_Service
begin

text \<open>
  What the execution service guarantees while other replicas change the catalog: every
  method keeps the invariant of the store and only moves it forward, only \<open>execute\<close> reaches
  the database with a query, and it does so once, for a request that is in \<open>EXECUTING\<close>
  with an approval bound to what is executed.
\<close>

section \<open>Relations every action keeps\<close>

text \<open>
  A guarantee is a relation between the world before and after an action.  The locale
  carries the composition rules; its two instances are the forward movement of the store
  and the silence of the log.
\<close>

definition guarantees :: "(world \<Rightarrow> world \<Rightarrow> bool) \<Rightarrow> 'a action \<Rightarrow> bool" where
  "guarantees R m = (\<forall>w. R w (snd (m w)))"

named_theorems guarantee_splits \<open>guarantees of case expressions\<close>

lemma guarantees_prod [guarantee_splits]:
  "(\<And>a b. guarantees R (f a b)) \<Longrightarrow> guarantees R (case p of (a, b) \<Rightarrow> f a b)"
  by (cases p) simp

lemma guarantees_option [guarantee_splits]:
  "guarantees R f \<Longrightarrow> (\<And>x. guarantees R (g x)) \<Longrightarrow> guarantees R (case x of None \<Rightarrow> f | Some y \<Rightarrow> g y)"
  by (cases x) simp_all

lemma guarantees_sum [guarantee_splits]:
  "(\<And>a. guarantees R (f a)) \<Longrightarrow> (\<And>b. guarantees R (g b)) \<Longrightarrow>
     guarantees R (case x of Inl a \<Rightarrow> f a | Inr b \<Rightarrow> g b)"
  by (cases x) simp_all

lemma guarantees_if [guarantee_splits]:
  "guarantees R f \<Longrightarrow> guarantees R g \<Longrightarrow> guarantees R (if b then f else g)"
  by simp

lemma guarantees_let [guarantee_splits]:
  "(\<And>x. guarantees R (f x)) \<Longrightarrow> guarantees R (let x = e in f x)"
  by (simp add: Let_def)

locale world_relation =
  fixes R :: "world \<Rightarrow> world \<Rightarrow> bool"
  assumes refl: "R w w"
    and trans: "R a b \<Longrightarrow> R b c \<Longrightarrow> R a c"
    and tick: "R w (tick w)"
begin

lemma return: "guarantees R (returnA x)"
  by (simp add: guarantees_def returnA_def refl)

lemma raise: "guarantees R (raiseA e)"
  by (simp add: guarantees_def raiseA_def refl)

lemma bind: "guarantees R m \<Longrightarrow> (\<And>x. guarantees R (f x)) \<Longrightarrow> guarantees R (bindA m f)"
  unfolding guarantees_def bindA_def
proof
  fix w assume m: "\<forall>w. R w (snd (m w))" and f: "\<And>x. \<forall>w. R w (snd (f x w))"
  obtain r w' where mw: "m w = (r, w')" by fastforce
  have "R w w'" using m mw by (metis snd_conv)
  then show "R w (snd (case m w of (Inl e, w') \<Rightarrow> (Inl e, w') | (Inr x, w') \<Rightarrow> f x w'))"
    using mw f trans by (cases r) auto
qed

lemma catch: "guarantees R m \<Longrightarrow> (\<And>e. guarantees R (h e)) \<Longrightarrow> guarantees R (catchA m h)"
  unfolding guarantees_def catchA_def
proof
  fix w assume m: "\<forall>w. R w (snd (m w))" and h: "\<And>e. \<forall>w. R w (snd (h e w))"
  obtain r w' where mw: "m w = (r, w')" by fastforce
  have "R w w'" using m mw by (metis snd_conv)
  then show "R w (snd (case m w of (Inl e, w') \<Rightarrow> h e w' | (Inr x, w') \<Rightarrow> (Inr x, w')))"
    using mw h trans by (cases r) auto
qed

lemma ensure: "guarantees R (ensureA ok e)"
  by (simp add: ensureA_def return raise)

lemma lift: "guarantees R (liftA r)"
  unfolding liftA_def by (intro guarantee_splits return raise)

lemma read: "guarantees R (readA f)"
  by (simp add: guarantees_def readA_def Let_def tick)

lemma step: "guarantees R stepA"
  by (simp add: guarantees_def stepA_def refl)

lemmas basic = return raise bind ensure lift read step catch

lemma on_conflict: "guarantees R m \<Longrightarrow> guarantees R (on_conflict f m)"
  unfolding on_conflict_def by (intro basic guarantee_splits)

lemma load: "guarantees R (loadA t d i)"
  unfolding loadA_def by (intro basic guarantee_splits)

lemma classifications: "guarantees R (column_classificationsA q)"
  unfolding column_classificationsA_def by (intro basic guarantee_splits)

lemma usage: "guarantees R (usageA q)"
  unfolding usageA_def by (intro basic guarantee_splits)

lemma prepare: "guarantees R (prepareA sv q d supplied)"
  unfolding prepareA_def require_current_catalogA_def bind_preparedA_def
  by (intro basic guarantee_splits classifications usage)

lemma policy: "guarantees R (enforce_execution_cost_policyA q b)"
  unfolding enforce_execution_cost_policyA_def by (intro basic guarantee_splits)

lemma find_executor: "guarantees R (find_executorA sv d)"
  unfolding find_executorA_def by (intro basic guarantee_splits)

lemmas parts = basic on_conflict load prepare policy find_executor classifications usage

end

section \<open>The two instances\<close>

text \<open>What a world must satisfy: the invariant, and clients that follow the protocol.\<close>

definition world_good :: "world \<Rightarrow> bool" where
  "world_good w = (store_inv (w_store w) \<and> (\<forall>n. store_interference (w_env w n)))"

definition world_forward :: "world \<Rightarrow> world \<Rightarrow> bool" where
  "world_forward w w' =
     (w_env w' = w_env w
      \<and> (world_good w \<longrightarrow> world_good w' \<and> store_evolves (w_store w) (w_store w')))"

fun is_execution :: "database_call \<Rightarrow> bool" where
  "is_execution (Execute_Call _ _ _ _ _) = True"
| "is_execution _ = False"

definition executions :: "world \<Rightarrow> database_call list" where
  "executions w = filter is_execution (w_calls w)"

definition silent :: "world \<Rightarrow> world \<Rightarrow> bool" where
  "silent w w' = (executions w' = executions w)"

lemma tick_fields [simp]:
  "w_env (tick w) = w_env w" "w_calls (tick w) = w_calls w" "w_step (tick w) = Suc (w_step w)"
  "w_store (tick w) = w_env w (w_step w) (w_store w)" "w_clock (tick w) = w_clock w"
  by (simp_all add: tick_def)

lemma tick_forward: "world_forward w (tick w)"
  by (simp add: world_forward_def world_good_def query_store.interference_D)

interpretation forward: world_relation world_forward
proof
  show "world_forward w w" for w by (simp add: world_forward_def store_evolves_refl)
  show "world_forward a b \<Longrightarrow> world_forward b c \<Longrightarrow> world_forward a c" for a b c
    by (auto simp: world_forward_def intro: store_evolves_trans)
qed (rule tick_forward)

interpretation quiet: world_relation silent
  by unfold_locales (simp_all add: silent_def executions_def)

text \<open>Transactions: silent always, forward when the repository operation is an interference.\<close>

lemma transact_silent: "guarantees silent (transactA f)"
  by (simp add: guarantees_def transactA_def silent_def executions_def Let_def case_prod_unfold)

lemma transition_silent: "guarantees silent (transitionA t i target a)"
  unfolding transitionA_def by (rule transact_silent)

lemma transact_forward:
  assumes "\<And>mid now. store_interference mid \<Longrightarrow> store_interference (\<lambda>s. snd (f mid s now))"
  shows "guarantees world_forward (transactA f)"
  unfolding guarantees_def
proof
  fix w
  let ?w1 = "tick w"
  have "world_good (snd (transactA f w)) \<and> store_evolves (w_store w) (w_store (snd (transactA f w)))"
    if good: "world_good w"
  proof -
    have g1: "world_good ?w1" "store_evolves (w_store w) (w_store ?w1)"
      using tick_forward[of w] good by (simp_all add: world_forward_def)
    have "store_interference (\<lambda>s. snd (f (w_env ?w1 (w_step ?w1)) s (w_clock ?w1 (w_step ?w1))))"
      using assms g1(1) by (simp add: world_good_def)
    from query_store.interference_D[OF this] g1(1)
    have "store_inv (w_store (snd (transactA f w)))
        \<and> store_evolves (w_store ?w1) (w_store (snd (transactA f w)))"
      by (simp add: world_good_def transactA_def Let_def case_prod_unfold)
    moreover have "w_env (snd (transactA f w)) = w_env w"
      by (simp add: transactA_def Let_def case_prod_unfold)
    ultimately show ?thesis using g1 good store_evolves_trans by (auto simp: world_good_def)
  qed
  moreover have "w_env (snd (transactA f w)) = w_env w"
    by (simp add: transactA_def Let_def case_prod_unfold)
  ultimately show "world_forward w (snd (transactA f w))" by (simp add: world_forward_def)
qed

lemma transition_forward:
  "target \<notin> set generation_states \<Longrightarrow> guarantees world_forward (transitionA t i target a)"
  unfolding transitionA_def by (rule transact_forward) (rule transition_interference)

lemma activity_forward:
  "guarantees world_forward (transactA (\<lambda>_ s _. record_query_activity s t i ev d))"
  by (rule transact_forward) (rule record_query_activity_interference)

lemma activity_silent:
  "guarantees silent (transactA (\<lambda>_ s _. record_query_activity s t i ev d))"
  by (rule transact_silent)

lemma log_forward: "guarantees world_forward (logA c)"
  by (simp add: guarantees_def logA_def world_forward_def world_good_def store_evolves_refl)

lemma log_silent: "(\<And>s. \<not> is_execution (c s)) \<Longrightarrow> guarantees silent (logA c)"
  by (simp add: guarantees_def logA_def silent_def executions_def)

section \<open>Every method but \<open>execute\<close> is silent\<close>

lemma guaranteesD: "guarantees R m \<Longrightarrow> m w = (r, w') \<Longrightarrow> R w w'"
  by (metis guarantees_def snd_conv)

lemma approve_silent: "guarantees silent (approveA sv t d i actor supplied expected)"
  unfolding approveA_def by (intro quiet.parts guarantee_splits transition_silent)

lemma explain_silent: "guarantees silent (explainA sv t d i supplied)"
  unfolding explainA_def by (intro quiet.parts guarantee_splits transact_silent log_silent) simp

lemma cancel_silent: "guarantees silent (cancelA sv t d i)"
  unfolding cancelA_def confirm_cancelA_def by (intro quiet.parts guarantee_splits transition_silent log_silent) simp

lemma approve_forward: "guarantees world_forward (approveA sv t d i actor supplied expected)"
  unfolding approveA_def
  by (intro forward.parts guarantee_splits transition_forward) (simp add: generation_states_def)

lemma cancel_forward: "guarantees world_forward (cancelA sv t d i)"
  unfolding cancelA_def confirm_cancelA_def
  by (intro forward.parts guarantee_splits transition_forward log_forward)
    (simp add: generation_states_def)

lemma claim_silent: "guarantees silent (claim_executionA t i q)"
  unfolding claim_executionA_def
  by (intro quiet.parts transition_silent guarantee_splits)

lemma claim_forward: "guarantees world_forward (claim_executionA t i q)"
  unfolding claim_executionA_def
  by (intro forward.parts transition_forward guarantee_splits)
    (simp_all add: generation_states_def)

lemma processor_step: "world_relation R \<Longrightarrow>
    guarantees R (\<lambda>w. case f w of Inl e \<Rightarrow> (Inl (ProcessorRaised e), w) | Inr p \<Rightarrow> (Inr p, w))"
  by (auto simp: guarantees_def world_relation.refl split: sum.split)

lemma process_silent: "guarantees silent (process_and_recordA sv q ds t i r)"
  unfolding process_and_recordA_def
  by (intro quiet.parts processor_step activity_silent guarantee_splits quiet.world_relation_axioms)

lemma process_forward: "guarantees world_forward (process_and_recordA sv q ds t i r)"
  unfolding process_and_recordA_def
  by (intro forward.parts processor_step activity_forward guarantee_splits forward.world_relation_axioms)

lemma finish_silent: "guarantees silent (finish_executionA sv q ds t i r)"
  unfolding finish_executionA_def
  by (intro quiet.parts process_silent transition_silent guarantee_splits)

lemma finish_forward: "guarantees world_forward (finish_executionA sv q ds t i r)"
  unfolding finish_executionA_def
  by (intro forward.parts process_forward transition_forward guarantee_splits)
    (simp_all add: generation_states_def)

lemma run_forward: "guarantees world_forward (run_executorA sv ex ds t i p)"
  unfolding run_executorA_def
  by (intro forward.parts log_forward transition_forward guarantee_splits)
    (simp_all add: generation_states_def)

lemma execute_forward: "guarantees world_forward (executeA sv t d i supplied)"
  unfolding executeA_def
  by (intro forward.parts claim_forward run_forward finish_forward guarantee_splits)

section \<open>What a successful step found and did\<close>

lemma bindA_cases:
  assumes "bindA m f w = (r, w')"
  obtains (fail) e where "m w = (Inl e, w')" "r = Inl e"
  | (ok) x w1 where "m w = (Inr x, w1)" "f x w1 = (r, w')"
  using assms by (auto simp: bindA_def split: prod.splits sum.splits)

lemma bindA_Inr:
  "bindA m f w = (Inr y, w') \<longleftrightarrow> (\<exists>x w1. m w = (Inr x, w1) \<and> f x w1 = (Inr y, w'))"
  by (auto simp: bindA_def split: prod.splits sum.splits)

lemma bindA_return [simp]: "bindA (returnA x) f = f x"
  by (simp add: bindA_def returnA_def fun_eq_iff)

lemma action_simps [simp]:
  "returnA x w = (r, w') \<longleftrightarrow> r = Inr x \<and> w' = w"
  "raiseA e w = (r, w') \<longleftrightarrow> r = Inl e \<and> w' = w"
  "ensureA ok e w = (Inr u, w') \<longleftrightarrow> ok \<and> w' = w"
  "liftA y w = (Inr z, w') \<longleftrightarrow> y = Inr z \<and> w' = w"
  "stepA w = (Inr n, w') \<longleftrightarrow> n = w_step w \<and> w' = w"
  "stepA w \<noteq> (Inl e, w')"
  "readA f w = (Inr z, w') \<longleftrightarrow> z = f (w_store (tick w)) \<and> w' = tick w"
  "readA f w \<noteq> (Inl e, w')"
  by (auto simp: returnA_def raiseA_def ensureA_def liftA_def stepA_def readA_def Let_def
      split: sum.split)

lemma raise_case_Inr:
  "(case x of Inl e \<Rightarrow> raiseA (h e) | Inr y \<Rightarrow> g y) w = (Inr z, w') \<longleftrightarrow> (\<exists>y. x = Inr y \<and> g y w = (Inr z, w'))"
  by (cases x) simp_all

lemma load_ok:
  assumes "loadA t d i w = (Inr (q, ds), w')"
  shows "get_query_request (w_store (tick w)) t i = Some q" "qr_data_source_id q = d"
    and "get_data_source (w_store (tick (tick w))) t d = Some ds" "w' = tick (tick w)"
  using assms by (auto simp: loadA_def bindA_Inr split: option.splits if_splits)

lemma prepare_ok:
  assumes "prepareA sv q ds supplied w = (Inr p, w')"
  shows "\<exists>sql. revalidate sv q (ds_dialect ds) = Inr sql"
    and "pd_allowed (sv_sql_access sv (qr_tenant_id q) (qr_data_source_id q)
      (qr_referenced_tables q) (qr_referenced_columns q))"
    and "map_option cv_id (get_latest_catalog_version (w_store (tick w)) (qr_tenant_id q)
      (qr_data_source_id q)) = Some (qr_catalog_version_id q)"
    and "\<exists>sql w0. revalidate sv q (ds_dialect ds) = Inr sql
      \<and> bind_preparedA sv q ds supplied sql w0 = (Inr p, w')"
  using assms by (auto simp: prepareA_def require_current_catalogA_def bindA_Inr Let_def)

text \<open>The SQL and the parameters of a prepared query that is not an authorized one.\<close>

lemma bind_prepared_plain:
  assumes "bind_preparedA sv q ds supplied sql w0 = (Inr p, w')" "ds_source_type ds \<noteq> AUTHORIZED_QUERY"
  shows "pp_sql p = sql"
    and "\<exists>b. bind_query_parameters (sv_lib sv) (qr_parameter_definitions q) supplied = Inr b
      \<and> pp_parameters p = bp_values b \<and> pp_parameter_names p = bp_names b
      \<and> (bp_names b \<noteq> [] \<longrightarrow> pp_value_hash p = Some (bp_value_hash b))"
  using assms
  by (auto simp: bind_preparedA_def bind_query_parameters_def[of _ "[]"] split: sum.splits if_splits)

lemma on_conflict_Inr: "on_conflict f m w = (Inr x, w') \<longleftrightarrow> m w = (Inr x, w')"
  by (auto simp: on_conflict_def catchA_def split: prod.splits sum.splits option.splits)

lemma transact_ok:
  "transactA f w = (Inr x, w') \<longleftrightarrow>
     (\<exists>s. f (w_env w (Suc (w_step w))) (w_store (tick w)) (w_clock w (Suc (w_step w))) = (Inr x, s)
          \<and> w' = (tick w)\<lparr>w_store := s, w_step := Suc (Suc (w_step w))\<rparr>)"
  by (auto simp: transactA_def Let_def split: prod.splits sum.splits)

text \<open>
  A committed transition: what it read, what it found at the commit, and the row it left.
\<close>

lemma transition_committed:
  assumes "transition_query_request mid s t i target a n1 n2 = (Inr q', s')"
    and inv: "store_inv s" and mid: "store_interference mid"
    and target: "target \<notin> set generation_states"
  obtains current u r where "get_query_request s t i = Some current"
    "prepare_transition current target a n1 n2 = Inr u"
    "get_query_request (mid s) t i = Some r" "unchanged_since current r" "same_explain current r"
    "check_transition_policy (mid s) current target a = Inr ()"
    "q' = apply_update u current" "get_query_request s' t i = Some (apply_update u r)"
    "qs_policies s' = qs_policies (mid s)" "row_inv r" "store_inv s'"
proof -
  have m: "store_inv (mid s)" "store_evolves s (mid s)"
    using query_store.interference_D[OF mid inv] by simp_all
  show ?thesis
  proof (cases rule: transition_cases[of s t i mid target a n1 n2])
    case (commit current u)
    have c: "commit_transition (mid s) current target a u = (Inr q', s')" using commit(3) assms(1) by simp
    note committed = commit_transition_committed[OF c]
    have uk: "unique_key qr_id (qs_requests (mid s))" using m(1) by (simp add: store_inv_def)
    obtain r where r: "get_query_request (mid s) t i = Some r" "unchanged_since current r"
      "same_explain current r"
      using unchanged_since_row[OF _ m(2) commit(1) uk] committed(2) by blast
    have "get_query_request s' t i = Some (if unchanged_since current r then apply_update u r else r)"
      using committed(4) by (intro get_after_request_update[OF uk _ _ _ r(1)]) simp_all
    moreover have "store_inv s'"
      using commit_transition_interference(1)[OF c commit(2,1) m(2) inv m(1) target] by simp
    moreover have "row_inv r" using store_inv_row[OF m(1) r(1)] .
    ultimately show ?thesis using that commit(1,2) r committed by auto
  qed (use assms(1) in simp_all)
qed

lemma transitionA_committed:
  assumes "transitionA t i target a w = (Inr q', w')" and good: "world_good w"
    and target: "target \<notin> set generation_states"
  obtains current u r where
    "get_query_request (w_store (tick w)) t i = Some current"
    "prepare_transition current target a (w_clock w (Suc (w_step w))) (w_clock w (Suc (w_step w))) = Inr u"
    "get_query_request (w_env w (Suc (w_step w)) (w_store (tick w))) t i = Some r"
    "unchanged_since current r" "same_explain current r"
    "check_transition_policy (w_env w (Suc (w_step w)) (w_store (tick w))) current target a = Inr ()"
    "q' = apply_update u current" "get_query_request (w_store w') t i = Some (apply_update u r)"
    "qs_policies (w_store w') = qs_policies (w_env w (Suc (w_step w)) (w_store (tick w)))"
    "row_inv r" "store_inv (w_store w')"
proof -
  from assms(1) obtain s where t: "transition_query_request (w_env w (Suc (w_step w)))
      (w_store (tick w)) t i target a (w_clock w (Suc (w_step w))) (w_clock w (Suc (w_step w))) = (Inr q', s)"
    and w': "w_store w' = s"
    unfolding transitionA_def transact_ok by auto
  have "store_inv (w_store (tick w))" "store_interference (w_env w (Suc (w_step w)))"
    using tick_forward[of w] good by (simp_all add: world_forward_def world_good_def)
  from transition_committed[OF t this target] show ?thesis using that w' by metis
qed

section \<open>The claim on a request\<close>

text \<open>The thresholds of a policy, as a statement about the estimates of the last EXPLAIN.\<close>

definition within_policy :: "execution_cost_policy option \<Rightarrow> query_request \<Rightarrow> bool" where
  "within_policy policy r =
     (\<forall>p \<in> set_option policy.
        (ecp_require_explain p \<longrightarrow> qr_explained_at r \<noteq> None)
        \<and> (\<forall>m \<in> set_option (ecp_max_total_cost p).
             \<exists>c \<in> set_option (qr_estimated_db_cost r). \<not> pf_less m c)
        \<and> (\<forall>m \<in> set_option (ecp_max_estimated_rows p).
             \<exists>n \<in> set_option (qr_estimated_db_rows r). n \<le> m))"

lemma cost_policy_check_ok:
  assumes "cost_policy_check policy q executing = Inr revision"
  shows "within_policy policy q" "revision = revision_of policy"
    "executing \<Longrightarrow> qr_approved_cost_policy_revision q = Some revision"
proof -
  show "within_policy policy q"
    using assms
    by (cases policy; cases "qr_estimated_db_cost q"; cases "qr_estimated_db_rows q")
      (auto simp: cost_policy_check_def within_policy_def Let_def split: if_splits)
  show "revision = revision_of policy" "executing \<Longrightarrow> qr_approved_cost_policy_revision q = Some revision"
    using assms by (auto simp: cost_policy_check_def revision_of_def Let_def split: if_splits option.splits)
qed

lemma within_policy_cong:
  "same_explain q r \<Longrightarrow> within_policy policy q = within_policy policy r"
  by (simp add: within_policy_def same_explain_def)

lemma same_explain_update: "same_explain q r \<Longrightarrow> same_explain q (apply_update u r)"
  by (simp add: same_explain_def)

lemma check_guarded:
  assumes "check_transition_policy s current target a = Inr ()" "target \<in> {APPROVED, EXECUTING}"
  shows "ta_expected_cost_policy_revision a
      = Some (policy_revision s (qr_tenant_id current) (qr_data_source_id current))"
    and "target = EXECUTING \<Longrightarrow> qr_approved_cost_policy_revision current
      = Some (policy_revision s (qr_tenant_id current) (qr_data_source_id current))"
  using assms by (auto simp: check_transition_policy_def Let_def split: if_splits)

text \<open>What a request was validated as.\<close>

definition same_query :: "query_request \<Rightarrow> query_request \<Rightarrow> bool" where
  "same_query q r =
     (qr_normalized_sql r = qr_normalized_sql q \<and> qr_referenced_tables r = qr_referenced_tables q
      \<and> qr_referenced_columns r = qr_referenced_columns q
      \<and> qr_parameter_definitions r = qr_parameter_definitions q)"

lemma revalidate_cong: "same_query q r \<Longrightarrow> revalidate sv r dialect = revalidate sv q dialect"
  unfolding revalidate_def same_query_def by (elim conjE) (simp only:)

text \<open>What holds of the store at the moment a claim has succeeded.\<close>

definition claimed :: "query_store \<Rightarrow> string \<Rightarrow> string \<Rightarrow> query_request \<Rightarrow> query_request \<Rightarrow> bool" where
  "claimed s t i q r =
     (get_query_request s t i = Some r \<and> qr_state r = EXECUTING \<and> row_inv r \<and> same_explain q r
      \<and> qr_data_source_id r = qr_data_source_id q
      \<and> same_query q r
      \<and> qr_approved_cost_policy_revision r = Some (policy_revision s t (qr_data_source_id q))
      \<and> within_policy (get_execution_cost_policy s t (qr_data_source_id q)) r)"

lemma claim_unfolds:
  assumes "claim_executionA t i q w = (Inr e, w')"
  obtains revision where
    "cost_policy_check (get_execution_cost_policy (w_store (tick w)) (qr_tenant_id q) (qr_data_source_id q))
       q True = Inr revision"
    "transitionA t i EXECUTING
       (no_args\<lparr>ta_expected_explain_revision := Some (qr_explain_revision q),
                ta_expected_cost_policy_revision := Some revision\<rparr>) (tick w) = (Inr e, w')"
  using assms
  by (auto simp: claim_executionA_def catchA_def bindA_Inr enforce_execution_cost_policyA_def
      bindA_def[of "catchA _ _"] raiseA_def
      split: prod.splits sum.splits if_splits option.splits)

text \<open>
  The last policy check followed by a transition that carries its revision and the EXPLAIN
  revision of the loaded request: the row that is written is the loaded request with
  another state and approval, and the thresholds that were checked are those in force.
\<close>

lemma guarded_transition:
  assumes check: "cost_policy_check (get_execution_cost_policy (w_store w) (qr_tenant_id q)
      (qr_data_source_id q)) q b = Inr revision"
    and move: "transitionA t i target a w = (Inr e, w')"
    and target: "target \<in> {APPROVED, EXECUTING}"
    and a: "ta_expected_explain_revision a = Some (qr_explain_revision q)"
      "ta_expected_cost_policy_revision a = Some revision"
    and good: "world_good w" and ev: "store_evolves s0 (w_store w)"
    and q: "get_query_request s0 t i = Some q"
  obtains current u r r' where "get_query_request (w_store w') t i = Some r"
    "e = apply_update u current" "r = apply_update u r'" "qr_state r = target" "row_inv r"
    "same_explain q r" "same_query q r" "qr_data_source_id r = qr_data_source_id q"
    "policy_revision (w_store w') t (qr_data_source_id q) = revision"
    "within_policy (get_execution_cost_policy (w_store w') t (qr_data_source_id q)) r"
    "qr_id current = i" "qr_tenant_id current = t"
    "prepare_transition current target a (w_clock w (Suc (w_step w))) (w_clock w (Suc (w_step w))) = Inr u"
    "target = EXECUTING \<Longrightarrow> qr_approved_cost_policy_revision current = Some revision"
proof -
  let ?n = "w_clock w (Suc (w_step w))"
  let ?s2 = "w_env w (Suc (w_step w)) (w_store (tick w))"
  have gen: "target \<notin> set generation_states" using target by (auto simp: generation_states_def)
  obtain current u r where
    cur: "get_query_request (w_store (tick w)) t i = Some current"
      "prepare_transition current target a ?n ?n = Inr u"
    and r: "get_query_request ?s2 t i = Some r" "unchanged_since current r" "same_explain current r"
    and chk: "check_transition_policy ?s2 current target a = Inr ()"
    and e: "e = apply_update u current"
    and fin: "get_query_request (w_store w') t i = Some (apply_update u r)"
      "qs_policies (w_store w') = qs_policies ?s2"
    and inv: "row_inv r" "store_inv (w_store w')"
    by (rule transitionA_committed[OF move good gen]) (rule that; assumption)
  have ids: "qr_tenant_id current = t" "qr_id current = i" "qr_tenant_id q = t"
    using get_query_request_Some[OF cur(1)] get_query_request_Some[OF q] by simp_all
  have ev2: "store_evolves (w_store w) (w_store (tick w))" "world_good (tick w)"
    using tick_forward[of w] good by (simp_all add: world_forward_def del: tick_fields(4))
  have ev3: "store_evolves (w_store (tick w)) ?s2"
    using ev2(2) good by (auto simp: world_good_def query_store.interference_D simp del: tick_fields(4))
  have "row_evolves q current"
    using store_evolves_row[OF store_evolves_trans[OF ev ev2(1)] q] cur(1) by auto
  then have qc: "same_explain q current" "qr_data_source_id current = qr_data_source_id q"
    and qp: "same_query q current"
    using prepare_transition_cases(3)[OF cur(2)] a(1) by (auto simp: row_evolves_def same_query_def)
  have same_ex: "same_explain q (apply_update u r)"
    by (rule same_explain_update) (rule same_explain_trans[OF qc(1) r(3)])
  have same_q: "qr_data_source_id (apply_update u r) = qr_data_source_id q \<and> same_query q (apply_update u r)"
  proof -
    obtain r' where "get_query_request ?s2 t i = Some r'" "row_evolves current r'"
      using store_evolves_row[OF ev3 cur(1)] by blast
    then show ?thesis using r(1) qc(2) qp by (simp add: row_evolves_def same_query_def)
  qed
  note pol = check_guarded[OF chk target]
  have rev: "policy_revision ?s2 t (qr_data_source_id q) = revision" using pol(1) a(2) ids qc(2) by simp
  have "policy_evolves (get_execution_cost_policy (w_store w) t (qr_data_source_id q))
      (get_execution_cost_policy ?s2 t (qr_data_source_id q))"
    using store_evolves_trans[OF ev2(1) ev3] by (simp add: store_evolves_def)
  then have same: "get_execution_cost_policy ?s2 t (qr_data_source_id q)
      = get_execution_cost_policy (w_store w) t (qr_data_source_id q)"
    using cost_policy_check_ok(2)[OF check] rev ids(3) unfolding policy_evolves_def policy_revision_of by metis
  have "within_policy (get_execution_cost_policy (w_store w') t (qr_data_source_id q)) (apply_update u r)"
    using cost_policy_check_ok(1)[OF check] within_policy_cong[OF same_ex] same policy_cong[OF fin(2)] ids(3)
    by simp
  moreover have "policy_revision (w_store w') t (qr_data_source_id q) = revision"
    using rev policy_cong[OF fin(2)] by (simp add: policy_revision_of)
  moreover have "target = EXECUTING \<Longrightarrow> qr_approved_cost_policy_revision current = Some revision"
    using pol(2) rev ids qc(2) by simp
  ultimately show ?thesis
    using that fin(1) e same_ex same_q store_inv_row[OF inv(2) fin(1)] prepare_transition_cases(2)[OF cur(2)]
      ids cur(2) by simp
qed

lemma claim_ok:
  assumes claim: "claim_executionA t i q w = (Inr e, w')"
    and good: "world_good w" and ev: "store_evolves s0 (w_store w)"
    and q: "get_query_request s0 t i = Some q"
  shows "\<exists>r. claimed (w_store w') t i q r" and "qr_id e = i" "qr_tenant_id e = t"
proof -
  obtain revision where
    check: "cost_policy_check (get_execution_cost_policy (w_store (tick w)) (qr_tenant_id q)
      (qr_data_source_id q)) q True = Inr revision" and
    move: "transitionA t i EXECUTING
       (no_args\<lparr>ta_expected_explain_revision := Some (qr_explain_revision q),
                ta_expected_cost_policy_revision := Some revision\<rparr>) (tick w) = (Inr e, w')"
    using claim by (rule claim_unfolds)
  have good1: "world_good (tick w)" "store_evolves s0 (w_store (tick w))"
    using tick_forward[of w] good ev store_evolves_trans by (auto simp: world_forward_def)
  let ?a = "no_args\<lparr>ta_expected_explain_revision := Some (qr_explain_revision q),
                ta_expected_cost_policy_revision := Some revision\<rparr>"
  let ?n = "w_clock (tick w) (Suc (w_step (tick w)))"
  have a: "EXECUTING \<in> {APPROVED, EXECUTING}"
    "ta_expected_explain_revision ?a = Some (qr_explain_revision q)"
    "ta_expected_cost_policy_revision ?a = Some revision" by simp_all
  obtain current u r r' where
    g: "get_query_request (w_store w') t i = Some r"
    "e = apply_update u current" "r = apply_update u r'" "qr_state r = EXECUTING" "row_inv r"
    "same_explain q r" "same_query q r" "qr_data_source_id r = qr_data_source_id q"
    "policy_revision (w_store w') t (qr_data_source_id q) = revision"
    "within_policy (get_execution_cost_policy (w_store w') t (qr_data_source_id q)) r"
    "qr_id current = i" "qr_tenant_id current = t"
    and prep: "prepare_transition current EXECUTING ?a ?n ?n = Inr u"
    and rev: "EXECUTING = EXECUTING \<Longrightarrow> qr_approved_cost_policy_revision current = Some revision"
    by (rule guarded_transition[OF check move a good1 q]) (rule that; assumption)
  show "qr_id e = i" "qr_tenant_id e = t" using g(2,11,12) by simp_all
  have "ru_cost_policy_revision u = Some revision" using prepare_other(6)[OF prep] rev by simp
  moreover have "qr_approved_cost_policy_revision r = ru_cost_policy_revision u" using g(3) by simp
  ultimately have "claimed (w_store w') t i q r" using g(1,4-10) unfolding claimed_def by simp
  then show "\<exists>r. claimed (w_store w') t i q r" by blast
qed

section \<open>Execution\<close>

lemma run_executions:
  assumes "run_executorA sv ex ds t i p w = (r, w')"
  shows "executions w' = executions w @ [Execute_Call ds i (pp_sql p) (pp_parameters p) (w_store w)]"
proof -
  let ?after = "w\<lparr>w_calls := w_calls w @ [Execute_Call ds i (pp_sql p) (pp_parameters p) (w_store w)]\<rparr>"
  let ?rest = "case ex_execute ex (w_step w) ds i (pp_sql p) (pp_parameters p) (sv_timeout_seconds sv)
            (sv_max_rows sv) (sv_max_result_bytes sv) of
       Inr result \<Rightarrow> returnA result
     | Inl e \<Rightarrow>
        bindA (readA (\<lambda>s. get_query_request s t i)) (\<lambda>latest.
        bindA (if \<exists>l \<in> set_option latest. qr_state l = EXECUTING
               then bindA (transitionA t i FAILED_EXECUTION no_args) (\<lambda>_. returnA ())
               else returnA ()) (\<lambda>_.
          raiseA (ExecutorRaised e)))"
  have "?rest ?after = (r, w')"
    using assms by (simp add: run_executorA_def bindA_def[of stepA] bindA_def[of "logA _"] stepA_def logA_def)
  moreover have "guarantees silent ?rest"
    by (intro guarantee_splits quiet.parts transition_silent)
  ultimately have "silent ?after w'" by (rule guaranteesD[rotated])
  then show ?thesis by (simp add: silent_def executions_def)
qed

text \<open>The checks before the claim, as one action.\<close>

definition admitA ::
  "execution_service \<Rightarrow> string \<Rightarrow> string \<Rightarrow> string \<Rightarrow> (string \<times> pyobj) list
     \<Rightarrow> (query_request \<times> data_source \<times> prepared_query \<times> executor) action" where
  "admitA sv t d i supplied =
     bindA (loadA t d i) (\<lambda>(q, ds).
     bindA (ensureA (qr_state q = APPROVED) NotApproved) (\<lambda>_.
     bindA (prepareA sv q ds supplied) (\<lambda>p.
     bindA (liftA (parameter_binding_check q ds p)) (\<lambda>_.
     bindA (ensureA (approval_current sv q p) StaleApproval) (\<lambda>_.
     bindA (find_executorA sv ds) (\<lambda>ex. returnA (q, ds, p, ex)))))))"

definition launchA ::
  "execution_service \<Rightarrow> string \<Rightarrow> string \<Rightarrow> query_request \<Rightarrow> data_source \<Rightarrow> prepared_query \<Rightarrow> executor
     \<Rightarrow> query_execution_run action" where
  "launchA sv t i q ds p ex =
     bindA (claim_executionA t i q) (\<lambda>e.
     bindA (run_executorA sv ex ds t i p) (finish_executionA sv e ds t i))"

lemma bindA_assoc: "bindA (bindA m f) g = bindA m (\<lambda>x. bindA (f x) g)"
  by (auto simp: bindA_def fun_eq_iff split: prod.split sum.split)

lemma bindA_prod: "bindA (case x of (a, b) \<Rightarrow> f a b) g = (case x of (a, b) \<Rightarrow> bindA (f a b) g)"
  by (cases x) simp

lemma execute_split:
  "executeA sv t d i supplied
    = bindA (admitA sv t d i supplied) (\<lambda>(q, ds, p, ex). launchA sv t i q ds p ex)"
  by (simp add: executeA_def admitA_def launchA_def bindA_assoc bindA_prod)

lemma admit_silent: "guarantees silent (admitA sv t d i supplied)"
  unfolding admitA_def by (intro quiet.parts guarantee_splits)

lemma admit_forward: "guarantees world_forward (admitA sv t d i supplied)"
  unfolding admitA_def by (intro forward.parts guarantee_splits)

lemma admit_ok:
  assumes admit: "admitA sv t d i supplied w = (Inr (q, ds, p, ex), w2)" and good: "world_good w"
  obtains s0 where "get_query_request s0 t i = Some q" "store_inv s0" "store_evolves s0 (w_store w2)"
    "world_good w2" "qr_state q = APPROVED" "qr_data_source_id q = d" "approval_current sv q p"
    "parameter_binding_check q ds p = Inr ()" "ds_tenant_id ds = t" "ds_id ds = d"
    "pd_allowed (sv_sql_access sv (qr_tenant_id q) (qr_data_source_id q)
       (qr_referenced_tables q) (qr_referenced_columns q))"
    "\<exists>sql w0 w1. revalidate sv q (ds_dialect ds) = Inr sql
       \<and> bind_preparedA sv q ds supplied sql w0 = (Inr p, w1)"
proof -
  from admit obtain w1 where load: "loadA t d i w = (Inr (q, ds), w1)"
    and prep: "prepareA sv q ds supplied w1 = (Inr p, w2)"
    and rest: "qr_state q = APPROVED" "parameter_binding_check q ds p = Inr ()" "approval_current sv q p"
    by (auto simp: admitA_def bindA_Inr find_executorA_def split: option.splits)
  note ok = load_ok[OF load]
  have g0: "world_good (tick w)" and g1: "world_good w1" and e1: "store_evolves (w_store (tick w)) (w_store w1)"
    using tick_forward[of w] tick_forward[of "tick w"] good ok(4)
    by (auto simp: world_forward_def simp del: tick_fields(4))
  have "world_forward w1 w2" by (rule guaranteesD[OF forward.prepare prep])
  then have g2: "world_good w2" "store_evolves (w_store w1) (w_store w2)"
    using g1 by (simp_all add: world_forward_def)
  have "ds_tenant_id ds = t" "ds_id ds = d"
    using ok(3) by (auto simp: get_data_source_def dest: fetch_one_Some_iff_mem)
  then show ?thesis
    using that[OF ok(1) _ store_evolves_trans[OF e1 g2(2)] g2(1) rest(1) ok(2) rest(3,2)]
      prepare_ok(2,4)[OF prep] g0 by (auto simp: world_good_def simp del: tick_fields(4))
qed

lemma launch_executions:
  assumes "launchA sv t i q ds p ex w2 = (res, w')"
  shows "silent w2 w' \<or> (\<exists>e w3. claim_executionA t i q w2 = (Inr e, w3)
    \<and> executions w' = executions w2 @ [Execute_Call ds i (pp_sql p) (pp_parameters p) (w_store w3)])"
  using assms unfolding launchA_def
proof (cases rule: bindA_cases)
  case (fail e)
  then show ?thesis using guaranteesD[OF claim_silent] by blast
next
  case (ok e w3)
  have "executions w' = executions w3 @ [Execute_Call ds i (pp_sql p) (pp_parameters p) (w_store w3)]"
    using ok(2)
  proof (cases rule: bindA_cases)
    case (fail x)
    then show ?thesis using run_executions by metis
  next
    case (ok r w4)
    then show ?thesis
      using run_executions[OF ok(1)] guaranteesD[OF finish_silent ok(2)] by (simp add: silent_def)
  qed
  then show ?thesis using guaranteesD[OF claim_silent ok(1)] ok(1) by (auto simp: silent_def)
qed

text \<open>
  Either the database was not reached, or it was reached once, after a claim on the request
  that was loaded.
\<close>

lemma execute_cases:
  assumes run: "executeA sv t d i supplied w = (res, w')" and good: "world_good w"
  obtains (refused) "silent w w'"
  | (called) q ds p ex w2 e w3 where
      "admitA sv t d i supplied w = (Inr (q, ds, p, ex), w2)"
      "claim_executionA t i q w2 = (Inr e, w3)"
      "executions w' = executions w @ [Execute_Call ds i (pp_sql p) (pp_parameters p) (w_store w3)]"
  using run unfolding execute_split
proof (cases rule: bindA_cases)
  case (fail e)
  then show ?thesis using refused guaranteesD[OF admit_silent] by blast
next
  case (ok x w2)
  obtain q ds p ex where x: "x = (q, ds, p, ex)" by (cases x)
  have s2: "silent w w2" by (rule guaranteesD[OF admit_silent ok(1)])
  show ?thesis
    using launch_executions[of sv t i q ds p ex w2 res w'] ok x s2 called refused
    by (auto simp: silent_def)
qed

text \<open>The approval of the claimed row is the approval of what is sent to the database.\<close>

lemma claimed_approval:
  assumes "claimed s t i q r" "row_inv q" "qr_state q = APPROVED" "approval_current sv q p"
  shows "\<exists>actor. qr_approved_by r = Some actor \<and> \<not> blank actor"
    and "qr_approved_explain_revision r = Some (qr_explain_revision r)"
    and "qr_explained_at r \<noteq> None \<Longrightarrow> qr_approved_sql_hash r = Some (sl_sha256 (sv_lib sv) (pp_sql p))
      \<and> qr_approved_parameter_value_hash r = pp_value_hash p"
  using assms
  by (auto simp: claimed_def row_inv_def approval_bound_def approval_states_def execution_chain_def
      approval_current_def same_explain_def)


text \<open>The request, the SQL and the bindings behind a query sent to a plain data source.\<close>

lemma executed_call:
  assumes "world_good w" and "executeA sv t d i supplied w = (res, w')"
    and "executions w' = executions w @ [Execute_Call ds i sql params s]"
    and "ds_source_type ds \<noteq> AUTHORIZED_QUERY"
  shows "\<exists>q r p b. claimed s t i q r \<and> revalidate sv r (ds_dialect ds) = Inr sql
    \<and> parameter_binding_check q ds p = Inr () \<and> params = bp_values b
    \<and> bind_query_parameters (sv_lib sv) (qr_parameter_definitions q) supplied = Inr b
    \<and> pp_parameter_names p = bp_names b
    \<and> (bp_names b \<noteq> [] \<longrightarrow> pp_value_hash p = Some (bp_value_hash b))
    \<and> (qr_explained_at r \<noteq> None \<longrightarrow> qr_approved_parameter_value_hash r = pp_value_hash p)"
  using assms(2,1)
proof (cases rule: execute_cases)
  case refused
  then show ?thesis using assms(3) by (simp add: silent_def)
next
  case (called q ds' p ex w2 e w3)
  have same: "ds' = ds" "params = pp_parameters p" "s = w_store w3" "sql = pp_sql p"
    using called(3) assms(3) by simp_all
  obtain s0 where s0: "get_query_request s0 t i = Some q" "store_inv s0" "store_evolves s0 (w_store w2)"
    "world_good w2" "qr_state q = APPROVED" "approval_current sv q p"
    "parameter_binding_check q ds p = Inr ()"
    "\<exists>sql w0 w1. revalidate sv q (ds_dialect ds) = Inr sql
       \<and> bind_preparedA sv q ds supplied sql w0 = (Inr p, w1)"
    using called(1)[unfolded same(1)] assms(1) by (rule admit_ok)
  obtain r where r: "claimed s t i q r"
    using claim_ok(1)[OF called(2) s0(4,3,1)] same by blast
  note approval = claimed_approval(3)[OF r store_inv_row[OF s0(2,1)] s0(5,6)]
  obtain sql0 w0 w1 where sql0: "revalidate sv q (ds_dialect ds) = Inr sql0"
    "bind_preparedA sv q ds supplied sql0 w0 = (Inr p, w1)"
    using s0(8) by blast
  have sql: "revalidate sv r (ds_dialect ds) = Inr sql"
    using r revalidate_cong[of q r] sql0(1) same(4) bind_prepared_plain(1)[OF sql0(2) assms(4)]
    by (simp add: claimed_def)
  from bind_prepared_plain(2)[OF sql0(2) assms(4)] obtain b where
    b: "bind_query_parameters (sv_lib sv) (qr_parameter_definitions q) supplied = Inr b"
      "pp_parameters p = bp_values b" "pp_parameter_names p = bp_names b"
      "bp_names b \<noteq> [] \<longrightarrow> pp_value_hash p = Some (bp_value_hash b)" by blast
  show ?thesis
    using r sql s0(7) same(2) b approval
    by (intro exI[of _ q] exI[of _ r] exI[of _ p] exI[of _ b] conjI) simp_all
qed

lemma execute_revalidates:
  assumes "world_good w" and "executeA sv t d i supplied w = (res, w')"
    and "executions w' = executions w @ [Execute_Call ds i sql params s]"
    and "ds_source_type ds \<noteq> AUTHORIZED_QUERY"
  shows "\<exists>r. get_query_request s t i = Some r \<and> revalidate sv r (ds_dialect ds) = Inr sql"
  using executed_call[OF assms] by (auto simp: claimed_def)

text \<open>
  C2: what is sent to a plain data source is the SQL that the validator just accepted for the
  stored request, with the values the caller supplied now, bound to the declarations of
  that request; when there are parameters, the request was explained and the digest of
  these values is the one EXPLAIN recorded and the approver approved.
\<close>

theorem execute_binds_explained_values:
  assumes "world_good w" and "executeA sv t d i supplied w = (res, w')"
    and "executions w' = executions w @ [Execute_Call ds i sql params s]"
    and "ds_source_type ds \<noteq> AUTHORIZED_QUERY"
  shows "\<exists>r b. get_query_request s t i = Some r
    \<and> revalidate sv r (ds_dialect ds) = Inr sql
    \<and> bind_query_parameters (sv_lib sv) (qr_parameter_definitions r) supplied = Inr b
    \<and> params = bp_values b
    \<and> (bp_names b \<noteq> [] \<longrightarrow> qr_explained_at r \<noteq> None
         \<and> qr_parameter_value_hash r = Some (bp_value_hash b)
         \<and> qr_approved_parameter_value_hash r = Some (bp_value_hash b))"
proof -
  obtain q r p b where c: "claimed s t i q r" "revalidate sv r (ds_dialect ds) = Inr sql"
    "parameter_binding_check q ds p = Inr ()" "params = bp_values b"
    "bind_query_parameters (sv_lib sv) (qr_parameter_definitions q) supplied = Inr b"
    "pp_parameter_names p = bp_names b" "bp_names b \<noteq> [] \<longrightarrow> pp_value_hash p = Some (bp_value_hash b)"
    "qr_explained_at r \<noteq> None \<longrightarrow> qr_approved_parameter_value_hash r = pp_value_hash p"
    using executed_call[OF assms] by blast
  have "qr_explained_at q \<noteq> None \<and> qr_parameter_value_hash q = pp_value_hash p" if "bp_names b \<noteq> []"
    using c(3,6) that by (auto simp: parameter_binding_check_def split: if_splits)
  then show ?thesis
    using c unfolding claimed_def same_explain_def same_query_def
    by (intro exI[of _ r] exI[of _ b]) auto
qed

end
