(* ===== verification/Execution_Outcomes.thy ===== *)
theory Execution_Outcomes
  imports Execution_Safety
begin

text \<open>
  The outcomes of the service's methods when no other client interferes: a run of
  \<open>execute\<close> never leaves a request in a running state, and what \<open>approve\<close>, \<open>explain\<close> and
  \<open>cancel\<close> leave in the store when they succeed.
\<close>

section \<open>Transitions that cannot fail\<close>

lemma transition_succeeds:
  assumes inv: "store_inv s" and q: "get_query_request s t i = Some q"
    and target: "target \<in> set (allowed_transitions (qr_state q))"
      "target \<notin> {APPROVED, EXECUTING, READY_FOR_PREVIEW}" "target \<notin> set generation_states"
  shows "\<exists>q' s'. transition_query_request (\<lambda>s. s) s t i target no_args n1 n2 = (Inr q', s')
    \<and> get_query_request s' t i = Some q' \<and> qr_state q' = target \<and> qr_id q' = i"
proof -
  obtain u where prep: "prepare_transition q target no_args n1 n2 = Inr u"
    using target by (auto simp: prepare_transition_def no_args_def lifecycle_transition_def)
  have uk: "unique_key qr_id (qs_requests s)" using inv by (simp add: store_inv_def)
  note mem = get_query_request_Some[OF q]
  have "row_count (unchanged_since q) (qs_requests s) \<le> 1"
    by (rule unique_key_row_count[OF uk, where k = "qr_id q"]) (simp add: unchanged_since_def)
  moreover have "row_count (unchanged_since q) (qs_requests s) \<noteq> 0"
    unfolding row_count_pos using mem by (auto simp: unchanged_since_def)
  ultimately have count: "row_count (unchanged_since q) (qs_requests s) = 1" by simp
  have check: "check_transition_policy s q target no_args = Inr ()"
    using target(2) by (simp add: check_transition_policy_def)
  obtain res s' where c: "commit_transition s q target no_args u = (res, s')" by fastforce
  note commit = commit_transition_interference[OF c prep q store_evolves_refl inv inv target(3)]
  have "res = Inr (apply_update u q)"
    using c count check commit(2) by (auto simp: commit_transition_def Let_def split: sum.splits)
  moreover have t: "transition_query_request (\<lambda>s. s) s t i target no_args n1 n2 = (res, s')"
    using q prep c by (simp add: transition_query_request_def)
  ultimately have t': "transition_query_request (\<lambda>s. s) s t i target no_args n1 n2 = (Inr (apply_update u q), s')"
    by simp
  obtain u' r where "get_query_request s t i = Some r" "prepare_transition r target no_args n1 n2 = Inr u'"
    "get_query_request s' t i = Some (apply_update u' r)"
    by (rule transition_committed[OF t' inv query_store.interference_id target(3)]) (use q in simp)
  then have "get_query_request s' t i = Some (apply_update u q)" using q prep by simp
  then show ?thesis
    using t' mem prepare_transition_cases(2)[OF prep] by auto
qed

section \<open>A world without interference\<close>

definition alone :: "world \<Rightarrow> bool" where
  "alone w = (w_env w = (\<lambda>_ s. s))"

lemma tick_alone: "alone w \<Longrightarrow> w_store (tick w) = w_store w \<and> alone (tick w)"
  by (simp add: alone_def)

text \<open>A third instance of the composition rules: the actions that leave the requests alone.\<close>

definition requests_kept :: "world \<Rightarrow> world \<Rightarrow> bool" where
  "requests_kept w w' =
     (w_env w' = w_env w \<and> (alone w \<longrightarrow> qs_requests (w_store w') = qs_requests (w_store w)))"

interpretation rows: world_relation requests_kept
  by unfold_locales (auto simp: requests_kept_def alone_def)

lemma transact_kept:
  assumes "\<And>mid s now. qs_requests (snd (f mid s now)) = qs_requests s"
  shows "guarantees requests_kept (transactA f)"
  using assms
  by (simp add: guarantees_def requests_kept_def transactA_def Let_def case_prod_unfold alone_def)

lemma process_kept: "guarantees requests_kept (process_and_recordA sv q ds t i r)"
  unfolding process_and_recordA_def
  by (intro rows.parts processor_step transact_kept guarantee_splits rows.world_relation_axioms)
    (simp add: record_query_activity_def)

lemma prefix_kept: "guarantees requests_kept (loadA t d i)" "guarantees requests_kept (prepareA sv q ds supplied)"
  by (rule rows.load rows.prepare)+

lemma kept_alone:
  assumes "guarantees requests_kept m" "guarantees world_forward m" "m w = (r, w')" "alone w" "world_good w"
  shows "get_query_request (w_store w') t i = get_query_request (w_store w) t i" "alone w'" "world_good w'"
proof -
  have "qs_requests (w_store w') = qs_requests (w_store w)"
    using guaranteesD[OF assms(1,3)] assms(4) by (simp add: requests_kept_def)
  then show "get_query_request (w_store w') t i = get_query_request (w_store w) t i"
    by (rule get_query_request_cong)
  show "alone w'" "world_good w'"
    using guaranteesD[OF assms(2,3)] assms(4,5) by (simp_all add: world_forward_def alone_def)
qed

definition state_of :: "world \<Rightarrow> string \<Rightarrow> string \<Rightarrow> query_request_state option" where
  "state_of w t i = map_option qr_state (get_query_request (w_store w) t i)"

lemma transition_alone:
  assumes "alone w" "world_good w" "get_query_request (w_store w) t i = Some q"
    and "target \<in> set (allowed_transitions (qr_state q))"
      "target \<notin> {APPROVED, EXECUTING, READY_FOR_PREVIEW}" "target \<notin> set generation_states"
    and run: "transitionA t i target no_args w = (res, w')"
  shows "\<exists>q'. res = Inr q' \<and> get_query_request (w_store w') t i = Some q' \<and> qr_state q' = target
    \<and> qr_id q' = i" and "alone w'" "world_good w'"
proof -
  have inv: "store_inv (w_store w)" using assms(2) by (simp add: world_good_def)
  obtain q' s' where t: "transition_query_request (\<lambda>s. s) (w_store w) t i target no_args
      (w_clock w (Suc (w_step w))) (w_clock w (Suc (w_step w))) = (Inr q', s')"
    and q': "get_query_request s' t i = Some q'" "qr_state q' = target" "qr_id q' = i"
    using transition_succeeds[OF inv assms(3-6)] by blast
  have env: "w_env w = (\<lambda>_ s. s)" using assms(1) by (simp add: alone_def)
  then have "transitionA t i target no_args w
      = (Inr q', (tick w)\<lparr>w_store := s', w_step := Suc (Suc (w_step w))\<rparr>)"
    using t by (simp add: transitionA_def transactA_def Let_def)
  then show "\<exists>q'. res = Inr q' \<and> get_query_request (w_store w') t i = Some q' \<and> qr_state q' = target
      \<and> qr_id q' = i" using run q' by auto
  have "world_forward w w'" using guaranteesD[OF transition_forward[OF assms(6)] run] .
  then show "alone w'" "world_good w'" using assms(1,2) by (simp_all add: world_forward_def alone_def)
qed

text \<open>The states in which a request counts as running.\<close>

definition running_states :: "query_request_state list" where
  "running_states = [EXECUTING, SUCCEEDED, RESULT_PROCESSING]"

section \<open>The steps after the claim\<close>

lemma run_executor_alone:
  assumes run: "run_executorA sv ex ds t i p w = (res, w')" and w: "alone w" "world_good w"
    and q: "get_query_request (w_store w) t i = Some q" "qr_state q = EXECUTING"
  shows "(\<exists>r. res = Inr r \<and> w_store w' = w_store w) \<or> (\<exists>e. res = Inl e \<and> state_of w' t i = Some FAILED_EXECUTION)"
    and "alone w'" "world_good w'"
proof -
  show "alone w'" "world_good w'"
    using guaranteesD[OF run_forward run] w by (simp_all add: world_forward_def alone_def)
  let ?w1 = "w\<lparr>w_calls := w_calls w @ [Execute_Call ds i (pp_sql p) (pp_parameters p) (w_store w)]\<rparr>"
  have w1: "alone ?w1" "world_good ?w1" using w by (simp_all add: alone_def world_good_def)
  have tick1: "w_store (tick ?w1) = w_store w" "alone (tick ?w1)" "world_good (tick ?w1)"
    using tick_alone[OF w1(1)] tick_forward[of ?w1] w1 by (auto simp: world_forward_def)
  show "(\<exists>r. res = Inr r \<and> w_store w' = w_store w) \<or> (\<exists>e. res = Inl e \<and> state_of w' t i = Some FAILED_EXECUTION)"
  proof (cases "ex_execute ex (w_step w) ds i (pp_sql p) (pp_parameters p) (sv_timeout_seconds sv)
      (sv_max_rows sv) (sv_max_result_bytes sv)")
    case (Inr result)
    then have "(res, w') = (Inr result, ?w1)"
      using run by (simp add: run_executorA_def bindA_def stepA_def logA_def returnA_def)
    then show ?thesis by simp
  next
    case (Inl e)
    obtain res' w2 where move: "transitionA t i FAILED_EXECUTION no_args (tick ?w1) = (res', w2)" by fastforce
    have "\<exists>q'. res' = Inr q' \<and> get_query_request (w_store w2) t i = Some q' \<and> qr_state q' = FAILED_EXECUTION
        \<and> qr_id q' = i"
    proof (rule transition_alone(1)[OF tick1(2,3) _ _ _ _ move])
      show "get_query_request (w_store (tick ?w1)) t i = Some q" using q(1) tick1(1) by metis
    qed (use q(2) in \<open>simp_all add: generation_states_def\<close>)
    then obtain q' where q': "res' = Inr q'" "get_query_request (w_store w2) t i = Some q'"
      "qr_state q' = FAILED_EXECUTION" by blast
    have "(res, w') = (Inl (ExecutorRaised e), w2)"
      using run Inl move q'(1) q tick1(1)
      by (simp add: run_executorA_def bindA_def stepA_def logA_def readA_def Let_def returnA_def raiseA_def
          del: tick_fields(4))
    then show ?thesis using q' by (simp add: state_of_def)
  qed
qed

lemma finish_alone:
  assumes run: "finish_executionA sv e ds t i r w = (res, w')" and w: "alone w" "world_good w"
    and q: "get_query_request (w_store w) t i = Some q" "qr_state q = EXECUTING" and e: "qr_id e = i"
  shows "(\<exists>x q'. res = Inr x \<and> get_query_request (w_store w') t i = Some q' \<and> qr_state q' = COMPLETED
            \<and> run_query_request x = q')
    \<or> (\<exists>x. res = Inl x \<and> state_of w' t i = Some FAILED_EXECUTION)"
proof -
  obtain res1 w1 where m1: "transitionA t i SUCCEEDED no_args w = (res1, w1)" by fastforce
  obtain q1 where q1: "res1 = Inr q1" "get_query_request (w_store w1) t i = Some q1" "qr_state q1 = SUCCEEDED"
    "qr_id q1 = i" and w1: "alone w1" "world_good w1"
    using transition_alone[OF w q(1) _ _ _ m1] q(2) by (auto simp: generation_states_def)
  obtain res2 w2 where m2: "transitionA t i RESULT_PROCESSING no_args w1 = (res2, w2)" by fastforce
  obtain q2 where q2: "res2 = Inr q2" "get_query_request (w_store w2) t i = Some q2"
    "qr_state q2 = RESULT_PROCESSING" "qr_id q2 = i" and w2: "alone w2" "world_good w2"
    using transition_alone[OF w1 q1(2) _ _ _ m2] q1(3) by (auto simp: generation_states_def)
  obtain res3 w3 where m3: "process_and_recordA sv q2 ds t i r w2 = (res3, w3)" by fastforce
  note k = kept_alone[OF process_kept process_forward m3 w2]
  have q3: "get_query_request (w_store w3) t i = Some q2" using k(1) q2(2) by simp
  let ?target = "case res3 of Inl _ \<Rightarrow> FAILED_EXECUTION | Inr _ \<Rightarrow> COMPLETED"
  obtain res4 w4 where m4: "transitionA t i ?target no_args w3 = (res4, w4)" by fastforce
  have "\<exists>q'. res4 = Inr q' \<and> get_query_request (w_store w4) t i = Some q' \<and> qr_state q' = ?target \<and> qr_id q' = i"
    by (rule transition_alone(1)[OF k(2,3) q3 _ _ _ m4])
      (use q2(3) in \<open>simp_all add: generation_states_def split: sum.split\<close>)
  then obtain q4 where q4: "res4 = Inr q4" "get_query_request (w_store w4) t i = Some q4" "qr_state q4 = ?target"
    by blast
  have unfolded: "finish_executionA sv e ds t i r w
      = (case res3 of Inl x \<Rightarrow> (Inl x, w4)
         | Inr p \<Rightarrow> (Inr \<lparr>run_query_request = q4, run_result = pq_result p, run_answer = pq_answer p,
              run_privacy = pq_privacy p, run_provenance = pq_provenance p\<rparr>, w4))"
    using m1 m2 m3 m4 q1(1,4) q2(1,4) q4(1) e
    by (simp add: finish_executionA_def bindA_def catchA_def returnA_def raiseA_def split: sum.splits)
  show ?thesis
  proof (cases res3)
    case (Inl x)
    then show ?thesis using unfolded run q4 by (simp add: state_of_def)
  next
    case (Inr p)
    then show ?thesis using unfolded run q4 by auto
  qed
qed

section \<open>The claim\<close>

lemma transition_alone_cases:
  assumes w: "alone w" "world_good w" and target: "target \<notin> set generation_states"
    and run: "transitionA t i target a w = (res, w')"
  shows "alone w' \<and> world_good w' \<and>
    ((\<exists>q'. res = Inr q' \<and> get_query_request (w_store w') t i = Some q' \<and> qr_state q' = target \<and> qr_id q' = i)
     \<or> (\<exists>x. res = Inl x \<and> get_query_request (w_store w') t i = get_query_request (w_store w) t i))"
proof -
  have env: "w_env w = (\<lambda>_ s. s)" using w(1) by (simp add: alone_def)
  have inv: "store_inv (w_store w)" using w(2) by (simp add: world_good_def)
  let ?n = "w_clock w (Suc (w_step w))"
  obtain r s' where t: "transition_query_request (\<lambda>s. s) (w_store w) t i target a ?n ?n = (r, s')" by fastforce
  have w': "res = (case r of Inl e \<Rightarrow> Inl (StoreRaised e) | Inr x \<Rightarrow> Inr x)" "w_store w' = s'"
    using run t env by (auto simp: transitionA_def transactA_def Let_def)
  have "world_forward w w'" using guaranteesD[OF transition_forward[OF target] run] .
  then have good: "alone w'" "world_good w'" using w by (simp_all add: world_forward_def alone_def)
  show ?thesis
  proof (cases r)
    case (Inr q')
    obtain current u r0 where c: "get_query_request (w_store w) t i = Some current"
      "prepare_transition current target a ?n ?n = Inr u" "get_query_request (w_store w) t i = Some r0"
      "q' = apply_update u current" "get_query_request s' t i = Some (apply_update u r0)"
      by (rule transition_committed[OF t[unfolded Inr] inv query_store.interference_id target])
    then show ?thesis
      using good w' Inr get_query_request_Some[OF c(1)] prepare_transition_cases(2)[OF c(2)] by auto
  next
    case (Inl x)
    have "s' = w_store w"
    proof (cases rule: transition_cases[of "w_store w" t i "\<lambda>s. s" target a ?n ?n])
      case (commit current u)
      have c: "commit_transition (w_store w) current target a u = (Inl x, s')" using commit(3) t Inl by simp
      have "\<forall>e. x \<noteq> InvalidRequest e"
        using commit_transition_interference(2)[OF c commit(2,1) store_evolves_refl inv inv target] by auto
      then show ?thesis by (rule commit_transition_aborted[OF c])
    qed (use t in simp_all)
    then show ?thesis using good w' Inl by auto
  qed
qed

lemma transition_alone_state:
  assumes "alone w" "world_good w" "target \<notin> set generation_states"
    and "transitionA t i target a w = (res, w')"
  shows "alone w'" "world_good w'" "state_of w' t i \<in> {state_of w t i, Some target}"
  using transition_alone_cases[OF assms] by (auto simp: state_of_def)

lemma policy_step_alone:
  assumes "enforce_execution_cost_policyA q b w = (r, w1)" "alone w" "world_good w"
  shows "get_query_request (w_store w1) t i = get_query_request (w_store w) t i" "alone w1" "world_good w1"
  using kept_alone[OF rows.policy forward.policy assms] by simp_all

lemma reopen_step:
  assumes "bindA (catchA (bindA (transitionA t i READY_FOR_PREVIEW no_args) (\<lambda>_. returnA ())) h)
      (\<lambda>_. raiseA e) w = (res, w')"
    and "\<And>x v. snd (h x v) = v" and w: "alone w" "world_good w"
  shows "(\<exists>x. res = Inl x) \<and> state_of w' t i \<in> {state_of w t i, Some READY_FOR_PREVIEW}"
proof -
  obtain r1 w1 where m: "transitionA t i READY_FOR_PREVIEW no_args w = (r1, w1)" by fastforce
  have "state_of w1 t i \<in> {state_of w t i, Some READY_FOR_PREVIEW}"
    using transition_alone_state(3)[OF w _ m] by (simp add: generation_states_def)
  moreover have "(\<exists>x. res = Inl x) \<and> w' = w1"
    using assms(1) m assms(2) by (cases r1)
      (auto simp: bindA_def catchA_def returnA_def raiseA_def split: prod.splits sum.splits dest: arg_cong[where f = snd])
  ultimately show ?thesis by simp
qed

lemma claim_alone:
  assumes run: "claim_executionA t i q w = (res, w')" and w: "alone w" "world_good w"
    and st: "state_of w t i = Some APPROVED"
  shows "(\<exists>e q'. res = Inr e \<and> qr_id e = i \<and> get_query_request (w_store w') t i = Some q' \<and> qr_state q' = EXECUTING)
    \<or> (\<exists>x. res = Inl x \<and> state_of w' t i \<in> {Some APPROVED, Some READY_FOR_PREVIEW})"
    and "alone w'" "world_good w'"
proof -
  show "alone w'" "world_good w'"
    using guaranteesD[OF claim_forward run] w by (simp_all add: world_forward_def alone_def)
  let ?attempt = "bindA (enforce_execution_cost_policyA q True) (\<lambda>revision.
          transitionA t i EXECUTING
            (no_args\<lparr>ta_expected_explain_revision := Some (qr_explain_revision q),
                     ta_expected_cost_policy_revision := Some revision\<rparr>))"
  obtain r1 w1 where attempt: "?attempt w = (r1, w1)" by fastforce
  have gen: "EXECUTING \<notin> set generation_states" by (simp add: generation_states_def)
  have fwd: "guarantees world_forward ?attempt" by (intro forward.parts transition_forward gen)
  have w1: "alone w1" "world_good w1"
    using guaranteesD[OF fwd attempt] w by (simp_all add: world_forward_def alone_def)
  have step: "(\<exists>e q'. r1 = Inr e \<and> qr_id e = i \<and> get_query_request (w_store w1) t i = Some q' \<and> qr_state q' = EXECUTING)
      \<or> (\<exists>x. r1 = Inl x \<and> state_of w1 t i = Some APPROVED)"
    using attempt
  proof (cases rule: bindA_cases)
    case (fail x)
    then show ?thesis using policy_step_alone(1)[OF fail(1) w] st by (auto simp: state_of_def)
  next
    case (ok rev w0)
    note k = policy_step_alone[OF ok(1) w]
    show ?thesis using transition_alone_cases[OF k(2,3) gen ok(2)] k(1)[of t i] st by (auto simp: state_of_def)
  qed
  show "(\<exists>e q'. res = Inr e \<and> qr_id e = i \<and> get_query_request (w_store w') t i = Some q' \<and> qr_state q' = EXECUTING)
    \<or> (\<exists>x. res = Inl x \<and> state_of w' t i \<in> {Some APPROVED, Some READY_FOR_PREVIEW})"
  proof (cases r1)
    case (Inr e)
    then have "res = Inr e" "w' = w1"
      using run attempt by (simp_all add: claim_executionA_def catchA_def)
    then show ?thesis using step Inr by auto
  next
    case (Inl x)
    have ap: "state_of w1 t i = Some APPROVED" using step Inl by auto
    let ?h = "\<lambda>e'. case conflict_of e' of None \<Rightarrow> raiseA e' | Some _ \<Rightarrow> returnA ()"
    have h: "snd (?h y v) = v" for y v by (simp add: raiseA_def returnA_def split: option.split)
    show ?thesis
    proof (cases "is_policy_change x")
      case True
      then have "bindA (catchA (bindA (transitionA t i READY_FOR_PREVIEW no_args) (\<lambda>_. returnA ())) ?h)
          (\<lambda>_. raiseA StalePolicy) w1 = (res, w')"
        using run attempt Inl unfolding claim_executionA_def catchA_def[of ?attempt] by simp
      from reopen_step[OF this h w1] show ?thesis using ap by auto
    next
      case False
      then have "w' = w1" "\<exists>y. res = Inl y"
        using run attempt Inl unfolding claim_executionA_def catchA_def[of ?attempt]
        by (auto simp: raiseA_def split: option.splits)
      then show ?thesis using ap by auto
    qed
  qed
qed

section \<open>Execution leaves no running request\<close>

lemma launch_alone:
  assumes run: "launchA sv t i q ds p ex w = (res, w')" and w: "alone w" "world_good w"
    and st: "state_of w t i = Some APPROVED"
  shows "(\<exists>x. res = Inr x \<and> get_query_request (w_store w') t i = Some (run_query_request x)
             \<and> qr_state (run_query_request x) = COMPLETED)
    \<or> (\<exists>x. res = Inl x \<and> state_of w' t i \<in> {Some APPROVED, Some READY_FOR_PREVIEW, Some FAILED_EXECUTION})"
  using run unfolding launchA_def
proof (cases rule: bindA_cases)
  case (fail x)
  then show ?thesis using claim_alone(1)[OF fail(1) w st] by auto
next
  case (ok e w1)
  obtain q' where q': "get_query_request (w_store w1) t i = Some q'" "qr_state q' = EXECUTING" "qr_id e = i"
    using claim_alone(1)[OF ok(1) w st] by auto
  note w1 = claim_alone(2,3)[OF ok(1) w st]
  show ?thesis
    using ok(2)
  proof (cases rule: bindA_cases)
    case (fail x)
    then show ?thesis using run_executor_alone(1)[OF fail(1) w1 q'(1,2)] by auto
  next
    case (ok r w2)
    note r = run_executor_alone[OF ok(1) w1 q'(1,2)]
    have "get_query_request (w_store w2) t i = Some q'" using r(1) q'(1) by auto
    from finish_alone[OF ok(2) r(2,3) this q'(2,3)] show ?thesis by auto
  qed
qed

lemma admit_kept: "guarantees requests_kept (admitA sv t d i supplied)"
  unfolding admitA_def by (intro rows.parts guarantee_splits)

text \<open>
  C9: when no other client interferes, a run of \<open>execute\<close> always ends with the request at
  rest.  A successful run returns the stored request, which is completed; a run that raises,
  whatever raised (a check, the policy, the driver, the result processor or the store),
  leaves the request as it was, reopened for preview, or failed; never executing,
  succeeded or in result processing.
\<close>

theorem execute_leaves_no_running_request:
  assumes "world_good w" "alone w" and "executeA sv t d i supplied w = (res, w')"
    and "state_of w t i \<notin> {Some EXECUTING, Some SUCCEEDED, Some RESULT_PROCESSING}"
  shows "state_of w' t i \<notin> {Some EXECUTING, Some SUCCEEDED, Some RESULT_PROCESSING}
    \<and> (case res of
         Inr x \<Rightarrow> get_query_request (w_store w') t i = Some (run_query_request x)
                  \<and> qr_state (run_query_request x) = COMPLETED
       | Inl _ \<Rightarrow> state_of w' t i \<in> {state_of w t i, Some READY_FOR_PREVIEW, Some FAILED_EXECUTION})"
  using assms(3) unfolding execute_split
proof (cases rule: bindA_cases)
  case (fail e)
  then show ?thesis
    using kept_alone(1)[OF admit_kept admit_forward fail(1) assms(2,1)] assms(4) by (auto simp: state_of_def)
next
  case (ok x w2)
  obtain q ds p ex where x: "x = (q, ds, p, ex)" by (cases x)
  note k = kept_alone[OF admit_kept admit_forward ok(1) assms(2,1)]
  have "get_query_request (w_store (tick w)) t i = Some q" "qr_state q = APPROVED"
    using ok(1) load_ok(1) by (auto simp: x admitA_def bindA_Inr find_executorA_def split: option.splits)
  then have st: "state_of w t i = Some APPROVED" using tick_alone[OF assms(2)] by (metis state_of_def option.map(2))
  then have "state_of w2 t i = Some APPROVED" using k(1) by (simp add: state_of_def)
  moreover have "launchA sv t i q ds p ex w2 = (res, w')" using ok(2) x by simp
  ultimately show ?thesis
    using launch_alone[of sv t i q ds p ex w2 res w', OF _ k(2,3)] st
    by (cases res) (auto simp: state_of_def)
qed

section \<open>Approval\<close>


section \<open>Cancellation\<close>

text \<open>
  \<open>cancel\<close> succeeds only from a cancellable state, a running query only after the executor
  confirmed the cancellation, and leaves the stored request cancelled.
\<close>

theorem cancel_confirms_and_cancels:
  assumes "world_good w" and "cancelA sv t d i w = (Inr q', w')"
  shows "(\<exists>r. get_query_request (w_store w') t i = Some r \<and> qr_state r = CANCELLED)
    \<and> (\<exists>q ds w1. loadA t d i w = (Inr (q, ds), w1)
        \<and> qr_state q \<in> {READY_FOR_PREVIEW, APPROVED, EXECUTING}
        \<and> (qr_state q = EXECUTING \<longrightarrow> CANCEL \<in> set (ds_capabilities ds)
             \<and> (\<exists>ex n. sv_executors sv (casefold (ds_dialect ds)) = Some ex \<and> ex_cancel ex n i)))"
proof -
  from assms(2) obtain q ds w1 w2 where load: "loadA t d i w = (Inr (q, ds), w1)"
    and st: "qr_state q \<in> {READY_FOR_PREVIEW, APPROVED, EXECUTING}"
    and mid: "confirm_cancelA sv q ds i w1 = (Inr (), w2)"
    and move: "transitionA t i CANCELLED no_args w2 = (Inr q', w')"
    by (fastforce simp: cancelA_def bindA_Inr on_conflict_Inr simp del: insert_iff)
  have fwd: "guarantees world_forward (confirm_cancelA sv q ds i)"
    unfolding confirm_cancelA_def by (intro forward.parts log_forward guarantee_splits)
  have "world_good w2"
    using guaranteesD[OF forward.load load] guaranteesD[OF fwd mid] assms(1) by (simp add: world_forward_def)
  moreover have gen: "CANCELLED \<notin> set generation_states" by (simp add: generation_states_def)
  ultimately obtain r u where "get_query_request (w_store w') t i = Some (apply_update u r)"
    "ru_state u = CANCELLED"
    using transitionA_committed[OF move] prepare_transition_cases(2) by metis
  then have "\<exists>r. get_query_request (w_store w') t i = Some r \<and> qr_state r = CANCELLED" by simp
  moreover have "qr_state q = EXECUTING \<longrightarrow> CANCEL \<in> set (ds_capabilities ds)
      \<and> (\<exists>ex n. sv_executors sv (casefold (ds_dialect ds)) = Some ex \<and> ex_cancel ex n i)"
    using mid by (auto simp: confirm_cancelA_def bindA_Inr find_executorA_def split: option.splits)
  ultimately show ?thesis using load st by blast
qed

section \<open>EXPLAIN\<close>

text \<open>
  A successful \<open>explain\<close> found the request ready for preview at the revision it had
  loaded, and leaves it ready for preview with the next revision, the estimates the
  executor returned, the digest of the SQL the executor explained and of the bound values;
  every earlier approval basis is thereby outdated.
\<close>

theorem explain_records_revision:
  assumes "world_good w" and "explainA sv t d i supplied w = (Inr result, w')"
  shows "\<exists>q r (p::prepared_query) n ex ds. get_query_request (w_store (tick w)) t i = Some q
    \<and> get_query_request (w_store w') t i = Some r \<and> qr_state r = READY_FOR_PREVIEW
    \<and> qr_explain_revision r = qr_explain_revision q + 1
    \<and> er_revision result = Some (qr_explain_revision r)
    \<and> sv_executors sv (casefold (ds_dialect ds)) = Some ex
    \<and> (\<exists>e. ex_explain ex n ds i (pp_sql p) (pp_parameters p) (sv_timeout_seconds sv) = Inr e
          \<and> qr_estimated_db_cost r = er_estimated_total_cost e
          \<and> qr_estimated_db_rows r = er_estimated_rows e)
    \<and> qr_explained_at r \<noteq> None
    \<and> qr_explained_sql_hash r = Some (sl_sha256 (sv_lib sv) (pp_sql p))
    \<and> qr_parameter_value_hash r = pp_value_hash p \<and> qr_parameter_names r = pp_parameter_names p"
proof -
  from assms(2) obtain q ds w1 p w2 ex e saved where load: "loadA t d i w = (Inr (q, ds), w1)"
    and prep: "prepareA sv q ds supplied w1 = (Inr p, w2)"
    and ex: "sv_executors sv (casefold (ds_dialect ds)) = Some ex"
      "ex_explain ex (w_step w2) ds (qr_id q) (pp_sql p) (pp_parameters p) (sv_timeout_seconds sv) = Inr e"
    and rec: "transactA (\<lambda>mid s now. record_query_explain mid s t i (qr_explain_revision q)
              (sl_sha256 (sv_lib sv) (pp_sql p)) (pp_value_hash p) (pp_parameter_names p) e now)
        (w2\<lparr>w_calls := w_calls w2 @ [Explain_Call ds (qr_id q) (pp_sql p) (w_store w2)]\<rparr>) = (Inr saved, w')"
    and result: "result = e\<lparr>er_revision := Some (qr_explain_revision saved)\<rparr>"
    by (auto simp: explainA_def bindA_Inr on_conflict_Inr find_executorA_def logA_def raise_case_Inr
        split: option.splits)
  let ?w = "w2\<lparr>w_calls := w_calls w2 @ [Explain_Call ds (qr_id q) (pp_sql p) (w_store w2)]\<rparr>"
  have "world_good ?w"
    using guaranteesD[OF forward.load load] guaranteesD[OF forward.prepare prep] assms(1)
    by (simp add: world_forward_def world_good_def)
  then have good: "store_inv (w_store (tick ?w))" "store_interference (w_env ?w (Suc (w_step ?w)))"
    using tick_forward[of ?w] by (simp_all add: world_forward_def world_good_def)
  note ok = load_ok[OF load]
  from rec obtain s now where r: "record_query_explain (w_env ?w (Suc (w_step ?w))) (w_store (tick ?w)) t i
      (qr_explain_revision q) (sl_sha256 (sv_lib sv) (pp_sql p)) (pp_value_hash p) (pp_parameter_names p) e now
      = (Inr saved, s)" and s: "w_store w' = s"
    unfolding transact_ok by auto
  from r show ?thesis
  proof (cases rule: record_query_explain_cases)
    case (saved current u es)
    let ?s1 = "w_env ?w (Suc (w_step ?w)) (w_store (tick ?w))"
    have inv: "store_inv ?s1" using query_store.interference_D[OF good(2,1)] by simp
    then have uk: "unique_key qr_id (qs_requests ?s1)" by (simp add: store_inv_def)
    obtain x where x: "x \<in> set (qs_requests ?s1)" "explainable t i (qr_explain_revision q) x"
      using saved(3) by (metis row_count_pos zero_neq_one)
    have gx: "get_query_request ?s1 t i = Some x"
      using uk x by (intro get_query_request_unique) (auto simp: explainable_def)
    have new: "get_query_request s t i = Some (apply_explain u x)"
      using get_after_request_update[OF uk saved(5) _ _ gx] x(2) by simp
    have "saved = apply_explain u current" using saved(8) by (simp split: sum.splits)
    then have k: "qr_explain_revision saved = qr_explain_revision q + 1"
      using saved(2) by (simp add: apply_explain_def)
    have "get_query_request (w_store w') t i = Some (apply_explain u x)" using new s by simp
    moreover have "qr_state (apply_explain u x) = READY_FOR_PREVIEW" using x(2) by (simp add: explainable_def)
    ultimately show ?thesis
      using ok(1) k saved(2) result ex
      by - (rule exI[of _ q], rule exI[of _ "apply_explain u x"], rule exI[of _ p], rule exI[of _ "w_step w2"],
          rule exI[of _ ex], rule exI[of _ ds], simp add: apply_explain_def get_query_request_Some[OF ok(1)])
  qed simp_all
qed

section \<open>Compare and set\<close>


end
