(* ===== verification/Execution_Examples.thy ===== *)
theory Execution_Examples
  imports Execution_Outcomes
begin

text \<open>
  Concrete runs of the execution service: a store with one PostgreSQL source, one catalog
  version and one request, a validator that accepts what it is given and an executor that
  answers.  They show that the hypotheses of the properties can be met.
\<close>

definition sample_executor :: executor where
  "sample_executor =
     \<lparr>ex_explain = (\<lambda>_ _ _ _ _ _. Inr \<lparr>er_plan = ''scan'', er_estimated_total_cost = Some (PFin 5),
         er_estimated_rows = Some 2, er_elapsed_ms = 1, er_revision = None\<rparr>),
      ex_execute = (\<lambda>_ _ _ _ _ _ _ _. Inr union_result),
      ex_cancel = (\<lambda>_ _. True)\<rparr>"

definition sample_lib :: stdlib where
  "sample_lib =
     \<lparr>sl_date = Some, sl_datetime = Some, sl_uuid = Some, sl_float_text = (\<lambda>_. ''0.0''),
      sl_sha256 = (\<lambda>_. replicate 64 CHR ''a'')\<rparr>"

definition sample_service :: execution_service where
  "sample_service =
     \<lparr>sv_validate = (\<lambda>p ts cs _. \<lparr>vr_dialect = sp_dialect p, vr_normalized_sql = Some (sp_sql p), vr_issues = [],
         vr_referenced_tables = sort ts, vr_referenced_columns = sort cs,
         vr_output_lineage = [], vr_output_lineage_complete = False\<rparr>),
      sv_sql_access = (\<lambda>_ _ _ _. \<lparr>pd_allowed = True, pd_reasons = [], pd_redacted_fields = [],
         pd_maximum_classification = INTERNAL, pd_metadata = []\<rparr>),
      sv_executors = (\<lambda>k. if k = ''postgres'' then Some sample_executor else None),
      sv_materialize = (\<lambda>_ _ _. None), sv_lib = sample_lib, sv_processor = sample_processor,
      sv_timeout_seconds = 15, sv_max_rows = 500, sv_max_result_bytes = 5000000\<rparr>"

definition sample_column :: "string \<Rightarrow> int \<Rightarrow> classification \<Rightarrow> column_definition" where
  "sample_column n k c =
     \<lparr>cd_tenant_id = ''t'', cd_schema_object_id = ''o'', cd_name = n, cd_physical_type = ''text'',
      cd_ordinal = k, cd_nullable = True, cd_classification = c, cd_default_expression = None,
      cd_is_primary_key = False, cd_id = n\<rparr>"

definition sample_store :: "query_request \<Rightarrow> query_store" where
  "sample_store q =
     \<lparr>qs_data_sources = [sample_source],
      qs_catalog_versions = [\<lparr>cv_tenant_id = ''t'', cv_data_source_id = ''d'', cv_version = 1,
         cv_id = ''v'', cv_created_at = 0\<rparr>],
      qs_schema_objects = [\<lparr>so_tenant_id = ''t'', so_data_source_id = ''d'', so_catalog_version_id = ''v'',
         so_schema_name = ''s'', so_name = ''u'', so_kind = TABLE_KIND, so_definition_sql = None, so_id = ''o''\<rparr>],
      qs_columns = [sample_column ''name'' 1 PUBLIC, sample_column ''ssn'' 2 HIGHLY_SENSITIVE],
      qs_usage_events = [], qs_authorized = [], qs_requests = [q], qs_explains = [],
      qs_policies = [], qs_audit = []\<rparr>"

definition sample_world :: "query_request \<Rightarrow> world" where
  "sample_world q = \<lparr>w_store = sample_store q, w_env = (\<lambda>_ s. s), w_clock = int, w_step = 0, w_calls = []\<rparr>"

definition approved_request :: query_request where
  "approved_request = sample_request
     \<lparr>qr_state := APPROVED, qr_approved_by := Some ''a'', qr_approved_at := Some 0,
      qr_approved_explain_revision := Some 0, qr_approved_cost_policy_revision := Some 0,
      qr_approved_sql_hash := Some (replicate 64 CHR ''a'')\<rparr>"

definition executing_request :: query_request where
  "executing_request = approved_request\<lparr>qr_state := EXECUTING\<rparr>"

lemma sample_world_good:
  assumes "row_inv q"
  shows "world_good (sample_world q)"
  using assms query_store.interference_id
  by (simp add: world_good_def sample_world_def sample_store_def store_inv_def unique_key_def)

lemma sample_world_alone: "alone (sample_world q)"
  by (simp add: alone_def sample_world_def)

lemma sample_rows: "row_inv sample_request" "row_inv approved_request" "row_inv executing_request"
proof -
  have ok: "query_request_ok sample_request" "query_request_ok approved_request"
    "query_request_ok executing_request" by code_simp+
  have "\<not> blank ''a''" by code_simp
  then have "approval_bound sample_request" "approval_bound approved_request" "approval_bound executing_request"
    by (simp_all add: approval_bound_def approval_states_def execution_chain_def sample_request_def
        approved_request_def executing_request_def)
  then show "row_inv sample_request" "row_inv approved_request" "row_inv executing_request"
    using ok by (simp_all add: row_inv_def generation_states_def sample_request_def approved_request_def
        executing_request_def)
qed

section \<open>The runs\<close>

definition sample_execution :: "(execution_error + query_execution_run) \<times> world" where
  "sample_execution = executeA sample_service ''t'' ''d'' ''r'' [] (sample_world approved_request)"

definition sample_approval :: "(execution_error + query_request) \<times> world" where
  "sample_approval = approveA sample_service ''t'' ''d'' ''r'' ''a'' [] (Some 0) (sample_world sample_request)"

definition sample_explain :: "(execution_error + explain_result) \<times> world" where
  "sample_explain = explainA sample_service ''t'' ''d'' ''r'' [] (sample_world sample_request)"

definition sample_cancel :: "(execution_error + query_request) \<times> world" where
  "sample_cancel = cancelA sample_service ''t'' ''d'' ''r'' (sample_world executing_request)"

lemma run_pair: "f = (fst f, snd f)"
  by simp

lemma run_ok: "is_ok (fst f) \<Longrightarrow> f = (Inr (projr (fst f)), snd f)"
  by (cases f) (auto simp: is_ok_iff)

definition sent_query :: database_call where
  "sent_query = Execute_Call sample_source ''r'' ''q'' []
     (w_store (snd (claim_executionA ''t'' ''r'' approved_request
        ((sample_world approved_request)\<lparr>w_step := 5\<rparr>))))"


theorem execute_binds_explained_values_witness:
  "\<exists>r b s. executions (snd sample_execution) = [Execute_Call sample_source ''r'' ''q'' [] s]
    \<and> get_query_request s ''t'' ''r'' = Some r
    \<and> revalidate sample_service r (ds_dialect sample_source) = Inr ''q''
    \<and> bind_query_parameters sample_lib (qr_parameter_definitions r) [] = Inr b \<and> bp_values b = []"
proof -
  have run: "executeA sample_service ''t'' ''d'' ''r'' [] (sample_world approved_request)
      = (fst sample_execution, snd sample_execution)" by (simp add: sample_execution_def)
  have sent: "executions (snd sample_execution)
      = executions (sample_world approved_request) @ [sent_query]" by code_simp
  obtain s where s: "sent_query = Execute_Call sample_source ''r'' ''q'' [] s" by (simp add: sent_query_def)
  have plain: "ds_source_type sample_source \<noteq> AUTHORIZED_QUERY" by code_simp
  have lib: "sv_lib sample_service = sample_lib" by (simp add: sample_service_def)
  have none: "executions (sample_world approved_request) = []" by code_simp
  show ?thesis
    using execute_binds_explained_values[OF sample_world_good[OF sample_rows(2)] run sent[unfolded s] plain]
      sent[unfolded s none] lib by auto
qed

theorem execute_leaves_no_running_request_witness:
  "get_query_request (w_store (snd sample_execution)) ''t'' ''r''
      = Some (run_query_request (projr (fst sample_execution)))
    \<and> qr_state (run_query_request (projr (fst sample_execution))) = COMPLETED"
proof -
  have "is_ok (fst sample_execution)" by code_simp
  from run_ok[OF this] have run: "executeA sample_service ''t'' ''d'' ''r'' [] (sample_world approved_request)
      = (Inr (projr (fst sample_execution)), snd sample_execution)" unfolding sample_execution_def .
  have "state_of (sample_world approved_request) ''t'' ''r''
      \<notin> {Some EXECUTING, Some SUCCEEDED, Some RESULT_PROCESSING}" by code_simp
  from execute_leaves_no_running_request[OF sample_world_good[OF sample_rows(2)] sample_world_alone run this]
  show ?thesis by simp
qed


theorem cancel_confirms_and_cancels_witness:
  "\<exists>r. get_query_request (w_store (snd sample_cancel)) ''t'' ''r'' = Some r \<and> qr_state r = CANCELLED"
proof -
  have "is_ok (fst sample_cancel)" by code_simp
  from run_ok[OF this] have run: "cancelA sample_service ''t'' ''d'' ''r'' (sample_world executing_request)
      = (Inr (projr (fst sample_cancel)), snd sample_cancel)" unfolding sample_cancel_def .
  from cancel_confirms_and_cancels[OF sample_world_good[OF sample_rows(3)] run] show ?thesis by auto
qed

theorem explain_records_revision_witness:
  "\<exists>r. get_query_request (w_store (snd sample_explain)) ''t'' ''r'' = Some r \<and> qr_state r = READY_FOR_PREVIEW
    \<and> er_revision (projr (fst sample_explain)) = Some (qr_explain_revision r) \<and> qr_explained_at r \<noteq> None"
proof -
  have "is_ok (fst sample_explain)" by code_simp
  from run_ok[OF this] have run: "explainA sample_service ''t'' ''d'' ''r'' [] (sample_world sample_request)
      = (Inr (projr (fst sample_explain)), snd sample_explain)" unfolding sample_explain_def .
  from explain_records_revision[OF sample_world_good[OF sample_rows(1)] run] show ?thesis by auto
qed

text \<open>Another replica explains the request between the read and the commit of an approval.\<close>

definition concurrent_explain :: "query_store \<Rightarrow> query_store" where
  "concurrent_explain s = snd (record_query_explain (\<lambda>s. s) s ''t'' ''r'' 0 ''h'' None []
     \<lparr>er_plan = ''scan'', er_estimated_total_cost = None, er_estimated_rows = None, er_elapsed_ms = 1,
      er_revision = None\<rparr> 7)"


theorem interleaved_clients_keep_approvals_witness:
  "store_inv (snd (transition_query_request (\<lambda>s. snd (record_query_activity s ''t'' ''r'' ''x''
        \<lparr>rm_row_count = 0, rm_result_bytes = 0, rm_elapsed_ms = 0, rm_truncated = False,
         rm_truncation_reason = None, rm_processing_mode = ''m'', rm_maximum_classification = PUBLIC,
         rm_masked_column_count = 0, rm_raw_rows_sent_to_llm = False\<rparr>))
      (sample_store sample_request) ''t'' ''r'' CANCELLED no_args 0 0))"
proof -
  have inv: "store_inv (sample_store sample_request)"
    using sample_world_good[OF sample_rows(1)] by (simp add: world_good_def sample_world_def)
  have "CANCELLED \<notin> set generation_states" by (simp add: generation_states_def)
  from interleaved_clients_keep_approvals[OF client_change.transition[OF client_change.activity this] inv]
  show ?thesis by blast
qed

end
