(* ===== verification/Background_Jobs.thy ===== *)
theory Background_Jobs
  imports Sql_Tables
begin

text \<open>
  Durable background jobs: \<open>BackgroundJob\<close> of the domain model, the job methods of the
  catalog repository and the worker of \<open>packages/jobs/sqlverity_jobs/worker.py\<close>.

  JSON objects (payloads and results) are their serialised text.  A repository method is one
  transaction; a method that raises leaves the store as it was.
\<close>

section \<open>Jobs\<close>

datatype background_job_status =
  Job_Queued | Job_Running | Job_Succeeded | Job_Failed | Job_Cancelled

datatype job_error =
    Job_Needs_Tenant_And_Type | Job_Source_Blank | Job_Counters_Invalid | Job_Worker_Blank
  | Job_Error_Code_Invalid
  | Job_Tenant_Missing | Job_Source_Not_In_Tenant | Job_Enqueue_Conflict
  | Job_Lease_Invalid | Job_Lease_Not_Owned | Fail_Code_Invalid | Retry_Delay_Invalid
  | Queued_Job_Not_Found | Job_List_Limit_Invalid
  | Worker_Poll_Invalid | Worker_Lease_Invalid

record background_job =
  bj_tenant_id :: string
  bj_job_type :: string
  bj_payload :: string
  bj_data_source_id :: "string option"
  bj_status :: background_job_status
  bj_attempt_count :: int
  bj_max_attempts :: int
  bj_scheduled_at :: timestamp
  bj_lease_expires_at :: "timestamp option"
  bj_worker_id :: "string option"
  bj_result :: "string option"
  bj_last_error_code :: "string option"
  bj_created_at :: timestamp
  bj_updated_at :: timestamp
  bj_id :: string

text \<open>The regular expressions \<open>[a-z][a-z0-9_]{0,99}\<close> and \<open>[A-Za-z][A-Za-z0-9_.]{0,199}\<close>.\<close>

definition ascii_lower :: "char \<Rightarrow> bool" where
  "ascii_lower c = (97 \<le> code_point c \<and> code_point c \<le> 122)"

definition ascii_upper :: "char \<Rightarrow> bool" where
  "ascii_upper c = (65 \<le> code_point c \<and> code_point c \<le> 90)"

definition safe_job_type :: "string \<Rightarrow> bool" where
  "safe_job_type v =
     (v \<noteq> [] \<and> ascii_lower (hd v) \<and> length v \<le> 100
      \<and> (\<forall>c \<in> set (tl v). ascii_lower c \<or> py_isdigit_ascii c \<or> c = CHR ''_''))"

definition safe_error_code :: "string \<Rightarrow> bool" where
  "safe_error_code v =
     (v \<noteq> [] \<and> (ascii_lower (hd v) \<or> ascii_upper (hd v)) \<and> length v \<le> 200
      \<and> (\<forall>c \<in> set (tl v). ascii_lower c \<or> ascii_upper c \<or> py_isdigit_ascii c \<or> c = CHR ''_'' \<or> c = CHR ''.''))"

definition background_job_post_init :: "background_job \<Rightarrow> job_error + unit" where
  "background_job_post_init j =
     first_raise
       [(blank (bj_tenant_id j) \<or> \<not> safe_job_type (bj_job_type j), Job_Needs_Tenant_And_Type),
        (\<exists>d \<in> set_option (bj_data_source_id j). blank d, Job_Source_Blank),
        (bj_attempt_count j < 0 \<or> \<not> (1 \<le> bj_max_attempts j \<and> bj_max_attempts j \<le> 10),
           Job_Counters_Invalid),
        (\<exists>w \<in> set_option (bj_worker_id j). blank w, Job_Worker_Blank),
        (\<exists>e \<in> set_option (bj_last_error_code j). \<not> safe_error_code e, Job_Error_Code_Invalid)]"

text \<open>Reading a row builds the dataclass again, with its checks.\<close>

definition background_job_from_row :: "background_job \<Rightarrow> job_error + background_job" where
  "background_job_from_row r = bind_result (background_job_post_init r) (\<lambda>_. Inr r)"

section \<open>The repository\<close>

datatype job_audit_details =
    Job_Queued_Details string "string option"
  | Job_Succeeded_Details string int
  | Job_Failure_Details string int "string option"
  | Job_Cancelled_Details string

record job_audit =
  ja_tenant_id :: string
  ja_event_type :: string
  ja_subject_id :: string
  ja_details :: job_audit_details

record job_store =
  js_tenants :: "string list"
  js_data_sources :: "(string \<times> string) list"
  js_jobs :: "background_job list"
  js_audit :: "job_audit list"

definition append_job_audit :: "job_audit \<Rightarrow> job_store \<Rightarrow> job_store" where
  "append_job_audit e s = s\<lparr>js_audit := js_audit s @ [e]\<rparr>"

definition active_job :: "background_job \<Rightarrow> bool" where
  "active_job j = (bj_status j = Job_Queued \<or> bj_status j = Job_Running)"

text \<open>
  The conflicts an insertion can meet: the primary key, and the partial unique index on the
  tenant, the data source and the type of the active jobs, in which SQL treats a missing data
  source as different from every other.
\<close>

definition job_conflicts :: "background_job \<Rightarrow> background_job \<Rightarrow> bool" where
  "job_conflicts j r =
     (bj_id r = bj_id j
      \<or> (active_job j \<and> active_job r \<and> bj_tenant_id r = bj_tenant_id j \<and> bj_job_type r = bj_job_type j
         \<and> bj_data_source_id j \<noteq> None \<and> bj_data_source_id r = bj_data_source_id j))"

definition active_twin :: "background_job \<Rightarrow> background_job \<Rightarrow> bool" where
  "active_twin j r =
     (bj_tenant_id r = bj_tenant_id j \<and> bj_job_type r = bj_job_type j
      \<and> bj_data_source_id r = bj_data_source_id j \<and> active_job r)"

definition enqueue_on_connection :: "background_job \<Rightarrow> job_store \<Rightarrow> (job_error + background_job) \<times> job_store"
  where
  "enqueue_on_connection j s =
     (if \<exists>r \<in> set (js_jobs s). job_conflicts j r
      then (case first_by (\<lambda>r. (bj_created_at r, bj_id r)) (active_twin j) (js_jobs s) of
              None \<Rightarrow> (Inl Job_Enqueue_Conflict, s)
            | Some r \<Rightarrow> (background_job_from_row r, s))
      else (Inr j,
            append_job_audit
              \<lparr>ja_tenant_id = bj_tenant_id j, ja_event_type = ''background_job.queued'',
               ja_subject_id = bj_id j,
               ja_details = Job_Queued_Details (bj_job_type j) (bj_data_source_id j)\<rparr>
              (s\<lparr>js_jobs := js_jobs s @ [j]\<rparr>)))"

definition enqueue_background_job ::
  "background_job \<Rightarrow> job_store \<Rightarrow> (job_error + background_job) \<times> job_store" where
  "enqueue_background_job j s =
     (if bj_tenant_id j \<notin> set (js_tenants s) then (Inl Job_Tenant_Missing, s)
      else if \<exists>d \<in> set_option (bj_data_source_id j). (bj_tenant_id j, d) \<notin> set (js_data_sources s)
      then (Inl Job_Source_Not_In_Tenant, s)
      else enqueue_on_connection j s)"

text \<open>A job is claimable when it is queued, or running under a lease that has expired.\<close>

definition lease_expired :: "timestamp \<Rightarrow> background_job \<Rightarrow> bool" where
  "lease_expired now j = (case bj_lease_expires_at j of None \<Rightarrow> False | Some t \<Rightarrow> t < now)"

definition claimable :: "timestamp \<Rightarrow> background_job \<Rightarrow> bool" where
  "claimable now j =
     (bj_status j = Job_Queued \<or> (bj_status j = Job_Running \<and> lease_expired now j))"

definition claim_row :: "string \<Rightarrow> timestamp \<Rightarrow> int \<Rightarrow> background_job \<Rightarrow> background_job" where
  "claim_row worker now lease_seconds j =
     j\<lparr>bj_status := Job_Running, bj_worker_id := Some worker,
       bj_attempt_count := bj_attempt_count j + 1,
       bj_lease_expires_at := Some (now + seconds lease_seconds), bj_updated_at := now\<rparr>"

definition claim_background_job ::
  "string \<Rightarrow> timestamp \<Rightarrow> int \<Rightarrow> job_store \<Rightarrow> (job_error + background_job option) \<times> job_store" where
  "claim_background_job worker now lease_seconds s =
     (if blank worker \<or> \<not> (5 \<le> lease_seconds \<and> lease_seconds \<le> 3600)
      then (Inl Job_Lease_Invalid, s)
      else
        (case first_by (\<lambda>j. (bj_scheduled_at j, bj_created_at j, bj_id j))
                (\<lambda>j. bj_scheduled_at j \<le> now \<and> claimable now j) (js_jobs s) of
           None \<Rightarrow> (Inr None, s)
         | Some c \<Rightarrow>
             (case update_returning (\<lambda>j. bj_id j = bj_id c \<and> claimable now j)
                     (claim_row worker now lease_seconds) (js_jobs s) of
                (None, rows) \<Rightarrow> (Inr None, s\<lparr>js_jobs := rows\<rparr>)
              | (Some r, rows) \<Rightarrow>
                  (bind_result (background_job_from_row r) (\<lambda>j. Inr (Some j)), s\<lparr>js_jobs := rows\<rparr>))))"

definition owned_by :: "string \<Rightarrow> string \<Rightarrow> background_job \<Rightarrow> bool" where
  "owned_by job_id worker j =
     (bj_id j = job_id \<and> bj_status j = Job_Running \<and> bj_worker_id j = Some worker)"

definition heartbeat_row :: "timestamp \<Rightarrow> int \<Rightarrow> background_job \<Rightarrow> background_job" where
  "heartbeat_row now lease_seconds j =
     j\<lparr>bj_lease_expires_at := Some (now + seconds lease_seconds), bj_updated_at := now\<rparr>"

definition heartbeat_background_job ::
  "string \<Rightarrow> string \<Rightarrow> timestamp \<Rightarrow> int \<Rightarrow> job_store \<Rightarrow> bool \<times> job_store" where
  "heartbeat_background_job job_id worker now lease_seconds s =
     (row_count (owned_by job_id worker) (js_jobs s) = 1,
      s\<lparr>js_jobs := sql_update (owned_by job_id worker) (heartbeat_row now lease_seconds) (js_jobs s)\<rparr>)"

definition complete_row :: "string \<Rightarrow> timestamp \<Rightarrow> background_job \<Rightarrow> background_job" where
  "complete_row result now j =
     j\<lparr>bj_status := Job_Succeeded, bj_result := Some result, bj_last_error_code := None,
       bj_lease_expires_at := None, bj_worker_id := None, bj_updated_at := now\<rparr>"

text \<open>The continuation of a completed job: a new queued job with the identifier \<open>new\<close>.\<close>

definition continuation_job :: "background_job \<Rightarrow> string \<Rightarrow> timestamp \<Rightarrow> string \<Rightarrow> background_job" where
  "continuation_job j payload now new =
     \<lparr>bj_tenant_id = bj_tenant_id j, bj_job_type = bj_job_type j, bj_payload = payload,
      bj_data_source_id = bj_data_source_id j, bj_status = Job_Queued, bj_attempt_count = 0,
      bj_max_attempts = bj_max_attempts j, bj_scheduled_at = now, bj_lease_expires_at = None,
      bj_worker_id = None, bj_result = None, bj_last_error_code = None, bj_created_at = now,
      bj_updated_at = now, bj_id = new\<rparr>"

definition complete_background_job ::
  "string \<Rightarrow> string \<Rightarrow> string \<Rightarrow> timestamp \<Rightarrow> string option \<Rightarrow> string \<Rightarrow> job_store \<Rightarrow>
   (job_error + background_job) \<times> job_store" where
  "complete_background_job job_id worker result now continuation new s =
     (case update_returning (owned_by job_id worker) (complete_row result now) (js_jobs s) of
        (None, _) \<Rightarrow> (Inl Job_Lease_Not_Owned, s)
      | (Some r, rows) \<Rightarrow>
          (case background_job_from_row r of
             Inl e \<Rightarrow> (Inl e, s)
           | Inr completed \<Rightarrow>
               let s1 = append_job_audit
                     \<lparr>ja_tenant_id = bj_tenant_id completed,
                      ja_event_type = ''background_job.succeeded'', ja_subject_id = bj_id completed,
                      ja_details =
                        Job_Succeeded_Details (bj_job_type completed) (bj_attempt_count completed)\<rparr>
                     (s\<lparr>js_jobs := rows\<rparr>)
               in case continuation of
                    None \<Rightarrow> (Inr completed, s1)
                  | Some payload \<Rightarrow>
                      (let j = continuation_job completed payload now new
                       in case background_job_post_init j of
                            Inl e \<Rightarrow> (Inl e, s)
                          | Inr _ \<Rightarrow>
                              (case enqueue_on_connection j s1 of
                                 (Inl e, _) \<Rightarrow> (Inl e, s)
                               | (Inr _, s2) \<Rightarrow> (Inr completed, s2)))))"

definition fail_row :: "string \<Rightarrow> timestamp \<Rightarrow> int \<Rightarrow> background_job \<Rightarrow> background_job" where
  "fail_row code now delay j =
     (let again = bj_attempt_count j < bj_max_attempts j
      in j\<lparr>bj_status := (if again then Job_Queued else Job_Failed),
           bj_scheduled_at := (if again then now + seconds delay else bj_scheduled_at j),
           bj_result := None, bj_last_error_code := Some code, bj_lease_expires_at := None,
           bj_worker_id := None, bj_updated_at := now\<rparr>)"

definition fail_background_job ::
  "string \<Rightarrow> string \<Rightarrow> string \<Rightarrow> timestamp \<Rightarrow> int \<Rightarrow> job_store \<Rightarrow> (job_error + background_job) \<times> job_store"
  where
  "fail_background_job job_id worker code now delay s =
     (if \<not> safe_error_code code then (Inl Fail_Code_Invalid, s)
      else if \<not> (0 \<le> delay \<and> delay \<le> 3600) then (Inl Retry_Delay_Invalid, s)
      else
        (case update_returning (owned_by job_id worker) (fail_row code now delay) (js_jobs s) of
           (None, _) \<Rightarrow> (Inl Job_Lease_Not_Owned, s)
         | (Some r, rows) \<Rightarrow>
             (case background_job_from_row r of
                Inl e \<Rightarrow> (Inl e, s)
              | Inr failed \<Rightarrow>
                  (Inr failed,
                   append_job_audit
                     \<lparr>ja_tenant_id = bj_tenant_id failed,
                      ja_event_type =
                        (if bj_status failed = Job_Queued then ''background_job.retry_scheduled''
                         else ''background_job.failed''),
                      ja_subject_id = bj_id failed,
                      ja_details = Job_Failure_Details (bj_job_type failed) (bj_attempt_count failed)
                        (bj_last_error_code failed)\<rparr>
                     (s\<lparr>js_jobs := rows\<rparr>)))))"

definition cancel_row :: "timestamp \<Rightarrow> background_job \<Rightarrow> background_job" where
  "cancel_row now j =
     j\<lparr>bj_status := Job_Cancelled, bj_lease_expires_at := None, bj_worker_id := None,
       bj_updated_at := now\<rparr>"

definition cancel_background_job ::
  "string \<Rightarrow> string \<Rightarrow> timestamp \<Rightarrow> job_store \<Rightarrow> (job_error + background_job) \<times> job_store" where
  "cancel_background_job tenant job_id now s =
     (case update_returning
             (\<lambda>j. bj_tenant_id j = tenant \<and> bj_id j = job_id \<and> bj_status j = Job_Queued)
             (cancel_row now) (js_jobs s) of
        (None, _) \<Rightarrow> (Inl Queued_Job_Not_Found, s)
      | (Some r, rows) \<Rightarrow>
          (case background_job_from_row r of
             Inl e \<Rightarrow> (Inl e, s)
           | Inr cancelled \<Rightarrow>
               (Inr cancelled,
                append_job_audit
                  \<lparr>ja_tenant_id = tenant, ja_event_type = ''background_job.cancelled'',
                   ja_subject_id = job_id, ja_details = Job_Cancelled_Details (bj_job_type cancelled)\<rparr>
                  (s\<lparr>js_jobs := rows\<rparr>))))"

definition get_background_job :: "string \<Rightarrow> string \<Rightarrow> job_store \<Rightarrow> job_error + background_job option" where
  "get_background_job tenant job_id s =
     (case fetch_one (\<lambda>j. bj_tenant_id j = tenant \<and> bj_id j = job_id) (js_jobs s) of
        None \<Rightarrow> Inr None
      | Some r \<Rightarrow> bind_result (background_job_from_row r) (\<lambda>j. Inr (Some j)))"

text \<open>\<open>ORDER BY created_at DESC, id DESC LIMIT limit\<close>: the ascending order reversed.\<close>

definition list_background_jobs ::
  "string \<Rightarrow> string option \<Rightarrow> int \<Rightarrow> job_store \<Rightarrow> job_error + background_job list" where
  "list_background_jobs tenant source limit s =
     (if tenant \<notin> set (js_tenants s) then Inl Job_Tenant_Missing
      else if \<not> (1 \<le> limit \<and> limit \<le> 500) then Inl Job_List_Limit_Invalid
      else collect_results (map background_job_from_row
             (take (nat limit) (rev (sort_key (\<lambda>j. (bj_created_at j, bj_id j))
               (filter (\<lambda>j. bj_tenant_id j = tenant \<and> (source = None \<or> bj_data_source_id j = source))
                 (js_jobs s)))))))"

section \<open>The worker\<close>

text \<open>The bound \<open>0.05\<close> on the poll interval is the double next to it.\<close>

record job_execution_outcome =
  jo_result :: string
  jo_continuation_payload :: "string option"

record durable_job_worker =
  dw_poll_seconds :: pyfloat
  dw_lease_seconds :: int
  dw_worker_id :: string

definition durable_job_worker_init :: "durable_job_worker \<Rightarrow> job_error + unit" where
  "durable_job_worker_init w =
     first_raise
       [(\<not> (pf_le (PFin (3602879701896397 / 72057594037927936)) (dw_poll_seconds w) \<and> pf_le (dw_poll_seconds w) (PFin 60)),
          Worker_Poll_Invalid),
        (\<not> (15 \<le> dw_lease_seconds w \<and> dw_lease_seconds w \<le> 3600), Worker_Lease_Invalid)]"

text \<open>\<open>type(error).__name__\<close> of what the repository raises.\<close>

fun job_error_name :: "job_error \<Rightarrow> string" where
  "job_error_name Job_Tenant_Missing = ''LookupError''"
| "job_error_name Job_Source_Not_In_Tenant = ''LookupError''"
| "job_error_name Queued_Job_Not_Found = ''LookupError''"
| "job_error_name Job_Enqueue_Conflict = ''RuntimeError''"
| "job_error_name Job_Lease_Not_Owned = ''RuntimeError''"
| "job_error_name _ = ''ValueError''"

definition retry_delay :: "int \<Rightarrow> int" where
  "retry_delay attempt_count = min 300 (2 ^ nat (min attempt_count 8))"

text \<open>
  One poll.  A handler answers with the name of the exception class it raised or with its
  outcome; while it runs, its heartbeat and the other clients change the store by \<open>mid\<close>.
  The three times are those of the claim, of the completion and of the failure report.
\<close>

definition report_failure ::
  "durable_job_worker \<Rightarrow> background_job \<Rightarrow> string \<Rightarrow> timestamp \<Rightarrow> job_store \<Rightarrow> (job_error + bool) \<times> job_store"
  where
  "report_failure w j name now s =
     (case fail_background_job (bj_id j) (dw_worker_id w) name now (retry_delay (bj_attempt_count j)) s of
        (Inl e, s') \<Rightarrow> (Inl e, s')
      | (Inr _, s') \<Rightarrow> (Inr True, s'))"

definition run_once ::
  "durable_job_worker \<Rightarrow> (string \<Rightarrow> (background_job \<Rightarrow> string + job_execution_outcome) option) \<Rightarrow>
   (job_store \<Rightarrow> job_store) \<Rightarrow> timestamp \<Rightarrow> timestamp \<Rightarrow> timestamp \<Rightarrow> string \<Rightarrow> job_store \<Rightarrow>
   (job_error + bool) \<times> job_store" where
  "run_once w handlers mid t_claim t_done t_fail new s =
     (case claim_background_job (dw_worker_id w) t_claim (dw_lease_seconds w) s of
        (Inl e, s1) \<Rightarrow> (Inl e, s1)
      | (Inr None, s1) \<Rightarrow> (Inr False, s1)
      | (Inr (Some j), s1) \<Rightarrow>
          (case handlers (bj_job_type j) of
             None \<Rightarrow>
               (case fail_background_job (bj_id j) (dw_worker_id w) ''UnsupportedJobType'' t_done 0 s1 of
                  (Inl e, s2) \<Rightarrow> (Inl e, s2)
                | (Inr _, s2) \<Rightarrow> (Inr True, s2))
           | Some handler \<Rightarrow>
               (case handler j of
                  Inl name \<Rightarrow> report_failure w j name t_fail (mid s1)
                | Inr outcome \<Rightarrow>
                    (case complete_background_job (bj_id j) (dw_worker_id w) (jo_result outcome) t_done
                            (jo_continuation_payload outcome) new (mid s1) of
                       (Inr _, s2) \<Rightarrow> (Inr True, s2)
                     | (Inl e, s2) \<Rightarrow> report_failure w j (job_error_name e) t_fail s2))))"

end
