(* ===== verification/Job_Safety.thy ===== *)
theory Job_Safety
  imports Background_Jobs
begin

text \<open>
  The guarantees of the job queue: an invariant that the transactions of all workers and
  clients keep, the exclusiveness of a lease, the order in which jobs are claimed, what a
  poll of the worker leaves behind, and the missing bound on the attempts of a job whose
  worker dies.
\<close>

section \<open>The invariant\<close>

text \<open>
  A sound row decodes, carries a worker and a lease exactly while it runs, and has failed
  only when its attempts were used up.
\<close>

definition job_row_ok :: "background_job \<Rightarrow> bool" where
  "job_row_ok j =
     (is_ok (background_job_post_init j)
      \<and> (bj_worker_id j \<noteq> None \<longleftrightarrow> bj_status j = Job_Running)
      \<and> (bj_lease_expires_at j \<noteq> None \<longleftrightarrow> bj_status j = Job_Running)
      \<and> (bj_status j = Job_Failed \<longrightarrow> bj_max_attempts j \<le> bj_attempt_count j))"

definition same_slot :: "background_job \<Rightarrow> background_job \<Rightarrow> bool" where
  "same_slot j r =
     (bj_tenant_id r = bj_tenant_id j \<and> bj_job_type r = bj_job_type j
      \<and> bj_data_source_id j \<noteq> None \<and> bj_data_source_id r = bj_data_source_id j)"

definition jobs_ok :: "background_job list \<Rightarrow> bool" where
  "jobs_ok rows =
     (unique_key bj_id rows \<and> (\<forall>j \<in> set rows. job_row_ok j)
      \<and> (\<forall>j \<in> set rows. \<forall>r \<in> set rows. active_job j \<and> active_job r \<and> same_slot j r \<longrightarrow> bj_id j = bj_id r))"

text \<open>What every update of a row keeps.\<close>

definition keeps_slot :: "background_job \<Rightarrow> background_job \<Rightarrow> bool" where
  "keeps_slot j j' =
     (bj_id j' = bj_id j \<and> bj_tenant_id j' = bj_tenant_id j \<and> bj_job_type j' = bj_job_type j
      \<and> bj_data_source_id j' = bj_data_source_id j \<and> (active_job j' \<longrightarrow> active_job j))"

lemma keeps_slot_refl: "keeps_slot j j"
  by (simp add: keeps_slot_def)

lemma jobs_ok_Nil [simp]: "jobs_ok []"
  by (simp add: jobs_ok_def unique_key_def)

lemma jobs_ok_update:
  assumes ok: "jobs_ok rows"
    and f: "\<And>j. j \<in> set rows \<Longrightarrow> P j \<Longrightarrow> keeps_slot j (f j) \<and> job_row_ok (f j)"
  shows "jobs_ok (sql_update P f rows)"
proof -
  have each: "\<exists>r0 \<in> set rows. keeps_slot r0 r \<and> job_row_ok r" if "r \<in> set (sql_update P f rows)" for r
    using sql_update_mem[OF that] f ok keeps_slot_refl unfolding jobs_ok_def by blast
  have "map bj_id (sql_update P f rows) = map bj_id rows"
    using f by (auto simp: sql_update_def keeps_slot_def)
  then have u: "unique_key bj_id (sql_update P f rows)" using ok by (simp add: jobs_ok_def unique_key_def)
  have "bj_id j = bj_id r"
    if jr: "j \<in> set (sql_update P f rows)" "r \<in> set (sql_update P f rows)"
      "active_job j" "active_job r" "same_slot j r" for j r
  proof -
    obtain j0 r0 where "j0 \<in> set rows" "keeps_slot j0 j" "r0 \<in> set rows" "keeps_slot r0 r"
      using each[OF jr(1)] each[OF jr(2)] by blast
    then show ?thesis using ok jr(3-5) unfolding jobs_ok_def keeps_slot_def same_slot_def by metis
  qed
  then show ?thesis using u each unfolding jobs_ok_def by blast
qed

lemma jobs_ok_append:
  assumes ok: "jobs_ok rows" and new: "job_row_ok j" "\<not> (\<exists>r \<in> set rows. job_conflicts j r)"
  shows "jobs_ok (rows @ [j])"
proof -
  have "unique_key bj_id (rows @ [j])"
    using ok new(2) by (auto simp: jobs_ok_def job_conflicts_def intro: unique_key_append)
  moreover have "\<not> (active_job j \<and> active_job r \<and> same_slot j r)"
    "\<not> (active_job r \<and> active_job j \<and> same_slot r j)" if "r \<in> set rows" for r
    using that new(2) by (auto simp: job_conflicts_def same_slot_def)
  ultimately show ?thesis using ok new(1) unfolding jobs_ok_def by auto
qed

text \<open>The checks of the dataclass, field by field.\<close>

lemma post_init_iff:
  "is_ok (background_job_post_init j) \<longleftrightarrow>
     \<not> blank (bj_tenant_id j) \<and> safe_job_type (bj_job_type j)
     \<and> (\<forall>d \<in> set_option (bj_data_source_id j). \<not> blank d)
     \<and> 0 \<le> bj_attempt_count j \<and> 1 \<le> bj_max_attempts j \<and> bj_max_attempts j \<le> 10
     \<and> (\<forall>w \<in> set_option (bj_worker_id j). \<not> blank w)
     \<and> (\<forall>e \<in> set_option (bj_last_error_code j). safe_error_code e)"
  by (auto simp: background_job_post_init_def)

lemma from_row_ok: "job_row_ok j \<Longrightarrow> background_job_from_row j = Inr j"
  by (auto simp: background_job_from_row_def job_row_ok_def is_ok_iff)

text \<open>The row functions.\<close>

lemma claim_row_ok:
  "job_row_ok j \<Longrightarrow> claimable now j \<Longrightarrow> \<not> blank w \<Longrightarrow>
     keeps_slot j (claim_row w now ls j) \<and> job_row_ok (claim_row w now ls j)"
  by (auto simp: job_row_ok_def post_init_iff claim_row_def keeps_slot_def active_job_def claimable_def)

lemma heartbeat_row_ok:
  "job_row_ok j \<Longrightarrow> owned_by i w j \<Longrightarrow>
     keeps_slot j (heartbeat_row now ls j) \<and> job_row_ok (heartbeat_row now ls j)"
  by (auto simp: job_row_ok_def post_init_iff heartbeat_row_def keeps_slot_def active_job_def owned_by_def)

lemma complete_row_ok:
  "job_row_ok j \<Longrightarrow> owned_by i w j \<Longrightarrow>
     keeps_slot j (complete_row res now j) \<and> job_row_ok (complete_row res now j)"
  by (auto simp: job_row_ok_def post_init_iff complete_row_def keeps_slot_def active_job_def owned_by_def)

lemma fail_row_ok:
  "job_row_ok j \<Longrightarrow> owned_by i w j \<Longrightarrow> safe_error_code code \<Longrightarrow>
     keeps_slot j (fail_row code now d j) \<and> job_row_ok (fail_row code now d j)"
  by (auto simp: job_row_ok_def post_init_iff fail_row_def keeps_slot_def active_job_def owned_by_def Let_def)

lemma cancel_row_ok:
  "job_row_ok j \<Longrightarrow> bj_status j = Job_Queued \<Longrightarrow>
     keeps_slot j (cancel_row now j) \<and> job_row_ok (cancel_row now j)"
  by (auto simp: job_row_ok_def post_init_iff cancel_row_def keeps_slot_def active_job_def)

section \<open>The transactions keep it\<close>

text \<open>A job as the API and a continuation enqueue it.\<close>

definition fresh_job :: "background_job \<Rightarrow> bool" where
  "fresh_job j =
     (is_ok (background_job_post_init j) \<and> bj_status j = Job_Queued \<and> bj_worker_id j = None
      \<and> bj_lease_expires_at j = None)"

lemma fresh_row_ok: "fresh_job j \<Longrightarrow> job_row_ok j"
  by (simp add: fresh_job_def job_row_ok_def)

lemma append_job_audit_jobs [simp]: "js_jobs (append_job_audit e s) = js_jobs s"
  by (simp add: append_job_audit_def)

lemma enqueue_on_connection_ok:
  "jobs_ok (js_jobs s) \<Longrightarrow> fresh_job j \<Longrightarrow> enqueue_on_connection j s = (v, s') \<Longrightarrow> jobs_ok (js_jobs s')"
  by (auto simp: enqueue_on_connection_def fresh_row_ok intro!: jobs_ok_append
      split: if_splits option.splits)

lemma job_enqueue_ok:
  "jobs_ok (js_jobs s) \<Longrightarrow> fresh_job j \<Longrightarrow> enqueue_background_job j s = (v, s') \<Longrightarrow> jobs_ok (js_jobs s')"
  by (auto simp: enqueue_background_job_def intro: enqueue_on_connection_ok split: if_splits)

lemma jobs_ok_row: "jobs_ok rows \<Longrightarrow> j \<in> set rows \<Longrightarrow> job_row_ok j"
  by (simp add: jobs_ok_def)

lemma job_claim_ok:
  assumes "jobs_ok (js_jobs s)" "claim_background_job w now ls s = (v, s')"
  shows "jobs_ok (js_jobs s')"
proof (cases "blank w")
  case False
  have "jobs_ok (sql_update (\<lambda>j. bj_id j = i \<and> claimable now j) (claim_row w now ls) (js_jobs s))" for i
    by (rule jobs_ok_update[OF assms(1)]) (use False claim_row_ok jobs_ok_row[OF assms(1)] in blast)
  then show ?thesis using assms
    by (auto simp: claim_background_job_def update_returning_def split: if_splits option.splits)
qed (use assms in \<open>simp add: claim_background_job_def\<close>)

lemma job_heartbeat_ok:
  "jobs_ok (js_jobs s) \<Longrightarrow> heartbeat_background_job i w now ls s = (v, s') \<Longrightarrow> jobs_ok (js_jobs s')"
  unfolding heartbeat_background_job_def
  using jobs_ok_update[of "js_jobs s" "owned_by i w" "heartbeat_row now ls"]
    heartbeat_row_ok jobs_ok_row by auto

lemma fresh_continuation:
  "is_ok (background_job_post_init (continuation_job j p now new)) \<Longrightarrow> fresh_job (continuation_job j p now new)"
  by (simp add: fresh_job_def continuation_job_def)

text \<open>The cases of a completion.\<close>

lemma complete_cases:
  assumes "complete_background_job i w res now cont new s = (v, s')"
  obtains (raised) e where "v = Inl e" "s' = s"
  | (completed) r s1 where "v = Inr (complete_row res now r)" "r \<in> set (js_jobs s)" "owned_by i w r"
      "js_jobs s1 = sql_update (owned_by i w) (complete_row res now) (js_jobs s)"
      "s' = s1 \<or> (\<exists>j x. fresh_job j \<and> enqueue_on_connection j s1 = (Inr x, s'))"
proof (cases "fetch_one (owned_by i w) (js_jobs s)")
  case None
  then show ?thesis using assms raised[of Job_Lease_Not_Owned]
    by (simp add: complete_background_job_def update_returning_def)
next
  case (Some r)
  note mem = fetch_one_Some_iff_mem[OF Some]
  let ?rows = "sql_update (owned_by i w) (complete_row res now) (js_jobs s)"
  show ?thesis
  proof (cases "background_job_from_row (complete_row res now r)")
    case (Inl e)
    then show ?thesis using assms raised[of e] Some
      by (simp add: complete_background_job_def update_returning_def)
  next
    case (Inr c)
    then have c: "c = complete_row res now r"
      by (cases "background_job_post_init (complete_row res now r)")
        (simp_all add: background_job_from_row_def)
    define s1 where "s1 = append_job_audit
       \<lparr>ja_tenant_id = bj_tenant_id c, ja_event_type = ''background_job.succeeded'',
        ja_subject_id = bj_id c,
        ja_details = Job_Succeeded_Details (bj_job_type c) (bj_attempt_count c)\<rparr> (s\<lparr>js_jobs := ?rows\<rparr>)"
    have s1: "js_jobs s1 = ?rows" by (simp add: s1_def)
    have run: "(v, s') = (case cont of None \<Rightarrow> (Inr c, s1)
        | Some payload \<Rightarrow> (case background_job_post_init (continuation_job c payload now new) of
              Inl e \<Rightarrow> (Inl e, s)
            | Inr _ \<Rightarrow> (case enqueue_on_connection (continuation_job c payload now new) s1 of
                 (Inl e, _) \<Rightarrow> (Inl e, s) | (Inr _, s2) \<Rightarrow> (Inr c, s2))))"
      using assms[symmetric] Some Inr unfolding complete_background_job_def s1_def Let_def
      by (simp add: update_returning_def)
    show ?thesis
    proof (cases cont)
      case None
      then show ?thesis using run completed[of r s1] c mem s1 by simp
    next
      case (Some p)
      let ?j = "continuation_job c p now new"
      show ?thesis
      proof (cases "background_job_post_init ?j")
        case (Inl e)
        then show ?thesis using run raised[of e] by (simp add: Some)
      next
        case (Inr u)
        then have fj: "fresh_job ?j" by (intro fresh_continuation) simp
        obtain x s2 where e: "enqueue_on_connection ?j s1 = (x, s2)" by fastforce
        show ?thesis
        proof (cases x)
          case (Inl e')
          then show ?thesis using run raised[of e'] e Inr by (simp add: Some)
        next
          case (Inr y)
          then show ?thesis using run completed[of r s1] c mem s1 e fj \<open>background_job_post_init ?j = Inr u\<close>
            by (simp add: Some) blast
        qed
      qed
    qed
  qed
qed

lemma job_complete_ok:
  assumes ok: "jobs_ok (js_jobs s)" and c: "complete_background_job i w res now cont new s = (v, s')"
  shows "jobs_ok (js_jobs s')"
  using c
proof (cases rule: complete_cases)
  case (completed r s1)
  have "jobs_ok (js_jobs s1)"
    unfolding completed(4) by (rule jobs_ok_update[OF ok]) (use complete_row_ok jobs_ok_row[OF ok] in blast)
  then show ?thesis using completed(5) enqueue_on_connection_ok by blast
qed (use ok in simp)

lemma job_fail_ok:
  assumes ok: "jobs_ok (js_jobs s)" and f: "fail_background_job i w code now d s = (v, s')"
  shows "jobs_ok (js_jobs s')"
proof (cases "safe_error_code code")
  case True
  have "jobs_ok (sql_update (owned_by i w) (fail_row code now d) (js_jobs s))"
    by (rule jobs_ok_update[OF ok]) (use True fail_row_ok jobs_ok_row[OF ok] in blast)
  then show ?thesis using f ok
    by (auto simp: fail_background_job_def update_returning_def split: if_splits option.splits sum.splits)
qed (use f ok in \<open>simp add: fail_background_job_def\<close>)

lemma job_cancel_ok:
  assumes ok: "jobs_ok (js_jobs s)" and c: "cancel_background_job t i now s = (v, s')"
  shows "jobs_ok (js_jobs s')"
proof -
  have "jobs_ok (sql_update (\<lambda>j. bj_tenant_id j = t \<and> bj_id j = i \<and> bj_status j = Job_Queued)
      (cancel_row now) (js_jobs s))"
    by (rule jobs_ok_update[OF ok]) (use cancel_row_ok jobs_ok_row[OF ok] in blast)
  then show ?thesis using c ok
    by (auto simp: cancel_background_job_def update_returning_def split: option.splits sum.splits)
qed

text \<open>The transactions of all workers and clients.\<close>

inductive job_step :: "job_store \<Rightarrow> job_store \<Rightarrow> bool" where
  enqueue: "fresh_job j \<Longrightarrow> enqueue_background_job j s = (v, s') \<Longrightarrow> job_step s s'"
| claim: "claim_background_job w now ls s = (v, s') \<Longrightarrow> job_step s s'"
| heartbeat: "heartbeat_background_job i w now ls s = (b, s') \<Longrightarrow> job_step s s'"
| complete: "complete_background_job i w res now cont new s = (v', s') \<Longrightarrow> job_step s s'"
| failure: "fail_background_job i w code now d s = (v', s') \<Longrightarrow> job_step s s'"
| cancel: "cancel_background_job t i now s = (v', s') \<Longrightarrow> job_step s s'"

lemma job_step_ok: "job_step s s' \<Longrightarrow> jobs_ok (js_jobs s) \<Longrightarrow> jobs_ok (js_jobs s')"
proof (induction rule: job_step.induct)
  case (enqueue j s v s')
  show ?case by (rule job_enqueue_ok[OF enqueue(3,1,2)])
next
  case (claim w now ls s v s')
  show ?case by (rule job_claim_ok[OF claim(2,1)])
next
  case (heartbeat i w now ls s b s')
  show ?case by (rule job_heartbeat_ok[OF heartbeat(2,1)])
next
  case (complete i w res now cont new s v' s')
  show ?case by (rule job_complete_ok[OF complete(2,1)])
next
  case (failure i w code now d s v' s')
  show ?case by (rule job_fail_ok[OF failure(2,1)])
next
  case (cancel t i now s v' s')
  show ?case by (rule job_cancel_ok[OF cancel(2,1)])
qed

lemma job_steps_ok: "job_step\<^sup>*\<^sup>* s s' \<Longrightarrow> jobs_ok (js_jobs s) \<Longrightarrow> jobs_ok (js_jobs s')"
  by (induction rule: rtranclp_induct) (simp_all add: job_step_ok)

text \<open>
  C37: Whatever the workers and clients commit, starting from an empty queue, a tenant's data
  source never has two active jobs of one type, identifiers stay unique, every stored row
  decodes, a job carries a worker and a lease exactly while it runs, and it is failed only
  when it has used all its attempts.
\<close>

theorem job_queue_stays_consistent:
  assumes "job_step\<^sup>*\<^sup>* s0 s" "js_jobs s0 = []"
  shows "distinct (map bj_id (js_jobs s))
    \<and> (\<forall>j \<in> set (js_jobs s). job_row_ok j \<and> background_job_from_row j = Inr j)
    \<and> (\<forall>j \<in> set (js_jobs s). \<forall>r \<in> set (js_jobs s).
          active_job j \<and> active_job r \<and> same_slot j r \<longrightarrow> j = r)"
proof -
  have ok: "jobs_ok (js_jobs s)" using job_steps_ok[OF assms(1)] assms(2) by simp
  then have u: "unique_key bj_id (js_jobs s)" by (simp add: jobs_ok_def)
  show ?thesis using ok unique_key_eq[OF u] from_row_ok unfolding jobs_ok_def unique_key_def by metis
qed

section \<open>Sample jobs\<close>

definition sample_job :: background_job where
  "sample_job =
     \<lparr>bj_tenant_id = ''acme'', bj_job_type = ''semantic_inference'', bj_payload = ''{}'',
      bj_data_source_id = Some ''ds'', bj_status = Job_Queued, bj_attempt_count = 0,
      bj_max_attempts = 3, bj_scheduled_at = 0, bj_lease_expires_at = None, bj_worker_id = None,
      bj_result = None, bj_last_error_code = None, bj_created_at = 0, bj_updated_at = 0,
      bj_id = ''j1''\<rparr>"

definition empty_job_store :: job_store where
  "empty_job_store =
     \<lparr>js_tenants = [''acme''], js_data_sources = [(''acme'', ''ds'')], js_jobs = [], js_audit = []\<rparr>"

definition queued_store :: job_store where
  "queued_store = snd (enqueue_background_job sample_job empty_job_store)"

definition claimed_store :: job_store where
  "claimed_store = snd (claim_background_job ''w1'' 1 60 queued_store)"

lemma sample_job_fresh: "fresh_job sample_job"
  by code_simp

lemma queued_reachable: "job_step\<^sup>*\<^sup>* empty_job_store queued_store"
  by (rule r_into_rtranclp, rule job_step.enqueue[OF sample_job_fresh])
    (simp add: queued_store_def prod_eq_iff)

lemma claimed_reachable: "job_step\<^sup>*\<^sup>* empty_job_store claimed_store"
  by (rule rtranclp.rtrancl_into_rtrancl[OF queued_reachable], rule job_step.claim)
    (simp add: claimed_store_def prod_eq_iff)

lemma jobs_ok_queued: "jobs_ok (js_jobs queued_store)"
  by (rule job_steps_ok[OF queued_reachable]) (simp add: empty_job_store_def)

lemma jobs_ok_claimed: "jobs_ok (js_jobs claimed_store)"
  by (rule job_steps_ok[OF claimed_reachable]) (simp add: empty_job_store_def)

lemma job_queue_stays_consistent_witness:
  "map bj_status (js_jobs claimed_store) = [Job_Running] \<and> distinct (map bj_id (js_jobs claimed_store))"
proof -
  have "map bj_status (js_jobs claimed_store) = [Job_Running]" by code_simp
  then show ?thesis
    using job_queue_stays_consistent[OF claimed_reachable] by (simp add: empty_job_store_def)
qed

section \<open>Claims and leases\<close>

lemma update_unique:
  assumes "unique_key bj_id rows" "r \<in> set rows" "\<And>x. P x \<Longrightarrow> bj_id x = bj_id r" "P r"
  shows "fetch_one P rows = Some r"
  by (rule unique_key_fetch[where key = bj_id and P = P, OF assms(1,2,4)]) (rule assms(3))

lemma claim_Some:
  assumes ok: "jobs_ok (js_jobs s)" and c: "claim_background_job w now ls s = (Inr (Some j), s')"
  obtains r where "r \<in> set (js_jobs s)" "j = claim_row w now ls r" "claimable now r"
    "bj_scheduled_at r \<le> now" "\<not> blank w"
    "\<forall>x \<in> set (js_jobs s). bj_scheduled_at x \<le> now \<and> claimable now x \<longrightarrow>
       (bj_scheduled_at r, bj_created_at r, bj_id r) \<le> (bj_scheduled_at x, bj_created_at x, bj_id x)"
    "js_jobs s' = sql_update (\<lambda>x. bj_id x = bj_id r \<and> claimable now x) (claim_row w now ls) (js_jobs s)"
proof -
  have nb: "\<not> blank w" and ls: "5 \<le> ls" "ls \<le> 3600"
    using c by (simp_all add: claim_background_job_def split: if_splits)
  obtain r where f: "first_by (\<lambda>j. (bj_scheduled_at j, bj_created_at j, bj_id j))
      (\<lambda>j. bj_scheduled_at j \<le> now \<and> claimable now j) (js_jobs s) = Some r"
    using c nb by (fastforce simp: claim_background_job_def split: if_splits option.splits)
  note r = first_by_Some[OF f]
  have u: "unique_key bj_id (js_jobs s)" using ok by (simp add: jobs_ok_def)
  have g: "fetch_one (\<lambda>x. bj_id x = bj_id r \<and> claimable now x) (js_jobs s) = Some r"
    by (rule update_unique[OF u]) (use r in auto)
  have "background_job_from_row (claim_row w now ls r) = Inr (claim_row w now ls r)"
    using r claim_row_ok[OF jobs_ok_row[OF ok], of r now w ls] nb from_row_ok by blast
  then have "j = claim_row w now ls r"
    "js_jobs s' = sql_update (\<lambda>x. bj_id x = bj_id r \<and> claimable now x) (claim_row w now ls) (js_jobs s)"
    using c f g nb ls by (auto simp: claim_background_job_def update_returning_def)
  then show ?thesis using that[of r] r nb by blast
qed

text \<open>After a claim the row of the job belongs to the claimant alone.\<close>

lemma claimed_row:
  assumes ok: "jobs_ok (js_jobs s)" and c: "claim_background_job w now ls s = (Inr (Some j), s')"
  shows "\<forall>x \<in> set (js_jobs s'). bj_id x = bj_id j \<longrightarrow> x = j" "j \<in> set (js_jobs s')"
    "owned_by (bj_id j) w j"
proof -
  obtain r where r: "r \<in> set (js_jobs s)" "j = claim_row w now ls r" "claimable now r"
    "js_jobs s' = sql_update (\<lambda>x. bj_id x = bj_id r \<and> claimable now x) (claim_row w now ls) (js_jobs s)"
    by (rule claim_Some[OF ok c]) blast
  have i: "bj_id j = bj_id r" by (simp add: r(2) claim_row_def)
  show m: "j \<in> set (js_jobs s')" using r by (auto simp: set_sql_update)
  have "unique_key bj_id (js_jobs s')" using job_claim_ok[OF ok c] by (simp add: jobs_ok_def)
  then show "\<forall>x \<in> set (js_jobs s'). bj_id x = bj_id j \<longrightarrow> x = j" using m unique_key_eq by metis
  show "owned_by (bj_id j) w j" by (simp add: owned_by_def r(2) claim_row_def)
qed

lemma not_owned_refused:
  assumes "\<forall>x \<in> set (js_jobs s). \<not> owned_by i w x"
  shows "complete_background_job i w res now cont new s = (Inl Job_Lease_Not_Owned, s)"
    and "fst (heartbeat_background_job i w now ls s) = False"
    and "snd (heartbeat_background_job i w now ls s) = s"
    and "\<exists>e. fail_background_job i w code now d s = (Inl e, s)"
proof -
  have f: "fetch_one (owned_by i w) (js_jobs s) = None" using assms by (simp add: fetch_one_None_iff)
  have n: "row_count (owned_by i w) (js_jobs s) = 0"
    using assms by (simp add: row_count_def filter_empty_conv)
  have "sql_update (owned_by i w) (heartbeat_row now ls) (js_jobs s) = js_jobs s"
    using assms by (simp add: sql_update_def map_idI)
  then show "snd (heartbeat_background_job i w now ls s) = s"
    by (simp add: heartbeat_background_job_def)
  show "fst (heartbeat_background_job i w now ls s) = False" by (simp add: heartbeat_background_job_def n)
  show "complete_background_job i w res now cont new s = (Inl Job_Lease_Not_Owned, s)"
    by (simp add: complete_background_job_def update_returning_def f)
  show "\<exists>e. fail_background_job i w code now d s = (Inl e, s)"
    by (simp add: fail_background_job_def update_returning_def f)
qed

text \<open>
  A claim takes a due job that was queued or whose lease had expired, and of those the one
  that comes first by schedule, creation and identifier.  From then on the job belongs to the
  claimant: the heartbeat, the completion and the failure report of every other worker, in
  particular of the one that lost its lease, are refused and change nothing.
\<close>

theorem claim_takes_next_job_exclusively:
  assumes "jobs_ok (js_jobs s)" and "claim_background_job w now ls s = (Inr (Some j), s')" and "v \<noteq> w"
  shows "(\<exists>r \<in> set (js_jobs s). bj_id r = bj_id j \<and> bj_scheduled_at r \<le> now
       \<and> (bj_status r = Job_Queued \<or> (bj_status r = Job_Running \<and> lease_expired now r))
       \<and> bj_attempt_count j = bj_attempt_count r + 1
       \<and> (\<forall>x \<in> set (js_jobs s). bj_scheduled_at x \<le> now \<and> claimable now x \<longrightarrow>
            (bj_scheduled_at r, bj_created_at r, bj_id r) \<le> (bj_scheduled_at x, bj_created_at x, bj_id x)))
    \<and> bj_worker_id j = Some w \<and> bj_lease_expires_at j = Some (now + seconds ls)
    \<and> complete_background_job (bj_id j) v res t cont new s' = (Inl Job_Lease_Not_Owned, s')
    \<and> heartbeat_background_job (bj_id j) v t ls' s' = (False, s')
    \<and> (\<exists>e. fail_background_job (bj_id j) v code t d s' = (Inl e, s'))"
proof -
  have "\<forall>x \<in> set (js_jobs s'). \<not> owned_by (bj_id j) v x"
    using claimed_row[OF assms(1,2)] assms(3) by (auto simp: owned_by_def)
  note refused = not_owned_refused[OF this]
  obtain r where r: "r \<in> set (js_jobs s)" "j = claim_row w now ls r" "claimable now r"
    "bj_scheduled_at r \<le> now"
    "\<forall>x \<in> set (js_jobs s). bj_scheduled_at x \<le> now \<and> claimable now x \<longrightarrow>
       (bj_scheduled_at r, bj_created_at r, bj_id r) \<le> (bj_scheduled_at x, bj_created_at x, bj_id x)"
    by (rule claim_Some[OF assms(1,2)]) blast
  have "bj_id j = bj_id r" "bj_attempt_count j = bj_attempt_count r + 1" "bj_worker_id j = Some w"
    "bj_lease_expires_at j = Some (now + seconds ls)"
    by (simp_all add: r(2) claim_row_def)
  moreover have "bj_status r = Job_Queued \<or> (bj_status r = Job_Running \<and> lease_expired now r)"
    using r(3) by (simp add: claimable_def)
  ultimately show ?thesis using refused r(1,4,5) by (auto simp: prod_eq_iff)
qed

lemma claim_takes_next_job_exclusively_witness:
  "complete_background_job ''j1'' ''w1'' ''{}'' 100000001 None ''j2''
       (snd (claim_background_job ''w2'' 100000000 60 claimed_store))
     = (Inl Job_Lease_Not_Owned, snd (claim_background_job ''w2'' 100000000 60 claimed_store))"
proof -
  let ?j = "(claim_row ''w2'' 100000000 60 (claim_row ''w1'' 1 60 sample_job))"
  have "fst (claim_background_job ''w2'' 100000000 60 claimed_store) = Inr (Some ?j)" by code_simp
  then have c: "claim_background_job ''w2'' 100000000 60 claimed_store
      = (Inr (Some ?j), snd (claim_background_job ''w2'' 100000000 60 claimed_store))"
    by (simp add: prod_eq_iff)
  have i: "bj_id ?j = ''j1''" by (simp add: claim_row_def sample_job_def)
  show ?thesis
    using claim_takes_next_job_exclusively[OF jobs_ok_claimed c, of "''w1''" "''{}''" 100000001 None "''j2''"]
    by (simp add: i)
qed

end
