(* ===== verification/Job_Worker.thy ===== *)
theory Job_Worker
  imports Job_Safety
begin

text \<open>
  The worker's poll: what it leaves behind for the job it claimed, the bounds of its retry
  delay, that enqueueing the same work twice is harmless, and the job that is claimed again
  without end.
\<close>

lemma retry_delay_bounds: "1 \<le> n \<Longrightarrow> 2 \<le> retry_delay n \<and> retry_delay n \<le> 256"
proof -
  assume n: "1 \<le> n"
  define k where "k = nat (min n 8)"
  have k: "1 \<le> k" "k \<le> 8" using n by (simp_all add: k_def)
  have "(2::int) ^ 1 \<le> 2 ^ k" using k by (intro power_increasing) simp_all
  moreover have "(2::int) ^ k \<le> 2 ^ 8" using k by (intro power_increasing) simp_all
  ultimately show ?thesis by (simp add: retry_delay_def flip: k_def)
qed

lemma enqueue_keeps_rows: "enqueue_on_connection j s = (v, s') \<Longrightarrow> set (js_jobs s) \<subseteq> set (js_jobs s')"
  by (auto simp: enqueue_on_connection_def split: if_splits option.splits)

lemma job_error_name_safe: "safe_error_code (job_error_name e)"
  by (cases e; simp; code_simp)

lemma owned_fetch:
  assumes "jobs_ok (js_jobs s)" "r \<in> set (js_jobs s)" "owned_by i w r"
  shows "fetch_one (owned_by i w) (js_jobs s) = Some r"
  using assms by (intro update_unique) (auto simp: jobs_ok_def owned_by_def)

text \<open>A failure report by the owner of a running job.\<close>

lemma fail_owned:
  assumes ok: "jobs_ok (js_jobs s)" and r: "r \<in> set (js_jobs s)" "owned_by i w r"
    and c: "safe_error_code code" "0 \<le> d" "d \<le> 3600"
  shows "\<exists>s'. fail_background_job i w code now d s = (Inr (fail_row code now d r), s')
    \<and> fail_row code now d r \<in> set (js_jobs s')"
proof -
  have "job_row_ok (fail_row code now d r)" using fail_row_ok[OF jobs_ok_row[OF ok r(1)] r(2) c(1)] by blast
  then have "background_job_from_row (fail_row code now d r) = Inr (fail_row code now d r)"
    by (rule from_row_ok)
  moreover have "fail_row code now d r \<in> set (sql_update (owned_by i w) (fail_row code now d) (js_jobs s))"
    using r by (auto simp: set_sql_update)
  ultimately show ?thesis
    using c owned_fetch[OF ok r] by (simp add: fail_background_job_def update_returning_def)
qed

lemma fail_row_simps:
  "bj_id (fail_row code now d r) = bj_id r" "bj_worker_id (fail_row code now d r) = None"
  "bj_last_error_code (fail_row code now d r) = Some code"
  "bj_attempt_count (fail_row code now d r) = bj_attempt_count r"
  "bj_max_attempts (fail_row code now d r) = bj_max_attempts r"
  "bj_status (fail_row code now d r) = (if bj_attempt_count r < bj_max_attempts r then Job_Queued else Job_Failed)"
  "bj_attempt_count r < bj_max_attempts r \<Longrightarrow> bj_scheduled_at (fail_row code now d r) = now + seconds d"
  by (simp_all add: fail_row_def Let_def)

definition retried_or_failed :: "string \<Rightarrow> timestamp \<Rightarrow> int \<Rightarrow> background_job \<Rightarrow> bool" where
  "retried_or_failed code t d x =
     (bj_last_error_code x = Some code
      \<and> (if bj_attempt_count x < bj_max_attempts x
         then bj_status x = Job_Queued \<and> bj_scheduled_at x = t + seconds d
         else bj_status x = Job_Failed))"

lemma fail_row_retried: "retried_or_failed code now d (fail_row code now d r)"
  by (simp add: retried_or_failed_def fail_row_simps)

lemma report_failure_settles:
  assumes "jobs_ok (js_jobs s)" "r \<in> set (js_jobs s)" "owned_by (bj_id j) (dw_worker_id w) r"
    and "safe_error_code code" "1 \<le> bj_attempt_count j"
  shows "\<exists>s'. report_failure w j code t s = (Inr True, s')
    \<and> (\<exists>x \<in> set (js_jobs s'). bj_id x = bj_id j \<and> bj_worker_id x = None
         \<and> retried_or_failed code t (retry_delay (bj_attempt_count j)) x)"
proof -
  obtain s' where s': "fail_background_job (bj_id j) (dw_worker_id w) code t (retry_delay (bj_attempt_count j)) s
      = (Inr (fail_row code t (retry_delay (bj_attempt_count j)) r), s')"
    "fail_row code t (retry_delay (bj_attempt_count j)) r \<in> set (js_jobs s')"
    using fail_owned[OF assms(1-4), of "retry_delay (bj_attempt_count j)" t] retry_delay_bounds[OF assms(5)]
    by auto
  have "bj_id r = bj_id j" using assms(3) by (simp add: owned_by_def)
  then have "\<exists>x \<in> set (js_jobs s'). bj_id x = bj_id j \<and> bj_worker_id x = None
         \<and> retried_or_failed code t (retry_delay (bj_attempt_count j)) x"
    by (intro bexI[OF _ s'(2)]) (simp add: fail_row_simps fail_row_retried)
  then show ?thesis using s'(1) by (simp add: report_failure_def)
qed

text \<open>
  A poll that claimed a job never leaves it running.  If the worker still owns the job
  when its handler ends, the job has succeeded with the handler's result, or it is queued
  again after an exponential delay of 2 to 256 seconds while attempts remain, or it has
  failed; the poll reports that it did work.
\<close>

theorem run_once_settles_claimed_job:
  assumes ok: "jobs_ok (js_jobs s)" "jobs_ok (js_jobs (mid s1))"
    and c: "claim_background_job (dw_worker_id w) t1 (dw_lease_seconds w) s = (Inr (Some j), s1)"
    and h: "handlers (bj_job_type j) = Some h" "\<forall>name. h j = Inl name \<longrightarrow> safe_error_code name"
    and own: "r \<in> set (js_jobs (mid s1))" "owned_by (bj_id j) (dw_worker_id w) r"
  shows "\<exists>s'. run_once w handlers mid t1 t2 t3 new s = (Inr True, s')
    \<and> (\<exists>x \<in> set (js_jobs s'). bj_id x = bj_id j \<and> bj_worker_id x = None
        \<and> ((\<exists>outcome. h j = Inr outcome \<and> bj_status x = Job_Succeeded
              \<and> bj_result x = Some (jo_result outcome))
           \<or> (\<exists>code. retried_or_failed code t3 (retry_delay (bj_attempt_count j)) x)))
    \<and> 2 \<le> retry_delay (bj_attempt_count j) \<and> retry_delay (bj_attempt_count j) \<le> 256"
proof -
  obtain r0 where r0: "r0 \<in> set (js_jobs s)" "j = claim_row (dw_worker_id w) t1 (dw_lease_seconds w) r0"
    by (rule claim_Some[OF ok(1) c]) blast
  have "0 \<le> bj_attempt_count r0"
    using jobs_ok_row[OF ok(1) r0(1)] by (simp add: job_row_ok_def post_init_iff)
  then have n: "1 \<le> bj_attempt_count j" by (simp add: r0(2) claim_row_def)
  note fail = report_failure_settles[OF ok(2) own _ n]
  show ?thesis
  proof (cases "h j")
    case (Inl name)
    then show ?thesis
      using fail[of name t3] h c retry_delay_bounds[OF n] by (fastforce simp: run_once_def)
  next
    case (Inr outcome)
    obtain v s2 where comp: "complete_background_job (bj_id j) (dw_worker_id w) (jo_result outcome) t2
        (jo_continuation_payload outcome) new (mid s1) = (v, s2)" by fastforce
    from comp show ?thesis
    proof (cases rule: complete_cases)
      case (raised e)
      then show ?thesis
        using fail[of "job_error_name e" t3] job_error_name_safe h c comp Inr retry_delay_bounds[OF n]
        by (fastforce simp: run_once_def)
    next
      case (completed r' s1')
      let ?x = "complete_row (jo_result outcome) t2 r'"
      have "?x \<in> set (js_jobs s1')" using completed by (auto simp: set_sql_update)
      then have "?x \<in> set (js_jobs s2)" using completed(5) enqueue_keeps_rows by blast
      moreover have "bj_id ?x = bj_id j" "bj_worker_id ?x = None" "bj_status ?x = Job_Succeeded"
        "bj_result ?x = Some (jo_result outcome)"
        using completed(3) by (simp_all add: complete_row_def owned_by_def)
      ultimately have "\<exists>x \<in> set (js_jobs s2). bj_id x = bj_id j \<and> bj_worker_id x = None
          \<and> (\<exists>outcome. h j = Inr outcome \<and> bj_status x = Job_Succeeded
              \<and> bj_result x = Some (jo_result outcome))"
        using Inr by blast
      moreover have "run_once w handlers mid t1 t2 t3 new s = (Inr True, s2)"
        using c h Inr comp completed(1) by (simp add: run_once_def)
      ultimately show ?thesis using retry_delay_bounds[OF n] by blast
    qed
  qed
qed

definition sample_worker :: durable_job_worker where
  "sample_worker = \<lparr>dw_poll_seconds = PFin 1, dw_lease_seconds = 60, dw_worker_id = ''w1''\<rparr>"

definition sample_handlers :: "string \<Rightarrow> (background_job \<Rightarrow> string + job_execution_outcome) option" where
  "sample_handlers t = Some (\<lambda>j. Inl ''TimeoutError'')"

lemma run_once_settles_claimed_job_witness:
  "\<exists>s'. run_once sample_worker sample_handlers (\<lambda>s. s) 1 2 3 ''j2'' queued_store = (Inr True, s')
     \<and> map bj_scheduled_at (js_jobs s') = [3 + seconds 2]
     \<and> 2 \<le> retry_delay 1"
proof -
  let ?j = "claim_row ''w1'' 1 60 sample_job"
  have "fst (claim_background_job ''w1'' 1 60 queued_store) = Inr (Some ?j)" by code_simp
  then have c: "claim_background_job (dw_worker_id sample_worker) 1 (dw_lease_seconds sample_worker) queued_store
      = (Inr (Some ?j), claimed_store)"
    by (simp add: claimed_store_def sample_worker_def prod_eq_iff)
  have rows: "js_jobs claimed_store = [?j]" by code_simp
  have "\<exists>s'. run_once sample_worker sample_handlers (\<lambda>s. s) 1 2 3 ''j2'' queued_store = (Inr True, s')
      \<and> 2 \<le> retry_delay (bj_attempt_count ?j)"
    using run_once_settles_claimed_job[OF jobs_ok_queued, where mid = "\<lambda>s. s", OF jobs_ok_claimed c,
        of sample_handlers "\<lambda>j. Inl ''TimeoutError''" ?j 2 3 "''j2''"]
    by (auto simp: rows sample_handlers_def safe_error_code_def ascii_upper_def ascii_lower_def
        code_point_def owned_by_def claim_row_def sample_worker_def)
  moreover have "map bj_scheduled_at (js_jobs
      (snd (run_once sample_worker sample_handlers (\<lambda>s. s) 1 2 3 ''j2'' queued_store))) = [3 + seconds 2]"
    by code_simp
  moreover have "bj_attempt_count ?j = 1" by (simp add: claim_row_def sample_job_def)
  ultimately show ?thesis by auto
qed

text \<open>
  Enqueueing work that is already waiting or running for the same tenant, data source and
  type returns that job and changes nothing, so a client may repeat its request.
\<close>

theorem enqueue_is_idempotent:
  assumes ok: "jobs_ok (js_jobs s)" and r: "r \<in> set (js_jobs s)" "active_job r"
    and slot: "same_slot j r" "active_job j"
    and scope: "bj_tenant_id j \<in> set (js_tenants s)" "\<forall>d. bj_data_source_id j = Some d \<longrightarrow> (bj_tenant_id j, d) \<in> set (js_data_sources s)"
  shows "enqueue_background_job j s = (Inr r, s)"
proof -
  have twin: "active_twin j r" using r slot by (simp add: active_twin_def same_slot_def)
  obtain x where x: "first_by (\<lambda>r. (bj_created_at r, bj_id r)) (active_twin j) (js_jobs s) = Some x"
    using first_by_None[of "\<lambda>r. (bj_created_at r, bj_id r)" "active_twin j" "js_jobs s"] r(1) twin
    by (metis option.exhaust)
  note xs = first_by_Some[OF x]
  then have "same_slot x r" "active_job x"
    using slot by (simp_all add: active_twin_def same_slot_def)
  then have "bj_id x = bj_id r" using ok r xs unfolding jobs_ok_def by blast
  then have "x = r" using ok unique_key_eq xs r(1) unfolding jobs_ok_def by metis
  moreover have "job_conflicts j r" using r(2) slot by (simp add: job_conflicts_def same_slot_def)
  moreover have "background_job_from_row r = Inr r" using from_row_ok jobs_ok_row[OF ok r(1)] .
  ultimately show ?thesis
    using scope r(1) x by (auto simp: enqueue_background_job_def enqueue_on_connection_def)
qed

lemma enqueue_is_idempotent_witness:
  "enqueue_background_job (sample_job\<lparr>bj_id := ''j9'', bj_created_at := 7\<rparr>) claimed_store
     = (Inr (claim_row ''w1'' 1 60 sample_job), claimed_store)"
proof -
  have rows: "js_jobs claimed_store = [claim_row ''w1'' 1 60 sample_job]"
    "js_tenants claimed_store = [''acme'']" "js_data_sources claimed_store = [(''acme'', ''ds'')]"
    by code_simp+
  show ?thesis
    by (rule enqueue_is_idempotent[OF jobs_ok_claimed])
      (simp_all add: rows active_job_def same_slot_def claim_row_def sample_job_def)
qed

section \<open>Claims without a bound on the attempts\<close>

text \<open>
  A worker that dies leaves its job running.  When the lease has expired the next claim takes
  the job again, whatever its attempts: only \<open>fail_background_job\<close> looks at
  \<open>max_attempts\<close>.
\<close>

lemma first_by_single [simp]: "first_by key P [r] = (if P r then Some r else None)"
  by (simp add: first_by_def)

lemma claim_single:
  assumes "js_jobs s = [j]" "job_row_ok j" "bj_scheduled_at j \<le> now" "claimable now j" "\<not> blank w"
  shows "claim_background_job w now 60 s = (Inr (Some (claim_row w now 60 j)), s\<lparr>js_jobs := [claim_row w now 60 j]\<rparr>)"
  using assms claim_row_ok[OF assms(2,4,5), of 60] from_row_ok
  by (simp add: claim_background_job_def update_returning_def sql_update_def)

text \<open>
  C38: The attempts of a job whose worker dies every time are not bounded by \<open>max_attempts\<close>:
  for every number of crashes there is a sequence of claims after which the job is running
  once more with that many attempts.
\<close>

theorem crashing_job_is_claimed_without_limit:
  "\<exists>s j. job_step\<^sup>*\<^sup>* queued_store s \<and> js_jobs s = [j] \<and> bj_status j = Job_Running
     \<and> bj_max_attempts j = 3 \<and> bj_attempt_count j = int n + 1"
proof -
  have "\<exists>s j t. job_step\<^sup>*\<^sup>* queued_store s \<and> js_jobs s = [j] \<and> bj_status j = Job_Running
     \<and> bj_max_attempts j = 3 \<and> bj_attempt_count j = int n + 1
     \<and> bj_lease_expires_at j = Some t \<and> bj_scheduled_at j \<le> t"
  proof (induction n)
    case 0
    have q: "js_jobs queued_store = [sample_job]" by code_simp
    have "claim_background_job ''w1'' 0 60 queued_store
        = (Inr (Some (claim_row ''w1'' 0 60 sample_job)), queued_store\<lparr>js_jobs := [claim_row ''w1'' 0 60 sample_job]\<rparr>)"
      by (rule claim_single[OF q fresh_row_ok[OF sample_job_fresh]])
        (simp_all add: sample_job_def claimable_def blank_iff py_isspace_def Let_def code_point_def)
    from job_step.claim[OF this]
    have "job_step\<^sup>*\<^sup>* queued_store (queued_store\<lparr>js_jobs := [claim_row ''w1'' 0 60 sample_job]\<rparr>)" by blast
    then show ?case
      by (intro exI[of _ "queued_store\<lparr>js_jobs := [claim_row ''w1'' 0 60 sample_job]\<rparr>"]
          exI[of _ "claim_row ''w1'' 0 60 sample_job"] exI[of _ "seconds 60"] conjI)
        (simp_all add: claim_row_def sample_job_def seconds_def)
  next
    case (Suc n)
    then obtain s j t where s: "job_step\<^sup>*\<^sup>* queued_store s" "js_jobs s = [j]" "bj_status j = Job_Running"
      "bj_max_attempts j = 3" "bj_attempt_count j = int n + 1"
      "bj_lease_expires_at j = Some t" "bj_scheduled_at j \<le> t" by blast
    have "job_row_ok j" using job_steps_ok[OF s(1) jobs_ok_queued] s(2) by (simp add: jobs_ok_def)
    then have "claim_background_job ''w1'' (t + 1) 60 s
        = (Inr (Some (claim_row ''w1'' (t + 1) 60 j)), s\<lparr>js_jobs := [claim_row ''w1'' (t + 1) 60 j]\<rparr>)"
      using s by (intro claim_single)
        (simp_all add: claimable_def lease_expired_def blank_iff py_isspace_def Let_def code_point_def)
    from job_step.claim[OF this] s(1)
    have "job_step\<^sup>*\<^sup>* queued_store (s\<lparr>js_jobs := [claim_row ''w1'' (t + 1) 60 j]\<rparr>)" by (rule rtranclp.rtrancl_into_rtrancl[rotated])
    then show ?case
      using s by (intro exI[of _ "s\<lparr>js_jobs := [claim_row ''w1'' (t + 1) 60 j]\<rparr>"]
          exI[of _ "claim_row ''w1'' (t + 1) 60 j"] exI[of _ "t + 1 + seconds 60"] conjI)
        (simp_all add: claim_row_def seconds_def)
  qed
  then show ?thesis by blast
qed

end
