(* ===== verification/Request_Quota.thy ===== *)
theory Request_Quota
  imports Sql_Tables
begin

text \<open>
  \<open>packages/security/sqlverity_security/quota.py\<close> and the request quota statements of the
  catalog repository: rate windows and concurrency leases per scope, in the database that
  all API replicas share.

  A repository method is one transaction: it takes the tables and returns a value or the
  error with the tables after it; a method that raises leaves the tables as they were.
  The manager is defined over the repository's operations, as the source is over its
  \<open>Protocol\<close>, and the locale \<open>lease_repository\<close> states what the manager relies on.
\<close>

section \<open>Limits, leases and decisions\<close>

datatype quota_error =
    Quota_Limits_Not_Positive
  | Lease_Duration_Out_Of_Range
  | Quota_Window_Out_Of_Range
  | Invalid_Quota_Acquisition
  | Lease_Expiry_Not_After_Acquisition
  | Lease_Expiry_Not_After_Renewal
  | Duplicate_Lease_Row
  | Lease_Renewal_Failed
  | Concurrency_Lease_Expired
  | Operation_Error string

record scope_quota =
  sq_requests_per_window :: int
  sq_max_concurrent :: int

definition scope_quota_post_init :: "scope_quota \<Rightarrow> quota_error + unit" where
  "scope_quota_post_init q =
     raise_if (sq_requests_per_window q < 1 \<or> sq_max_concurrent q < 1) Quota_Limits_Not_Positive"

record request_quota_limits =
  rl_window_seconds :: int
  rl_user :: scope_quota
  rl_tenant :: scope_quota
  rl_data_source :: scope_quota
  rl_lease_seconds :: int

definition request_quota_limits_post_init :: "request_quota_limits \<Rightarrow> quota_error + unit" where
  "request_quota_limits_post_init l =
     first_raise
       [(\<not> (3 \<le> rl_lease_seconds l \<and> rl_lease_seconds l \<le> 3600), Lease_Duration_Out_Of_Range),
        (\<not> (1 \<le> rl_window_seconds l \<and> rl_window_seconds l \<le> 3600), Quota_Window_Out_Of_Range)]"

record request_quota_lease =
  rq_scope_keys :: "string list"
  rq_lease_id :: string

record request_quota_decision =
  rd_allowed :: bool
  rd_lease :: "request_quota_lease option"
  rd_denied_scope :: "string option"
  rd_reason :: "string option"
  rd_retry_after_seconds :: int

section \<open>The tables and their transactions\<close>

record quota_window =
  qw_scope_key :: string
  qw_window_number :: int
  qw_request_count :: int
  qw_active_requests :: int
  qw_updated_at :: timestamp

record quota_lease_row =
  ql_scope_key :: string
  ql_lease_id :: string
  ql_expires_at :: timestamp

record quota_store =
  qs_windows :: "quota_window list"
  qs_leases :: "quota_lease_row list"

record acquisition =
  aq_scope_key :: string
  aq_window_number :: int
  aq_max_requests :: int
  aq_max_concurrent :: int
  aq_updated_at :: timestamp
  aq_lease_id :: string
  aq_expires_at :: timestamp

text \<open>The first statement of an acquisition creates the window row, the second locks it.\<close>

definition ensure_window :: "acquisition \<Rightarrow> quota_window list \<Rightarrow> quota_window list" where
  "ensure_window a ws =
     insert_or_ignore (\<lambda>w. qw_scope_key w = aq_scope_key a)
       \<lparr>qw_scope_key = aq_scope_key a, qw_window_number = aq_window_number a, qw_request_count = 0,
        qw_active_requests = 0, qw_updated_at = aq_updated_at a\<rparr> ws"

definition touch_window :: "string \<Rightarrow> timestamp \<Rightarrow> quota_window list \<Rightarrow> quota_window list" where
  "touch_window k t ws =
     sql_update (\<lambda>w. qw_scope_key w = k) (\<lambda>w. w\<lparr>qw_updated_at := t\<rparr>) ws"

definition drop_expired :: "string \<Rightarrow> timestamp \<Rightarrow> quota_lease_row list \<Rightarrow> quota_lease_row list" where
  "drop_expired k t ls = sql_delete (\<lambda>l. ql_scope_key l = k \<and> ql_expires_at l \<le> t) ls"

definition lease_count :: "string \<Rightarrow> quota_lease_row list \<Rightarrow> int" where
  "lease_count k ls = int (row_count (\<lambda>l. ql_scope_key l = k) ls)"

definition has_room :: "acquisition \<Rightarrow> quota_window \<Rightarrow> bool" where
  "has_room a w =
     (qw_scope_key w = aq_scope_key a
      \<and> (qw_window_number w < aq_window_number a
         \<or> (qw_window_number w = aq_window_number a \<and> qw_request_count w < aq_max_requests a)))"

definition count_request :: "acquisition \<Rightarrow> quota_window \<Rightarrow> quota_window" where
  "count_request a w =
     w\<lparr>qw_window_number := aq_window_number a,
       qw_request_count :=
         (if qw_window_number w = aq_window_number a then qw_request_count w + 1 else 1)\<rparr>"

definition try_acquire_request_quota ::
  "acquisition \<Rightarrow> quota_store \<Rightarrow> (quota_error + bool \<times> string option) \<times> quota_store" where
  "try_acquire_request_quota a s =
     (if aq_scope_key a = [] \<or> aq_lease_id a = [] \<or> aq_window_number a < 0
         \<or> aq_max_requests a < 1 \<or> aq_max_concurrent a < 1
      then (Inl Invalid_Quota_Acquisition, s)
      else if aq_expires_at a \<le> aq_updated_at a
      then (Inl Lease_Expiry_Not_After_Acquisition, s)
      else
        let k = aq_scope_key a;
            ws = touch_window k (aq_updated_at a) (ensure_window a (qs_windows s));
            ls = drop_expired k (aq_updated_at a) (qs_leases s)
        in if lease_count k ls \<ge> aq_max_concurrent a
           then (Inr (False, Some ''concurrency''), \<lparr>qs_windows = ws, qs_leases = ls\<rparr>)
           else
             let ws' = sql_update (has_room a) (count_request a) ws
             in if row_count (has_room a) ws \<noteq> 1
                then (Inr (False, Some ''rate''), \<lparr>qs_windows = ws', qs_leases = ls\<rparr>)
                else if \<exists>l \<in> set ls. ql_scope_key l = k \<and> ql_lease_id l = aq_lease_id a
                then (Inl Duplicate_Lease_Row, s)
                else (Inr (True, None),
                      \<lparr>qs_windows = ws',
                       qs_leases = ls @ [\<lparr>ql_scope_key = k, ql_lease_id = aq_lease_id a,
                                          ql_expires_at = aq_expires_at a\<rparr>]\<rparr>))"

definition release_request_quota :: "string \<Rightarrow> string \<Rightarrow> timestamp \<Rightarrow> quota_store \<Rightarrow> quota_store" where
  "release_request_quota k i t s =
     \<lparr>qs_windows = touch_window k t (qs_windows s),
      qs_leases = sql_delete (\<lambda>l. ql_scope_key l = k \<and> ql_lease_id l = i) (qs_leases s)\<rparr>"

definition renew_request_quota ::
  "string list \<Rightarrow> string \<Rightarrow> timestamp \<Rightarrow> timestamp \<Rightarrow> quota_store \<Rightarrow> (quota_error + bool) \<times> quota_store"
  where
  "renew_request_quota ks i now expires s =
     (if expires \<le> now then (Inl Lease_Expiry_Not_After_Renewal, s)
      else
        let ws = fold (\<lambda>k. touch_window k now) ks (qs_windows s);
            live = (\<lambda>k. fetch_one (\<lambda>l. ql_scope_key l = k \<and> ql_lease_id l = i \<and> ql_expires_at l > now)
                          (qs_leases s) \<noteq> None)
        in if \<not> list_all live ks then (Inr False, \<lparr>qs_windows = ws, qs_leases = qs_leases s\<rparr>)
           else (Inr True,
                 \<lparr>qs_windows = ws,
                  qs_leases =
                    fold (\<lambda>k. sql_update (\<lambda>l. ql_scope_key l = k \<and> ql_lease_id l = i)
                                (\<lambda>l. l\<lparr>ql_expires_at := expires\<rparr>)) ks (qs_leases s)\<rparr>))"

section \<open>The manager\<close>

text \<open>
  The manager reads the clock once for the leases it takes and once for every release:
  \<open>clock n\<close> is its \<open>n\<close>-th reading.  \<open>now_epoch\<close> is the reading of the epoch clock after
  truncation, and the lease identifier is the UUID of the call.
\<close>

fun release_keys :: "(string \<Rightarrow> string \<Rightarrow> timestamp \<Rightarrow> 's \<Rightarrow> 's) \<Rightarrow> (nat \<Rightarrow> timestamp) \<Rightarrow> nat \<Rightarrow>
    string list \<Rightarrow> string \<Rightarrow> 's \<Rightarrow> 's" where
  "release_keys release clock n [] i s = s"
| "release_keys release clock n (k # ks) i s =
     release_keys release clock (Suc n) ks i (release k i (clock n) s)"

definition quota_scopes ::
  "request_quota_limits \<Rightarrow> string \<Rightarrow> string option \<Rightarrow> string option \<Rightarrow> (string \<times> scope_quota \<times> string) list"
  where
  "quota_scopes l principal_id tenant source =
     [(''user:'' @ principal_id, rl_user l, ''user'')]
     @ (case tenant of None \<Rightarrow> [] | Some t \<Rightarrow> [(''tenant:'' @ t, rl_tenant l, ''tenant'')])
     @ (case (tenant, source) of
          (Some t, Some d) \<Rightarrow> [(''data-source:'' @ t @ '':'' @ d, rl_data_source l, ''data_source'')]
        | _ \<Rightarrow> [])"

definition retry_after :: "request_quota_limits \<Rightarrow> int \<Rightarrow> int" where
  "retry_after l now_epoch =
     max 1 ((now_epoch div rl_window_seconds l + 1) * rl_window_seconds l - now_epoch)"

definition scope_acquisition ::
  "request_quota_limits \<Rightarrow> int \<Rightarrow> timestamp \<Rightarrow> string \<Rightarrow> string \<Rightarrow> scope_quota \<Rightarrow> acquisition" where
  "scope_acquisition l now_epoch now i k q =
     \<lparr>aq_scope_key = k, aq_window_number = now_epoch div rl_window_seconds l,
      aq_max_requests = sq_requests_per_window q, aq_max_concurrent = sq_max_concurrent q,
      aq_updated_at = now, aq_lease_id = i, aq_expires_at = now + seconds (rl_lease_seconds l)\<rparr>"

fun acquire_scopes ::
  "(acquisition \<Rightarrow> 's \<Rightarrow> ('e + bool \<times> string option) \<times> 's) \<Rightarrow>
   (string \<Rightarrow> string \<Rightarrow> timestamp \<Rightarrow> 's \<Rightarrow> 's) \<Rightarrow> (nat \<Rightarrow> timestamp) \<Rightarrow> request_quota_limits \<Rightarrow> int \<Rightarrow>
   string \<Rightarrow> (string \<times> scope_quota \<times> string) list \<Rightarrow> string list \<Rightarrow> 's \<Rightarrow>
   ('e + request_quota_decision) \<times> 's" where
  "acquire_scopes try_acquire release clock l now_epoch i [] acquired s =
     (Inr \<lparr>rd_allowed = True, rd_lease = Some \<lparr>rq_scope_keys = acquired, rq_lease_id = i\<rparr>,
           rd_denied_scope = None, rd_reason = None, rd_retry_after_seconds = 0\<rparr>, s)"
| "acquire_scopes try_acquire release clock l now_epoch i ((k, q, nm) # scopes) acquired s =
     (case try_acquire (scope_acquisition l now_epoch (clock 0) i k q) s of
        (Inl e, s') \<Rightarrow> (Inl e, release_keys release clock 1 (rev acquired) i s')
      | (Inr (allowed, reason), s') \<Rightarrow>
          if \<not> allowed
          then (Inr \<lparr>rd_allowed = False, rd_lease = None, rd_denied_scope = Some nm, rd_reason = reason,
                     rd_retry_after_seconds =
                       (if reason = Some ''rate'' then retry_after l now_epoch else 1)\<rparr>,
                release_keys release clock 1 (rev acquired) i s')
          else acquire_scopes try_acquire release clock l now_epoch i scopes (acquired @ [k]) s')"

definition acquire_quota ::
  "(acquisition \<Rightarrow> 's \<Rightarrow> ('e + bool \<times> string option) \<times> 's) \<Rightarrow>
   (string \<Rightarrow> string \<Rightarrow> timestamp \<Rightarrow> 's \<Rightarrow> 's) \<Rightarrow> (nat \<Rightarrow> timestamp) \<Rightarrow> request_quota_limits \<Rightarrow> int \<Rightarrow>
   string \<Rightarrow> string \<Rightarrow> string option \<Rightarrow> string option \<Rightarrow> 's \<Rightarrow> ('e + request_quota_decision) \<times> 's" where
  "acquire_quota try_acquire release clock l epoch i principal_id tenant source s =
     acquire_scopes try_acquire release clock l (max 0 epoch) i
       (quota_scopes l principal_id tenant source) [] s"

definition release_quota_lease ::
  "(string \<Rightarrow> string \<Rightarrow> timestamp \<Rightarrow> 's \<Rightarrow> 's) \<Rightarrow> (nat \<Rightarrow> timestamp) \<Rightarrow> request_quota_lease \<Rightarrow> 's \<Rightarrow> 's" where
  "release_quota_lease release clock lease s =
     release_keys release clock 0 (rev (rq_scope_keys lease)) (rq_lease_id lease) s"

definition renew_quota_lease ::
  "(string list \<Rightarrow> string \<Rightarrow> timestamp \<Rightarrow> timestamp \<Rightarrow> 's \<Rightarrow> ('e + bool) \<times> 's) \<Rightarrow> timestamp \<Rightarrow>
   request_quota_limits \<Rightarrow> request_quota_lease \<Rightarrow> 's \<Rightarrow> ('e + bool) \<times> 's" where
  "renew_quota_lease renew now l lease s =
     renew (rq_scope_keys lease) (rq_lease_id lease) now (now + seconds (rl_lease_seconds l)) s"

text \<open>
  \<open>run_with_lease\<close> waits for the operation and the heartbeat.  A wake-up says when the
  heartbeat asked for a renewal, if it did, and how the operation ended, if it ended; a
  heartbeat that fails wins over an operation that ends at the same wake-up.  The result is
  \<open>None\<close> while both tasks are still running.
\<close>

record wake_up =
  wk_renewal :: "timestamp option"
  wk_finished :: "(string + unit) option"

definition heartbeat_step ::
  "(string list \<Rightarrow> string \<Rightarrow> timestamp \<Rightarrow> timestamp \<Rightarrow> 's \<Rightarrow> (quota_error + bool) \<times> 's) \<Rightarrow>
   request_quota_limits \<Rightarrow> request_quota_lease \<Rightarrow> timestamp option \<Rightarrow> 's \<Rightarrow> (quota_error + unit) \<times> 's" where
  "heartbeat_step renew l lease due s =
     (case due of None \<Rightarrow> (Inr (), s)
      | Some now \<Rightarrow>
          (case renew_quota_lease renew now l lease s of
             (Inl e, s') \<Rightarrow> (Inl Lease_Renewal_Failed, s')
           | (Inr renewed, s') \<Rightarrow> (if renewed then Inr () else Inl Concurrency_Lease_Expired, s')))"

fun run_with_lease ::
  "(string list \<Rightarrow> string \<Rightarrow> timestamp \<Rightarrow> timestamp \<Rightarrow> 's \<Rightarrow> (quota_error + bool) \<times> 's) \<Rightarrow>
   (string \<Rightarrow> string \<Rightarrow> timestamp \<Rightarrow> 's \<Rightarrow> 's) \<Rightarrow> (nat \<Rightarrow> timestamp) \<Rightarrow> request_quota_limits \<Rightarrow>
   request_quota_lease \<Rightarrow> wake_up list \<Rightarrow> 's \<Rightarrow> ((quota_error + unit) \<times> 's) option" where
  "run_with_lease renew release clock l lease [] s = None"
| "run_with_lease renew release clock l lease (w # ws) s =
     (case heartbeat_step renew l lease (wk_renewal w) s of
        (Inl e, s') \<Rightarrow> Some (Inl e, release_quota_lease release clock lease s')
      | (Inr _, s') \<Rightarrow>
          (case wk_finished w of
             None \<Rightarrow> run_with_lease renew release clock l lease ws s'
           | Some (Inl e) \<Rightarrow> Some (Inl (Operation_Error e), release_quota_lease release clock lease s')
           | Some (Inr _) \<Rightarrow> Some (Inr (), release_quota_lease release clock lease s')))"

end
