(* ===== verification/Quota_Safety.thy ===== *)
theory Quota_Safety
  imports Request_Quota
begin

text \<open>
  What the request quotas guarantee: the bounds that every sequence of transactions of all
  replicas keeps, the contract of the repository the manager relies on with its
  interpretation on the tables, and the manager's all-or-nothing behaviour.
\<close>

section \<open>Lemmas on the statements\<close>

lemma unique_ensure_window:
  "unique_key qw_scope_key ws \<Longrightarrow> unique_key qw_scope_key (ensure_window a ws)"
  by (auto simp: ensure_window_def insert_or_ignore_def intro!: unique_key_append)

interpretation touched: keyed_update qw_scope_key "\<lambda>t w. w\<lparr>qw_updated_at := t\<rparr>"
  by unfold_locales simp

interpretation counted: keyed_update qw_scope_key count_request
  by unfold_locales (simp add: count_request_def)

interpretation extended: keyed_update "\<lambda>l. (ql_scope_key l, ql_lease_id l)"
    "\<lambda>t l. l\<lparr>ql_expires_at := t\<rparr>"
  by unfold_locales simp

lemma unique_touch_window:
  "unique_key qw_scope_key ws \<Longrightarrow> unique_key qw_scope_key (touch_window k t ws)"
  unfolding touch_window_def by (rule touched.unique_key_sql_update)

lemma unique_touch_windows:
  "unique_key qw_scope_key ws \<Longrightarrow> unique_key qw_scope_key (fold (\<lambda>k. touch_window k t) ks ws)"
  by (induction ks arbitrary: ws) (simp_all add: unique_touch_window)

lemma touch_window_row:
  "w \<in> set ws \<Longrightarrow> \<exists>w' \<in> set (touch_window k t ws).
     qw_scope_key w' = qw_scope_key w \<and> qw_window_number w' = qw_window_number w
     \<and> qw_request_count w' = qw_request_count w"
  by (rule bexI[of _ "if qw_scope_key w = k then w\<lparr>qw_updated_at := t\<rparr> else w"])
    (auto simp: touch_window_def set_sql_update)

lemma touch_windows_row:
  "w \<in> set ws \<Longrightarrow> \<exists>w' \<in> set (fold (\<lambda>k. touch_window k t) ks ws).
     qw_scope_key w' = qw_scope_key w \<and> qw_window_number w' = qw_window_number w
     \<and> qw_request_count w' = qw_request_count w"
proof (induction ks arbitrary: ws w)
  case (Cons k ks)
  from touch_window_row[OF Cons.prems, of k t] obtain v where v: "v \<in> set (touch_window k t ws)"
    "qw_scope_key v = qw_scope_key w" "qw_window_number v = qw_window_number w"
    "qw_request_count v = qw_request_count w" by blast
  from Cons.IH[OF v(1)] v(2-) show ?case by simp
qed auto

lemma ensure_window_row: "w \<in> set ws \<Longrightarrow> w \<in> set (ensure_window a ws)"
  by (simp add: ensure_window_def insert_or_ignore_def)

lemma row_count_sql_delete_le: "row_count P (sql_delete Q ls) \<le> row_count P ls"
  by (induction ls) (auto simp: row_count_def sql_delete_def)

lemma lease_count_delete_le: "lease_count k (sql_delete Q ls) \<le> lease_count k ls"
  by (simp add: lease_count_def row_count_sql_delete_le)

lemma lease_count_drop_le: "lease_count k (drop_expired k' t ls) \<le> lease_count k ls"
  unfolding drop_expired_def by (rule lease_count_delete_le)

lemma lease_count_append [simp]:
  "lease_count k (ls @ [l]) = lease_count k ls + (if ql_scope_key l = k then 1 else 0)"
  by (simp add: lease_count_def row_count_def)

lemma lease_count_extend:
  "lease_count k (sql_update P (\<lambda>l. l\<lparr>ql_expires_at := t\<rparr>) ls) = lease_count k ls"
  by (induction ls) (auto simp: lease_count_def row_count_def sql_update_def)

lemma lease_count_extends:
  "lease_count k (fold (\<lambda>j. sql_update (P j) (\<lambda>l. l\<lparr>ql_expires_at := t\<rparr>)) ks ls) = lease_count k ls"
  by (induction ks arbitrary: ls) (simp_all add: lease_count_extend)

section \<open>Rate and concurrency bounds\<close>

text \<open>
  A deployment: every replica is configured with the same limits per scope.  \<open>admitted\<close>
  lists the scope and window of each acquisition the repository has allowed.
\<close>

inductive quota_reaches ::
  "(string \<Rightarrow> nat) \<Rightarrow> (string \<Rightarrow> nat) \<Rightarrow> (string \<times> int) list \<Rightarrow> quota_store \<Rightarrow> bool"
  for rate cap where
  start: "quota_reaches rate cap [] \<lparr>qs_windows = [], qs_leases = []\<rparr>"
| granted: "quota_reaches rate cap admitted s \<Longrightarrow>
    aq_max_requests a = int (rate (aq_scope_key a)) \<Longrightarrow>
    aq_max_concurrent a = int (cap (aq_scope_key a)) \<Longrightarrow>
    try_acquire_request_quota a s = (Inr (True, r), s') \<Longrightarrow>
    quota_reaches rate cap ((aq_scope_key a, aq_window_number a) # admitted) s'"
| denied: "quota_reaches rate cap admitted s \<Longrightarrow>
    aq_max_requests a = int (rate (aq_scope_key a)) \<Longrightarrow>
    aq_max_concurrent a = int (cap (aq_scope_key a)) \<Longrightarrow>
    try_acquire_request_quota a s = (Inr (False, r), s') \<Longrightarrow> quota_reaches rate cap admitted s'"
| released: "quota_reaches rate cap admitted s \<Longrightarrow>
    quota_reaches rate cap admitted (release_request_quota k i t s)"
| renewed: "quota_reaches rate cap admitted s \<Longrightarrow>
    renew_request_quota ks i now expires s = (r, s') \<Longrightarrow> quota_reaches rate cap admitted s'"

text \<open>The invariant ties the history to the window rows.\<close>

definition window_covers :: "(string \<times> int) list \<Rightarrow> quota_window list \<Rightarrow> string \<Rightarrow> int \<Rightarrow> bool" where
  "window_covers admitted ws k n =
     (count_list admitted (k, n) = 0
      \<or> (\<exists>w \<in> set ws. qw_scope_key w = k \<and> n \<le> qw_window_number w
           \<and> (qw_window_number w = n \<longrightarrow> int (count_list admitted (k, n)) \<le> qw_request_count w)))"

definition counts_nonneg :: "quota_window list \<Rightarrow> bool" where
  "counts_nonneg ws = (\<forall>w \<in> set ws. 0 \<le> qw_request_count w)"

definition quota_inv ::
  "(string \<Rightarrow> nat) \<Rightarrow> (string \<Rightarrow> nat) \<Rightarrow> (string \<times> int) list \<Rightarrow> quota_store \<Rightarrow> bool" where
  "quota_inv rate cap admitted s =
     (unique_key qw_scope_key (qs_windows s) \<and> counts_nonneg (qs_windows s)
      \<and> (\<forall>k n. count_list admitted (k, n) \<le> rate k \<and> window_covers admitted (qs_windows s) k n)
      \<and> (\<forall>k. lease_count k (qs_leases s) \<le> int (cap k)))"

definition rows_kept :: "quota_window list \<Rightarrow> quota_window list \<Rightarrow> bool" where
  "rows_kept ws ws' =
     (\<forall>w \<in> set ws. \<exists>w' \<in> set ws'. qw_scope_key w' = qw_scope_key w
        \<and> qw_window_number w' = qw_window_number w \<and> qw_request_count w' = qw_request_count w)"

lemma window_covers_rows_kept:
  "window_covers admitted ws k n \<Longrightarrow> rows_kept ws ws' \<Longrightarrow> window_covers admitted ws' k n"
  unfolding window_covers_def rows_kept_def by metis

lemma rows_kept_touch: "rows_kept ws (touch_window k t ws)"
  unfolding rows_kept_def using touch_window_row by blast

lemma rows_kept_touches: "rows_kept ws (fold (\<lambda>k. touch_window k t) ks ws)"
  unfolding rows_kept_def using touch_windows_row by blast

lemma rows_kept_prepare: "rows_kept ws (touch_window k t (ensure_window a ws))"
  unfolding rows_kept_def using ensure_window_row touch_window_row by blast

lemma no_room_same: "row_count (has_room a) ws \<noteq> 1 \<Longrightarrow> unique_key qw_scope_key ws \<Longrightarrow>
    sql_update (has_room a) (count_request a) ws = ws"
proof -
  assume ne: "row_count (has_room a) ws \<noteq> 1" and u: "unique_key qw_scope_key ws"
  have "row_count (has_room a) ws \<le> 1"
    by (rule unique_key_row_count[OF u]) (simp add: has_room_def)
  then have "row_count (has_room a) ws = 0" using ne by linarith
  then have "\<forall>w \<in> set ws. \<not> has_room a w" using row_count_pos[of "has_room a" ws] by blast
  then show ?thesis by (simp add: sql_update_def map_idI)
qed

text \<open>An acquisition that is counted: the one row of its scope moves on by one request.\<close>

lemma counted_row:
  assumes u: "unique_key qw_scope_key ws" and one: "row_count (has_room a) ws = 1"
    and cov: "window_covers admitted ws (aq_scope_key a) (aq_window_number a)"
    and le: "count_list admitted (aq_scope_key a, aq_window_number a) \<le> rate"
    and mx: "aq_max_requests a = int rate" "1 \<le> aq_max_requests a" and nn: "counts_nonneg ws"
  shows "Suc (count_list admitted (aq_scope_key a, aq_window_number a)) \<le> rate"
    and "\<exists>w \<in> set (sql_update (has_room a) (count_request a) ws). qw_scope_key w = aq_scope_key a
           \<and> qw_window_number w = aq_window_number a
           \<and> int (Suc (count_list admitted (aq_scope_key a, aq_window_number a))) \<le> qw_request_count w"
proof -
  let ?c = "count_list admitted (aq_scope_key a, aq_window_number a)"
  obtain w where w: "w \<in> set ws" "has_room a w" using one row_count_pos[of "has_room a" ws] by auto
  have uniq: "v = w" if "v \<in> set ws" "qw_scope_key v = aq_scope_key a" for v
    using unique_key_eq[OF u that(1) w(1)] that(2) w(2) by (simp add: has_room_def)
  have *: "?c = 0 \<or> (aq_window_number a \<le> qw_window_number w
      \<and> (qw_window_number w = aq_window_number a \<longrightarrow> int ?c \<le> qw_request_count w))"
    using cov uniq unfolding window_covers_def by blast
  show "Suc ?c \<le> rate" using * w(2) mx by (auto simp: has_room_def)
  have "count_request a w \<in> set (sql_update (has_room a) (count_request a) ws)"
    using w by (auto simp: set_sql_update)
  moreover have "qw_scope_key (count_request a w) = aq_scope_key a"
    "qw_window_number (count_request a w) = aq_window_number a"
    "int (Suc ?c) \<le> qw_request_count (count_request a w)"
    using * w nn by (auto simp: count_request_def has_room_def counts_nonneg_def)
  ultimately show "\<exists>w \<in> set (sql_update (has_room a) (count_request a) ws).
      qw_scope_key w = aq_scope_key a \<and> qw_window_number w = aq_window_number a
      \<and> int (Suc ?c) \<le> qw_request_count w" by blast
qed

text \<open>The other windows stay covered: the row of the scope only moves to a later window.\<close>

lemma window_covers_counted:
  assumes u: "unique_key qw_scope_key ws" and cov: "window_covers admitted ws k n"
    and other: "(k, n) \<noteq> (aq_scope_key a, aq_window_number a)"
  shows "window_covers ((aq_scope_key a, aq_window_number a) # admitted)
           (sql_update (has_room a) (count_request a) ws) k n"
proof (cases "count_list admitted (k, n) = 0")
  case True
  then show ?thesis using other by (auto simp: window_covers_def)
next
  case False
  then obtain w where w: "w \<in> set ws" "qw_scope_key w = k" "n \<le> qw_window_number w"
    "qw_window_number w = n \<longrightarrow> int (count_list admitted (k, n)) \<le> qw_request_count w"
    using cov by (auto simp: window_covers_def)
  let ?w = "if has_room a w then count_request a w else w"
  have "?w \<in> set (sql_update (has_room a) (count_request a) ws)"
    using w(1) by (auto simp: set_sql_update)
  moreover have "qw_scope_key ?w = k" "n \<le> qw_window_number ?w"
    "qw_window_number ?w = n \<longrightarrow> int (count_list admitted (k, n)) \<le> qw_request_count ?w"
    using w other by (auto simp: count_request_def has_room_def)
  ultimately show ?thesis using other unfolding window_covers_def by auto
qed

text \<open>The branches of an acquisition.\<close>

lemma try_acquire_granted:
  assumes "try_acquire_request_quota a s = (Inr (True, r), s')"
  defines "ws \<equiv> touch_window (aq_scope_key a) (aq_updated_at a) (ensure_window a (qs_windows s))"
    and "ls \<equiv> drop_expired (aq_scope_key a) (aq_updated_at a) (qs_leases s)"
  shows "1 \<le> aq_max_requests a" "lease_count (aq_scope_key a) ls < aq_max_concurrent a"
    "row_count (has_room a) ws = 1" "r = None"
    "s' = \<lparr>qs_windows = sql_update (has_room a) (count_request a) ws,
           qs_leases = ls @ [\<lparr>ql_scope_key = aq_scope_key a, ql_lease_id = aq_lease_id a,
                              ql_expires_at = aq_expires_at a\<rparr>]\<rparr>"
  using assms unfolding try_acquire_request_quota_def
  by (auto simp: Let_def split: if_splits)

lemma try_acquire_not_granted:
  assumes "try_acquire_request_quota a s = (v, s')" "\<And>r. v \<noteq> Inr (True, r)"
    and "unique_key qw_scope_key (qs_windows s)"
  defines "ws \<equiv> touch_window (aq_scope_key a) (aq_updated_at a) (ensure_window a (qs_windows s))"
    and "ls \<equiv> drop_expired (aq_scope_key a) (aq_updated_at a) (qs_leases s)"
  shows "s' = s \<or> s' = \<lparr>qs_windows = ws, qs_leases = ls\<rparr>"
proof -
  have u: "unique_key qw_scope_key ws"
    unfolding ws_def using assms(3) by (intro unique_touch_window unique_ensure_window)
  have "row_count (has_room a) ws \<noteq> 1 \<Longrightarrow> sql_update (has_room a) (count_request a) ws = ws"
    by (rule no_room_same[OF _ u])
  then show ?thesis
    using assms(1,2) unfolding try_acquire_request_quota_def ws_def ls_def
    by (auto simp: Let_def split: if_splits)
qed

lemma counts_nonneg_ensure: "counts_nonneg ws \<Longrightarrow> counts_nonneg (ensure_window a ws)"
  by (auto simp: counts_nonneg_def ensure_window_def insert_or_ignore_def)

lemma counts_nonneg_touch: "counts_nonneg ws \<Longrightarrow> counts_nonneg (touch_window k t ws)"
  by (auto simp: counts_nonneg_def touch_window_def set_sql_update)

lemma counts_nonneg_touches: "counts_nonneg ws \<Longrightarrow> counts_nonneg (fold (\<lambda>k. touch_window k t) ks ws)"
  by (induction ks arbitrary: ws) (simp_all add: counts_nonneg_touch)

lemma counts_nonneg_count:
  "counts_nonneg ws \<Longrightarrow> counts_nonneg (sql_update (has_room a) (count_request a) ws)"
  by (auto simp: counts_nonneg_def set_sql_update count_request_def)

lemma quota_inv_quiet:
  assumes "quota_inv rate cap admitted s" "rows_kept (qs_windows s) (qs_windows s')"
    and "unique_key qw_scope_key (qs_windows s')" "counts_nonneg (qs_windows s')"
    and "\<And>k. lease_count k (qs_leases s') \<le> lease_count k (qs_leases s)"
  shows "quota_inv rate cap admitted s'"
  using assms order_trans window_covers_rows_kept unfolding quota_inv_def by meson

lemma quota_inv_not_granted:
  assumes inv: "quota_inv rate cap admitted s" and r: "try_acquire_request_quota a s = (v, s')"
    "\<And>r. v \<noteq> Inr (True, r)"
  shows "quota_inv rate cap admitted s'"
proof -
  have u: "unique_key qw_scope_key (qs_windows s)" "counts_nonneg (qs_windows s)"
    using inv by (simp_all add: quota_inv_def)
  have "quota_inv rate cap admitted
      \<lparr>qs_windows = touch_window (aq_scope_key a) (aq_updated_at a) (ensure_window a (qs_windows s)),
       qs_leases = drop_expired (aq_scope_key a) (aq_updated_at a) (qs_leases s)\<rparr>"
    using u by (intro quota_inv_quiet[OF inv])
      (simp_all add: rows_kept_prepare unique_touch_window unique_ensure_window
        counts_nonneg_touch counts_nonneg_ensure lease_count_drop_le)
  then show ?thesis using try_acquire_not_granted[OF r u(1)] inv by auto
qed

lemma quota_inv_granted:
  assumes inv: "quota_inv rate cap admitted s"
    and lim: "aq_max_requests a = int (rate (aq_scope_key a))"
      "aq_max_concurrent a = int (cap (aq_scope_key a))"
    and r: "try_acquire_request_quota a s = (Inr (True, r), s')"
  shows "quota_inv rate cap ((aq_scope_key a, aq_window_number a) # admitted) s'"
proof -
  define ws where "ws = touch_window (aq_scope_key a) (aq_updated_at a) (ensure_window a (qs_windows s))"
  define ls where "ls = drop_expired (aq_scope_key a) (aq_updated_at a) (qs_leases s)"
  note g = try_acquire_granted[OF r, folded ws_def ls_def]
  have u: "unique_key qw_scope_key ws" and nn: "counts_nonneg ws"
    using inv by (simp_all add: quota_inv_def ws_def unique_touch_window unique_ensure_window
        counts_nonneg_touch counts_nonneg_ensure)
  have cov: "window_covers admitted ws k n" and le: "count_list admitted (k, n) \<le> rate k" for k n
    using inv window_covers_rows_kept rows_kept_prepare unfolding quota_inv_def ws_def by blast+
  note row = counted_row[OF u g(3) cov le lim(1) g(1) nn]
  have c: "count_list ((aq_scope_key a, aq_window_number a) # admitted) (k, n) \<le> rate k" for k n
    using le[of k n] row(1) by auto
  have w: "window_covers ((aq_scope_key a, aq_window_number a) # admitted)
      (sql_update (has_room a) (count_request a) ws) k n" for k n
  proof (cases "(k, n) = (aq_scope_key a, aq_window_number a)")
    case True
    then show ?thesis using row(2) unfolding window_covers_def by auto
  next
    case False
    then show ?thesis by (rule window_covers_counted[OF u cov])
  qed
  have l: "lease_count k (qs_leases s') \<le> int (cap k)" for k
    using inv g(2) lim(2) lease_count_drop_le[of k "aq_scope_key a" "aq_updated_at a" "qs_leases s"]
    by (auto simp: g(5) ls_def quota_inv_def intro: order_trans)
  show ?thesis
    using c w l unfolding quota_inv_def
    by (simp add: g(5) counted.unique_key_sql_update[OF u] counts_nonneg_count[OF nn])
qed

lemma quota_inv_released:
  "quota_inv rate cap admitted s \<Longrightarrow> quota_inv rate cap admitted (release_request_quota k i t s)"
  by (rule quota_inv_quiet)
    (auto simp: quota_inv_def release_request_quota_def rows_kept_touch unique_touch_window
      counts_nonneg_touch lease_count_delete_le)

lemma rows_kept_refl: "rows_kept ws ws"
  by (auto simp: rows_kept_def)

text \<open>A renewal touches the windows and moves expiries, or does nothing.\<close>

lemma renew_cases:
  assumes "renew_request_quota ks i now expires s = (r, s')"
  shows "s' = s
    \<or> s' = \<lparr>qs_windows = fold (\<lambda>k. touch_window k now) ks (qs_windows s), qs_leases = qs_leases s\<rparr>
    \<or> s' = \<lparr>qs_windows = fold (\<lambda>k. touch_window k now) ks (qs_windows s),
            qs_leases = fold (\<lambda>k. sql_update (\<lambda>l. ql_scope_key l = k \<and> ql_lease_id l = i)
                                (\<lambda>l. l\<lparr>ql_expires_at := expires\<rparr>)) ks (qs_leases s)\<rparr>"
  using assms unfolding renew_request_quota_def Let_def by (simp split: if_splits)

lemma quota_inv_renewed:
  assumes inv: "quota_inv rate cap admitted s" and r: "renew_request_quota ks i now expires s = (r, s')"
  shows "quota_inv rate cap admitted s'"
proof -
  have w: "unique_key qw_scope_key (qs_windows s)" "counts_nonneg (qs_windows s)"
    using inv by (simp_all add: quota_inv_def)
  have "quota_inv rate cap admitted
      \<lparr>qs_windows = fold (\<lambda>k. touch_window k now) ks (qs_windows s), qs_leases = ls\<rparr>"
    if "\<And>k. lease_count k ls = lease_count k (qs_leases s)" for ls
    by (rule quota_inv_quiet[OF inv])
      (simp_all add: rows_kept_touches unique_touch_windows[OF w(1)] counts_nonneg_touches[OF w(2)] that)
  then show ?thesis using renew_cases[OF r] inv by (elim disjE) (simp_all add: lease_count_extends)
qed

lemma quota_reaches_inv: "quota_reaches rate cap admitted s \<Longrightarrow> quota_inv rate cap admitted s"
proof (induction rule: quota_reaches.induct)
  case start
  then show ?case
    by (simp add: quota_inv_def unique_key_def counts_nonneg_def window_covers_def lease_count_def
        row_count_def)
next
  case (denied admitted s a r s')
  then show ?case using quota_inv_not_granted[of rate cap admitted s a "Inr (False, r)" s'] by simp
next
  case (granted admitted s a r s')
  show ?case by (rule quota_inv_granted[OF granted.IH granted.hyps(2-4)])
next
  case (released admitted s k i t)
  show ?case by (rule quota_inv_released[OF released.IH])
next
  case (renewed admitted s ks i now expires r s')
  show ?case by (rule quota_inv_renewed[OF renewed.IH renewed.hyps(2)])
qed

text \<open>
  C35: Whatever acquisitions, releases and renewals the replicas commit and in whatever
  order, no scope ever holds more concurrency leases than its limit, and no window of a
  scope has admitted more requests than its rate, also when the window number that a slow
  replica computes lies behind the stored one.
\<close>

theorem quota_limits_hold:
  assumes "quota_reaches rate cap admitted s"
  shows "lease_count k (qs_leases s) \<le> int (cap k) \<and> count_list admitted (k, n) \<le> rate k"
  using quota_reaches_inv[OF assms] by (simp add: quota_inv_def)

definition sample_acquisition :: acquisition where
  "sample_acquisition =
     \<lparr>aq_scope_key = ''user:ana'', aq_window_number = 7, aq_max_requests = 2, aq_max_concurrent = 1,
      aq_updated_at = 0, aq_lease_id = ''l1'', aq_expires_at = 10\<rparr>"

definition sample_quota_store :: quota_store where
  "sample_quota_store =
     snd (try_acquire_request_quota sample_acquisition \<lparr>qs_windows = [], qs_leases = []\<rparr>)"

lemma sample_reaches:
  "quota_reaches (\<lambda>k. 2) (\<lambda>k. 1) [(''user:ana'', 7)] sample_quota_store"
proof -
  have g: "fst (try_acquire_request_quota sample_acquisition \<lparr>qs_windows = [], qs_leases = []\<rparr>)
      = Inr (True, None)"
    by code_simp
  have "quota_reaches (\<lambda>k. 2) (\<lambda>k. 1)
      ((aq_scope_key sample_acquisition, aq_window_number sample_acquisition) # []) sample_quota_store"
    by (rule granted[OF start, where r = None])
      (use g in \<open>simp_all add: sample_quota_store_def prod_eq_iff\<close>,
        simp_all add: sample_acquisition_def)
  then show ?thesis by (simp add: sample_acquisition_def)
qed

lemma quota_limits_hold_witness:
  "lease_count ''user:ana'' (qs_leases sample_quota_store) \<le> 1 \<and> count_list [(''user:ana'', 7::int)] (''user:ana'', 7) \<le> 2"
  using quota_limits_hold[OF sample_reaches, of "''user:ana''" 7] by simp

section \<open>The repository contract and the manager\<close>

text \<open>
  What the manager relies on: a granted acquisition adds the lease of its scope and no other,
  one that is denied or raises adds none, none touches another scope's leases, and a
  release removes exactly the lease it names.
\<close>

locale lease_repository =
  fixes try_acquire :: "acquisition \<Rightarrow> 's \<Rightarrow> ('e + bool \<times> string option) \<times> 's"
    and release :: "string \<Rightarrow> string \<Rightarrow> timestamp \<Rightarrow> 's \<Rightarrow> 's"
    and holds :: "'s \<Rightarrow> string \<Rightarrow> string \<Rightarrow> bool"
  assumes grants: "try_acquire a s = (Inr (True, r), s') \<Longrightarrow> holds s' (aq_scope_key a) (aq_lease_id a)"
    and adds_only: "try_acquire a s = (v, s') \<Longrightarrow> holds s' k i \<Longrightarrow>
      holds s k i \<or> (k = aq_scope_key a \<and> i = aq_lease_id a \<and> (\<exists>r. v = Inr (True, r)))"
    and keeps_others: "try_acquire a s = (v, s') \<Longrightarrow> k \<noteq> aq_scope_key a \<Longrightarrow> holds s k i \<Longrightarrow> holds s' k i"
    and release_holds: "holds (release k i t s) k' i' \<longleftrightarrow> holds s k' i' \<and> (k', i') \<noteq> (k, i)"
begin

lemma release_keys_holds:
  "holds (release_keys release clock n ks i s) k' i' \<longleftrightarrow> holds s k' i' \<and> \<not> (i' = i \<and> k' \<in> set ks)"
  by (induction ks arbitrary: n s) (auto simp: release_holds)

lemma release_lease_holds:
  "holds (release_quota_lease release clock lease s) k i \<longleftrightarrow>
     holds s k i \<and> \<not> (i = rq_lease_id lease \<and> k \<in> set (rq_scope_keys lease))"
  by (simp add: release_quota_lease_def release_keys_holds)

lemma acquire_scopes_holds:
  assumes "acquire_scopes try_acquire release clock l epoch i scopes acquired s = (v, s')"
    and "distinct (acquired @ map fst scopes)"
    and "\<forall>k. holds s k i \<longleftrightarrow> k \<in> set acquired"
  shows "case v of
      Inl e \<Rightarrow> (\<forall>k. \<not> holds s' k i)
    | Inr d \<Rightarrow> if rd_allowed d
              then rd_lease d = Some \<lparr>rq_scope_keys = acquired @ map fst scopes, rq_lease_id = i\<rparr>
                \<and> (\<forall>k. holds s' k i \<longleftrightarrow> k \<in> set (acquired @ map fst scopes))
              else rd_lease d = None \<and> (\<forall>k. \<not> holds s' k i)"
  using assms
proof (induction scopes arbitrary: acquired s)
  case Nil
  then show ?case by auto
next
  case (Cons x scopes)
  obtain k q nm where x: "x = (k, q, nm)" by (cases x)
  let ?a = "scope_acquisition l epoch (clock 0) i k q"
  obtain v1 s1 where t: "try_acquire ?a s = (v1, s1)" by fastforce
  have key: "aq_scope_key ?a = k" "aq_lease_id ?a = i" by (simp_all add: scope_acquisition_def)
  show ?case
  proof (cases "\<exists>r. v1 = Inr (True, r)")
    case True
    then obtain r where v1: "v1 = Inr (True, r)" by blast
    have rest: "acquire_scopes try_acquire release clock l epoch i scopes (acquired @ [k]) s1 = (v, s')"
      using Cons.prems(1) by (simp add: x t v1)
    have own: "holds s1 j i \<longleftrightarrow> j \<in> set (acquired @ [k])" for j
      using grants[OF t[unfolded v1]] adds_only[OF t, of j i] keeps_others[OF t, of j i]
        Cons.prems(3) key by auto
    show ?thesis using Cons.IH[OF rest] own Cons.prems(2) by (cases v) (simp_all add: x)
  next
    case False
    have gone: "\<not> holds (release_keys release clock 1 (rev acquired) i s1) j i" for j
      using adds_only[OF t, of j i] Cons.prems(3) False by (auto simp: release_keys_holds)
    show ?thesis
    proof (cases v1)
      case (Inl e)
      then show ?thesis using Cons.prems(1) gone by (auto simp: x t)
    next
      case (Inr p)
      then obtain r where "v1 = Inr (False, r)" using False by (cases p) auto
      then show ?thesis using Cons.prems(1) gone by (auto simp: x t)
    qed
  qed
qed

lemma run_with_lease_releases:
  "run_with_lease renew release clock l lease ws s = Some (v, s') \<Longrightarrow> k \<in> set (rq_scope_keys lease) \<Longrightarrow>
     \<not> holds s' k (rq_lease_id lease)"
  by (induction ws arbitrary: s)
    (auto split: prod.splits sum.splits option.splits simp: release_lease_holds)

end

definition holds_lease :: "quota_store \<Rightarrow> string \<Rightarrow> string \<Rightarrow> bool" where
  "holds_lease s k i = (\<exists>l \<in> set (qs_leases s). ql_scope_key l = k \<and> ql_lease_id l = i)"

interpretation leases: lease_repository try_acquire_request_quota release_request_quota holds_lease
proof
  show "holds_lease s' (aq_scope_key a) (aq_lease_id a)"
    if "try_acquire_request_quota a s = (Inr (True, r), s')" for a s r s'
    by (simp add: holds_lease_def try_acquire_granted(5)[OF that])
  show "holds_lease s k i \<or> (k = aq_scope_key a \<and> i = aq_lease_id a \<and> (\<exists>r. v = Inr (True, r)))"
    if "try_acquire_request_quota a s = (v, s')" "holds_lease s' k i" for a s v s' k i
    using that unfolding try_acquire_request_quota_def holds_lease_def drop_expired_def
    by (auto simp: Let_def split: if_splits)
  show "holds_lease s' k i"
    if "try_acquire_request_quota a s = (v, s')" "k \<noteq> aq_scope_key a" "holds_lease s k i" for a s v s' k i
    using that unfolding try_acquire_request_quota_def holds_lease_def drop_expired_def
    by (auto simp: Let_def split: if_splits)
  show "holds_lease (release_request_quota k i t s) k' i' \<longleftrightarrow>
      holds_lease s k' i' \<and> (k', i') \<noteq> (k, i)" for k i t s k' i'
    by (auto simp: holds_lease_def release_request_quota_def)
qed

lemma quota_scopes_distinct: "distinct (map fst (quota_scopes l p t d))"
  by (auto simp: quota_scopes_def split: option.splits)

text \<open>
  C36: Taking the quotas of a request is all or nothing.  With a fresh lease identifier, an
  acquisition that is allowed holds exactly the leases of the user, tenant and data source
  scopes it reports; one that is denied in any scope, or that raises in the middle, holds
  no lease at all.
\<close>

theorem acquire_is_all_or_nothing:
  assumes "acquire_quota try_acquire_request_quota release_request_quota clock l epoch i p t d s = (v, s')"
    and "\<forall>k. \<not> holds_lease s k i"
  shows "case v of
      Inl e \<Rightarrow> (\<forall>k. \<not> holds_lease s' k i)
    | Inr dec \<Rightarrow> if rd_allowed dec
        then rd_lease dec = Some \<lparr>rq_scope_keys = map fst (quota_scopes l p t d), rq_lease_id = i\<rparr>
          \<and> (\<forall>k. holds_lease s' k i \<longleftrightarrow> k \<in> set (map fst (quota_scopes l p t d)))
        else rd_lease dec = None \<and> (\<forall>k. \<not> holds_lease s' k i)"
  using leases.acquire_scopes_holds[of clock l "max 0 epoch" i "quota_scopes l p t d" "[]" s v s']
    assms quota_scopes_distinct[of l p t d]
  by (cases v) (simp_all add: acquire_quota_def)

definition sample_limits :: request_quota_limits where
  "sample_limits =
     \<lparr>rl_window_seconds = 60, rl_user = \<lparr>sq_requests_per_window = 5, sq_max_concurrent = 2\<rparr>,
      rl_tenant = \<lparr>sq_requests_per_window = 5, sq_max_concurrent = 1\<rparr>,
      rl_data_source = \<lparr>sq_requests_per_window = 5, sq_max_concurrent = 1\<rparr>, rl_lease_seconds = 120\<rparr>"

text \<open>A second request of the tenant is denied there and gives its user lease back.\<close>

definition sample_denied :: "(quota_error + request_quota_decision) \<times> quota_store" where
  "sample_denied =
     acquire_quota try_acquire_request_quota release_request_quota (\<lambda>n. 1) sample_limits 130 ''l2''
       ''bob'' (Some ''acme'') None
       (snd (acquire_quota try_acquire_request_quota release_request_quota (\<lambda>n. 0) sample_limits 125
          ''l1'' ''ana'' (Some ''acme'') None \<lparr>qs_windows = [], qs_leases = []\<rparr>))"

lemma acquire_is_all_or_nothing_witness:
  "\<exists>dec. fst sample_denied = Inr dec \<and> \<not> rd_allowed dec \<and> rd_denied_scope dec = Some ''tenant''
     \<and> (\<forall>k. \<not> holds_lease (snd sample_denied) k ''l2'')"
proof -
  define first where "first = snd (acquire_quota try_acquire_request_quota release_request_quota
    (\<lambda>n. 0) sample_limits 125 ''l1'' ''ana'' (Some ''acme'') None \<lparr>qs_windows = [], qs_leases = []\<rparr>)"
  have d: "fst sample_denied =
      Inr \<lparr>rd_allowed = False, rd_lease = None, rd_denied_scope = Some ''tenant'',
           rd_reason = Some ''concurrency'', rd_retry_after_seconds = 1\<rparr>"
    by code_simp
  have "list_all (\<lambda>l. ql_lease_id l \<noteq> ''l2'') (qs_leases first)"
    unfolding first_def by code_simp
  then have fresh: "\<forall>k. \<not> holds_lease first k ''l2''" by (auto simp: holds_lease_def list_all_iff)
  have "acquire_quota try_acquire_request_quota release_request_quota (\<lambda>n. 1) sample_limits 130 ''l2''
      ''bob'' (Some ''acme'') None first = (fst sample_denied, snd sample_denied)"
    by (simp add: sample_denied_def first_def)
  from acquire_is_all_or_nothing[OF this fresh] show ?thesis by (simp add: d)
qed

text \<open>
  However the operation of a request and the heartbeat of its lease are interleaved, when
  \<open>run_with_lease\<close> returns or raises the lease is released in every scope; it succeeds only if
  the operation did, and once the operation has ended it does return.
\<close>

theorem run_with_lease_always_releases:
  assumes "wk_finished w = Some r"
  shows "\<exists>v s'. run_with_lease renew_request_quota release_request_quota clock l lease (ws @ [w]) s = Some (v, s')
    \<and> (\<forall>k \<in> set (rq_scope_keys lease). \<not> holds_lease s' k (rq_lease_id lease))
    \<and> (v = Inr () \<longrightarrow> (\<exists>w' \<in> set (ws @ [w]). wk_finished w' = Some (Inr ())))"
proof -
  have "\<exists>v s'. run_with_lease renew_request_quota release_request_quota clock l lease (ws @ [w]) s = Some (v, s')
      \<and> (v = Inr () \<longrightarrow> (\<exists>w' \<in> set (ws @ [w]). wk_finished w' = Some (Inr ())))"
    by (induction ws arbitrary: s) (auto split: prod.splits sum.splits option.splits simp: assms)
  then show ?thesis using leases.run_with_lease_releases by blast
qed

lemma run_with_lease_always_releases_witness:
  "\<exists>v s'. run_with_lease renew_request_quota release_request_quota (\<lambda>n. 9) sample_limits
      \<lparr>rq_scope_keys = [''user:ana''], rq_lease_id = ''l1''\<rparr>
      ([\<lparr>wk_renewal = Some 5, wk_finished = None\<rparr>] @ [\<lparr>wk_renewal = None, wk_finished = Some (Inr ())\<rparr>])
      sample_quota_store = Some (v, s') \<and> \<not> holds_lease s' ''user:ana'' ''l1''"
  using run_with_lease_always_releases[of "\<lparr>wk_renewal = None, wk_finished = Some (Inr ())\<rparr>" "Inr ()"
      "\<lambda>n. 9" sample_limits "\<lparr>rq_scope_keys = [''user:ana''], rq_lease_id = ''l1''\<rparr>"
      "[\<lparr>wk_renewal = Some 5, wk_finished = None\<rparr>]" sample_quota_store]
  by auto

text \<open>
  The delay that a rate denial tells the client is positive, at most one window, and when
  it has passed the window number has moved on, so the next request is counted in a fresh
  window.
\<close>

theorem retry_after_reaches_next_window:
  assumes "request_quota_limits_post_init l = Inr u" and "0 \<le> now_epoch"
  shows "1 \<le> retry_after l now_epoch \<and> retry_after l now_epoch \<le> rl_window_seconds l
    \<and> (now_epoch + retry_after l now_epoch) div rl_window_seconds l = now_epoch div rl_window_seconds l + 1"
proof -
  define w q m where "w = rl_window_seconds l" and "q = now_epoch div w" and "m = now_epoch mod w"
  have w: "1 \<le> w" using assms(1) by (simp add: request_quota_limits_post_init_def w_def)
  have e: "now_epoch = q * w + m" by (simp add: q_def m_def)
  have m: "0 \<le> m" "m < w" using w by (simp_all add: m_def)
  have r: "retry_after l now_epoch = w - m"
    using m by (simp add: retry_after_def flip: w_def q_def) (simp add: e algebra_simps)
  then have "now_epoch + retry_after l now_epoch = (q + 1) * w" by (simp add: e algebra_simps)
  then have "(now_epoch + retry_after l now_epoch) div w = q + 1" using w by simp
  then show ?thesis using r m w by (simp add: w_def q_def)
qed

lemma retry_after_reaches_next_window_witness:
  "1 \<le> retry_after sample_limits 130 \<and> (130 + retry_after sample_limits 130) div 60 = 3"
  using retry_after_reaches_next_window[of sample_limits "()" 130]
  by (simp add: request_quota_limits_post_init_def sample_limits_def)

end
