(* ===== verification/Retention.thy ===== *)
theory Retention
  imports Job_Worker Quota_Safety
begin

text \<open>
  Retention of operational records: the preview and the purge of the catalog repository and
  the command line of \<open>packages/operations/sqlverity_operations/retention.py\<close>.  The purge
  deletes finished jobs and idle quota windows; deleting a window cascades to its leases.
\<close>

datatype retention_error =
    Cutoff_Not_In_Past | Retention_Actor_Invalid | Cutoff_Not_Confirmed

record operational_retention_report =
  or_cutoff :: timestamp
  or_background_jobs :: nat
  or_quota_windows :: nat
  or_run_id :: "string option"
  or_actor_id :: "string option"
  or_completed_at :: "timestamp option"

record retention_run =
  rr_id :: string
  rr_cutoff :: timestamp
  rr_background_jobs_deleted :: nat
  rr_quota_windows_deleted :: nat
  rr_actor_id :: string
  rr_completed_at :: timestamp

record retention_store =
  rs_jobs :: "background_job list"
  rs_quota :: quota_store
  rs_runs :: "retention_run list"

definition validate_retention_cutoff :: "timestamp \<Rightarrow> timestamp \<Rightarrow> retention_error + unit" where
  "validate_retention_cutoff cutoff now = raise_if (cutoff \<ge> now) Cutoff_Not_In_Past"

definition purgeable_job :: "timestamp \<Rightarrow> background_job \<Rightarrow> bool" where
  "purgeable_job cutoff j =
     (bj_status j \<in> {Job_Succeeded, Job_Failed, Job_Cancelled} \<and> bj_updated_at j < cutoff)"

definition purgeable_window :: "timestamp \<Rightarrow> quota_lease_row list \<Rightarrow> quota_window \<Rightarrow> bool" where
  "purgeable_window cutoff leases w =
     (qw_active_requests w = 0 \<and> qw_updated_at w < cutoff
      \<and> \<not> (\<exists>l \<in> set leases. ql_scope_key l = qw_scope_key w \<and> ql_expires_at l > cutoff))"

definition preview_operational_retention ::
  "timestamp \<Rightarrow> timestamp \<Rightarrow> retention_store \<Rightarrow> retention_error + operational_retention_report" where
  "preview_operational_retention cutoff now s =
     bind_result (validate_retention_cutoff cutoff now) (\<lambda>_.
       Inr \<lparr>or_cutoff = cutoff, or_background_jobs = row_count (purgeable_job cutoff) (rs_jobs s),
            or_quota_windows =
              row_count (purgeable_window cutoff (qs_leases (rs_quota s))) (qs_windows (rs_quota s)),
            or_run_id = None, or_actor_id = None, or_completed_at = None\<rparr>)"

text \<open>The deletion of the windows, with the cascade to their leases.\<close>

definition purge_windows :: "timestamp \<Rightarrow> quota_store \<Rightarrow> quota_store" where
  "purge_windows cutoff q =
     (let gone = filter (purgeable_window cutoff (qs_leases q)) (qs_windows q)
      in \<lparr>qs_windows = sql_delete (purgeable_window cutoff (qs_leases q)) (qs_windows q),
          qs_leases =
            sql_delete (\<lambda>l. ql_scope_key l \<in> set (map qw_scope_key gone)) (qs_leases q)\<rparr>)"

definition purge_operational_records ::
  "timestamp \<Rightarrow> string \<Rightarrow> timestamp \<Rightarrow> timestamp \<Rightarrow> string \<Rightarrow> retention_store \<Rightarrow>
   (retention_error + operational_retention_report) \<times> retention_store" where
  "purge_operational_records cutoff actor now completed_at run_id s =
     (case validate_retention_cutoff cutoff now of
        Inl e \<Rightarrow> (Inl e, s)
      | Inr _ \<Rightarrow>
          (let actor_id = strip actor
           in if actor_id = [] \<or> length actor_id > 200 then (Inl Retention_Actor_Invalid, s)
              else
                let jobs = row_count (purgeable_job cutoff) (rs_jobs s);
                    windows = row_count (purgeable_window cutoff (qs_leases (rs_quota s)))
                                (qs_windows (rs_quota s))
                in (Inr \<lparr>or_cutoff = cutoff, or_background_jobs = jobs, or_quota_windows = windows,
                         or_run_id = Some run_id, or_actor_id = Some actor_id,
                         or_completed_at = Some completed_at\<rparr>,
                    \<lparr>rs_jobs = sql_delete (purgeable_job cutoff) (rs_jobs s),
                     rs_quota = purge_windows cutoff (rs_quota s),
                     rs_runs = rs_runs s @ [\<lparr>rr_id = run_id, rr_cutoff = cutoff,
                       rr_background_jobs_deleted = jobs, rr_quota_windows_deleted = windows,
                       rr_actor_id = actor_id, rr_completed_at = completed_at\<rparr>]\<rparr>)))"

text \<open>The command line: a purge needs the cutoff twice.\<close>

datatype retention_command = Preview_Command | Apply_Command

definition retention_main ::
  "retention_command \<Rightarrow> timestamp \<Rightarrow> timestamp option \<Rightarrow> string \<Rightarrow> timestamp \<Rightarrow> timestamp \<Rightarrow> string \<Rightarrow>
   retention_store \<Rightarrow> (retention_error + operational_retention_report \<times> bool) \<times> retention_store" where
  "retention_main command before confirm_before actor now completed_at run_id s =
     (if command = Apply_Command \<and> confirm_before \<noteq> Some before then (Inl Cutoff_Not_Confirmed, s)
      else case command of
        Preview_Command \<Rightarrow>
          (bind_result (preview_operational_retention before now s) (\<lambda>r. Inr (r, False)), s)
      | Apply_Command \<Rightarrow>
          (case purge_operational_records before actor now completed_at run_id s of
             (Inl e, s') \<Rightarrow> (Inl e, s')
           | (Inr r, s') \<Rightarrow> (Inr (r, True), s')))"

section \<open>What a purge removes\<close>

lemma length_sql_delete: "length (sql_delete P rows) = length rows - row_count P rows"
  using row_count_delete[of P rows] by linarith

text \<open>
  A purge removes no active job, no record touched since the cutoff, and no lease that
  still runs; it removes exactly as many jobs and windows as it reports, which is what the
  preview announced, and records itself.  Every job the purge keeps is unchanged.
\<close>

theorem purge_removes_only_what_preview_counts:
  assumes "purge_operational_records cutoff actor now completed run_id s = (Inr r, s')"
  shows "preview_operational_retention cutoff now s
       = Inr (r\<lparr>or_run_id := None, or_actor_id := None, or_completed_at := None\<rparr>)
    \<and> length (rs_jobs s') + or_background_jobs r = length (rs_jobs s)
    \<and> length (qs_windows (rs_quota s')) + or_quota_windows r = length (qs_windows (rs_quota s))
    \<and> length (rs_runs s') = Suc (length (rs_runs s))
    \<and> (\<forall>j \<in> set (rs_jobs s). active_job j \<or> cutoff \<le> bj_updated_at j \<longleftrightarrow> j \<in> set (rs_jobs s'))
    \<and> (\<forall>l \<in> set (qs_leases (rs_quota s)). now \<le> ql_expires_at l \<longrightarrow> l \<in> set (qs_leases (rs_quota s')))"
proof -
  have v: "cutoff < now" "strip actor \<noteq> []" "length (strip actor) \<le> 200"
    using assms by (auto simp: purge_operational_records_def validate_retention_cutoff_def raise_if_def
        Let_def split: if_splits)
  then have r: "r = \<lparr>or_cutoff = cutoff, or_background_jobs = row_count (purgeable_job cutoff) (rs_jobs s),
      or_quota_windows = row_count (purgeable_window cutoff (qs_leases (rs_quota s))) (qs_windows (rs_quota s)),
      or_run_id = Some run_id, or_actor_id = Some (strip actor), or_completed_at = Some completed\<rparr>"
    and s': "rs_jobs s' = sql_delete (purgeable_job cutoff) (rs_jobs s)"
      "rs_quota s' = purge_windows cutoff (rs_quota s)" "length (rs_runs s') = Suc (length (rs_runs s))"
    using assms by (auto simp: purge_operational_records_def validate_retention_cutoff_def raise_if_def Let_def)
  have jobs: "active_job j \<or> cutoff \<le> bj_updated_at j \<longleftrightarrow> \<not> purgeable_job cutoff j" for j
    by (cases "bj_status j") (auto simp: active_job_def purgeable_job_def)
  have keep: "l \<in> set (qs_leases (rs_quota s'))"
    if l: "l \<in> set (qs_leases (rs_quota s))" "now \<le> ql_expires_at l" for l
    using l v(1) by (force simp: s' purge_windows_def purgeable_window_def Let_def)
  show ?thesis
    using v jobs keep row_count_delete[of "purgeable_job cutoff" "rs_jobs s"]
      row_count_delete[of "purgeable_window cutoff (qs_leases (rs_quota s))" "qs_windows (rs_quota s)"]
    by (simp add: r s' preview_operational_retention_def validate_retention_cutoff_def raise_if_def
        purge_windows_def Let_def)
qed

definition sample_retention_store :: retention_store where
  "sample_retention_store =
     \<lparr>rs_jobs = [sample_job\<lparr>bj_status := Job_Failed, bj_attempt_count := 3\<rparr>, sample_job\<lparr>bj_id := ''j2''\<rparr>],
      rs_quota = sample_quota_store, rs_runs = []\<rparr>"

definition sample_purge :: "(retention_error + operational_retention_report) \<times> retention_store" where
  "sample_purge = purge_operational_records 50 '' ops '' 100 101 ''run'' sample_retention_store"

lemma purge_removes_only_what_preview_counts_witness:
  "\<exists>r. fst sample_purge = Inr r \<and> or_background_jobs r = 1 \<and> or_quota_windows r = 1
     \<and> length (rs_jobs (snd sample_purge)) + or_background_jobs r = 2"
proof -
  have ok: "is_ok (fst sample_purge)" by code_simp
  have n: "or_background_jobs (projr (fst sample_purge)) = 1"
    "or_quota_windows (projr (fst sample_purge)) = 1" "length (rs_jobs sample_retention_store) = 2"
    by code_simp+
  have "purge_operational_records 50 '' ops '' 100 101 ''run'' sample_retention_store
      = (Inr (projr (fst sample_purge)), snd sample_purge)"
    using is_ok_projr[OF ok] by (simp add: sample_purge_def prod_eq_iff)
  from purge_removes_only_what_preview_counts[OF this] show ?thesis
    using n is_ok_projr[OF ok] by auto
qed

lemma jobs_ok_purge: "jobs_ok rows \<Longrightarrow> jobs_ok (sql_delete P rows)"
  by (auto simp: jobs_ok_def intro: unique_key_delete)

lemma lease_count_purge: "lease_count k (qs_leases (purge_windows c q)) \<le> lease_count k (qs_leases q)"
  by (simp add: purge_windows_def Let_def lease_count_delete_le)

end
