(* ===== verification/Egress_Policy.thy ===== *)
theory Egress_Policy
  imports Contracts Sql_Tables
begin

text \<open>
  Who may send what to a language model: \<open>ProviderEgressPolicy\<close> of the domain model, its table
  in the catalog repository, and the policy engines of
  \<open>packages/llm_gateway/sqlverity_llm_gateway/policy.py\<close>.  The locale \<open>prompt_policy\<close> states
  what the LLM gateway relies on; both engines interpret it.
\<close>

section \<open>Policies\<close>

datatype provider_retention_mode = Zero_Retention | Temporary | Provider_Default | Local_Runtime

fun retention_value :: "provider_retention_mode \<Rightarrow> string" where
  "retention_value Zero_Retention = ''zero''"
| "retention_value Temporary = ''temporary''"
| "retention_value Provider_Default = ''provider_default''"
| "retention_value Local_Runtime = ''local_runtime''"

record provider_egress_policy =
  ep_tenant_id :: string
  ep_provider_id :: string
  ep_allowed_purposes :: "string list"
  ep_maximum_classification :: classification
  ep_data_residency :: string
  ep_retention_mode :: provider_retention_mode
  ep_data_source_id :: "string option"
  ep_allowed :: bool
  ep_acknowledgement_digest :: "string option"
  ep_acknowledged_by :: "string option"
  ep_acknowledged_at :: "timestamp option"
  ep_id :: string
  ep_updated_at :: timestamp

datatype egress_error =
    Policy_Needs_Tenant_And_Provider | Policy_Source_Blank | Policy_Purposes_Unsafe
  | Policy_Purposes_Duplicate | Policy_Residency_Invalid | Acknowledgement_Not_Atomic
  | Acknowledgement_Not_Sha256 | Acknowledgement_Actor_Blank
  | Policy_Tenant_Missing | Policy_Source_Not_In_Tenant | Policy_Integrity

text \<open>The regular expressions \<open>[a-z][a-z0-9_]{0,99}\<close> and \<open>[a-z0-9][a-z0-9_-]{0,99}\<close>.\<close>

definition lower_char :: "char \<Rightarrow> bool" where
  "lower_char c = (97 \<le> code_point c \<and> code_point c \<le> 122)"

definition safe_purpose :: "string \<Rightarrow> bool" where
  "safe_purpose v =
     (v \<noteq> [] \<and> lower_char (hd v) \<and> length v \<le> 100
      \<and> (\<forall>c \<in> set (tl v). lower_char c \<or> py_isdigit_ascii c \<or> c = CHR ''_''))"

definition safe_residency :: "string \<Rightarrow> bool" where
  "safe_residency v =
     (v \<noteq> [] \<and> (lower_char (hd v) \<or> py_isdigit_ascii (hd v)) \<and> length v \<le> 100
      \<and> (\<forall>c \<in> set (tl v). lower_char c \<or> py_isdigit_ascii c \<or> c = CHR ''_'' \<or> c = CHR ''-''))"

definition provider_egress_policy_post_init :: "provider_egress_policy \<Rightarrow> egress_error + unit" where
  "provider_egress_policy_post_init p =
     (let some_missing = (ep_acknowledgement_digest p = None \<or> ep_acknowledged_by p = None
                          \<or> ep_acknowledged_at p = None);
          some_present = (ep_acknowledgement_digest p \<noteq> None \<or> ep_acknowledged_by p \<noteq> None
                          \<or> ep_acknowledged_at p \<noteq> None)
      in first_raise
           [(blank (ep_tenant_id p) \<or> blank (ep_provider_id p), Policy_Needs_Tenant_And_Provider),
            (\<exists>d \<in> set_option (ep_data_source_id p). blank d, Policy_Source_Blank),
            (ep_allowed_purposes p = [] \<or> (\<exists>u \<in> set (ep_allowed_purposes p). \<not> safe_purpose u),
               Policy_Purposes_Unsafe),
            (has_duplicates (ep_allowed_purposes p), Policy_Purposes_Duplicate),
            (\<not> safe_residency (ep_data_residency p), Policy_Residency_Invalid),
            (some_missing \<and> some_present, Acknowledgement_Not_Atomic),
            (\<exists>d \<in> set_option (ep_acknowledgement_digest p). \<not> sha256_digest d, Acknowledgement_Not_Sha256),
            (\<exists>a \<in> set_option (ep_acknowledged_by p). blank a, Acknowledgement_Actor_Blank)])"

definition review_required :: "provider_egress_policy \<Rightarrow> bool" where
  "review_required p = (ep_allowed p \<and> ep_acknowledgement_digest p = None)"

section \<open>The policy table\<close>

record egress_audit =
  ea_tenant_id :: string
  ea_policy_id :: string
  ea_details :: metadata

record egress_store =
  es_tenants :: "string list"
  es_data_sources :: "(string \<times> string) list"
  es_policies :: "provider_egress_policy list"
  es_audit :: "egress_audit list"

definition same_policy_key :: "provider_egress_policy \<Rightarrow> provider_egress_policy \<Rightarrow> bool" where
  "same_policy_key p x =
     (ep_tenant_id x = ep_tenant_id p \<and> ep_provider_id x = ep_provider_id p
      \<and> ep_data_source_id x = ep_data_source_id p)"

text \<open>\<open>ON CONFLICT ... DO UPDATE\<close> keeps the identifier of the existing row.\<close>

definition overwrite_policy :: "provider_egress_policy \<Rightarrow> provider_egress_policy \<Rightarrow> provider_egress_policy" where
  "overwrite_policy p x =
     x\<lparr>ep_allowed := ep_allowed p, ep_maximum_classification := ep_maximum_classification p,
       ep_allowed_purposes := ep_allowed_purposes p, ep_data_residency := ep_data_residency p,
       ep_retention_mode := ep_retention_mode p,
       ep_acknowledgement_digest := ep_acknowledgement_digest p,
       ep_acknowledged_by := ep_acknowledged_by p, ep_acknowledged_at := ep_acknowledged_at p,
       ep_updated_at := ep_updated_at p\<rparr>"

definition policy_audit :: "provider_egress_policy \<Rightarrow> egress_audit" where
  "policy_audit p =
     \<lparr>ea_tenant_id = ep_tenant_id p, ea_policy_id = ep_id p,
      ea_details =
        [(''provider_id'', Meta_Text (ep_provider_id p)),
         (''data_source_id'', case ep_data_source_id p of None \<Rightarrow> Meta_None | Some d \<Rightarrow> Meta_Text d),
         (''allowed'', Meta_Bool (ep_allowed p)),
         (''maximum_classification'', Meta_Text (classification_value (ep_maximum_classification p))),
         (''allowed_purposes'', Meta_Texts (ep_allowed_purposes p)),
         (''data_residency'', Meta_Text (ep_data_residency p)),
         (''retention_mode'', Meta_Text (retention_value (ep_retention_mode p))),
         (''acknowledged'', Meta_Bool (ep_acknowledgement_digest p \<noteq> None)),
         (''acknowledged_by'', case ep_acknowledged_by p of None \<Rightarrow> Meta_None | Some a \<Rightarrow> Meta_Text a)]\<rparr>"

definition upsert_provider_egress_policy ::
  "provider_egress_policy \<Rightarrow> egress_store \<Rightarrow> (egress_error + provider_egress_policy) \<times> egress_store" where
  "upsert_provider_egress_policy p s =
     (if ep_tenant_id p \<notin> set (es_tenants s) then (Inl Policy_Tenant_Missing, s)
      else if \<exists>d \<in> set_option (ep_data_source_id p). (ep_tenant_id p, d) \<notin> set (es_data_sources s)
      then (Inl Policy_Source_Not_In_Tenant, s)
      else if fetch_one (same_policy_key p) (es_policies s) = None \<and> ep_id p \<in> ep_id ` set (es_policies s)
      then (Inl Policy_Integrity, s)
      else
        let stored = (case fetch_one (same_policy_key p) (es_policies s) of
                        None \<Rightarrow> p | Some x \<Rightarrow> overwrite_policy p x);
            rows = (case fetch_one (same_policy_key p) (es_policies s) of
                      None \<Rightarrow> es_policies s @ [p]
                    | Some x \<Rightarrow> sql_update (same_policy_key p) (overwrite_policy p) (es_policies s))
        in (Inr stored, s\<lparr>es_policies := rows, es_audit := es_audit s @ [policy_audit stored]\<rparr>))"

text \<open>The policy of the data source, if there is one, goes before the tenant's.\<close>

definition get_effective_provider_egress_policy ::
  "egress_store \<Rightarrow> string \<Rightarrow> string \<Rightarrow> string option \<Rightarrow> provider_egress_policy option" where
  "get_effective_provider_egress_policy s tenant provider source =
     (case source of
        None \<Rightarrow> fetch_one (\<lambda>p. ep_tenant_id p = tenant \<and> ep_provider_id p = provider
                             \<and> ep_data_source_id p = None) (es_policies s)
      | Some d \<Rightarrow> first_by (\<lambda>p. if ep_data_source_id p = Some d then 0 else (1::nat))
                    (\<lambda>p. ep_tenant_id p = tenant \<and> ep_provider_id p = provider
                         \<and> (ep_data_source_id p = Some d \<or> ep_data_source_id p = None))
                    (es_policies s))"

text \<open>\<open>ORDER BY provider_id, data_source_id, id\<close>, where SQLite puts \<open>NULL\<close> first.\<close>

definition list_provider_egress_policies ::
  "string \<Rightarrow> egress_store \<Rightarrow> egress_error + provider_egress_policy list" where
  "list_provider_egress_policies tenant s =
     (if tenant \<notin> set (es_tenants s) then Inl Policy_Tenant_Missing
      else Inr (sort_key
             (\<lambda>p. (ep_provider_id p,
                  case ep_data_source_id p of None \<Rightarrow> (0::nat, []) | Some d \<Rightarrow> (1, d), ep_id p))
             (filter (\<lambda>p. ep_tenant_id p = tenant) (es_policies s))))"

section \<open>The policy engines\<close>

text \<open>
  A manifest entry: a key that is missing or whose value is no string is \<open>None\<close>.
\<close>

record manifest_entry =
  me_id :: "string option"
  me_kind :: "string option"
  me_classification :: "string option"
  me_fields :: "string list"

definition denied :: "string \<Rightarrow> classification \<Rightarrow> metadata \<Rightarrow> policy_decision" where
  "denied reason maximum m =
     \<lparr>pd_allowed = False, pd_reasons = [reason], pd_redacted_fields = [],
      pd_maximum_classification = maximum, pd_metadata = m\<rparr>"

definition decision_code :: "string \<Rightarrow> metadata" where
  "decision_code c = [(''decision_code'', Meta_Text c)]"

record metadata_engine =
  en_allowed_provider_ids :: "string list"
  en_maximum_classification :: classification
  en_allowed_content_kinds :: "string list"

definition schema_metadata_kinds :: "string list" where
  "schema_metadata_kinds = [''schema_object'', ''schema_column'', ''schema_relationship'']"

text \<open>The loop over the manifest: the identifiers to redact, or the refusal it returns.\<close>

fun scan_manifest ::
  "string list \<Rightarrow> classification \<Rightarrow> manifest_entry list \<Rightarrow> policy_decision + string list" where
  "scan_manifest kinds maximum [] = Inr []"
| "scan_manifest kinds maximum (e # es) =
     (case me_id e of
        None \<Rightarrow> Inl (denied ''Manifest item has no id'' INTERNAL (decision_code ''invalid_manifest''))
      | Some i \<Rightarrow>
          if blank i
          then Inl (denied ''Manifest item has no id'' INTERNAL (decision_code ''invalid_manifest''))
          else if \<not> (\<exists>k \<in> set_option (me_kind e). k \<in> set kinds)
          then Inl (denied (''Content kind '' @ (case me_kind e of None \<Rightarrow> ''None'' | Some k \<Rightarrow> k)
                              @ '' is not schema metadata'')
                      maximum (decision_code ''invalid_content_kind''))
          else (case Option.bind (me_classification e) parse_classification of
                  None \<Rightarrow> Inl (denied (''Manifest item '' @ i @ '' has invalid classification'') maximum
                                (decision_code ''invalid_manifest''))
                | Some c \<Rightarrow>
                    bind_result (scan_manifest kinds maximum es)
                      (\<lambda>ids. Inr (if classification_rank c > classification_rank maximum then i # ids else ids))))"

definition evaluate_prompt_manifest ::
  "metadata_engine \<Rightarrow> string \<Rightarrow> string \<Rightarrow> manifest_entry list \<Rightarrow> classification \<Rightarrow> metadata \<Rightarrow> policy_decision"
  where
  "evaluate_prompt_manifest en tenant provider manifest maximum m =
     (if blank tenant
      then denied ''Tenant boundary is required'' INTERNAL (decision_code ''invalid_tenant_boundary'')
      else if en_allowed_provider_ids en \<noteq> [] \<and> provider \<notin> set (en_allowed_provider_ids en)
      then denied (''Provider '' @ provider @ '' is not allowed for prompt egress'') maximum
             (decision_code ''denied_provider'')
      else case scan_manifest (en_allowed_content_kinds en) maximum manifest of
        Inl d \<Rightarrow> d
      | Inr redacted \<Rightarrow>
          \<lparr>pd_allowed = True,
           pd_reasons = [if redacted \<noteq> [] then ''Sensitive prompt content was redacted''
                         else ''Prompt content is allowed''],
           pd_redacted_fields = redacted, pd_maximum_classification = maximum,
           pd_metadata =
             meta_update
               [(''decision_code'', Meta_Text ''allowed''),
                (''content_mode'', Meta_Text ''classified_items_only'')] m\<rparr>)"

definition metadata_prompt_egress ::
  "metadata_engine \<Rightarrow> string \<Rightarrow> string \<Rightarrow> manifest_entry list \<Rightarrow> string option \<Rightarrow> string option \<Rightarrow> policy_decision"
  where
  "metadata_prompt_egress en tenant provider manifest source purpose =
     evaluate_prompt_manifest en tenant provider manifest (en_maximum_classification en) []"

definition metadata_sql_access :: "metadata_engine \<Rightarrow> string \<Rightarrow> string \<Rightarrow> string list \<Rightarrow> string list \<Rightarrow> policy_decision"
  where
  "metadata_sql_access en tenant source tables columns =
     denied ''SQL access policy is not configured in this implementation slice'' INTERNAL []"

text \<open>
  The schema-question engine looks the tenant's policy up when it has a repository, whose
  answer is \<open>qe_lookup\<close>, and compares it with what is known of the provider's deployment.
\<close>

record schema_question_engine =
  qe_base :: metadata_engine
  qe_lookup :: "(string \<Rightarrow> string \<Rightarrow> string option \<Rightarrow> provider_egress_policy option) option"
  qe_provider_metadata :: "(string \<times> metadata) list"
  qe_require_explicit :: bool

definition schema_question_engine_init ::
  "string list \<Rightarrow> classification \<Rightarrow>
   (string \<Rightarrow> string \<Rightarrow> string option \<Rightarrow> provider_egress_policy option) option \<Rightarrow>
   (string \<times> metadata) list \<Rightarrow> bool \<Rightarrow> schema_question_engine" where
  "schema_question_engine_init providers maximum lookup deployments explicit =
     \<lparr>qe_base =
        \<lparr>en_allowed_provider_ids = providers, en_maximum_classification = maximum,
         en_allowed_content_kinds =
           schema_metadata_kinds @
           [''business_concept'', ''business_rule'', ''corrected_sql_example'',
            ''correction_constraint'', ''correction_column_candidate'',
            ''correction_table_candidate'', ''current_intent_entity'', ''generation_constraint'',
            ''metric_definition'', ''user_intent_correction'', ''user_question'']\<rparr>,
      qe_lookup = lookup, qe_provider_metadata = deployments, qe_require_explicit = explicit\<rparr>"

definition deployment_of :: "schema_question_engine \<Rightarrow> string \<Rightarrow> metadata" where
  "deployment_of en provider =
     (case map_of (rev (qe_provider_metadata en)) provider of None \<Rightarrow> [] | Some m \<Rightarrow> m)"

definition policy_metadata :: "provider_egress_policy \<Rightarrow> string \<Rightarrow> metadata \<Rightarrow> metadata" where
  "policy_metadata p code deployment =
     [(''decision_code'', Meta_Text code), (''provider_policy_id'', Meta_Text (ep_id p)),
      (''provider_policy_scope'',
         Meta_Text (if ep_data_source_id p \<noteq> None then ''data_source'' else ''tenant'')),
      (''provider_policy_updated_at'', Meta_Time (ep_updated_at p)),
      (''policy_allowed'', Meta_Bool (ep_allowed p)),
      (''data_residency'', Meta_Text (ep_data_residency p)),
      (''retention_mode'', Meta_Text (retention_value (ep_retention_mode p))),
      (''allowed_purposes'', Meta_Texts (ep_allowed_purposes p)),
      (''acknowledgement_digest'',
         case ep_acknowledgement_digest p of None \<Rightarrow> Meta_None | Some d \<Rightarrow> Meta_Text d),
      (''deployment_data_residency'', meta_get ''data_residency'' deployment),
      (''deployment_retention_mode'', meta_get ''retention_mode'' deployment),
      (''deployment_type'', meta_get ''deployment_type'' deployment),
      (''model_id'', meta_get ''model_id'' deployment)]"

definition missing_policy :: "metadata \<Rightarrow> policy_decision" where
  "missing_policy deployment =
     denied ''Explicit tenant provider policy is required'' INTERNAL
       [(''decision_code'', Meta_Text ''missing_policy''),
        (''provider_policy_scope'', Meta_Text ''none''),
        (''deployment_data_residency'', meta_get ''data_residency'' deployment),
        (''deployment_retention_mode'', meta_get ''retention_mode'' deployment),
        (''deployment_type'', meta_get ''deployment_type'' deployment),
        (''deployment_model_id'', meta_get ''model_id'' deployment)]"

definition question_prompt_egress ::
  "schema_question_engine \<Rightarrow> string \<Rightarrow> string \<Rightarrow> manifest_entry list \<Rightarrow> string option \<Rightarrow> string option \<Rightarrow>
   policy_decision" where
  "question_prompt_egress en tenant provider manifest source purpose =
     (let deployment = deployment_of en provider
      in case (case qe_lookup en of None \<Rightarrow> None | Some lookup \<Rightarrow> lookup tenant provider source) of
           None \<Rightarrow>
             if qe_require_explicit en then missing_policy deployment
             else metadata_prompt_egress (qe_base en) tenant provider manifest source purpose
         | Some p \<Rightarrow>
             let maximum = ep_maximum_classification p
             in if \<not> ep_allowed p
                then denied (''Provider '' @ provider @ '' is denied by tenant policy'') maximum
                       (policy_metadata p ''denied_provider'' deployment)
                else if \<not> (\<exists>u \<in> set_option purpose. u \<in> set (ep_allowed_purposes p))
                then denied (''Purpose '' @ (case purpose of None \<Rightarrow> ''unknown''
                                                     | Some u \<Rightarrow> if u = [] then ''unknown'' else u)
                               @ '' is denied by tenant policy'') maximum
                       (policy_metadata p ''denied_purpose'' deployment)
                else if meta_get ''data_residency'' deployment \<noteq> Meta_Text (ep_data_residency p)
                then denied ''Provider data residency does not satisfy tenant policy'' maximum
                       (policy_metadata p ''residency_mismatch'' deployment)
                else if meta_get ''retention_mode'' deployment \<noteq> Meta_Text (retention_value (ep_retention_mode p))
                then denied ''Provider retention mode does not satisfy tenant policy'' maximum
                       (policy_metadata p ''retention_mismatch'' deployment)
                else evaluate_prompt_manifest (qe_base en) tenant provider manifest maximum
                       (policy_metadata p ''allowed'' deployment))"

definition question_sql_access :: "string \<Rightarrow> string \<Rightarrow> string list \<Rightarrow> string list \<Rightarrow> policy_decision" where
  "question_sql_access tenant source tables columns =
     (if blank tenant \<or> blank source
      then denied ''Tenant and DataSource boundaries are required'' INTERNAL []
      else if tables = [] \<or> (\<exists>t \<in> set tables. blank t)
      then denied ''Validated SQL must reference at least one governed table'' INTERNAL []
      else if \<exists>c \<in> set columns. blank c \<or> rsplit_first c \<notin> set tables
      then denied ''SQL columns must belong to the validated table set'' INTERNAL []
      else \<lparr>pd_allowed = True,
            pd_reasons = [''Validated non-redacted schema references are allowed''],
            pd_redacted_fields = [], pd_maximum_classification = INTERNAL,
            pd_metadata = [(''access_mode'', Meta_Text ''validated_context_only'')]\<rparr>)"

section \<open>The contract of a prompt policy\<close>

text \<open>
  What a client may conclude from a decision that allows a prompt: every item of the
  manifest has an identifier, a kind and a readable classification, and an item above the
  maximum the decision names is among the redacted ones.
\<close>

definition entry_covered :: "policy_decision \<Rightarrow> manifest_entry \<Rightarrow> bool" where
  "entry_covered d e =
     (\<exists>i k v c. me_id e = Some i \<and> me_kind e = Some k \<and> me_classification e = Some v
        \<and> parse_classification v = Some c
        \<and> (c \<le> pd_maximum_classification d \<or> i \<in> set (pd_redacted_fields d)))"

locale prompt_policy =
  fixes evaluate :: "string \<Rightarrow> string \<Rightarrow> manifest_entry list \<Rightarrow> string option \<Rightarrow> string option \<Rightarrow> policy_decision"
  assumes covers: "pd_allowed (evaluate t p m s u) \<Longrightarrow> e \<in> set m \<Longrightarrow> entry_covered (evaluate t p m s u) e"
    and redacts_known: "pd_allowed (evaluate t p m s u) \<Longrightarrow>
      set (pd_redacted_fields (evaluate t p m s u)) \<subseteq> {i. \<exists>e \<in> set m. me_id e = Some i}"
    and bounded: "\<not> blank t \<or> \<not> pd_allowed (evaluate t p m s u)"
begin

lemma visible_entries_bounded:
  assumes "pd_allowed (evaluate t p m s u)" "e \<in> set m" "me_id e = Some i"
    "i \<notin> set (pd_redacted_fields (evaluate t p m s u))" "me_classification e = Some (classification_value c)"
  shows "c \<le> pd_maximum_classification (evaluate t p m s u)"
  using covers[OF assms(1,2)] assms(3-5) by (auto simp: entry_covered_def)

end

lemma scan_manifest_covers:
  "scan_manifest kinds maximum m = Inr ids \<Longrightarrow> e \<in> set m \<Longrightarrow>
     \<exists>i k v c. me_id e = Some i \<and> me_kind e = Some k \<and> k \<in> set kinds \<and> me_classification e = Some v
       \<and> parse_classification v = Some c \<and> (c \<le> maximum \<or> i \<in> set ids)"
proof (induction m arbitrary: ids)
  case (Cons x m)
  from Cons.prems(1) obtain i k v c ids' where x: "me_id x = Some i" "me_kind x = Some k" "k \<in> set kinds"
    "me_classification x = Some v" "parse_classification v = Some c" "scan_manifest kinds maximum m = Inr ids'"
    "ids = (if classification_rank c > classification_rank maximum then i # ids' else ids')"
    by (auto simp: bind_result_Inr_iff split: option.splits if_splits) (auto simp: bind_eq_Some_conv)
  show ?case
  proof (cases "e = x")
    case True
    then show ?thesis using x by (auto simp: classification_le_iff)
  next
    case False
    then have "e \<in> set m" using Cons.prems(2) by simp
    from Cons.IH[OF x(6) this] show ?thesis using x(7) by auto
  qed
qed simp

lemma scan_manifest_known:
  "scan_manifest kinds maximum m = Inr ids \<Longrightarrow> set ids \<subseteq> {i. \<exists>e \<in> set m. me_id e = Some i}"
  by (induction m arbitrary: ids)
    (fastforce simp: bind_result_Inr_iff split: option.splits if_splits)+

lemma scan_manifest_denied: "scan_manifest kinds maximum m = Inl d \<Longrightarrow> \<not> pd_allowed d"
  by (induction m arbitrary: d) (auto simp: denied_def bind_result_def split: option.splits if_splits sum.splits)

lemma evaluate_allowed:
  assumes "pd_allowed (evaluate_prompt_manifest en t p m maximum md)"
  obtains ids where "\<not> blank t" "scan_manifest (en_allowed_content_kinds en) maximum m = Inr ids"
    "pd_redacted_fields (evaluate_prompt_manifest en t p m maximum md) = ids"
    "pd_maximum_classification (evaluate_prompt_manifest en t p m maximum md) = maximum"
    "en_allowed_provider_ids en = [] \<or> p \<in> set (en_allowed_provider_ids en)"
  using assms scan_manifest_denied
  by (cases "scan_manifest (en_allowed_content_kinds en) maximum m")
    (auto simp: evaluate_prompt_manifest_def denied_def split: if_splits)

lemma evaluate_covers:
  assumes "pd_allowed (evaluate_prompt_manifest en t p m maximum md)"
  shows "e \<in> set m \<Longrightarrow> entry_covered (evaluate_prompt_manifest en t p m maximum md) e"
    and "set (pd_redacted_fields (evaluate_prompt_manifest en t p m maximum md)) \<subseteq> {i. \<exists>e \<in> set m. me_id e = Some i}"
    and "\<not> blank t"
proof -
  obtain ids where ids: "\<not> blank t" "scan_manifest (en_allowed_content_kinds en) maximum m = Inr ids"
    "pd_redacted_fields (evaluate_prompt_manifest en t p m maximum md) = ids"
    "pd_maximum_classification (evaluate_prompt_manifest en t p m maximum md) = maximum"
    by (rule evaluate_allowed[OF assms]) blast
  show "e \<in> set m \<Longrightarrow> entry_covered (evaluate_prompt_manifest en t p m maximum md) e"
    using scan_manifest_covers[OF ids(2), of e] by (auto simp: entry_covered_def ids(3,4))
  show "set (pd_redacted_fields (evaluate_prompt_manifest en t p m maximum md)) \<subseteq> {i. \<exists>e \<in> set m. me_id e = Some i}"
    using scan_manifest_known[OF ids(2)] by (simp add: ids(3))
  show "\<not> blank t" by (rule ids(1))
qed

interpretation metadata_policy: prompt_policy "metadata_prompt_egress en"
  by unfold_locales (use evaluate_covers in \<open>unfold metadata_prompt_egress_def, blast+\<close>)

text \<open>The cases in which the schema-question engine allows a prompt.\<close>

lemma question_allowed:
  assumes "pd_allowed (question_prompt_egress en t p m s u)"
  obtains (default) "qe_lookup en = None \<or> (\<exists>f. qe_lookup en = Some f \<and> f t p s = None)"
      "\<not> qe_require_explicit en" "question_prompt_egress en t p m s u = metadata_prompt_egress (qe_base en) t p m s u"
  | (policy) f pol where "qe_lookup en = Some f" "f t p s = Some pol" "ep_allowed pol"
      "\<exists>v. u = Some v \<and> v \<in> set (ep_allowed_purposes pol)"
      "meta_get ''data_residency'' (deployment_of en p) = Meta_Text (ep_data_residency pol)"
      "meta_get ''retention_mode'' (deployment_of en p) = Meta_Text (retention_value (ep_retention_mode pol))"
      "question_prompt_egress en t p m s u = evaluate_prompt_manifest (qe_base en) t p m
         (ep_maximum_classification pol) (policy_metadata pol ''allowed'' (deployment_of en p))"
proof (cases "case qe_lookup en of None \<Rightarrow> None | Some f \<Rightarrow> f t p s")
  case None
  then have "\<not> qe_require_explicit en"
    using assms by (auto simp: question_prompt_egress_def missing_policy_def denied_def Let_def split: if_splits)
  then show ?thesis using None default by (auto simp: question_prompt_egress_def Let_def split: option.splits)
next
  case (Some pol)
  then obtain f where f: "qe_lookup en = Some f" "f t p s = Some pol" by (auto split: option.splits)
  then show ?thesis
    using assms policy[OF f]
    by (auto simp: question_prompt_egress_def denied_def Let_def split: if_splits option.splits)
qed

interpretation question_policy: prompt_policy "question_prompt_egress en"
proof
  fix t p m s u e
  assume a: "pd_allowed (question_prompt_egress en t p m s u)"
  show "entry_covered (question_prompt_egress en t p m s u) e" if "e \<in> set m"
    by (rule question_allowed[OF a]) (use a that evaluate_covers(1) metadata_policy.covers in auto)
  show "set (pd_redacted_fields (question_prompt_egress en t p m s u)) \<subseteq> {i. \<exists>e \<in> set m. me_id e = Some i}"
    by (rule question_allowed[OF a]) (use a evaluate_covers(2) metadata_policy.redacts_known in auto)
next
  fix t p m s u
  show "\<not> blank t \<or> \<not> pd_allowed (question_prompt_egress en t p m s u)"
    using evaluate_covers(3) metadata_policy.bounded by (metis question_allowed)
qed

end
