(* ===== verification/Calendar.thy ===== *)
theory Calendar
  imports Prelude
begin

text \<open>
  The proleptic Gregorian calendar of Python's \<open>datetime\<close>, as far as \<open>month_bounds\<close> of
  \<open>packages/domain/sqlverity_domain/budget.py\<close> needs it: the first instants of the month of a
  UTC timestamp and of the next month.  Days are counted from 2000-01-01, day 10957 of the
  epoch, which starts a cycle of 400 years and 146097 days.
\<close>

definition leap_year :: "nat \<Rightarrow> bool" where
  "leap_year y = ((y mod 4 = 0 \<and> y mod 100 \<noteq> 0) \<or> y mod 400 = 0)"

text \<open>The days before year \<open>y\<close> of a cycle and before month \<open>m\<close> (from 0) of a year.\<close>

definition year_start :: "nat \<Rightarrow> int" where
  "year_start y = int (365 * y + (y + 3) div 4 + (y + 399) div 400) - int ((y + 99) div 100)"

lemma next_div: "0 < n \<Longrightarrow> (Suc y + (n - 1)) div n = (y + (n - 1)) div n + (if y mod n = 0 then 1 else 0)"
proof -
  assume n: "0 < n"
  obtain q r where y: "y = q * n + r" "r < n" by (metis n div_mult_mod_eq mod_less_divisor)
  have m: "y mod n = r" using y by simp
  have a: "Suc y + (n - 1) = (q + 1) * n + r" using y n by simp
  have e: "(Suc y + (n - 1)) div n = q + 1"
    unfolding a using n y(2) div_mult_self3[of n "q + 1" r] by simp
  show ?thesis
  proof (cases "r = 0")
    case True
    have "(q * n + (n - 1)) div n = q + (n - 1) div n" using n by (intro div_mult_self3) simp
    then have "(y + (n - 1)) div n = q" using y(1) True n by simp
    then show ?thesis unfolding e using m True by simp
  next
    case False
    have "((q + 1) * n + (r - 1)) div n = (q + 1) + (r - 1) div n" using n by (intro div_mult_self3) simp
    moreover have "y + (n - 1) = (q + 1) * n + (r - 1)" using y n False by simp
    ultimately have "(y + (n - 1)) div n = q + 1" using y(2) by (metis add_0_right div_less less_imp_diff_less)
    then show ?thesis unfolding e using m False by simp
  qed
qed

lemma year_start_0 [simp]: "year_start 0 = 0"
  by (simp add: year_start_def)

lemma year_start_Suc: "year_start (Suc y) = year_start y + (if leap_year y then 366 else 365)"
proof -
  have d4: "(Suc y + 3) div 4 = (y + 3) div 4 + (if y mod 4 = 0 then 1 else 0)"
    using next_div[of 4 y] by simp
  have d100: "(Suc y + 99) div 100 = (y + 99) div 100 + (if y mod 100 = 0 then 1 else 0)"
    using next_div[of 100 y] by simp
  have d400: "(Suc y + 399) div 400 = (y + 399) div 400 + (if y mod 400 = 0 then 1 else 0)"
    using next_div[of 400 y] by simp
  have m100: "y mod 400 = 0 \<Longrightarrow> y mod 100 = 0" "y mod 100 = 0 \<Longrightarrow> y mod 4 = 0"
    using mod_mod_cancel[of 100 400 y] mod_mod_cancel[of 4 100 y] by simp_all
  show ?thesis
    unfolding year_start_def d4 d100 d400 using m100 by (auto simp: leap_year_def)
qed

definition month_length :: "bool \<Rightarrow> nat \<Rightarrow> int" where
  "month_length leap m = [31, if leap then 29 else 28, 31, 30, 31, 30, 31, 31, 30, 31, 30, 31] ! m"

fun month_start :: "bool \<Rightarrow> nat \<Rightarrow> int" where
  "month_start leap 0 = 0"
| "month_start leap (Suc m) = month_start leap m + month_length leap m"

text \<open>The largest \<open>k \<le> n\<close> with \<open>f k \<le> d\<close>.\<close>

fun bracket :: "(nat \<Rightarrow> int) \<Rightarrow> nat \<Rightarrow> int \<Rightarrow> nat" where
  "bracket f 0 d = 0"
| "bracket f (Suc n) d = (if f (Suc n) \<le> d then Suc n else bracket f n d)"

lemma bracket_spec:
  "f 0 \<le> d \<Longrightarrow> d < f (Suc n) \<Longrightarrow> f (bracket f n d) \<le> d \<and> d < f (Suc (bracket f n d)) \<and> bracket f n d \<le> n"
  by (induction n) auto

lemma year_start_400: "year_start 400 = 146097"
  by (simp add: year_start_def)

lemma year_start_ge: "365 * int y \<le> year_start y"
  by (induction y) (simp_all add: year_start_Suc)

text \<open>The search for the year starts at the quotient by 365, which is never too small.\<close>

definition year_of :: "int \<Rightarrow> nat" where
  "year_of r = bracket year_start (min 399 (nat (r div 365))) r"

lemma year_of_spec:
  assumes "0 \<le> r" "r < 146097"
  shows "year_start (year_of r) \<le> r \<and> r < year_start (Suc (year_of r)) \<and> year_of r \<le> 399"
proof -
  let ?n = "min 399 (nat (r div 365))"
  have "r < year_start (Suc ?n)"
  proof (cases "399 \<le> nat (r div 365)")
    case True
    then show ?thesis using assms year_start_400 by (simp add: min_def)
  next
    case False
    then have "?n = nat (r div 365)" by simp
    moreover have "r < 365 * (r div 365 + 1)" by presburger
    ultimately show ?thesis using year_start_ge[of "Suc ?n"] assms(1) by simp
  qed
  then have "year_start (bracket year_start ?n r) \<le> r \<and> r < year_start (Suc (bracket year_start ?n r))
      \<and> bracket year_start ?n r \<le> ?n"
    using assms by (intro bracket_spec) simp_all
  then show ?thesis unfolding year_of_def by linarith
qed

lemma month_start_12: "month_start leap 12 = (if leap then 366 else 365)"
  by (cases leap) (simp_all add: month_length_def eval_nat_numeral)

definition day_microseconds :: int where
  "day_microseconds = 86400000000"

definition month_bounds :: "timestamp \<Rightarrow> timestamp \<times> timestamp" where
  "month_bounds t =
     (let rel = t div day_microseconds - 10957;
          cycle = rel div 146097;
          r = rel mod 146097;
          y = year_of r;
          m = bracket (month_start (leap_year y)) 11 (r - year_start y);
          base = 10957 + cycle * 146097 + year_start y
      in ((base + month_start (leap_year y) m) * day_microseconds,
          (base + month_start (leap_year y) (Suc m)) * day_microseconds))"

lemma month_bounds_contain: "fst (month_bounds t) \<le> t \<and> t < snd (month_bounds t)"
proof -
  define rel where "rel = t div day_microseconds - 10957"
  define c where "c = rel div 146097"
  define r where "r = rel mod 146097"
  define y where "y = year_of r"
  define m where "m = bracket (month_start (leap_year y)) 11 (r - year_start y)"
  have "0 \<le> r" "r < 146097" by (simp_all add: r_def)
  from year_of_spec[OF this]
  have y: "year_start y \<le> r" "r < year_start (Suc y)" by (simp_all add: y_def)
  have "month_start (leap_year y) 0 \<le> r - year_start y" "r - year_start y < month_start (leap_year y) (Suc 11)"
    using y month_start_12[of "leap_year y"] by (auto simp: year_start_Suc split: if_splits)
  from bracket_spec[of "month_start (leap_year y)", OF this]
  have m: "month_start (leap_year y) m \<le> r - year_start y"
    "r - year_start y < month_start (leap_year y) (Suc m)" by (simp_all add: m_def)
  have rel: "rel = c * 146097 + r" by (simp add: c_def r_def)
  have day: "t div day_microseconds = 10957 + c * 146097 + r" using rel by (simp add: rel_def)
  have b: "fst (month_bounds t) = (10957 + c * 146097 + year_start y + month_start (leap_year y) m) * day_microseconds"
    "snd (month_bounds t) = (10957 + c * 146097 + year_start y + month_start (leap_year y) (Suc m)) * day_microseconds"
    unfolding month_bounds_def Let_def rel_def[symmetric] c_def[symmetric] r_def[symmetric]
      y_def[symmetric] m_def[symmetric] by simp_all
  have "fst (month_bounds t) \<le> (t div day_microseconds) * day_microseconds"
    unfolding b day using m by (intro mult_right_mono) (simp_all add: day_microseconds_def)
  moreover have "(t div day_microseconds + 1) * day_microseconds \<le> snd (month_bounds t)"
    unfolding b day using m by (intro mult_right_mono) (simp_all add: day_microseconds_def)
  moreover have "(t div day_microseconds) * day_microseconds \<le> t"
    "t < (t div day_microseconds + 1) * day_microseconds"
    by (simp_all add: day_microseconds_def)
  ultimately show ?thesis by linarith
qed

section \<open>Months do not overlap\<close>

lemma bracket_eqI:
  "k \<le> n \<Longrightarrow> f k \<le> d \<Longrightarrow> (\<And>j. k < j \<Longrightarrow> j \<le> n \<Longrightarrow> d < f j) \<Longrightarrow> bracket f n d = k"
proof (induction n)
  case (Suc n)
  show ?case
  proof (cases "k = Suc n")
    case True
    then show ?thesis using Suc.prems(2) by simp
  next
    case False
    then have "d < f (Suc n)" using Suc.prems(1,3) by simp
    moreover have "bracket f n d = k" by (rule Suc.IH) (use False Suc.prems in auto)
    ultimately show ?thesis by simp
  qed
qed simp

lemma year_start_mono: "j \<le> k \<Longrightarrow> year_start j \<le> year_start k"
  by (rule lift_Suc_mono_le[of year_start]) (simp_all add: year_start_Suc)

lemma month_length_pos: "m < 12 \<Longrightarrow> 0 < month_length leap m"
proof -
  let ?ls = "[31, if leap then 29 else 28, 31, 30, 31, 30, 31, 31, 30, 31, 30, 31] :: int list"
  assume "m < 12"
  then have "?ls ! m \<in> set ?ls" by (intro nth_mem) simp
  then show ?thesis unfolding month_length_def by (auto split: if_splits)
qed

lemma month_start_mono: "j \<le> k \<Longrightarrow> k \<le> 12 \<Longrightarrow> month_start leap j \<le> month_start leap k"
proof (induction k)
  case (Suc k)
  then show ?case using month_length_pos[of k leap] by (cases "j = Suc k") auto
qed simp

text \<open>The first instant of month \<open>m\<close> (from 0) of year \<open>y\<close> of cycle \<open>c\<close>.\<close>

definition month_at :: "int \<Rightarrow> nat \<Rightarrow> nat \<Rightarrow> int" where
  "month_at c y m = (10957 + c * 146097 + year_start y + month_start (leap_year y) m) * day_microseconds"

lemma month_bounds_at:
  assumes "y < 400" "m < 12" "month_at c y m \<le> t" "t < month_at c y (Suc m)"
  shows "month_bounds t = (month_at c y m, month_at c y (Suc m))"
proof -
  define rel where "rel = t div day_microseconds - 10957"
  define d where "d = rel - c * 146097"
  let ?ms = "month_start (leap_year y)"
  have day: "(10957 + c * 146097 + d) * day_microseconds \<le> t" "t < (10957 + c * 146097 + d + 1) * day_microseconds"
    by (simp_all add: d_def rel_def day_microseconds_def)
  have lo: "year_start y + ?ms m \<le> d"
  proof (rule ccontr)
    assume "\<not> ?thesis"
    then have "(10957 + c * 146097 + d + 1) * day_microseconds \<le> month_at c y m"
      unfolding month_at_def by (intro mult_right_mono) (simp_all add: day_microseconds_def)
    then show False using day assms(3) by linarith
  qed
  have hi: "d < year_start y + ?ms (Suc m)"
  proof (rule ccontr)
    assume "\<not> ?thesis"
    then have "month_at c y (Suc m) \<le> (10957 + c * 146097 + d) * day_microseconds"
      unfolding month_at_def by (intro mult_right_mono) (simp_all add: day_microseconds_def)
    then show False using day assms(4) by linarith
  qed
  have ms: "0 \<le> ?ms m" "?ms (Suc m) \<le> ?ms 12"
    using month_start_mono[of 0 m "leap_year y"] month_start_mono[of "Suc m" 12 "leap_year y"] assms(2) by simp_all
  have ynext: "year_start y + ?ms 12 = year_start (Suc y)"
    by (simp add: month_start_12 year_start_Suc)
  have dy: "year_start y \<le> d" "d < year_start (Suc y)" using lo hi ms ynext by linarith+
  have d: "0 \<le> d" "d < 146097"
    using dy year_start_mono[of 0 y] year_start_mono[of "Suc y" 400] year_start_400 assms(1) by simp_all
  have rel: "rel = d + c * 146097" by (simp add: d_def)
  then have cyc: "rel div 146097 = c" "rel mod 146097 = d" using d by simp_all
  have y: "year_of d = y"
  proof -
    have z: "year_start (year_of d) \<le> d" "d < year_start (Suc (year_of d))"
      using year_of_spec[OF d] by simp_all
    have "\<not> y < year_of d" using dy(2) z(1) year_start_mono[of "Suc y" "year_of d"] by auto
    moreover have "\<not> year_of d < y" using dy(1) z(2) year_start_mono[of "Suc (year_of d)" y] by auto
    ultimately show ?thesis by simp
  qed
  have m: "bracket ?ms 11 (d - year_start y) = m"
  proof (rule bracket_eqI)
    show "d - year_start y < ?ms j" if "m < j" "j \<le> 11" for j
      using hi month_start_mono[of "Suc m" j "leap_year y"] that by simp
  qed (use assms(2) lo in simp_all)
  show ?thesis
    unfolding month_bounds_def Let_def rel_def[symmetric] cyc y m month_at_def by simp
qed

lemma month_bounds_is_month:
  obtains c y m where "y < 400" "m < 12" "month_bounds t = (month_at c y m, month_at c y (Suc m))"
proof -
  define rel where "rel = t div day_microseconds - 10957"
  define y where "y = year_of (rel mod 146097)"
  define m where "m = bracket (month_start (leap_year y)) 11 (rel mod 146097 - year_start y)"
  have le: "bracket f n d \<le> n" for f n d by (induction n) auto
  have "month_bounds t = (month_at (rel div 146097) y m, month_at (rel div 146097) y (Suc m))"
    unfolding month_bounds_def Let_def rel_def[symmetric] y_def[symmetric] m_def[symmetric] month_at_def
    by simp
  moreover have "y \<le> 399" using year_of_spec[of "rel mod 146097"] by (simp add: y_def)
  moreover have "m \<le> 11" unfolding m_def by (rule le)
  ultimately show ?thesis using that[of y m "rel div 146097"] by simp
qed

lemma month_bounds_unique:
  "fst (month_bounds x) \<le> t \<Longrightarrow> t < snd (month_bounds x) \<Longrightarrow> month_bounds t = month_bounds x"
  by (rule month_bounds_is_month[of x]) (simp add: month_bounds_at)

lemma month_bounds_same_start: "fst (month_bounds a) = fst (month_bounds b) \<Longrightarrow> month_bounds a = month_bounds b"
  by (metis month_bounds_contain month_bounds_unique order_refl order_le_less_trans)

end
