(* ===== verification/Finops_Ledger.thy ===== *)
theory Finops_Ledger
  imports Calendar Domain_Model Sql_Tables
begin

text \<open>
  LLM spending: the pricing, budget and reservation dataclasses, the ledger methods of the
  catalog repository and \<open>packages/cost_engine/sqlverity_cost_engine/service.py\<close>.

  A \<open>Decimal\<close> is a rational number: prices, budgets and reservations are finite, and the
  28 digits of the default context are not modelled.  Usage events keep costs as text; how
  text and numbers correspond is the argument \<open>decimal_lib\<close>.  Stored rows are the
  dataclasses themselves.
\<close>

section \<open>Entities\<close>

datatype decimal_text = Not_Decimal | Not_Finite | Finite rat

record decimal_lib =
  dl_parse :: "string \<Rightarrow> decimal_text"
  dl_show :: "rat \<Rightarrow> string"

datatype finops_error =
    Pricing_Fields_Missing | Pricing_Currency_Invalid | Pricing_Token_Unit_Invalid
  | Pricing_Negative | Pricing_Discount_Invalid | Pricing_Interval_Empty | Pricing_Notes_Blank
  | Pricing_Overlap
  | Budget_Tenant_Missing | Budget_Currency_Invalid | Budget_Not_Positive | Budget_Interval_Empty
  | Budget_Overlap
  | Reservation_Amount_Invalid | Reservation_Period_Invalid
  | Reservation_Not_New | Budget_Unavailable | Reservation_Conflict | Reservation_Missing
  | Usage_Mismatch | Settlement_Cost_Invalid | Settlement_Cost_Negative | Reconciliation_Invalid
  | Finops_Tenant_Missing | Finops_Integrity | Stored_Cost_Invalid
  | Token_Counts_Negative | Cached_Tokens_Exceed_Input

record model_pricing =
  mp_tenant_id :: string
  mp_provider_id :: string
  mp_model_id :: string
  mp_valid_from :: timestamp
  mp_currency :: string
  mp_token_unit :: int
  mp_input_price_per_unit :: rat
  mp_output_price_per_unit :: rat
  mp_source_version :: string
  mp_cached_input_price_per_unit :: "rat option"
  mp_batch_discount :: rat
  mp_valid_to :: "timestamp option"
  mp_notes :: "string option"
  mp_id :: string
  mp_created_at :: timestamp

definition model_pricing_post_init :: "model_pricing \<Rightarrow> finops_error + unit" where
  "model_pricing_post_init p =
     first_raise
       [(blank (mp_tenant_id p) \<or> blank (mp_provider_id p) \<or> blank (mp_model_id p)
           \<or> blank (mp_source_version p), Pricing_Fields_Missing),
        (\<not> valid_currency (mp_currency p), Pricing_Currency_Invalid),
        (mp_token_unit p < 1, Pricing_Token_Unit_Invalid),
        (mp_input_price_per_unit p < 0 \<or> mp_output_price_per_unit p < 0
           \<or> (\<exists>q \<in> set_option (mp_cached_input_price_per_unit p). q < 0), Pricing_Negative),
        (\<not> (0 \<le> mp_batch_discount p \<and> mp_batch_discount p < 1), Pricing_Discount_Invalid),
        (\<exists>t \<in> set_option (mp_valid_to p). t \<le> mp_valid_from p, Pricing_Interval_Empty),
        (\<exists>n \<in> set_option (mp_notes p). blank n, Pricing_Notes_Blank)]"

record tenant_budget =
  tb_tenant_id :: string
  tb_currency :: string
  tb_amount :: rat
  tb_valid_from :: timestamp
  tb_period :: string
  tb_valid_to :: "timestamp option"
  tb_id :: string
  tb_created_at :: timestamp

definition tenant_budget_post_init :: "tenant_budget \<Rightarrow> finops_error + unit" where
  "tenant_budget_post_init b =
     first_raise
       [(tb_tenant_id b = [], Budget_Tenant_Missing),
        (\<not> valid_currency (tb_currency b), Budget_Currency_Invalid),
        (tb_amount b \<le> 0, Budget_Not_Positive),
        (\<exists>t \<in> set_option (tb_valid_to b). t \<le> tb_valid_from b, Budget_Interval_Empty)]"

datatype reservation_state = Reserved | In_Flight | Uncertain | Settled | Released

record llm_budget_reservation =
  lbr_tenant_id :: string
  lbr_provider_id :: string
  lbr_model_id :: string
  lbr_pricing_id :: string
  lbr_currency :: string
  lbr_amount :: rat
  lbr_period_start :: timestamp
  lbr_period_end :: timestamp
  lbr_id :: string
  lbr_state :: reservation_state
  lbr_actual_cost :: "rat option"
  lbr_usage_event_id :: "string option"
  lbr_created_at :: timestamp
  lbr_updated_at :: timestamp

definition llm_budget_reservation_post_init :: "llm_budget_reservation \<Rightarrow> finops_error + unit" where
  "llm_budget_reservation_post_init r =
     first_raise
       [(lbr_amount r < 0, Reservation_Amount_Invalid),
        ((lbr_period_start r, lbr_period_end r) \<noteq> month_bounds (lbr_created_at r),
           Reservation_Period_Invalid)]"

record budget_balance =
  lbb_spent :: rat
  lbb_reserved :: rat
  lbb_uncertain :: rat
  lbb_reconciled :: rat

section \<open>The repository\<close>

datatype finops_audit =
    Usage_Recorded string string string string string int int int
  | Reservation_Reconciled string string string string rat string
  | Pricing_Created string string string string string string timestamp
  | Budget_Created string string string string timestamp

record finops_store =
  fs_tenants :: "string list"
  fs_pricing :: "model_pricing list"
  fs_budgets :: "tenant_budget list"
  fs_accounts :: "((string \<times> string) \<times> int) list"
  fs_reservations :: "llm_budget_reservation list"
  fs_usage :: "llm_usage_event list"
  fs_audit :: "finops_audit list"

definition append_finops_audit :: "finops_audit \<Rightarrow> finops_store \<Rightarrow> finops_store" where
  "append_finops_audit e s = s\<lparr>fs_audit := fs_audit s @ [e]\<rparr>"

text \<open>The account row is created on demand and its revision taken as the lock.\<close>

definition lock_llm_budget :: "string \<Rightarrow> string \<Rightarrow> finops_store \<Rightarrow> finops_store" where
  "lock_llm_budget tenant currency s =
     s\<lparr>fs_accounts :=
         sql_update (\<lambda>a. fst a = (tenant, currency)) (\<lambda>a. (fst a, snd a + 1))
           (insert_or_ignore (\<lambda>a. fst a = (tenant, currency)) ((tenant, currency), 0) (fs_accounts s))\<rparr>"

definition insert_llm_usage :: "llm_usage_event \<Rightarrow> finops_store \<Rightarrow> (finops_error + unit) \<times> finops_store" where
  "insert_llm_usage e s =
     (if (\<exists>x \<in> set (fs_usage s). lue_id x = lue_id e)
         \<or> (\<exists>p \<in> set_option (lue_pricing_id e). p \<notin> mp_id ` set (fs_pricing s))
      then (Inl Finops_Integrity, s)
      else (Inr (),
            append_finops_audit
              (Usage_Recorded (lue_tenant_id e) (lue_id e) (lue_provider_id e) (lue_model_id e)
                 (lue_purpose e) (lue_input_tokens e) (lue_output_tokens e) (lue_latency_ms e))
              (s\<lparr>fs_usage := fs_usage s @ [e]\<rparr>)))"

definition record_llm_usage :: "llm_usage_event \<Rightarrow> finops_store \<Rightarrow> (finops_error + unit) \<times> finops_store" where
  "record_llm_usage e s =
     (if lue_tenant_id e \<notin> set (fs_tenants s) then (Inl Finops_Tenant_Missing, s)
      else
        let s1 = (case lue_currency e of None \<Rightarrow> s | Some c \<Rightarrow> lock_llm_budget (lue_tenant_id e) c s)
        in case insert_llm_usage e s1 of
             (Inl err, _) \<Rightarrow> (Inl err, s)
           | (Inr _, s2) \<Rightarrow> (Inr (), s2))"

text \<open>
  \<open>Decimal(row["actual_cost"] or row["amount"] or "0")\<close>: an absent or empty text is passed
  over, a text that is no finite decimal raises.
\<close>

definition first_text :: "string option list \<Rightarrow> string" where
  "first_text ts = (case filter (\<lambda>t. t \<noteq> None \<and> t \<noteq> Some []) ts of (Some t # _) \<Rightarrow> t | _ \<Rightarrow> ''0'')"

definition stored_cost :: "decimal_lib \<Rightarrow> string option list \<Rightarrow> finops_error + rat" where
  "stored_cost lib ts =
     (case dl_parse lib (first_text ts) of Finite q \<Rightarrow> Inr q | _ \<Rightarrow> Inl Stored_Cost_Invalid)"

definition usage_in_period :: "string \<Rightarrow> string \<Rightarrow> timestamp \<Rightarrow> timestamp \<Rightarrow> llm_usage_event \<Rightarrow> bool" where
  "usage_in_period tenant currency start end e =
     (lue_tenant_id e = tenant \<and> lue_currency e = Some currency
      \<and> start \<le> lue_created_at e \<and> lue_created_at e < end)"

definition reservation_counts :: "string \<Rightarrow> string \<Rightarrow> timestamp \<Rightarrow> llm_budget_reservation \<Rightarrow> bool" where
  "reservation_counts tenant currency start r =
     (lbr_tenant_id r = tenant \<and> lbr_currency r = currency \<and> lbr_period_start r = start
      \<and> (lbr_state r \<in> {Reserved, In_Flight, Uncertain}
         \<or> (lbr_state r = Settled \<and> lbr_usage_event_id r = None)))"

definition reservation_cost :: "llm_budget_reservation \<Rightarrow> rat" where
  "reservation_cost r = (case lbr_actual_cost r of Some q \<Rightarrow> q | None \<Rightarrow> lbr_amount r)"

definition add_reservation :: "llm_budget_reservation \<Rightarrow> budget_balance \<Rightarrow> budget_balance" where
  "add_reservation r b =
     (if lbr_state r \<in> {Reserved, In_Flight, Uncertain}
      then b\<lparr>lbb_reserved := lbb_reserved b + reservation_cost r,
             lbb_uncertain := lbb_uncertain b + (if lbr_state r = Uncertain then reservation_cost r else 0)\<rparr>
      else b\<lparr>lbb_spent := lbb_spent b + reservation_cost r,
             lbb_reconciled := lbb_reconciled b + reservation_cost r\<rparr>)"

definition llm_budget_balance ::
  "decimal_lib \<Rightarrow> string \<Rightarrow> string \<Rightarrow> timestamp \<Rightarrow> timestamp \<Rightarrow> finops_store \<Rightarrow>
   finops_error + budget_balance" where
  "llm_budget_balance lib tenant currency start end s =
     bind_result
       (collect_results (map (\<lambda>e. stored_cost lib [lue_actual_cost e, lue_estimated_cost e])
          (filter (usage_in_period tenant currency start end) (fs_usage s))))
       (\<lambda>costs. Inr (fold add_reservation
          (filter (reservation_counts tenant currency start) (fs_reservations s))
          \<lparr>lbb_spent = sum_list costs, lbb_reserved = 0, lbb_uncertain = 0, lbb_reconciled = 0\<rparr>))"

definition effective_at :: "timestamp \<Rightarrow> timestamp \<Rightarrow> timestamp option \<Rightarrow> bool" where
  "effective_at instant from until = (from \<le> instant \<and> (case until of None \<Rightarrow> True | Some t \<Rightarrow> t > instant))"

text \<open>\<open>ORDER BY valid_from DESC LIMIT 1\<close>.\<close>

definition get_effective_tenant_budget ::
  "string \<Rightarrow> string \<Rightarrow> timestamp \<Rightarrow> finops_store \<Rightarrow> tenant_budget option" where
  "get_effective_tenant_budget tenant currency instant s =
     first_by (\<lambda>b. - tb_valid_from b)
       (\<lambda>b. tb_tenant_id b = tenant \<and> tb_currency b = currency
            \<and> effective_at instant (tb_valid_from b) (tb_valid_to b)) (fs_budgets s)"

definition get_effective_model_pricing ::
  "string \<Rightarrow> string \<Rightarrow> string \<Rightarrow> timestamp \<Rightarrow> finops_store \<Rightarrow> model_pricing option" where
  "get_effective_model_pricing tenant provider model instant s =
     first_by (\<lambda>p. - mp_valid_from p)
       (\<lambda>p. mp_tenant_id p = tenant \<and> mp_provider_id p = provider \<and> mp_model_id p = model
            \<and> effective_at instant (mp_valid_from p) (mp_valid_to p)) (fs_pricing s)"

definition reserve_llm_budget ::
  "decimal_lib \<Rightarrow> llm_budget_reservation \<Rightarrow> finops_store \<Rightarrow>
   (finops_error + llm_budget_reservation) \<times> finops_store" where
  "reserve_llm_budget lib r s =
     (if lbr_state r \<noteq> Reserved \<or> lbr_actual_cost r \<noteq> None then (Inl Reservation_Not_New, s)
      else if lbr_amount r < 0 then (Inl Reservation_Amount_Invalid, s)
      else if lbr_tenant_id r \<notin> set (fs_tenants s) then (Inl Finops_Tenant_Missing, s)
      else
        let s1 = lock_llm_budget (lbr_tenant_id r) (lbr_currency r) s;
            budget = get_effective_tenant_budget (lbr_tenant_id r) (lbr_currency r) (lbr_created_at r) s1
        in case llm_budget_balance lib (lbr_tenant_id r) (lbr_currency r) (lbr_period_start r)
                  (lbr_period_end r) s1 of
             Inl e \<Rightarrow> (Inl e, s)
           | Inr b \<Rightarrow>
               if \<exists>t \<in> set_option budget. lbb_spent b + lbb_reserved b + lbr_amount r > tb_amount t
               then (Inl Budget_Unavailable, s)
               else if (\<exists>x \<in> set (fs_reservations s). lbr_id x = lbr_id r)
                       \<or> lbr_pricing_id r \<notin> mp_id ` set (fs_pricing s)
               then (Inl Finops_Integrity, s)
               else (Inr r, s1\<lparr>fs_reservations := fs_reservations s1 @ [r\<lparr>lbr_usage_event_id := None\<rparr>]\<rparr>))"

definition get_llm_budget_reservation ::
  "string \<Rightarrow> string \<Rightarrow> finops_store \<Rightarrow> llm_budget_reservation option" where
  "get_llm_budget_reservation tenant i s =
     fetch_one (\<lambda>r. lbr_tenant_id r = tenant \<and> lbr_id r = i) (fs_reservations s)"

definition list_llm_budget_reservations :: "string \<Rightarrow> finops_store \<Rightarrow> llm_budget_reservation list" where
  "list_llm_budget_reservations tenant s =
     take 1000 (rev (sort_key (\<lambda>r. (lbr_created_at r, lbr_id r))
       (filter (\<lambda>r. lbr_tenant_id r = tenant) (fs_reservations s))))"

definition in_states :: "string \<Rightarrow> string \<Rightarrow> reservation_state list \<Rightarrow> llm_budget_reservation \<Rightarrow> bool" where
  "in_states tenant i states r = (lbr_tenant_id r = tenant \<and> lbr_id r = i \<and> lbr_state r \<in> set states)"

definition update_reservations ::
  "(llm_budget_reservation \<Rightarrow> bool) \<Rightarrow> (llm_budget_reservation \<Rightarrow> llm_budget_reservation) \<Rightarrow>
   finops_store \<Rightarrow> finops_store" where
  "update_reservations P f s = s\<lparr>fs_reservations := sql_update P f (fs_reservations s)\<rparr>"

definition start_llm_budget_reservation ::
  "string \<Rightarrow> string \<Rightarrow> timestamp \<Rightarrow> finops_store \<Rightarrow> (finops_error + unit) \<times> finops_store" where
  "start_llm_budget_reservation tenant i now s =
     (if row_count (in_states tenant i [Reserved]) (fs_reservations s) \<noteq> 1
      then (Inl Reservation_Conflict, s)
      else (Inr (), update_reservations (in_states tenant i [Reserved])
              (\<lambda>r. r\<lparr>lbr_state := In_Flight, lbr_updated_at := now\<rparr>) s))"

definition mark_llm_budget_uncertain :: "string \<Rightarrow> string \<Rightarrow> timestamp \<Rightarrow> finops_store \<Rightarrow> finops_store" where
  "mark_llm_budget_uncertain tenant i now s =
     update_reservations (in_states tenant i [Reserved, In_Flight])
       (\<lambda>r. r\<lparr>lbr_state := Uncertain, lbr_updated_at := now\<rparr>) s"

definition release_undispatched_llm_budget ::
  "string \<Rightarrow> string \<Rightarrow> timestamp \<Rightarrow> finops_store \<Rightarrow> (finops_error + unit) \<times> finops_store" where
  "release_undispatched_llm_budget tenant i now s =
     (case get_llm_budget_reservation tenant i s of
        None \<Rightarrow> (Inl Reservation_Missing, s)
      | Some r \<Rightarrow>
          (Inr (), update_reservations (in_states tenant i [Reserved, In_Flight])
             (\<lambda>r. r\<lparr>lbr_state := Released, lbr_actual_cost := Some 0, lbr_updated_at := now\<rparr>)
             (lock_llm_budget tenant (lbr_currency r) s)))"

definition usage_matches :: "string \<Rightarrow> llm_budget_reservation \<Rightarrow> llm_usage_event \<Rightarrow> bool" where
  "usage_matches tenant r u =
     (lue_tenant_id u = tenant \<and> lue_provider_id u = lbr_provider_id r
      \<and> lue_model_id u = lbr_model_id r \<and> lue_currency u = Some (lbr_currency r)
      \<and> lue_pricing_id u = Some (lbr_pricing_id r) \<and> lue_created_at u = lbr_created_at r)"

definition settle_row :: "rat \<Rightarrow> string \<Rightarrow> timestamp \<Rightarrow> llm_budget_reservation \<Rightarrow> llm_budget_reservation" where
  "settle_row cost usage_id now r =
     r\<lparr>lbr_state := Settled, lbr_actual_cost := Some cost, lbr_usage_event_id := Some usage_id,
       lbr_updated_at := now\<rparr>"

definition settle_llm_budget_reservation ::
  "decimal_lib \<Rightarrow> string \<Rightarrow> string \<Rightarrow> llm_usage_event \<Rightarrow> timestamp \<Rightarrow> finops_store \<Rightarrow>
   (finops_error + unit) \<times> finops_store" where
  "settle_llm_budget_reservation lib tenant i u now s =
     (case get_llm_budget_reservation tenant i s of
        None \<Rightarrow> (Inl Reservation_Missing, s)
      | Some r \<Rightarrow>
          if \<not> usage_matches tenant r u then (Inl Usage_Mismatch, s)
          else (case map_option (dl_parse lib) (lue_actual_cost u) of
              Some (Finite cost) \<Rightarrow>
                if cost < 0 then (Inl Settlement_Cost_Negative, s)
                else
                  let s1 = lock_llm_budget tenant (lbr_currency r) s;
                      open = in_states tenant i [In_Flight, Uncertain]
                  in if row_count open (fs_reservations s1) \<noteq> 1
                     then (case get_llm_budget_reservation tenant i s1 of
                             Some c \<Rightarrow>
                               if lbr_usage_event_id c = Some (lue_id u) then (Inr (), s1)
                               else (Inl Reservation_Conflict, s)
                           | None \<Rightarrow> (Inl Reservation_Conflict, s))
                     else (case insert_llm_usage u (update_reservations open (settle_row cost (lue_id u) now) s1) of
                             (Inl e, _) \<Rightarrow> (Inl e, s)
                           | (Inr _, s2) \<Rightarrow> (Inr (), s2))
            | _ \<Rightarrow> (Inl Settlement_Cost_Invalid, s)))"

definition reconcilable :: "string \<Rightarrow> string \<Rightarrow> timestamp \<Rightarrow> llm_budget_reservation \<Rightarrow> bool" where
  "reconcilable tenant i now r =
     (lbr_tenant_id r = tenant \<and> lbr_id r = i
      \<and> (lbr_state r = Uncertain
         \<or> (lbr_state r \<in> {Reserved, In_Flight} \<and> lbr_updated_at r < now - seconds 3600)))"

definition reconcile_row :: "rat \<Rightarrow> timestamp \<Rightarrow> llm_budget_reservation \<Rightarrow> llm_budget_reservation" where
  "reconcile_row cost now r =
     r\<lparr>lbr_state := (if cost = 0 then Released else Settled), lbr_actual_cost := Some cost,
       lbr_updated_at := now\<rparr>"

definition reconcile_llm_budget_reservation ::
  "string \<Rightarrow> string \<Rightarrow> rat \<Rightarrow> string \<Rightarrow> string \<Rightarrow> timestamp \<Rightarrow> finops_store \<Rightarrow>
   (finops_error + llm_budget_reservation) \<times> finops_store" where
  "reconcile_llm_budget_reservation tenant i cost actor reason now s =
     (if cost < 0 \<or> blank actor \<or> blank reason then (Inl Reconciliation_Invalid, s)
      else case get_llm_budget_reservation tenant i s of
        None \<Rightarrow> (Inl Reservation_Missing, s)
      | Some r \<Rightarrow>
          let s1 = lock_llm_budget tenant (lbr_currency r) s
          in if row_count (reconcilable tenant i now) (fs_reservations s1) \<noteq> 1
             then (Inl Reservation_Conflict, s)
             else (Inr (reconcile_row cost now r),
                   append_finops_audit
                     (Reservation_Reconciled tenant i actor reason cost (lbr_currency r))
                     (update_reservations (reconcilable tenant i now) (reconcile_row cost now) s1)))"

text \<open>
  Two validity intervals overlap when each starts before the other ends; an interval without
  an end reaches to the last second of the year 9999.  The overlap of prices is looked for
  before the transaction of the insertion: \<open>mid\<close> stands for what other replicas commit in
  between, and the exclusion constraint of the PostgreSQL schema refuses what overlaps with
  that (a single SQLite process holds its lock over the whole method).
\<close>

definition last_second :: timestamp where
  "last_second = 253402300799 * 1000000"

definition overlaps :: "timestamp \<Rightarrow> timestamp option \<Rightarrow> timestamp \<Rightarrow> timestamp option \<Rightarrow> bool" where
  "overlaps from until old_from old_until =
     (old_from < (case until of None \<Rightarrow> last_second | Some t \<Rightarrow> t)
      \<and> (case old_until of None \<Rightarrow> True | Some t \<Rightarrow> t > from))"

definition pricing_overlap :: "model_pricing \<Rightarrow> model_pricing \<Rightarrow> bool" where
  "pricing_overlap p x =
     (mp_tenant_id x = mp_tenant_id p \<and> mp_provider_id x = mp_provider_id p \<and> mp_model_id x = mp_model_id p
      \<and> overlaps (mp_valid_from p) (mp_valid_to p) (mp_valid_from x) (mp_valid_to x))"

definition create_model_pricing ::
  "(finops_store \<Rightarrow> finops_store) \<Rightarrow> model_pricing \<Rightarrow> finops_store \<Rightarrow>
   (finops_error + model_pricing) \<times> finops_store" where
  "create_model_pricing mid p s =
     (if mp_tenant_id p \<notin> set (fs_tenants s) then (Inl Finops_Tenant_Missing, s)
      else if \<exists>x \<in> set (fs_pricing s). pricing_overlap p x then (Inl Pricing_Overlap, s)
      else
        let s1 = mid s
        in if mp_id p \<in> mp_id ` set (fs_pricing s1) \<or> (\<exists>x \<in> set (fs_pricing s1). pricing_overlap p x)
           then (Inl Finops_Integrity, s1)
           else (Inr p,
                 append_finops_audit
                   (Pricing_Created (mp_tenant_id p) (mp_id p) (mp_provider_id p) (mp_model_id p)
                      (mp_currency p) (mp_source_version p) (mp_valid_from p))
                   (s1\<lparr>fs_pricing := fs_pricing s1 @ [p]\<rparr>)))"

definition list_model_pricing :: "string \<Rightarrow> finops_store \<Rightarrow> model_pricing list" where
  "list_model_pricing tenant s =
     sort_key (\<lambda>p. (mp_provider_id p, mp_model_id p, - mp_valid_from p))
       (filter (\<lambda>p. mp_tenant_id p = tenant) (fs_pricing s))"

definition budget_overlap :: "tenant_budget \<Rightarrow> tenant_budget \<Rightarrow> bool" where
  "budget_overlap b x =
     (tb_tenant_id x = tb_tenant_id b \<and> tb_currency x = tb_currency b \<and> tb_period x = tb_period b
      \<and> overlaps (tb_valid_from b) (tb_valid_to b) (tb_valid_from x) (tb_valid_to x))"

definition create_tenant_budget ::
  "tenant_budget \<Rightarrow> finops_store \<Rightarrow> (finops_error + tenant_budget) \<times> finops_store" where
  "create_tenant_budget b s =
     (if tb_tenant_id b \<notin> set (fs_tenants s) then (Inl Finops_Tenant_Missing, s)
      else
        let s1 = lock_llm_budget (tb_tenant_id b) (tb_currency b) s
        in if \<exists>x \<in> set (fs_budgets s1). budget_overlap b x then (Inl Budget_Overlap, s)
           else if tb_id b \<in> tb_id ` set (fs_budgets s1) then (Inl Finops_Integrity, s)
           else (Inr b,
                 append_finops_audit
                   (Budget_Created (tb_tenant_id b) (tb_id b) (tb_currency b) (tb_period b) (tb_valid_from b))
                   (s1\<lparr>fs_budgets := fs_budgets s1 @ [b]\<rparr>)))"

definition list_tenant_budgets :: "string \<Rightarrow> finops_store \<Rightarrow> tenant_budget list" where
  "list_tenant_budgets tenant s =
     sort_key (\<lambda>b. (tb_currency b, - tb_valid_from b)) (filter (\<lambda>b. tb_tenant_id b = tenant) (fs_budgets s))"

definition list_llm_usage_events :: "string \<Rightarrow> finops_store \<Rightarrow> llm_usage_event list" where
  "list_llm_usage_events tenant s =
     rev (sort_key (\<lambda>e. (lue_created_at e, lue_id e)) (filter (\<lambda>e. lue_tenant_id e = tenant) (fs_usage s)))"

end
