(* ===== verification/Finops_Service.thy ===== *)
theory Finops_Service
  imports Finops_Ledger
begin

text \<open>
  \<open>FinOpsService\<close> of \<open>packages/cost_engine/sqlverity_cost_engine/service.py\<close>: estimates,
  reservations, budget decisions and the monthly summary over the ledger.
\<close>

record cost_estimate =
  ce_pricing_id :: string
  ce_currency :: string
  ce_amount :: rat
  ce_input_tokens :: int
  ce_cached_input_tokens :: int
  ce_output_tokens :: int
  ce_batch_discount_applied :: bool

record budget_decision =
  bd_allowed :: bool
  bd_currency :: string
  bd_budget_id :: "string option"
  bd_budget_amount :: "rat option"
  bd_spent_amount :: rat
  bd_projected_amount :: rat
  bd_remaining_amount :: "rat option"
  bd_reason :: string
  bd_reserved_amount :: rat

record usage_breakdown =
  ub_provider_id :: string
  ub_model_id :: string
  ub_purpose :: string
  ub_event_count :: int
  ub_input_tokens :: int
  ub_cached_input_tokens :: int
  ub_output_tokens :: int
  ub_cost :: rat

record finops_summary =
  su_tenant_id :: string
  su_currency :: string
  su_period_start :: timestamp
  su_period_end :: timestamp
  su_total_cost :: rat
  su_budget_id :: "string option"
  su_budget_amount :: "rat option"
  su_remaining_amount :: "rat option"
  su_priced_event_count :: nat
  su_unpriced_event_count :: nat
  su_breakdown :: "usage_breakdown list"
  su_reserved_cost :: rat
  su_uncertain_cost :: rat
  su_reconciled_cost :: rat

text \<open>The price of a call, with the cached input priced like the rest when it has no price.\<close>

definition priced_amount :: "model_pricing \<Rightarrow> int \<Rightarrow> int \<Rightarrow> int \<Rightarrow> bool \<Rightarrow> rat" where
  "priced_amount p input output cached batch =
     (let cached_price = (case mp_cached_input_price_per_unit p of
                            Some q \<Rightarrow> q | None \<Rightarrow> mp_input_price_per_unit p);
          raw = (rat_of_int (input - cached) * mp_input_price_per_unit p
                 + rat_of_int cached * cached_price
                 + rat_of_int output * mp_output_price_per_unit p) / rat_of_int (mp_token_unit p)
      in if batch then raw * (1 - mp_batch_discount p) else raw)"

definition finops_estimate ::
  "string \<Rightarrow> string \<Rightarrow> string \<Rightarrow> int \<Rightarrow> int \<Rightarrow> int \<Rightarrow> timestamp \<Rightarrow> bool \<Rightarrow> finops_store \<Rightarrow>
   finops_error + cost_estimate option" where
  "finops_estimate tenant provider model input output cached instant batch s =
     (if input < 0 \<or> output < 0 \<or> cached < 0 then Inl Token_Counts_Negative
      else if cached > input then Inl Cached_Tokens_Exceed_Input
      else case get_effective_model_pricing tenant provider model instant s of
        None \<Rightarrow> Inr None
      | Some p \<Rightarrow>
          Inr (Some \<lparr>ce_pricing_id = mp_id p, ce_currency = mp_currency p,
                     ce_amount = priced_amount p input output cached batch,
                     ce_input_tokens = input, ce_cached_input_tokens = cached,
                     ce_output_tokens = output,
                     ce_batch_discount_applied = (batch \<and> mp_batch_discount p > 0)\<rparr>))"

definition reservation_of ::
  "string \<Rightarrow> string \<Rightarrow> string \<Rightarrow> cost_estimate \<Rightarrow> timestamp \<Rightarrow> string \<Rightarrow> llm_budget_reservation" where
  "reservation_of tenant provider model est now new =
     \<lparr>lbr_tenant_id = tenant, lbr_provider_id = provider, lbr_model_id = model,
      lbr_pricing_id = ce_pricing_id est, lbr_currency = ce_currency est, lbr_amount = ce_amount est,
      lbr_period_start = fst (month_bounds now), lbr_period_end = snd (month_bounds now),
      lbr_id = new, lbr_state = Reserved, lbr_actual_cost = None, lbr_usage_event_id = None,
      lbr_created_at = now, lbr_updated_at = now\<rparr>"

definition finops_reserve ::
  "decimal_lib \<Rightarrow> string \<Rightarrow> string \<Rightarrow> string \<Rightarrow> cost_estimate \<Rightarrow> timestamp \<Rightarrow> string \<Rightarrow> finops_store \<Rightarrow>
   (finops_error + llm_budget_reservation) \<times> finops_store" where
  "finops_reserve lib tenant provider model est now new s =
     (let r = reservation_of tenant provider model est now new
      in case llm_budget_reservation_post_init r of
           Inl e \<Rightarrow> (Inl e, s)
         | Inr _ \<Rightarrow> reserve_llm_budget lib r s)"

definition finops_authorize ::
  "decimal_lib \<Rightarrow> string \<Rightarrow> cost_estimate \<Rightarrow> timestamp \<Rightarrow> finops_store \<Rightarrow> finops_error + budget_decision" where
  "finops_authorize lib tenant est instant s =
     bind_result (llm_budget_balance lib tenant (ce_currency est) (fst (month_bounds instant))
                    (snd (month_bounds instant)) s)
       (\<lambda>b. let projected = lbb_spent b + lbb_reserved b + ce_amount est
            in case get_effective_tenant_budget tenant (ce_currency est) instant s of
                 None \<Rightarrow>
                   Inr \<lparr>bd_allowed = True, bd_currency = ce_currency est, bd_budget_id = None,
                        bd_budget_amount = None, bd_spent_amount = lbb_spent b,
                        bd_projected_amount = projected, bd_remaining_amount = None,
                        bd_reason = ''No active tenant budget is configured'',
                        bd_reserved_amount = lbb_reserved b\<rparr>
               | Some t \<Rightarrow>
                   Inr \<lparr>bd_allowed = (projected \<le> tb_amount t), bd_currency = ce_currency est,
                        bd_budget_id = Some (tb_id t), bd_budget_amount = Some (tb_amount t),
                        bd_spent_amount = lbb_spent b, bd_projected_amount = projected,
                        bd_remaining_amount = Some (max 0 (tb_amount t - projected)),
                        bd_reason = (if projected \<le> tb_amount t
                                     then ''Projected monthly cost is within budget''
                                     else ''Projected monthly cost exceeds budget''),
                        bd_reserved_amount = lbb_reserved b\<rparr>)"

definition has_active_budget :: "string \<Rightarrow> string option \<Rightarrow> timestamp \<Rightarrow> finops_store \<Rightarrow> bool" where
  "has_active_budget tenant currency instant s =
     (\<exists>b \<in> set (list_tenant_budgets tenant s).
        (currency = None \<or> currency = Some (tb_currency b))
        \<and> tb_valid_from b \<le> instant
        \<and> (case tb_valid_to b of None \<Rightarrow> True | Some t \<Rightarrow> instant < t))"

text \<open>\<open>_event_cost\<close>: an unreadable or negative cost counts as unpriced.\<close>

definition event_cost :: "decimal_lib \<Rightarrow> llm_usage_event \<Rightarrow> string \<Rightarrow> rat option" where
  "event_cost lib e currency =
     (if lue_currency e \<noteq> Some currency then None
      else case (case lue_actual_cost e of Some t \<Rightarrow> Some t | None \<Rightarrow> lue_estimated_cost e) of
        None \<Rightarrow> None
      | Some t \<Rightarrow> (case dl_parse lib t of Finite q \<Rightarrow> if q \<ge> 0 then Some q else None | _ \<Rightarrow> None))"

definition usage_key :: "llm_usage_event \<Rightarrow> string \<times> string \<times> string" where
  "usage_key e = (lue_provider_id e, lue_model_id e, lue_purpose e)"

text \<open>The breakdown in the order of its keys, one line per key.\<close>

definition breakdown_of :: "(llm_usage_event \<times> rat) list \<Rightarrow> usage_breakdown list" where
  "breakdown_of priced =
     map (\<lambda>k. let es = filter (\<lambda>ec. usage_key (fst ec) = k) priced
              in \<lparr>ub_provider_id = fst k, ub_model_id = fst (snd k), ub_purpose = snd (snd k),
                  ub_event_count = int (length es),
                  ub_input_tokens = (\<Sum>ec\<leftarrow>es. lue_input_tokens (fst ec)),
                  ub_cached_input_tokens = (\<Sum>ec\<leftarrow>es. lue_cached_input_tokens (fst ec)),
                  ub_output_tokens = (\<Sum>ec\<leftarrow>es. lue_output_tokens (fst ec)),
                  ub_cost = (\<Sum>ec\<leftarrow>es. snd ec)\<rparr>)
       (sorted_set (map (usage_key \<circ> fst) priced))"

definition finops_summary_of ::
  "decimal_lib \<Rightarrow> string \<Rightarrow> string \<Rightarrow> timestamp \<Rightarrow> finops_store \<Rightarrow> finops_error + finops_summary" where
  "finops_summary_of lib tenant currency instant s =
     (let start = fst (month_bounds instant);
          until = snd (month_bounds instant);
          budget = get_effective_tenant_budget tenant currency instant s;
          events = filter (\<lambda>e. start \<le> lue_created_at e \<and> lue_created_at e < until)
                     (list_llm_usage_events tenant s);
          priced = concat (map (\<lambda>e. case event_cost lib e currency of
                                      Some c \<Rightarrow> [(e, c)] | None \<Rightarrow> []) events);
          unpriced = filter (\<lambda>e. event_cost lib e currency = None
                       \<and> (lue_currency e = None \<or> lue_currency e = Some currency)) events
      in bind_result (llm_budget_balance lib tenant currency start until s)
           (\<lambda>b. Inr
              \<lparr>su_tenant_id = tenant, su_currency = currency, su_period_start = start,
               su_period_end = until, su_total_cost = lbb_spent b,
               su_budget_id = map_option tb_id budget, su_budget_amount = map_option tb_amount budget,
               su_remaining_amount =
                 map_option (\<lambda>t. max 0 (tb_amount t - lbb_spent b - lbb_reserved b)) budget,
               su_priced_event_count = length priced, su_unpriced_event_count = length unpriced,
               su_breakdown = breakdown_of priced, su_reserved_cost = lbb_reserved b,
               su_uncertain_cost = lbb_uncertain b, su_reconciled_cost = lbb_reconciled b\<rparr>))"

end
