(* ===== verification/Llm_Gateway.thy ===== *)
theory Llm_Gateway
  imports Egress_Policy Finops_Service
begin

text \<open>
  \<open>packages/llm_gateway/sqlverity_llm_gateway/gateway.py\<close>: structured calls of a language
  model behind the egress policy and the budget ledger.

  The policy engine and the provider are arguments.  A provider call may raise an ordinary
  exception or one outside \<open>Exception\<close> (an interrupt); while it runs, other clients change
  the ledger by \<open>ge_during\<close>.  Values of prompt content and schemas are JSON text.
\<close>

section \<open>Requests and results\<close>

datatype attempt_error =
    Provider_Not_Found string
  | Capability_Missing string
  | Budget_Exceeded string
  | Ledger_Raised finops_error
  | Usage_Raised usage_error
  | Provider_Raised string
  | Base_Raised string

record blocked_error =
  be_message :: string
  be_code :: string
  be_provider_id :: "string option"
  be_purpose :: "string option"
  be_metadata :: metadata
  be_redacted_required_items :: "(string \<times> string) list"
  be_next_actions :: "string list"

datatype gateway_error =
    Prompt_Egress_Blocked blocked_error
  | Gateway_Raised attempt_error
  | Provider_Call_Failed string attempt_error

datatype request_error =
    Content_Needs_Id_And_Kind | Request_Needs_Purpose | Request_Needs_Content
  | Content_Ids_Not_Unique | Required_Content_Unknown

record prompt_content_item =
  pc_id :: string
  pc_kind :: string
  pc_classification :: classification
  pc_content :: "(string \<times> string) list"

definition prompt_content_item_post_init :: "prompt_content_item \<Rightarrow> request_error + unit" where
  "prompt_content_item_post_init i =
     raise_if (blank (pc_id i) \<or> blank (pc_kind i)) Content_Needs_Id_And_Kind"

record structured_llm_request =
  sr_purpose :: string
  sr_instructions :: string
  sr_content :: "prompt_content_item list"
  sr_output_schema :: string
  sr_required_content_ids :: "string list"
  sr_privacy_context :: metadata

definition structured_llm_request_post_init :: "structured_llm_request \<Rightarrow> request_error + unit" where
  "structured_llm_request_post_init r =
     (let ids = map pc_id (sr_content r)
      in first_raise
           [(blank (sr_purpose r) \<or> blank (sr_instructions r), Request_Needs_Purpose),
            (sr_content r = [], Request_Needs_Content),
            (has_duplicates ids, Content_Ids_Not_Unique),
            (\<not> set (sr_required_content_ids r) \<subseteq> set ids, Required_Content_Unknown)])"

record provider_payload =
  pl_purpose :: string
  pl_instructions :: string
  pl_trust_level :: string
  pl_items :: "(string \<times> string \<times> (string \<times> string) list) list"
  pl_output_schema :: string

definition provider_payload_of :: "structured_llm_request \<Rightarrow> prompt_content_item list \<Rightarrow> provider_payload" where
  "provider_payload_of r content =
     \<lparr>pl_purpose = sr_purpose r, pl_instructions = sr_instructions r, pl_trust_level = ''untrusted_data'',
      pl_items = map (\<lambda>i. (pc_id i, pc_kind i, pc_content i)) content,
      pl_output_schema = sr_output_schema r\<rparr>"

text \<open>The manifest describes an item without its values: the sorted names of its fields.\<close>

definition content_manifest :: "prompt_content_item \<Rightarrow> manifest_entry" where
  "content_manifest i =
     \<lparr>me_id = Some (pc_id i), me_kind = Some (pc_kind i),
      me_classification = Some (classification_value (pc_classification i)),
      me_fields = sort (map fst (pc_content i))\<rparr>"

text \<open>The digest covers the whole request; the canonical JSON and SHA-256 are \<open>digest\<close>.\<close>

type_synonym canonical_request =
  "string \<times> string \<times> (string \<times> string \<times> string \<times> (string \<times> string) list) list \<times> string"

definition request_manifest_digest :: "(canonical_request \<Rightarrow> string) \<Rightarrow> structured_llm_request \<Rightarrow> string" where
  "request_manifest_digest digest r =
     digest (sr_purpose r, sr_instructions r,
             map (\<lambda>i. (pc_id i, pc_kind i, classification_value (pc_classification i), pc_content i)) (sr_content r),
             sr_output_schema r)"

record llm_preflight_result =
  lp_provider_id :: string
  lp_model_id :: string
  lp_purpose :: string
  lp_policy_decision :: policy_decision
  lp_content_manifest :: "manifest_entry list"
  lp_included_content_ids :: "string list"
  lp_redacted_content_ids :: "string list"
  lp_manifest_digest :: string
  lp_provider_invoked :: bool

datatype provider_failure = Ordinary string | Interrupt string

record llm_provider =
  pr_capabilities :: metadata
  pr_estimate :: "provider_payload \<Rightarrow> provider_failure + token_estimate"
  pr_generate :: "provider_payload \<Rightarrow> provider_failure + llm_response"

record llm_gateway_result =
  gr_response :: llm_response
  gr_estimate :: token_estimate
  gr_policy_decision :: policy_decision
  gr_included_content_ids :: "string list"
  gr_usage :: llm_usage_event

section \<open>Preflight\<close>

type_synonym policy_engine =
  "string \<Rightarrow> string \<Rightarrow> manifest_entry list \<Rightarrow> string option \<Rightarrow> string option \<Rightarrow> policy_decision"

text \<open>The constructor strips the provider names and drops blank ones.\<close>

definition gateway_providers :: "(string \<times> llm_provider) list \<Rightarrow> string \<Rightarrow> llm_provider option" where
  "gateway_providers ps =
     map_of (rev (map (\<lambda>p. (strip (fst p), snd p)) (filter (\<lambda>p. \<not> blank (fst p)) ps)))"

definition structured_output :: "llm_provider \<Rightarrow> bool" where
  "structured_output p = (meta_get ''structured_output'' (pr_capabilities p) = Meta_Bool True)"

definition declared_model :: "llm_provider \<Rightarrow> string option" where
  "declared_model p =
     (case meta_get ''model_id'' (pr_capabilities p) of
        Meta_Text m \<Rightarrow> if blank m then None else Some m
      | _ \<Rightarrow> None)"

definition preflight_structured ::
  "(canonical_request \<Rightarrow> string) \<Rightarrow> (string \<Rightarrow> llm_provider option) \<Rightarrow> policy_engine \<Rightarrow> string \<Rightarrow> string \<Rightarrow>
   structured_llm_request \<Rightarrow> string option \<Rightarrow> attempt_error + llm_preflight_result" where
  "preflight_structured digest providers policy tenant provider_id r source =
     (case providers provider_id of
        None \<Rightarrow> Inl (Provider_Not_Found provider_id)
      | Some p \<Rightarrow>
          if \<not> structured_output p then Inl (Capability_Missing provider_id)
          else
            let manifest = map content_manifest (sr_content r);
                decision = policy tenant provider_id manifest source (Some (sr_purpose r));
                redacted = pd_redacted_fields decision
            in Inr \<lparr>lp_provider_id = provider_id,
                    lp_model_id = (case declared_model p of None \<Rightarrow> ''unreported'' | Some m \<Rightarrow> strip m),
                    lp_purpose = sr_purpose r, lp_policy_decision = decision,
                    lp_content_manifest = manifest,
                    lp_included_content_ids =
                      map pc_id (filter (\<lambda>i. pc_id i \<notin> set redacted) (sr_content r)),
                    lp_redacted_content_ids = redacted,
                    lp_manifest_digest = request_manifest_digest digest r,
                    lp_provider_invoked = False\<rparr>)"

definition blocked ::
  "string \<Rightarrow> string \<Rightarrow> structured_llm_request \<Rightarrow> policy_decision \<Rightarrow> string option \<Rightarrow> (string \<times> string) list \<Rightarrow>
   string list \<Rightarrow> blocked_error" where
  "blocked message provider_id r decision code items actions =
     (let chosen = (case code of
              Some c \<Rightarrow> c
            | None \<Rightarrow> (case map_of (rev (pd_metadata decision)) ''decision_code'' of
                          Some (Meta_Text c) \<Rightarrow> c | _ \<Rightarrow> ''prompt_egress_blocked''));
          next_actions = (if actions \<noteq> [] then actions
            else if chosen = ''missing_policy'' then [''configure_provider_policy'']
            else if chosen \<in> {''denied_provider'', ''denied_purpose'', ''residency_mismatch'',
                             ''retention_mismatch''} then [''review_provider_policy'']
            else [])
      in \<lparr>be_message = message, be_code = chosen, be_provider_id = Some provider_id,
          be_purpose = Some (sr_purpose r),
          be_metadata =
            meta_update (meta_update (sr_privacy_context r) (pd_metadata decision))
              [(''maximum_allowed_classification'',
                Meta_Text (classification_value (pd_maximum_classification decision)))],
          be_redacted_required_items = items, be_next_actions = next_actions\<rparr>)"

definition safe_detail :: "blocked_error \<Rightarrow> metadata" where
  "safe_detail e =
     meta_update
       ([(''code'', Meta_Text (be_code e)), (''message'', Meta_Text (be_message e)),
         (''provider_invoked'', Meta_Bool False)]
        @ (case be_provider_id e of None \<Rightarrow> [] | Some p \<Rightarrow> [(''provider_id'', Meta_Text p)])
        @ (case be_purpose e of None \<Rightarrow> [] | Some p \<Rightarrow> [(''purpose'', Meta_Text p)]))
       (meta_update (be_metadata e)
         ((if be_redacted_required_items e \<noteq> []
           then [(''redacted_required_items'',
                  Meta_Texts (concat (map (\<lambda>i. [fst i, snd i]) (be_redacted_required_items e))))]
           else [])
          @ (if be_next_actions e \<noteq> [] then [(''next_actions'', Meta_Texts (be_next_actions e))] else [])))"

text \<open>
  What may be sent: the items that are not redacted, unless the decision, an unknown or
  required redaction, or an empty remainder blocks the prompt.
\<close>

definition admitted_content ::
  "string \<Rightarrow> structured_llm_request \<Rightarrow> llm_preflight_result \<Rightarrow> blocked_error + prompt_content_item list" where
  "admitted_content provider_id r pf =
     (let decision = lp_policy_decision pf;
          redacted = lp_redacted_content_ids pf;
          known = map pc_id (sr_content r);
          required = filter (\<lambda>i. i \<in> set redacted) (sorted_set (sr_required_content_ids r));
          included = filter (\<lambda>i. pc_id i \<notin> set redacted) (sr_content r)
      in if \<not> pd_allowed decision
         then Inl (blocked (if pd_reasons decision = [] \<or> py_join ''; '' (pd_reasons decision) = []
                            then ''Prompt egress denied by policy''
                            else py_join ''; '' (pd_reasons decision)) provider_id r decision None [] [])
         else if \<not> set redacted \<subseteq> set known
         then Inl (blocked ''Policy returned unknown redaction identifiers'' provider_id r decision
                     (Some ''invalid_policy_redaction'') [] [])
         else if required \<noteq> []
         then Inl (blocked ''Policy redacted required prompt content'' provider_id r decision
                     (Some ''required_prompt_content_redacted'')
                     (map (\<lambda>i. (i, case map_of (rev (map (\<lambda>c. (pc_id c, pc_kind c)) (sr_content r))) i of
                                     Some k \<Rightarrow> k | None \<Rightarrow> [])) required)
                     [''remove_sensitive_literal'', ''review_provider_policy''])
         else if included = []
         then Inl (blocked ''Policy redacted all prompt content'' provider_id r decision
                     (Some ''all_prompt_content_redacted'') [] [''review_provider_policy''])
         else Inr included)"

section \<open>The call\<close>

text \<open>
  The readings of the clock and of the identifier source a call makes, in their order
  (readings of the same step are one), and what other clients do to the ledger while the
  provider works.
\<close>

record gateway_env =
  ge_finops :: bool
  ge_decimals :: decimal_lib
  ge_precall_at :: timestamp
  ge_priced_at :: timestamp
  ge_actual_at :: timestamp
  ge_usage_at :: timestamp
  ge_update_at :: timestamp
  ge_reservation_id :: string
  ge_usage_id :: string
  ge_during :: "finops_store \<Rightarrow> finops_store"

text \<open>
  The state of an attempt when it ends: the reservation it holds, whether the provider was
  called, and the ledger.
\<close>

record attempt_state =
  at_reservation :: "llm_budget_reservation option"
  at_dispatched :: bool
  at_ledger :: finops_store

text \<open>The admission: \<open>None\<close> for a call that is not priced.\<close>

definition admit_call ::
  "gateway_env \<Rightarrow> string \<Rightarrow> string \<Rightarrow> llm_provider \<Rightarrow> token_estimate \<Rightarrow> finops_store \<Rightarrow>
   (attempt_error + cost_estimate option) \<times> attempt_state" where
  "admit_call env tenant provider_id p est s =
     (let undecided = \<lparr>at_reservation = None, at_dispatched = False, at_ledger = s\<rparr>
      in if \<not> ge_finops env then (Inr None, undecided)
         else case declared_model p of
           None \<Rightarrow>
             if has_active_budget tenant None (ge_precall_at env) s
             then (Inl (Budget_Exceeded ''Active budget requires the provider to declare its model id''), undecided)
             else (Inr None, undecided)
         | Some m \<Rightarrow>
             (case finops_estimate tenant provider_id m (te_input_tokens est) (te_output_tokens est)
                     (te_cached_input_tokens est) (ge_precall_at env) False s of
                Inl e \<Rightarrow> (Inl (Ledger_Raised e), undecided)
              | Inr None \<Rightarrow>
                  if has_active_budget tenant None (ge_precall_at env) s
                  then (Inl (Budget_Exceeded ''Active budget requires applicable model pricing''), undecided)
                  else (Inr None, undecided)
              | Inr (Some cost) \<Rightarrow>
                  (case finops_reserve (ge_decimals env) tenant provider_id m cost (ge_precall_at env)
                          (ge_reservation_id env) s of
                     (Inl e, s1) \<Rightarrow> (Inl (Ledger_Raised e), undecided\<lparr>at_ledger := s1\<rparr>)
                   | (Inr r, s1) \<Rightarrow>
                       (case start_llm_budget_reservation (lbr_tenant_id r) (lbr_id r) (ge_update_at env) s1 of
                          (Inl e, s2) \<Rightarrow>
                            (Inl (Ledger_Raised e),
                             \<lparr>at_reservation = Some r, at_dispatched = False, at_ledger = s2\<rparr>)
                        | (Inr _, s2) \<Rightarrow>
                            (Inr (Some cost),
                             \<lparr>at_reservation = Some r, at_dispatched = False, at_ledger = s2\<rparr>)))))"

definition usage_of ::
  "gateway_env \<Rightarrow> string \<Rightarrow> string \<Rightarrow> string \<Rightarrow> token_estimate \<Rightarrow> llm_response \<Rightarrow> cost_estimate option \<Rightarrow>
   cost_estimate option \<Rightarrow> cost_estimate option \<Rightarrow> llm_usage_event" where
  "usage_of env tenant provider_id purpose est resp precall priced actual =
     (let applied = (case actual of Some c \<Rightarrow> Some c | None \<Rightarrow>
                       (case priced of Some c \<Rightarrow> Some c | None \<Rightarrow> precall));
          amount_text = (\<lambda>c. dl_show (ge_decimals env) (ce_amount c))
      in \<lparr>lue_tenant_id = tenant, lue_provider_id = provider_id, lue_model_id = lr_model_id resp,
          lue_purpose = purpose, lue_estimated_input_tokens = te_input_tokens est,
          lue_estimated_output_tokens = te_output_tokens est, lue_input_tokens = lr_input_tokens resp,
          lue_output_tokens = lr_output_tokens resp, lue_latency_ms = lr_latency_ms resp,
          lue_cached_input_tokens = lr_cached_input_tokens resp,
          lue_estimated_cost = (case priced of Some c \<Rightarrow> Some (amount_text c) | None \<Rightarrow> te_estimated_cost est),
          lue_actual_cost = map_option amount_text actual,
          lue_currency = map_option ce_currency applied, lue_pricing_id = map_option ce_pricing_id applied,
          lue_id = ge_usage_id env, lue_created_at = ge_usage_at env\<rparr>)"

text \<open>An estimate after the call: priced at the time of the reservation, if there is one.\<close>

definition later_estimate ::
  "gateway_env \<Rightarrow> string \<Rightarrow> string \<Rightarrow> string \<Rightarrow> int \<Rightarrow> int \<Rightarrow> int \<Rightarrow> timestamp \<Rightarrow> attempt_state \<Rightarrow>
   finops_error + cost_estimate option" where
  "later_estimate env tenant provider_id model input output cached now st =
     (if ge_finops env
      then finops_estimate tenant provider_id model input output cached
             (case at_reservation st of Some r \<Rightarrow> lbr_created_at r | None \<Rightarrow> now) False (at_ledger st)
      else Inr None)"

definition account_call ::
  "gateway_env \<Rightarrow> string \<Rightarrow> string \<Rightarrow> string \<Rightarrow> token_estimate \<Rightarrow> llm_response \<Rightarrow> cost_estimate option \<Rightarrow>
   attempt_state \<Rightarrow> (attempt_error + llm_usage_event) \<times> attempt_state" where
  "account_call env tenant provider_id purpose est resp precall st =
     (case later_estimate env tenant provider_id (lr_model_id resp) (te_input_tokens est)
             (te_output_tokens est) (te_cached_input_tokens est) (ge_priced_at env) st of
        Inl e \<Rightarrow> (Inl (Ledger_Raised e), st)
      | Inr priced \<Rightarrow>
          (case later_estimate env tenant provider_id (lr_model_id resp) (lr_input_tokens resp)
                  (lr_output_tokens resp) (lr_cached_input_tokens resp) (ge_actual_at env) st of
             Inl e \<Rightarrow> (Inl (Ledger_Raised e), st)
           | Inr actual \<Rightarrow>
               let u = usage_of env tenant provider_id purpose est resp precall priced actual
               in case llm_usage_event_post_init u of
                    Inl e \<Rightarrow> (Inl (Usage_Raised e), st)
                  | Inr _ \<Rightarrow>
                      (case at_reservation st of
                         Some r \<Rightarrow>
                           (let u' = u\<lparr>lue_created_at := lbr_created_at r\<rparr>
                            in case settle_llm_budget_reservation (ge_decimals env) (lbr_tenant_id r) (lbr_id r) u'
                                      (ge_update_at env) (at_ledger st) of
                                 (Inl e, s') \<Rightarrow> (Inl (Ledger_Raised e), st\<lparr>at_ledger := s'\<rparr>)
                               | (Inr _, s') \<Rightarrow> (Inr u', st\<lparr>at_ledger := s'\<rparr>))
                       | None \<Rightarrow>
                           (case record_llm_usage u (at_ledger st) of
                              (Inl e, s') \<Rightarrow> (Inl (Ledger_Raised e), st\<lparr>at_ledger := s'\<rparr>)
                            | (Inr _, s') \<Rightarrow> (Inr u, st\<lparr>at_ledger := s'\<rparr>)))))"

fun provider_error :: "provider_failure \<Rightarrow> attempt_error" where
  "provider_error (Ordinary e) = Provider_Raised e"
| "provider_error (Interrupt e) = Base_Raised e"

definition gateway_attempt ::
  "gateway_env \<Rightarrow> string \<Rightarrow> string \<Rightarrow> llm_provider \<Rightarrow> structured_llm_request \<Rightarrow> policy_decision \<Rightarrow>
   prompt_content_item list \<Rightarrow> finops_store \<Rightarrow> (attempt_error + llm_gateway_result) \<times> attempt_state" where
  "gateway_attempt env tenant provider_id p r decision included s =
     (let payload = provider_payload_of r included;
          st0 = \<lparr>at_reservation = None, at_dispatched = False, at_ledger = s\<rparr>
      in if \<not> structured_output p then (Inl (Capability_Missing provider_id), st0)
         else case pr_estimate p payload of
           Inl e \<Rightarrow> (Inl (provider_error e), st0)
         | Inr est \<Rightarrow>
             (case admit_call env tenant provider_id p est s of
                (Inl e, st1) \<Rightarrow> (Inl e, st1)
              | (Inr precall, st1) \<Rightarrow>
                  (let st2 = st1\<lparr>at_dispatched := True, at_ledger := ge_during env (at_ledger st1)\<rparr>
                   in case pr_generate p payload of
                        Inl e \<Rightarrow> (Inl (provider_error e), st2)
                      | Inr resp \<Rightarrow>
                          (case account_call env tenant provider_id (sr_purpose r) est resp precall st2 of
                             (Inl e, st3) \<Rightarrow> (Inl e, st3)
                           | (Inr u, st3) \<Rightarrow>
                               (Inr \<lparr>gr_response = resp, gr_estimate = est, gr_policy_decision = decision,
                                     gr_included_content_ids = map pc_id included, gr_usage = u\<rparr>, st3)))))"

text \<open>The handler: the reservation of a call that was made is kept as uncertain.\<close>

definition reported_error :: "string \<Rightarrow> attempt_error \<Rightarrow> gateway_error" where
  "reported_error provider_id e =
     (case e of
        Ledger_Raised Budget_Unavailable \<Rightarrow>
          Gateway_Raised (Budget_Exceeded ''Monthly cost including reservations exceeds budget'')
      | Ledger_Raised _ \<Rightarrow> Provider_Call_Failed provider_id e
      | Usage_Raised _ \<Rightarrow> Provider_Call_Failed provider_id e
      | Provider_Raised _ \<Rightarrow> Provider_Call_Failed provider_id e
      | _ \<Rightarrow> Gateway_Raised e)"

definition clean_up :: "gateway_env \<Rightarrow> string \<Rightarrow> attempt_error \<Rightarrow> attempt_state \<Rightarrow> gateway_error \<times> finops_store" where
  "clean_up env provider_id e st =
     (case at_reservation st of
        None \<Rightarrow> (reported_error provider_id e, at_ledger st)
      | Some r \<Rightarrow>
          if at_dispatched st
          then (reported_error provider_id e,
                mark_llm_budget_uncertain (lbr_tenant_id r) (lbr_id r) (ge_update_at env) (at_ledger st))
          else (case release_undispatched_llm_budget (lbr_tenant_id r) (lbr_id r) (ge_update_at env) (at_ledger st) of
                  (Inl e', s') \<Rightarrow> (Gateway_Raised (Ledger_Raised e'), s')
                | (Inr _, s') \<Rightarrow> (reported_error provider_id e, s')))"

text \<open>
  \<open>generate_structured\<close>: the result with the ledger after it, and the payload the provider
  was called with, if it was.
\<close>

definition gateway_generate ::
  "(canonical_request \<Rightarrow> string) \<Rightarrow> (string \<Rightarrow> llm_provider option) \<Rightarrow> policy_engine \<Rightarrow> gateway_env \<Rightarrow>
   string \<Rightarrow> string \<Rightarrow> structured_llm_request \<Rightarrow> string option \<Rightarrow> finops_store \<Rightarrow>
   (gateway_error + llm_gateway_result) \<times> provider_payload option \<times> finops_store" where
  "gateway_generate digest providers policy env tenant provider_id r source s =
     (case preflight_structured digest providers policy tenant provider_id r source of
        Inl e \<Rightarrow> (Inl (Gateway_Raised e), None, s)
      | Inr pf \<Rightarrow>
          (case providers provider_id of
             None \<Rightarrow> (Inl (Gateway_Raised (Provider_Not_Found provider_id)), None, s)
           | Some p \<Rightarrow>
               (case admitted_content provider_id r pf of
                  Inl b \<Rightarrow> (Inl (Prompt_Egress_Blocked b), None, s)
                | Inr included \<Rightarrow>
                    (case gateway_attempt env tenant provider_id p r (lp_policy_decision pf) included s of
                       (Inr res, st) \<Rightarrow> (Inr res, Some (provider_payload_of r included), at_ledger st)
                     | (Inl e, st) \<Rightarrow>
                         (let (err, s') = clean_up env provider_id e st
                          in (Inl err,
                              if at_dispatched st then Some (provider_payload_of r included) else None, s'))))))"

end
