(* ===== verification/Egress_Safety.thy ===== *)
theory Egress_Safety
  imports Egress_Policy
begin

text \<open>
  The properties of the egress policies: the table keeps one policy per tenant, provider
  and data source, the newest write is the one that counts, and a prompt is allowed only
  under a policy that permits it.
\<close>

definition policy_key :: "provider_egress_policy \<Rightarrow> string \<times> string \<times> string option" where
  "policy_key p = (ep_tenant_id p, ep_provider_id p, ep_data_source_id p)"

lemma same_policy_key_iff: "same_policy_key p x \<longleftrightarrow> policy_key x = policy_key p"
  by (auto simp: same_policy_key_def policy_key_def)

interpretation overwritten: keyed_update policy_key overwrite_policy
  by unfold_locales (simp add: overwrite_policy_def policy_key_def)

lemma upsert_unique:
  assumes "unique_key policy_key (es_policies s)" "upsert_provider_egress_policy p s = (v, s')"
  shows "unique_key policy_key (es_policies s')"
proof (cases "fetch_one (same_policy_key p) (es_policies s)")
  case None
  then have "\<forall>x \<in> set (es_policies s). policy_key x \<noteq> policy_key p"
    by (simp add: fetch_one_None_iff same_policy_key_iff)
  then show ?thesis
    using assms None by (auto simp: upsert_provider_egress_policy_def Let_def unique_key_append split: if_splits)
next
  case (Some x)
  then show ?thesis
    using assms overwritten.unique_key_sql_update[OF assms(1)]
    by (auto simp: upsert_provider_egress_policy_def Let_def split: if_splits)
qed

lemma effective_source:
  assumes u: "unique_key policy_key (es_policies s)" and p: "p \<in> set (es_policies s)" "ep_data_source_id p = Some d"
  shows "get_effective_provider_egress_policy s (ep_tenant_id p) (ep_provider_id p) (Some d) = Some p"
proof -
  let ?P = "\<lambda>x. ep_tenant_id x = ep_tenant_id p \<and> ep_provider_id x = ep_provider_id p
    \<and> (ep_data_source_id x = Some d \<or> ep_data_source_id x = None)"
  let ?k = "\<lambda>x. if ep_data_source_id x = Some d then 0 else (1::nat)"
  obtain r where r: "first_by ?k ?P (es_policies s) = Some r"
    using first_by_None[of ?k ?P "es_policies s"] p by (cases "first_by ?k ?P (es_policies s)") auto
  note rs = first_by_Some[OF r]
  have "?k r \<le> ?k p" using rs p by blast
  then have "ep_data_source_id r = Some d" using p(2) by (simp split: if_splits)
  then have "policy_key r = policy_key p" using rs p(2) by (simp add: policy_key_def)
  then have "r = p" using unique_key_eq[OF u] rs p(1) by blast
  then show ?thesis using r by (simp add: get_effective_provider_egress_policy_def)
qed

lemma effective_tenant:
  assumes u: "unique_key policy_key (es_policies s)" and p: "p \<in> set (es_policies s)" "ep_data_source_id p = None"
  shows "get_effective_provider_egress_policy s (ep_tenant_id p) (ep_provider_id p) None = Some p"
proof -
  have "fetch_one (\<lambda>x. ep_tenant_id x = ep_tenant_id p \<and> ep_provider_id x = ep_provider_id p
      \<and> ep_data_source_id x = None) (es_policies s) = Some p"
    by (rule unique_key_fetch[where key = policy_key, OF u p(1)]) (use p(2) in \<open>auto simp: policy_key_def\<close>)
  then show ?thesis by (simp add: get_effective_provider_egress_policy_def)
qed

text \<open>
  A policy that is written is the one in effect for its tenant, provider and data source
  from then on, whatever tenant-wide policy exists beside it, with every field as written;
  only the identifier of a policy it replaces is kept.
\<close>

theorem written_policy_takes_effect:
  assumes "unique_key policy_key (es_policies s)"
    and "upsert_provider_egress_policy p s = (Inr stored, s')"
  shows "get_effective_provider_egress_policy s' (ep_tenant_id p) (ep_provider_id p) (ep_data_source_id p)
       = Some stored
    \<and> stored = p\<lparr>ep_id := ep_id stored\<rparr>
    \<and> unique_key policy_key (es_policies s') \<and> length (es_audit s') = Suc (length (es_audit s))"
proof -
  have u: "unique_key policy_key (es_policies s')" by (rule upsert_unique[OF assms])
  have a: "length (es_audit s') = Suc (length (es_audit s))"
    using assms(2) by (auto simp: upsert_provider_egress_policy_def Let_def split: if_splits)
  have st: "stored \<in> set (es_policies s') \<and> stored = p\<lparr>ep_id := ep_id stored\<rparr>"
  proof (cases "fetch_one (same_policy_key p) (es_policies s)")
    case None
    then show ?thesis
      using assms(2) by (auto simp: upsert_provider_egress_policy_def Let_def split: if_splits)
  next
    case (Some x)
    note x = fetch_one_Some_iff_mem[OF Some]
    have "stored = overwrite_policy p x" "es_policies s' = sql_update (same_policy_key p) (overwrite_policy p) (es_policies s)"
      using assms(2) Some by (auto simp: upsert_provider_egress_policy_def Let_def split: if_splits)
    then show ?thesis
      using x by (auto simp: set_sql_update same_policy_key_def overwrite_policy_def)
  qed
  have k: "ep_tenant_id stored = ep_tenant_id p" "ep_provider_id stored = ep_provider_id p"
    "ep_data_source_id stored = ep_data_source_id p"
    using arg_cong[where f = ep_tenant_id, OF conjunct2[OF st]] arg_cong[where f = ep_provider_id, OF conjunct2[OF st]]
      arg_cong[where f = ep_data_source_id, OF conjunct2[OF st]] by simp_all
  have "get_effective_provider_egress_policy s' (ep_tenant_id p) (ep_provider_id p) (ep_data_source_id p) = Some stored"
    using effective_source[OF u conjunct1[OF st]] effective_tenant[OF u conjunct1[OF st]] k
    by (cases "ep_data_source_id p") simp_all
  then show ?thesis using u a st by blast
qed

text \<open>
  C20: With explicit policies required, a prompt is allowed only under the policy stored for
  the tenant and provider, the data source's own or the tenant's: it permits the provider
  and the purpose, its residency and retention are those of the deployment, and every item
  of the manifest has a permitted kind and a readable classification that the policy admits
  or is redacted.
\<close>

theorem prompt_allowed_only_by_stored_policy:
  assumes "pd_allowed (question_prompt_egress en t p manifest source purpose)"
    and "qe_lookup en = Some (get_effective_provider_egress_policy s)" and "qe_require_explicit en"
  shows "\<exists>pol \<in> set (es_policies s). ep_tenant_id pol = t \<and> ep_provider_id pol = p
    \<and> (ep_data_source_id pol = None \<or> ep_data_source_id pol = source)
    \<and> ep_allowed pol \<and> (\<exists>u. purpose = Some u \<and> u \<in> set (ep_allowed_purposes pol))
    \<and> meta_get ''data_residency'' (deployment_of en p) = Meta_Text (ep_data_residency pol)
    \<and> meta_get ''retention_mode'' (deployment_of en p) = Meta_Text (retention_value (ep_retention_mode pol))
    \<and> (\<forall>e \<in> set manifest. \<exists>i k c. me_id e = Some i \<and> me_kind e = Some k
          \<and> k \<in> set (en_allowed_content_kinds (qe_base en))
          \<and> me_classification e = Some (classification_value c)
          \<and> (c \<le> ep_maximum_classification pol
             \<or> i \<in> set (pd_redacted_fields (question_prompt_egress en t p manifest source purpose))))"
  using assms(1)
proof (cases rule: question_allowed)
  case default
  then show ?thesis using assms(3) by simp
next
  case (policy f pol)
  have g: "get_effective_provider_egress_policy s t p source = Some pol" using policy(1,2) assms(2) by simp
  have m: "pol \<in> set (es_policies s)" "ep_tenant_id pol = t" "ep_provider_id pol = p"
    "ep_data_source_id pol = None \<or> ep_data_source_id pol = source"
    using g by (auto simp: get_effective_provider_egress_policy_def split: option.splits
        dest!: first_by_Some fetch_one_Some_iff_mem)
  have a: "pd_allowed (evaluate_prompt_manifest (qe_base en) t p manifest (ep_maximum_classification pol)
      (policy_metadata pol ''allowed'' (deployment_of en p)))"
    using assms(1) policy(7) by simp
  obtain ids where ids: "scan_manifest (en_allowed_content_kinds (qe_base en)) (ep_maximum_classification pol) manifest = Inr ids"
    "pd_redacted_fields (question_prompt_egress en t p manifest source purpose) = ids"
    by (rule evaluate_allowed[OF a]) (use policy(7) in simp)
  have items: "\<forall>e \<in> set manifest. \<exists>i k c. me_id e = Some i \<and> me_kind e = Some k
      \<and> k \<in> set (en_allowed_content_kinds (qe_base en)) \<and> me_classification e = Some (classification_value c)
      \<and> (c \<le> ep_maximum_classification pol \<or> i \<in> set ids)"
    using scan_manifest_covers[OF ids(1)] parse_classification_Some by metis
  show ?thesis
    by (rule bexI[OF _ m(1)]) (use m(2-4) policy(3-6) items in \<open>simp add: ids(2)\<close>)
qed

section \<open>Samples\<close>

definition sample_policy :: provider_egress_policy where
  "sample_policy =
     \<lparr>ep_tenant_id = ''acme'', ep_provider_id = ''openai'', ep_allowed_purposes = [''sql_generation''],
      ep_maximum_classification = INTERNAL, ep_data_residency = ''eu'', ep_retention_mode = Zero_Retention,
      ep_data_source_id = Some ''ds'', ep_allowed = True, ep_acknowledgement_digest = None,
      ep_acknowledged_by = None, ep_acknowledged_at = None, ep_id = ''pol'', ep_updated_at = 3\<rparr>"

definition tenant_wide_policy :: provider_egress_policy where
  "tenant_wide_policy = sample_policy\<lparr>ep_data_source_id := None, ep_allowed := False, ep_id := ''wide''\<rparr>"

definition empty_egress_store :: egress_store where
  "empty_egress_store =
     \<lparr>es_tenants = [''acme''], es_data_sources = [(''acme'', ''ds'')],
      es_policies = [tenant_wide_policy, sample_policy\<lparr>ep_id := ''old'', ep_maximum_classification := PII\<rparr>],
      es_audit = []\<rparr>"

definition sample_egress_store :: egress_store where
  "sample_egress_store = snd (upsert_provider_egress_policy sample_policy empty_egress_store)"

lemma empty_egress_unique: "unique_key policy_key (es_policies empty_egress_store)"
  by code_simp

lemma sample_upsert:
  "upsert_provider_egress_policy sample_policy empty_egress_store
     = (Inr (sample_policy\<lparr>ep_id := ''old''\<rparr>), sample_egress_store)"
proof -
  have "fst (upsert_provider_egress_policy sample_policy empty_egress_store) = Inr (sample_policy\<lparr>ep_id := ''old''\<rparr>)"
    by code_simp
  then show ?thesis by (simp add: sample_egress_store_def prod_eq_iff)
qed

lemma written_policy_takes_effect_witness:
  "get_effective_provider_egress_policy sample_egress_store ''acme'' ''openai'' (Some ''ds'')
     = Some (sample_policy\<lparr>ep_id := ''old''\<rparr>)"
  using written_policy_takes_effect[OF empty_egress_unique sample_upsert] by (simp add: sample_policy_def)

definition sample_engine :: schema_question_engine where
  "sample_engine =
     schema_question_engine_init [] INTERNAL (Some (get_effective_provider_egress_policy sample_egress_store))
       [(''openai'', [(''data_residency'', Meta_Text ''eu''), (''retention_mode'', Meta_Text ''zero'')])] True"

definition sample_manifest :: "manifest_entry list" where
  "sample_manifest =
     [\<lparr>me_id = Some ''q'', me_kind = Some ''user_question'', me_classification = Some ''internal'', me_fields = []\<rparr>,
      \<lparr>me_id = Some ''t'', me_kind = Some ''schema_object'', me_classification = Some ''pii'', me_fields = []\<rparr>]"

lemma sample_prompt_allowed:
  "pd_allowed (question_prompt_egress sample_engine ''acme'' ''openai'' sample_manifest (Some ''ds'') (Some ''sql_generation''))"
  by code_simp

lemma prompt_allowed_only_by_stored_policy_witness:
  "\<exists>pol \<in> set (es_policies sample_egress_store). ep_allowed pol \<and> ''sql_generation'' \<in> set (ep_allowed_purposes pol)
     \<and> ''t'' \<in> set (pd_redacted_fields (question_prompt_egress sample_engine ''acme'' ''openai'' sample_manifest
          (Some ''ds'') (Some ''sql_generation'')))"
proof -
  have "pd_redacted_fields (question_prompt_egress sample_engine ''acme'' ''openai'' sample_manifest
      (Some ''ds'') (Some ''sql_generation'')) = [''t'']"
    by code_simp
  then show ?thesis
    using prompt_allowed_only_by_stored_policy[OF sample_prompt_allowed, of sample_egress_store]
    by (auto simp: sample_engine_def schema_question_engine_init_def)
qed

end
