(* ===== verification/Finops_Invariants.thy ===== *)
theory Finops_Invariants
  imports Finops_Service
begin

text \<open>
  What the ledger guarantees: how each transaction changes the sum of spent and reserved
  money of a month, that admission respects the budget, and that over any history the
  budget is exceeded at most by what settled calls cost more than they had reserved.
\<close>

section \<open>The committed amount of a period\<close>

definition usage_cost :: "decimal_lib \<Rightarrow> llm_usage_event \<Rightarrow> rat" where
  "usage_cost lib e =
     (case dl_parse lib (first_text [lue_actual_cost e, lue_estimated_cost e]) of
        Finite q \<Rightarrow> q | _ \<Rightarrow> 0)"

definition usage_share ::
  "decimal_lib \<Rightarrow> string \<Rightarrow> string \<Rightarrow> timestamp \<times> timestamp \<Rightarrow> llm_usage_event \<Rightarrow> rat" where
  "usage_share lib t c p e = (if usage_in_period t c (fst p) (snd p) e then usage_cost lib e else 0)"

definition reservation_share ::
  "string \<Rightarrow> string \<Rightarrow> timestamp \<times> timestamp \<Rightarrow> llm_budget_reservation \<Rightarrow> rat" where
  "reservation_share t c p r = (if reservation_counts t c (fst p) r then reservation_cost r else 0)"

definition committed ::
  "decimal_lib \<Rightarrow> string \<Rightarrow> string \<Rightarrow> timestamp \<times> timestamp \<Rightarrow> finops_store \<Rightarrow> rat" where
  "committed lib t c p s =
     (\<Sum>e\<leftarrow>fs_usage s. usage_share lib t c p e) + (\<Sum>r\<leftarrow>fs_reservations s. reservation_share t c p r)"

definition costs_readable :: "decimal_lib \<Rightarrow> finops_store \<Rightarrow> bool" where
  "costs_readable lib s =
     (\<forall>e \<in> set (fs_usage s). lue_currency e \<noteq> None \<longrightarrow>
        (\<exists>q. dl_parse lib (first_text [lue_actual_cost e, lue_estimated_cost e]) = Finite q))"

lemma fold_add_reservation:
  "lbb_spent (fold add_reservation rs b) + lbb_reserved (fold add_reservation rs b)
     = lbb_spent b + lbb_reserved b + (\<Sum>r\<leftarrow>rs. reservation_cost r)"
  by (induction rs arbitrary: b) (auto simp: add_reservation_def)

lemma collect_costs:
  assumes "\<forall>e \<in> set es. \<exists>q. dl_parse lib (first_text [lue_actual_cost e, lue_estimated_cost e]) = Finite q"
  shows "collect_results (map (\<lambda>e. stored_cost lib [lue_actual_cost e, lue_estimated_cost e]) es)
    = Inr (map (usage_cost lib) es)"
  using assms
proof (induction es)
  case (Cons e es)
  then obtain q where "dl_parse lib (first_text [lue_actual_cost e, lue_estimated_cost e]) = Finite q"
    by auto
  then show ?case using Cons by (simp add: stored_cost_def usage_cost_def)
qed simp

lemma balance_committed:
  assumes "costs_readable lib s"
  shows "\<exists>b. llm_budget_balance lib t c (fst p) (snd p) s = Inr b
    \<and> lbb_spent b + lbb_reserved b = committed lib t c p s"
proof -
  let ?es = "filter (usage_in_period t c (fst p) (snd p)) (fs_usage s)"
  have "collect_results (map (\<lambda>e. stored_cost lib [lue_actual_cost e, lue_estimated_cost e]) ?es)
      = Inr (map (usage_cost lib) ?es)"
    by (rule collect_costs) (use assms in \<open>auto simp: costs_readable_def usage_in_period_def\<close>)
  moreover have "sum_list (map (usage_cost lib) ?es) = (\<Sum>e\<leftarrow>fs_usage s. usage_share lib t c p e)"
    unfolding usage_share_def by (rule sum_list_map_filter')
  moreover have "(\<Sum>r\<leftarrow>filter (reservation_counts t c (fst p)) (fs_reservations s). reservation_cost r)
      = (\<Sum>r\<leftarrow>fs_reservations s. reservation_share t c p r)"
    unfolding reservation_share_def by (rule sum_list_map_filter')
  ultimately show ?thesis by (simp add: llm_budget_balance_def fold_add_reservation committed_def)
qed

text \<open>An update of the one row a condition selects changes a sum by that row's share.\<close>

lemma sum_list_update_unique:
  fixes g :: "'r \<Rightarrow> rat"
  assumes "unique_key key rows" "r \<in> set rows" "P r" "\<And>x. P x \<Longrightarrow> key x = key r"
  shows "(\<Sum>x\<leftarrow>sql_update P f rows. g x) = (\<Sum>x\<leftarrow>rows. g x) - g r + g (f r)"
  using assms
proof (induction rows)
  case (Cons x rows)
  have u: "unique_key key rows" "key x \<notin> key ` set rows"
    using Cons.prems(1) by (simp_all add: unique_key_def)
  show ?case
  proof (cases "x = r")
    case True
    have "\<not> P y" if "y \<in> set rows" for y using that True u(2) Cons.prems(4)[of y] by (metis imageI)
    then have "sql_update P f rows = rows" by (simp add: sql_update_def map_idI)
    then show ?thesis using True Cons.prems(3) by (simp add: sql_update_def)
  next
    case False
    then have r: "r \<in> set rows" using Cons.prems(2) by simp
    then have "\<not> P x" using u(2) Cons.prems(4)[of x] by (metis imageI)
    then show ?thesis using Cons.IH[OF u(1) r Cons.prems(3,4)] by (simp add: sql_update_def)
  qed
qed simp

section \<open>The effect of each transaction\<close>

text \<open>An open reservation has no cost of its own yet, its period holds its creation.\<close>

definition reservation_row_ok :: "llm_budget_reservation \<Rightarrow> bool" where
  "reservation_row_ok r =
     ((lbr_state r \<in> {Reserved, In_Flight, Uncertain} \<longrightarrow>
         lbr_actual_cost r = None \<and> lbr_usage_event_id r = None)
      \<and> (lbr_period_start r, lbr_period_end r) = month_bounds (lbr_created_at r) \<and> 0 \<le> lbr_amount r)"

definition ledger_ok :: "decimal_lib \<Rightarrow> finops_store \<Rightarrow> bool" where
  "ledger_ok lib s =
     (unique_key lbr_id (fs_reservations s) \<and> (\<forall>r \<in> set (fs_reservations s). reservation_row_ok r)
      \<and> costs_readable lib s)"

lemma lock_simps [simp]:
  "fs_reservations (lock_llm_budget t c s) = fs_reservations s"
  "fs_usage (lock_llm_budget t c s) = fs_usage s"
  "fs_budgets (lock_llm_budget t c s) = fs_budgets s"
  "fs_pricing (lock_llm_budget t c s) = fs_pricing s"
  "fs_tenants (lock_llm_budget t c s) = fs_tenants s"
  "get_effective_tenant_budget t' c' i (lock_llm_budget t c s) = get_effective_tenant_budget t' c' i s"
  by (simp_all add: lock_llm_budget_def get_effective_tenant_budget_def)

lemma update_reservations_simps [simp]:
  "fs_reservations (update_reservations P f s) = sql_update P f (fs_reservations s)"
  "fs_usage (update_reservations P f s) = fs_usage s"
  by (simp_all add: update_reservations_def)

lemma audit_simps [simp]:
  "fs_reservations (append_finops_audit e s) = fs_reservations s"
  "fs_usage (append_finops_audit e s) = fs_usage s"
  by (simp_all add: append_finops_audit_def)

lemma committed_cong:
  "fs_usage s' = fs_usage s \<Longrightarrow> fs_reservations s' = fs_reservations s \<Longrightarrow> committed lib t c p s' = committed lib t c p s"
  by (simp add: committed_def)

lemma ledger_ok_cong:
  "ledger_ok lib s \<Longrightarrow> fs_usage s' = fs_usage s \<Longrightarrow> fs_reservations s' = fs_reservations s \<Longrightarrow> ledger_ok lib s'"
  by (simp add: ledger_ok_def costs_readable_def)

lemma ledger_ok_update:
  assumes ok: "ledger_ok lib s"
    and f: "\<And>r. P r \<Longrightarrow> r \<in> set (fs_reservations s) \<Longrightarrow> lbr_id (f r) = lbr_id r \<and> reservation_row_ok (f r)"
  shows "ledger_ok lib (update_reservations P f s)"
proof -
  have "map lbr_id (sql_update P f (fs_reservations s)) = map lbr_id (fs_reservations s)"
    using f by (auto simp: sql_update_def)
  then have "unique_key lbr_id (sql_update P f (fs_reservations s))"
    using ok by (simp add: ledger_ok_def unique_key_def)
  moreover have "\<forall>r \<in> set (sql_update P f (fs_reservations s)). reservation_row_ok r"
    using ok f by (auto simp: ledger_ok_def dest!: sql_update_mem)
  ultimately show ?thesis using ok by (simp add: ledger_ok_def costs_readable_def)
qed

lemma committed_update:
  assumes ok: "ledger_ok lib s" and r: "r \<in> set (fs_reservations s)" "P r"
    and P: "\<And>x. P x \<Longrightarrow> lbr_id x = lbr_id r"
  shows "committed lib t c p (update_reservations P f s)
    = committed lib t c p s - reservation_share t c p r + reservation_share t c p (f r)"
proof -
  have u: "unique_key lbr_id (fs_reservations s)" using ok by (simp add: ledger_ok_def)
  show ?thesis
    using sum_list_update_unique[where g = "reservation_share t c p" and P = P and f = f, OF u r P]
    by (simp add: committed_def)
qed

lemma update_none: "\<forall>r \<in> set (fs_reservations s). \<not> P r \<Longrightarrow> update_reservations P f s = s"
  by (simp add: update_reservations_def sql_update_def map_idI)

lemma get_reservation_row:
  assumes "ledger_ok lib s" "get_llm_budget_reservation t i s = Some r"
  shows "r \<in> set (fs_reservations s)" "lbr_tenant_id r = t" "lbr_id r = i" "reservation_row_ok r"
    "\<And>x. x \<in> set (fs_reservations s) \<Longrightarrow> lbr_id x = i \<Longrightarrow> x = r"
proof -
  have m: "r \<in> set (fs_reservations s) \<and> lbr_tenant_id r = t \<and> lbr_id r = i"
    using assms(2) unfolding get_llm_budget_reservation_def by (rule fetch_one_Some_iff_mem)
  then show "r \<in> set (fs_reservations s)" "lbr_tenant_id r = t" "lbr_id r = i" by simp_all
  show "reservation_row_ok r" using m assms(1) by (simp add: ledger_ok_def)
  show "x = r" if "x \<in> set (fs_reservations s)" "lbr_id x = i" for x
    using m that assms(1) unique_key_eq[of lbr_id "fs_reservations s" x r] by (simp add: ledger_ok_def)
qed

text \<open>An open row that stays open keeps its share; one that is released loses it.\<close>

definition open_row :: "reservation_state \<Rightarrow> timestamp \<Rightarrow> llm_budget_reservation \<Rightarrow> llm_budget_reservation" where
  "open_row st now r = r\<lparr>lbr_state := st, lbr_updated_at := now\<rparr>"

lemma share_open:
  "lbr_state r \<in> {Reserved, In_Flight, Uncertain} \<Longrightarrow> st \<in> {Reserved, In_Flight, Uncertain} \<Longrightarrow>
     reservation_share t c p (open_row st now r) = reservation_share t c p r"
  by (cases "lbr_actual_cost r")
    (auto simp: open_row_def reservation_share_def reservation_counts_def reservation_cost_def)

lemma share_nonneg: "reservation_row_ok r \<Longrightarrow> lbr_state r \<in> {Reserved, In_Flight, Uncertain} \<Longrightarrow>
    0 \<le> reservation_share t c p r"
  by (auto simp: reservation_share_def reservation_row_ok_def reservation_cost_def)

lemma share_released:
  "reservation_share t c p (r\<lparr>lbr_state := Released, lbr_actual_cost := a, lbr_updated_at := now\<rparr>) = 0"
  by (simp add: reservation_share_def reservation_counts_def)

text \<open>Moving open rows to an open state.\<close>

lemma open_move:
  assumes ok: "ledger_ok lib s" and st: "st \<in> {Reserved, In_Flight, Uncertain}"
    and states: "set states \<subseteq> {Reserved, In_Flight, Uncertain}"
  shows "ledger_ok lib (update_reservations (in_states t' i states) (open_row st now) s)
    \<and> committed lib t c p (update_reservations (in_states t' i states) (open_row st now) s) = committed lib t c p s"
proof
  let ?f = "open_row st now"
  show "ledger_ok lib (update_reservations (in_states t' i states) ?f s)"
  proof (rule ledger_ok_update[OF ok])
    fix r assume "in_states t' i states r" "r \<in> set (fs_reservations s)"
    then have "lbr_state r \<in> {Reserved, In_Flight, Uncertain}" "reservation_row_ok r"
      using states ok by (auto simp: in_states_def ledger_ok_def)
    then show "lbr_id (?f r) = lbr_id r \<and> reservation_row_ok (?f r)"
      using st by (simp add: open_row_def reservation_row_ok_def)
  qed
  show "committed lib t c p (update_reservations (in_states t' i states) ?f s) = committed lib t c p s"
  proof (cases "\<exists>r \<in> set (fs_reservations s). in_states t' i states r")
    case True
    then obtain r where r: "r \<in> set (fs_reservations s)" "in_states t' i states r" by blast
    then have "lbr_state r \<in> {Reserved, In_Flight, Uncertain}" using states by (auto simp: in_states_def)
    from share_open[OF this st, of t c p now]
      committed_update[where P = "in_states t' i states" and f = ?f, OF ok r]
    show ?thesis using r(2) by (simp add: in_states_def)
  next
    case False
    then show ?thesis by (simp add: update_none)
  qed
qed

text \<open>Releasing a reservation only lowers what is committed.\<close>

definition release_row :: "timestamp \<Rightarrow> llm_budget_reservation \<Rightarrow> llm_budget_reservation" where
  "release_row now r = r\<lparr>lbr_state := Released, lbr_actual_cost := Some 0, lbr_updated_at := now\<rparr>"

lemma committed_close:
  assumes ok: "ledger_ok lib s" and P: "\<And>x. P x \<Longrightarrow> lbr_id x = i"
    and f: "\<And>r. P r \<Longrightarrow> r \<in> set (fs_reservations s) \<Longrightarrow> lbr_id (f r) = lbr_id r \<and> reservation_row_ok (f r)
      \<and> reservation_share t c p (f r) \<le> reservation_share t c p r + m"
    and m: "0 \<le> m"
  shows "ledger_ok lib (update_reservations P f s)
    \<and> committed lib t c p (update_reservations P f s) \<le> committed lib t c p s + m"
proof
  show "ledger_ok lib (update_reservations P f s)" by (rule ledger_ok_update[OF ok]) (use f in blast)
  show "committed lib t c p (update_reservations P f s) \<le> committed lib t c p s + m"
  proof (cases "\<exists>r \<in> set (fs_reservations s). P r")
    case True
    then obtain r where r: "r \<in> set (fs_reservations s)" "P r" by blast
    have "lbr_id x = lbr_id r" if "P x" for x using P that r(2) by simp
    from committed_update[where P = P and f = f, OF ok r this] show ?thesis using f[OF r(2,1)] by simp
  next
    case False
    then show ?thesis using m by (simp add: update_none)
  qed
qed

lemma release_committed:
  assumes ok: "ledger_ok lib s" and r: "release_undispatched_llm_budget t' i now s = (v, s')"
  shows "ledger_ok lib s' \<and> committed lib t c p s' \<le> committed lib t c p s"
proof (cases "get_llm_budget_reservation t' i s")
  case None
  then show ?thesis using ok r by (simp add: release_undispatched_llm_budget_def)
next
  case (Some r0)
  let ?s1 = "lock_llm_budget t' (lbr_currency r0) s"
  have ok1: "ledger_ok lib ?s1" by (rule ledger_ok_cong[OF ok]) simp_all
  have "ledger_ok lib (update_reservations (in_states t' i [Reserved, In_Flight]) (release_row now) ?s1)
      \<and> committed lib t c p (update_reservations (in_states t' i [Reserved, In_Flight]) (release_row now) ?s1)
        \<le> committed lib t c p ?s1 + 0"
  proof (rule committed_close[OF ok1])
    fix r assume r: "in_states t' i [Reserved, In_Flight] r" "r \<in> set (fs_reservations ?s1)"
    then have rr: "reservation_row_ok r" "lbr_state r \<in> {Reserved, In_Flight, Uncertain}"
      using ok by (auto simp: in_states_def ledger_ok_def)
    then show "lbr_id (release_row now r) = lbr_id r \<and> reservation_row_ok (release_row now r)
        \<and> reservation_share t c p (release_row now r) \<le> reservation_share t c p r + 0"
      using share_nonneg[OF rr, of t c p] by (simp add: release_row_def share_released reservation_row_ok_def)
  qed (simp_all add: in_states_def)
  moreover have "committed lib t c p ?s1 = committed lib t c p s" by (rule committed_cong) simp_all
  moreover have "s' = update_reservations (in_states t' i [Reserved, In_Flight]) (release_row now) ?s1"
    using r Some by (simp add: release_undispatched_llm_budget_def release_row_def[abs_def])
  ultimately show ?thesis by simp
qed

text \<open>Reconciling by hand may raise it by the difference to what was reserved.\<close>

lemma reconcile_committed:
  assumes ok: "ledger_ok lib s"
    and r: "reconcile_llm_budget_reservation t' i cost actor reason now s = (Inr x, s')"
    and g: "get_llm_budget_reservation t' i s = Some r0"
  shows "ledger_ok lib s' \<and> committed lib t c p s' \<le> committed lib t c p s + max 0 (cost - lbr_amount r0)"
proof -
  let ?s1 = "lock_llm_budget t' (lbr_currency r0) s"
  let ?s2 = "update_reservations (reconcilable t' i now) (reconcile_row cost now) ?s1"
  note row = get_reservation_row[OF ok g]
  have c0: "0 \<le> cost" using r by (simp add: reconcile_llm_budget_reservation_def split: if_splits)
  have ok1: "ledger_ok lib ?s1" by (rule ledger_ok_cong[OF ok]) simp_all
  have "ledger_ok lib ?s2 \<and> committed lib t c p ?s2 \<le> committed lib t c p ?s1 + max 0 (cost - lbr_amount r0)"
  proof (rule committed_close[OF ok1])
    fix r assume r: "reconcilable t' i now r" "r \<in> set (fs_reservations ?s1)"
    then have eq: "r = r0" using row(5) by (simp add: reconcilable_def)
    have st: "lbr_state r \<in> {Reserved, In_Flight, Uncertain}" using r(1) by (auto simp: reconcilable_def)
    have "reservation_share t c p (reconcile_row cost now r)
        \<le> reservation_share t c p r + max 0 (cost - lbr_amount r0)"
      using st row(4) c0 unfolding eq
      by (auto simp: reservation_share_def reservation_counts_def reservation_cost_def reconcile_row_def
          reservation_row_ok_def)
    then show "lbr_id (reconcile_row cost now r) = lbr_id r \<and> reservation_row_ok (reconcile_row cost now r)
        \<and> reservation_share t c p (reconcile_row cost now r)
          \<le> reservation_share t c p r + max 0 (cost - lbr_amount r0)"
      using row(4) unfolding eq by (simp add: reconcile_row_def reservation_row_ok_def)
  qed (simp_all add: reconcilable_def)
  moreover have "committed lib t c p ?s1 = committed lib t c p s" by (rule committed_cong) simp_all
  moreover have "fs_usage s' = fs_usage ?s2" "fs_reservations s' = fs_reservations ?s2"
    using r g by (auto simp: reconcile_llm_budget_reservation_def Let_def split: if_splits)
  ultimately show ?thesis using ledger_ok_cong committed_cong by metis
qed

text \<open>Inserting a usage event adds its share.\<close>

lemma insert_usage_ok:
  assumes "insert_llm_usage u s = (Inr x, s')"
  shows "fs_usage s' = fs_usage s @ [u]" "fs_reservations s' = fs_reservations s"
  using assms by (simp_all add: insert_llm_usage_def split: if_splits) auto

text \<open>
  A settlement moves the money from the reservation to the usage event, in the same month,
  because the usage carries the reservation's creation time.
\<close>

lemma settle_committed:
  assumes ok: "ledger_ok lib s" and lib: "\<And>q. dl_parse lib [] \<noteq> Finite q"
    and r: "settle_llm_budget_reservation lib t' i u now s = (Inr x, s')"
    and g: "get_llm_budget_reservation t' i s = Some r0"
    and p: "p = month_bounds z"
  shows "\<exists>cost. map_option (dl_parse lib) (lue_actual_cost u) = Some (Finite cost) \<and> ledger_ok lib s'
    \<and> committed lib t c p s' \<le> committed lib t c p s + max 0 (cost - lbr_amount r0)"
proof -
  let ?s1 = "lock_llm_budget t' (lbr_currency r0) s"
  let ?open = "in_states t' i [In_Flight, Uncertain]"
  note row = get_reservation_row[OF ok g]
  have m: "usage_matches t' r0 u" using r g by (simp add: settle_llm_budget_reservation_def split: if_splits)
  obtain cost where cost: "map_option (dl_parse lib) (lue_actual_cost u) = Some (Finite cost)" "0 \<le> cost"
    using r g m
    by (auto simp: settle_llm_budget_reservation_def split: option.splits decimal_text.splits if_splits)
  then obtain cost_text where cost_text: "lue_actual_cost u = Some cost_text" "dl_parse lib cost_text = Finite cost" by auto
  have ok1: "ledger_ok lib ?s1" by (rule ledger_ok_cong[OF ok]) simp_all
  have lock_same: "committed lib t c p ?s1 = committed lib t c p s" by (rule committed_cong) simp_all
  have ucost: "usage_cost lib u = cost"
    using cost_text lib by (auto simp: usage_cost_def first_text_def)
  show ?thesis
  proof (cases "row_count ?open (fs_reservations s) = 1")
    case False
    then have "s' = ?s1"
      using r g m cost
      by (auto simp: settle_llm_budget_reservation_def Let_def split: option.splits if_splits)
    then show ?thesis using ok1 lock_same cost by auto
  next
    case True
    let ?s2 = "update_reservations ?open (settle_row cost (lue_id u) now) ?s1"
    have ins: "insert_llm_usage u ?s2 = (Inr (), s')"
      using True r g m cost
      by (auto simp: settle_llm_budget_reservation_def Let_def split: option.splits if_splits sum.splits prod.splits)
    obtain r1 where "r1 \<in> set (fs_reservations s)" "?open r1"
      using True row_count_pos[of ?open "fs_reservations s"] by auto
    then have op: "r0 \<in> set (fs_reservations ?s1)" "?open r0"
      using row(1,5) by (auto simp: in_states_def)
    have key: "lbr_id x = lbr_id r0" if "?open x" for x using that row(3) by (simp add: in_states_def)
    have sh: "reservation_share t c p (settle_row cost (lue_id u) now r0) = 0"
      by (simp add: reservation_share_def reservation_counts_def settle_row_def)
    have c2: "committed lib t c p ?s2 = committed lib t c p s - reservation_share t c p r0"
      using committed_update[where P = ?open and f = "settle_row cost (lue_id u) now", OF ok1 op key]
      by (simp add: sh lock_same)
    have ok2: "ledger_ok lib ?s2"
      by (rule ledger_ok_update[OF ok1])
        (use ok in \<open>auto simp: settle_row_def reservation_row_ok_def ledger_ok_def\<close>)
    have c3: "committed lib t c p s' = committed lib t c p ?s2 + usage_share lib t c p u"
      by (simp add: committed_def insert_usage_ok[OF ins])
    have ok3: "ledger_ok lib s'"
      using ok2 cost_text lib by (auto simp: ledger_ok_def costs_readable_def insert_usage_ok[OF ins] first_text_def)
    have start_eq: "fst (month_bounds (lue_created_at u)) = lbr_period_start r0"
      using m row(4) by (auto simp: usage_matches_def reservation_row_ok_def dest: sym)
    have inside: "fst p \<le> lue_created_at u \<and> lue_created_at u < snd p \<longleftrightarrow> lbr_period_start r0 = fst p"
      using start_eq p month_bounds_contain[of "lue_created_at u"]
        month_bounds_unique[of z "lue_created_at u"] month_bounds_same_start[of "lue_created_at u" z] by metis
    have cond: "usage_in_period t c (fst p) (snd p) u \<longleftrightarrow> reservation_counts t c (fst p) r0"
      using inside m op(2) row(2)
      by (auto simp: usage_in_period_def reservation_counts_def usage_matches_def in_states_def)
    have cost_r0: "reservation_cost r0 = lbr_amount r0"
      using op(2) row(4) by (auto simp: reservation_cost_def reservation_row_ok_def in_states_def)
    have "usage_share lib t c p u \<le> reservation_share t c p r0 + max 0 (cost - lbr_amount r0)"
      using cond by (simp add: usage_share_def reservation_share_def ucost cost_r0 max_def)
    then show ?thesis using c2 c3 ok3 cost by auto
  qed
qed

section \<open>Histories\<close>

text \<open>
  A history of the ledger for one tenant and currency whose budgets are at most \<open>cap\<close>: the
  transactions of all replicas in the order of their commits.  \<open>excess\<close> is the sum of what
  settled or reconciled calls cost beyond their reservations.
\<close>

inductive ledger_reaches ::
  "decimal_lib \<Rightarrow> string \<Rightarrow> string \<Rightarrow> rat \<Rightarrow> rat \<Rightarrow> finops_store \<Rightarrow> bool" for lib t c cap where
  start: "fs_reservations s = [] \<Longrightarrow> fs_usage s = [] \<Longrightarrow> ledger_reaches lib t c cap 0 s"
| reserved: "ledger_reaches lib t c cap excess s \<Longrightarrow>
    finops_reserve lib t' provider model est now new s = (Inr r, s') \<Longrightarrow>
    (t' = t \<and> ce_currency est = c \<longrightarrow>
       (\<exists>b. get_effective_tenant_budget t c now s = Some b \<and> tb_amount b \<le> cap)) \<Longrightarrow>
    ledger_reaches lib t c cap excess s'"
| started: "ledger_reaches lib t c cap excess s \<Longrightarrow>
    start_llm_budget_reservation t' i now s = (v, s') \<Longrightarrow> ledger_reaches lib t c cap excess s'"
| uncertain: "ledger_reaches lib t c cap excess s \<Longrightarrow>
    ledger_reaches lib t c cap excess (mark_llm_budget_uncertain t' i now s)"
| released: "ledger_reaches lib t c cap excess s \<Longrightarrow>
    release_undispatched_llm_budget t' i now s = (v, s') \<Longrightarrow> ledger_reaches lib t c cap excess s'"
| settled: "ledger_reaches lib t c cap excess s \<Longrightarrow>
    settle_llm_budget_reservation lib t' i u now s = (Inr x, s') \<Longrightarrow>
    get_llm_budget_reservation t' i s = Some r \<Longrightarrow>
    map_option (dl_parse lib) (lue_actual_cost u) = Some (Finite cost) \<Longrightarrow>
    ledger_reaches lib t c cap (excess + max 0 (cost - lbr_amount r)) s'"
| reconciled: "ledger_reaches lib t c cap excess s \<Longrightarrow>
    reconcile_llm_budget_reservation t' i cost actor reason now s = (Inr r', s') \<Longrightarrow>
    get_llm_budget_reservation t' i s = Some r \<Longrightarrow>
    ledger_reaches lib t c cap (excess + max 0 (cost - lbr_amount r)) s'"
| unpriced: "ledger_reaches lib t c cap excess s \<Longrightarrow>
    record_llm_usage u s = (Inr x, s') \<Longrightarrow> lue_currency u = None \<Longrightarrow>
    ledger_reaches lib t c cap excess s'"
| budgeted: "ledger_reaches lib t c cap excess s \<Longrightarrow>
    create_tenant_budget b s = (v, s') \<Longrightarrow> ledger_reaches lib t c cap excess s'"

definition ledger_inv :: "decimal_lib \<Rightarrow> string \<Rightarrow> string \<Rightarrow> rat \<Rightarrow> rat \<Rightarrow> finops_store \<Rightarrow> bool" where
  "ledger_inv lib t c cap excess s =
     (ledger_ok lib s \<and> 0 \<le> excess \<and> (\<forall>z. committed lib t c (month_bounds z) s \<le> cap + excess))"

lemma ledger_inv_step:
  assumes "ledger_inv lib t c cap excess s" "ledger_ok lib s'" "0 \<le> m"
    and "\<And>z. committed lib t c (month_bounds z) s' \<le> committed lib t c (month_bounds z) s + m"
  shows "ledger_inv lib t c cap (excess + m) s'"
  using assms order_trans[OF assms(4)] unfolding ledger_inv_def by (simp add: add.assoc[symmetric])

text \<open>A reservation is admitted only within the budget of its month.\<close>

lemma reserve_cases:
  assumes ok: "costs_readable lib s"
    and r: "finops_reserve lib t' provider model est now new s = (Inr r, s')"
  shows "r = reservation_of t' provider model est now new" "reservation_row_ok r"
    "fs_usage s' = fs_usage s" "fs_reservations s' = fs_reservations s @ [r]"
    "\<forall>x \<in> set (fs_reservations s). lbr_id x \<noteq> lbr_id r"
    "\<And>b. get_effective_tenant_budget t' (ce_currency est) now s = Some b \<Longrightarrow>
       committed lib t' (ce_currency est) (month_bounds now) s + ce_amount est \<le> tb_amount b"
proof -
  let ?r = "reservation_of t' provider model est now new"
  have init: "llm_budget_reservation_post_init ?r = Inr ()"
    using r by (cases "llm_budget_reservation_post_init ?r") (simp_all add: finops_reserve_def Let_def)
  have res: "reserve_llm_budget lib ?r s = (Inr r, s')"
    using r init by (simp add: finops_reserve_def Let_def)
  have rowok: "reservation_row_ok ?r"
    using init by (simp add: llm_budget_reservation_post_init_def reservation_row_ok_def reservation_of_def)
  let ?s1 = "lock_llm_budget t' (ce_currency est) s"
  have "costs_readable lib ?s1" using ok by (simp add: costs_readable_def)
  from balance_committed[OF this, of t' "ce_currency est" "month_bounds now"]
  obtain b where b: "llm_budget_balance lib t' (ce_currency est) (fst (month_bounds now)) (snd (month_bounds now)) ?s1 = Inr b"
    "lbb_spent b + lbb_reserved b = committed lib t' (ce_currency est) (month_bounds now) ?s1" by blast
  have comm: "committed lib t' (ce_currency est) (month_bounds now) ?s1
      = committed lib t' (ce_currency est) (month_bounds now) s" by (rule committed_cong) simp_all
  have unfolded: "r = ?r" "s' = ?s1\<lparr>fs_reservations := fs_reservations s @ [?r]\<rparr>"
    "\<forall>x \<in> set (fs_reservations s). lbr_id x \<noteq> new"
    "\<forall>x \<in> set_option (get_effective_tenant_budget t' (ce_currency est) now s).
       lbb_spent b + lbb_reserved b + ce_amount est \<le> tb_amount x"
    using res b(1)
    by (auto simp: reserve_llm_budget_def reservation_of_def Let_def not_less split: if_splits)
  then show "r = ?r" "fs_usage s' = fs_usage s" "fs_reservations s' = fs_reservations s @ [r]"
    "\<forall>x \<in> set (fs_reservations s). lbr_id x \<noteq> lbr_id r"
    by (simp_all add: reservation_of_def)
  show "reservation_row_ok r" using rowok unfolded(1) by simp
  show "committed lib t' (ce_currency est) (month_bounds now) s + ce_amount est \<le> tb_amount x"
    if "get_effective_tenant_budget t' (ce_currency est) now s = Some x" for x
    using unfolded(4) that b(2) comm by simp
qed

lemma ledger_inv_reserved:
  assumes inv: "ledger_inv lib t c cap excess s"
    and r: "finops_reserve lib t' provider model est now new s = (Inr r, s')"
    and b: "t' = t \<and> ce_currency est = c \<longrightarrow>
      (\<exists>b. get_effective_tenant_budget t c now s = Some b \<and> tb_amount b \<le> cap)"
  shows "ledger_inv lib t c cap excess s'"
proof -
  have ok: "ledger_ok lib s" "costs_readable lib s" and ex: "0 \<le> excess" using inv by (simp_all add: ledger_inv_def ledger_ok_def)
  note f = reserve_cases[OF ok(2) r]
  have share: "reservation_share t c (month_bounds z) r
      = (if t' = t \<and> ce_currency est = c \<and> month_bounds now = month_bounds z then ce_amount est else 0)" for z
    using month_bounds_same_start[of now z]
    by (auto simp: f(1) reservation_share_def reservation_counts_def reservation_cost_def reservation_of_def)
  have comm: "committed lib t c p s' = committed lib t c p s + reservation_share t c p r" for p
    by (simp add: committed_def f(3,4))
  have "committed lib t c (month_bounds z) s' \<le> cap + excess" for z
  proof (cases "t' = t \<and> ce_currency est = c \<and> month_bounds now = month_bounds z")
    case True
    then obtain x where "get_effective_tenant_budget t c now s = Some x" "tb_amount x \<le> cap" using b by blast
    then show ?thesis using f(6)[of x] True ex comm[of "month_bounds z"] share[of z] by simp
  next
    case False
    then show ?thesis using inv comm[of "month_bounds z"] share[of z] by (auto simp: ledger_inv_def)
  qed
  moreover have "ledger_ok lib s'"
    using ok f(2,5) by (auto simp: ledger_ok_def costs_readable_def f(3,4) intro: unique_key_append)
  ultimately show ?thesis using ex by (simp add: ledger_inv_def)
qed

lemma start_committed:
  assumes "ledger_ok lib s" "start_llm_budget_reservation t' i now s = (v, s')"
  shows "ledger_ok lib s' \<and> committed lib t c p s' = committed lib t c p s"
  using assms open_move[OF assms(1), of In_Flight "[Reserved]" t' i now]
  by (auto simp: start_llm_budget_reservation_def open_row_def[abs_def] split: if_splits)

lemma uncertain_committed:
  assumes "ledger_ok lib s"
  shows "ledger_ok lib (mark_llm_budget_uncertain t' i now s)
    \<and> committed lib t c p (mark_llm_budget_uncertain t' i now s) = committed lib t c p s"
  using open_move[OF assms, of Uncertain "[Reserved, In_Flight]" t' i now]
  by (simp add: mark_llm_budget_uncertain_def open_row_def[abs_def])

lemma unpriced_committed:
  assumes ok: "ledger_ok lib s" and r: "record_llm_usage u s = (Inr x, s')" "lue_currency u = None"
  shows "ledger_ok lib s' \<and> committed lib t c p s' = committed lib t c p s"
proof -
  obtain y where "insert_llm_usage u s = (Inr y, s')"
    using r by (auto simp: record_llm_usage_def Let_def split: if_splits prod.splits sum.splits)
  note ins = insert_usage_ok[OF this]
  show ?thesis
    using ok r(2) by (simp add: ledger_ok_def costs_readable_def committed_def ins usage_share_def usage_in_period_def)
qed

lemma budget_unaffected:
  "create_tenant_budget b s = (v, s') \<Longrightarrow> fs_usage s' = fs_usage s \<and> fs_reservations s' = fs_reservations s"
  by (auto simp: create_tenant_budget_def Let_def split: if_splits)

lemma ledger_reaches_inv:
  assumes "\<And>q. dl_parse lib [] \<noteq> Finite q" "0 \<le> cap" "ledger_reaches lib t c cap excess s"
  shows "ledger_inv lib t c cap excess s"
  using assms(3)
proof (induction rule: ledger_reaches.induct)
  case (start s)
  then show ?case
    using assms(2) by (simp add: ledger_inv_def ledger_ok_def unique_key_def costs_readable_def committed_def)
next
  case (reserved excess s t' provider model est now new r s')
  show ?case by (rule ledger_inv_reserved[OF reserved.IH reserved.hyps(2,3)])
next
  case (started excess s t' i now v s')
  have ok: "ledger_ok lib s" using started.IH by (simp add: ledger_inv_def)
  show ?case
    using ledger_inv_step[OF started.IH, of s' 0] start_committed[OF ok started.hyps(2)] by simp
next
  case (uncertain excess s t' i now)
  have ok: "ledger_ok lib s" using uncertain.IH by (simp add: ledger_inv_def)
  show ?case
    using ledger_inv_step[OF uncertain.IH, of "mark_llm_budget_uncertain t' i now s" 0]
      uncertain_committed[OF ok, of t' i now] by simp
next
  case (released excess s t' i now v s')
  have ok: "ledger_ok lib s" using released.IH by (simp add: ledger_inv_def)
  show ?case
    using ledger_inv_step[OF released.IH, of s' 0] release_committed[OF ok released.hyps(2)] by simp
next
  case (settled excess s t' i u now x s' r cost)
  have ok: "ledger_ok lib s" using settled.IH by (simp add: ledger_inv_def)
  note m = settle_committed[OF ok assms(1) settled.hyps(2,3)]
  show ?case
  proof (rule ledger_inv_step[OF settled.IH])
    show "ledger_ok lib s'" using m[of _ 0] by blast
    show "committed lib t c (month_bounds z) s'
        \<le> committed lib t c (month_bounds z) s + max 0 (cost - lbr_amount r)" for z
      using m[of "month_bounds z" z] settled.hyps(4) by auto
  qed simp
next
  case (reconciled excess s t' i cost actor reason now r' s' r)
  have ok: "ledger_ok lib s" using reconciled.IH by (simp add: ledger_inv_def)
  show ?case
    using ledger_inv_step[OF reconciled.IH, of s' "max 0 (cost - lbr_amount r)"]
      reconcile_committed[OF ok reconciled.hyps(2,3)] by simp
next
  case (unpriced excess s u x s')
  have ok: "ledger_ok lib s" using unpriced.IH by (simp add: ledger_inv_def)
  show ?case
    using ledger_inv_step[OF unpriced.IH, of s' 0] unpriced_committed[OF ok unpriced.hyps(2,3)] by simp
next
  case (budgeted excess s b v s')
  have ok: "ledger_ok lib s" using budgeted.IH by (simp add: ledger_inv_def)
  note same = budget_unaffected[OF budgeted.hyps(2)]
  have "ledger_ok lib s'" using ledger_ok_cong[OF ok] same by blast
  then show ?case
    using ledger_inv_step[OF budgeted.IH, of s' 0] committed_cong[of s' s] same by simp
qed


text \<open>
  A reservation that is admitted under an active budget leaves the month's spent and
  reserved money, this reservation included, within that budget.
\<close>

theorem reserve_respects_budget:
  assumes "finops_reserve lib t provider model est now new s = (Inr r, s')"
    and "ledger_ok lib s" and "get_effective_tenant_budget t (ce_currency est) now s = Some b"
  shows "\<exists>bal. llm_budget_balance lib t (ce_currency est) (fst (month_bounds now)) (snd (month_bounds now)) s' = Inr bal
    \<and> lbb_spent bal + lbb_reserved bal \<le> tb_amount b \<and> lbr_state r = Reserved \<and> r \<in> set (fs_reservations s')"
proof -
  have "costs_readable lib s" using assms(2) by (simp add: ledger_ok_def)
  note f = reserve_cases[OF this assms(1)]
  have read: "costs_readable lib s'" using assms(2) by (simp add: ledger_ok_def costs_readable_def f(3))
  have "reservation_share t (ce_currency est) (month_bounds now) r = ce_amount est"
    by (simp add: f(1) reservation_share_def reservation_counts_def reservation_cost_def reservation_of_def)
  then have "committed lib t (ce_currency est) (month_bounds now) s' \<le> tb_amount b"
    using f(6)[OF assms(3)] by (simp add: committed_def f(3,4))
  then show ?thesis
    using balance_committed[OF read, of t "ce_currency est" "month_bounds now"] f(1,4)
    by (auto simp: reservation_of_def)
qed

end
