(* ===== verification/Finops_Examples.thy ===== *)
theory Finops_Examples
  imports Finops_Invariants
begin

text \<open>
  A sample ledger in which a call costs more than it reserved, and the witnesses of the
  ledger's properties.
\<close>

text \<open>Decimal texts of natural numbers.\<close>

definition digits_value :: "string \<Rightarrow> rat" where
  "digits_value s = rat_of_int (foldl (\<lambda>n c. 10 * n + (int (code_point c) - 48)) 0 s)"

definition integer_decimals :: decimal_lib where
  "integer_decimals =
     \<lparr>dl_parse = (\<lambda>s. if s \<noteq> [] \<and> list_all py_isdigit_ascii s then Finite (digits_value s) else Not_Decimal),
      dl_show = (\<lambda>q. show_int (floor q))\<rparr>"

lemma integer_decimals_Nil: "\<forall>q. dl_parse integer_decimals [] \<noteq> Finite q"
  by (simp add: integer_decimals_def)

definition january :: timestamp where
  "january = 946684800000000"

lemma month_january: "month_bounds january = (946684800000000, 949363200000000)"
  using month_bounds_at[of 0 0 0 january]
  by (simp add: month_at_def january_def day_microseconds_def month_length_def)

definition sample_pricing :: model_pricing where
  "sample_pricing =
     \<lparr>mp_tenant_id = ''acme'', mp_provider_id = ''openai'', mp_model_id = ''m1'', mp_valid_from = 0,
      mp_currency = ''USD'', mp_token_unit = 1000, mp_input_price_per_unit = 2,
      mp_output_price_per_unit = 4, mp_source_version = ''v1'', mp_cached_input_price_per_unit = None,
      mp_batch_discount = 0, mp_valid_to = None, mp_notes = None, mp_id = ''p1'', mp_created_at = 0\<rparr>"

definition sample_budget :: tenant_budget where
  "sample_budget =
     \<lparr>tb_tenant_id = ''acme'', tb_currency = ''USD'', tb_amount = 10, tb_valid_from = 0,
      tb_period = ''monthly'', tb_valid_to = None, tb_id = ''b1'', tb_created_at = 0\<rparr>"

definition sample_finops_store :: finops_store where
  "sample_finops_store =
     \<lparr>fs_tenants = [''acme''], fs_pricing = [sample_pricing], fs_budgets = [sample_budget],
      fs_accounts = [], fs_reservations = [], fs_usage = [], fs_audit = []\<rparr>"

text \<open>1000 tokens in and 500 out cost 4 dollars.\<close>

definition sample_estimate :: cost_estimate where
  "sample_estimate =
     \<lparr>ce_pricing_id = ''p1'', ce_currency = ''USD'', ce_amount = 4, ce_input_tokens = 1000,
      ce_cached_input_tokens = 0, ce_output_tokens = 500, ce_batch_discount_applied = False\<rparr>"

lemma sample_estimate_priced:
  "finops_estimate ''acme'' ''openai'' ''m1'' 1000 500 0 january False sample_finops_store
     = Inr (Some sample_estimate)"
  by code_simp

definition sample_reservation :: llm_budget_reservation where
  "sample_reservation =
     \<lparr>lbr_tenant_id = ''acme'', lbr_provider_id = ''openai'', lbr_model_id = ''m1'',
      lbr_pricing_id = ''p1'', lbr_currency = ''USD'', lbr_amount = 4,
      lbr_period_start = 946684800000000, lbr_period_end = 949363200000000, lbr_id = ''r1'',
      lbr_state = Reserved, lbr_actual_cost = None, lbr_usage_event_id = None,
      lbr_created_at = january, lbr_updated_at = january\<rparr>"

definition reserved_store :: finops_store where
  "reserved_store = snd (reserve_llm_budget integer_decimals sample_reservation sample_finops_store)"

lemma sample_reserve:
  "finops_reserve integer_decimals ''acme'' ''openai'' ''m1'' sample_estimate january ''r1'' sample_finops_store
     = (Inr sample_reservation, reserved_store)"
proof -
  have "reservation_of ''acme'' ''openai'' ''m1'' sample_estimate january ''r1'' = sample_reservation"
    by (simp add: reservation_of_def sample_estimate_def sample_reservation_def month_january)
  moreover have "llm_budget_reservation_post_init sample_reservation = Inr ()"
    by (simp add: llm_budget_reservation_post_init_def sample_reservation_def month_january)
  moreover have "fst (reserve_llm_budget integer_decimals sample_reservation sample_finops_store)
      = Inr sample_reservation"
    by code_simp
  ultimately show ?thesis by (simp add: finops_reserve_def reserved_store_def prod_eq_iff)
qed

lemma sample_effective: "get_effective_tenant_budget ''acme'' ''USD'' january sample_finops_store = Some sample_budget"
  by code_simp

definition started_store :: finops_store where
  "started_store = snd (start_llm_budget_reservation ''acme'' ''r1'' january reserved_store)"

definition sample_usage :: llm_usage_event where
  "sample_usage =
     \<lparr>lue_tenant_id = ''acme'', lue_provider_id = ''openai'', lue_model_id = ''m1'',
      lue_purpose = ''sql_generation'', lue_estimated_input_tokens = 1000,
      lue_estimated_output_tokens = 500, lue_input_tokens = 1000, lue_output_tokens = 750,
      lue_latency_ms = 9, lue_cached_input_tokens = 0, lue_estimated_cost = Some ''4'',
      lue_actual_cost = Some ''5'', lue_currency = Some ''USD'', lue_pricing_id = Some ''p1'',
      lue_id = ''u1'', lue_created_at = january\<rparr>"

definition settled_store :: finops_store where
  "settled_store =
     snd (settle_llm_budget_reservation integer_decimals ''acme'' ''r1'' sample_usage january started_store)"

lemma sample_history: "ledger_reaches integer_decimals ''acme'' ''USD'' 10 1 settled_store"
proof -
  have a: "ledger_reaches integer_decimals ''acme'' ''USD'' 10 0 sample_finops_store"
    by (rule start) (simp_all add: sample_finops_store_def)
  have b: "ledger_reaches integer_decimals ''acme'' ''USD'' 10 0 reserved_store"
    by (rule reserved[OF a sample_reserve]) (simp add: sample_effective, simp add: sample_budget_def)
  have c: "ledger_reaches integer_decimals ''acme'' ''USD'' 10 0 started_store"
    by (rule started[OF b, of "''acme''" "''r1''" january "fst (start_llm_budget_reservation ''acme'' ''r1'' january reserved_store)"])
      (simp add: started_store_def)
  have d: "fst (settle_llm_budget_reservation integer_decimals ''acme'' ''r1'' sample_usage january started_store) = Inr ()"
    by code_simp
  have r: "get_llm_budget_reservation ''acme'' ''r1'' started_store
      = Some (sample_reservation\<lparr>lbr_state := In_Flight\<rparr>)"
    by code_simp
  have p: "map_option (dl_parse integer_decimals) (lue_actual_cost sample_usage) = Some (Finite 5)"
    by code_simp
  have "ledger_reaches integer_decimals ''acme'' ''USD'' 10
      (0 + max 0 (5 - lbr_amount (sample_reservation\<lparr>lbr_state := In_Flight\<rparr>))) settled_store"
    by (rule settled[OF c _ r p, where now = january]) (simp add: settled_store_def prod_eq_iff d)
  then show ?thesis by (simp add: sample_reservation_def)
qed


lemma sample_ledger_ok: "ledger_ok integer_decimals sample_finops_store"
  by (simp add: ledger_ok_def costs_readable_def sample_finops_store_def unique_key_def)

lemma reserve_respects_budget_witness:
  "\<exists>bal. llm_budget_balance integer_decimals ''acme'' ''USD'' 946684800000000 949363200000000 reserved_store = Inr bal
     \<and> lbb_spent bal + lbb_reserved bal \<le> 10"
  using reserve_respects_budget[OF sample_reserve sample_ledger_ok, of sample_budget] sample_effective
  by (simp add: sample_estimate_def month_january) (auto simp: sample_budget_def)

end
