(* ===== verification/Gateway_Safety.thy ===== *)
theory Gateway_Safety
  imports Llm_Gateway Egress_Safety Finops_Examples
begin

text \<open>
  The guarantees of the LLM gateway: what may reach a provider, that redacted content does
  not influence a call, and that no reservation is lost however a call ends.
\<close>

section \<open>What reaches a provider\<close>

lemma preflight_ok:
  assumes "preflight_structured digest providers policy tenant pid r source = Inr pf"
  shows "lp_policy_decision pf = policy tenant pid (map content_manifest (sr_content r)) source (Some (sr_purpose r))"
    "lp_redacted_content_ids pf = pd_redacted_fields (lp_policy_decision pf)"
  using assms by (auto simp: preflight_structured_def Let_def split: option.splits if_splits)

lemma admitted_ok:
  assumes "admitted_content pid r pf = Inr included"
  shows "pd_allowed (lp_policy_decision pf)" "included \<noteq> []"
    "included = filter (\<lambda>i. pc_id i \<notin> set (lp_redacted_content_ids pf)) (sr_content r)"
    "\<forall>i \<in> set (sr_required_content_ids r). i \<notin> set (lp_redacted_content_ids pf)"
  using assms by (auto simp: admitted_content_def Let_def filter_empty_conv split: if_splits)

text \<open>When the provider was called, it was called with the admitted items.\<close>

lemma gateway_payload:
  assumes "gateway_generate digest providers policy env tenant pid r source s = (v, Some payload, s')"
  obtains pf p included where
    "preflight_structured digest providers policy tenant pid r source = Inr pf" "providers pid = Some p"
    "admitted_content pid r pf = Inr included" "payload = provider_payload_of r included"
proof (cases "preflight_structured digest providers policy tenant pid r source")
  case (Inl e)
  then show ?thesis using assms by (simp add: gateway_generate_def)
next
  case (Inr pf)
  then obtain p where p: "providers pid = Some p"
    by (auto simp: preflight_structured_def split: option.splits)
  show ?thesis
  proof (cases "admitted_content pid r pf")
    case (Inl b)
    then show ?thesis using assms Inr p by (simp add: gateway_generate_def)
  next
    case (Inr included)
    then show ?thesis
      using assms \<open>preflight_structured digest providers policy tenant pid r source = Inr pf\<close> p that
      by (auto simp: gateway_generate_def Let_def split: sum.splits prod.splits if_splits)
  qed
qed

context prompt_policy begin

text \<open>A client of any policy that satisfies the contract sends only what the policy admits.\<close>

lemma payload_bounded:
  assumes "gateway_generate digest providers evaluate env tenant pid r source s = (v, Some payload, s')"
  defines "decision \<equiv> evaluate tenant pid (map content_manifest (sr_content r)) source (Some (sr_purpose r))"
  shows "pd_allowed decision \<and> \<not> blank tenant \<and> pl_items payload \<noteq> []
    \<and> (\<forall>x \<in> set (pl_items payload). \<exists>i \<in> set (sr_content r). x = (pc_id i, pc_kind i, pc_content i)
          \<and> pc_id i \<notin> set (pd_redacted_fields decision)
          \<and> pc_classification i \<le> pd_maximum_classification decision)
    \<and> (\<forall>k \<in> set (sr_required_content_ids r). k \<in> pc_id ` set (sr_content r) \<longrightarrow> k \<in> fst ` set (pl_items payload))"
proof -
  obtain pf p included where g: "preflight_structured digest providers evaluate tenant pid r source = Inr pf"
    "admitted_content pid r pf = Inr included" "payload = provider_payload_of r included"
    by (rule gateway_payload[OF assms(1)]) blast
  note pf = preflight_ok[OF g(1)]
  note a = admitted_ok[OF g(2)]
  have d: "lp_policy_decision pf = decision" using pf(1) by (simp add: decision_def)
  have allowed: "pd_allowed decision" using a(1) d by simp
  have red: "lp_redacted_content_ids pf = pd_redacted_fields decision" using pf(2) d by simp
  have items: "pl_items payload = map (\<lambda>i. (pc_id i, pc_kind i, pc_content i)) included"
    by (simp add: g(3) provider_payload_of_def)
  have "pc_classification i \<le> pd_maximum_classification decision" if "i \<in> set included" for i
  proof -
    have "content_manifest i \<in> set (map content_manifest (sr_content r))" "pc_id i \<notin> set (pd_redacted_fields decision)"
      using that by (simp_all add: a(3) red)
    then show ?thesis
      using visible_entries_bounded[OF allowed[unfolded decision_def], of "content_manifest i" "pc_id i" "pc_classification i"]
      by (simp add: content_manifest_def decision_def)
  qed
  then have "\<forall>x \<in> set (pl_items payload). \<exists>i \<in> set (sr_content r). x = (pc_id i, pc_kind i, pc_content i)
      \<and> pc_id i \<notin> set (pd_redacted_fields decision) \<and> pc_classification i \<le> pd_maximum_classification decision"
    by (auto simp: items a(3) red)
  moreover have "\<forall>k \<in> set (sr_required_content_ids r). k \<in> pc_id ` set (sr_content r) \<longrightarrow> k \<in> fst ` set (pl_items payload)"
    using a(4) by (force simp: items a(3))
  moreover have "\<not> blank tenant" using bounded allowed unfolding decision_def by blast
  moreover have "pl_items payload \<noteq> []" using a(2) by (simp add: items)
  ultimately show ?thesis using allowed by blast
qed

end


section \<open>Redacted content does not matter\<close>

text \<open>Two requests that differ only in the content of items the policy redacts.\<close>

definition same_item :: "string list \<Rightarrow> prompt_content_item \<Rightarrow> prompt_content_item \<Rightarrow> bool" where
  "same_item redacted i j =
     (pc_id i = pc_id j \<and> pc_kind i = pc_kind j \<and> pc_classification i = pc_classification j
      \<and> (pc_id i \<notin> set redacted \<longrightarrow> pc_content i = pc_content j))"

definition same_request :: "string list \<Rightarrow> structured_llm_request \<Rightarrow> structured_llm_request \<Rightarrow> bool" where
  "same_request redacted r r' =
     (list_all2 (same_item redacted) (sr_content r) (sr_content r') \<and> r' = r\<lparr>sr_content := sr_content r'\<rparr>)"

definition same_entry :: "manifest_entry \<Rightarrow> manifest_entry \<Rightarrow> bool" where
  "same_entry e f = (me_id e = me_id f \<and> me_kind e = me_kind f \<and> me_classification e = me_classification f)"

lemma scan_manifest_fields: "list_all2 same_entry m m' \<Longrightarrow> scan_manifest kinds maximum m = scan_manifest kinds maximum m'"
proof (induction rule: list_all2_induct)
  case (Cons x xs y ys)
  then show ?case by (auto simp: same_entry_def split: option.splits)
qed simp

lemma question_fields:
  assumes "list_all2 same_entry m m'"
  shows "question_prompt_egress en t p m s u = question_prompt_egress en t p m' s u"
proof -
  have ev: "evaluate_prompt_manifest e t p m mx md = evaluate_prompt_manifest e t p m' mx md" for e mx md
    unfolding evaluate_prompt_manifest_def scan_manifest_fields[OF assms] ..
  show ?thesis unfolding question_prompt_egress_def metadata_prompt_egress_def ev ..
qed

lemma same_items_filter:
  "list_all2 (same_item red) xs ys \<Longrightarrow>
     filter (\<lambda>i. pc_id i \<notin> set red) ys = filter (\<lambda>i. pc_id i \<notin> set red) xs
     \<and> map pc_id ys = map pc_id xs \<and> map (\<lambda>c. (pc_id c, pc_kind c)) ys = map (\<lambda>c. (pc_id c, pc_kind c)) xs"
proof (induction rule: list_all2_induct)
  case (Cons x xs y ys)
  have "pc_id x \<notin> set red \<Longrightarrow> x = y"
    using Cons.hyps(1) by (cases x; cases y) (simp add: same_item_def)
  then show ?case using Cons by (auto simp: same_item_def)
qed simp

lemma same_items_manifest:
  "list_all2 (same_item red) xs ys \<Longrightarrow> list_all2 same_entry (map content_manifest xs) (map content_manifest ys)"
  by (simp add: list_all2_conv_all_nth same_entry_def same_item_def content_manifest_def)

text \<open>
  C21: The content of an item that the policy redacts has no influence on a call: two requests
  that differ only there are refused with the same error or answered with the same result,
  the same payload goes to the provider, and the ledger changes in the same way.
\<close>

theorem redacted_content_has_no_influence:
  assumes "same_request (pd_redacted_fields (question_prompt_egress en tenant pid
      (map content_manifest (sr_content r)) source (Some (sr_purpose r)))) r r'"
  shows "gateway_generate digest providers (question_prompt_egress en) env tenant pid r' source s
    = gateway_generate digest providers (question_prompt_egress en) env tenant pid r source s"
proof -
  let ?d = "question_prompt_egress en tenant pid (map content_manifest (sr_content r)) source (Some (sr_purpose r))"
  let ?red = "pd_redacted_fields ?d"
  have items: "list_all2 (same_item ?red) (sr_content r) (sr_content r')" and
    eq: "r' = r\<lparr>sr_content := sr_content r'\<rparr>"
    using assms by (simp_all add: same_request_def)
  have fields: "sr_purpose r' = sr_purpose r" "sr_instructions r' = sr_instructions r"
    "sr_output_schema r' = sr_output_schema r" "sr_required_content_ids r' = sr_required_content_ids r"
    "sr_privacy_context r' = sr_privacy_context r"
    by (subst eq, simp)+
  have d: "question_prompt_egress en tenant pid (map content_manifest (sr_content r')) source (Some (sr_purpose r)) = ?d"
    using question_fields[OF same_items_manifest[OF items]] by simp
  note f = same_items_filter[OF items]
  have blk: "blocked m pid r' ?d c is as = blocked m pid r ?d c is as" for m c "is" as
    by (simp add: blocked_def fields)
  have pay: "provider_payload_of r' inc = provider_payload_of r inc" for inc
    by (simp add: provider_payload_of_def fields)
  have att: "gateway_attempt env tenant pid p r' ?d inc s = gateway_attempt env tenant pid p r ?d inc s" for p inc
    unfolding gateway_attempt_def pay fields ..
  show ?thesis
  proof (cases "preflight_structured digest providers (question_prompt_egress en) tenant pid r source")
    case (Inl e)
    then have "preflight_structured digest providers (question_prompt_egress en) tenant pid r' source = Inl e"
      by (auto simp: preflight_structured_def Let_def split: option.splits if_splits)
    then show ?thesis using Inl by (simp add: gateway_generate_def)
  next
    case (Inr pf)
    then obtain pf' where pf': "preflight_structured digest providers (question_prompt_egress en) tenant pid r' source = Inr pf'"
      by (auto simp: preflight_structured_def Let_def split: option.splits if_splits)
    have dec: "lp_policy_decision pf = ?d" "lp_policy_decision pf' = ?d"
      "lp_redacted_content_ids pf = ?red" "lp_redacted_content_ids pf' = ?red"
      using preflight_ok[OF Inr] preflight_ok[OF pf'] d by (simp_all add: fields)
    have adm: "admitted_content pid r' pf' = admitted_content pid r pf"
      unfolding admitted_content_def Let_def dec fields using f by (simp add: blk)
    show ?thesis
      unfolding gateway_generate_def Inr pf' sum.case adm dec att pay ..
  qed
qed

section \<open>No reservation is lost\<close>

text \<open>The rows with one identifier; every operation on a reservation is a function of them.\<close>

definition own_rows :: "string \<Rightarrow> finops_store \<Rightarrow> llm_budget_reservation list" where
  "own_rows i s = filter (\<lambda>x. lbr_id x = i) (fs_reservations s)"

lemma own_rows_cong: "fs_reservations s' = fs_reservations s \<Longrightarrow> own_rows i s' = own_rows i s"
  by (simp add: own_rows_def)

lemma own_row_count: "row_count (in_states t i states) (fs_reservations s) = length (filter (in_states t i states) (own_rows i s))"
  unfolding row_count_def own_rows_def filter_filter by (rule arg_cong[where f = length], rule filter_cong) (auto simp: in_states_def)

lemma own_get: "get_llm_budget_reservation t i s = fetch_one (\<lambda>r. lbr_tenant_id r = t) (own_rows i s)"
proof -
  have "fetch_one (\<lambda>r. lbr_tenant_id r = t \<and> lbr_id r = i) rows
      = fetch_one (\<lambda>r. lbr_tenant_id r = t) (filter (\<lambda>x. lbr_id x = i) rows)" for rows
    by (induction rows) auto
  then show ?thesis by (simp add: get_llm_budget_reservation_def own_rows_def)
qed

lemma own_update:
  assumes "\<And>x. lbr_id (f x) = lbr_id x"
  shows "own_rows i (update_reservations (in_states t i states) f s)
    = map (\<lambda>x. if in_states t i states x then f x else x) (own_rows i s)"
proof -
  have "filter (\<lambda>x. lbr_id x = i) (sql_update P f rows)
      = map (\<lambda>x. if P x then f x else x) (filter (\<lambda>x. lbr_id x = i) rows)" for P rows
    by (induction rows) (auto simp: sql_update_def assms)
  then show ?thesis by (simp add: own_rows_def)
qed

lemma own_insert_usage: "insert_llm_usage u s = (v, s') \<Longrightarrow> own_rows i s' = own_rows i s"
  by (auto simp: insert_llm_usage_def own_rows_def split: if_splits)

lemma own_record: "record_llm_usage u s = (v, s') \<Longrightarrow> own_rows i s' = own_rows i s"
  by (auto simp: record_llm_usage_def Let_def own_rows_def insert_llm_usage_def
      split: if_splits option.splits prod.splits sum.splits)

lemma own_lock [simp]: "own_rows i (lock_llm_budget t c s) = own_rows i s"
  by (simp add: own_rows_def)

lemma own_uncertain:
  "own_rows i s = [x] \<Longrightarrow> lbr_tenant_id x = t \<Longrightarrow> lbr_id x = i \<Longrightarrow> lbr_state x \<in> {Reserved, In_Flight} \<Longrightarrow>
     \<exists>y. own_rows i (mark_llm_budget_uncertain t i now s) = [y] \<and> lbr_state y = Uncertain"
  unfolding mark_llm_budget_uncertain_def by (subst own_update) (auto simp: in_states_def)

lemma own_release:
  assumes "own_rows i s = [x]" "lbr_tenant_id x = t" "lbr_id x = i" "lbr_state x \<in> {Reserved, In_Flight}"
  shows "\<exists>s' y. release_undispatched_llm_budget t i now s = (Inr (), s') \<and> own_rows i s' = [y] \<and> lbr_state y = Released"
proof -
  have g: "get_llm_budget_reservation t i s = Some x" by (simp add: own_get assms)
  have "\<exists>y. own_rows i (update_reservations (in_states t i [Reserved, In_Flight])
      (\<lambda>r. r\<lparr>lbr_state := Released, lbr_actual_cost := Some 0, lbr_updated_at := now\<rparr>) (lock_llm_budget t (lbr_currency x) s)) = [y]
      \<and> lbr_state y = Released"
    by (subst own_update) (use assms in \<open>auto simp: in_states_def\<close>)
  then show ?thesis by (simp add: release_undispatched_llm_budget_def g)
qed

lemma own_start:
  assumes "own_rows i s = [x]" "lbr_tenant_id x = t" "lbr_id x = i" "lbr_state x = Reserved"
  shows "\<exists>s' y. start_llm_budget_reservation t i now s = (Inr (), s') \<and> own_rows i s' = [y]
    \<and> lbr_tenant_id y = t \<and> lbr_id y = i \<and> lbr_state y = In_Flight"
proof -
  have "row_count (in_states t i [Reserved]) (fs_reservations s) = 1"
    using assms by (simp add: own_row_count in_states_def)
  moreover have "\<exists>y. own_rows i (update_reservations (in_states t i [Reserved])
      (\<lambda>r. r\<lparr>lbr_state := In_Flight, lbr_updated_at := now\<rparr>) s) = [y]
      \<and> lbr_tenant_id y = t \<and> lbr_id y = i \<and> lbr_state y = In_Flight"
    by (subst own_update) (use assms in \<open>auto simp: in_states_def\<close>)
  ultimately show ?thesis by (simp add: start_llm_budget_reservation_def)
qed

lemma own_settle:
  assumes own: "own_rows i s = [x]" "lbr_tenant_id x = t" "lbr_id x = i" "lbr_state x = In_Flight"
    and r: "settle_llm_budget_reservation lib t i u now s = (v, s')"
  shows "case v of Inl _ \<Rightarrow> s' = s | Inr _ \<Rightarrow> \<exists>y. own_rows i s' = [y] \<and> lbr_state y = Settled"
proof (cases v)
  case (Inl e)
  then show ?thesis
    using r by (auto simp: settle_llm_budget_reservation_def Let_def
        split: option.splits decimal_text.splits if_splits prod.splits sum.splits)
next
  case (Inr z)
  have g: "get_llm_budget_reservation t i s = Some x" by (simp add: own_get own)
  have n: "row_count (in_states t i [In_Flight, Uncertain]) (fs_reservations s) = 1"
    using own by (simp add: own_row_count in_states_def)
  obtain cost where ins: "insert_llm_usage u (update_reservations (in_states t i [In_Flight, Uncertain])
      (settle_row cost (lue_id u) now) (lock_llm_budget t (lbr_currency x) s)) = (Inr (), s')"
    using r g n Inr
    by (auto simp: settle_llm_budget_reservation_def Let_def
        split: option.splits decimal_text.splits if_splits prod.splits sum.splits)
  have "\<exists>y. own_rows i (update_reservations (in_states t i [In_Flight, Uncertain])
      (settle_row cost (lue_id u) now) (lock_llm_budget t (lbr_currency x) s)) = [y] \<and> lbr_state y = Settled"
    by (subst own_update) (use own in \<open>auto simp: in_states_def settle_row_def\<close>)
  then show ?thesis using own_insert_usage[OF ins] Inr by simp
qed

lemma own_reserve:
  assumes fresh: "own_rows new s = []"
    and r: "finops_reserve lib t p m est now new s = (v, s')"
  shows "case v of Inl _ \<Rightarrow> s' = s
    | Inr x \<Rightarrow> own_rows new s' = [x] \<and> lbr_tenant_id x = t \<and> lbr_id x = new \<and> lbr_state x = Reserved"
proof (cases v)
  case (Inl e)
  then show ?thesis
    using r by (auto simp: finops_reserve_def reserve_llm_budget_def Let_def split: if_splits sum.splits)
next
  case (Inr x)
  have eq: "x = reservation_of t p m est now new" "fs_reservations s' = fs_reservations s @ [x\<lparr>lbr_usage_event_id := None\<rparr>]"
    using r Inr by (auto simp: finops_reserve_def reserve_llm_budget_def Let_def split: if_splits sum.splits)
  then show ?thesis using fresh Inr by (simp add: own_rows_def reservation_of_def)
qed

text \<open>How an attempt can stand when it ends.\<close>

definition attempt_accounted :: "string \<Rightarrow> string \<Rightarrow> attempt_state \<Rightarrow> bool" where
  "attempt_accounted t i st =
     (case at_reservation st of
        None \<Rightarrow> own_rows i (at_ledger st) = []
      | Some r \<Rightarrow> lbr_tenant_id r = t \<and> lbr_id r = i
          \<and> (\<exists>x. own_rows i (at_ledger st) = [x] \<and> lbr_tenant_id x = t \<and> lbr_id x = i
                \<and> lbr_state x \<in> {Reserved, In_Flight} \<and> (at_dispatched st \<longrightarrow> lbr_state x = In_Flight)))"

lemma admit_accounted:
  assumes fresh: "own_rows (ge_reservation_id env) s = []"
    and a: "admit_call env t pid p est s = (v, st)"
  shows "attempt_accounted t (ge_reservation_id env) st \<and> \<not> at_dispatched st
    \<and> (is_ok v \<longrightarrow> (case at_reservation st of None \<Rightarrow> \<not> (ge_finops env \<and> has_active_budget t None (ge_precall_at env) s)
         | Some r \<Rightarrow> \<exists>x. own_rows (ge_reservation_id env) (at_ledger st) = [x] \<and> lbr_tenant_id x = t
               \<and> lbr_id x = ge_reservation_id env \<and> lbr_state x = In_Flight))"
proof (cases "ge_finops env \<and> (\<exists>m cost. declared_model p = Some m
    \<and> finops_estimate t pid m (te_input_tokens est) (te_output_tokens est) (te_cached_input_tokens est)
        (ge_precall_at env) False s = Inr (Some cost))")
  case False
  then show ?thesis
    using a fresh
    by (auto simp: admit_call_def Let_def attempt_accounted_def split: if_splits option.splits sum.splits)
next
  case True
  then obtain m cost where m: "ge_finops env" "declared_model p = Some m"
    "finops_estimate t pid m (te_input_tokens est) (te_output_tokens est) (te_cached_input_tokens est)
        (ge_precall_at env) False s = Inr (Some cost)" by blast
  obtain w s1 where res: "finops_reserve (ge_decimals env) t pid m cost (ge_precall_at env) (ge_reservation_id env) s = (w, s1)"
    by fastforce
  show ?thesis
  proof (cases w)
    case (Inl e)
    then have "s1 = s" using own_reserve[OF fresh res] by simp
    then show ?thesis using a m res Inl fresh by (auto simp: admit_call_def Let_def attempt_accounted_def)
  next
    case (Inr r)
    then have r: "own_rows (ge_reservation_id env) s1 = [r]" "lbr_tenant_id r = t" "lbr_id r = ge_reservation_id env"
      "lbr_state r = Reserved"
      using own_reserve[OF fresh res] by simp_all
    from own_start[OF r, of "ge_update_at env"] obtain s2 y where
      "start_llm_budget_reservation t (ge_reservation_id env) (ge_update_at env) s1 = (Inr (), s2)"
      "own_rows (ge_reservation_id env) s2 = [y]" "lbr_tenant_id y = t" "lbr_id y = ge_reservation_id env"
      "lbr_state y = In_Flight" by blast
    then show ?thesis using a m res Inr r by (auto simp: admit_call_def Let_def attempt_accounted_def)
  qed
qed

text \<open>Accounting stops before the ledger, or ends with a settlement or a record.\<close>

lemma account_cases:
  assumes a: "account_call env t pid purpose est resp precall st = (v, st')"
  obtains (kept) e where "v = Inl e" "st' = st"
    | (settled) r u w s' where "at_reservation st = Some r"
        "settle_llm_budget_reservation (ge_decimals env) (lbr_tenant_id r) (lbr_id r) u (ge_update_at env) (at_ledger st) = (w, s')"
        "st' = st\<lparr>at_ledger := s'\<rparr>" "is_ok v = is_ok w"
    | (recorded) u w s' where "at_reservation st = None" "record_llm_usage u (at_ledger st) = (w, s')"
        "st' = st\<lparr>at_ledger := s'\<rparr>" "is_ok v = is_ok w"
proof -
  let ?p = "later_estimate env t pid (lr_model_id resp) (te_input_tokens est) (te_output_tokens est)
    (te_cached_input_tokens est) (ge_priced_at env) st"
  let ?a = "later_estimate env t pid (lr_model_id resp) (lr_input_tokens resp) (lr_output_tokens resp)
    (lr_cached_input_tokens resp) (ge_actual_at env) st"
  show thesis
  proof (cases "\<exists>priced actual. ?p = Inr priced \<and> ?a = Inr actual
      \<and> is_ok (llm_usage_event_post_init (usage_of env t pid purpose est resp precall priced actual))")
    case False
    have "\<exists>e. v = Inl e \<and> st' = st"
    proof (cases ?p)
      case (Inl e)
      then show ?thesis using a by (auto simp: account_call_def)
    next
      case (Inr priced)
      note pr = Inr
      show ?thesis
      proof (cases ?a)
        case (Inl e)
        then show ?thesis using a pr by (auto simp: account_call_def)
      next
        case (Inr actual)
        then obtain e where "llm_usage_event_post_init (usage_of env t pid purpose est resp precall priced actual) = Inl e"
          using False pr by (cases "llm_usage_event_post_init (usage_of env t pid purpose est resp precall priced actual)") auto
        then show ?thesis using a pr Inr by (auto simp: account_call_def Let_def)
      qed
    qed
    then show ?thesis using kept by blast
  next
    case True
    then obtain priced actual z where k: "?p = Inr priced" "?a = Inr actual"
      "llm_usage_event_post_init (usage_of env t pid purpose est resp precall priced actual) = Inr z"
      by (auto simp: is_ok_iff)
    let ?u = "usage_of env t pid purpose est resp precall priced actual"
    show ?thesis
    proof (cases "at_reservation st")
      case (Some r)
      obtain w s' where w: "settle_llm_budget_reservation (ge_decimals env) (lbr_tenant_id r) (lbr_id r)
          (?u\<lparr>lue_created_at := lbr_created_at r\<rparr>) (ge_update_at env) (at_ledger st) = (w, s')" by fastforce
      have "st' = st\<lparr>at_ledger := s'\<rparr>" "is_ok v = is_ok w"
        using a k Some w by (cases w; auto simp: account_call_def Let_def)+
      then show ?thesis using settled Some w by blast
    next
      case None
      obtain w s' where w: "record_llm_usage ?u (at_ledger st) = (w, s')" by fastforce
      have "st' = st\<lparr>at_ledger := s'\<rparr>" "is_ok v = is_ok w"
        using a k None w by (cases w; auto simp: account_call_def Let_def)+
      then show ?thesis using recorded None w by blast
    qed
  qed
qed

text \<open>Settling or recording after the call.\<close>

lemma account_accounted:
  assumes a: "account_call env t pid purpose est resp precall st = (v, st')"
    and ok: "attempt_accounted t (ge_reservation_id env) st" "at_dispatched st"
  shows "at_dispatched st' \<and> at_reservation st' = at_reservation st
    \<and> (case v of Inl _ \<Rightarrow> attempt_accounted t (ge_reservation_id env) st'
        | Inr _ \<Rightarrow> (case at_reservation st of None \<Rightarrow> own_rows (ge_reservation_id env) (at_ledger st') = []
             | Some _ \<Rightarrow> \<exists>y. own_rows (ge_reservation_id env) (at_ledger st') = [y] \<and> lbr_state y = Settled))"
proof -
  from a consider (kept) e where "v = Inl e" "st' = st"
    | (settled) r u w s' where "at_reservation st = Some r"
        "settle_llm_budget_reservation (ge_decimals env) (lbr_tenant_id r) (lbr_id r) u (ge_update_at env) (at_ledger st) = (w, s')"
        "st' = st\<lparr>at_ledger := s'\<rparr>" "is_ok v = is_ok w"
    | (recorded) u w s' where "at_reservation st = None" "record_llm_usage u (at_ledger st) = (w, s')"
        "st' = st\<lparr>at_ledger := s'\<rparr>" "is_ok v = is_ok w"
    by (rule account_cases)
  then show ?thesis
  proof cases
    case kept
    then show ?thesis using ok by simp
  next
    case settled
    obtain x where x: "own_rows (ge_reservation_id env) (at_ledger st) = [x]" "lbr_tenant_id x = t"
      "lbr_id x = ge_reservation_id env" "lbr_state x = In_Flight"
      and r: "lbr_tenant_id r = t" "lbr_id r = ge_reservation_id env"
      using ok settled(1) by (auto simp: attempt_accounted_def)
    note o = own_settle[OF x settled(2)[unfolded r]]
    show ?thesis
    proof (cases w)
      case (Inl e)
      then show ?thesis using o ok settled by (cases v) auto
    next
      case (Inr z)
      then show ?thesis using o ok settled by (cases v) auto
    qed
  next
    case recorded
    have "own_rows (ge_reservation_id env) s' = []"
      using own_record[OF recorded(2), of "ge_reservation_id env"] ok recorded(1) by (simp add: attempt_accounted_def)
    then show ?thesis using ok recorded by (cases v) (auto simp: attempt_accounted_def)
  qed
qed

text \<open>The whole attempt, and the handler.\<close>

lemma attempt_cases:
  assumes "gateway_attempt env t pid p r decision included s = (w, st)"
  obtains (early) e where "w = Inl e" "at_reservation st = None" "\<not> at_dispatched st" "at_ledger st = s"
  | (refused) e est where "w = Inl e" "admit_call env t pid p est s = (Inl e, st)"
  | (failed) e est precall st1 where "w = Inl e" "admit_call env t pid p est s = (Inr precall, st1)"
      "st = st1\<lparr>at_dispatched := True, at_ledger := ge_during env (at_ledger st1)\<rparr>"
  | (called) est precall st1 resp x where "admit_call env t pid p est s = (Inr precall, st1)"
      "account_call env t pid (sr_purpose r) est resp precall
         (st1\<lparr>at_dispatched := True, at_ledger := ge_during env (at_ledger st1)\<rparr>) = (x, st)" "is_ok w = is_ok x"
proof -
  let ?pl = "provider_payload_of r included"
  show thesis
  proof (cases "\<exists>est. structured_output p \<and> pr_estimate p ?pl = Inr est")
    case False
    then show ?thesis
      using assms early by (auto simp: gateway_attempt_def Let_def split: if_splits sum.splits)
  next
    case True
    then obtain est where est: "structured_output p" "pr_estimate p ?pl = Inr est" by blast
    obtain y st1 where ad: "admit_call env t pid p est s = (y, st1)" by fastforce
    show ?thesis
    proof (cases y)
      case (Inl e)
      then show ?thesis using assms est ad refused by (auto simp: gateway_attempt_def Let_def)
    next
      case (Inr precall)
      note adm = ad[unfolded Inr]
      let ?st2 = "st1\<lparr>at_dispatched := True, at_ledger := ge_during env (at_ledger st1)\<rparr>"
      show ?thesis
      proof (cases "pr_generate p ?pl")
        case (Inl e)
        then show ?thesis using assms est adm failed by (auto simp: gateway_attempt_def Let_def)
      next
        case (Inr resp)
        obtain x st3 where x: "account_call env t pid (sr_purpose r) est resp precall ?st2 = (x, st3)" by fastforce
        have "st = st3" "is_ok w = is_ok x"
          using assms est adm Inr x by (cases x; auto simp: gateway_attempt_def Let_def)+
        then show ?thesis using called adm x by blast
      qed
    qed
  qed
qed

lemma dispatched_accounted:
  assumes fresh: "own_rows (ge_reservation_id env) s = []"
    and others: "\<forall>s. own_rows (ge_reservation_id env) (ge_during env s) = own_rows (ge_reservation_id env) s"
    and ad: "admit_call env t pid p est s = (Inr precall, st1)"
  defines "st2 \<equiv> st1\<lparr>at_dispatched := True, at_ledger := ge_during env (at_ledger st1)\<rparr>"
  shows "attempt_accounted t (ge_reservation_id env) st2"
    "ge_finops env \<and> has_active_budget t None (ge_precall_at env) s \<longrightarrow> at_reservation st2 \<noteq> None"
  using admit_accounted[OF fresh ad] others
  by (auto simp: st2_def attempt_accounted_def split: option.splits)

lemma attempt_succeeded:
  assumes fresh: "own_rows (ge_reservation_id env) s = []"
    and others: "\<forall>s. own_rows (ge_reservation_id env) (ge_during env s) = own_rows (ge_reservation_id env) s"
    and att: "gateway_attempt env t pid p r decision included s = (Inr res, st)"
  shows "(\<forall>x \<in> set (own_rows (ge_reservation_id env) (at_ledger st)). lbr_state x = Settled)
    \<and> (ge_finops env \<and> has_active_budget t None (ge_precall_at env) s \<longrightarrow> own_rows (ge_reservation_id env) (at_ledger st) \<noteq> [])"
  using att
proof (cases rule: attempt_cases)
  case (called est precall st1 resp x)
  note d = dispatched_accounted[OF fresh others called(1)]
  from account_accounted[OF called(2) d(1)] called(3) d(2) show ?thesis
    by (cases x) (auto split: option.splits)
qed auto

lemma attempt_failed:
  assumes fresh: "own_rows (ge_reservation_id env) s = []"
    and others: "\<forall>s. own_rows (ge_reservation_id env) (ge_during env s) = own_rows (ge_reservation_id env) s"
    and att: "gateway_attempt env t pid p r decision included s = (Inl e, st)"
  shows "attempt_accounted t (ge_reservation_id env) st
    \<and> (at_dispatched st \<and> ge_finops env \<and> has_active_budget t None (ge_precall_at env) s \<longrightarrow> at_reservation st \<noteq> None)"
  using att
proof (cases rule: attempt_cases)
  case (early e')
  then show ?thesis using fresh by (simp add: attempt_accounted_def)
next
  case (refused e' est)
  then show ?thesis using admit_accounted[OF fresh refused(2)] by simp
next
  case (failed e' est precall st1)
  then show ?thesis using dispatched_accounted[OF fresh others failed(2)] by simp
next
  case (called est precall st1 resp x)
  note d = dispatched_accounted[OF fresh others called(1)]
  from account_accounted[OF called(2) d(1)] called(3) d(2) show ?thesis
    by (cases x) (auto split: option.splits)
qed

lemma clean_up_accounted:
  assumes "attempt_accounted t i st" "clean_up env pid e st = (err, s')"
  shows "(\<forall>x \<in> set (own_rows i s'). lbr_state x = (if at_dispatched st then Uncertain else Released))
    \<and> (at_reservation st \<noteq> None \<longrightarrow> own_rows i s' \<noteq> [])"
proof (cases "at_reservation st")
  case None
  then show ?thesis using assms by (simp add: clean_up_def attempt_accounted_def)
next
  case (Some r)
  then obtain x where x: "own_rows i (at_ledger st) = [x]" "lbr_tenant_id x = t" "lbr_id x = i"
    "lbr_state x \<in> {Reserved, In_Flight}" and r: "lbr_tenant_id r = t" "lbr_id r = i"
    using assms(1) by (auto simp: attempt_accounted_def)
  show ?thesis
  proof (cases "at_dispatched st")
    case True
    obtain y where "own_rows i s' = [y]" "lbr_state y = Uncertain"
      using own_uncertain[OF x, of "ge_update_at env"] assms(2) Some True r by (auto simp: clean_up_def)
    then show ?thesis using True by simp
  next
    case False
    obtain y where "own_rows i s' = [y]" "lbr_state y = Released"
      using own_release[OF x, of "ge_update_at env"] assms(2) Some False r by (auto simp: clean_up_def)
    then show ?thesis using False by simp
  qed
qed

text \<open>
  C18: However a call ends, its reservation is accounted for.  With a fresh reservation
  identifier, and other clients that leave this reservation alone while the provider works,
  no row of it is still reserved or in flight afterwards: it is settled when the call
  succeeded, uncertain when the provider was called and anything failed after that, and
  released only if the provider was never called.  Under an active budget a provider is
  called only with a reservation.
\<close>

theorem no_reservation_is_lost:
  assumes g: "gateway_generate digest providers policy env tenant pid r source s = (v, payload, s')"
    and fresh: "own_rows (ge_reservation_id env) s = []"
    and others: "\<forall>s. own_rows (ge_reservation_id env) (ge_during env s) = own_rows (ge_reservation_id env) s"
  shows "(\<forall>x \<in> set (own_rows (ge_reservation_id env) s').
        (is_ok v \<longrightarrow> lbr_state x = Settled) \<and> (\<not> is_ok v \<and> payload \<noteq> None \<longrightarrow> lbr_state x = Uncertain)
        \<and> (payload = None \<longrightarrow> lbr_state x = Released))
    \<and> (payload \<noteq> None \<and> ge_finops env \<and> has_active_budget tenant None (ge_precall_at env) s \<longrightarrow>
        own_rows (ge_reservation_id env) s' \<noteq> [])"
proof (cases "\<exists>pf p included. preflight_structured digest providers policy tenant pid r source = Inr pf
    \<and> providers pid = Some p \<and> admitted_content pid r pf = Inr included")
  case False
  then have "payload = None" "s' = s"
    using g by (auto simp: gateway_generate_def split: sum.splits option.splits)
  then show ?thesis using fresh by simp
next
  case True
  then obtain pf p included where k: "preflight_structured digest providers policy tenant pid r source = Inr pf"
    "providers pid = Some p" "admitted_content pid r pf = Inr included" by blast
  obtain w st where att: "gateway_attempt env tenant pid p r (lp_policy_decision pf) included s = (w, st)" by fastforce
  show ?thesis
  proof (cases w)
    case (Inr res)
    then have "v = Inr res" "s' = at_ledger st" "payload \<noteq> None" using g k att by (auto simp: gateway_generate_def)
    then show ?thesis using attempt_succeeded[OF fresh others att[unfolded Inr]] by auto
  next
    case (Inl e)
    note f = attempt_failed[OF fresh others att[unfolded Inl]]
    obtain err s2 where c: "clean_up env pid e st = (err, s2)" by fastforce
    then have v: "v = Inl err" "s' = s2" "payload = None \<longleftrightarrow> \<not> at_dispatched st"
      using g k att Inl by (auto simp: gateway_generate_def)
    show ?thesis using clean_up_accounted[OF conjunct1[OF f] c] conjunct2[OF f] v by auto
  qed
qed

end
