(* ===== verification/Gateway_Examples.thy ===== *)
theory Gateway_Examples
  imports Gateway_Safety
begin

text \<open>
  A sample gateway (a priced provider behind the sample policy and the sample ledger), and
  the witnesses of the gateway's properties: a call that fails after it was dispatched, a
  redacted item with two contents, and a call that is answered.
\<close>

definition sample_item :: "string \<Rightarrow> string \<Rightarrow> classification \<Rightarrow> string \<Rightarrow> prompt_content_item" where
  "sample_item i k c v = \<lparr>pc_id = i, pc_kind = k, pc_classification = c, pc_content = [(''data'', v)]\<rparr>"

definition sample_request :: "string \<Rightarrow> structured_llm_request" where
  "sample_request v =
     \<lparr>sr_purpose = ''sql_generation'', sr_instructions = ''answer'',
      sr_content = [sample_item ''q'' ''user_question'' INTERNAL ''how many'',
                    sample_item ''t'' ''schema_object'' PII v],
      sr_output_schema = ''{}'', sr_required_content_ids = [''q''], sr_privacy_context = []\<rparr>"

definition sample_tokens :: token_estimate where
  "sample_tokens =
     \<lparr>te_input_tokens = 1000, te_output_tokens = 500, te_cached_input_tokens = 0, te_estimated_cost = None\<rparr>"

definition sample_response :: llm_response where
  "sample_response =
     \<lparr>lr_payload = ''{}'', lr_model_id = ''m1'', lr_input_tokens = 1000, lr_output_tokens = 750,
      lr_latency_ms = 9, lr_cached_input_tokens = 0\<rparr>"

definition sample_provider :: "(provider_failure + llm_response) \<Rightarrow> llm_provider" where
  "sample_provider answer =
     \<lparr>pr_capabilities = [(''structured_output'', Meta_Bool True), (''model_id'', Meta_Text ''m1'')],
      pr_estimate = (\<lambda>_. Inr sample_tokens), pr_generate = (\<lambda>_. answer)\<rparr>"

definition sample_env :: "bool \<Rightarrow> gateway_env" where
  "sample_env finops =
     \<lparr>ge_finops = finops, ge_decimals = integer_decimals, ge_precall_at = january, ge_priced_at = january,
      ge_actual_at = january, ge_usage_at = january, ge_update_at = january,
      ge_reservation_id = ''r1'', ge_usage_id = ''u1'', ge_during = (\<lambda>s. s)\<rparr>"

definition sample_generate ::
  "bool \<Rightarrow> (provider_failure + llm_response) \<Rightarrow> string \<Rightarrow>
   (gateway_error + llm_gateway_result) \<times> provider_payload option \<times> finops_store" where
  "sample_generate finops answer v =
     gateway_generate (\<lambda>_. ''digest'') (gateway_providers [('' openai'', sample_provider answer)])
       (question_prompt_egress sample_engine) (sample_env finops) ''acme'' ''openai'' (sample_request v)
       (Some ''ds'') sample_finops_store"


section \<open>Only admitted content\<close>

definition sample_payload :: provider_payload where
  "sample_payload =
     \<lparr>pl_purpose = ''sql_generation'', pl_instructions = ''answer'', pl_trust_level = ''untrusted_data'',
      pl_items = [(''q'', ''user_question'', [(''data'', ''how many'')])], pl_output_schema = ''{}''\<rparr>"

lemma sample_answered:
  "gateway_generate (\<lambda>_. ''digest'') (gateway_providers [('' openai'', sample_provider (Inr sample_response))])
      (question_prompt_egress sample_engine) (sample_env False) ''acme'' ''openai'' (sample_request ''secret'')
      (Some ''ds'') sample_finops_store
   = (fst (sample_generate False (Inr sample_response) ''secret''), Some sample_payload,
      snd (snd (sample_generate False (Inr sample_response) ''secret'')))"
proof -
  have "fst (snd (sample_generate False (Inr sample_response) ''secret'')) = Some sample_payload"
    by code_simp
  then show ?thesis by (simp add: sample_generate_def prod_eq_iff)
qed


section \<open>Redacted content\<close>

lemma redacted_content_has_no_influence_witness:
  "sample_generate True (Inr sample_response) ''other'' = sample_generate True (Inr sample_response) ''secret''"
proof -
  have "same_request (pd_redacted_fields (question_prompt_egress sample_engine ''acme'' ''openai''
      (map content_manifest (sr_content (sample_request ''secret''))) (Some ''ds'')
      (Some (sr_purpose (sample_request ''secret''))))) (sample_request ''secret'') (sample_request ''other'')"
    by code_simp
  from redacted_content_has_no_influence[OF this] show ?thesis by (simp add: sample_generate_def)
qed

section \<open>A dispatched call that fails\<close>

lemma sample_fresh: "own_rows ''r1'' sample_finops_store = []"
  by code_simp

lemma sample_started:
  "start_llm_budget_reservation ''acme'' ''r1'' january reserved_store = (Inr (), started_store)"
proof -
  have "fst (start_llm_budget_reservation ''acme'' ''r1'' january reserved_store) = Inr ()" by code_simp
  then show ?thesis by (simp add: started_store_def prod_eq_iff)
qed

lemma sample_admitted:
  "admit_call (sample_env True) ''acme'' ''openai'' (sample_provider (Inl (Ordinary ''timeout''))) sample_tokens
      sample_finops_store
    = (Inr (Some sample_estimate),
       \<lparr>at_reservation = Some sample_reservation, at_dispatched = False, at_ledger = started_store\<rparr>)"
proof -
  have m: "declared_model (sample_provider (Inl (Ordinary ''timeout''))) = Some ''m1''" by code_simp
  have t: "te_input_tokens sample_tokens = 1000" "te_output_tokens sample_tokens = 500"
    "te_cached_input_tokens sample_tokens = 0"
    by (simp_all add: sample_tokens_def)
  have r: "lbr_tenant_id sample_reservation = ''acme''" "lbr_id sample_reservation = ''r1''"
    by (simp_all add: sample_reservation_def)
  show ?thesis
    by (simp add: admit_call_def sample_env_def m t sample_estimate_priced sample_reserve r sample_started)
qed

lemma sample_failed:
  "fst (snd (sample_generate True (Inl (Ordinary ''timeout'')) ''secret'')) = Some sample_payload"
proof -
  let ?ps = "gateway_providers [('' openai'', sample_provider (Inl (Ordinary ''timeout'')))]"
  let ?pf = "preflight_structured (\<lambda>_. ''digest'') ?ps (question_prompt_egress sample_engine) ''acme'' ''openai''
    (sample_request ''secret'') (Some ''ds'')"
  have "\<exists>pf. ?pf = Inr pf"
  proof -
    have "is_ok ?pf" by code_simp
    then show ?thesis by (simp add: is_ok_iff)
  qed
  then obtain pf where pf: "?pf = Inr pf" ..
  have "(case ?pf of Inl e \<Rightarrow> None | Inr pf \<Rightarrow> (case admitted_content ''openai'' (sample_request ''secret'') pf of
      Inl b \<Rightarrow> None | Inr inc \<Rightarrow> Some (provider_payload_of (sample_request ''secret'') inc))) = Some sample_payload"
    by code_simp
  then obtain inc where inc: "admitted_content ''openai'' (sample_request ''secret'') pf = Inr inc"
    "provider_payload_of (sample_request ''secret'') inc = sample_payload"
    by (auto simp: pf split: sum.splits)
  have name: "strip '' openai'' = ''openai''" "\<not> blank '' openai''" by code_simp+
  have p: "?ps ''openai'' = Some (sample_provider (Inl (Ordinary ''timeout'')))"
    by (simp add: gateway_providers_def name)
  have st: "structured_output (sample_provider (Inl (Ordinary ''timeout'')))" by code_simp
  let ?p = "sample_provider (Inl (Ordinary ''timeout''))"
  have e: "pr_estimate ?p pl = Inr sample_tokens" "pr_generate ?p pl = Inl (Ordinary ''timeout'')" for pl
    by (simp_all add: sample_provider_def)
  obtain err s' where c: "clean_up (sample_env True) ''openai'' (Provider_Raised ''timeout'')
      \<lparr>at_reservation = Some sample_reservation, at_dispatched = True, at_ledger = started_store\<rparr> = (err, s')"
    by fastforce
  have during: "ge_during (sample_env True) x = x" for x by (simp add: sample_env_def)
  show ?thesis
    unfolding sample_generate_def gateway_generate_def pf p sum.case option.case inc(1) gateway_attempt_def Let_def
    by (simp add: st e sample_admitted inc(2) during c)
qed

lemma no_reservation_is_lost_witness:
  "own_rows ''r1'' (snd (snd (sample_generate True (Inl (Ordinary ''timeout'')) ''secret''))) \<noteq> []
   \<and> lbr_state (hd (own_rows ''r1'' (snd (snd (sample_generate True (Inl (Ordinary ''timeout'')) ''secret'')))))
        \<in> {Settled, Uncertain}"
proof -
  let ?g = "sample_generate True (Inl (Ordinary ''timeout'')) ''secret''"
  have g: "gateway_generate (\<lambda>_. ''digest'')
      (gateway_providers [('' openai'', sample_provider (Inl (Ordinary ''timeout'')))])
      (question_prompt_egress sample_engine) (sample_env True) ''acme'' ''openai'' (sample_request ''secret'')
      (Some ''ds'') sample_finops_store = (fst ?g, Some sample_payload, snd (snd ?g))"
    using sample_failed by (simp add: sample_generate_def prod_eq_iff)
  have i: "ge_reservation_id (sample_env True) = ''r1''" "\<forall>s. ge_during (sample_env True) s = s"
    "ge_finops (sample_env True)" "ge_precall_at (sample_env True) = january"
    by (simp_all add: sample_env_def)
  have b: "has_active_budget ''acme'' None january sample_finops_store" by code_simp
  show ?thesis
    using no_reservation_is_lost[OF g] sample_fresh b i hd_in_set by (cases "fst ?g") auto
qed

end
