(* ===== verification/Security_Store.thy ===== *)
theory Security_Store
  imports Domain_Model Sql_Tables
begin

text \<open>
  Tenants, data sources, principals, credentials and role assignments: the dataclasses of
  \<open>domain/models.py\<close> with their checks, and the transactions of
  \<open>catalog/repository.py\<close> on their tables.  No operation of the program updates or deletes
  a row of these tables (the schema has triggers that abort such statements).  Where the
  code draws a fresh identifier or reads the clock, the value is an argument.
\<close>

section \<open>Entities\<close>

datatype platform_role = Admin | Data_Steward | Analyst | Viewer

datatype security_error =
    Tenant_Name_Blank | Principal_Fields_Missing
  | Credential_Fields_Missing | Credential_Hash_Invalid | Credential_Expiry_Invalid
  | Assignment_Fields_Missing | Revocation_Fields_Missing | Revocation_Reason_Blank
  | Security_Tenant_Missing | Source_Invalid data_source_error | Catalog_Integrity
  | Access_Needs_One_Scope | Credential_Of_Another_Principal | Assignment_Scope_Mismatch
  | Security_Conflict

record tenant =
  tn_name :: string
  tn_id :: string
  tn_created_at :: timestamp

definition tenant_post_init :: "tenant \<Rightarrow> security_error + unit" where
  "tenant_post_init t = raise_if (blank (tn_name t)) Tenant_Name_Blank"

record security_principal =
  sp_tenant_id :: string
  sp_subject :: string
  sp_display_name :: string
  sp_id :: string
  sp_created_at :: timestamp

definition security_principal_post_init :: "security_principal \<Rightarrow> security_error + unit" where
  "security_principal_post_init p =
     raise_if (\<exists>v \<in> set [sp_tenant_id p, sp_subject p, sp_display_name p]. blank v) Principal_Fields_Missing"

record api_credential =
  ac_tenant_id :: string
  ac_principal_id :: string
  ac_label :: string
  ac_token_sha256 :: string
  ac_expires_at :: "timestamp option"
  ac_id :: string
  ac_created_at :: timestamp

definition api_credential_post_init :: "api_credential \<Rightarrow> security_error + unit" where
  "api_credential_post_init c =
     first_raise
       [(\<exists>v \<in> set [ac_tenant_id c, ac_principal_id c, ac_label c]. blank v, Credential_Fields_Missing),
        (\<not> sha256_digest (ac_token_sha256 c), Credential_Hash_Invalid),
        (\<exists>t \<in> set_option (ac_expires_at c). t \<le> ac_created_at c, Credential_Expiry_Invalid)]"

record tenant_role_assignment =
  ta_tenant_id :: string
  ta_principal_id :: string
  ta_role :: platform_role
  ta_created_by :: string
  ta_id :: string
  ta_created_at :: timestamp

definition tenant_role_assignment_post_init :: "tenant_role_assignment \<Rightarrow> security_error + unit" where
  "tenant_role_assignment_post_init a =
     raise_if (\<exists>v \<in> set [ta_tenant_id a, ta_principal_id a, ta_created_by a]. blank v) Assignment_Fields_Missing"

record source_role_assignment =
  sa_tenant_id :: string
  sa_data_source_id :: string
  sa_principal_id :: string
  sa_role :: platform_role
  sa_created_by :: string
  sa_id :: string
  sa_created_at :: timestamp

definition source_role_assignment_post_init :: "source_role_assignment \<Rightarrow> security_error + unit" where
  "source_role_assignment_post_init a =
     raise_if (\<exists>v \<in> set [sa_tenant_id a, sa_data_source_id a, sa_principal_id a, sa_created_by a]. blank v)
       Assignment_Fields_Missing"

record credential_revocation =
  cr_tenant_id :: string
  cr_credential_id :: string
  cr_actor_id :: string
  cr_reason :: "string option"
  cr_id :: string
  cr_created_at :: timestamp

definition credential_revocation_post_init :: "credential_revocation \<Rightarrow> security_error + unit" where
  "credential_revocation_post_init r =
     first_raise
       [(\<exists>v \<in> set [cr_tenant_id r, cr_credential_id r, cr_actor_id r]. blank v, Revocation_Fields_Missing),
        (\<exists>x \<in> set_option (cr_reason r). blank x, Revocation_Reason_Blank)]"

datatype access_scope = Tenant_Scope | Source_Scope

datatype security_audit =
    Tenant_Created string
  | Source_Created string string data_source_type string
  | Principal_Provisioned string string string platform_role access_scope nat string
  | Federated_Provisioned string string platform_role access_scope nat string
  | Credential_Revoked string string string string

record security_store =
  ss_tenants :: "tenant list"
  ss_data_sources :: "data_source list"
  ss_principals :: "security_principal list"
  ss_credentials :: "api_credential list"
  ss_tenant_roles :: "tenant_role_assignment list"
  ss_source_roles :: "source_role_assignment list"
  ss_revocations :: "credential_revocation list"
  ss_audit :: "security_audit list"

definition append_security_audit :: "security_audit \<Rightarrow> security_store \<Rightarrow> security_store" where
  "append_security_audit e s = s\<lparr>ss_audit := ss_audit s @ [e]\<rparr>"

section \<open>Tenants and data sources\<close>

text \<open>The order of \<open>COLLATE NOCASE\<close>, which folds ASCII letters only.\<close>

definition nocase :: "string \<Rightarrow> string" where
  "nocase s = map (\<lambda>c. if py_isupper_char c \<and> py_isascii c then char_of (code_point c + 32) else c) s"

definition create_tenant ::
  "string \<Rightarrow> string \<Rightarrow> timestamp \<Rightarrow> security_store \<Rightarrow> (security_error + tenant) \<times> security_store" where
  "create_tenant name i now s =
     (let t = \<lparr>tn_name = strip name, tn_id = i, tn_created_at = now\<rparr>
      in case tenant_post_init t of
           Inl e \<Rightarrow> (Inl e, s)
         | Inr _ \<Rightarrow>
             if \<exists>x \<in> set (ss_tenants s). tn_id x = i \<or> tn_name x = tn_name t
             then (Inl Catalog_Integrity, s)
             else (Inr t, append_security_audit (Tenant_Created i) (s\<lparr>ss_tenants := ss_tenants s @ [t]\<rparr>)))"

definition get_tenant :: "string \<Rightarrow> security_store \<Rightarrow> tenant option" where
  "get_tenant i s = fetch_one (\<lambda>t. tn_id t = i) (ss_tenants s)"

definition list_tenants :: "security_store \<Rightarrow> tenant list" where
  "list_tenants s = sort_key (\<lambda>t. (nocase (tn_name t), tn_id t)) (ss_tenants s)"

definition create_data_source ::
  "string \<Rightarrow> string \<Rightarrow> data_source_type \<Rightarrow> string \<Rightarrow> data_source_capability list \<Rightarrow> string option \<Rightarrow>
   string \<Rightarrow> timestamp \<Rightarrow> security_store \<Rightarrow> (security_error + data_source) \<times> security_store" where
  "create_data_source tenant name kind dialect capabilities secret i now s =
     (if get_tenant tenant s = None then (Inl Security_Tenant_Missing, s)
      else
        let d = \<lparr>ds_tenant_id = tenant, ds_name = strip name, ds_source_type = kind,
                 ds_dialect = py_lower (strip dialect), ds_capabilities = remdups capabilities,
                 ds_connection_secret_ref = map_option strip secret, ds_id = i, ds_created_at = now\<rparr>
        in case data_source_post_init d of
             Inl e \<Rightarrow> (Inl (Source_Invalid e), s)
           | Inr _ \<Rightarrow>
               if \<exists>x \<in> set (ss_data_sources s). ds_id x = i \<or> (ds_tenant_id x = tenant \<and> ds_name x = ds_name d)
               then (Inl Catalog_Integrity, s)
               else (Inr d,
                     append_security_audit (Source_Created tenant i kind (ds_dialect d))
                       (s\<lparr>ss_data_sources := ss_data_sources s @ [d]\<rparr>)))"

definition tenant_data_source :: "string \<Rightarrow> string \<Rightarrow> security_store \<Rightarrow> data_source option" where
  "tenant_data_source tenant i s = fetch_one (\<lambda>d. ds_tenant_id d = tenant \<and> ds_id d = i) (ss_data_sources s)"

definition list_data_sources :: "string \<Rightarrow> security_store \<Rightarrow> security_error + data_source list" where
  "list_data_sources tenant s =
     (if get_tenant tenant s = None then Inl Security_Tenant_Missing
      else Inr (sort_key (\<lambda>d. (nocase (ds_name d), ds_id d))
                  (filter (\<lambda>d. ds_tenant_id d = tenant) (ss_data_sources s))))"

section \<open>Access\<close>

text \<open>The constraints of the tables: primary keys, unique columns and foreign keys.\<close>

definition principal_fits :: "security_store \<Rightarrow> security_principal \<Rightarrow> bool" where
  "principal_fits s p =
     (sp_tenant_id p \<in> tn_id ` set (ss_tenants s)
      \<and> \<not> (\<exists>x \<in> set (ss_principals s). sp_id x = sp_id p
             \<or> (sp_tenant_id x = sp_tenant_id p \<and> sp_subject x = sp_subject p)))"

definition has_principal :: "security_store \<Rightarrow> string \<Rightarrow> string \<Rightarrow> bool" where
  "has_principal s tenant i = (\<exists>x \<in> set (ss_principals s). sp_tenant_id x = tenant \<and> sp_id x = i)"

definition credential_fits :: "security_store \<Rightarrow> api_credential \<Rightarrow> bool" where
  "credential_fits s c =
     (length (ac_token_sha256 c) = 64 \<and> has_principal s (ac_tenant_id c) (ac_principal_id c)
      \<and> \<not> (\<exists>x \<in> set (ss_credentials s). ac_id x = ac_id c \<or> ac_token_sha256 x = ac_token_sha256 c))"

definition tenant_role_fits :: "security_store \<Rightarrow> tenant_role_assignment \<Rightarrow> bool" where
  "tenant_role_fits s a =
     (ta_tenant_id a \<in> tn_id ` set (ss_tenants s) \<and> has_principal s (ta_tenant_id a) (ta_principal_id a)
      \<and> \<not> (\<exists>x \<in> set (ss_tenant_roles s). ta_id x = ta_id a
             \<or> (ta_tenant_id x, ta_principal_id x, ta_role x) = (ta_tenant_id a, ta_principal_id a, ta_role a)))"

definition source_role_fits :: "security_store \<Rightarrow> source_role_assignment \<Rightarrow> bool" where
  "source_role_fits s a =
     ((sa_tenant_id a, sa_data_source_id a) \<in> (\<lambda>d. (ds_tenant_id d, ds_id d)) ` set (ss_data_sources s)
      \<and> has_principal s (sa_tenant_id a) (sa_principal_id a)
      \<and> \<not> (\<exists>x \<in> set (ss_source_roles s). sa_id x = sa_id a
             \<or> (sa_tenant_id x, sa_data_source_id x, sa_principal_id x, sa_role x)
                = (sa_tenant_id a, sa_data_source_id a, sa_principal_id a, sa_role a)))"

text \<open>The statements of the transaction in their order; \<open>None\<close> is an integrity error.\<close>

fun insert_source_roles :: "source_role_assignment list \<Rightarrow> security_store \<Rightarrow> security_store option" where
  "insert_source_roles [] s = Some s"
| "insert_source_roles (a # as) s =
     (if source_role_fits s a
      then insert_source_roles as (s\<lparr>ss_source_roles := ss_source_roles s @ [a]\<rparr>) else None)"

definition insert_principal :: "security_principal \<Rightarrow> security_store \<Rightarrow> security_store option" where
  "insert_principal p s =
     (if principal_fits s p then Some (s\<lparr>ss_principals := ss_principals s @ [p]\<rparr>) else None)"

definition insert_credential :: "api_credential \<Rightarrow> security_store \<Rightarrow> security_store option" where
  "insert_credential c s =
     (if credential_fits s c then Some (s\<lparr>ss_credentials := ss_credentials s @ [c]\<rparr>) else None)"

definition insert_assignments ::
  "tenant_role_assignment option \<Rightarrow> source_role_assignment list \<Rightarrow> security_store \<Rightarrow> security_store option" where
  "insert_assignments tenant_role source_roles s =
     (case tenant_role of
        Some a \<Rightarrow>
          if tenant_role_fits s a then Some (s\<lparr>ss_tenant_roles := ss_tenant_roles s @ [a]\<rparr>) else None
      | None \<Rightarrow> insert_source_roles source_roles s)"

text \<open>The checks before the transaction, which both kinds of access share.\<close>

definition scopes_match ::
  "security_principal \<Rightarrow> tenant_role_assignment option \<Rightarrow> source_role_assignment list \<Rightarrow> bool" where
  "scopes_match p tenant_role source_roles =
     (case tenant_role of
        Some a \<Rightarrow> ta_tenant_id a = sp_tenant_id p \<and> ta_principal_id a = sp_id p
      | None \<Rightarrow> (\<forall>a \<in> set source_roles. sa_tenant_id a = sp_tenant_id p \<and> sa_principal_id a = sp_id p))"

definition assigned_role :: "tenant_role_assignment option \<Rightarrow> source_role_assignment list \<Rightarrow> platform_role" where
  "assigned_role tenant_role source_roles =
     (case tenant_role of Some a \<Rightarrow> ta_role a | None \<Rightarrow> sa_role (hd source_roles))"

definition assigned_by :: "tenant_role_assignment option \<Rightarrow> source_role_assignment list \<Rightarrow> string" where
  "assigned_by tenant_role source_roles =
     (case tenant_role of Some a \<Rightarrow> ta_created_by a | None \<Rightarrow> sa_created_by (hd source_roles))"

definition scope_of :: "tenant_role_assignment option \<Rightarrow> access_scope" where
  "scope_of tenant_role = (if tenant_role \<noteq> None then Tenant_Scope else Source_Scope)"

definition create_security_access ::
  "security_principal \<Rightarrow> api_credential \<Rightarrow> tenant_role_assignment option \<Rightarrow> source_role_assignment list \<Rightarrow>
   security_store \<Rightarrow> (security_error + unit) \<times> security_store" where
  "create_security_access p c tenant_role source_roles s =
     (if (tenant_role = None) = (source_roles = []) then (Inl Access_Needs_One_Scope, s)
      else if ac_principal_id c \<noteq> sp_id p then (Inl Credential_Of_Another_Principal, s)
      else if \<not> scopes_match p tenant_role source_roles then (Inl Assignment_Scope_Mismatch, s)
      else case Option.bind (insert_principal p s)
                  (\<lambda>s. Option.bind (insert_credential c s) (insert_assignments tenant_role source_roles)) of
        None \<Rightarrow> (Inl Security_Conflict, s)
      | Some s' \<Rightarrow>
          (Inr (), append_security_audit
             (Principal_Provisioned (sp_tenant_id p) (sp_id p) (ac_id c)
                (assigned_role tenant_role source_roles) (scope_of tenant_role) (length source_roles)
                (assigned_by tenant_role source_roles)) s'))"

definition create_federated_security_access ::
  "security_principal \<Rightarrow> tenant_role_assignment option \<Rightarrow> source_role_assignment list \<Rightarrow>
   security_store \<Rightarrow> (security_error + unit) \<times> security_store" where
  "create_federated_security_access p tenant_role source_roles s =
     (if (tenant_role = None) = (source_roles = []) then (Inl Access_Needs_One_Scope, s)
      else if \<not> scopes_match p tenant_role source_roles then (Inl Assignment_Scope_Mismatch, s)
      else case Option.bind (insert_principal p s) (insert_assignments tenant_role source_roles) of
        None \<Rightarrow> (Inl Security_Conflict, s)
      | Some s' \<Rightarrow>
          (Inr (), append_security_audit
             (Federated_Provisioned (sp_tenant_id p) (sp_id p)
                (assigned_role tenant_role source_roles) (scope_of tenant_role) (length source_roles)
                (assigned_by tenant_role source_roles)) s'))"

definition get_security_principal :: "string \<Rightarrow> string \<Rightarrow> security_store \<Rightarrow> security_principal option" where
  "get_security_principal tenant i s =
     fetch_one (\<lambda>p. sp_tenant_id p = tenant \<and> sp_id p = i) (ss_principals s)"

definition get_security_principal_by_subject ::
  "string \<Rightarrow> string \<Rightarrow> security_store \<Rightarrow> security_principal option" where
  "get_security_principal_by_subject tenant subject s =
     fetch_one (\<lambda>p. sp_tenant_id p = tenant \<and> sp_subject p = subject) (ss_principals s)"

definition list_security_principals :: "string \<Rightarrow> security_store \<Rightarrow> security_principal list" where
  "list_security_principals tenant s =
     sort_key (\<lambda>p. (sp_created_at p, sp_id p)) (filter (\<lambda>p. sp_tenant_id p = tenant) (ss_principals s))"

definition get_api_credential_by_hash :: "string \<Rightarrow> security_store \<Rightarrow> api_credential option" where
  "get_api_credential_by_hash h s = fetch_one (\<lambda>c. ac_token_sha256 c = h) (ss_credentials s)"

definition get_api_credential :: "string \<Rightarrow> string \<Rightarrow> security_store \<Rightarrow> api_credential option" where
  "get_api_credential tenant i s = fetch_one (\<lambda>c. ac_tenant_id c = tenant \<and> ac_id c = i) (ss_credentials s)"

definition list_api_credentials :: "string \<Rightarrow> string option \<Rightarrow> security_store \<Rightarrow> api_credential list" where
  "list_api_credentials tenant principal_id s =
     sort_key (\<lambda>c. (ac_created_at c, ac_id c))
       (filter (\<lambda>c. ac_tenant_id c = tenant \<and> (\<forall>p \<in> set_option principal_id. ac_principal_id c = p))
          (ss_credentials s))"

definition list_tenant_role_assignments ::
  "string \<Rightarrow> string option \<Rightarrow> security_store \<Rightarrow> tenant_role_assignment list" where
  "list_tenant_role_assignments tenant principal_id s =
     sort_key (\<lambda>a. (ta_created_at a, ta_id a))
       (filter (\<lambda>a. ta_tenant_id a = tenant \<and> (\<forall>p \<in> set_option principal_id. ta_principal_id a = p))
          (ss_tenant_roles s))"

definition list_data_source_role_assignments ::
  "string \<Rightarrow> string option \<Rightarrow> string option \<Rightarrow> security_store \<Rightarrow> source_role_assignment list" where
  "list_data_source_role_assignments tenant principal_id source_id s =
     sort_key (\<lambda>a. (sa_created_at a, sa_id a))
       (filter (\<lambda>a. sa_tenant_id a = tenant \<and> (\<forall>p \<in> set_option principal_id. sa_principal_id a = p)
                   \<and> (\<forall>d \<in> set_option source_id. sa_data_source_id a = d))
          (ss_source_roles s))"

definition create_api_credential_revocation ::
  "credential_revocation \<Rightarrow> security_store \<Rightarrow> (security_error + credential_revocation) \<times> security_store" where
  "create_api_credential_revocation r s =
     (if (\<exists>x \<in> set (ss_revocations s). cr_id x = cr_id r
             \<or> (cr_tenant_id x = cr_tenant_id r \<and> cr_credential_id x = cr_credential_id r))
         \<or> get_api_credential (cr_tenant_id r) (cr_credential_id r) s = None
      then (Inl Security_Conflict, s)
      else (Inr r,
            append_security_audit
              (Credential_Revoked (cr_tenant_id r) (cr_credential_id r) (cr_id r) (cr_actor_id r))
              (s\<lparr>ss_revocations := ss_revocations s @ [r]\<rparr>)))"

definition get_api_credential_revocation ::
  "string \<Rightarrow> string \<Rightarrow> security_store \<Rightarrow> credential_revocation option" where
  "get_api_credential_revocation tenant i s =
     fetch_one (\<lambda>r. cr_tenant_id r = tenant \<and> cr_credential_id r = i) (ss_revocations s)"

definition list_api_credential_revocations :: "string \<Rightarrow> security_store \<Rightarrow> credential_revocation list" where
  "list_api_credential_revocations tenant s =
     sort_key (\<lambda>r. (cr_created_at r, cr_id r)) (filter (\<lambda>r. cr_tenant_id r = tenant) (ss_revocations s))"

end
