(* ===== verification/Oidc.thy ===== *)
theory Oidc
  imports Prelude
begin

text \<open>
  \<open>packages/security/sqlverity_security/oidc.py\<close>: the validation of an identity token's
  claims, and the browser flow that exchanges a callback for a token.

  The JWT decoder, the URL parser, the message authentication code, base64, JSON, the HTTP
  exchange and the clock are arguments.  A claim or a field of a JSON object is a
  \<open>claim_value\<close>; of a value of another kind only its truth matters.
\<close>

datatype claim_value =
    Json_Text string | Json_Int int | Json_List "claim_value list" | Json_Other bool

type_synonym json_object = "(string \<times> claim_value) list"

datatype oidc_error =
    Oidc_Setting_Missing string | Oidc_Endpoints_Not_Https | Oidc_Acr_Blank
  | Browser_Setting_Missing string | Browser_Endpoints_Not_Https | Browser_Redirect_Invalid
  | Browser_Secret_Short
  | Oidc_Not_A_Jwt | Oidc_Validation_Failed | Oidc_Decoder_Refused | Oidc_No_Subject | Oidc_No_Tenant
  | Oidc_Nonce_Mismatch | Oidc_No_Mfa | Oidc_Acr_Unsatisfied
  | Callback_Incomplete | Cookie_Invalid | Callback_State_Mismatch | Login_Flow_Expired
  | Exchange_Failed | Exchange_Response_Invalid | Exchange_No_Token
  | Not_Ascii_Raised | Environment_Not_Boolean string

text \<open>The errors that are no \<open>OIDCAuthenticationError\<close>: a caller that catches that class lets them through.\<close>

fun authentication_error :: "oidc_error \<Rightarrow> bool" where
  "authentication_error e =
     (case e of Oidc_Setting_Missing _ \<Rightarrow> False | Oidc_Endpoints_Not_Https \<Rightarrow> False | Oidc_Acr_Blank \<Rightarrow> False
      | Browser_Setting_Missing _ \<Rightarrow> False | Browser_Endpoints_Not_Https \<Rightarrow> False
      | Browser_Redirect_Invalid \<Rightarrow> False | Browser_Secret_Short \<Rightarrow> False
      | Not_Ascii_Raised \<Rightarrow> False | Environment_Not_Boolean _ \<Rightarrow> False | _ \<Rightarrow> True)"

section \<open>Settings\<close>

text \<open>What \<open>urllib.parse.urlparse\<close> reports of a URL.\<close>

record parsed_url =
  pu_scheme :: string
  pu_hostname :: "string option"
  pu_username :: "string option"
  pu_password :: "string option"
  pu_fragment :: string
  pu_query :: string

definition no_host :: "parsed_url \<Rightarrow> bool" where
  "no_host u = (pu_hostname u = None \<or> pu_hostname u = Some [])"

definition has_userinfo :: "parsed_url \<Rightarrow> bool" where
  "has_userinfo u = (pu_username u \<noteq> None \<or> pu_password u \<noteq> None)"

record oidc_settings =
  os_issuer :: string
  os_audience :: string
  os_jwks_url :: string
  os_tenant_claim :: string
  os_require_mfa :: bool
  os_required_acr :: "string option"

fun first_missing :: "(string \<Rightarrow> 'e) \<Rightarrow> (string \<times> string) list \<Rightarrow> 'e + unit" where
  "first_missing e [] = Inr ()"
| "first_missing e ((name, value) # rest) = (if blank value then Inl (e name) else first_missing e rest)"

definition oidc_settings_post_init :: "(string \<Rightarrow> parsed_url) \<Rightarrow> oidc_settings \<Rightarrow> oidc_error + unit" where
  "oidc_settings_post_init urlparse cfg =
     bind_result
       (first_missing Oidc_Setting_Missing
          [(''issuer'', os_issuer cfg), (''audience'', os_audience cfg), (''jwks_url'', os_jwks_url cfg),
           (''tenant_claim'', os_tenant_claim cfg)])
       (\<lambda>_. first_raise
          [(\<exists>u \<in> set (map urlparse [os_issuer cfg, os_jwks_url cfg]).
              pu_scheme u \<noteq> ''https'' \<or> no_host u \<or> has_userinfo u \<or> pu_fragment u \<noteq> [],
            Oidc_Endpoints_Not_Https),
           (\<exists>a \<in> set_option (os_required_acr cfg). blank a, Oidc_Acr_Blank)])"

record federated_identity =
  fi_subject :: string
  fi_tenant_id :: string
  fi_display_name :: string
  fi_mfa_verified :: bool

section \<open>Claims\<close>

definition claim :: "string \<Rightarrow> json_object \<Rightarrow> claim_value option" where
  "claim k m = map_of (rev m) k"

text \<open>A claim that is a string that is not blank.\<close>

definition text_claim :: "string \<Rightarrow> json_object \<Rightarrow> string option" where
  "text_claim k m =
     (case claim k m of Some (Json_Text t) \<Rightarrow> if blank t then None else Some t | _ \<Rightarrow> None)"

fun truthy :: "claim_value \<Rightarrow> bool" where
  "truthy (Json_Text t) = (t \<noteq> [])"
| "truthy (Json_Int n) = (n \<noteq> 0)"
| "truthy (Json_List vs) = (vs \<noteq> [])"
| "truthy (Json_Other b) = b"

text \<open>\<open>claims.get("amr", ())\<close>: the texts of a list, folded.\<close>

definition authentication_methods :: "json_object \<Rightarrow> string list" where
  "authentication_methods m =
     (case claim ''amr'' m of
        Some (Json_List vs) \<Rightarrow> concat (map (\<lambda>v. case v of Json_Text t \<Rightarrow> [casefold t] | _ \<Rightarrow> []) vs)
      | _ \<Rightarrow> [])"

definition proves_mfa :: "json_object \<Rightarrow> bool" where
  "proves_mfa m = (\<exists>x \<in> set (authentication_methods m). x \<in> {''mfa'', ''otp'', ''hwk'', ''swk''})"

definition display_name_of :: "json_object \<Rightarrow> string \<Rightarrow> string" where
  "display_name_of m subject =
     (let value = (case claim ''name'' m of
            Some v \<Rightarrow> if truthy v then v else
              (case claim ''preferred_username'' m of Some w \<Rightarrow> if truthy w then w else Json_Text subject
               | None \<Rightarrow> Json_Text subject)
          | None \<Rightarrow>
              (case claim ''preferred_username'' m of Some w \<Rightarrow> if truthy w then w else Json_Text subject
               | None \<Rightarrow> Json_Text subject))
      in case value of Json_Text t \<Rightarrow> if blank t then strip subject else strip t | _ \<Rightarrow> strip subject)"

text \<open>
  The decoder returns the claims of a token whose signature, issuer, audience and expiry it
  verified, raises \<open>OIDCAuthenticationError\<close> (\<open>Inl True\<close>) or another exception (\<open>Inl False\<close>).
\<close>

type_synonym oidc_decoder = "string \<Rightarrow> oidc_settings \<Rightarrow> bool + json_object"

definition identity_of ::
  "oidc_settings \<Rightarrow> json_object \<Rightarrow> string option \<Rightarrow> oidc_error + federated_identity" where
  "identity_of cfg claims nonce =
     (case text_claim ''sub'' claims of
        None \<Rightarrow> Inl Oidc_No_Subject
      | Some subject \<Rightarrow>
          (case text_claim (os_tenant_claim cfg) claims of
             None \<Rightarrow> Inl Oidc_No_Tenant
           | Some tenant \<Rightarrow>
               if \<exists>n \<in> set_option nonce. claim ''nonce'' claims \<noteq> Some (Json_Text n)
               then Inl Oidc_Nonce_Mismatch
               else if os_require_mfa cfg \<and> \<not> proves_mfa claims then Inl Oidc_No_Mfa
               else if \<exists>a \<in> set_option (os_required_acr cfg). claim ''acr'' claims \<noteq> Some (Json_Text a)
               then Inl Oidc_Acr_Unsatisfied
               else Inr \<lparr>fi_subject = strip subject, fi_tenant_id = strip tenant,
                         fi_display_name = display_name_of claims subject,
                         fi_mfa_verified = proves_mfa claims\<rparr>))"

definition oidc_authenticate ::
  "oidc_decoder \<Rightarrow> oidc_settings \<Rightarrow> string \<Rightarrow> string option \<Rightarrow> oidc_error + federated_identity" where
  "oidc_authenticate decoder cfg token nonce =
     (if count_list token CHR ''.'' \<noteq> 2 then Inl Oidc_Not_A_Jwt
      else case decoder token cfg of
        Inl True \<Rightarrow> Inl Oidc_Decoder_Refused
      | Inl False \<Rightarrow> Inl Oidc_Validation_Failed
      | Inr claims \<Rightarrow> identity_of cfg claims nonce)"

section \<open>The browser flow\<close>

record browser_settings =
  bs_authorization_endpoint :: string
  bs_token_endpoint :: string
  bs_client_id :: string
  bs_redirect_uri :: string
  bs_session_secret :: string
  bs_client_secret :: "string option"
  bs_secure_cookies :: bool

definition redirect_invalid :: "browser_settings \<Rightarrow> parsed_url \<Rightarrow> bool" where
  "redirect_invalid b u =
     (no_host u \<or> has_userinfo u \<or> pu_fragment u \<noteq> [] \<or> pu_query u \<noteq> []
      \<or> (pu_scheme u \<noteq> ''https''
         \<and> \<not> (pu_scheme u = ''http'' \<and> pu_hostname u \<in> {Some ''127.0.0.1'', Some ''localhost'', Some ''::1''}
              \<and> \<not> bs_secure_cookies b)))"

definition browser_settings_post_init :: "(string \<Rightarrow> parsed_url) \<Rightarrow> browser_settings \<Rightarrow> oidc_error + unit" where
  "browser_settings_post_init urlparse b =
     bind_result
       (first_missing Browser_Setting_Missing
          [(''authorization endpoint'', bs_authorization_endpoint b), (''token endpoint'', bs_token_endpoint b),
           (''client id'', bs_client_id b), (''redirect URI'', bs_redirect_uri b)])
       (\<lambda>_. first_raise
          [(\<exists>u \<in> set (map urlparse [bs_authorization_endpoint b, bs_token_endpoint b]).
              pu_scheme u \<noteq> ''https'' \<or> no_host u \<or> has_userinfo u \<or> pu_fragment u \<noteq> [] \<or> pu_query u \<noteq> [],
            Browser_Endpoints_Not_Https),
           (redirect_invalid b (urlparse (bs_redirect_uri b)), Browser_Redirect_Invalid),
           (length (bs_session_secret b) < 32, Browser_Secret_Short)])"

text \<open>
  \<open>bl_mac\<close> is HMAC-SHA256 with base64 of its digest, \<open>bl_encode\<close> the base64 text of the JSON
  of an object and \<open>bl_decode\<close> what is read back from such a text (\<open>Inl ()\<close> for text that is
  no base64 or JSON, \<open>Inr None\<close> for JSON that is no object); \<open>bl_challenge\<close> is the PKCE
  challenge, \<open>bl_authorization_url\<close> the URL with its query.
\<close>

record browser_lib =
  bl_mac :: "string \<Rightarrow> string \<Rightarrow> string"
  bl_encode :: "json_object \<Rightarrow> string"
  bl_decode :: "string \<Rightarrow> unit + json_object option"
  bl_challenge :: "string \<Rightarrow> string"
  bl_authorization_url :: "browser_settings \<Rightarrow> string \<Rightarrow> string \<Rightarrow> string \<Rightarrow> string"

definition seal :: "browser_lib \<Rightarrow> browser_settings \<Rightarrow> json_object \<Rightarrow> string" where
  "seal lib b payload =
     (let encoded = bl_encode lib payload
      in encoded @ ''.'' @ bl_mac lib (bs_session_secret b) encoded)"

text \<open>
  \<open>value.partition(".")\<close>; encoding text that is not ASCII raises, and so does
  \<open>hmac.compare_digest\<close> on it.
\<close>

definition partition_dot :: "string \<Rightarrow> (string \<times> string) option" where
  "partition_dot v =
     (if CHR ''.'' \<in> set v
      then Some (takeWhile (\<lambda>c. c \<noteq> CHR ''.'') v, tl (dropWhile (\<lambda>c. c \<noteq> CHR ''.'') v)) else None)"

definition unseal :: "browser_lib \<Rightarrow> browser_settings \<Rightarrow> string \<Rightarrow> oidc_error + json_object" where
  "unseal lib b v =
     (case partition_dot v of
        None \<Rightarrow> Inl Cookie_Invalid
      | Some (encoded, signature) \<Rightarrow>
          if \<not> list_all py_isascii encoded \<or> \<not> list_all py_isascii signature then Inl Not_Ascii_Raised
          else if signature \<noteq> bl_mac lib (bs_session_secret b) encoded then Inl Cookie_Invalid
          else case bl_decode lib encoded of
            Inr (Some payload) \<Rightarrow> Inr payload
          | _ \<Rightarrow> Inl Cookie_Invalid)"

record login_request =
  lr_authorization_url :: string
  lr_flow_cookie :: string

text \<open>\<open>now\<close> is the integer part of the clock; the three random texts are arguments.\<close>

definition flow_payload :: "string \<Rightarrow> string \<Rightarrow> string \<Rightarrow> int \<Rightarrow> json_object" where
  "flow_payload state nonce verifier now =
     [(''state'', Json_Text state), (''nonce'', Json_Text nonce), (''verifier'', Json_Text verifier),
      (''expires_at'', Json_Int (now + 600))]"

definition begin_login ::
  "browser_lib \<Rightarrow> browser_settings \<Rightarrow> string \<Rightarrow> string \<Rightarrow> string \<Rightarrow> int \<Rightarrow> login_request" where
  "begin_login lib b state nonce verifier now =
     \<lparr>lr_authorization_url = bl_authorization_url lib b state nonce (bl_challenge lib verifier),
      lr_flow_cookie = seal lib b (flow_payload state nonce verifier now)\<rparr>"

text \<open>
  The answer of the token endpoint to the form with the code and the verifier: \<open>Inl ()\<close> when
  the exchange raises, \<open>Inr None\<close> when the answer is no JSON object.
\<close>

type_synonym token_exchange = "string \<Rightarrow> string \<Rightarrow> unit + json_object option"

definition exchange_callback ::
  "browser_lib \<Rightarrow> browser_settings \<Rightarrow> oidc_decoder \<Rightarrow> oidc_settings \<Rightarrow> token_exchange \<Rightarrow> int \<Rightarrow>
   string \<Rightarrow> string \<Rightarrow> string \<Rightarrow> oidc_error + string" where
  "exchange_callback lib b decoder cfg post now code state cookie =
     (if blank code \<or> blank state then Inl Callback_Incomplete
      else bind_result (unseal lib b cookie) (\<lambda>flow.
        if claim ''state'' flow \<noteq> Some (Json_Text state) then Inl Callback_State_Mismatch
        else case (claim ''expires_at'' flow, claim ''verifier'' flow, claim ''nonce'' flow) of
          (Some (Json_Int expires), Some (Json_Text verifier), Some (Json_Text nonce)) \<Rightarrow>
            if expires < now then Inl Login_Flow_Expired
            else (case post code verifier of
                Inl _ \<Rightarrow> Inl Exchange_Failed
              | Inr None \<Rightarrow> Inl Exchange_Response_Invalid
              | Inr (Some answer) \<Rightarrow>
                  (case claim ''id_token'' answer of
                     Some (Json_Text token) \<Rightarrow>
                       if length token > 16384 then Inl Exchange_No_Token
                       else bind_result (oidc_authenticate decoder cfg token (Some nonce)) (\<lambda>_. Inr token)
                   | _ \<Rightarrow> Inl Exchange_No_Token))
        | _ \<Rightarrow> Inl Login_Flow_Expired))"

text \<open>The two readers of the environment.\<close>

definition environment_bool :: "(string \<Rightarrow> string option) \<Rightarrow> string \<Rightarrow> bool \<Rightarrow> oidc_error + bool" where
  "environment_bool environ name fallback =
     (case environ name of
        None \<Rightarrow> Inr fallback
      | Some raw \<Rightarrow>
          if blank raw then Inr fallback
          else if casefold (strip raw) \<in> {''1'', ''true'', ''yes'', ''on''} then Inr True
          else if casefold (strip raw) \<in> {''0'', ''false'', ''no'', ''off''} then Inr False
          else Inl (Environment_Not_Boolean name))"

end
