(* ===== verification/Security_Service.thy ===== *)
theory Security_Service
  imports Security_Store Oidc
begin

text \<open>
  \<open>packages/security/sqlverity_security/service.py\<close>: authentication of bearer tokens,
  role-based authorisation, session discovery, and the provisioning and revocation of
  access.  SHA-256 and the OIDC authenticator are arguments, and so are the identifiers and
  keys a call draws.
\<close>

datatype service_error =
    Bearer_Required | Bearer_Invalid | Federated_Not_Provisioned | Authenticator_Raised oidc_error
  | Platform_Needs_Bootstrap | Outside_Tenant | Lacks_Permission
  | Tenant_Does_Not_Exist | Scopes_Not_Unique | Scope_Source_Missing | Credential_Not_Found
  | Access_Conflict | Entity_Refused security_error | Bootstrap_Key_Short

datatype security_permission =
    PLATFORM_MANAGE | SECURITY_MANAGE | DATA_SOURCE_MANAGE | SEMANTIC_MANAGE | QUERY_USE | QUERY_APPROVE
  | FEEDBACK_WRITE | GOLDEN_REVIEW | FINOPS_MANAGE | AUDIT_READ | READ

definition all_permissions :: "security_permission list" where
  "all_permissions =
     [PLATFORM_MANAGE, SECURITY_MANAGE, DATA_SOURCE_MANAGE, SEMANTIC_MANAGE, QUERY_USE, QUERY_APPROVE,
      FEEDBACK_WRITE, GOLDEN_REVIEW, FINOPS_MANAGE, AUDIT_READ, READ]"

fun permission_roles :: "security_permission \<Rightarrow> platform_role list" where
  "permission_roles PLATFORM_MANAGE = []"
| "permission_roles SECURITY_MANAGE = [Admin]"
| "permission_roles DATA_SOURCE_MANAGE = [Admin, Data_Steward]"
| "permission_roles SEMANTIC_MANAGE = [Admin, Data_Steward]"
| "permission_roles QUERY_USE = [Admin, Data_Steward, Analyst]"
| "permission_roles QUERY_APPROVE = [Admin, Data_Steward, Analyst]"
| "permission_roles FEEDBACK_WRITE = [Admin, Data_Steward, Analyst]"
| "permission_roles GOLDEN_REVIEW = [Admin, Data_Steward]"
| "permission_roles FINOPS_MANAGE = [Admin]"
| "permission_roles AUDIT_READ = [Admin, Data_Steward]"
| "permission_roles READ = [Admin, Data_Steward, Analyst, Viewer]"

record authenticated_principal =
  ap_id :: string
  ap_subject :: string
  ap_display_name :: string
  ap_tenant_id :: "string option"
  ap_credential_id :: "string option"
  ap_is_bootstrap :: bool
  ap_authentication_method :: string
  ap_mfa_verified :: bool

record auth_service =
  as_bootstrap_hash :: string
  as_oidc :: "(string \<Rightarrow> oidc_error + federated_identity) option"

definition auth_service_init ::
  "(string \<Rightarrow> string) \<Rightarrow> string option \<Rightarrow> (string \<Rightarrow> oidc_error + federated_identity) option \<Rightarrow>
   service_error + auth_service" where
  "auth_service_init sha256 key oidc =
     (case key of
        None \<Rightarrow> Inl Bootstrap_Key_Short
      | Some k \<Rightarrow>
          if length k < 32 then Inl Bootstrap_Key_Short
          else Inr \<lparr>as_bootstrap_hash = sha256 k, as_oidc = oidc\<rparr>)"

section \<open>Authentication\<close>

text \<open>\<open>authorization.partition(" ")\<close>: the scheme and the token.\<close>

definition parse_bearer :: "string option \<Rightarrow> service_error + string" where
  "parse_bearer authorization =
     (case authorization of
        None \<Rightarrow> Inl Bearer_Required
      | Some a \<Rightarrow>
          let scheme = takeWhile (\<lambda>c. c \<noteq> CHR '' '') a;
              token = tl (dropWhile (\<lambda>c. c \<noteq> CHR '' '') a)
          in if CHR '' '' \<notin> set a \<or> casefold scheme \<noteq> ''bearer'' \<or> blank token then Inl Bearer_Required
             else Inr (strip token))"

definition bootstrap_principal :: authenticated_principal where
  "bootstrap_principal =
     \<lparr>ap_id = ''bootstrap-admin'', ap_subject = ''bootstrap-admin'',
      ap_display_name = ''Bootstrap administrator'', ap_tenant_id = None, ap_credential_id = None,
      ap_is_bootstrap = True, ap_authentication_method = ''api_key'', ap_mfa_verified = False\<rparr>"

definition principal_session ::
  "security_principal \<Rightarrow> string option \<Rightarrow> string \<Rightarrow> bool \<Rightarrow> authenticated_principal" where
  "principal_session p credential_id method mfa =
     \<lparr>ap_id = sp_id p, ap_subject = sp_subject p, ap_display_name = sp_display_name p,
      ap_tenant_id = Some (sp_tenant_id p), ap_credential_id = credential_id, ap_is_bootstrap = False,
      ap_authentication_method = method, ap_mfa_verified = mfa\<rparr>"

definition authenticate_oidc ::
  "auth_service \<Rightarrow> string \<Rightarrow> security_store \<Rightarrow> service_error + authenticated_principal" where
  "authenticate_oidc sv token s =
     (case as_oidc sv of
        None \<Rightarrow> Inl Bearer_Invalid
      | Some authenticate \<Rightarrow>
          (case authenticate token of
             Inl e \<Rightarrow> if authentication_error e then Inl Bearer_Invalid else Inl (Authenticator_Raised e)
           | Inr identity \<Rightarrow>
               (case get_security_principal_by_subject (fi_tenant_id identity) (fi_subject identity) s of
                  None \<Rightarrow> Inl Federated_Not_Provisioned
                | Some p \<Rightarrow> Inr (principal_session p None ''oidc'' (fi_mfa_verified identity)))))"

definition authenticate_bearer ::
  "(string \<Rightarrow> string) \<Rightarrow> auth_service \<Rightarrow> timestamp \<Rightarrow> string option \<Rightarrow> security_store \<Rightarrow>
   service_error + authenticated_principal" where
  "authenticate_bearer sha256 sv now authorization s =
     bind_result (parse_bearer authorization) (\<lambda>token.
       if sha256 token = as_bootstrap_hash sv then Inr bootstrap_principal
       else case get_api_credential_by_hash (sha256 token) s of
         None \<Rightarrow> authenticate_oidc sv token s
       | Some c \<Rightarrow>
           if \<exists>t \<in> set_option (ac_expires_at c). t \<le> now then Inl Bearer_Invalid
           else if get_api_credential_revocation (ac_tenant_id c) (ac_id c) s \<noteq> None then Inl Bearer_Invalid
           else case get_security_principal (ac_tenant_id c) (ac_principal_id c) s of
             None \<Rightarrow> Inl Bearer_Invalid
           | Some p \<Rightarrow> Inr (principal_session p (Some (ac_id c)) ''api_key'' False))"

section \<open>Authorisation\<close>

definition roles_for :: "string \<Rightarrow> string \<Rightarrow> string option \<Rightarrow> security_store \<Rightarrow> platform_role set" where
  "roles_for tenant principal_id source s =
     ta_role ` set (list_tenant_role_assignments tenant (Some principal_id) s)
     \<union> (case source of None \<Rightarrow> {}
          | Some d \<Rightarrow> sa_role ` set (list_data_source_role_assignments tenant (Some principal_id) (Some d) s))"

definition authorize ::
  "authenticated_principal \<Rightarrow> security_permission \<Rightarrow> string option \<Rightarrow> string option \<Rightarrow> security_store \<Rightarrow>
   service_error + unit" where
  "authorize p permission tenant source s =
     (if ap_is_bootstrap p then Inr ()
      else if permission = PLATFORM_MANAGE then Inl Platform_Needs_Bootstrap
      else case tenant of
        None \<Rightarrow> Inl Outside_Tenant
      | Some t \<Rightarrow>
          if ap_tenant_id p \<noteq> Some t then Inl Outside_Tenant
          else if roles_for t (ap_id p) source s \<inter> set (permission_roles permission) = {}
          then Inl Lacks_Permission
          else Inr ())"

record discovered_source =
  dd_source :: data_source
  dd_permissions :: "security_permission list"

record discovered_tenant =
  dt_id :: string
  dt_name :: string
  dt_permissions :: "security_permission list"
  dt_data_sources :: "discovered_source list"

record session_discovery =
  sd_principal :: authenticated_principal
  sd_platform_permissions :: "security_permission list"
  sd_tenants :: "discovered_tenant list"

definition session_permissions :: "bool \<Rightarrow> platform_role set \<Rightarrow> security_permission list" where
  "session_permissions bootstrap roles =
     filter (\<lambda>permission. bootstrap \<or> roles \<inter> set (permission_roles permission) \<noteq> {}) all_permissions"

definition discover_tenant ::
  "authenticated_principal \<Rightarrow> security_store \<Rightarrow> tenant \<Rightarrow> security_error + discovered_tenant option" where
  "discover_tenant p s t =
     (let boot = ap_is_bootstrap p;
          tenant_roles = (if boot then {}
            else ta_role ` set (list_tenant_role_assignments (tn_id t) (Some (ap_id p)) s));
          source_assignments = (if boot then []
            else list_data_source_role_assignments (tn_id t) (Some (ap_id p)) None s);
          source_roles = (\<lambda>d. sa_role ` {a \<in> set source_assignments. sa_data_source_id a = d})
      in bind_result (list_data_sources (tn_id t) s) (\<lambda>ds.
           let sources = map (\<lambda>d. \<lparr>dd_source = d,
                                   dd_permissions = session_permissions boot (tenant_roles \<union> source_roles (ds_id d))\<rparr>)
                 (filter (\<lambda>d. boot \<or> tenant_roles \<noteq> {} \<or> source_roles (ds_id d) \<noteq> {}) ds)
           in Inr (if boot \<or> tenant_roles \<noteq> {} \<or> sources \<noteq> []
                   then Some \<lparr>dt_id = tn_id t, dt_name = tn_name t,
                              dt_permissions = session_permissions boot tenant_roles,
                              dt_data_sources = sources\<rparr>
                   else None)))"

definition visible_tenants :: "authenticated_principal \<Rightarrow> security_store \<Rightarrow> tenant list" where
  "visible_tenants p s =
     (if ap_is_bootstrap p then list_tenants s
      else (case get_tenant (case ap_tenant_id p of None \<Rightarrow> [] | Some t \<Rightarrow> t) s of
              None \<Rightarrow> [] | Some t \<Rightarrow> [t]))"

definition discover_session ::
  "authenticated_principal \<Rightarrow> security_store \<Rightarrow> security_error + session_discovery" where
  "discover_session p s =
     bind_result (collect_results (map (discover_tenant p s) (visible_tenants p s))) (\<lambda>found.
       Inr \<lparr>sd_principal = p,
            sd_platform_permissions = (if ap_is_bootstrap p then [PLATFORM_MANAGE] else []),
            sd_tenants = concat (map (\<lambda>x. case x of None \<Rightarrow> [] | Some t \<Rightarrow> [t]) found)\<rparr>)"

section \<open>Provisioning\<close>

text \<open>What a provisioning call draws: the clock, the identifiers and the random key.\<close>

record provision_draws =
  pv_now :: timestamp
  pv_principal_id :: string
  pv_credential_id :: string
  pv_tenant_assignment_id :: string
  pv_source_assignment_id :: "nat \<Rightarrow> string"
  pv_api_key :: string

record issued_access =
  ia_principal :: security_principal
  ia_credential_id :: string
  ia_api_key :: string
  ia_role :: platform_role
  ia_data_source_ids :: "string list"
  ia_expires_at :: "timestamp option"

record credential_metadata =
  cm_id :: string
  cm_label :: string
  cm_expires_at :: "timestamp option"
  cm_created_at :: timestamp
  cm_revoked :: bool

record principal_access =
  pa_principal :: security_principal
  pa_tenant_roles :: "platform_role list"
  pa_data_source_roles :: "source_role_assignment list"
  pa_credentials :: "credential_metadata list"

text \<open>The checks both kinds of provisioning start with.\<close>

definition scopes_check :: "string \<Rightarrow> string list \<Rightarrow> security_store \<Rightarrow> service_error + unit" where
  "scopes_check tenant source_ids s =
     first_raise
       [(get_tenant tenant s = None, Tenant_Does_Not_Exist),
        (has_duplicates source_ids, Scopes_Not_Unique),
        (\<exists>d \<in> set source_ids. tenant_data_source tenant d s = None, Scope_Source_Missing)]"

definition refuse :: "security_error + 'a \<Rightarrow> service_error + 'a" where
  "refuse r = (case r of Inl e \<Rightarrow> Inl (Entity_Refused e) | Inr x \<Rightarrow> Inr x)"

definition new_principal :: "provision_draws \<Rightarrow> string \<Rightarrow> string \<Rightarrow> string \<Rightarrow> security_principal" where
  "new_principal dr tenant subject name =
     \<lparr>sp_tenant_id = tenant, sp_subject = strip subject, sp_display_name = strip name,
      sp_id = pv_principal_id dr, sp_created_at = pv_now dr\<rparr>"

definition new_tenant_assignment ::
  "provision_draws \<Rightarrow> string \<Rightarrow> platform_role \<Rightarrow> string \<Rightarrow> tenant_role_assignment" where
  "new_tenant_assignment dr tenant role by_actor =
     \<lparr>ta_tenant_id = tenant, ta_principal_id = pv_principal_id dr, ta_role = role, ta_created_by = by_actor,
      ta_id = pv_tenant_assignment_id dr, ta_created_at = pv_now dr\<rparr>"

definition new_source_assignments ::
  "provision_draws \<Rightarrow> string \<Rightarrow> platform_role \<Rightarrow> string \<Rightarrow> string list \<Rightarrow> source_role_assignment list" where
  "new_source_assignments dr tenant role by_actor source_ids =
     map (\<lambda>(n, d). \<lparr>sa_tenant_id = tenant, sa_data_source_id = d, sa_principal_id = pv_principal_id dr,
                    sa_role = role, sa_created_by = by_actor, sa_id = pv_source_assignment_id dr n,
                    sa_created_at = pv_now dr\<rparr>)
       (zip [0..<length source_ids] source_ids)"

definition new_assignments ::
  "provision_draws \<Rightarrow> string \<Rightarrow> platform_role \<Rightarrow> string \<Rightarrow> string list \<Rightarrow>
   service_error + tenant_role_assignment option \<times> source_role_assignment list" where
  "new_assignments dr tenant role by_actor source_ids =
     (let a = new_tenant_assignment dr tenant role by_actor;
          as = new_source_assignments dr tenant role by_actor source_ids
      in if source_ids = []
         then bind_result (refuse (tenant_role_assignment_post_init a)) (\<lambda>_. Inr (Some a, []))
         else bind_result (refuse (collect_results (map source_role_assignment_post_init as)))
                (\<lambda>_. Inr (None, as)))"

definition access_result :: "security_error + unit \<Rightarrow> service_error + unit" where
  "access_result r =
     (case r of Inl Security_Conflict \<Rightarrow> Inl Access_Conflict | Inl e \<Rightarrow> Inl (Entity_Refused e) | Inr _ \<Rightarrow> Inr ())"

definition provision_principal ::
  "(string \<Rightarrow> string) \<Rightarrow> provision_draws \<Rightarrow> string \<Rightarrow> string \<Rightarrow> string \<Rightarrow> platform_role \<Rightarrow> string \<Rightarrow> string \<Rightarrow>
   string list \<Rightarrow> timestamp option \<Rightarrow> security_store \<Rightarrow> (service_error + issued_access) \<times> security_store" where
  "provision_principal sha256 dr tenant subject name role label by_actor source_ids expires s =
     (let p = new_principal dr tenant subject name;
          c = \<lparr>ac_tenant_id = tenant, ac_principal_id = pv_principal_id dr, ac_label = strip label,
               ac_token_sha256 = sha256 (pv_api_key dr), ac_expires_at = expires,
               ac_id = pv_credential_id dr, ac_created_at = pv_now dr\<rparr>
      in case bind_result (scopes_check tenant source_ids s) (\<lambda>_.
              bind_result (refuse (security_principal_post_init p)) (\<lambda>_.
              bind_result (refuse (api_credential_post_init c)) (\<lambda>_.
              new_assignments dr tenant role by_actor source_ids))) of
           Inl e \<Rightarrow> (Inl e, s)
         | Inr (a, as) \<Rightarrow>
             let (v, s') = create_security_access p c a as s
             in (bind_result (access_result v) (\<lambda>_.
                   Inr \<lparr>ia_principal = p, ia_credential_id = ac_id c, ia_api_key = pv_api_key dr, ia_role = role,
                        ia_data_source_ids = source_ids, ia_expires_at = expires\<rparr>), s'))"

definition provision_federated_principal ::
  "provision_draws \<Rightarrow> string \<Rightarrow> string \<Rightarrow> string \<Rightarrow> platform_role \<Rightarrow> string \<Rightarrow> string list \<Rightarrow> security_store \<Rightarrow>
   (service_error + principal_access) \<times> security_store" where
  "provision_federated_principal dr tenant subject name role by_actor source_ids s =
     (let p = new_principal dr tenant subject name
      in case bind_result (scopes_check tenant source_ids s) (\<lambda>_.
              bind_result (refuse (security_principal_post_init p)) (\<lambda>_.
              new_assignments dr tenant role by_actor source_ids)) of
           Inl e \<Rightarrow> (Inl e, s)
         | Inr (a, as) \<Rightarrow>
             let (v, s') = create_federated_security_access p a as s
             in (bind_result (access_result v) (\<lambda>_.
                   Inr \<lparr>pa_principal = p, pa_tenant_roles = (if a \<noteq> None then [role] else []),
                        pa_data_source_roles = as, pa_credentials = []\<rparr>), s'))"

definition list_principals :: "string \<Rightarrow> security_store \<Rightarrow> principal_access list" where
  "list_principals tenant s =
     (let revoked = map cr_credential_id (list_api_credential_revocations tenant s)
      in map (\<lambda>p.
           \<lparr>pa_principal = p,
            pa_tenant_roles = map ta_role
              (filter (\<lambda>a. ta_principal_id a = sp_id p) (list_tenant_role_assignments tenant None s)),
            pa_data_source_roles =
              filter (\<lambda>a. sa_principal_id a = sp_id p) (list_data_source_role_assignments tenant None None s),
            pa_credentials = map (\<lambda>c.
                \<lparr>cm_id = ac_id c, cm_label = ac_label c, cm_expires_at = ac_expires_at c,
                 cm_created_at = ac_created_at c, cm_revoked = (ac_id c \<in> set revoked)\<rparr>)
              (filter (\<lambda>c. ac_principal_id c = sp_id p) (list_api_credentials tenant None s))\<rparr>)
         (list_security_principals tenant s))"

definition revoke_credential ::
  "string \<Rightarrow> timestamp \<Rightarrow> string \<Rightarrow> string \<Rightarrow> string \<Rightarrow> string option \<Rightarrow> security_store \<Rightarrow>
   (service_error + credential_revocation) \<times> security_store" where
  "revoke_credential i now tenant credential_id actor reason s =
     (if get_api_credential tenant credential_id s = None then (Inl Credential_Not_Found, s)
      else
        let r = \<lparr>cr_tenant_id = tenant, cr_credential_id = credential_id, cr_actor_id = actor,
                 cr_reason = map_option strip reason, cr_id = i, cr_created_at = now\<rparr>
        in case credential_revocation_post_init r of
             Inl e \<Rightarrow> (Inl (Entity_Refused e), s)
           | Inr _ \<Rightarrow>
               (case create_api_credential_revocation r s of
                  (Inl Security_Conflict, s') \<Rightarrow> (Inl Access_Conflict, s')
                | (Inl e, s') \<Rightarrow> (Inl (Entity_Refused e), s')
                | (Inr x, s') \<Rightarrow> (Inr x, s')))"

end
