(* ===== verification/Security_Safety.thy ===== *)
theory Security_Safety
  imports Security_Service
begin

text \<open>
  The guarantees of the access tables, for every sequence of operations: a principal has
  exactly the access it was provisioned with, an issued key authenticates its principal
  until it expires or is revoked, a revoked key is refused from then on, and a session is
  shown exactly what it may use.
\<close>

section \<open>The operations as steps\<close>

inductive security_step :: "(string \<Rightarrow> string) \<Rightarrow> security_store \<Rightarrow> security_store \<Rightarrow> bool"
  for sha256 where
  tenant_step: "create_tenant name i now s = (v, s') \<Longrightarrow> security_step sha256 s s'"
| source_step: "create_data_source tenant name kind dialect caps secret i now s = (w, s')
    \<Longrightarrow> security_step sha256 s s'"
| provision_step: "provision_principal sha256 dr tenant subject name role label actor ids expires s = (x, s')
    \<Longrightarrow> security_step sha256 s s'"
| federated_step: "provision_federated_principal dr tenant subject name role actor ids s = (y, s')
    \<Longrightarrow> security_step sha256 s s'"
| revoke_step: "revoke_credential i now tenant credential actor reason s = (z, s') \<Longrightarrow> security_step sha256 s s'"

inductive security_reaches :: "(string \<Rightarrow> string) \<Rightarrow> security_store \<Rightarrow> security_store \<Rightarrow> bool"
  for sha256 where
  reach_refl: "security_reaches sha256 s s"
| reach_step: "security_reaches sha256 s s' \<Longrightarrow> security_step sha256 s' s'' \<Longrightarrow> security_reaches sha256 s s''"

text \<open>What the constraints of the tables keep true.\<close>

definition access_ok :: "security_store \<Rightarrow> bool" where
  "access_ok s =
     (unique_key sp_id (ss_principals s)
      \<and> unique_key (\<lambda>p. (sp_tenant_id p, sp_subject p)) (ss_principals s)
      \<and> unique_key ac_id (ss_credentials s) \<and> unique_key ac_token_sha256 (ss_credentials s)
      \<and> (\<forall>c \<in> set (ss_credentials s). has_principal s (ac_tenant_id c) (ac_principal_id c))
      \<and> (\<forall>a \<in> set (ss_tenant_roles s). has_principal s (ta_tenant_id a) (ta_principal_id a))
      \<and> (\<forall>a \<in> set (ss_source_roles s). has_principal s (sa_tenant_id a) (sa_principal_id a)))"

lemma access_okD:
  assumes "access_ok s"
  shows "unique_key sp_id (ss_principals s)" "unique_key (\<lambda>p. (sp_tenant_id p, sp_subject p)) (ss_principals s)"
    "unique_key ac_id (ss_credentials s)" "unique_key ac_token_sha256 (ss_credentials s)"
    "c \<in> set (ss_credentials s) \<Longrightarrow> has_principal s (ac_tenant_id c) (ac_principal_id c)"
    "a \<in> set (ss_tenant_roles s) \<Longrightarrow> has_principal s (ta_tenant_id a) (ta_principal_id a)"
    "b \<in> set (ss_source_roles s) \<Longrightarrow> has_principal s (sa_tenant_id b) (sa_principal_id b)"
  using assms by (auto simp: access_ok_def)

text \<open>What a step may add: everything that is there stays, at the end of each table.\<close>

record growth =
  gr_principals :: "security_principal list"
  gr_credentials :: "api_credential list"
  gr_tenant_roles :: "tenant_role_assignment list"
  gr_source_roles :: "source_role_assignment list"
  gr_revocations :: "credential_revocation list"

definition grown :: "growth \<Rightarrow> security_store \<Rightarrow> security_store \<Rightarrow> bool" where
  "grown g s s' =
     (ss_principals s' = ss_principals s @ gr_principals g
      \<and> ss_credentials s' = ss_credentials s @ gr_credentials g
      \<and> ss_tenant_roles s' = ss_tenant_roles s @ gr_tenant_roles g
      \<and> ss_source_roles s' = ss_source_roles s @ gr_source_roles g
      \<and> ss_revocations s' = ss_revocations s @ gr_revocations g)"

definition nothing :: growth where
  "nothing = \<lparr>gr_principals = [], gr_credentials = [], gr_tenant_roles = [], gr_source_roles = [], gr_revocations = []\<rparr>"

lemma grown_nothing: "grown nothing s s"
  by (simp add: grown_def nothing_def)

text \<open>New roles are those of a new principal, new credentials too.\<close>

definition lawful_growth :: "growth \<Rightarrow> security_store \<Rightarrow> bool" where
  "lawful_growth g s =
     ((gr_principals g = [] \<and> gr_credentials g = [] \<and> gr_tenant_roles g = [] \<and> gr_source_roles g = [])
      \<or> (\<exists>p. gr_principals g = [p] \<and> principal_fits s p \<and> gr_revocations g = []
           \<and> (\<forall>c \<in> set (gr_credentials g). ac_tenant_id c = sp_tenant_id p \<and> ac_principal_id c = sp_id p)
           \<and> (gr_credentials g = [] \<or> (\<exists>c. gr_credentials g = [c]
                \<and> \<not> (\<exists>x \<in> set (ss_credentials s). ac_id x = ac_id c \<or> ac_token_sha256 x = ac_token_sha256 c)))
           \<and> (\<forall>a \<in> set (gr_tenant_roles g). ta_tenant_id a = sp_tenant_id p \<and> ta_principal_id a = sp_id p)
           \<and> (\<forall>a \<in> set (gr_source_roles g). sa_tenant_id a = sp_tenant_id p \<and> sa_principal_id a = sp_id p)))"

lemma lawful_nothing: "lawful_growth nothing s"
  by (simp add: lawful_growth_def nothing_def)

lemma insert_source_roles_Some:
  "insert_source_roles as s = Some s' \<Longrightarrow> s' = s\<lparr>ss_source_roles := ss_source_roles s @ as\<rparr>
     \<and> (\<forall>a \<in> set as. has_principal s (sa_tenant_id a) (sa_principal_id a))"
proof (induction as arbitrary: s)
  case (Cons a as)
  let ?s = "s\<lparr>ss_source_roles := ss_source_roles s @ [a]\<rparr>"
  have fits: "source_role_fits s a" and rest: "insert_source_roles as ?s = Some s'"
    using Cons.prems by (auto split: if_splits)
  show ?case using Cons.IH[OF rest] fits by (auto simp: source_role_fits_def has_principal_def)
qed simp

lemma insert_assignments_Some:
  assumes "insert_assignments a as s = Some s'"
  shows "s' = s\<lparr>ss_tenant_roles := ss_tenant_roles s @ (case a of None \<Rightarrow> [] | Some x \<Rightarrow> [x]),
        ss_source_roles := ss_source_roles s @ (case a of None \<Rightarrow> as | Some x \<Rightarrow> [])\<rparr>"
  using assms insert_source_roles_Some[of as s s']
  by (auto simp: insert_assignments_def split: option.splits if_splits)

lemma create_access_grown:
  assumes "create_security_access p c a as s = (Inr u, s')" and "ac_tenant_id c = sp_tenant_id p"
  defines "g \<equiv> \<lparr>gr_principals = [p], gr_credentials = [c],
      gr_tenant_roles = (case a of None \<Rightarrow> [] | Some x \<Rightarrow> [x]),
      gr_source_roles = (case a of None \<Rightarrow> as | Some x \<Rightarrow> []), gr_revocations = []\<rparr>"
  shows "grown g s s' \<and> lawful_growth g s"
proof -
  obtain s3 e where b: "Option.bind (insert_principal p s)
        (\<lambda>s. Option.bind (insert_credential c s) (insert_assignments a as)) = Some s3"
    and e: "s' = append_security_audit e s3" and m: "scopes_match p a as" "ac_principal_id c = sp_id p"
    using assms(1) by (auto simp: create_security_access_def split: if_splits option.splits)
  obtain s1 s2 where s: "insert_principal p s = Some s1" "insert_credential c s1 = Some s2"
    "insert_assignments a as s2 = Some s3"
    using b by (auto simp: bind_eq_Some_conv)
  have s': "ss_principals s' = ss_principals s3" "ss_credentials s' = ss_credentials s3"
      "ss_tenant_roles s' = ss_tenant_roles s3" "ss_source_roles s' = ss_source_roles s3"
      "ss_revocations s' = ss_revocations s3"
    by (simp_all add: e append_security_audit_def)
  have f: "principal_fits s p" "s1 = s\<lparr>ss_principals := ss_principals s @ [p]\<rparr>"
    "credential_fits s1 c" "s2 = s1\<lparr>ss_credentials := ss_credentials s1 @ [c]\<rparr>"
    using s by (auto simp: insert_principal_def insert_credential_def split: if_splits)
  note s3 = insert_assignments_Some[OF s(3)]
  have "grown g s s'" unfolding grown_def s' s3 f(4) f(2) g_def by simp
  moreover have "lawful_growth g s"
    unfolding lawful_growth_def g_def using f(1,3) m assms(2)
    by (auto simp: credential_fits_def f(2) scopes_match_def split: option.splits)
  ultimately show ?thesis by blast
qed

lemma create_federated_grown:
  assumes "create_federated_security_access p a as s = (Inr u, s')"
  defines "g \<equiv> \<lparr>gr_principals = [p], gr_credentials = [],
      gr_tenant_roles = (case a of None \<Rightarrow> [] | Some x \<Rightarrow> [x]),
      gr_source_roles = (case a of None \<Rightarrow> as | Some x \<Rightarrow> []), gr_revocations = []\<rparr>"
  shows "grown g s s' \<and> lawful_growth g s"
proof -
  obtain s3 e where b: "Option.bind (insert_principal p s) (insert_assignments a as) = Some s3"
    and e: "s' = append_security_audit e s3" and m: "scopes_match p a as"
    using assms(1) by (auto simp: create_federated_security_access_def split: if_splits option.splits)
  obtain s1 where s: "insert_principal p s = Some s1" "insert_assignments a as s1 = Some s3"
    using b by (auto simp: bind_eq_Some_conv)
  have s': "ss_principals s' = ss_principals s3" "ss_credentials s' = ss_credentials s3"
      "ss_tenant_roles s' = ss_tenant_roles s3" "ss_source_roles s' = ss_source_roles s3"
      "ss_revocations s' = ss_revocations s3"
    by (simp_all add: e append_security_audit_def)
  have f: "principal_fits s p" "s1 = s\<lparr>ss_principals := ss_principals s @ [p]\<rparr>"
    using s by (auto simp: insert_principal_def split: if_splits)
  note s3 = insert_assignments_Some[OF s(2)]
  have "grown g s s'" unfolding grown_def s' s3 f(2) g_def by simp
  moreover have "lawful_growth g s"
    unfolding lawful_growth_def g_def using f(1) m by (auto simp: scopes_match_def split: option.splits)
  ultimately show ?thesis by blast
qed

lemma create_refused:
  "create_security_access p c a as s = (Inl e, s') \<Longrightarrow> s' = s"
  "create_federated_security_access p a as s = (Inl e, s') \<Longrightarrow> s' = s"
  by (auto simp: create_security_access_def create_federated_security_access_def split: if_splits option.splits)

text \<open>A provisioning call changes nothing, or is one of the two transactions.\<close>

lemma provision_cases:
  assumes "provision_principal sha256 dr tenant subject name role label actor ids expires s = (x, s')"
  obtains (refused) e where "x = Inl e" "s' = s"
    | (created) ia c a as where "x = Inr ia" "ia_principal ia = new_principal dr tenant subject name"
        "create_security_access (ia_principal ia) c a as s = (Inr (), s')"
        "c = \<lparr>ac_tenant_id = tenant, ac_principal_id = pv_principal_id dr, ac_label = strip label,
               ac_token_sha256 = sha256 (pv_api_key dr), ac_expires_at = expires,
               ac_id = pv_credential_id dr, ac_created_at = pv_now dr\<rparr>"
        "new_assignments dr tenant role actor ids = Inr (a, as)" "scopes_check tenant ids s = Inr ()"
proof -
  let ?p = "new_principal dr tenant subject name"
  let ?c = "\<lparr>ac_tenant_id = tenant, ac_principal_id = pv_principal_id dr, ac_label = strip label,
    ac_token_sha256 = sha256 (pv_api_key dr), ac_expires_at = expires,
    ac_id = pv_credential_id dr, ac_created_at = pv_now dr\<rparr>"
  let ?r = "bind_result (scopes_check tenant ids s) (\<lambda>_. bind_result (refuse (security_principal_post_init ?p)) (\<lambda>_.
    bind_result (refuse (api_credential_post_init ?c)) (\<lambda>_. new_assignments dr tenant role actor ids)))"
  show thesis
  proof (cases ?r)
    case (Inl e)
    then show ?thesis using assms refused by (auto simp: provision_principal_def Let_def)
  next
    case (Inr z)
    obtain a as where z: "z = (a, as)" by (cases z)
    obtain v s1 where c: "create_security_access ?p ?c a as s = (v, s1)" by fastforce
    have na: "new_assignments dr tenant role actor ids = Inr (a, as)" "scopes_check tenant ids s = Inr ()"
      using Inr z by (auto simp: bind_result_Inr_iff)
    have eq: "x = bind_result (access_result v) (\<lambda>_. Inr \<lparr>ia_principal = ?p, ia_credential_id = pv_credential_id dr,
        ia_api_key = pv_api_key dr, ia_role = role, ia_data_source_ids = ids, ia_expires_at = expires\<rparr>)"
      "s' = s1"
      using assms Inr z c by (simp_all add: provision_principal_def Let_def)
    show ?thesis
    proof (cases v)
      case (Inl e)
      then have "s' = s" using create_refused(1)[OF c[unfolded Inl]] eq(2) by simp
      moreover have "\<exists>e. x = Inl e" using eq(1) Inl by (cases e) (auto simp: access_result_def)
      ultimately show ?thesis using refused by blast
    next
      case (Inr w)
      then show ?thesis using created[OF _ _ _ refl na] eq c by (simp add: access_result_def)
    qed
  qed
qed

lemma federated_cases:
  assumes "provision_federated_principal dr tenant subject name role actor ids s = (x, s')"
  obtains (refused) e where "x = Inl e" "s' = s"
    | (created) pa a as where "x = Inr pa" "pa_principal pa = new_principal dr tenant subject name"
        "create_federated_security_access (pa_principal pa) a as s = (Inr (), s')"
        "new_assignments dr tenant role actor ids = Inr (a, as)" "scopes_check tenant ids s = Inr ()"
proof -
  let ?p = "new_principal dr tenant subject name"
  let ?r = "bind_result (scopes_check tenant ids s) (\<lambda>_. bind_result (refuse (security_principal_post_init ?p)) (\<lambda>_.
    new_assignments dr tenant role actor ids))"
  show thesis
  proof (cases ?r)
    case (Inl e)
    then show ?thesis using assms refused by (auto simp: provision_federated_principal_def Let_def)
  next
    case (Inr z)
    obtain a as where z: "z = (a, as)" by (cases z)
    obtain v s1 where c: "create_federated_security_access ?p a as s = (v, s1)" by fastforce
    have na: "new_assignments dr tenant role actor ids = Inr (a, as)" "scopes_check tenant ids s = Inr ()"
      using Inr z by (auto simp: bind_result_Inr_iff)
    have eq: "x = bind_result (access_result v) (\<lambda>_. Inr \<lparr>pa_principal = ?p,
        pa_tenant_roles = (if a \<noteq> None then [role] else []), pa_data_source_roles = as, pa_credentials = []\<rparr>)"
      "s' = s1"
      using assms Inr z c by (simp_all add: provision_federated_principal_def Let_def)
    show ?thesis
    proof (cases v)
      case (Inl e)
      then have "s' = s" using create_refused(2)[OF c[unfolded Inl]] eq(2) by simp
      moreover have "\<exists>e. x = Inl e" using eq(1) Inl by (cases e) (auto simp: access_result_def)
      ultimately show ?thesis using refused by blast
    next
      case (Inr w)
      then show ?thesis using created[OF _ _ _ na] eq c by (simp add: access_result_def)
    qed
  qed
qed

lemma revoke_grown:
  assumes "revoke_credential i now tenant credential actor reason s = (z, s')"
  shows "\<exists>g. grown g s s' \<and> lawful_growth g s \<and> (\<forall>r. z = Inr r \<longrightarrow> gr_revocations g = [r]
    \<and> cr_tenant_id r = tenant \<and> cr_credential_id r = credential)"
proof -
  let ?r = "\<lparr>cr_tenant_id = tenant, cr_credential_id = credential, cr_actor_id = actor,
    cr_reason = map_option strip reason, cr_id = i, cr_created_at = now\<rparr>"
  obtain v s1 where c: "create_api_credential_revocation ?r s = (v, s1)" by fastforce
  consider (none) "s' = s" "\<not> is_ok z" | (some) "v = Inr ?r" "s' = s1" "z = Inr ?r"
    using assms c
    by (auto simp: revoke_credential_def Let_def create_api_credential_revocation_def
        split: if_splits sum.splits security_error.splits)
  then show ?thesis
  proof cases
    case none
    then show ?thesis using grown_nothing lawful_nothing by (metis is_ok_simps(1))
  next
    case some
    have "grown (nothing\<lparr>gr_revocations := [?r]\<rparr>) s s'"
      using c some by (auto simp: create_api_credential_revocation_def append_security_audit_def grown_def nothing_def
          split: if_splits)
    moreover have "lawful_growth (nothing\<lparr>gr_revocations := [?r]\<rparr>) s" by (simp add: lawful_growth_def nothing_def)
    ultimately show ?thesis using some(3) by (intro exI[of _ "nothing\<lparr>gr_revocations := [?r]\<rparr>"]) simp
  qed
qed

lemma step_grows: "security_step sha256 s s' \<Longrightarrow> \<exists>g. grown g s s' \<and> lawful_growth g s"
proof (induction rule: security_step.induct)
  case (tenant_step name i now s v s')
  then have "grown nothing s s'"
    by (auto simp: create_tenant_def Let_def grown_def nothing_def append_security_audit_def
        split: sum.splits if_splits)
  then show ?case using lawful_nothing by blast
next
  case (source_step tenant name kind dialect caps secret i now s w s')
  then have "grown nothing s s'"
    by (auto simp: create_data_source_def Let_def grown_def nothing_def append_security_audit_def
        split: sum.splits if_splits)
  then show ?case using lawful_nothing by blast
next
  case (provision_step dr tenant subject name role label actor ids expires s x s')
  then show ?case
  proof (cases rule: provision_cases)
    case (refused e)
    then show ?thesis using grown_nothing lawful_nothing by blast
  next
    case (created ia c a as)
    have "ac_tenant_id c = sp_tenant_id (ia_principal ia)" by (simp add: created(2,4) new_principal_def)
    from create_access_grown[OF created(3) this] show ?thesis by blast
  qed
next
  case (federated_step dr tenant subject name role actor ids s y s')
  then show ?case
  proof (cases rule: federated_cases)
    case (refused e)
    then show ?thesis using grown_nothing lawful_nothing by blast
  next
    case (created pa a as)
    from create_federated_grown[OF created(3)] show ?thesis by blast
  qed
next
  case (revoke_step i now tenant credential actor reason s z s')
  then show ?case using revoke_grown by blast
qed

section \<open>Roles are final\<close>

lemma roles_for_set:
  "roles_for t i d s =
     {r. \<exists>a \<in> set (ss_tenant_roles s). ta_tenant_id a = t \<and> ta_principal_id a = i \<and> ta_role a = r}
     \<union> {r. \<exists>a \<in> set (ss_source_roles s). sa_tenant_id a = t \<and> sa_principal_id a = i
            \<and> d = Some (sa_data_source_id a) \<and> sa_role a = r}"
  by (auto simp: roles_for_def list_tenant_role_assignments_def list_data_source_role_assignments_def
      split: option.splits)

lemma growth_access_ok:
  assumes ok: "access_ok s" and g: "grown g s s'" and l: "lawful_growth g s"
  shows "access_ok s'"
proof -
  have hp: "has_principal s t i \<Longrightarrow> has_principal s' t i" for t i
    using g by (auto simp: has_principal_def grown_def)
  consider (same) "gr_principals g = []" "gr_credentials g = []" "gr_tenant_roles g = []" "gr_source_roles g = []"
    | (added) p where "gr_principals g = [p]" "principal_fits s p"
        "\<forall>c \<in> set (gr_credentials g). ac_tenant_id c = sp_tenant_id p \<and> ac_principal_id c = sp_id p"
        "gr_credentials g = [] \<or> (\<exists>c. gr_credentials g = [c]
          \<and> \<not> (\<exists>x \<in> set (ss_credentials s). ac_id x = ac_id c \<or> ac_token_sha256 x = ac_token_sha256 c))"
        "\<forall>a \<in> set (gr_tenant_roles g). ta_tenant_id a = sp_tenant_id p \<and> ta_principal_id a = sp_id p"
        "\<forall>a \<in> set (gr_source_roles g). sa_tenant_id a = sp_tenant_id p \<and> sa_principal_id a = sp_id p"
    using l unfolding lawful_growth_def by blast
  then show ?thesis
  proof cases
    case same
    then show ?thesis using ok g hp by (simp add: access_ok_def grown_def)
  next
    case (added p)
    note n = added(1,2) and cs = added(3) and c = added(4) and ta = added(5) and sa = added(6)
    have p: "has_principal s' (sp_tenant_id p) (sp_id p)" using g n(1) by (simp add: has_principal_def grown_def)
    have "unique_key sp_id (ss_principals s')" "unique_key (\<lambda>p. (sp_tenant_id p, sp_subject p)) (ss_principals s')"
      using ok g n by (auto simp: access_ok_def grown_def principal_fits_def intro!: unique_key_append)
    moreover have "unique_key ac_id (ss_credentials s')" "unique_key ac_token_sha256 (ss_credentials s')"
      using ok g c by (auto simp: access_ok_def grown_def intro!: unique_key_append)
    moreover have "\<forall>c \<in> set (ss_credentials s'). has_principal s' (ac_tenant_id c) (ac_principal_id c)"
      using access_okD(5)[OF ok] g hp p cs by (auto simp: grown_def)
    moreover have "\<forall>a \<in> set (ss_tenant_roles s'). has_principal s' (ta_tenant_id a) (ta_principal_id a)"
      using access_okD(6)[OF ok] g hp p ta by (auto simp: grown_def)
    moreover have "\<forall>a \<in> set (ss_source_roles s'). has_principal s' (sa_tenant_id a) (sa_principal_id a)"
      using access_okD(7)[OF ok] g hp p sa by (auto simp: grown_def)
    ultimately show ?thesis by (simp add: access_ok_def)
  qed
qed

lemma growth_roles:
  assumes ok: "access_ok s" and g: "grown g s s'" and l: "lawful_growth g s" and p: "has_principal s t i"
  shows "roles_for u i d s' = roles_for u i d s"
proof -
  have "\<forall>a \<in> set (gr_tenant_roles g). ta_principal_id a \<noteq> i" "\<forall>a \<in> set (gr_source_roles g). sa_principal_id a \<noteq> i"
    using l p by (auto simp: lawful_growth_def principal_fits_def has_principal_def)
  then show ?thesis unfolding roles_for_set using g by (auto simp: grown_def)
qed

lemma reaches_invariant:
  assumes "security_reaches sha256 s s'" "access_ok s"
  shows "access_ok s' \<and> (has_principal s t i \<longrightarrow> has_principal s' t i \<and> (\<forall>u d. roles_for u i d s' = roles_for u i d s))
    \<and> set (ss_principals s) \<subseteq> set (ss_principals s') \<and> set (ss_credentials s) \<subseteq> set (ss_credentials s')
    \<and> set (ss_revocations s) \<subseteq> set (ss_revocations s')"
  using assms
proof (induction rule: security_reaches.induct)
  case (reach_refl s)
  then show ?case by simp
next
  case (reach_step s s' s'')
  obtain g where g: "grown g s' s''" "lawful_growth g s'" using step_grows[OF reach_step.hyps(2)] by blast
  note ih = reach_step.IH[OF reach_step.prems]
  have "access_ok s''" using growth_access_ok[OF _ g] ih by blast
  moreover have "has_principal s t i \<longrightarrow> has_principal s'' t i \<and> (\<forall>u d. roles_for u i d s'' = roles_for u i d s)"
    using growth_roles[OF _ g, of t i] ih g(1) by (auto simp: has_principal_def grown_def)
  ultimately show ?case using ih g(1) by (auto simp: grown_def)
qed

lemma authorize_iff:
  "is_ok (authorize (principal_session p c m f) permission t d s) \<longleftrightarrow>
     permission \<noteq> PLATFORM_MANAGE \<and> t = Some (sp_tenant_id p)
     \<and> roles_for (sp_tenant_id p) (sp_id p) d s \<inter> set (permission_roles permission) \<noteq> {}"
  by (auto simp: authorize_def principal_session_def split: option.splits)

lemma platform_roles [simp]: "set (permission_roles permission) = {} \<longleftrightarrow> permission = PLATFORM_MANAGE"
  by (cases permission) simp_all

section \<open>Provisioned access\<close>

lemma new_assignments_roles:
  assumes "new_assignments dr tenant role actor ids = Inr (a, as)"
  shows "(case a of None \<Rightarrow> ids \<noteq> [] | Some x \<Rightarrow> ids = [] \<and> x = new_tenant_assignment dr tenant role actor)"
    "as = new_source_assignments dr tenant role actor ids"
  using assms
  by (auto simp: new_assignments_def Let_def bind_result_Inr_iff new_source_assignments_def split: if_splits)

lemma new_source_assignments_mem:
  "(\<exists>a \<in> set (new_source_assignments dr tenant role actor ids). sa_data_source_id a = d) \<longleftrightarrow> d \<in> set ids"
  "a \<in> set (new_source_assignments dr tenant role actor ids) \<Longrightarrow>
     sa_role a = role \<and> sa_tenant_id a = tenant \<and> sa_principal_id a = pv_principal_id dr"
proof -
  have "sa_data_source_id ` set (new_source_assignments dr tenant role actor ids) = snd ` set (zip [0..<length ids] ids)"
    by (force simp: new_source_assignments_def)
  also have "\<dots> = set ids" by (metis length_map list.set_map map_nth map_snd_zip length_upt minus_nat.diff_0)
  finally show "(\<exists>a \<in> set (new_source_assignments dr tenant role actor ids). sa_data_source_id a = d) \<longleftrightarrow> d \<in> set ids"
    by (metis image_iff)
qed (auto simp: new_source_assignments_def)

text \<open>Right after provisioning, the roles of the new principal are those it was given.\<close>

lemma provisioned_roles:
  assumes ok: "access_ok s"
    and pr: "provision_principal sha256 dr tenant subject name role label actor ids expires s = (Inr ia, s')"
  shows "roles_for tenant (sp_id (ia_principal ia)) d s'
      = (if ids = [] \<or> (\<exists>x \<in> set ids. d = Some x) then {role} else {})
    \<and> has_principal s' tenant (sp_id (ia_principal ia)) \<and> sp_tenant_id (ia_principal ia) = tenant
    \<and> access_ok s' \<and> ia_principal ia \<in> set (ss_principals s')"
  using pr
proof (cases rule: provision_cases)
  case (created ia' c a as)
  have ia: "ia' = ia" using created(1) by simp
  let ?p = "ia_principal ia"
  have c: "ac_tenant_id c = sp_tenant_id ?p" "sp_tenant_id ?p = tenant" "sp_id ?p = pv_principal_id dr"
    using created(2,4) by (simp_all add: ia new_principal_def)
  define g where "g = \<lparr>gr_principals = [?p], gr_credentials = [c],
      gr_tenant_roles = (case a of None \<Rightarrow> [] | Some x \<Rightarrow> [x]),
      gr_source_roles = (case a of None \<Rightarrow> as | Some x \<Rightarrow> []), gr_revocations = []\<rparr>"
  have g: "grown g s s'" "lawful_growth g s"
    using create_access_grown[OF created(3)[unfolded ia] c(1)] by (simp_all add: g_def)
  have fresh: "\<not> has_principal s t (sp_id ?p)" for t
    using g(2) by (auto simp: lawful_growth_def g_def principal_fits_def has_principal_def)
  then have none: "\<forall>x \<in> set (ss_tenant_roles s). ta_principal_id x \<noteq> sp_id ?p"
    "\<forall>x \<in> set (ss_source_roles s). sa_principal_id x \<noteq> sp_id ?p"
    using access_okD(6,7)[OF ok] by metis+
  note na = new_assignments_roles[OF created(5)]
  have "roles_for tenant (sp_id ?p) d s' = (if ids = [] \<or> (\<exists>x \<in> set ids. d = Some x) then {role} else {})"
  proof (cases a)
    case None
    have e: "roles_for tenant (sp_id ?p) d s'
        = {r. \<exists>x \<in> set (new_source_assignments dr tenant role actor ids). sa_tenant_id x = tenant
             \<and> sa_principal_id x = sp_id ?p \<and> d = Some (sa_data_source_id x) \<and> sa_role x = r}"
      unfolding roles_for_set using g(1) none None na(2) by (auto simp: grown_def g_def)
    also have "\<dots> = {r. r = role \<and> (\<exists>x \<in> set ids. d = Some x)}"
    proof -
      note m = new_source_assignments_mem[where dr = dr and tenant = tenant and role = role and actor = actor and ids = ids]
      have "(\<exists>x \<in> set (new_source_assignments dr tenant role actor ids). sa_tenant_id x = tenant
          \<and> sa_principal_id x = sp_id ?p \<and> d = Some (sa_data_source_id x) \<and> sa_role x = r)
        \<longleftrightarrow> r = role \<and> (\<exists>x \<in> set (new_source_assignments dr tenant role actor ids). d = Some (sa_data_source_id x))" for r
        using m(2) c(3) by metis
      moreover have "(\<exists>x \<in> set (new_source_assignments dr tenant role actor ids). d = Some (sa_data_source_id x))
        \<longleftrightarrow> (\<exists>x \<in> set ids. d = Some x)"
        using m(1) by metis
      ultimately show ?thesis by simp
    qed
    finally show ?thesis using na(1) None by auto
  next
    case (Some x)
    then have "roles_for tenant (sp_id ?p) d s' = {role}"
      unfolding roles_for_set using g(1) none na(1) c(3) by (auto simp: grown_def g_def new_tenant_assignment_def)
    then show ?thesis using na(1) Some by simp
  qed
  moreover have "?p \<in> set (ss_principals s')" using g(1) by (simp add: grown_def g_def)
  ultimately show ?thesis
    using c(2) growth_access_ok[OF ok g] by (auto simp: has_principal_def)
qed simp

text \<open>
  C23: A principal has exactly the access it was provisioned with, in the state right after
  and in every state any sequence of operations reaches from it: a permission is granted if
  and only if the role carries it, for the tenant, and for the listed data sources only when
  sources were listed; the platform permission is never granted.
\<close>

theorem provisioned_access_is_exact:
  assumes "access_ok s"
    and "provision_principal sha256 dr tenant subject name role label actor ids expires s = (Inr ia, s')"
    and "security_reaches sha256 s' s''"
  shows "is_ok (authorize (principal_session (ia_principal ia) credential method mfa) permission t d s'')
    \<longleftrightarrow> permission \<noteq> PLATFORM_MANAGE \<and> t = Some tenant \<and> role \<in> set (permission_roles permission)
        \<and> (ids = [] \<or> (\<exists>x \<in> set ids. d = Some x))"
proof -
  note n = provisioned_roles[OF assms(1,2), of d]
  have "roles_for tenant (sp_id (ia_principal ia)) d s'' = roles_for tenant (sp_id (ia_principal ia)) d s'"
    using reaches_invariant[OF assms(3), of tenant "sp_id (ia_principal ia)"] n by blast
  then show ?thesis using n by (auto simp: authorize_iff)
qed

section \<open>Keys\<close>

lemma credential_by_hash:
  "access_ok s \<Longrightarrow> c \<in> set (ss_credentials s) \<Longrightarrow> get_api_credential_by_hash (ac_token_sha256 c) s = Some c"
  unfolding get_api_credential_by_hash_def
  by (rule unique_key_fetch[where key = ac_token_sha256]) (auto dest: access_okD(4))

lemma principal_by_id:
  "access_ok s \<Longrightarrow> p \<in> set (ss_principals s) \<Longrightarrow> get_security_principal (sp_tenant_id p) (sp_id p) s = Some p"
  unfolding get_security_principal_def
  by (rule unique_key_fetch[where key = sp_id]) (auto dest: access_okD(1))

text \<open>
  C24: A credential that was revoked is refused from then on: whatever happens after the
  revocation, a bearer token with its digest is an invalid credential, at every time and
  with every authenticator configured.
\<close>

theorem revoked_credential_is_refused:
  assumes "access_ok s"
    and "revoke_credential i now tenant credential actor reason s = (Inr r, s')"
    and "security_reaches sha256 s' s''"
    and "get_api_credential tenant credential s = Some c"
    and "parse_bearer authorization = Inr token" "sha256 token = ac_token_sha256 c"
    and "ac_token_sha256 c \<noteq> as_bootstrap_hash sv"
  shows "authenticate_bearer sha256 sv later authorization s'' = Inl Bearer_Invalid"
proof -
  obtain g where g: "grown g s s'" "lawful_growth g s" "gr_revocations g = [r]" "cr_tenant_id r = tenant"
    "cr_credential_id r = credential"
    using revoke_grown[OF assms(2)] by blast
  have c: "c \<in> set (ss_credentials s)" "ac_tenant_id c = tenant" "ac_id c = credential"
    using assms(4) by (auto simp: get_api_credential_def dest!: fetch_one_Some_iff_mem)
  have "r \<in> set (ss_revocations s')" "c \<in> set (ss_credentials s')" using g(1,3) c(1) by (auto simp: grown_def)
  then have later: "r \<in> set (ss_revocations s'')" "c \<in> set (ss_credentials s'')" "access_ok s''"
    using reaches_invariant[OF assms(3) growth_access_ok[OF assms(1) g(1,2)]] by blast+
  have "get_api_credential_revocation (ac_tenant_id c) (ac_id c) s'' \<noteq> None"
    using later(1) g(4,5) c by (auto simp: get_api_credential_revocation_def fetch_one_None_iff)
  then show ?thesis
    using credential_by_hash[OF later(3,2)] assms(5-7) by (simp add: authenticate_bearer_def)
qed

lemma parse_bearer_key: "strip key = key \<Longrightarrow> \<not> blank key \<Longrightarrow> parse_bearer (Some (''Bearer '' @ key)) = Inr key"
proof -
  assume k: "strip key = key" "\<not> blank key"
  have "casefold ''Bearer'' = ''bearer''" by code_simp
  then show ?thesis using k by (simp add: parse_bearer_def)
qed

text \<open>
  C25: The key a provisioning call returns authenticates exactly the new principal, in every
  later state, until it expires or is revoked; then it is an invalid credential.
\<close>

theorem issued_key_authenticates:
  assumes "access_ok s"
    and "provision_principal sha256 dr tenant subject name role label actor ids expires s = (Inr ia, s')"
    and "security_reaches sha256 s' s''"
    and "strip (pv_api_key dr) = pv_api_key dr" "\<not> blank (pv_api_key dr)"
    and "sha256 (pv_api_key dr) \<noteq> as_bootstrap_hash sv"
  shows "authenticate_bearer sha256 sv later (Some (''Bearer '' @ ia_api_key ia)) s''
    = (if (\<exists>t \<in> set_option expires. t \<le> later)
          \<or> get_api_credential_revocation tenant (ia_credential_id ia) s'' \<noteq> None
       then Inl Bearer_Invalid
       else Inr (principal_session (ia_principal ia) (Some (ia_credential_id ia)) ''api_key'' False))"
  using assms(2)
proof (cases rule: provision_cases)
  case (created ia' c a as)
  have ia: "ia' = ia" using created(1) by simp
  have keys: "ia_api_key ia = pv_api_key dr" "ia_credential_id ia = ac_id c"
    using assms(2) created(4)
    by (auto simp: provision_principal_def Let_def bind_result_Inr_iff split: sum.splits prod.splits)
  have c: "ac_tenant_id c = sp_tenant_id (ia_principal ia)" "ac_tenant_id c = tenant"
    "ac_principal_id c = sp_id (ia_principal ia)" "ac_token_sha256 c = sha256 (pv_api_key dr)" "ac_expires_at c = expires"
    using created(2,4) by (simp_all add: ia new_principal_def)
  have mem: "c \<in> set (ss_credentials s')" "ia_principal ia \<in> set (ss_principals s')" "access_ok s'"
    using create_access_grown[OF created(3)[unfolded ia] c(1)] provisioned_roles[OF assms(1,2)] by (auto simp: grown_def)
  then have later: "c \<in> set (ss_credentials s'')" "ia_principal ia \<in> set (ss_principals s'')" "access_ok s''"
    using reaches_invariant[OF assms(3)] by blast+
  show ?thesis
    using credential_by_hash[OF later(3,1)] principal_by_id[OF later(3,2)] assms(6) c
    unfolding authenticate_bearer_def keys parse_bearer_key[OF assms(4,5)] by simp
qed simp

section \<open>Discovery\<close>

definition shown_for_source :: "session_discovery \<Rightarrow> string \<Rightarrow> string \<Rightarrow> security_permission set" where
  "shown_for_source sd t d =
     {permission. \<exists>x \<in> set (sd_tenants sd). dt_id x = t
        \<and> (\<exists>y \<in> set (dt_data_sources x). ds_id (dd_source y) = d \<and> permission \<in> set (dd_permissions y))}"

definition shown_for_tenant :: "session_discovery \<Rightarrow> string \<Rightarrow> security_permission set" where
  "shown_for_tenant sd t =
     {permission. \<exists>x \<in> set (sd_tenants sd). dt_id x = t \<and> permission \<in> set (dt_permissions x)}"

lemma all_permissions_all [simp]: "permission \<in> set all_permissions"
  by (cases permission) (simp_all add: all_permissions_def)

lemma session_permissions_iff:
  "permission \<in> set (session_permissions boot roles) \<longleftrightarrow> boot \<or> roles \<inter> set (permission_roles permission) \<noteq> {}"
  by (simp add: session_permissions_def)

lemma get_tenant_Some: "get_tenant i s = Some x \<Longrightarrow> x \<in> set (ss_tenants s) \<and> tn_id x = i"
  by (auto simp: get_tenant_def dest: fetch_one_Some_iff_mem)

lemma get_tenant_exists: "get_tenant i s \<noteq> None \<longleftrightarrow> (\<exists>x \<in> set (ss_tenants s). tn_id x = i)"
  by (simp add: get_tenant_def fetch_one_None_iff del: not_None_eq)

lemma visible_tenants_iff:
  assumes "ap_is_bootstrap p \<or> ap_tenant_id p \<noteq> None"
  shows "(\<exists>x \<in> set (visible_tenants p s). tn_id x = t) \<longleftrightarrow>
     get_tenant t s \<noteq> None \<and> (ap_is_bootstrap p \<or> ap_tenant_id p = Some t)"
proof (cases "ap_is_bootstrap p")
  case True
  then show ?thesis by (simp add: visible_tenants_def list_tenants_def get_tenant_exists del: not_None_eq)
next
  case False
  then obtain u where u: "ap_tenant_id p = Some u" using assms by blast
  show ?thesis
    using False u by (cases "get_tenant u s") (auto simp: visible_tenants_def dest: get_tenant_Some)
qed

lemma visible_tenants_exist:
  assumes "x \<in> set (visible_tenants p s)"
  shows "get_tenant (tn_id x) s \<noteq> None"
proof (cases "ap_is_bootstrap p")
  case True
  then show ?thesis
    using assms by (auto simp: visible_tenants_def list_tenants_def get_tenant_exists simp del: not_None_eq)
next
  case False
  then obtain u where "get_tenant u s = Some x"
    using assms by (cases "get_tenant (case ap_tenant_id p of None \<Rightarrow> [] | Some t \<Rightarrow> t) s") (auto simp: visible_tenants_def)
  from get_tenant_Some[OF this] this show ?thesis by simp
qed

text \<open>What is shown of one tenant, in terms of the roles in it.\<close>

lemma discover_tenant_ok:
  assumes "get_tenant (tn_id x) s \<noteq> None"
  shows "\<exists>r. discover_tenant p s x = Inr r \<and> (\<forall>y. r = Some y \<longrightarrow> dt_id y = tn_id x)
    \<and> (\<forall>permission. (\<exists>y. r = Some y \<and> permission \<in> set (dt_permissions y)) \<longleftrightarrow>
         ap_is_bootstrap p \<or> roles_for (tn_id x) (ap_id p) None s \<inter> set (permission_roles permission) \<noteq> {})
    \<and> (\<forall>permission d. (\<exists>y. r = Some y \<and> (\<exists>z \<in> set (dt_data_sources y). ds_id (dd_source z) = d
           \<and> permission \<in> set (dd_permissions z))) \<longleftrightarrow>
         (\<exists>q \<in> set (ss_data_sources s). ds_tenant_id q = tn_id x \<and> ds_id q = d)
         \<and> (ap_is_bootstrap p \<or> roles_for (tn_id x) (ap_id p) (Some d) s \<inter> set (permission_roles permission) \<noteq> {}))"
proof -
  define boot where "boot = ap_is_bootstrap p"
  define tr where "tr = (if boot then {} else ta_role ` set (list_tenant_role_assignments (tn_id x) (Some (ap_id p)) s))"
  define sa where "sa = (if boot then [] else list_data_source_role_assignments (tn_id x) (Some (ap_id p)) None s)"
  define sr where "sr d = sa_role ` {a \<in> set sa. sa_data_source_id a = d}" for d
  define ds where "ds = sort_key (\<lambda>d. (nocase (ds_name d), ds_id d))
    (filter (\<lambda>d. ds_tenant_id d = tn_id x) (ss_data_sources s))"
  define shown where "shown = map (\<lambda>d. \<lparr>dd_source = d, dd_permissions = session_permissions boot (tr \<union> sr (ds_id d))\<rparr>)
    (filter (\<lambda>d. boot \<or> tr \<noteq> {} \<or> sr (ds_id d) \<noteq> {}) ds)"
  define r where "r = (if boot \<or> tr \<noteq> {} \<or> shown \<noteq> []
    then Some \<lparr>dt_id = tn_id x, dt_name = tn_name x, dt_permissions = session_permissions boot tr,
               dt_data_sources = shown\<rparr> else None)"
  have eq: "discover_tenant p s x = Inr r"
  proof -
    have "list_data_sources (tn_id x) s = Inr ds" using assms by (simp add: list_data_sources_def ds_def)
    then show ?thesis
      unfolding discover_tenant_def Let_def boot_def[symmetric] tr_def[symmetric] sa_def[symmetric] sr_def[symmetric]
      by (simp only: bind_result_simps r_def shown_def)
  qed
  have roles: "roles_for (tn_id x) (ap_id p) None s = tr"
    "roles_for (tn_id x) (ap_id p) (Some d) s = tr \<union> sr d" if "\<not> boot" for d
    using that by (auto simp: roles_for_def tr_def sr_def sa_def list_data_source_role_assignments_def)
  have tenant: "(\<exists>y. r = Some y \<and> permission \<in> set (dt_permissions y)) \<longleftrightarrow>
      boot \<or> roles_for (tn_id x) (ap_id p) None s \<inter> set (permission_roles permission) \<noteq> {}" for permission
    using roles(1) by (auto simp: r_def session_permissions_iff)
  have source: "(\<exists>y. r = Some y \<and> (\<exists>z \<in> set (dt_data_sources y). ds_id (dd_source z) = d
        \<and> permission \<in> set (dd_permissions z))) \<longleftrightarrow>
      (\<exists>q \<in> set ds. ds_id q = d)
      \<and> (boot \<or> roles_for (tn_id x) (ap_id p) (Some d) s \<inter> set (permission_roles permission) \<noteq> {})" for permission d
  proof -
    have "(\<exists>y. r = Some y \<and> (\<exists>z \<in> set (dt_data_sources y). ds_id (dd_source z) = d
        \<and> permission \<in> set (dd_permissions z))) \<longleftrightarrow>
      (\<exists>z \<in> set shown. ds_id (dd_source z) = d \<and> permission \<in> set (dd_permissions z))"
      by (auto simp: r_def)
    also have "\<dots> \<longleftrightarrow> (\<exists>q \<in> set ds. ds_id q = d \<and> (boot \<or> tr \<noteq> {} \<or> sr d \<noteq> {})
        \<and> (boot \<or> (tr \<union> sr d) \<inter> set (permission_roles permission) \<noteq> {}))"
      by (auto simp: shown_def session_permissions_iff)
    also have "\<dots> \<longleftrightarrow> (\<exists>q \<in> set ds. ds_id q = d) \<and> (boot \<or> (tr \<union> sr d) \<inter> set (permission_roles permission) \<noteq> {})"
      by blast
    finally show ?thesis using roles(2)[of d] by auto
  qed
  have ds: "(\<exists>q \<in> set ds. ds_id q = d) \<longleftrightarrow> (\<exists>q \<in> set (ss_data_sources s). ds_tenant_id q = tn_id x \<and> ds_id q = d)" for d
    by (auto simp: ds_def)
  have "\<forall>y. r = Some y \<longrightarrow> dt_id y = tn_id x" by (auto simp: r_def)
  then show ?thesis
    using eq tenant source unfolding ds boot_def by blast
qed

lemma discover_tenant_facts:
  assumes "x \<in> set (visible_tenants p s)"
  shows "is_ok (discover_tenant p s x)" (is ?ok)
    and "discover_tenant p s x = Inr (Some y) \<Longrightarrow> dt_id y = tn_id x" (is "?d \<Longrightarrow> ?id")
    and "(\<exists>y. discover_tenant p s x = Inr (Some y) \<and> permission \<in> set (dt_permissions y)) \<longleftrightarrow>
       ap_is_bootstrap p \<or> roles_for (tn_id x) (ap_id p) None s \<inter> set (permission_roles permission) \<noteq> {}" (is ?tenant)
    and "(\<exists>y. discover_tenant p s x = Inr (Some y) \<and> (\<exists>z \<in> set (dt_data_sources y). ds_id (dd_source z) = d
         \<and> permission \<in> set (dd_permissions z))) \<longleftrightarrow>
       (\<exists>q \<in> set (ss_data_sources s). ds_tenant_id q = tn_id x \<and> ds_id q = d)
       \<and> (ap_is_bootstrap p \<or> roles_for (tn_id x) (ap_id p) (Some d) s \<inter> set (permission_roles permission) \<noteq> {})"
      (is ?source)
proof -
  have "?ok \<and> (?d \<longrightarrow> ?id) \<and> ?tenant \<and> ?source"
    by (rule exE[OF discover_tenant_ok[OF visible_tenants_exist[OF assms], of p]]) (elim conjE, simp)
  then show ?ok "?d \<Longrightarrow> ?id" ?tenant ?source by simp_all
qed

lemma discover_session_ok:
  obtains sd where "discover_session p s = Inr sd"
    "\<And>y. y \<in> set (sd_tenants sd) \<longleftrightarrow> (\<exists>x \<in> set (visible_tenants p s). discover_tenant p s x = Inr (Some y))"
proof -
  have "\<forall>x \<in> set (visible_tenants p s). is_ok (discover_tenant p s x)"
    using discover_tenant_facts(1) by blast
  then obtain found where f: "collect_results (map (discover_tenant p s) (visible_tenants p s)) = Inr found"
    using collect_results_total by blast
  have mem: "Some y \<in> set found \<longleftrightarrow> (\<exists>x \<in> set (visible_tenants p s). discover_tenant p s x = Inr (Some y))" for y
  proof -
    have "Some y \<in> set found \<longleftrightarrow> Inr (Some y) \<in> set (map (Inr :: _ \<Rightarrow> security_error + _) found)" by auto
    also have "\<dots> \<longleftrightarrow> Inr (Some y) \<in> set (map (discover_tenant p s) (visible_tenants p s))"
      using collect_results_Inr[OF f] by simp
    also have "\<dots> \<longleftrightarrow> (\<exists>x \<in> set (visible_tenants p s). discover_tenant p s x = Inr (Some y))"
      unfolding set_map image_iff by metis
    finally show ?thesis .
  qed
  define sd where "sd = \<lparr>sd_principal = p,
    sd_platform_permissions = (if ap_is_bootstrap p then [PLATFORM_MANAGE] else []),
    sd_tenants = concat (map (\<lambda>x. case x of None \<Rightarrow> [] | Some t \<Rightarrow> [t]) found)\<rparr>"
  have "discover_session p s = Inr sd" unfolding discover_session_def f sd_def by simp
  moreover have "y \<in> set (sd_tenants sd) \<longleftrightarrow> Some y \<in> set found" for y
    by (auto simp: sd_def split: option.splits)
  ultimately show thesis using that mem by blast
qed

lemma visible_tenants_bex:
  assumes "ap_is_bootstrap p \<or> ap_tenant_id p \<noteq> None" "\<And>x. x \<in> set (visible_tenants p s) \<Longrightarrow> Q x \<longleftrightarrow> R (tn_id x)"
  shows "(\<exists>x \<in> set (visible_tenants p s). tn_id x = t \<and> Q x) \<longleftrightarrow>
    get_tenant t s \<noteq> None \<and> (ap_is_bootstrap p \<or> ap_tenant_id p = Some t) \<and> R t"
proof -
  have "(\<exists>x \<in> set (visible_tenants p s). tn_id x = t \<and> Q x) \<longleftrightarrow> (\<exists>x \<in> set (visible_tenants p s). tn_id x = t) \<and> R t"
    using assms(2) by metis
  then show ?thesis unfolding visible_tenants_iff[OF assms(1)] by blast
qed

lemma authorize_session:
  "is_ok (authorize p permission (Some t) d s) \<longleftrightarrow> ap_is_bootstrap p
     \<or> (ap_tenant_id p = Some t \<and> roles_for t (ap_id p) d s \<inter> set (permission_roles permission) \<noteq> {})"
  using platform_roles[of permission] by (auto simp: authorize_def simp del: platform_roles)

text \<open>
  Session discovery never fails and shows a principal exactly what it may use: a
  permission is shown for a data source if and only if the source exists in the tenant and
  authorisation would grant it, and for a tenant if and only if the tenant exists and
  authorisation would grant it there.
\<close>

theorem discovery_agrees_with_authorization:
  assumes "ap_is_bootstrap p \<or> ap_tenant_id p \<noteq> None"
  shows "\<exists>sd. discover_session p s = Inr sd
    \<and> (\<forall>t d. shown_for_source sd t d =
          {permission. get_tenant t s \<noteq> None \<and> (\<exists>q \<in> set (ss_data_sources s). ds_tenant_id q = t \<and> ds_id q = d)
             \<and> is_ok (authorize p permission (Some t) (Some d) s)})
    \<and> (\<forall>t. shown_for_tenant sd t =
          {permission. get_tenant t s \<noteq> None \<and> is_ok (authorize p permission (Some t) None s)})"
proof -
  obtain sd where sd: "discover_session p s = Inr sd"
    "\<And>y. y \<in> set (sd_tenants sd) \<longleftrightarrow> (\<exists>x \<in> set (visible_tenants p s). discover_tenant p s x = Inr (Some y))"
    using discover_session_ok[of p s] by blast
  have shown: "(\<exists>y \<in> set (sd_tenants sd). dt_id y = t \<and> P y)
      \<longleftrightarrow> (\<exists>x \<in> set (visible_tenants p s). tn_id x = t \<and> (\<exists>y. discover_tenant p s x = Inr (Some y) \<and> P y))" for t P
  proof -
    note id = discover_tenant_facts(2)[where p = p and s = s]
    show ?thesis
    proof
      assume "\<exists>y \<in> set (sd_tenants sd). dt_id y = t \<and> P y"
      then obtain y x where "dt_id y = t" "P y" "x \<in> set (visible_tenants p s)" "discover_tenant p s x = Inr (Some y)"
        using sd(2) by metis
      then show "\<exists>x \<in> set (visible_tenants p s). tn_id x = t \<and> (\<exists>y. discover_tenant p s x = Inr (Some y) \<and> P y)"
        using id by metis
    next
      assume "\<exists>x \<in> set (visible_tenants p s). tn_id x = t \<and> (\<exists>y. discover_tenant p s x = Inr (Some y) \<and> P y)"
      then show "\<exists>y \<in> set (sd_tenants sd). dt_id y = t \<and> P y" using id sd(2) by metis
    qed
  qed
  have "shown_for_source sd t d =
      {permission. get_tenant t s \<noteq> None \<and> (\<exists>q \<in> set (ss_data_sources s). ds_tenant_id q = t \<and> ds_id q = d)
         \<and> is_ok (authorize p permission (Some t) (Some d) s)}" for t d
  proof -
    have v: "(\<exists>x \<in> set (visible_tenants p s). tn_id x = t \<and> (\<exists>y. discover_tenant p s x = Inr (Some y)
          \<and> (\<exists>z \<in> set (dt_data_sources y). ds_id (dd_source z) = d \<and> permission \<in> set (dd_permissions z)))) \<longleftrightarrow>
        get_tenant t s \<noteq> None \<and> (ap_is_bootstrap p \<or> ap_tenant_id p = Some t)
        \<and> (\<exists>q \<in> set (ss_data_sources s). ds_tenant_id q = t \<and> ds_id q = d)
        \<and> (ap_is_bootstrap p \<or> roles_for t (ap_id p) (Some d) s \<inter> set (permission_roles permission) \<noteq> {})" for permission
      by (rule visible_tenants_bex[OF assms]) (rule discover_tenant_facts(4))
    show ?thesis unfolding shown_for_source_def shown authorize_session v by (rule Collect_cong) argo
  qed
  moreover have "shown_for_tenant sd t =
      {permission. get_tenant t s \<noteq> None \<and> is_ok (authorize p permission (Some t) None s)}" for t
  proof -
    have v: "(\<exists>x \<in> set (visible_tenants p s). tn_id x = t \<and> (\<exists>y. discover_tenant p s x = Inr (Some y)
          \<and> permission \<in> set (dt_permissions y))) \<longleftrightarrow>
        get_tenant t s \<noteq> None \<and> (ap_is_bootstrap p \<or> ap_tenant_id p = Some t)
        \<and> (ap_is_bootstrap p \<or> roles_for t (ap_id p) None s \<inter> set (permission_roles permission) \<noteq> {})" for permission
      by (rule visible_tenants_bex[OF assms]) (rule discover_tenant_facts(3))
    show ?thesis unfolding shown_for_tenant_def shown authorize_session v by (rule Collect_cong) argo
  qed
  ultimately show ?thesis using sd(1) by blast
qed

end
