(* ===== verification/Security_Examples.thy ===== *)
theory Security_Examples
  imports Security_Safety
begin

text \<open>
  The browser login as a round trip through the sealed cookie, and a sample tenant with an
  analyst of one data source, with the witnesses of the access properties.
\<close>

section \<open>The login flow\<close>

lemma partition_dot_append: "CHR ''.'' \<notin> set a \<Longrightarrow> partition_dot (a @ CHR ''.'' # m) = Some (a, m)"
  by (simp add: partition_dot_def takeWhile_until dropWhile_until)

lemma unseal_seal:
  assumes "CHR ''.'' \<notin> set (bl_encode lib p)" "list_all py_isascii (bl_encode lib p)"
    "list_all py_isascii (bl_mac lib (bs_session_secret b) (bl_encode lib p))"
    "bl_decode lib (bl_encode lib p) = Inr (Some p)"
  shows "unseal lib b (seal lib b p) = Inr p"
  using assms by (simp add: seal_def unseal_def Let_def partition_dot_append)

text \<open>
  A cookie with a character outside ASCII is not refused as an authentication error but
  raises another exception.
\<close>

lemma foreign_cookie_raises:
  assumes "CHR ''.'' \<notin> set a" "\<not> list_all py_isascii a" "\<not> blank code" "\<not> blank state"
  shows "\<exists>e. exchange_callback lib b decoder cfg post now code state (a @ CHR ''.'' # m) = Inl e
    \<and> \<not> authentication_error e"
  using assms by (simp add: exchange_callback_def unseal_def partition_dot_append)

text \<open>
  C26: The cookie of a login that was begun is accepted for exactly that login: for a complete
  callback with another state it is refused as a mismatch, more than ten minutes later as
  expired, and otherwise the code is exchanged with the verifier of the login and the token
  is accepted only if it authenticates with the nonce of the login.
\<close>

theorem login_flow_round_trip:
  assumes "CHR ''.'' \<notin> set (bl_encode lib (flow_payload state nonce verifier now))"
    and "list_all py_isascii (bl_encode lib (flow_payload state nonce verifier now))"
    and "list_all py_isascii (bl_mac lib (bs_session_secret b) (bl_encode lib (flow_payload state nonce verifier now)))"
    and "bl_decode lib (bl_encode lib (flow_payload state nonce verifier now))
           = Inr (Some (flow_payload state nonce verifier now))"
    and "\<not> blank code" "\<not> blank given"
  shows "exchange_callback lib b decoder cfg post later code given
      (lr_flow_cookie (begin_login lib b state nonce verifier now))
    = (if given \<noteq> state then Inl Callback_State_Mismatch
       else if now + 600 < later then Inl Login_Flow_Expired
       else case post code verifier of
         Inl _ \<Rightarrow> Inl Exchange_Failed
       | Inr None \<Rightarrow> Inl Exchange_Response_Invalid
       | Inr (Some answer) \<Rightarrow>
           (case claim ''id_token'' answer of
              Some (Json_Text token) \<Rightarrow>
                if length token > 16384 then Inl Exchange_No_Token
                else bind_result (oidc_authenticate decoder cfg token (Some nonce)) (\<lambda>_. Inr token)
            | _ \<Rightarrow> Inl Exchange_No_Token))"
proof -
  let ?p = "flow_payload state nonce verifier now"
  have c: "claim ''state'' ?p = Some (Json_Text state)" "claim ''nonce'' ?p = Some (Json_Text nonce)"
    "claim ''verifier'' ?p = Some (Json_Text verifier)" "claim ''expires_at'' ?p = Some (Json_Int (now + 600))"
    by (simp_all add: claim_def flow_payload_def)
  have u: "unseal lib b (lr_flow_cookie (begin_login lib b state nonce verifier now)) = Inr ?p"
    unfolding begin_login_def login_request.simps by (rule unseal_seal[OF assms(1-4)])
  show ?thesis unfolding exchange_callback_def u using assms(5,6) by (auto simp: c)
qed

definition sample_browser :: browser_settings where
  "sample_browser =
     \<lparr>bs_authorization_endpoint = ''https://id/a'', bs_token_endpoint = ''https://id/t'', bs_client_id = ''sql'',
      bs_redirect_uri = ''https://app/cb'', bs_session_secret = ''s'', bs_client_secret = None, bs_secure_cookies = True\<rparr>"

definition sample_browser_lib :: browser_lib where
  "sample_browser_lib =
     \<lparr>bl_mac = (\<lambda>secret text. secret @ text), bl_encode = (\<lambda>_. ''flow''),
      bl_decode = (\<lambda>t. if t = ''flow'' then Inr (Some (flow_payload ''st'' ''n'' ''v'' 100)) else Inl ()),
      bl_challenge = (\<lambda>v. v), bl_authorization_url = (\<lambda>b st n c. st)\<rparr>"

definition sample_oidc :: oidc_settings where
  "sample_oidc =
     \<lparr>os_issuer = ''https://id'', os_audience = ''sql'', os_jwks_url = ''https://id/k'', os_tenant_claim = ''tid'',
      os_require_mfa = True, os_required_acr = None\<rparr>"

definition sample_decoder :: oidc_decoder where
  "sample_decoder token cfg =
     Inr [(''sub'', Json_Text ''ann''), (''tid'', Json_Text ''acme''), (''nonce'', Json_Text ''n''),
          (''amr'', Json_List [Json_Text ''MFA''])]"

lemma login_flow_round_trip_witness:
  "exchange_callback sample_browser_lib sample_browser sample_decoder sample_oidc
      (\<lambda>code verifier. if verifier = ''v'' then Inr (Some [(''id_token'', Json_Text ''a.b.c'')]) else Inl ()) 700
      ''code'' ''st'' (lr_flow_cookie (begin_login sample_browser_lib sample_browser ''st'' ''n'' ''v'' 100))
    = Inr ''a.b.c''"
proof -
  have h: "CHR ''.'' \<notin> set (bl_encode sample_browser_lib (flow_payload ''st'' ''n'' ''v'' 100))"
    "list_all py_isascii (bl_encode sample_browser_lib (flow_payload ''st'' ''n'' ''v'' 100))"
    "list_all py_isascii (bl_mac sample_browser_lib (bs_session_secret sample_browser)
       (bl_encode sample_browser_lib (flow_payload ''st'' ''n'' ''v'' 100)))"
    "bl_decode sample_browser_lib (bl_encode sample_browser_lib (flow_payload ''st'' ''n'' ''v'' 100))
       = Inr (Some (flow_payload ''st'' ''n'' ''v'' 100))"
    "\<not> blank ''code''" "\<not> blank ''st''"
    by code_simp+
  have a: "is_ok (oidc_authenticate sample_decoder sample_oidc ''a.b.c'' (Some ''n''))" by code_simp
  show ?thesis
    unfolding login_flow_round_trip[OF h] using a by (auto simp: claim_def is_ok_iff)
qed

section \<open>Access\<close>

definition sample_sha :: "string \<Rightarrow> string" where
  "sample_sha s = replicate 64 (if s = ''sqlverity_k'' then CHR ''a'' else CHR ''b'')"

definition acme_store :: security_store where
  "acme_store =
     \<lparr>ss_tenants = [\<lparr>tn_name = ''Acme'', tn_id = ''acme'', tn_created_at = 0\<rparr>],
      ss_data_sources = [\<lparr>ds_tenant_id = ''acme'', ds_name = ''sales'', ds_source_type = DIRECT_DB,
         ds_dialect = ''postgres'', ds_capabilities = [], ds_connection_secret_ref = None, ds_id = ''ds'',
         ds_created_at = 0\<rparr>],
      ss_principals = [], ss_credentials = [], ss_tenant_roles = [], ss_source_roles = [], ss_revocations = [],
      ss_audit = []\<rparr>"

definition sample_draws :: provision_draws where
  "sample_draws =
     \<lparr>pv_now = 10, pv_principal_id = ''p'', pv_credential_id = ''c'', pv_tenant_assignment_id = ''ta'',
      pv_source_assignment_id = (\<lambda>n. ''sa''), pv_api_key = ''sqlverity_k''\<rparr>"

definition provisioned_store :: security_store where
  "provisioned_store =
     snd (provision_principal sample_sha sample_draws ''acme'' ''ann'' ''Ann'' Analyst ''laptop'' ''root'' [''ds'']
            (Some 1000) acme_store)"

definition sample_issued :: issued_access where
  "sample_issued =
     \<lparr>ia_principal = new_principal sample_draws ''acme'' ''ann'' ''Ann'', ia_credential_id = ''c'',
      ia_api_key = ''sqlverity_k'', ia_role = Analyst, ia_data_source_ids = [''ds''], ia_expires_at = Some 1000\<rparr>"

lemma acme_access_ok: "access_ok acme_store"
  by (simp add: access_ok_def acme_store_def unique_key_def)

lemma sample_provisioned:
  "provision_principal sample_sha sample_draws ''acme'' ''ann'' ''Ann'' Analyst ''laptop'' ''root'' [''ds'']
     (Some 1000) acme_store = (Inr sample_issued, provisioned_store)"
proof -
  have "fst (provision_principal sample_sha sample_draws ''acme'' ''ann'' ''Ann'' Analyst ''laptop'' ''root'' [''ds'']
     (Some 1000) acme_store) = Inr sample_issued" by code_simp
  then show ?thesis by (simp add: provisioned_store_def prod_eq_iff)
qed

lemma provisioned_access_ok: "access_ok provisioned_store"
  using provisioned_roles[OF acme_access_ok sample_provisioned] by blast

definition sample_revocation :: credential_revocation where
  "sample_revocation =
     \<lparr>cr_tenant_id = ''acme'', cr_credential_id = ''c'', cr_actor_id = ''root'', cr_reason = Some ''lost'',
      cr_id = ''rv'', cr_created_at = 20\<rparr>"

definition revoked_store :: security_store where
  "revoked_store = snd (revoke_credential ''rv'' 20 ''acme'' ''c'' ''root'' (Some '' lost'') provisioned_store)"

lemma sample_revoked:
  "revoke_credential ''rv'' 20 ''acme'' ''c'' ''root'' (Some '' lost'') provisioned_store
     = (Inr sample_revocation, revoked_store)"
proof -
  have "fst (revoke_credential ''rv'' 20 ''acme'' ''c'' ''root'' (Some '' lost'') provisioned_store) = Inr sample_revocation"
    by code_simp
  then show ?thesis by (simp add: revoked_store_def prod_eq_iff)
qed

lemma sample_security_reaches: "security_reaches sample_sha provisioned_store revoked_store"
  by (rule reach_step[OF reach_refl revoke_step[OF sample_revoked]])

lemma provisioned_access_is_exact_witness:
  "is_ok (authorize (principal_session (ia_principal sample_issued) (Some ''c'') ''api_key'' False) QUERY_USE
      (Some ''acme'') (Some ''ds'') revoked_store)
   \<and> \<not> is_ok (authorize (principal_session (ia_principal sample_issued) (Some ''c'') ''api_key'' False) QUERY_USE
      (Some ''acme'') None revoked_store)
   \<and> \<not> is_ok (authorize (principal_session (ia_principal sample_issued) (Some ''c'') ''api_key'' False) SECURITY_MANAGE
      (Some ''acme'') (Some ''ds'') revoked_store)"
  using provisioned_access_is_exact[OF acme_access_ok sample_provisioned sample_security_reaches, of "Some ''c''" "''api_key''" False]
  by simp

definition sample_service :: auth_service where
  "sample_service = \<lparr>as_bootstrap_hash = ''boot'', as_oidc = None\<rparr>"

lemma revoked_credential_is_refused_witness:
  "authenticate_bearer sample_sha sample_service 25 (Some ''bearer  sqlverity_k'') revoked_store = Inl Bearer_Invalid"
proof -
  obtain c where c: "get_api_credential ''acme'' ''c'' provisioned_store = Some c"
    "ac_token_sha256 c = sample_sha ''sqlverity_k''"
  proof -
    have "map_option ac_token_sha256 (get_api_credential ''acme'' ''c'' provisioned_store) = Some (sample_sha ''sqlverity_k'')"
      by code_simp
    then show thesis using that by auto
  qed
  have b: "parse_bearer (Some ''bearer  sqlverity_k'') = Inr ''sqlverity_k''" by code_simp
  have n: "ac_token_sha256 c \<noteq> as_bootstrap_hash sample_service"
    by (simp add: c(2) sample_sha_def sample_service_def numeral_eq_Suc)
  show ?thesis
    by (rule revoked_credential_is_refused[OF provisioned_access_ok sample_revoked reach_refl[of sample_sha revoked_store] c(1) b c(2)[symmetric] n])
qed

lemma issued_key_authenticates_witness:
  "authenticate_bearer sample_sha sample_service 25 (Some (''Bearer '' @ ia_api_key sample_issued)) provisioned_store
     = Inr (principal_session (ia_principal sample_issued) (Some ''c'') ''api_key'' False)"
proof -
  have k: "strip (pv_api_key sample_draws) = pv_api_key sample_draws" "\<not> blank (pv_api_key sample_draws)"
    "sample_sha (pv_api_key sample_draws) \<noteq> as_bootstrap_hash sample_service"
    by code_simp+
  have r: "get_api_credential_revocation ''acme'' ''c'' provisioned_store = None" by code_simp
  have i: "ia_credential_id sample_issued = ''c''" by (simp add: sample_issued_def)
  show ?thesis
    using issued_key_authenticates[OF acme_access_ok sample_provisioned reach_refl[of sample_sha provisioned_store] k, of 25] r by (simp add: i)
qed

lemma discovery_agrees_with_authorization_witness:
  "\<exists>sd. discover_session (principal_session (ia_principal sample_issued) None ''api_key'' False) provisioned_store = Inr sd
     \<and> QUERY_USE \<in> shown_for_source sd ''acme'' ''ds'' \<and> QUERY_USE \<notin> shown_for_tenant sd ''acme''"
proof -
  let ?p = "principal_session (ia_principal sample_issued) None ''api_key'' False"
  have p: "ap_is_bootstrap ?p \<or> ap_tenant_id ?p \<noteq> None" by (simp add: principal_session_def)
  have a: "is_ok (authorize ?p QUERY_USE (Some ''acme'') (Some ''ds'') provisioned_store)"
    "\<not> is_ok (authorize ?p QUERY_USE (Some ''acme'') None provisioned_store)"
    "get_tenant ''acme'' provisioned_store \<noteq> None"
    "\<exists>q \<in> set (ss_data_sources provisioned_store). ds_tenant_id q = ''acme'' \<and> ds_id q = ''ds''"
    by code_simp+
  from discovery_agrees_with_authorization[OF p, of provisioned_store] show ?thesis using a by blast
qed

end
