(* ===== verification/Semantic_Models.thy ===== *)
theory Semantic_Models
  imports Domain_Model
begin

text \<open>
  The governed knowledge of \<open>domain/models.py\<close>: the evidence dataclasses (semantic
  definitions, business concepts, metrics, business rules) with their checks, the
  resolutions the catalog keeps for them, and the epistemic precedence of
  \<open>domain/epistemic.py\<close> that decides what a new piece of evidence does to the current
  resolution.  The model's \<open>field\<close> defaults (fresh identifiers, the clock) are values the
  caller supplies.
\<close>

section \<open>Evidence and resolutions\<close>

datatype knowledge_model_error =
    KM_MissingFields | KM_Confidence | KM_ConflictingEvidence | KM_BlankActor | KM_BlankReason
  | KM_UnsafeKey | KM_TooLong | KM_NoObjects | KM_BlankListItem | KM_DuplicateSynonym
  | KM_NameIsSynonym | KM_DuplicateObject | KM_BlankOptional
  | KM_UnsafeConceptKey | KM_DuplicateConceptKey | KM_DimensionOutside | KM_BadGrain
  | KM_DuplicateGrain | KM_DuplicateDimension | KM_UnsafeRuleKey | KM_DuplicateRuleKey

text \<open>\<open>not 0.0 <= confidence <= 1.0\<close>, true of not-a-number.\<close>

definition confidence_ok :: "pyfloat \<Rightarrow> bool" where
  "confidence_ok c = (pf_le (PFin 0) c \<and> pf_le c (PFin 1))"

record semantic_definition =
  sd_tenant_id :: string
  sd_catalog_version_id :: string
  sd_object_ref :: string
  sd_description :: string
  sd_status :: epistemic_status
  sd_source :: string
  sd_confidence :: pyfloat
  sd_actor_id :: "string option"
  sd_reason :: "string option"
  sd_id :: string
  sd_created_at :: timestamp

definition semantic_definition_post_init :: "semantic_definition \<Rightarrow> knowledge_model_error + unit" where
  "semantic_definition_post_init d = first_raise
     [(blank (sd_object_ref d) \<or> blank (sd_description d) \<or> blank (sd_source d), KM_MissingFields),
      (\<not> confidence_ok (sd_confidence d), KM_Confidence),
      (sd_status d = CONFLICTING, KM_ConflictingEvidence),
      (\<exists>a \<in> set_option (sd_actor_id d). blank a, KM_BlankActor),
      (\<exists>r \<in> set_option (sd_reason d). blank r, KM_BlankReason)]"

record semantic_resolution =
  sr_tenant_id :: string
  sr_data_source_id :: string
  sr_object_ref :: string
  sr_description :: string
  sr_status :: epistemic_status
  sr_confidence :: pyfloat
  sr_selected_definition_id :: "string option"
  sr_updated_at :: timestamp

record business_concept_definition =
  bcd_tenant_id :: string
  bcd_data_source_id :: string
  bcd_catalog_version_id :: string
  bcd_concept_key :: string
  bcd_name :: string
  bcd_description :: string
  bcd_synonyms :: "string list"
  bcd_object_refs :: "string list"
  bcd_content_classification :: classification
  bcd_status :: epistemic_status
  bcd_source :: string
  bcd_confidence :: pyfloat
  bcd_actor_id :: "string option"
  bcd_reason :: "string option"
  bcd_id :: string
  bcd_created_at :: timestamp

definition business_concept_definition_post_init ::
  "business_concept_definition \<Rightarrow> knowledge_model_error + unit" where
  "business_concept_definition_post_init d =
     (let normalized_synonyms = map (\<lambda>v. casefold (strip v)) (bcd_synonyms d)
      in first_raise
        [(\<exists>v \<in> set [bcd_tenant_id d, bcd_data_source_id d, bcd_catalog_version_id d, bcd_concept_key d,
                     bcd_name d, bcd_description d, bcd_source d]. blank v, KM_MissingFields),
         (\<not> valid_identifier (bcd_concept_key d), KM_UnsafeKey),
         (length (bcd_name d) > 300 \<or> length (bcd_description d) > 20000, KM_TooLong),
         (bcd_object_refs d = [], KM_NoObjects),
         (\<exists>v \<in> set (bcd_synonyms d @ bcd_object_refs d). blank v, KM_BlankListItem),
         (has_duplicates normalized_synonyms, KM_DuplicateSynonym),
         (casefold (strip (bcd_name d)) \<in> set normalized_synonyms, KM_NameIsSynonym),
         (has_duplicates (bcd_object_refs d), KM_DuplicateObject),
         (\<not> confidence_ok (bcd_confidence d), KM_Confidence),
         (bcd_status d = CONFLICTING, KM_ConflictingEvidence),
         (\<exists>v \<in> set_option (bcd_actor_id d) \<union> set_option (bcd_reason d). blank v, KM_BlankOptional)])"

record business_concept_resolution =
  bcr_tenant_id :: string
  bcr_data_source_id :: string
  bcr_concept_key :: string
  bcr_name :: string
  bcr_description :: string
  bcr_synonyms :: "string list"
  bcr_object_refs :: "string list"
  bcr_content_classification :: classification
  bcr_status :: epistemic_status
  bcr_confidence :: pyfloat
  bcr_selected_definition_id :: "string option"
  bcr_updated_at :: timestamp

text \<open>The checks metrics and business rules share, \<open>_validate_analytic_definition\<close>.\<close>

definition validate_analytic_definition ::
  "string \<Rightarrow> string \<Rightarrow> string \<Rightarrow> string \<Rightarrow> string \<Rightarrow> string list \<Rightarrow> string list \<Rightarrow> epistemic_status
    \<Rightarrow> string \<Rightarrow> pyfloat \<Rightarrow> string option \<Rightarrow> string option \<Rightarrow> knowledge_model_error + unit" where
  "validate_analytic_definition key name description sql normalized_sql object_refs concept_keys
       status source confidence actor_id reason = first_raise
     [(\<not> valid_identifier key, KM_UnsafeKey),
      (\<exists>v \<in> set [name, description, sql, normalized_sql, source]. blank v, KM_MissingFields),
      (length name > 300 \<or> length description > 20000 \<or> length sql > 20000, KM_TooLong),
      (object_refs = [] \<or> (\<exists>v \<in> set object_refs. blank v), KM_NoObjects),
      (has_duplicates object_refs, KM_DuplicateObject),
      (\<exists>v \<in> set concept_keys. \<not> valid_identifier v, KM_UnsafeConceptKey),
      (has_duplicates concept_keys, KM_DuplicateConceptKey),
      (status = CONFLICTING, KM_ConflictingEvidence),
      (\<not> confidence_ok confidence, KM_Confidence),
      (\<exists>v \<in> set_option actor_id \<union> set_option reason. blank v, KM_BlankOptional)]"

record metric_definition =
  md_tenant_id :: string
  md_data_source_id :: string
  md_catalog_version_id :: string
  md_metric_key :: string
  md_name :: string
  md_description :: string
  md_expression_sql :: string
  md_normalized_expression_sql :: string
  md_object_refs :: "string list"
  md_grain_refs :: "string list"
  md_dimension_refs :: "string list"
  md_concept_keys :: "string list"
  md_rule_keys :: "string list"
  md_content_classification :: classification
  md_status :: epistemic_status
  md_source :: string
  md_confidence :: pyfloat
  md_actor_id :: "string option"
  md_reason :: "string option"
  md_id :: string
  md_created_at :: timestamp

definition metric_definition_post_init :: "metric_definition \<Rightarrow> knowledge_model_error + unit" where
  "metric_definition_post_init d =
     bind_result
       (validate_analytic_definition (md_metric_key d) (md_name d) (md_description d)
          (md_expression_sql d) (md_normalized_expression_sql d) (md_object_refs d)
          (md_concept_keys d) (md_status d) (md_source d) (md_confidence d)
          (md_actor_id d) (md_reason d))
       (\<lambda>_. first_raise
         [(\<exists>v \<in> set (md_dimension_refs d). v \<notin> set (md_object_refs d), KM_DimensionOutside),
          (md_grain_refs d = [] \<or> (\<exists>v \<in> set (md_grain_refs d). v \<notin> set (md_object_refs d)), KM_BadGrain),
          (has_duplicates (md_grain_refs d), KM_DuplicateGrain),
          (has_duplicates (md_dimension_refs d), KM_DuplicateDimension),
          (\<exists>v \<in> set (md_rule_keys d). \<not> valid_identifier v, KM_UnsafeRuleKey),
          (has_duplicates (md_rule_keys d), KM_DuplicateRuleKey)])"

record metric_resolution =
  mr_tenant_id :: string
  mr_data_source_id :: string
  mr_metric_key :: string
  mr_name :: string
  mr_description :: string
  mr_normalized_expression_sql :: string
  mr_object_refs :: "string list"
  mr_grain_refs :: "string list"
  mr_dimension_refs :: "string list"
  mr_concept_keys :: "string list"
  mr_rule_keys :: "string list"
  mr_content_classification :: classification
  mr_status :: epistemic_status
  mr_confidence :: pyfloat
  mr_selected_definition_id :: "string option"
  mr_updated_at :: timestamp

record business_rule_definition =
  brd_tenant_id :: string
  brd_data_source_id :: string
  brd_catalog_version_id :: string
  brd_rule_key :: string
  brd_name :: string
  brd_description :: string
  brd_predicate_sql :: string
  brd_normalized_predicate_sql :: string
  brd_object_refs :: "string list"
  brd_concept_keys :: "string list"
  brd_content_classification :: classification
  brd_status :: epistemic_status
  brd_source :: string
  brd_confidence :: pyfloat
  brd_actor_id :: "string option"
  brd_reason :: "string option"
  brd_id :: string
  brd_created_at :: timestamp

definition business_rule_definition_post_init ::
  "business_rule_definition \<Rightarrow> knowledge_model_error + unit" where
  "business_rule_definition_post_init d =
     validate_analytic_definition (brd_rule_key d) (brd_name d) (brd_description d)
       (brd_predicate_sql d) (brd_normalized_predicate_sql d) (brd_object_refs d)
       (brd_concept_keys d) (brd_status d) (brd_source d) (brd_confidence d)
       (brd_actor_id d) (brd_reason d)"

record business_rule_resolution =
  brr_tenant_id :: string
  brr_data_source_id :: string
  brr_rule_key :: string
  brr_name :: string
  brr_description :: string
  brr_normalized_predicate_sql :: string
  brr_object_refs :: "string list"
  brr_concept_keys :: "string list"
  brr_content_classification :: classification
  brr_status :: epistemic_status
  brr_confidence :: pyfloat
  brr_selected_definition_id :: "string option"
  brr_updated_at :: timestamp

section \<open>Evidence is never a conflict\<close>

lemma post_init_not_conflicting:
  "semantic_definition_post_init sd = Inr u1 \<Longrightarrow> sd_status sd \<noteq> CONFLICTING"
  "business_concept_definition_post_init bd = Inr u2 \<Longrightarrow> bcd_status bd \<noteq> CONFLICTING"
  "metric_definition_post_init md = Inr u3 \<Longrightarrow> md_status md \<noteq> CONFLICTING"
  "business_rule_definition_post_init rd = Inr u4 \<Longrightarrow> brd_status rd \<noteq> CONFLICTING"
  by (auto simp: semantic_definition_post_init_def business_concept_definition_post_init_def
      metric_definition_post_init_def business_rule_definition_post_init_def
      validate_analytic_definition_def bind_result_Inr_iff)

end
