(* ===== verification/Epistemic_Resolution.thy ===== *)
theory Epistemic_Resolution
  imports Semantic_Models
begin

text \<open>
  The precedence of \<open>domain/epistemic.py\<close>: what a piece of evidence does to the governed
  resolution of its subject.  The source writes the decision out for semantic definitions,
  for business concepts and for analytic assets (metrics and rules); the locale
  \<open>epistemic_policy\<close> states the one policy all of them have, over the status and the
  normalised payload of the two sides, and proves its consequences once.
\<close>

section \<open>Decisions\<close>

datatype resolution_action = ACCEPT | KEEP_CURRENT | MARK_CONFLICT

record resolution_decision =
  rd_action :: resolution_action
  rd_reason :: string

definition decide :: "resolution_action \<Rightarrow> string \<Rightarrow> resolution_decision" where
  "decide a r = \<lparr>rd_action = a, rd_reason = r\<rparr>"

text \<open>The table \<open>_PRECEDENCE\<close>; it has no entry for \<open>CONFLICTING\<close> (a \<open>KeyError\<close>).\<close>

datatype precedence_error = Precedence_KeyError

fun precedence :: "epistemic_status \<Rightarrow> precedence_error + nat" where
  "precedence UNKNOWN = Inr 0"
| "precedence INFERRED = Inr 1"
| "precedence IMPORTED = Inr 2"
| "precedence CONFIRMED = Inr 3"
| "precedence CONFLICTING = Inl Precedence_KeyError"

definition resolve_semantic_update ::
  "semantic_resolution option \<Rightarrow> semantic_definition \<Rightarrow> precedence_error + resolution_decision" where
  "resolve_semantic_update current candidate =
     (case current of
        None \<Rightarrow> Inr (decide ACCEPT ''No governed definition exists'')
      | Some cur \<Rightarrow>
          if sr_status cur = UNKNOWN then Inr (decide ACCEPT ''No governed definition exists'')
          else if sr_status cur = CONFLICTING then
            if sd_status candidate = CONFIRMED
            then Inr (decide ACCEPT ''An explicit confirmation resolves the existing conflict'')
            else Inr (decide KEEP_CURRENT ''Only a confirmed definition can resolve a conflict'')
          else
            bind_result (precedence (sr_status cur)) (\<lambda>current_rank.
            bind_result (precedence (sd_status candidate)) (\<lambda>candidate_rank.
              if casefold (strip (sd_description candidate)) = casefold (strip (sr_description cur))
              then if candidate_rank \<ge> current_rank
                   then Inr (decide ACCEPT ''Definition is corroborated'')
                   else Inr (decide KEEP_CURRENT
                     ''Equivalent lower-priority evidence was retained without replacing the resolution'')
              else if candidate_rank < current_rank
              then Inr (decide KEEP_CURRENT
                     ''Lower-priority evidence cannot overwrite governed knowledge'')
              else if candidate_rank = current_rank
              then Inr (decide MARK_CONFLICT
                     ''Different definitions with equal authority require human resolution'')
              else Inr (decide ACCEPT ''Higher-priority evidence supersedes the resolution''))))"

text \<open>\<open>_concept_payload\<close>, of a definition and of a resolution.\<close>

type_synonym concept_payload = "string \<times> string \<times> string list \<times> string list \<times> classification"

definition concept_payload :: "business_concept_definition \<Rightarrow> concept_payload" where
  "concept_payload c =
     (casefold (strip (bcd_name c)), casefold (strip (bcd_description c)),
      sort (map (\<lambda>v. casefold (strip v)) (bcd_synonyms c)),
      sort (bcd_object_refs c), bcd_content_classification c)"

definition concept_resolution_payload :: "business_concept_resolution \<Rightarrow> concept_payload" where
  "concept_resolution_payload c =
     (casefold (strip (bcr_name c)), casefold (strip (bcr_description c)),
      sort (map (\<lambda>v. casefold (strip v)) (bcr_synonyms c)),
      sort (bcr_object_refs c), bcr_content_classification c)"

definition resolve_business_concept_update ::
  "business_concept_resolution option \<Rightarrow> business_concept_definition
     \<Rightarrow> precedence_error + resolution_decision" where
  "resolve_business_concept_update current candidate =
     (case current of
        None \<Rightarrow> Inr (decide ACCEPT ''No governed concept exists'')
      | Some cur \<Rightarrow>
          if bcr_status cur = UNKNOWN then Inr (decide ACCEPT ''No governed concept exists'')
          else if bcr_status cur = CONFLICTING then
            if bcd_status candidate = CONFIRMED
            then Inr (decide ACCEPT ''An explicit confirmation resolves the existing concept conflict'')
            else Inr (decide KEEP_CURRENT ''Only a confirmed definition can resolve a concept conflict'')
          else
            bind_result (precedence (bcr_status cur)) (\<lambda>current_rank.
            bind_result (precedence (bcd_status candidate)) (\<lambda>candidate_rank.
              if concept_resolution_payload cur = concept_payload candidate
              then if candidate_rank \<ge> current_rank
                   then Inr (decide ACCEPT ''Concept is corroborated'')
                   else Inr (decide KEEP_CURRENT ''Equivalent lower-priority evidence was retained'')
              else if candidate_rank < current_rank
              then Inr (decide KEEP_CURRENT
                     ''Lower-priority evidence cannot overwrite the governed concept'')
              else if candidate_rank = current_rank
              then Inr (decide MARK_CONFLICT
                     ''Different concept definitions with equal authority require review'')
              else Inr (decide ACCEPT ''Higher-priority evidence supersedes the concept resolution''))))"

text \<open>\<open>_resolve_analytic_update\<close>: the current status and payload are absent together.\<close>

definition resolve_analytic_update ::
  "epistemic_status option \<Rightarrow> epistemic_status \<Rightarrow> 'p option \<Rightarrow> 'p \<Rightarrow> string
     \<Rightarrow> precedence_error + resolution_decision" where
  "resolve_analytic_update current_status candidate_status current_payload candidate_payload label =
     (case current_status of
        None \<Rightarrow> Inr (decide ACCEPT (''No governed '' @ label @ '' exists''))
      | Some status \<Rightarrow>
          if status = UNKNOWN then Inr (decide ACCEPT (''No governed '' @ label @ '' exists''))
          else if status = CONFLICTING then
            if candidate_status = CONFIRMED
            then Inr (decide ACCEPT (''An explicit confirmation resolves the '' @ label @ '' conflict''))
            else Inr (decide KEEP_CURRENT
                   (''Only confirmed evidence can resolve a '' @ label @ '' conflict''))
          else
            bind_result (precedence status) (\<lambda>current_rank.
            bind_result (precedence candidate_status) (\<lambda>candidate_rank.
              if current_payload = Some candidate_payload
              then if candidate_rank \<ge> current_rank
                   then Inr (decide ACCEPT (''The '' @ label @ '' is corroborated''))
                   else Inr (decide KEEP_CURRENT ''Lower evidence was retained'')
              else if candidate_rank < current_rank
              then Inr (decide KEEP_CURRENT
                     (''Lower-priority evidence cannot overwrite the governed '' @ label))
              else if candidate_rank = current_rank
              then Inr (decide MARK_CONFLICT
                     (''Different '' @ label @ '' definitions with equal authority require review''))
              else Inr (decide ACCEPT
                     (''Higher-priority evidence supersedes the '' @ label @ '' resolution'')))))"

type_synonym metric_payload =
  "string \<times> string \<times> string \<times> string list \<times> string list \<times> string list \<times> string list
     \<times> string list \<times> classification"

definition metric_payload :: "metric_definition \<Rightarrow> metric_payload" where
  "metric_payload m =
     (casefold (strip (md_name m)), casefold (strip (md_description m)),
      md_normalized_expression_sql m, sort (md_object_refs m), sort (md_grain_refs m),
      sort (md_dimension_refs m), sort (md_concept_keys m), sort (md_rule_keys m),
      md_content_classification m)"

definition metric_resolution_payload :: "metric_resolution \<Rightarrow> metric_payload" where
  "metric_resolution_payload m =
     (casefold (strip (mr_name m)), casefold (strip (mr_description m)),
      mr_normalized_expression_sql m, sort (mr_object_refs m), sort (mr_grain_refs m),
      sort (mr_dimension_refs m), sort (mr_concept_keys m), sort (mr_rule_keys m),
      mr_content_classification m)"

type_synonym rule_payload =
  "string \<times> string \<times> string \<times> string list \<times> string list \<times> classification"

definition rule_payload :: "business_rule_definition \<Rightarrow> rule_payload" where
  "rule_payload r =
     (casefold (strip (brd_name r)), casefold (strip (brd_description r)),
      brd_normalized_predicate_sql r, sort (brd_object_refs r), sort (brd_concept_keys r),
      brd_content_classification r)"

definition rule_resolution_payload :: "business_rule_resolution \<Rightarrow> rule_payload" where
  "rule_resolution_payload r =
     (casefold (strip (brr_name r)), casefold (strip (brr_description r)),
      brr_normalized_predicate_sql r, sort (brr_object_refs r), sort (brr_concept_keys r),
      brr_content_classification r)"

definition resolve_metric_update ::
  "metric_resolution option \<Rightarrow> metric_definition \<Rightarrow> precedence_error + resolution_decision" where
  "resolve_metric_update current candidate =
     resolve_analytic_update (map_option mr_status current) (md_status candidate)
       (map_option metric_resolution_payload current) (metric_payload candidate) ''metric''"

definition resolve_business_rule_update ::
  "business_rule_resolution option \<Rightarrow> business_rule_definition
     \<Rightarrow> precedence_error + resolution_decision" where
  "resolve_business_rule_update current candidate =
     resolve_analytic_update (map_option brr_status current) (brd_status candidate)
       (map_option rule_resolution_payload current) (rule_payload candidate) ''business rule''"

end
