(* ===== verification/Semantic_Store.thy ===== *)
theory Semantic_Store
  imports Epistemic_Resolution Sql_Tables
begin

text \<open>
  The knowledge tables of \<open>catalog/repository.py\<close>: evidence is only ever inserted, and each
  subject (an object reference, a concept key, an analytic asset) has at most one resolution
  row, which a proposal inserts or updates.  A proposal reads the current resolution, checks
  the client's \<open>expected_updated_at\<close> and decides before its transaction begins; \<open>mid\<close> is
  what other replicas of the PostgreSQL catalog commit in between (the identity for one
  process, whose lock covers the method).
\<close>

section \<open>Rows\<close>

datatype analytic_semantic_kind = METRIC | BUSINESS_RULE

datatype analytic_definition =
  Metric_Definition metric_definition | Rule_Definition business_rule_definition

datatype analytic_resolution =
  Metric_Resolution metric_resolution | Rule_Resolution business_rule_resolution

text \<open>The values a \<open>payload_json\<close> document holds.\<close>

datatype payload_value = P_Text string | P_List "string list"

type_synonym payload = "(string \<times> payload_value) list"

record analytic_definition_row =
  adr_id :: string
  adr_tenant_id :: string
  adr_data_source_id :: string
  adr_catalog_version_id :: string
  adr_asset_kind :: analytic_semantic_kind
  adr_asset_key :: string
  adr_payload :: payload
  adr_content_classification :: classification
  adr_status :: epistemic_status
  adr_source :: string
  adr_confidence :: pyfloat
  adr_actor_id :: "string option"
  adr_reason :: "string option"
  adr_created_at :: timestamp

record analytic_resolution_row =
  arr_tenant_id :: string
  arr_data_source_id :: string
  arr_asset_kind :: analytic_semantic_kind
  arr_asset_key :: string
  arr_payload :: payload
  arr_content_classification :: classification
  arr_status :: epistemic_status
  arr_confidence :: pyfloat
  arr_selected_definition_id :: "string option"
  arr_updated_at :: timestamp

record knowledge_audit =
  ka_tenant_id :: string
  ka_event_type :: string
  ka_subject_type :: string
  ka_subject_id :: string
  ka_definition_id :: string
  ka_source_status :: epistemic_status
  ka_action :: resolution_action
  ka_resolution_status :: epistemic_status
  ka_actor_id :: "string option"
  ka_explicit_supersede :: bool

record knowledge_store =
  ks_versions :: "catalog_version list"
  ks_semantic_definitions :: "semantic_definition list"
  ks_semantic_resolutions :: "semantic_resolution list"
  ks_concept_definitions :: "business_concept_definition list"
  ks_concept_resolutions :: "business_concept_resolution list"
  ks_analytic_definitions :: "analytic_definition_row list"
  ks_analytic_resolutions :: "analytic_resolution_row list"
  ks_audit :: "knowledge_audit list"

datatype knowledge_error =
    Version_Missing | No_Longer_Matches | Expected_Required | Changed_Since_Loaded
  | Supersede_Needs_Confirmed | Precedence_Missing precedence_error | No_Current_Resolution
  | Knowledge_Integrity | Payload_Key_Missing | Payload_Malformed
  | Stored_Definition_Invalid knowledge_model_error

section \<open>Checks and helpers\<close>

text \<open>\<open>_require_catalog_version\<close> with and without a data source.\<close>

definition require_catalog_version ::
  "knowledge_store \<Rightarrow> string \<Rightarrow> string \<Rightarrow> string option \<Rightarrow> knowledge_error + unit" where
  "require_catalog_version s t v d =
     raise_if (fetch_one (\<lambda>r. cv_tenant_id r = t \<and> cv_id r = v
                    \<and> (case d of None \<Rightarrow> True | Some ds \<Rightarrow> cv_data_source_id r = ds)) (ks_versions s) = None)
       Version_Missing"

definition catalog_version_data_source ::
  "knowledge_store \<Rightarrow> string \<Rightarrow> string \<Rightarrow> knowledge_error + string" where
  "catalog_version_data_source s t v =
     (case fetch_one (\<lambda>r. cv_tenant_id r = t \<and> cv_id r = v) (ks_versions s) of
        None \<Rightarrow> Inl Version_Missing
      | Some r \<Rightarrow> Inr (cv_data_source_id r))"

definition require_expected_resolution ::
  "semantic_resolution option \<Rightarrow> timestamp option \<Rightarrow> knowledge_error + unit" where
  "require_expected_resolution current expected =
     (case current of
        None \<Rightarrow> raise_if (expected \<noteq> None) No_Longer_Matches
      | Some cur \<Rightarrow> first_raise
          [(expected = None, Expected_Required),
           (Some (sr_updated_at cur) \<noteq> expected, Changed_Since_Loaded)])"

definition require_expected_concept_resolution ::
  "business_concept_resolution option \<Rightarrow> timestamp option \<Rightarrow> knowledge_error + unit" where
  "require_expected_concept_resolution current expected =
     (case current of
        None \<Rightarrow> raise_if (expected \<noteq> None) No_Longer_Matches
      | Some cur \<Rightarrow> first_raise
          [(expected = None, Expected_Required),
           (Some (bcr_updated_at cur) \<noteq> expected, Changed_Since_Loaded)])"

fun analytic_updated_at :: "analytic_resolution \<Rightarrow> timestamp" where
  "analytic_updated_at (Metric_Resolution m) = mr_updated_at m"
| "analytic_updated_at (Rule_Resolution r) = brr_updated_at r"

definition require_expected_analytic_resolution ::
  "analytic_resolution option \<Rightarrow> timestamp option \<Rightarrow> knowledge_error + unit" where
  "require_expected_analytic_resolution current expected =
     (case current of
        None \<Rightarrow> raise_if (expected \<noteq> None) No_Longer_Matches
      | Some cur \<Rightarrow> first_raise
          [(expected = None, Expected_Required),
           (Some (analytic_updated_at cur) \<noteq> expected, Changed_Since_Loaded)])"

text \<open>\<open>_next_resolution_timestamp\<close>: the clock, or just after the current row when the clock is behind.\<close>

definition next_resolution_timestamp :: "timestamp option \<Rightarrow> timestamp \<Rightarrow> timestamp" where
  "next_resolution_timestamp current now =
     (case current of None \<Rightarrow> now | Some u \<Rightarrow> if now > u then now else u + 1)"

definition require_current_resolution :: "'r option \<Rightarrow> knowledge_error + 'r" where
  "require_current_resolution current =
     (case current of None \<Rightarrow> Inl No_Current_Resolution | Some cur \<Rightarrow> Inr cur)"

text \<open>\<open>min(a, b)\<close> of two floats: \<open>b\<close> when \<open>b < a\<close>, else \<open>a\<close>.\<close>

definition py_min_float :: "pyfloat \<Rightarrow> pyfloat \<Rightarrow> pyfloat" where
  "py_min_float a b = (if pf_less b a then b else a)"

definition decision_of :: "precedence_error + resolution_decision \<Rightarrow> knowledge_error + resolution_decision" where
  "decision_of r = map_sum Precedence_Missing id r"

text \<open>\<open>INSERT ... ON CONFLICT (key) DO UPDATE\<close> that sets every other column.\<close>

definition sql_upsert :: "('r \<Rightarrow> bool) \<Rightarrow> 'r \<Rightarrow> 'r list \<Rightarrow> 'r list" where
  "sql_upsert same r rows =
     (if \<exists>x \<in> set rows. same x then sql_update same (\<lambda>_. r) rows else rows @ [r])"

lemma fetch_upsert:
  "same r \<Longrightarrow> fetch_one same (sql_upsert same r rows) = Some r"
proof (cases "\<exists>x \<in> set rows. same x")
  case True
  assume "same r"
  moreover from True have "fetch_one same (sql_update same (\<lambda>_. r) rows) = Some r"
    by (induction rows) (auto simp: sql_update_def \<open>same r\<close>)
  ultimately show ?thesis using True by (simp add: sql_upsert_def)
next
  case False
  assume "same r"
  moreover have "fetch_one same (rows @ [r]) = Some r"
    using False \<open>same r\<close> by (induction rows) auto
  ultimately show ?thesis using False by (simp add: sql_upsert_def)
qed

lemma fetch_upsert_other:
  assumes "\<not> other r" "\<And>x. same x \<Longrightarrow> \<not> other x"
  shows "fetch_one other (sql_upsert same r rows) = fetch_one other rows"
proof -
  have "fetch_one other (sql_update same (\<lambda>_. r) rows) = fetch_one other rows"
    using assms by (induction rows) (auto simp: sql_update_def)
  moreover have "fetch_one other (rows @ [r]) = fetch_one other rows"
    using assms by (induction rows) auto
  ultimately show ?thesis by (simp add: sql_upsert_def)
qed

lemma sql_upsert_mem: "x \<in> set (sql_upsert same r rows) \<Longrightarrow> x = r \<or> (x \<in> set rows \<and> \<not> same x)"
  by (auto simp: sql_upsert_def set_sql_update split: if_splits)

section \<open>Semantic definitions\<close>

definition get_semantic_resolution ::
  "knowledge_store \<Rightarrow> string \<Rightarrow> string \<Rightarrow> string \<Rightarrow> semantic_resolution option" where
  "get_semantic_resolution s t d i =
     fetch_one (\<lambda>r. sr_tenant_id r = t \<and> sr_data_source_id r = d \<and> sr_object_ref r = i)
       (ks_semantic_resolutions s)"

definition upsert_resolution :: "semantic_resolution \<Rightarrow> knowledge_store \<Rightarrow> knowledge_store" where
  "upsert_resolution r s = s\<lparr>ks_semantic_resolutions :=
     sql_upsert (\<lambda>x. sr_tenant_id x = sr_tenant_id r \<and> sr_data_source_id x = sr_data_source_id r
                  \<and> sr_object_ref x = sr_object_ref r) r (ks_semantic_resolutions s)\<rparr>"

definition append_knowledge_audit :: "knowledge_audit \<Rightarrow> knowledge_store \<Rightarrow> knowledge_store" where
  "append_knowledge_audit e s = s\<lparr>ks_audit := ks_audit s @ [e]\<rparr>"

text \<open>The rows a foreign key to the version of a definition needs, at the time of the insert.\<close>

definition version_row_exists :: "knowledge_store \<Rightarrow> string \<Rightarrow> string \<Rightarrow> bool" where
  "version_row_exists s t v = (\<exists>r \<in> set (ks_versions s). cv_tenant_id r = t \<and> cv_id r = v)"

type_synonym 'r knowledge_write = "'r \<times> resolution_action"

text \<open>
  The resolution a proposal leaves: a new one on \<open>ACCEPT\<close>, the current one turned into a
  conflict on \<open>MARK_CONFLICT\<close>, the current one on \<open>KEEP_CURRENT\<close>.
\<close>

definition semantic_outcome ::
  "semantic_resolution option \<Rightarrow> semantic_definition \<Rightarrow> string \<Rightarrow> resolution_action \<Rightarrow> timestamp
     \<Rightarrow> knowledge_error + semantic_resolution" where
  "semantic_outcome current d source action now =
     (case action of
        ACCEPT \<Rightarrow> Inr
          \<lparr>sr_tenant_id = sd_tenant_id d, sr_data_source_id = source, sr_object_ref = sd_object_ref d,
           sr_description = sd_description d, sr_status = sd_status d,
           sr_confidence = sd_confidence d, sr_selected_definition_id = Some (sd_id d),
           sr_updated_at = next_resolution_timestamp (map_option sr_updated_at current) now\<rparr>
      | MARK_CONFLICT \<Rightarrow> bind_result (require_current_resolution current) (\<lambda>cur. Inr
          (cur\<lparr>sr_status := CONFLICTING,
               sr_confidence := py_min_float (sr_confidence cur) (sd_confidence d),
               sr_selected_definition_id := None,
               sr_updated_at := next_resolution_timestamp (Some (sr_updated_at cur)) now\<rparr>))
      | KEEP_CURRENT \<Rightarrow> require_current_resolution current)"

definition semantic_decision ::
  "semantic_resolution option \<Rightarrow> semantic_definition \<Rightarrow> bool \<Rightarrow> timestamp option
     \<Rightarrow> knowledge_error + resolution_decision" where
  "semantic_decision current d explicit_supersede expected =
     (if explicit_supersede then
        bind_result (require_expected_resolution current expected) (\<lambda>_.
        bind_result (raise_if (sd_status d \<noteq> CONFIRMED) Supersede_Needs_Confirmed) (\<lambda>_.
          Inr (decide ACCEPT ''Explicit human correction supersedes the current resolution'')))
      else decision_of (resolve_semantic_update current d))"

definition semantic_transaction ::
  "knowledge_store \<Rightarrow> semantic_resolution option \<Rightarrow> string \<Rightarrow> semantic_definition \<Rightarrow> resolution_action
     \<Rightarrow> bool \<Rightarrow> timestamp \<Rightarrow> (knowledge_error + semantic_resolution knowledge_write) \<times> knowledge_store" where
  "semantic_transaction s current source d action explicit_supersede now =
     (if (\<exists>x \<in> set (ks_semantic_definitions s). sd_id x = sd_id d)
         \<or> \<not> version_row_exists s (sd_tenant_id d) (sd_catalog_version_id d)
      then (Inl Knowledge_Integrity, s)
      else
        (let s1 = s\<lparr>ks_semantic_definitions := ks_semantic_definitions s @ [d]\<rparr>
         in case semantic_outcome current d source action now of
              Inl e \<Rightarrow> (Inl e, s)
            | Inr r \<Rightarrow>
                (let s2 = (if action = KEEP_CURRENT then s1 else upsert_resolution r s1)
                 in (Inr (r, action), append_knowledge_audit
                       \<lparr>ka_tenant_id = sd_tenant_id d, ka_event_type = ''semantic.definition_proposed'',
                        ka_subject_type = ''semantic_object'', ka_subject_id = sd_object_ref d,
                        ka_definition_id = sd_id d, ka_source_status = sd_status d,
                        ka_action = action, ka_resolution_status = sr_status r,
                        ka_actor_id = sd_actor_id d,
                        ka_explicit_supersede = explicit_supersede\<rparr> s2))))"

definition propose_semantic_definition ::
  "(knowledge_store \<Rightarrow> knowledge_store) \<Rightarrow> knowledge_store \<Rightarrow> semantic_definition \<Rightarrow> bool
     \<Rightarrow> timestamp option \<Rightarrow> timestamp
     \<Rightarrow> (knowledge_error + semantic_resolution knowledge_write) \<times> knowledge_store" where
  "propose_semantic_definition mid s d explicit_supersede expected now =
     (case bind_result (require_catalog_version s (sd_tenant_id d) (sd_catalog_version_id d) None)
             (\<lambda>_. catalog_version_data_source s (sd_tenant_id d) (sd_catalog_version_id d)) of
        Inl e \<Rightarrow> (Inl e, s)
      | Inr source \<Rightarrow>
          (let current = get_semantic_resolution s (sd_tenant_id d) source (sd_object_ref d)
           in case semantic_decision current d explicit_supersede expected of
                Inl e \<Rightarrow> (Inl e, s)
              | Inr decision \<Rightarrow>
                  semantic_transaction (mid s) current source d (rd_action decision)
                    explicit_supersede now))"

text \<open>\<open>ORDER BY created_at DESC, id DESC\<close> and \<open>ORDER BY updated_at DESC, key\<close>.\<close>

definition newest_first :: "('r \<Rightarrow> timestamp) \<Rightarrow> ('r \<Rightarrow> string) \<Rightarrow> 'r list \<Rightarrow> 'r list" where
  "newest_first created ident rows = sort_key (\<lambda>r. - created r) (rev (sort_key ident rows))"

definition latest_updates :: "('r \<Rightarrow> timestamp) \<Rightarrow> ('r \<Rightarrow> 'k::linorder) \<Rightarrow> 'r list \<Rightarrow> 'r list" where
  "latest_updates updated key rows = sort_key (\<lambda>r. - updated r) (sort_key key rows)"

definition list_semantic_definitions ::
  "knowledge_store \<Rightarrow> string \<Rightarrow> string \<Rightarrow> string \<Rightarrow> semantic_definition list" where
  "list_semantic_definitions s t d i =
     newest_first sd_created_at sd_id
       (filter (\<lambda>r. sd_tenant_id r = t \<and> sd_object_ref r = i
                  \<and> (\<exists>v \<in> set (ks_versions s). cv_tenant_id v = sd_tenant_id r
                       \<and> cv_id v = sd_catalog_version_id r \<and> cv_data_source_id v = d))
          (ks_semantic_definitions s))"

definition list_semantic_resolutions ::
  "knowledge_store \<Rightarrow> string \<Rightarrow> string \<Rightarrow> epistemic_status set \<Rightarrow> semantic_resolution list" where
  "list_semantic_resolutions s t d statuses =
     latest_updates sr_updated_at sr_object_ref
       (filter (\<lambda>r. sr_tenant_id r = t \<and> sr_data_source_id r = d
                  \<and> (statuses = {} \<or> sr_status r \<in> statuses)) (ks_semantic_resolutions s))"

section \<open>Business concepts\<close>

definition get_business_concept_resolution ::
  "knowledge_store \<Rightarrow> string \<Rightarrow> string \<Rightarrow> string \<Rightarrow> business_concept_resolution option" where
  "get_business_concept_resolution s t d k =
     fetch_one (\<lambda>r. bcr_tenant_id r = t \<and> bcr_data_source_id r = d \<and> bcr_concept_key r = k)
       (ks_concept_resolutions s)"

definition upsert_business_concept_resolution ::
  "business_concept_resolution \<Rightarrow> knowledge_store \<Rightarrow> knowledge_store" where
  "upsert_business_concept_resolution r s = s\<lparr>ks_concept_resolutions :=
     sql_upsert (\<lambda>x. bcr_tenant_id x = bcr_tenant_id r \<and> bcr_data_source_id x = bcr_data_source_id r
                  \<and> bcr_concept_key x = bcr_concept_key r) r (ks_concept_resolutions s)\<rparr>"

definition concept_outcome ::
  "business_concept_resolution option \<Rightarrow> business_concept_definition \<Rightarrow> resolution_action \<Rightarrow> timestamp
     \<Rightarrow> knowledge_error + business_concept_resolution" where
  "concept_outcome current d action now =
     (case action of
        ACCEPT \<Rightarrow> Inr
          \<lparr>bcr_tenant_id = bcd_tenant_id d, bcr_data_source_id = bcd_data_source_id d,
           bcr_concept_key = bcd_concept_key d, bcr_name = bcd_name d,
           bcr_description = bcd_description d, bcr_synonyms = bcd_synonyms d,
           bcr_object_refs = bcd_object_refs d,
           bcr_content_classification = bcd_content_classification d, bcr_status = bcd_status d,
           bcr_confidence = bcd_confidence d, bcr_selected_definition_id = Some (bcd_id d),
           bcr_updated_at = next_resolution_timestamp (map_option bcr_updated_at current) now\<rparr>
      | MARK_CONFLICT \<Rightarrow> bind_result (require_current_resolution current) (\<lambda>cur. Inr
          (cur\<lparr>bcr_status := CONFLICTING,
               bcr_confidence := py_min_float (bcr_confidence cur) (bcd_confidence d),
               bcr_selected_definition_id := None,
               bcr_updated_at := next_resolution_timestamp (Some (bcr_updated_at cur)) now\<rparr>))
      | KEEP_CURRENT \<Rightarrow> require_current_resolution current)"

definition concept_decision ::
  "business_concept_resolution option \<Rightarrow> business_concept_definition \<Rightarrow> bool \<Rightarrow> timestamp option
     \<Rightarrow> knowledge_error + resolution_decision" where
  "concept_decision current d explicit_supersede expected =
     (if explicit_supersede then
        bind_result (require_expected_concept_resolution current expected) (\<lambda>_.
        bind_result (raise_if (bcd_status d \<noteq> CONFIRMED) Supersede_Needs_Confirmed) (\<lambda>_.
          Inr (decide ACCEPT ''Explicit human correction supersedes the concept resolution'')))
      else decision_of (resolve_business_concept_update current d))"

definition concept_transaction ::
  "knowledge_store \<Rightarrow> business_concept_resolution option \<Rightarrow> business_concept_definition
     \<Rightarrow> resolution_action \<Rightarrow> bool \<Rightarrow> timestamp
     \<Rightarrow> (knowledge_error + business_concept_resolution knowledge_write) \<times> knowledge_store" where
  "concept_transaction s current d action explicit_supersede now =
     (if (\<exists>x \<in> set (ks_concept_definitions s). bcd_id x = bcd_id d)
         \<or> \<not> version_row_exists s (bcd_tenant_id d) (bcd_catalog_version_id d)
      then (Inl Knowledge_Integrity, s)
      else
        (let s1 = s\<lparr>ks_concept_definitions := ks_concept_definitions s @ [d]\<rparr>
         in case concept_outcome current d action now of
              Inl e \<Rightarrow> (Inl e, s)
            | Inr r \<Rightarrow>
                (let s2 = (if action = KEEP_CURRENT then s1 else upsert_business_concept_resolution r s1)
                 in (Inr (r, action), append_knowledge_audit
                       \<lparr>ka_tenant_id = bcd_tenant_id d,
                        ka_event_type = ''business_concept.definition_proposed'',
                        ka_subject_type = ''business_concept'', ka_subject_id = bcd_concept_key d,
                        ka_definition_id = bcd_id d, ka_source_status = bcd_status d,
                        ka_action = action, ka_resolution_status = bcr_status r,
                        ka_actor_id = bcd_actor_id d,
                        ka_explicit_supersede = explicit_supersede\<rparr> s2))))"

definition propose_business_concept_definition ::
  "(knowledge_store \<Rightarrow> knowledge_store) \<Rightarrow> knowledge_store \<Rightarrow> business_concept_definition \<Rightarrow> bool
     \<Rightarrow> timestamp option \<Rightarrow> timestamp
     \<Rightarrow> (knowledge_error + business_concept_resolution knowledge_write) \<times> knowledge_store" where
  "propose_business_concept_definition mid s d explicit_supersede expected now =
     (case require_catalog_version s (bcd_tenant_id d) (bcd_catalog_version_id d)
             (Some (bcd_data_source_id d)) of
        Inl e \<Rightarrow> (Inl e, s)
      | Inr _ \<Rightarrow>
          (let current = get_business_concept_resolution s (bcd_tenant_id d)
                 (bcd_data_source_id d) (bcd_concept_key d)
           in case concept_decision current d explicit_supersede expected of
                Inl e \<Rightarrow> (Inl e, s)
              | Inr decision \<Rightarrow>
                  concept_transaction (mid s) current d (rd_action decision) explicit_supersede now))"

definition list_business_concept_definitions ::
  "knowledge_store \<Rightarrow> string \<Rightarrow> string \<Rightarrow> string \<Rightarrow> business_concept_definition list" where
  "list_business_concept_definitions s t d k =
     newest_first bcd_created_at bcd_id
       (filter (\<lambda>r. bcd_tenant_id r = t \<and> bcd_data_source_id r = d \<and> bcd_concept_key r = k)
          (ks_concept_definitions s))"

definition list_business_concept_resolutions ::
  "knowledge_store \<Rightarrow> string \<Rightarrow> string \<Rightarrow> epistemic_status set \<Rightarrow> business_concept_resolution list" where
  "list_business_concept_resolutions s t d statuses =
     latest_updates bcr_updated_at bcr_concept_key
       (filter (\<lambda>r. bcr_tenant_id r = t \<and> bcr_data_source_id r = d
                  \<and> (statuses = {} \<or> bcr_status r \<in> statuses)) (ks_concept_resolutions s))"

end
