(* ===== verification/Analytic_Store.thy ===== *)
theory Analytic_Store
  imports Semantic_Store
begin

text \<open>
  Metrics and business rules in \<open>catalog/repository.py\<close>: the two share their tables, where a
  row has the asset's kind and key and a JSON document with the rest of its text
  (\<open>_analytic_payload\<close>), which the readers decode (\<open>_analytic_definition_from_row\<close>,
  \<open>_analytic_resolution_from_row\<close>).  A JSON document is the list of its members.
\<close>

section \<open>The JSON payload\<close>

fun analytic_definition_kind_and_key :: "analytic_definition \<Rightarrow> analytic_semantic_kind \<times> string" where
  "analytic_definition_kind_and_key (Metric_Definition m) = (METRIC, md_metric_key m)"
| "analytic_definition_kind_and_key (Rule_Definition r) = (BUSINESS_RULE, brd_rule_key r)"

fun analytic_resolution_kind_and_key :: "analytic_resolution \<Rightarrow> analytic_semantic_kind \<times> string" where
  "analytic_resolution_kind_and_key (Metric_Resolution m) = (METRIC, mr_metric_key m)"
| "analytic_resolution_kind_and_key (Rule_Resolution r) = (BUSINESS_RULE, brr_rule_key r)"

definition common_payload :: "string \<Rightarrow> string \<Rightarrow> string list \<Rightarrow> string list \<Rightarrow> payload" where
  "common_payload name description object_refs concept_keys =
     [(''name'', P_Text name), (''description'', P_Text description),
      (''object_refs'', P_List object_refs), (''concept_keys'', P_List concept_keys)]"

fun analytic_definition_payload :: "analytic_definition \<Rightarrow> payload" where
  "analytic_definition_payload (Metric_Definition m) =
     common_payload (md_name m) (md_description m) (md_object_refs m) (md_concept_keys m)
     @ [(''normalized_expression_sql'', P_Text (md_normalized_expression_sql m)),
        (''grain_refs'', P_List (md_grain_refs m)), (''dimension_refs'', P_List (md_dimension_refs m)),
        (''rule_keys'', P_List (md_rule_keys m)), (''expression_sql'', P_Text (md_expression_sql m))]"
| "analytic_definition_payload (Rule_Definition r) =
     common_payload (brd_name r) (brd_description r) (brd_object_refs r) (brd_concept_keys r)
     @ [(''normalized_predicate_sql'', P_Text (brd_normalized_predicate_sql r)),
        (''predicate_sql'', P_Text (brd_predicate_sql r))]"

fun analytic_resolution_payload :: "analytic_resolution \<Rightarrow> payload" where
  "analytic_resolution_payload (Metric_Resolution m) =
     common_payload (mr_name m) (mr_description m) (mr_object_refs m) (mr_concept_keys m)
     @ [(''normalized_expression_sql'', P_Text (mr_normalized_expression_sql m)),
        (''grain_refs'', P_List (mr_grain_refs m)), (''dimension_refs'', P_List (mr_dimension_refs m)),
        (''rule_keys'', P_List (mr_rule_keys m))]"
| "analytic_resolution_payload (Rule_Resolution r) =
     common_payload (brr_name r) (brr_description r) (brr_object_refs r) (brr_concept_keys r)
     @ [(''normalized_predicate_sql'', P_Text (brr_normalized_predicate_sql r))]"

text \<open>\<open>payload[key]\<close> where a text or a list is expected; the program writes no other shape.\<close>

definition payload_text :: "payload \<Rightarrow> string \<Rightarrow> knowledge_error + string" where
  "payload_text p k =
     (case map_of p k of
        None \<Rightarrow> Inl Payload_Key_Missing
      | Some (P_Text v) \<Rightarrow> Inr v
      | Some (P_List _) \<Rightarrow> Inl Payload_Malformed)"

definition payload_list :: "payload \<Rightarrow> string \<Rightarrow> knowledge_error + string list" where
  "payload_list p k =
     (case map_of p k of
        None \<Rightarrow> Inl Payload_Key_Missing
      | Some (P_List vs) \<Rightarrow> Inr vs
      | Some (P_Text _) \<Rightarrow> Inl Payload_Malformed)"

section \<open>Rows\<close>

fun analytic_definition_row :: "analytic_definition \<Rightarrow> analytic_definition_row" where
  "analytic_definition_row (Metric_Definition m) =
     \<lparr>adr_id = md_id m, adr_tenant_id = md_tenant_id m, adr_data_source_id = md_data_source_id m,
      adr_catalog_version_id = md_catalog_version_id m, adr_asset_kind = METRIC,
      adr_asset_key = md_metric_key m, adr_payload = analytic_definition_payload (Metric_Definition m),
      adr_content_classification = md_content_classification m, adr_status = md_status m,
      adr_source = md_source m, adr_confidence = md_confidence m, adr_actor_id = md_actor_id m,
      adr_reason = md_reason m, adr_created_at = md_created_at m\<rparr>"
| "analytic_definition_row (Rule_Definition r) =
     \<lparr>adr_id = brd_id r, adr_tenant_id = brd_tenant_id r, adr_data_source_id = brd_data_source_id r,
      adr_catalog_version_id = brd_catalog_version_id r, adr_asset_kind = BUSINESS_RULE,
      adr_asset_key = brd_rule_key r, adr_payload = analytic_definition_payload (Rule_Definition r),
      adr_content_classification = brd_content_classification r, adr_status = brd_status r,
      adr_source = brd_source r, adr_confidence = brd_confidence r, adr_actor_id = brd_actor_id r,
      adr_reason = brd_reason r, adr_created_at = brd_created_at r\<rparr>"

definition analytic_definition_from_row ::
  "analytic_definition_row \<Rightarrow> knowledge_error + analytic_definition" where
  "analytic_definition_from_row row =
     (let p = adr_payload row in
      bind_result (payload_text p ''name'') (\<lambda>name.
      bind_result (payload_text p ''description'') (\<lambda>description.
      bind_result (payload_list p ''object_refs'') (\<lambda>object_refs.
      bind_result (payload_list p ''concept_keys'') (\<lambda>concept_keys.
      case adr_asset_kind row of
        METRIC \<Rightarrow>
          bind_result (payload_text p ''expression_sql'') (\<lambda>expression.
          bind_result (payload_text p ''normalized_expression_sql'') (\<lambda>normalized.
          bind_result (payload_list p ''grain_refs'') (\<lambda>grain.
          bind_result (payload_list p ''dimension_refs'') (\<lambda>dimensions.
          bind_result (payload_list p ''rule_keys'') (\<lambda>rules.
            let m = \<lparr>md_tenant_id = adr_tenant_id row, md_data_source_id = adr_data_source_id row,
                     md_catalog_version_id = adr_catalog_version_id row,
                     md_metric_key = adr_asset_key row, md_name = name, md_description = description,
                     md_expression_sql = expression, md_normalized_expression_sql = normalized,
                     md_object_refs = object_refs, md_grain_refs = grain,
                     md_dimension_refs = dimensions, md_concept_keys = concept_keys,
                     md_rule_keys = rules,
                     md_content_classification = adr_content_classification row,
                     md_status = adr_status row, md_source = adr_source row,
                     md_confidence = adr_confidence row, md_actor_id = adr_actor_id row,
                     md_reason = adr_reason row, md_id = adr_id row,
                     md_created_at = adr_created_at row\<rparr>
            in map_sum Stored_Definition_Invalid (\<lambda>_. Metric_Definition m)
                 (metric_definition_post_init m))))))
      | BUSINESS_RULE \<Rightarrow>
          bind_result (payload_text p ''predicate_sql'') (\<lambda>predicate.
          bind_result (payload_text p ''normalized_predicate_sql'') (\<lambda>normalized.
            let r = \<lparr>brd_tenant_id = adr_tenant_id row, brd_data_source_id = adr_data_source_id row,
                     brd_catalog_version_id = adr_catalog_version_id row,
                     brd_rule_key = adr_asset_key row, brd_name = name, brd_description = description,
                     brd_predicate_sql = predicate, brd_normalized_predicate_sql = normalized,
                     brd_object_refs = object_refs, brd_concept_keys = concept_keys,
                     brd_content_classification = adr_content_classification row,
                     brd_status = adr_status row, brd_source = adr_source row,
                     brd_confidence = adr_confidence row, brd_actor_id = adr_actor_id row,
                     brd_reason = adr_reason row, brd_id = adr_id row,
                     brd_created_at = adr_created_at row\<rparr>
            in map_sum Stored_Definition_Invalid (\<lambda>_. Rule_Definition r)
                 (business_rule_definition_post_init r))))))))"

fun analytic_resolution_row :: "analytic_resolution \<Rightarrow> analytic_resolution_row" where
  "analytic_resolution_row (Metric_Resolution m) =
     \<lparr>arr_tenant_id = mr_tenant_id m, arr_data_source_id = mr_data_source_id m,
      arr_asset_kind = METRIC, arr_asset_key = mr_metric_key m,
      arr_payload = analytic_resolution_payload (Metric_Resolution m),
      arr_content_classification = mr_content_classification m, arr_status = mr_status m,
      arr_confidence = mr_confidence m, arr_selected_definition_id = mr_selected_definition_id m,
      arr_updated_at = mr_updated_at m\<rparr>"
| "analytic_resolution_row (Rule_Resolution r) =
     \<lparr>arr_tenant_id = brr_tenant_id r, arr_data_source_id = brr_data_source_id r,
      arr_asset_kind = BUSINESS_RULE, arr_asset_key = brr_rule_key r,
      arr_payload = analytic_resolution_payload (Rule_Resolution r),
      arr_content_classification = brr_content_classification r, arr_status = brr_status r,
      arr_confidence = brr_confidence r, arr_selected_definition_id = brr_selected_definition_id r,
      arr_updated_at = brr_updated_at r\<rparr>"

definition analytic_resolution_from_row ::
  "analytic_resolution_row \<Rightarrow> knowledge_error + analytic_resolution" where
  "analytic_resolution_from_row row =
     (let p = arr_payload row in
      bind_result (payload_text p ''name'') (\<lambda>name.
      bind_result (payload_text p ''description'') (\<lambda>description.
      bind_result (payload_list p ''object_refs'') (\<lambda>object_refs.
      bind_result (payload_list p ''concept_keys'') (\<lambda>concept_keys.
      case arr_asset_kind row of
        METRIC \<Rightarrow>
          bind_result (payload_text p ''normalized_expression_sql'') (\<lambda>normalized.
          bind_result (payload_list p ''grain_refs'') (\<lambda>grain.
          bind_result (payload_list p ''dimension_refs'') (\<lambda>dimensions.
          bind_result (payload_list p ''rule_keys'') (\<lambda>rules.
            Inr (Metric_Resolution
              \<lparr>mr_tenant_id = arr_tenant_id row, mr_data_source_id = arr_data_source_id row,
               mr_metric_key = arr_asset_key row, mr_name = name, mr_description = description,
               mr_normalized_expression_sql = normalized, mr_object_refs = object_refs,
               mr_grain_refs = grain, mr_dimension_refs = dimensions, mr_concept_keys = concept_keys,
               mr_rule_keys = rules, mr_content_classification = arr_content_classification row,
               mr_status = arr_status row, mr_confidence = arr_confidence row,
               mr_selected_definition_id = arr_selected_definition_id row,
               mr_updated_at = arr_updated_at row\<rparr>)))))
      | BUSINESS_RULE \<Rightarrow>
          bind_result (payload_text p ''normalized_predicate_sql'') (\<lambda>normalized.
            Inr (Rule_Resolution
              \<lparr>brr_tenant_id = arr_tenant_id row, brr_data_source_id = arr_data_source_id row,
               brr_rule_key = arr_asset_key row, brr_name = name, brr_description = description,
               brr_normalized_predicate_sql = normalized, brr_object_refs = object_refs,
               brr_concept_keys = concept_keys,
               brr_content_classification = arr_content_classification row,
               brr_status = arr_status row, brr_confidence = arr_confidence row,
               brr_selected_definition_id = arr_selected_definition_id row,
               brr_updated_at = arr_updated_at row\<rparr>)))))))"


section \<open>Proposals\<close>

definition get_analytic_semantic_resolution ::
  "knowledge_store \<Rightarrow> string \<Rightarrow> string \<Rightarrow> analytic_semantic_kind \<Rightarrow> string
     \<Rightarrow> knowledge_error + analytic_resolution option" where
  "get_analytic_semantic_resolution s t d kind k =
     (case fetch_one (\<lambda>r. arr_tenant_id r = t \<and> arr_data_source_id r = d
               \<and> arr_asset_kind r = kind \<and> arr_asset_key r = k) (ks_analytic_resolutions s) of
        None \<Rightarrow> Inr None
      | Some row \<Rightarrow> bind_result (analytic_resolution_from_row row) (\<lambda>r. Inr (Some r)))"

definition upsert_analytic_semantic_resolution ::
  "analytic_resolution \<Rightarrow> knowledge_store \<Rightarrow> knowledge_store" where
  "upsert_analytic_semantic_resolution r s =
     (let row = analytic_resolution_row r
      in s\<lparr>ks_analytic_resolutions :=
           sql_upsert (\<lambda>x. arr_tenant_id x = arr_tenant_id row
                        \<and> arr_data_source_id x = arr_data_source_id row
                        \<and> arr_asset_kind x = arr_asset_kind row
                        \<and> arr_asset_key x = arr_asset_key row) row (ks_analytic_resolutions s)\<rparr>)"

fun analytic_resolution_from_definition :: "analytic_definition \<Rightarrow> timestamp \<Rightarrow> analytic_resolution" where
  "analytic_resolution_from_definition (Metric_Definition d) updated_at = Metric_Resolution
     \<lparr>mr_tenant_id = md_tenant_id d, mr_data_source_id = md_data_source_id d,
      mr_metric_key = md_metric_key d, mr_name = md_name d, mr_description = md_description d,
      mr_normalized_expression_sql = md_normalized_expression_sql d,
      mr_object_refs = md_object_refs d, mr_grain_refs = md_grain_refs d,
      mr_dimension_refs = md_dimension_refs d, mr_concept_keys = md_concept_keys d,
      mr_rule_keys = md_rule_keys d, mr_content_classification = md_content_classification d,
      mr_status = md_status d, mr_confidence = md_confidence d,
      mr_selected_definition_id = Some (md_id d), mr_updated_at = updated_at\<rparr>"
| "analytic_resolution_from_definition (Rule_Definition d) updated_at = Rule_Resolution
     \<lparr>brr_tenant_id = brd_tenant_id d, brr_data_source_id = brd_data_source_id d,
      brr_rule_key = brd_rule_key d, brr_name = brd_name d, brr_description = brd_description d,
      brr_normalized_predicate_sql = brd_normalized_predicate_sql d,
      brr_object_refs = brd_object_refs d, brr_concept_keys = brd_concept_keys d,
      brr_content_classification = brd_content_classification d, brr_status = brd_status d,
      brr_confidence = brd_confidence d, brr_selected_definition_id = Some (brd_id d),
      brr_updated_at = updated_at\<rparr>"

text \<open>The attributes both kinds of evidence and of resolution have.\<close>

definition analytic_row :: "analytic_definition \<Rightarrow> analytic_definition_row" where
  "analytic_row d = analytic_definition_row d"

abbreviation "an_id d \<equiv> adr_id (analytic_row d)"
abbreviation "an_tenant_id d \<equiv> adr_tenant_id (analytic_row d)"
abbreviation "an_data_source_id d \<equiv> adr_data_source_id (analytic_row d)"
abbreviation "an_catalog_version_id d \<equiv> adr_catalog_version_id (analytic_row d)"
abbreviation "an_status d \<equiv> adr_status (analytic_row d)"

fun analytic_status :: "analytic_resolution \<Rightarrow> epistemic_status" where
  "analytic_status (Metric_Resolution m) = mr_status m"
| "analytic_status (Rule_Resolution r) = brr_status r"

text \<open>\<open>replace(current, status=CONFLICTING, ...)\<close>.\<close>

fun analytic_conflict :: "analytic_resolution \<Rightarrow> pyfloat \<Rightarrow> timestamp \<Rightarrow> analytic_resolution" where
  "analytic_conflict (Metric_Resolution m) confidence now = Metric_Resolution
     (m\<lparr>mr_status := CONFLICTING, mr_confidence := py_min_float (mr_confidence m) confidence,
        mr_selected_definition_id := None,
        mr_updated_at := next_resolution_timestamp (Some (mr_updated_at m)) now\<rparr>)"
| "analytic_conflict (Rule_Resolution r) confidence now = Rule_Resolution
     (r\<lparr>brr_status := CONFLICTING, brr_confidence := py_min_float (brr_confidence r) confidence,
        brr_selected_definition_id := None,
        brr_updated_at := next_resolution_timestamp (Some (brr_updated_at r)) now\<rparr>)"

definition analytic_outcome ::
  "analytic_resolution option \<Rightarrow> analytic_definition \<Rightarrow> resolution_action \<Rightarrow> timestamp
     \<Rightarrow> knowledge_error + analytic_resolution" where
  "analytic_outcome current d action now =
     (case action of
        ACCEPT \<Rightarrow> Inr (analytic_resolution_from_definition d
                    (next_resolution_timestamp (map_option analytic_updated_at current) now))
      | MARK_CONFLICT \<Rightarrow> bind_result (require_current_resolution current) (\<lambda>cur.
          Inr (analytic_conflict cur (adr_confidence (analytic_row d)) now))
      | KEEP_CURRENT \<Rightarrow> require_current_resolution current)"

text \<open>A current resolution of the other kind counts as none, as \<open>isinstance\<close> does in the source.\<close>

fun as_metric :: "analytic_resolution \<Rightarrow> metric_resolution option" where
  "as_metric (Metric_Resolution m) = Some m"
| "as_metric (Rule_Resolution r) = None"

fun as_rule :: "analytic_resolution \<Rightarrow> business_rule_resolution option" where
  "as_rule (Rule_Resolution r) = Some r"
| "as_rule (Metric_Resolution m) = None"

fun resolve_analytic_definition ::
  "analytic_resolution option \<Rightarrow> analytic_definition \<Rightarrow> precedence_error + resolution_decision" where
  "resolve_analytic_definition current (Metric_Definition m) =
     resolve_metric_update (Option.bind current as_metric) m"
| "resolve_analytic_definition current (Rule_Definition r) =
     resolve_business_rule_update (Option.bind current as_rule) r"

definition analytic_decision ::
  "analytic_resolution option \<Rightarrow> analytic_definition \<Rightarrow> bool \<Rightarrow> timestamp option
     \<Rightarrow> knowledge_error + resolution_decision" where
  "analytic_decision current d explicit_supersede expected =
     (if explicit_supersede then
        bind_result (require_expected_analytic_resolution current expected) (\<lambda>_.
        bind_result (raise_if (an_status d \<noteq> CONFIRMED) Supersede_Needs_Confirmed) (\<lambda>_.
          Inr (decide ACCEPT ''Explicit human correction supersedes the analytic semantic resolution'')))
      else decision_of (resolve_analytic_definition current d))"

definition analytic_transaction ::
  "knowledge_store \<Rightarrow> analytic_resolution option \<Rightarrow> analytic_definition
     \<Rightarrow> resolution_action \<Rightarrow> bool \<Rightarrow> timestamp
     \<Rightarrow> (knowledge_error + analytic_resolution knowledge_write) \<times> knowledge_store" where
  "analytic_transaction s current d action explicit_supersede now =
     (if (\<exists>x \<in> set (ks_analytic_definitions s). adr_id x = an_id d)
         \<or> \<not> version_row_exists s (an_tenant_id d) (an_catalog_version_id d)
      then (Inl Knowledge_Integrity, s)
      else
        (let s1 = s\<lparr>ks_analytic_definitions := ks_analytic_definitions s @ [analytic_definition_row d]\<rparr>;
             (kind, asset_key) = analytic_definition_kind_and_key d
         in case analytic_outcome current d action now of
              Inl e \<Rightarrow> (Inl e, s)
            | Inr r \<Rightarrow>
                (let s2 = (if action = KEEP_CURRENT then s1 else upsert_analytic_semantic_resolution r s1)
                 in (Inr (r, action), append_knowledge_audit
                       \<lparr>ka_tenant_id = an_tenant_id d,
                        ka_event_type = ''analytic_semantic.definition_proposed'',
                        ka_subject_type = (case kind of METRIC \<Rightarrow> ''metric''
                                                      | BUSINESS_RULE \<Rightarrow> ''business_rule''),
                        ka_subject_id = asset_key,
                        ka_definition_id = an_id d, ka_source_status = an_status d,
                        ka_action = action, ka_resolution_status = analytic_status r,
                        ka_actor_id = adr_actor_id (analytic_row d),
                        ka_explicit_supersede = explicit_supersede\<rparr> s2))))"

definition propose_analytic_semantic_definition ::
  "(knowledge_store \<Rightarrow> knowledge_store) \<Rightarrow> knowledge_store \<Rightarrow> analytic_definition \<Rightarrow> bool
     \<Rightarrow> timestamp option \<Rightarrow> timestamp
     \<Rightarrow> (knowledge_error + analytic_resolution knowledge_write) \<times> knowledge_store" where
  "propose_analytic_semantic_definition mid s d explicit_supersede expected now =
     (case require_catalog_version s (an_tenant_id d) (an_catalog_version_id d)
             (Some (an_data_source_id d)) of
        Inl e \<Rightarrow> (Inl e, s)
      | Inr _ \<Rightarrow>
          (let (kind, asset_key) = analytic_definition_kind_and_key d
           in case get_analytic_semantic_resolution s (an_tenant_id d) (an_data_source_id d)
                     kind asset_key of
                Inl e \<Rightarrow> (Inl e, s)
              | Inr current \<Rightarrow>
                  (case analytic_decision current d explicit_supersede expected of
                     Inl e \<Rightarrow> (Inl e, s)
                   | Inr decision \<Rightarrow>
                       analytic_transaction (mid s) current d (rd_action decision)
                         explicit_supersede now)))"

definition list_analytic_semantic_definitions ::
  "knowledge_store \<Rightarrow> string \<Rightarrow> string \<Rightarrow> analytic_semantic_kind \<Rightarrow> string
     \<Rightarrow> knowledge_error + analytic_definition list" where
  "list_analytic_semantic_definitions s t d kind k =
     collect_results (map analytic_definition_from_row (newest_first adr_created_at adr_id
       (filter (\<lambda>r. adr_tenant_id r = t \<and> adr_data_source_id r = d \<and> adr_asset_kind r = kind
                  \<and> adr_asset_key r = k) (ks_analytic_definitions s))))"

text \<open>\<open>ORDER BY updated_at DESC, asset_kind, asset_key\<close>; the kind's value sorts the rules first.\<close>

definition kind_order :: "analytic_semantic_kind \<Rightarrow> nat" where
  "kind_order k = (case k of BUSINESS_RULE \<Rightarrow> 0 | METRIC \<Rightarrow> 1)"

definition list_analytic_semantic_resolutions ::
  "knowledge_store \<Rightarrow> string \<Rightarrow> string \<Rightarrow> analytic_semantic_kind option \<Rightarrow> epistemic_status set
     \<Rightarrow> knowledge_error + analytic_resolution list" where
  "list_analytic_semantic_resolutions s t d kind statuses =
     collect_results (map analytic_resolution_from_row
       (latest_updates arr_updated_at (\<lambda>r. kind_order (arr_asset_kind r))
         (sort_key arr_asset_key
           (filter (\<lambda>r. arr_tenant_id r = t \<and> arr_data_source_id r = d
                      \<and> (kind = None \<or> kind = Some (arr_asset_kind r))
                      \<and> (statuses = {} \<or> arr_status r \<in> statuses)) (ks_analytic_resolutions s)))))"

section \<open>Rows decode to what was encoded\<close>

lemma payload_lookups:
  "payload_text (common_payload n d os cs @ p) ''name'' = Inr n"
  "payload_text (common_payload n d os cs @ p) ''description'' = Inr d"
  "payload_list (common_payload n d os cs @ p) ''object_refs'' = Inr os"
  "payload_list (common_payload n d os cs @ p) ''concept_keys'' = Inr cs"
  by (simp_all add: payload_text_def payload_list_def common_payload_def)

lemma analytic_resolution_row_round_trip:
  "analytic_resolution_from_row (analytic_resolution_row r) = Inr r"
  by (cases r)
     (simp_all add: analytic_resolution_from_row_def payload_lookups,
      simp_all add: payload_text_def payload_list_def common_payload_def)

end
