(* ===== verification/Knowledge_Policy.thy ===== *)
theory Knowledge_Policy
  imports Analytic_Store
begin

text \<open>
  The abstract specification of governed knowledge.  What the catalog knows of a subject is
  \<open>Open\<close>, \<open>Held\<close> with an authority and a payload, or \<open>Contested\<close>; \<open>admit\<close> is what a piece
  of evidence does to it.  The locale \<open>epistemic_policy\<close> is the contract of the decision
  procedures of \<open>epistemic.py\<close>, the locale \<open>governed_store\<close> that of a table of resolutions;
  both are interpreted on the model's own definitions.
\<close>

section \<open>Knowledge and evidence\<close>

datatype 'p knowledge = Open | Held epistemic_status 'p | Contested

fun authority :: "epistemic_status \<Rightarrow> nat" where
  "authority CONFIRMED = 3"
| "authority IMPORTED = 2"
| "authority INFERRED = 1"
| "authority UNKNOWN = 0"
| "authority CONFLICTING = 0"

fun policy_action :: "'p knowledge \<Rightarrow> epistemic_status \<Rightarrow> 'p \<Rightarrow> resolution_action" where
  "policy_action Open st p = ACCEPT"
| "policy_action Contested st p = (if st = CONFIRMED then ACCEPT else KEEP_CURRENT)"
| "policy_action (Held r q) st p =
     (if q = p then (if authority r \<le> authority st then ACCEPT else KEEP_CURRENT)
      else if authority st < authority r then KEEP_CURRENT
      else if authority st = authority r then MARK_CONFLICT
      else ACCEPT)"

definition hold :: "epistemic_status \<Rightarrow> 'p \<Rightarrow> 'p knowledge" where
  "hold st p = (if st = UNKNOWN then Open else if st = CONFLICTING then Contested else Held st p)"

definition admit :: "'p knowledge \<Rightarrow> epistemic_status \<times> 'p \<Rightarrow> 'p knowledge" where
  "admit k e = (case policy_action k (fst e) (snd e) of
      ACCEPT \<Rightarrow> hold (fst e) (snd e)
    | KEEP_CURRENT \<Rightarrow> k
    | MARK_CONFLICT \<Rightarrow> Contested)"

text \<open>The abstraction of a resolution row.\<close>

definition view :: "('r \<Rightarrow> epistemic_status) \<Rightarrow> ('r \<Rightarrow> 'p) \<Rightarrow> 'r option \<Rightarrow> 'p knowledge" where
  "view status payload r = (case r of None \<Rightarrow> Open | Some x \<Rightarrow> hold (status x) (payload x))"

lemma precedence_authority: "st \<noteq> CONFLICTING \<Longrightarrow> precedence st = Inr (authority st)"
  by (cases st) simp_all

lemma authority_bounds [simp]: "authority st \<le> 3" "\<not> 3 < authority st" "authority st = 3 \<longleftrightarrow> st = CONFIRMED"
  by (cases st; simp)+

lemma authority_eq_iff:
  "st \<noteq> CONFLICTING \<Longrightarrow> st' \<noteq> CONFLICTING \<Longrightarrow> authority st = authority st' \<longleftrightarrow> st = st'"
  by (cases st; cases st') simp_all

lemma view_simps [simp]:
  "view f g None = Open"
  "view f g (Some x) = hold (f x) (g x)"
  by (simp_all add: view_def)

lemma hold_simps [simp]:
  "hold UNKNOWN p = Open" "hold CONFLICTING p = Contested" "hold CONFIRMED p = Held CONFIRMED p"
  "hold IMPORTED p = Held IMPORTED p" "hold INFERRED p = Held INFERRED p"
  by (simp_all add: hold_def)

section \<open>What a history of evidence amounts to\<close>

abbreviation admit_all :: "'p knowledge \<Rightarrow> (epistemic_status \<times> 'p) list \<Rightarrow> 'p knowledge" where
  "admit_all \<equiv> foldl admit"

fun settled :: "'p knowledge \<Rightarrow> bool" where
  "settled Contested = True"
| "settled (Held st p) = (st = CONFIRMED)"
| "settled Open = False"

lemma admit_unconfirmed_settled: "settled k \<Longrightarrow> st \<noteq> CONFIRMED \<Longrightarrow> admit k (st, p) = k"
  by (cases k; cases st) (auto simp: admit_def)

lemma admit_confirmed:
  "admit k (CONFIRMED, p) = (case k of
     Held r q \<Rightarrow> if r = CONFIRMED \<and> q \<noteq> p then Contested else Held CONFIRMED p
   | _ \<Rightarrow> Held CONFIRMED p)"
  by (cases k) (auto simp: admit_def)

lemma settled_admit_confirmed [simp]: "settled (admit k (CONFIRMED, p))"
  by (cases k) (auto simp: admit_confirmed)

lemma settled_admit: "settled k \<Longrightarrow> settled (admit k e)"
proof -
  assume k: "settled k"
  obtain st p where e: "e = (st, p)" by (cases e)
  show ?thesis
    using k admit_unconfirmed_settled[OF k, of st p] by (cases "st = CONFIRMED") (simp_all add: e)
qed

lemma admit_all_settled:
  "settled k \<Longrightarrow> admit_all k es = admit_all k (filter (\<lambda>e. fst e = CONFIRMED) es)"
proof (induction es arbitrary: k)
  case (Cons e es)
  then show ?case
    using settled_admit[OF Cons.prems, of e] admit_unconfirmed_settled[OF Cons.prems, of "fst e" "snd e"]
    by auto
qed simp

text \<open>Once a human has confirmed something, only confirmed evidence counts, in its order.\<close>

lemma admit_all_confirmed:
  assumes "\<nexists>p. k = Held CONFIRMED p" "\<exists>e \<in> set es. fst e = CONFIRMED"
  shows "admit_all k es = admit_all Open (filter (\<lambda>e. fst e = CONFIRMED) es)"
  using assms
proof (induction es arbitrary: k)
  case (Cons e es)
  obtain st p where e: "e = (st, p)" by (cases e)
  show ?case
  proof (cases "st = CONFIRMED")
    case True
    then have "admit k e = Held CONFIRMED p" "admit Open e = Held CONFIRMED p"
      using Cons.prems(1) by (auto simp: e admit_confirmed split: knowledge.split)
    then show ?thesis using True admit_all_settled[of "Held CONFIRMED p" es] by (simp add: e)
  next
    case False
    have "\<nexists>q. admit k e = Held CONFIRMED q"
      using Cons.prems(1) False by (cases k; cases st) (auto simp: e admit_def)
    then show ?thesis using Cons.IH[of "admit k e"] Cons.prems(2) False by (simp add: e)
  qed
qed simp

text \<open>Authority never decreases and a conflict ends only by a confirmation.\<close>

lemma admit_contested: "admit Contested (st, p) = (if st = CONFIRMED then Held CONFIRMED p else Contested)"
  by (auto simp: admit_def)

lemma admit_held:
  assumes "st \<noteq> CONFLICTING" "r \<noteq> UNKNOWN" "admit (Held r q) (st, p) = Held r' q'"
  shows "authority r \<le> authority r' \<and> (authority r = authority r' \<longrightarrow> q' = q)"
  using assms by (cases st; cases r) (auto simp: admit_def split: if_splits)

section \<open>The contract of a decision procedure\<close>

locale epistemic_policy =
  fixes resolve :: "'r option \<Rightarrow> 'd \<Rightarrow> precedence_error + resolution_decision"
    and r_status :: "'r \<Rightarrow> epistemic_status"
    and r_payload :: "'r \<Rightarrow> 'p"
    and d_status :: "'d \<Rightarrow> epistemic_status"
    and d_payload :: "'d \<Rightarrow> 'p"
  assumes resolve_law: "d_status d \<noteq> CONFLICTING \<Longrightarrow>
      \<exists>why. resolve cur d =
        Inr (decide (policy_action (view r_status r_payload cur) (d_status d) (d_payload d)) why)"
begin

lemma resolved_action:
  assumes "d_status d \<noteq> CONFLICTING" "resolve cur d = Inr decision"
  shows "rd_action decision = policy_action (view r_status r_payload cur) (d_status d) (d_payload d)"
  using resolve_law[OF assms(1), of cur] assms(2) by (auto simp: decide_def)

lemma resolve_never_raises: "d_status d \<noteq> CONFLICTING \<Longrightarrow> is_ok (resolve cur d)"
  using resolve_law[of d cur] by auto

lemma kept_or_contested_has_current:
  assumes "d_status d \<noteq> CONFLICTING" "resolve cur d = Inr decision" "rd_action decision \<noteq> ACCEPT"
  shows "\<exists>x. cur = Some x"
  using resolved_action[OF assms(1,2)] assms(3) by (cases cur) auto

end

lemma policy_on_row:
  assumes "rs \<noteq> UNKNOWN" "rs \<noteq> CONFLICTING" "ds \<noteq> CONFLICTING"
  shows "policy_action (hold rs q) ds p =
     (if q = p then (if authority rs \<le> authority ds then ACCEPT else KEEP_CURRENT)
      else if authority ds < authority rs then KEEP_CURRENT
      else if authority ds = authority rs then MARK_CONFLICT else ACCEPT)"
  using assms by (simp add: hold_def)

interpretation semantic_policy: epistemic_policy resolve_semantic_update
  sr_status "\<lambda>r. casefold (strip (sr_description r))"
  sd_status "\<lambda>d. casefold (strip (sd_description d))"
proof
  fix d :: semantic_definition and cur
  assume d: "sd_status d \<noteq> CONFLICTING"
  show "\<exists>why. resolve_semantic_update cur d = Inr (decide (policy_action
      (view sr_status (\<lambda>r. casefold (strip (sr_description r))) cur) (sd_status d)
      (casefold (strip (sd_description d)))) why)"
    using d by (cases cur)
      (auto simp: resolve_semantic_update_def policy_on_row precedence_authority)
qed

interpretation concept_policy: epistemic_policy resolve_business_concept_update
  bcr_status concept_resolution_payload bcd_status concept_payload
proof
  fix d :: business_concept_definition and cur
  assume d: "bcd_status d \<noteq> CONFLICTING"
  show "\<exists>why. resolve_business_concept_update cur d = Inr (decide (policy_action
      (view bcr_status concept_resolution_payload cur) (bcd_status d) (concept_payload d)) why)"
    using d by (cases cur)
      (auto simp: resolve_business_concept_update_def policy_on_row precedence_authority)
qed

lemma resolve_analytic_update_policy:
  assumes "ds \<noteq> CONFLICTING"
  shows "\<exists>why. resolve_analytic_update (map_option f cur) ds (map_option g cur) p label =
    Inr (decide (policy_action (view f g cur) ds p) why)"
  using assms by (cases cur) (auto simp: resolve_analytic_update_def policy_on_row precedence_authority)

interpretation metric_policy: epistemic_policy resolve_metric_update
  mr_status metric_resolution_payload md_status metric_payload
  by unfold_locales (simp add: resolve_metric_update_def resolve_analytic_update_policy)

interpretation rule_policy: epistemic_policy resolve_business_rule_update
  brr_status rule_resolution_payload brd_status rule_payload
  by unfold_locales (simp add: resolve_business_rule_update_def resolve_analytic_update_policy)

end
