(* ===== verification/Governed_Store.thy ===== *)
theory Governed_Store
  imports Knowledge_Policy
begin

text \<open>
  The resolutions table of each kind of knowledge refines the specification: a proposal
  changes the knowledge of its own subject as \<open>admit\<close> says, an explicit correction replaces
  it when the client has seen the current row, and nothing else changes.  The locale
  \<open>governed_store\<close> states the contract, with what follows from it for sequences of
  proposals and for competing corrections, and is interpreted on the three tables.
\<close>

section \<open>The contract of a resolutions table\<close>

locale governed_store =
  fixes get :: "'s \<Rightarrow> 'k \<Rightarrow> 'r option"
    and propose :: "'s \<Rightarrow> 'd \<Rightarrow> bool \<Rightarrow> timestamp option \<Rightarrow> timestamp \<Rightarrow> ('e + 'w) \<times> 's"
    and subject :: "'s \<Rightarrow> 'd \<Rightarrow> 'k"
    and r_status :: "'r \<Rightarrow> epistemic_status" and r_payload :: "'r \<Rightarrow> 'p"
    and r_updated :: "'r \<Rightarrow> timestamp"
    and d_status :: "'d \<Rightarrow> epistemic_status" and d_payload :: "'d \<Rightarrow> 'p"
  assumes admitted: "propose s d False x n = (Inr w, s') \<Longrightarrow> d_status d \<noteq> CONFLICTING \<Longrightarrow>
      view r_status r_payload (get s' (subject s d))
        = admit (view r_status r_payload (get s (subject s d))) (d_status d, d_payload d)"
    and superseded: "propose s d True x n = (Inr w, s') \<Longrightarrow>
      d_status d = CONFIRMED \<and> map_option r_updated (get s (subject s d)) = x
      \<and> (\<exists>r. get s' (subject s d) = Some r \<and> r_status r = CONFIRMED \<and> r_payload r = d_payload d
           \<and> (\<forall>u. x = Some u \<longrightarrow> u < r_updated r))"
    and framed: "propose s d e x n = (res, s') \<Longrightarrow> k \<noteq> subject s d \<Longrightarrow> get s' k = get s k"
    and refused: "propose s d e x n = (Inl err, s') \<Longrightarrow> s' = s"
    and subject_stable: "propose s d e x n = (res, s') \<Longrightarrow> subject s' d' = subject s d'"
begin

abbreviation "known s k \<equiv> view r_status r_payload (get s k)"

lemma supersede_holds:
  "propose s d True x n = (Inr w, s') \<Longrightarrow> known s' (subject s d) = Held CONFIRMED (d_payload d)"
  by (auto dest: superseded)

lemma one_correction_per_version:
  assumes "propose s d True x n = (Inr w, s1)" "subject s d2 = subject s d"
  shows "\<exists>err. propose s1 d2 True x n2 = (Inl err, s1)"
proof -
  obtain res s2 where p2: "propose s1 d2 True x n2 = (res, s2)" by fastforce
  have sub: "subject s1 d2 = subject s d" using subject_stable[OF assms(1)] assms(2) by simp
  obtain r where r: "get s1 (subject s d) = Some r" "\<forall>u. x = Some u \<longrightarrow> u < r_updated r"
    using superseded[OF assms(1)] by blast
  show ?thesis
  proof (cases res)
    case (Inl err)
    then show ?thesis using refused p2 by auto
  next
    case (Inr w2)
    then have "x = Some (r_updated r)" using superseded p2 sub r(1) by fastforce
    then show ?thesis using r(2) by auto
  qed
qed

end

section \<open>Semantic definitions\<close>

lemma require_catalog_version_Inr:
  "require_catalog_version s t v d = Inr u \<Longrightarrow> version_row_exists s t v"
  by (auto simp: require_catalog_version_def raise_if_def version_row_exists_def
      fetch_one_None_iff split: if_splits)

lemma next_timestamp_later: "cur = Some u \<Longrightarrow> u < next_resolution_timestamp cur now"
  by (simp add: next_resolution_timestamp_def)

lemma decision_of_Inr [simp]: "decision_of r = Inr d \<longleftrightarrow> r = Inr d"
  by (cases r) (simp_all add: decision_of_def)

type_synonym subject_key = "string \<times> string \<times> string"

definition semantic_get :: "knowledge_store \<Rightarrow> subject_key \<Rightarrow> semantic_resolution option" where
  "semantic_get s k = (case k of (t, d, i) \<Rightarrow> get_semantic_resolution s t d i)"

definition semantic_subject :: "knowledge_store \<Rightarrow> semantic_definition \<Rightarrow> subject_key" where
  "semantic_subject s d =
     (sd_tenant_id d,
      case catalog_version_data_source s (sd_tenant_id d) (sd_catalog_version_id d) of
        Inl _ \<Rightarrow> [] | Inr source \<Rightarrow> source,
      sd_object_ref d)"

definition description_payload :: "string \<Rightarrow> string" where
  "description_payload v = casefold (strip v)"

lemma propose_semantic_success:
  assumes "propose_semantic_definition mid s d e x n = (Inr (r, a), s')"
  obtains source decision where
    "catalog_version_data_source s (sd_tenant_id d) (sd_catalog_version_id d) = Inr source"
    "semantic_decision (get_semantic_resolution s (sd_tenant_id d) source (sd_object_ref d)) d e x
       = Inr decision"
    "a = rd_action decision"
    "semantic_outcome (get_semantic_resolution s (sd_tenant_id d) source (sd_object_ref d)) d source a n
       = Inr r"
    "ks_semantic_resolutions s' = (if a = KEEP_CURRENT then ks_semantic_resolutions (mid s)
       else ks_semantic_resolutions (upsert_resolution r (mid s)))"
    "ks_semantic_definitions s' = ks_semantic_definitions (mid s) @ [d]"
    "ks_versions s' = ks_versions (mid s)"
    "ks_concept_definitions s' = ks_concept_definitions (mid s)"
    "ks_concept_resolutions s' = ks_concept_resolutions (mid s)"
    "ks_analytic_definitions s' = ks_analytic_definitions (mid s)"
    "ks_analytic_resolutions s' = ks_analytic_resolutions (mid s)"
  using assms
  unfolding propose_semantic_definition_def semantic_transaction_def Let_def
  by (auto simp: append_knowledge_audit_def upsert_resolution_def bind_result_Inr_iff
      split: sum.splits if_splits)

lemma propose_semantic_failure:
  "propose_semantic_definition mid s d e x n = (Inl err, s') \<Longrightarrow> s' = s \<or> s' = mid s"
  unfolding propose_semantic_definition_def semantic_transaction_def Let_def
  by (auto split: sum.splits if_splits)

lemma propose_semantic_error:
  "propose_semantic_definition (\<lambda>s. s) s d e x n = (Inl err, s') \<Longrightarrow> s' = s"
  by (auto dest: propose_semantic_failure)

lemma semantic_outcome_key:
  assumes "semantic_outcome (get_semantic_resolution s t source i) d source a n = Inr r"
    and "t = sd_tenant_id d" "i = sd_object_ref d"
  shows "sr_tenant_id r = t \<and> sr_data_source_id r = source \<and> sr_object_ref r = i"
  using assms
  by (cases a) (auto simp: semantic_outcome_def bind_result_Inr_iff require_current_resolution_def
      get_semantic_resolution_def split: option.splits dest!: fetch_one_Some_iff_mem)

lemma get_after_semantic_upsert:
  "get_semantic_resolution (upsert_resolution r s) (sr_tenant_id r) (sr_data_source_id r) (sr_object_ref r)
     = Some r"
  unfolding get_semantic_resolution_def upsert_resolution_def by (simp add: fetch_upsert)

lemma get_after_semantic_upsert_other:
  "(t, d, i) \<noteq> (sr_tenant_id r, sr_data_source_id r, sr_object_ref r) \<Longrightarrow>
    get_semantic_resolution (upsert_resolution r s) t d i = get_semantic_resolution s t d i"
  unfolding get_semantic_resolution_def upsert_resolution_def
  by (simp, rule fetch_upsert_other) auto

lemma semantic_get_after:
  assumes "propose_semantic_definition (\<lambda>s. s) s d e x n = (Inr (r, a), s')"
  shows "semantic_get s' (semantic_subject s d) = Some r"
  using assms
proof (cases rule: propose_semantic_success)
  case (1 source decision)
  note key = semantic_outcome_key[OF 1(4) refl refl]
  have get: "semantic_get s' (semantic_subject s d)
      = fetch_one (\<lambda>r. sr_tenant_id r = sd_tenant_id d \<and> sr_data_source_id r = source
            \<and> sr_object_ref r = sd_object_ref d) (ks_semantic_resolutions s')"
    by (simp add: semantic_get_def semantic_subject_def 1(1) get_semantic_resolution_def)
  show ?thesis
  proof (cases "a = KEEP_CURRENT")
    case True
    then show ?thesis
      using get 1(4,5) by (auto simp: semantic_outcome_def require_current_resolution_def
          get_semantic_resolution_def split: option.splits)
  next
    case False
    then show ?thesis
      using get 1(5) key get_after_semantic_upsert[of r s] by (simp add: get_semantic_resolution_def)
  qed
qed


lemma semantic_outcome_view:
  assumes "semantic_outcome cur d source a n = Inr r"
    and "a = policy_action (view sr_status (\<lambda>r. description_payload (sr_description r)) cur)
               (sd_status d) (description_payload (sd_description d))"
  shows "view sr_status (\<lambda>r. description_payload (sr_description r)) (Some r)
    = admit (view sr_status (\<lambda>r. description_payload (sr_description r)) cur)
        (sd_status d, description_payload (sd_description d))"
  using assms by (cases a; cases cur)
    (auto simp: admit_def semantic_outcome_def require_current_resolution_def)

lemma semantic_supersede:
  assumes "semantic_decision cur d True x = Inr decision" "semantic_outcome cur d source (rd_action decision) n = Inr r"
  shows "sd_status d = CONFIRMED \<and> map_option sr_updated_at cur = x \<and> sr_status r = CONFIRMED
    \<and> sr_description r = sd_description d \<and> (\<forall>u. x = Some u \<longrightarrow> u < sr_updated_at r)"
  using assms
  by (cases cur) (auto simp: semantic_decision_def require_expected_resolution_def raise_if_def
      bind_result_Inr_iff decide_def semantic_outcome_def next_resolution_timestamp_def split: if_splits)

lemma semantic_frame:
  assumes "propose_semantic_definition (\<lambda>s. s) s d e x n = (res, s')" "k \<noteq> semantic_subject s d"
  shows "semantic_get s' k = semantic_get s k"
proof (cases res)
  case (Inl err)
  then have "s' = s" using assms(1) by (auto dest: propose_semantic_error)
  then show ?thesis by simp
next
  case (Inr ra)
  obtain r a where ra: "ra = (r, a)" by (cases ra)
  show ?thesis using assms(1)[unfolded Inr ra]
  proof (cases rule: propose_semantic_success)
    case (1 source decision)
    note key = semantic_outcome_key[OF 1(4) refl refl]
    obtain t w i where k: "k = (t, w, i)" by (cases k)
    have "(t, w, i) \<noteq> (sr_tenant_id r, sr_data_source_id r, sr_object_ref r)"
      using assms(2) key by (simp add: k semantic_subject_def 1(1))
    then show ?thesis
      using get_after_semantic_upsert_other[of t w i r s] 1(5)
      by (simp add: k semantic_get_def get_semantic_resolution_def split: if_splits)
  qed
qed

lemma propose_semantic_versions:
  "propose_semantic_definition (\<lambda>s. s) s d e x n = (res, s') \<Longrightarrow> ks_versions s' = ks_versions s"
  unfolding propose_semantic_definition_def semantic_transaction_def Let_def
  by (auto simp: append_knowledge_audit_def upsert_resolution_def split: sum.splits if_splits)

lemma semantic_subject_versions:
  "ks_versions s' = ks_versions s \<Longrightarrow> semantic_subject s' d = semantic_subject s d"
  by (simp add: semantic_subject_def catalog_version_data_source_def)

interpretation semantic_table: governed_store semantic_get "propose_semantic_definition (\<lambda>s. s)"
  semantic_subject sr_status "\<lambda>r. description_payload (sr_description r)" sr_updated_at
  sd_status "\<lambda>d. description_payload (sd_description d)"
proof (unfold_locales, goal_cases)
  case (1 s d x n w s')
  obtain r a where w: "w = (r, a)" by (cases w)
  show ?case using 1(1)[unfolded w]
  proof (cases rule: propose_semantic_success)
    case p: (1 source decision)
    have cur: "get_semantic_resolution s (sd_tenant_id d) source (sd_object_ref d)
        = semantic_get s (semantic_subject s d)"
      by (simp add: semantic_get_def semantic_subject_def p(1))
    have "resolve_semantic_update (semantic_get s (semantic_subject s d)) d = Inr decision"
      using p(2) by (simp add: semantic_decision_def cur)
    from semantic_policy.resolved_action[OF 1(2) this]
    show ?thesis
      using semantic_outcome_view p(3,4) semantic_get_after[OF 1(1)[unfolded w]]
      by (simp add: cur description_payload_def)
  qed
next
  case (2 s d x n w s')
  obtain r a where w: "w = (r, a)" by (cases w)
  show ?case using 2[unfolded w]
  proof (cases rule: propose_semantic_success)
    case p: (1 source decision)
    have cur: "get_semantic_resolution s (sd_tenant_id d) source (sd_object_ref d)
        = semantic_get s (semantic_subject s d)"
      by (simp add: semantic_get_def semantic_subject_def p(1))
    show ?thesis
      using semantic_supersede[OF p(2) p(4)[unfolded p(3)]] semantic_get_after[OF 2[unfolded w]]
      by (simp add: cur)
  qed
next
  case (3 s d e x n res s' k)
  then show ?case by (rule semantic_frame)
next
  case (4 s d e x n err s')
  then show ?case by (rule propose_semantic_error)
next
  case (5 s d e x n res s' d')
  then show ?case using propose_semantic_versions semantic_subject_versions by blast
qed

end
