(* ===== verification/Governed_Assets.thy ===== *)
theory Governed_Assets
  imports Governed_Store
begin

text \<open>
  The contract \<open>governed_store\<close> for business concepts and for the analytic assets: what a
  successful proposal writes, that it leaves other subjects alone, and the two
  interpretations.
\<close>

section \<open>Business concepts\<close>

definition concept_get :: "knowledge_store \<Rightarrow> subject_key \<Rightarrow> business_concept_resolution option" where
  "concept_get s k = (case k of (t, d, i) \<Rightarrow> get_business_concept_resolution s t d i)"

definition concept_subject :: "business_concept_definition \<Rightarrow> subject_key" where
  "concept_subject d = (bcd_tenant_id d, bcd_data_source_id d, bcd_concept_key d)"

lemma propose_concept_success:
  assumes "propose_business_concept_definition mid s d e x n = (Inr (r, a), s')"
  obtains decision where
    "concept_decision (concept_get s (concept_subject d)) d e x = Inr decision"
    "a = rd_action decision"
    "concept_outcome (concept_get s (concept_subject d)) d a n = Inr r"
    "ks_concept_resolutions s' = (if a = KEEP_CURRENT then ks_concept_resolutions (mid s)
       else ks_concept_resolutions (upsert_business_concept_resolution r (mid s)))"
    "ks_concept_definitions s' = ks_concept_definitions (mid s) @ [d]"
    "ks_versions s' = ks_versions (mid s)"
    "ks_semantic_definitions s' = ks_semantic_definitions (mid s)"
    "ks_semantic_resolutions s' = ks_semantic_resolutions (mid s)"
    "ks_analytic_definitions s' = ks_analytic_definitions (mid s)"
    "ks_analytic_resolutions s' = ks_analytic_resolutions (mid s)"
  using assms
  unfolding propose_business_concept_definition_def concept_transaction_def Let_def concept_get_def
    concept_subject_def
  by (auto simp: append_knowledge_audit_def upsert_business_concept_resolution_def bind_result_Inr_iff
      split: sum.splits if_splits)

lemma propose_concept_failure:
  "propose_business_concept_definition mid s d e x n = (Inl err, s') \<Longrightarrow> s' = s \<or> s' = mid s"
  unfolding propose_business_concept_definition_def concept_transaction_def Let_def
  by (auto split: sum.splits if_splits)

lemma propose_concept_error:
  "propose_business_concept_definition (\<lambda>s. s) s d e x n = (Inl err, s') \<Longrightarrow> s' = s"
  by (auto dest: propose_concept_failure)

lemma concept_outcome_key:
  assumes "concept_outcome (concept_get s (concept_subject d)) d a n = Inr r"
  shows "(bcr_tenant_id r, bcr_data_source_id r, bcr_concept_key r) = concept_subject d"
  using assms
  by (cases a) (auto simp: concept_outcome_def bind_result_Inr_iff require_current_resolution_def
      concept_get_def concept_subject_def get_business_concept_resolution_def
      split: option.splits dest!: fetch_one_Some_iff_mem)

lemma concept_get_upsert:
  "concept_get (upsert_business_concept_resolution r s)
     (bcr_tenant_id r, bcr_data_source_id r, bcr_concept_key r) = Some r"
  "k \<noteq> (bcr_tenant_id r, bcr_data_source_id r, bcr_concept_key r) \<Longrightarrow>
    concept_get (upsert_business_concept_resolution r s) k = concept_get s k"
proof -
  show "concept_get (upsert_business_concept_resolution r s)
     (bcr_tenant_id r, bcr_data_source_id r, bcr_concept_key r) = Some r"
    by (simp add: concept_get_def get_business_concept_resolution_def
        upsert_business_concept_resolution_def fetch_upsert)
  assume k: "k \<noteq> (bcr_tenant_id r, bcr_data_source_id r, bcr_concept_key r)"
  obtain t d i where tdi: "k = (t, d, i)" by (cases k)
  show "concept_get (upsert_business_concept_resolution r s) k = concept_get s k"
    unfolding tdi concept_get_def get_business_concept_resolution_def
      upsert_business_concept_resolution_def
    using k[unfolded tdi] by (simp, intro fetch_upsert_other) auto
qed

lemma concept_get_resolutions:
  "ks_concept_resolutions s = ks_concept_resolutions s' \<Longrightarrow> concept_get s = concept_get s'"
  by (auto simp: concept_get_def get_business_concept_resolution_def)

lemma concept_get_after:
  assumes "propose_business_concept_definition (\<lambda>s. s) s d e x n = (Inr (r, a), s')"
  shows "concept_get s' (concept_subject d) = Some r"
    and "k \<noteq> concept_subject d \<Longrightarrow> concept_get s' k = concept_get s k"
proof (atomize (full), use assms in \<open>cases rule: propose_concept_success\<close>)
  case (1 decision)
  note key = concept_outcome_key[OF 1(3)]
  show "concept_get s' (concept_subject d) = Some r
    \<and> (k \<noteq> concept_subject d \<longrightarrow> concept_get s' k = concept_get s k)"
  proof (cases "a = KEEP_CURRENT")
    case True
    then show ?thesis
      using 1(3,4) concept_get_resolutions[of s' s]
      by (auto simp: concept_outcome_def require_current_resolution_def split: option.splits)
  next
    case False
    then show ?thesis
      using 1(4) concept_get_resolutions[of s' "upsert_business_concept_resolution r s"]
        concept_get_upsert(1)[of r s] concept_get_upsert(2)[of k r s] key by simp
  qed
qed

lemma concept_outcome_view:
  assumes "concept_outcome cur d a n = Inr r"
    and "a = policy_action (view bcr_status concept_resolution_payload cur) (bcd_status d) (concept_payload d)"
  shows "view bcr_status concept_resolution_payload (Some r)
    = admit (view bcr_status concept_resolution_payload cur) (bcd_status d, concept_payload d)"
  using assms by (cases a; cases cur)
    (auto simp: admit_def concept_outcome_def require_current_resolution_def
      concept_resolution_payload_def concept_payload_def)

lemma concept_supersede:
  assumes "concept_decision cur d True x = Inr decision" "concept_outcome cur d (rd_action decision) n = Inr r"
  shows "bcd_status d = CONFIRMED \<and> map_option bcr_updated_at cur = x \<and> bcr_status r = CONFIRMED
    \<and> concept_resolution_payload r = concept_payload d \<and> (\<forall>u. x = Some u \<longrightarrow> u < bcr_updated_at r)"
  using assms
  by (cases cur) (auto simp: concept_decision_def require_expected_concept_resolution_def raise_if_def
      bind_result_Inr_iff decide_def concept_outcome_def next_resolution_timestamp_def
      concept_resolution_payload_def concept_payload_def split: if_splits)

interpretation concept_table: governed_store concept_get "propose_business_concept_definition (\<lambda>s. s)"
  "\<lambda>s. concept_subject" bcr_status concept_resolution_payload bcr_updated_at bcd_status concept_payload
proof (unfold_locales, goal_cases)
  case (1 s d x n w s')
  obtain r a where w: "w = (r, a)" by (cases w)
  show ?case using 1(1)[unfolded w]
  proof (cases rule: propose_concept_success)
    case p: (1 decision)
    have "resolve_business_concept_update (concept_get s (concept_subject d)) d = Inr decision"
      using p(1) by (simp add: concept_decision_def)
    from concept_policy.resolved_action[OF 1(2) this]
    show ?thesis
      using concept_outcome_view p(2,3) concept_get_after(1)[OF 1(1)[unfolded w]] by simp
  qed
next
  case (2 s d x n w s')
  obtain r a where w: "w = (r, a)" by (cases w)
  show ?case using 2[unfolded w]
  proof (cases rule: propose_concept_success)
    case p: (1 decision)
    show ?thesis
      using concept_supersede[OF p(1) p(3)[unfolded p(2)]] concept_get_after(1)[OF 2[unfolded w]]
      by simp
  qed
next
  case (3 s d e x n res s' k)
  then show ?case
    by (cases res) (auto dest: propose_concept_error concept_get_after(2))
next
  case (4 s d e x n err s')
  then show ?case by (rule propose_concept_error)
qed simp


section \<open>Metrics and business rules\<close>

type_synonym asset_key = "string \<times> string \<times> analytic_semantic_kind \<times> string"

datatype asset_payload = Metric_Payload metric_payload | Rule_Payload rule_payload

definition analytic_get :: "knowledge_store \<Rightarrow> asset_key \<Rightarrow> analytic_resolution option" where
  "analytic_get s k = (case k of (t, d, kind, i) \<Rightarrow>
     (case get_analytic_semantic_resolution s t d kind i of Inl _ \<Rightarrow> None | Inr cur \<Rightarrow> cur))"

definition analytic_subject :: "analytic_definition \<Rightarrow> asset_key" where
  "analytic_subject d = (an_tenant_id d, an_data_source_id d, analytic_definition_kind_and_key d)"

fun analytic_resolution_asset_payload :: "analytic_resolution \<Rightarrow> asset_payload" where
  "analytic_resolution_asset_payload (Metric_Resolution m) = Metric_Payload (metric_resolution_payload m)"
| "analytic_resolution_asset_payload (Rule_Resolution r) = Rule_Payload (rule_resolution_payload r)"

fun analytic_definition_asset_payload :: "analytic_definition \<Rightarrow> asset_payload" where
  "analytic_definition_asset_payload (Metric_Definition m) = Metric_Payload (metric_payload m)"
| "analytic_definition_asset_payload (Rule_Definition r) = Rule_Payload (rule_payload r)"

abbreviation "analytic_view \<equiv> view analytic_status analytic_resolution_asset_payload"

definition resolution_subject :: "analytic_resolution \<Rightarrow> asset_key" where
  "resolution_subject r =
     (arr_tenant_id (analytic_resolution_row r), arr_data_source_id (analytic_resolution_row r),
      analytic_resolution_kind_and_key r)"

lemma analytic_row_kind_and_key:
  "(arr_asset_kind (analytic_resolution_row r), arr_asset_key (analytic_resolution_row r))
     = analytic_resolution_kind_and_key r"
  by (cases r) simp_all

lemma analytic_from_row_subject:
  "analytic_resolution_from_row row = Inr r \<Longrightarrow>
    resolution_subject r = (arr_tenant_id row, arr_data_source_id row, arr_asset_kind row, arr_asset_key row)"
  by (cases "arr_asset_kind row")
     (auto simp: analytic_resolution_from_row_def bind_result_Inr_iff Let_def resolution_subject_def)

lemma analytic_get_subject: "analytic_get s k = Some r \<Longrightarrow> resolution_subject r = k"
  unfolding analytic_get_def get_analytic_semantic_resolution_def
  by (auto simp: bind_result_Inr_iff split: prod.splits sum.splits option.splits
      dest!: fetch_one_Some_iff_mem analytic_from_row_subject)

lemma analytic_get_upsert:
  "analytic_get (upsert_analytic_semantic_resolution r s) (resolution_subject r) = Some r"
  "k \<noteq> resolution_subject r \<Longrightarrow> analytic_get (upsert_analytic_semantic_resolution r s) k = analytic_get s k"
proof -
  let ?row = "analytic_resolution_row r"
  have sub: "resolution_subject r
      = (arr_tenant_id ?row, arr_data_source_id ?row, arr_asset_kind ?row, arr_asset_key ?row)"
    by (simp add: resolution_subject_def flip: analytic_row_kind_and_key)
  show "analytic_get (upsert_analytic_semantic_resolution r s) (resolution_subject r) = Some r"
    unfolding sub analytic_get_def get_analytic_semantic_resolution_def
      upsert_analytic_semantic_resolution_def Let_def
    by (simp add: fetch_upsert analytic_resolution_row_round_trip)
  assume k: "k \<noteq> resolution_subject r"
  obtain t d kind i where tdi: "k = (t, d, kind, i)" by (cases k)
  let ?P = "\<lambda>x. arr_tenant_id x = t \<and> arr_data_source_id x = d \<and> arr_asset_kind x = kind \<and> arr_asset_key x = i"
  have "fetch_one ?P (ks_analytic_resolutions (upsert_analytic_semantic_resolution r s))
      = fetch_one ?P (ks_analytic_resolutions s)"
    using k unfolding upsert_analytic_semantic_resolution_def Let_def tdi sub
    by (simp, intro fetch_upsert_other) auto
  then show "analytic_get (upsert_analytic_semantic_resolution r s) k = analytic_get s k"
    by (simp add: tdi analytic_get_def get_analytic_semantic_resolution_def)
qed

lemma analytic_get_resolutions:
  "ks_analytic_resolutions s = ks_analytic_resolutions s' \<Longrightarrow> analytic_get s = analytic_get s'"
  by (auto simp: analytic_get_def get_analytic_semantic_resolution_def)

lemma propose_analytic_success:
  assumes "propose_analytic_semantic_definition mid s d e x n = (Inr (r, a), s')"
  obtains decision where
    "analytic_decision (analytic_get s (analytic_subject d)) d e x = Inr decision"
    "a = rd_action decision"
    "analytic_outcome (analytic_get s (analytic_subject d)) d a n = Inr r"
    "ks_analytic_resolutions s' = (if a = KEEP_CURRENT then ks_analytic_resolutions (mid s)
       else ks_analytic_resolutions (upsert_analytic_semantic_resolution r (mid s)))"
    "ks_analytic_definitions s' = ks_analytic_definitions (mid s) @ [analytic_definition_row d]"
    "ks_versions s' = ks_versions (mid s)"
    "ks_semantic_definitions s' = ks_semantic_definitions (mid s)"
    "ks_semantic_resolutions s' = ks_semantic_resolutions (mid s)"
    "ks_concept_definitions s' = ks_concept_definitions (mid s)"
    "ks_concept_resolutions s' = ks_concept_resolutions (mid s)"
  using assms
  unfolding propose_analytic_semantic_definition_def analytic_transaction_def Let_def analytic_get_def
    analytic_subject_def
  by (auto simp: append_knowledge_audit_def upsert_analytic_semantic_resolution_def Let_def
      split: sum.splits if_splits prod.splits)

lemma propose_analytic_failure:
  "propose_analytic_semantic_definition mid s d e x n = (Inl err, s') \<Longrightarrow> s' = s \<or> s' = mid s"
  unfolding propose_analytic_semantic_definition_def analytic_transaction_def Let_def
  by (auto split: sum.splits if_splits prod.splits)

lemma propose_analytic_error:
  "propose_analytic_semantic_definition (\<lambda>s. s) s d e x n = (Inl err, s') \<Longrightarrow> s' = s"
  by (auto dest: propose_analytic_failure)

lemma analytic_new_subject: "resolution_subject (analytic_resolution_from_definition d u) = analytic_subject d"
  by (cases d) (simp_all add: resolution_subject_def analytic_subject_def analytic_row_def)

lemma analytic_conflict_subject: "resolution_subject (analytic_conflict r c n) = resolution_subject r"
  by (cases r) (simp_all add: resolution_subject_def)

lemma analytic_outcome_subject:
  assumes "analytic_outcome (analytic_get s (analytic_subject d)) d a n = Inr r"
  shows "resolution_subject r = analytic_subject d"
  using assms
  by (cases a) (auto simp: analytic_outcome_def bind_result_Inr_iff require_current_resolution_def
      analytic_new_subject analytic_conflict_subject analytic_get_subject split: option.splits)

lemma analytic_get_after:
  assumes "propose_analytic_semantic_definition (\<lambda>s. s) s d e x n = (Inr (r, a), s')"
  shows "analytic_get s' (analytic_subject d) = Some r"
    and "k \<noteq> analytic_subject d \<Longrightarrow> analytic_get s' k = analytic_get s k"
proof (atomize (full), use assms in \<open>cases rule: propose_analytic_success\<close>)
  case (1 decision)
  note key = analytic_outcome_subject[OF 1(3)]
  show "analytic_get s' (analytic_subject d) = Some r
    \<and> (k \<noteq> analytic_subject d \<longrightarrow> analytic_get s' k = analytic_get s k)"
  proof (cases "a = KEEP_CURRENT")
    case True
    then show ?thesis
      using 1(3,4) analytic_get_resolutions[of s' s]
      by (auto simp: analytic_outcome_def require_current_resolution_def split: option.splits)
  next
    case False
    then show ?thesis
      using 1(4) analytic_get_resolutions[of s' "upsert_analytic_semantic_resolution r s"]
        analytic_get_upsert(1)[of r s] analytic_get_upsert(2)[of k r s] key by simp
  qed
qed

lemma analytic_resolution_from_definition_view:
  "analytic_status (analytic_resolution_from_definition d u) = an_status d"
  "analytic_resolution_asset_payload (analytic_resolution_from_definition d u)
     = analytic_definition_asset_payload d"
  "analytic_updated_at (analytic_resolution_from_definition d u) = u"
  by (cases d; simp add: analytic_row_def metric_resolution_payload_def metric_payload_def
      rule_resolution_payload_def rule_payload_def)+

lemma analytic_conflict_status: "analytic_status (analytic_conflict r c n) = CONFLICTING"
  by (cases r) simp_all

lemma analytic_outcome_view:
  assumes "analytic_outcome cur d a n = Inr r"
    and "a = policy_action (analytic_view cur) (an_status d) (analytic_definition_asset_payload d)"
  shows "analytic_view (Some r) = admit (analytic_view cur) (an_status d, analytic_definition_asset_payload d)"
  using assms by (cases a; cases cur)
    (auto simp: admit_def analytic_outcome_def require_current_resolution_def
      analytic_resolution_from_definition_view analytic_conflict_status)

lemma analytic_supersede:
  assumes "analytic_decision cur d True x = Inr decision" "analytic_outcome cur d (rd_action decision) n = Inr r"
  shows "an_status d = CONFIRMED \<and> map_option analytic_updated_at cur = x \<and> analytic_status r = CONFIRMED
    \<and> analytic_resolution_asset_payload r = analytic_definition_asset_payload d
    \<and> (\<forall>u. x = Some u \<longrightarrow> u < analytic_updated_at r)"
  using assms
  by (cases cur) (auto simp: analytic_decision_def require_expected_analytic_resolution_def raise_if_def
      bind_result_Inr_iff decide_def analytic_outcome_def next_resolution_timestamp_def
      analytic_resolution_from_definition_view split: if_splits)

text \<open>The current row of an asset has the asset's kind, so the \<open>isinstance\<close> tests succeed.\<close>

lemma analytic_resolved_action:
  assumes "an_status d \<noteq> CONFLICTING"
    and "resolve_analytic_definition (analytic_get s (analytic_subject d)) d = Inr decision"
  shows "rd_action decision = policy_action (analytic_view (analytic_get s (analytic_subject d)))
    (an_status d) (analytic_definition_asset_payload d)"
proof (cases d)
  case (Metric_Definition m)
  let ?cur = "analytic_get s (analytic_subject d)"
  have st: "md_status m \<noteq> CONFLICTING" using assms(1) by (simp add: Metric_Definition analytic_row_def)
  have kind: "?cur = None \<or> (\<exists>c. ?cur = Some (Metric_Resolution c))"
  proof (cases ?cur)
    case (Some r)
    then show ?thesis using analytic_get_subject[OF Some]
      by (cases r) (auto simp: resolution_subject_def analytic_subject_def Metric_Definition)
  qed simp
  show ?thesis
    using metric_policy.resolved_action[OF st, of "Option.bind ?cur as_metric" decision] assms(2) kind
    by (auto simp: Metric_Definition analytic_row_def hold_def split: if_splits)
next
  case (Rule_Definition m)
  let ?cur = "analytic_get s (analytic_subject d)"
  have st: "brd_status m \<noteq> CONFLICTING" using assms(1) by (simp add: Rule_Definition analytic_row_def)
  have kind: "?cur = None \<or> (\<exists>c. ?cur = Some (Rule_Resolution c))"
  proof (cases ?cur)
    case (Some r)
    then show ?thesis using analytic_get_subject[OF Some]
      by (cases r) (auto simp: resolution_subject_def analytic_subject_def Rule_Definition)
  qed simp
  show ?thesis
    using rule_policy.resolved_action[OF st, of "Option.bind ?cur as_rule" decision] assms(2) kind
    by (auto simp: Rule_Definition analytic_row_def hold_def split: if_splits)
qed

interpretation analytic_table: governed_store analytic_get "propose_analytic_semantic_definition (\<lambda>s. s)"
  "\<lambda>s. analytic_subject" analytic_status analytic_resolution_asset_payload analytic_updated_at
  "\<lambda>d. an_status d" analytic_definition_asset_payload
proof (unfold_locales, goal_cases)
  case (1 s d x n w s')
  obtain r a where w: "w = (r, a)" by (cases w)
  show ?case using 1(1)[unfolded w]
  proof (cases rule: propose_analytic_success)
    case p: (1 decision)
    have "resolve_analytic_definition (analytic_get s (analytic_subject d)) d = Inr decision"
      using p(1) by (simp add: analytic_decision_def)
    from analytic_resolved_action[OF 1(2) this]
    show ?thesis
      using analytic_outcome_view p(2,3) analytic_get_after(1)[OF 1(1)[unfolded w]] by simp
  qed
next
  case (2 s d x n w s')
  obtain r a where w: "w = (r, a)" by (cases w)
  show ?case using 2[unfolded w]
  proof (cases rule: propose_analytic_success)
    case p: (1 decision)
    show ?thesis
      using analytic_supersede[OF p(1) p(3)[unfolded p(2)]] analytic_get_after(1)[OF 2[unfolded w]]
      by simp
  qed
next
  case (3 s d e x n res s' k)
  then show ?case
    by (cases res) (auto dest: propose_analytic_error analytic_get_after(2))
next
  case (4 s d e x n err s')
  then show ?case by (rule propose_analytic_error)
qed simp

end
