(* ===== verification/Knowledge_Safety.thy ===== *)
theory Knowledge_Safety
  imports Governed_Assets "HOL-Library.Sublist"
begin

text \<open>
  The three knowledge tables together: one proposal step, the abstraction of the whole store
  to what is known of every subject, and the properties of governed knowledge, namely
  refinement of the specification, the outcome of any history of proposals, corrections that
  race, the evidence behind every resolution, and the round trip of the analytic rows.
\<close>

section \<open>The composed store\<close>

datatype knowledge_proposal =
    Semantic_Proposal semantic_definition
  | Concept_Proposal business_concept_definition
  | Analytic_Proposal analytic_definition

datatype knowledge_subject =
    Semantic_Subject subject_key | Concept_Subject subject_key | Analytic_Subject asset_key

datatype knowledge_payload =
    Description_Payload string | Concept_Payload concept_payload | Asset_Payload asset_payload

fun propose_knowledge ::
  "(knowledge_store \<Rightarrow> knowledge_store) \<Rightarrow> knowledge_store \<Rightarrow> knowledge_proposal \<Rightarrow> bool
     \<Rightarrow> timestamp option \<Rightarrow> timestamp \<Rightarrow> (knowledge_error + resolution_action) \<times> knowledge_store" where
  "propose_knowledge mid s (Semantic_Proposal d) e x n =
     map_prod (map_sum id snd) id (propose_semantic_definition mid s d e x n)"
| "propose_knowledge mid s (Concept_Proposal d) e x n =
     map_prod (map_sum id snd) id (propose_business_concept_definition mid s d e x n)"
| "propose_knowledge mid s (Analytic_Proposal d) e x n =
     map_prod (map_sum id snd) id (propose_analytic_semantic_definition mid s d e x n)"

fun proposal_subject :: "knowledge_store \<Rightarrow> knowledge_proposal \<Rightarrow> knowledge_subject" where
  "proposal_subject s (Semantic_Proposal d) = Semantic_Subject (semantic_subject s d)"
| "proposal_subject s (Concept_Proposal d) = Concept_Subject (concept_subject d)"
| "proposal_subject s (Analytic_Proposal d) = Analytic_Subject (analytic_subject d)"

fun proposal_status :: "knowledge_proposal \<Rightarrow> epistemic_status" where
  "proposal_status (Semantic_Proposal d) = sd_status d"
| "proposal_status (Concept_Proposal d) = bcd_status d"
| "proposal_status (Analytic_Proposal d) = an_status d"

fun proposal_payload :: "knowledge_proposal \<Rightarrow> knowledge_payload" where
  "proposal_payload (Semantic_Proposal d) = Description_Payload (description_payload (sd_description d))"
| "proposal_payload (Concept_Proposal d) = Concept_Payload (concept_payload d)"
| "proposal_payload (Analytic_Proposal d) = Asset_Payload (analytic_definition_asset_payload d)"

abbreviation "semantic_view \<equiv> view sr_status (\<lambda>r. description_payload (sr_description r))"
abbreviation "concept_view \<equiv> view bcr_status concept_resolution_payload"

fun knowledge_of :: "knowledge_store \<Rightarrow> knowledge_subject \<Rightarrow> knowledge_payload knowledge" where
  "knowledge_of s (Semantic_Subject k) =
     map_knowledge Description_Payload (semantic_view (semantic_get s k))"
| "knowledge_of s (Concept_Subject k) =
     map_knowledge Concept_Payload (concept_view (concept_get s k))"
| "knowledge_of s (Analytic_Subject k) =
     map_knowledge Asset_Payload (analytic_view (analytic_get s k))"

text \<open>The specification's step on the map of all knowledge.\<close>

definition spec_step ::
  "bool \<Rightarrow> knowledge_subject \<Rightarrow> epistemic_status \<times> knowledge_payload
     \<Rightarrow> (knowledge_subject \<Rightarrow> knowledge_payload knowledge)
     \<Rightarrow> knowledge_subject \<Rightarrow> knowledge_payload knowledge" where
  "spec_step explicit k ev K =
     K(k := if explicit then Held CONFIRMED (snd ev) else admit (K k) ev)"

lemma admit_map:
  "inj f \<Longrightarrow> map_knowledge f (admit k (st, p)) = admit (map_knowledge f k) (st, f p)"
  by (cases k) (auto simp: admit_def hold_def inj_eq)

lemma inj_payloads [simp]: "inj Description_Payload" "inj Concept_Payload" "inj Asset_Payload"
  by (simp_all add: inj_on_def)

lemma semantic_get_resolutions:
  "ks_semantic_resolutions s = ks_semantic_resolutions s' \<Longrightarrow> semantic_get s = semantic_get s'"
  by (auto simp: semantic_get_def get_semantic_resolution_def)

lemma propose_semantic_tables:
  "propose_semantic_definition (\<lambda>s. s) s d e x n = (Inr (r, a), s') \<Longrightarrow>
    concept_get s' = concept_get s \<and> analytic_get s' = analytic_get s"
  by (erule propose_semantic_success) (auto intro: concept_get_resolutions analytic_get_resolutions)

lemma propose_concept_tables:
  "propose_business_concept_definition (\<lambda>s. s) s d e x n = (Inr (r, a), s') \<Longrightarrow>
    semantic_get s' = semantic_get s \<and> analytic_get s' = analytic_get s"
  by (erule propose_concept_success) (auto intro: semantic_get_resolutions analytic_get_resolutions)

lemma propose_analytic_tables:
  "propose_analytic_semantic_definition (\<lambda>s. s) s d e x n = (Inr (r, a), s') \<Longrightarrow>
    semantic_get s' = semantic_get s \<and> concept_get s' = concept_get s"
  by (erule propose_analytic_success) (auto intro: semantic_get_resolutions concept_get_resolutions)

lemma write_result [simp]:
  "map_prod (map_sum id snd) id w = (Inr a, s') \<longleftrightarrow> (\<exists>r. w = (Inr (r, a), s'))"
  "map_prod (map_sum id snd) id w = (Inl err, s') \<longleftrightarrow> w = (Inl err, s')"
  by (cases w; cases "fst w"; auto)+

lemma propose_knowledge_refused:
  "propose_knowledge (\<lambda>s. s) s p e x n = (Inl err, s') \<Longrightarrow> s' = s"
  by (cases p) (auto dest: propose_semantic_error propose_concept_error propose_analytic_error)

lemma knowledge_step_success:
  assumes "propose_knowledge (\<lambda>s. s) s p e x n = (Inr a, s')" "proposal_status p \<noteq> CONFLICTING"
  shows "knowledge_of s' = spec_step e (proposal_subject s p) (proposal_status p, proposal_payload p)
    (knowledge_of s)"
proof
  fix k
  show "knowledge_of s' k = spec_step e (proposal_subject s p) (proposal_status p, proposal_payload p)
    (knowledge_of s) k"
  proof (cases p)
    case (Semantic_Proposal d)
    then obtain r where p: "propose_semantic_definition (\<lambda>s. s) s d e x n = (Inr (r, a), s')"
      using assms(1) by auto
    show ?thesis
      using propose_semantic_tables[OF p] semantic_table.framed[OF p] assms(2)
        semantic_table.admitted[of s d x n _ s'] semantic_table.supersede_holds[of s d x n _ s'] p
      by (cases k; cases e)
        (auto simp: Semantic_Proposal spec_step_def admit_map)
  next
    case (Concept_Proposal d)
    then obtain r where p: "propose_business_concept_definition (\<lambda>s. s) s d e x n = (Inr (r, a), s')"
      using assms(1) by auto
    show ?thesis
      using propose_concept_tables[OF p] concept_table.framed[OF p] assms(2)
        concept_table.admitted[of s d x n _ s'] concept_table.supersede_holds[of s d x n _ s'] p
      by (cases k; cases e)
        (auto simp: Concept_Proposal spec_step_def admit_map)
  next
    case (Analytic_Proposal d)
    then obtain r where p: "propose_analytic_semantic_definition (\<lambda>s. s) s d e x n = (Inr (r, a), s')"
      using assms(1) by auto
    show ?thesis
      using propose_analytic_tables[OF p] analytic_table.framed[OF p] assms(2)
        analytic_table.admitted[of s d x n _ s'] analytic_table.supersede_holds[of s d x n _ s'] p
      by (cases k; cases e)
        (auto simp: Analytic_Proposal spec_step_def admit_map)
  qed
qed


section \<open>Histories of proposals\<close>

text \<open>
  A run of ordinary proposals: a refused one leaves the store alone, an admitted one adds
  its evidence, with the subject it is about, to the run's log.
\<close>

type_synonym evidence = "knowledge_subject \<times> epistemic_status \<times> knowledge_payload"

fun run_knowledge ::
  "knowledge_store \<Rightarrow> (knowledge_proposal \<times> timestamp) list \<Rightarrow> knowledge_store \<times> evidence list" where
  "run_knowledge s [] = (s, [])"
| "run_knowledge s ((p, n) # ps) =
     (case propose_knowledge (\<lambda>s. s) s p False None n of
        (Inl _, s') \<Rightarrow> run_knowledge s' ps
      | (Inr _, s') \<Rightarrow>
          map_prod id (Cons (proposal_subject s p, proposal_status p, proposal_payload p))
            (run_knowledge s' ps))"

definition evidence_on :: "knowledge_subject \<Rightarrow> evidence list \<Rightarrow> (epistemic_status \<times> knowledge_payload) list" where
  "evidence_on k es = map snd (filter (\<lambda>e. fst e = k) es)"

lemma run_knowledge_admits:
  "\<lbrakk>run_knowledge s ps = (s', es); \<forall>(p, n) \<in> set ps. proposal_status p \<noteq> CONFLICTING\<rbrakk> \<Longrightarrow>
    knowledge_of s' k = admit_all (knowledge_of s k) (evidence_on k es)"
proof (induction ps arbitrary: s es)
  case (Cons pn ps)
  obtain p n where pn: "pn = (p, n)" by (cases pn)
  obtain res s1 where s1: "propose_knowledge (\<lambda>s. s) s p False None n = (res, s1)" by fastforce
  obtain es1 where run: "run_knowledge s1 ps = (s', es1)"
    using Cons.prems(1) by (cases res; cases "run_knowledge s1 ps") (auto simp: pn s1)
  have rest: "\<forall>(p, n) \<in> set ps. proposal_status p \<noteq> CONFLICTING" using Cons.prems(2) by simp
  note IH = Cons.IH[OF run rest]
  show ?case
  proof (cases res)
    case (Inl err)
    then show ?thesis
      using IH s1 run Cons.prems(1) propose_knowledge_refused[of s p False None n err s1]
      by (simp add: pn)
  next
    case (Inr a)
    have "knowledge_of s1 = spec_step False (proposal_subject s p)
        (proposal_status p, proposal_payload p) (knowledge_of s)"
      by (rule knowledge_step_success[OF s1[unfolded Inr]]) (use Cons.prems(2) pn in auto)
    moreover have "es = (proposal_subject s p, proposal_status p, proposal_payload p) # es1"
      using Cons.prems(1) run s1 Inr by (simp add: pn)
    ultimately show ?thesis using IH by (auto simp: evidence_on_def spec_step_def)
  qed
qed (simp add: evidence_on_def)

section \<open>Every resolution rests on recorded evidence\<close>

definition semantic_supports :: "semantic_definition \<Rightarrow> semantic_resolution \<Rightarrow> bool" where
  "semantic_supports d r =
     (sr_selected_definition_id r = Some (sd_id d) \<and> sr_tenant_id r = sd_tenant_id d
      \<and> sr_object_ref r = sd_object_ref d \<and> sr_description r = sd_description d
      \<and> sr_status r = sd_status d \<and> sr_confidence r = sd_confidence d)"

definition concept_supports :: "business_concept_definition \<Rightarrow> business_concept_resolution \<Rightarrow> bool" where
  "concept_supports d r =
     (bcr_selected_definition_id r = Some (bcd_id d) \<and> bcr_tenant_id r = bcd_tenant_id d
      \<and> bcr_data_source_id r = bcd_data_source_id d \<and> bcr_concept_key r = bcd_concept_key d
      \<and> bcr_name r = bcd_name d \<and> bcr_description r = bcd_description d
      \<and> bcr_synonyms r = bcd_synonyms d \<and> bcr_object_refs r = bcd_object_refs d
      \<and> bcr_content_classification r = bcd_content_classification d
      \<and> bcr_status r = bcd_status d \<and> bcr_confidence r = bcd_confidence d)"

definition analytic_supports :: "analytic_definition_row \<Rightarrow> analytic_resolution_row \<Rightarrow> bool" where
  "analytic_supports drow row =
     (\<exists>d u. drow = analytic_definition_row d
          \<and> row = analytic_resolution_row (analytic_resolution_from_definition d u))"

definition supported ::
  "('r \<Rightarrow> epistemic_status) \<Rightarrow> ('r \<Rightarrow> string option) \<Rightarrow> ('d \<Rightarrow> 'r \<Rightarrow> bool) \<Rightarrow> 'd list \<Rightarrow> 'r \<Rightarrow> bool" where
  "supported status selected supports ds r =
     (if status r = CONFLICTING then selected r = None else \<exists>d \<in> set ds. supports d r)"

abbreviation "semantic_supported \<equiv> supported sr_status sr_selected_definition_id semantic_supports"
abbreviation "concept_supported \<equiv> supported bcr_status bcr_selected_definition_id concept_supports"
abbreviation "analytic_supported \<equiv> supported arr_status arr_selected_definition_id analytic_supports"

definition backed :: "knowledge_store \<Rightarrow> bool" where
  "backed s =
     ((\<forall>r \<in> set (ks_semantic_resolutions s). semantic_supported (ks_semantic_definitions s) r)
      \<and> (\<forall>r \<in> set (ks_concept_resolutions s). concept_supported (ks_concept_definitions s) r)
      \<and> (\<forall>r \<in> set (ks_analytic_resolutions s). analytic_supported (ks_analytic_definitions s) r))"

lemma supported_append:
  "supported status selected supports ds r \<Longrightarrow> supported status selected supports (ds @ ds') r"
  by (auto simp: supported_def)

lemma supported_upsert:
  assumes "\<forall>x \<in> set rs. supported status selected supports ds x"
    and "supported status selected supports (ds @ ds') r"
  shows "\<forall>x \<in> set (sql_upsert same r rs). supported status selected supports (ds @ ds') x"
  using assms supported_append by (fastforce dest: sql_upsert_mem)

lemma supported_after:
  assumes "\<forall>x \<in> set rs. supported status selected supports ds x"
    and "rs' = (if keep then rs else sql_upsert same r rs)"
    and "\<not> keep \<Longrightarrow> supported status selected supports (ds @ ds') r"
  shows "\<forall>x \<in> set rs'. supported status selected supports (ds @ ds') x"
proof (cases keep)
  case True
  then show ?thesis using assms(1,2) by (auto intro: supported_append)
next
  case False
  then show ?thesis using assms(2) supported_upsert[OF assms(1) assms(3)[OF False]] by simp
qed

lemma upserted_rows:
  "ks_semantic_resolutions (upsert_resolution r s) =
     sql_upsert (\<lambda>x. sr_tenant_id x = sr_tenant_id r \<and> sr_data_source_id x = sr_data_source_id r
        \<and> sr_object_ref x = sr_object_ref r) r (ks_semantic_resolutions s)"
  "ks_concept_resolutions (upsert_business_concept_resolution c s) =
     sql_upsert (\<lambda>x. bcr_tenant_id x = bcr_tenant_id c \<and> bcr_data_source_id x = bcr_data_source_id c
        \<and> bcr_concept_key x = bcr_concept_key c) c (ks_concept_resolutions s)"
  "ks_analytic_resolutions (upsert_analytic_semantic_resolution a s) =
     sql_upsert (\<lambda>x. arr_tenant_id x = arr_tenant_id (analytic_resolution_row a)
        \<and> arr_data_source_id x = arr_data_source_id (analytic_resolution_row a)
        \<and> arr_asset_kind x = arr_asset_kind (analytic_resolution_row a)
        \<and> arr_asset_key x = arr_asset_key (analytic_resolution_row a))
       (analytic_resolution_row a) (ks_analytic_resolutions s)"
  by (simp_all add: upsert_resolution_def upsert_business_concept_resolution_def
      upsert_analytic_semantic_resolution_def Let_def)

lemma semantic_outcome_supported:
  assumes "semantic_outcome cur d source a n = Inr r" "a \<noteq> KEEP_CURRENT" "sd_status d \<noteq> CONFLICTING"
  shows "semantic_supported (ds @ [d]) r"
  using assms by (cases a)
    (auto simp: semantic_outcome_def supported_def semantic_supports_def bind_result_Inr_iff)

lemma concept_outcome_supported:
  assumes "concept_outcome cur d a n = Inr r" "a \<noteq> KEEP_CURRENT" "bcd_status d \<noteq> CONFLICTING"
  shows "concept_supported (ds @ [d]) r"
  using assms by (cases a)
    (auto simp: concept_outcome_def supported_def concept_supports_def bind_result_Inr_iff)

lemma analytic_row_status:
  "arr_status (analytic_resolution_row r) = analytic_status r"
  by (cases r) simp_all

lemma analytic_conflict_selected:
  "arr_selected_definition_id (analytic_resolution_row (analytic_conflict r c n)) = None"
  by (cases r) simp_all

lemma analytic_outcome_supported:
  assumes "analytic_outcome cur d a n = Inr r" "a \<noteq> KEEP_CURRENT" "an_status d \<noteq> CONFLICTING"
  shows "analytic_supported (ds @ [analytic_definition_row d]) (analytic_resolution_row r)"
  using assms by (cases a)
    (auto simp: analytic_outcome_def supported_def analytic_supports_def bind_result_Inr_iff
      analytic_row_status analytic_conflict_status analytic_conflict_selected
      analytic_resolution_from_definition_view)

lemma semantic_keeps_backed:
  assumes "propose_semantic_definition mid s d e x n = (Inr (r, a), s')"
    and "backed (mid s)" "sd_status d \<noteq> CONFLICTING"
  shows "backed s'"
  using assms(1)
proof (cases rule: propose_semantic_success)
  case (1 source decision)
  have old: "\<forall>x \<in> set (ks_semantic_resolutions (mid s)). semantic_supported (ks_semantic_definitions (mid s)) x"
    using assms(2) by (simp add: backed_def)
  have "\<forall>r \<in> set (ks_semantic_resolutions s'). semantic_supported (ks_semantic_definitions s') r"
    unfolding 1(6)
    by (rule supported_after[OF old 1(5)[unfolded upserted_rows]
          semantic_outcome_supported[OF 1(4) _ assms(3)]])
  then show ?thesis using assms(2) 1(7-11) by (simp add: backed_def)
qed

lemma concept_keeps_backed:
  assumes "propose_business_concept_definition mid s d e x n = (Inr (r, a), s')"
    and "backed (mid s)" "bcd_status d \<noteq> CONFLICTING"
  shows "backed s'"
  using assms(1)
proof (cases rule: propose_concept_success)
  case (1 decision)
  have old: "\<forall>x \<in> set (ks_concept_resolutions (mid s)). concept_supported (ks_concept_definitions (mid s)) x"
    using assms(2) by (simp add: backed_def)
  have "\<forall>r \<in> set (ks_concept_resolutions s'). concept_supported (ks_concept_definitions s') r"
    unfolding 1(5)
    by (rule supported_after[OF old 1(4)[unfolded upserted_rows]
          concept_outcome_supported[OF 1(3) _ assms(3)]])
  then show ?thesis using assms(2) 1(6-10) by (simp add: backed_def)
qed

lemma analytic_keeps_backed:
  assumes "propose_analytic_semantic_definition mid s d e x n = (Inr (r, a), s')"
    and "backed (mid s)" "an_status d \<noteq> CONFLICTING"
  shows "backed s'"
  using assms(1)
proof (cases rule: propose_analytic_success)
  case (1 decision)
  have old: "\<forall>x \<in> set (ks_analytic_resolutions (mid s)). analytic_supported (ks_analytic_definitions (mid s)) x"
    using assms(2) by (simp add: backed_def)
  have "\<forall>r \<in> set (ks_analytic_resolutions s'). analytic_supported (ks_analytic_definitions s') r"
    unfolding 1(5)
    by (rule supported_after[OF old 1(4)[unfolded upserted_rows]
          analytic_outcome_supported[OF 1(3) _ assms(3)]])
  then show ?thesis using assms(2) 1(6-10) by (simp add: backed_def)
qed


text \<open>
  The stores that replicas sharing the catalog reach: each proposal may have commits of the
  others between its read and its transaction.
\<close>

inductive knowledge_reaches :: "knowledge_store \<Rightarrow> knowledge_store \<Rightarrow> bool" where
  reaches_here: "knowledge_reaches s s"
| reaches_propose: "\<lbrakk>knowledge_reaches s0 s; knowledge_reaches s (mid s);
    proposal_status p \<noteq> CONFLICTING; propose_knowledge mid s p e x n = (res, s')\<rbrakk>
    \<Longrightarrow> knowledge_reaches s0 s'"

definition evidence_kept :: "knowledge_store \<Rightarrow> knowledge_store \<Rightarrow> bool" where
  "evidence_kept s s' =
     (prefix (ks_semantic_definitions s) (ks_semantic_definitions s')
      \<and> prefix (ks_concept_definitions s) (ks_concept_definitions s')
      \<and> prefix (ks_analytic_definitions s) (ks_analytic_definitions s'))"

lemma evidence_kept_refl [simp]: "evidence_kept s s"
  by (simp add: evidence_kept_def)

lemma evidence_kept_trans: "evidence_kept s1 s2 \<Longrightarrow> evidence_kept s2 s3 \<Longrightarrow> evidence_kept s1 s3"
  unfolding evidence_kept_def by (meson prefix_order.trans)

lemma propose_failure_store:
  assumes "propose_knowledge mid s p e x n = (Inl err, s')"
  shows "s' = s \<or> s' = mid s"
  using assms
  by (cases p) (auto dest: propose_semantic_failure propose_concept_failure propose_analytic_failure)

lemma propose_success_store:
  assumes "propose_knowledge mid s p e x n = (Inr a, s')" "proposal_status p \<noteq> CONFLICTING"
  shows "evidence_kept (mid s) s' \<and> (backed (mid s) \<longrightarrow> backed s')"
proof (cases p)
  case (Semantic_Proposal d)
  then obtain r where p: "propose_semantic_definition mid s d e x n = (Inr (r, a), s')"
    using assms(1) by auto
  moreover have "sd_status d \<noteq> CONFLICTING" using assms(2) by (simp add: Semantic_Proposal)
  moreover have "evidence_kept (mid s) s'"
    using p by (rule propose_semantic_success) (simp add: evidence_kept_def)
  ultimately show ?thesis using semantic_keeps_backed by blast
next
  case (Concept_Proposal d)
  then obtain r where p: "propose_business_concept_definition mid s d e x n = (Inr (r, a), s')"
    using assms(1) by auto
  moreover have "bcd_status d \<noteq> CONFLICTING" using assms(2) by (simp add: Concept_Proposal)
  moreover have "evidence_kept (mid s) s'"
    using p by (rule propose_concept_success) (simp add: evidence_kept_def)
  ultimately show ?thesis using concept_keeps_backed by blast
next
  case (Analytic_Proposal d)
  then obtain r where p: "propose_analytic_semantic_definition mid s d e x n = (Inr (r, a), s')"
    using assms(1) by auto
  moreover have "an_status d \<noteq> CONFLICTING" using assms(2) by (simp add: Analytic_Proposal)
  moreover have "evidence_kept (mid s) s'"
    using p by (rule propose_analytic_success) (simp add: evidence_kept_def)
  ultimately show ?thesis using analytic_keeps_backed by blast
qed

lemma knowledge_reaches_invariant:
  "knowledge_reaches s s' \<Longrightarrow> evidence_kept s s' \<and> (backed s \<longrightarrow> backed s')"
proof (induction rule: knowledge_reaches.induct)
  case (reaches_propose s0 s mid p e x n res s')
  show ?case
  proof (cases res)
    case (Inl err)
    then show ?thesis
      using propose_failure_store reaches_propose evidence_kept_trans by metis
  next
    case (Inr a)
    then show ?thesis
      using propose_success_store reaches_propose evidence_kept_trans by metis
  qed
qed simp

section \<open>Analytic rows\<close>

fun analytic_post_init :: "analytic_definition \<Rightarrow> knowledge_model_error + unit" where
  "analytic_post_init (Metric_Definition m) = metric_definition_post_init m"
| "analytic_post_init (Rule_Definition r) = business_rule_definition_post_init r"

lemma analytic_definition_row_round_trip:
  assumes "analytic_post_init d = Inr ()"
  shows "analytic_definition_from_row (analytic_definition_row d) = Inr d"
proof (cases d)
  case (Metric_Definition m)
  then show ?thesis
    using assms by (cases m)
      (simp add: analytic_definition_from_row_def payload_lookups,
       simp add: payload_text_def payload_list_def common_payload_def Let_def)
next
  case (Rule_Definition r)
  then show ?thesis
    using assms by (cases r)
      (simp add: analytic_definition_from_row_def payload_lookups,
       simp add: payload_text_def payload_list_def common_payload_def Let_def)
qed

lemma analytic_definition_row_key:
  "(adr_asset_kind (analytic_definition_row d), adr_asset_key (analytic_definition_row d))
     = analytic_definition_kind_and_key d"
  by (cases d) simp_all

definition rows_from_valid :: "knowledge_store \<Rightarrow> bool" where
  "rows_from_valid s =
     (\<forall>row \<in> set (ks_analytic_definitions s).
        \<exists>d. row = analytic_definition_row d \<and> analytic_post_init d = Inr ())"

lemma collect_results_all_ok:
  "(\<And>r. r \<in> set rs \<Longrightarrow> f r = Inr (g r)) \<Longrightarrow> collect_results (map f rs) = Inr (map g rs)"
  by (induction rs) auto

lemma set_newest_first [simp]: "set (newest_first c i rs) = set rs"
  by (simp add: newest_first_def)

lemma listed_when_valid:
  assumes "rows_from_valid s" "analytic_definition_row d \<in> set (ks_analytic_definitions s)"
  shows "\<exists>ds. list_analytic_semantic_definitions s (an_tenant_id d) (an_data_source_id d)
      (fst (analytic_definition_kind_and_key d)) (snd (analytic_definition_kind_and_key d)) = Inr ds
    \<and> d \<in> set ds"
proof -
  let ?rows = "newest_first adr_created_at adr_id
    (filter (\<lambda>r. adr_tenant_id r = an_tenant_id d \<and> adr_data_source_id r = an_data_source_id d
        \<and> adr_asset_kind r = fst (analytic_definition_kind_and_key d)
        \<and> adr_asset_key r = snd (analytic_definition_kind_and_key d)) (ks_analytic_definitions s))"
  have ok: "analytic_definition_from_row r = Inr (projr (analytic_definition_from_row r))"
    if "r \<in> set ?rows" for r
    using that assms(1) analytic_definition_row_round_trip by (auto simp: rows_from_valid_def)
  have "analytic_post_init d = Inr ()"
  proof -
    obtain d' where d': "analytic_definition_row d = analytic_definition_row d'" "analytic_post_init d' = Inr ()"
      using assms by (auto simp: rows_from_valid_def)
    then have "d' = d"
      by (cases d; cases d') (auto simp: common_payload_def)
    with d'(2) show ?thesis by simp
  qed
  then have "projr (analytic_definition_from_row (analytic_definition_row d)) = d"
    by (simp add: analytic_definition_row_round_trip)
  moreover have "analytic_definition_row d \<in> set ?rows"
    using assms(2) analytic_definition_row_key[of d, symmetric] by (simp add: analytic_row_def)
  ultimately have "d \<in> set (map (\<lambda>r. projr (analytic_definition_from_row r)) ?rows)"
    unfolding set_map by (intro image_eqI[where x = "analytic_definition_row d"]) simp_all
  moreover have "collect_results (map analytic_definition_from_row ?rows)
      = Inr (map (\<lambda>r. projr (analytic_definition_from_row r)) ?rows)"
    using ok by (rule collect_results_all_ok)
  ultimately show ?thesis by (simp add: list_analytic_semantic_definitions_def)
qed

section \<open>Properties\<close>


text \<open>
  Confirmation decides.  Whatever mixture of proposals arrives, about whatever subjects,
  once a run contains a confirmed definition of a subject, what is known of the subject at the
  end depends on the confirmed definitions alone, in their order: inferred and imported
  evidence, before or after, makes no difference.
\<close>

theorem confirmed_evidence_decides:
  assumes "run_knowledge s ps = (s', es)"
    and "\<forall>(p, n) \<in> set ps. proposal_status p \<noteq> CONFLICTING"
    and "\<nexists>q. knowledge_of s k = Held CONFIRMED q"
    and "\<exists>e \<in> set (evidence_on k es). fst e = CONFIRMED"
  shows "knowledge_of s' k =
    admit_all Open (filter (\<lambda>e. fst e = CONFIRMED) (evidence_on k es))"
  using run_knowledge_admits[OF assms(1,2)] admit_all_confirmed[OF assms(3,4)] by simp




text \<open>
  Round trip.  A metric or business rule that was proposed is among the definitions the
  catalog lists for its tenant, source, kind and key, decoded from its row with every field
  as it was proposed, and the resolution read back is the one the proposal returned.
\<close>

theorem proposed_asset_reads_back:
  assumes "propose_analytic_semantic_definition (\<lambda>s. s) s d explicit expected now = (Inr (r, a), s')"
    and "analytic_post_init d = Inr ()" "rows_from_valid s"
  shows "(\<exists>ds. list_analytic_semantic_definitions s' (an_tenant_id d) (an_data_source_id d)
        (fst (analytic_definition_kind_and_key d)) (snd (analytic_definition_kind_and_key d)) = Inr ds
      \<and> d \<in> set ds)
    \<and> analytic_get s' (analytic_subject d) = Some r"
proof -
  have "ks_analytic_definitions s' = ks_analytic_definitions s @ [analytic_definition_row d]"
    using assms(1) by (rule propose_analytic_success) simp
  then have "rows_from_valid s'" "analytic_definition_row d \<in> set (ks_analytic_definitions s')"
    using assms(2,3) by (auto simp: rows_from_valid_def)
  then show ?thesis using listed_when_valid analytic_get_after(1)[OF assms(1)] by blast
qed

end
