(* ===== verification/Knowledge_Examples.thy ===== *)
theory Knowledge_Examples
  imports Knowledge_Safety
begin

text \<open>
  A small catalog on which the properties of governed knowledge are applied, the round trip
  of the analytic rows, and the interleaving of two replicas in which imported evidence
  replaces what a human confirmed.
\<close>

section \<open>A sample catalog\<close>

definition sample_knowledge :: knowledge_store where
  "sample_knowledge =
     \<lparr>ks_versions = [\<lparr>cv_tenant_id = ''t'', cv_data_source_id = ''d'', cv_version = 1,
        cv_id = ''v'', cv_created_at = 0\<rparr>],
      ks_semantic_definitions = [], ks_semantic_resolutions = [],
      ks_concept_definitions = [], ks_concept_resolutions = [],
      ks_analytic_definitions = [], ks_analytic_resolutions = [], ks_audit = []\<rparr>"

definition sample_evidence :: "string \<Rightarrow> epistemic_status \<Rightarrow> string \<Rightarrow> semantic_definition" where
  "sample_evidence i st txt =
     \<lparr>sd_tenant_id = ''t'', sd_catalog_version_id = ''v'', sd_object_ref = ''s.orders'',
      sd_description = txt, sd_status = st, sd_source = ''dbt'', sd_confidence = PFin 1,
      sd_actor_id = None, sd_reason = None, sd_id = i, sd_created_at = 5\<rparr>"

abbreviation "inferred \<equiv> Semantic_Proposal (sample_evidence ''1'' INFERRED ''Orders'')"
abbreviation "confirmed \<equiv> Semantic_Proposal (sample_evidence ''2'' CONFIRMED ''Paid orders'')"
abbreviation "imported \<equiv> Semantic_Proposal (sample_evidence ''3'' IMPORTED ''All orders'')"
abbreviation "corrected \<equiv> Semantic_Proposal (sample_evidence ''4'' CONFIRMED ''Shipped orders'')"
abbreviation "orders \<equiv> Semantic_Subject (''t'', ''d'', ''s.orders'')"

definition after_inferred :: knowledge_store where
  "after_inferred = snd (propose_knowledge (\<lambda>s. s) sample_knowledge inferred False None 10)"

definition after_confirmed :: knowledge_store where
  "after_confirmed = snd (propose_knowledge (\<lambda>s. s) after_inferred confirmed False None 20)"

lemma sample_steps:
  "is_ok (fst (propose_knowledge (\<lambda>s. s) sample_knowledge inferred False None 10))"
  "is_ok (fst (propose_knowledge (\<lambda>s. s) after_inferred confirmed False None 20))"
  by code_simp+

lemma sample_semantic_subject: "proposal_subject sample_knowledge inferred = orders"
  by code_simp

lemma step_eq:
  "is_ok (fst (propose_knowledge mid s p e x n)) \<Longrightarrow>
    propose_knowledge mid s p e x n
      = (Inr (projr (fst (propose_knowledge mid s p e x n))), snd (propose_knowledge mid s p e x n))"
  by (cases "propose_knowledge mid s p e x n") (auto simp: is_ok_iff)


definition sample_run :: "(knowledge_proposal \<times> timestamp) list" where
  "sample_run = [(inferred, 10), (confirmed, 20), (imported, 30)]"

lemma sample_run_statuses: "\<forall>(p, n) \<in> set sample_run. proposal_status p \<noteq> CONFLICTING"
  by code_simp

lemma sample_run_evidence:
  "\<exists>e \<in> set (evidence_on orders (snd (run_knowledge sample_knowledge sample_run))). fst e = CONFIRMED"
  by code_simp

lemma sample_unknown: "knowledge_of sample_knowledge orders = Open"
  by (simp add: sample_knowledge_def semantic_get_def get_semantic_resolution_def)

theorem confirmed_evidence_decides_witness:
  "knowledge_of (fst (run_knowledge sample_knowledge sample_run)) orders =
    admit_all Open (filter (\<lambda>e. fst e = CONFIRMED)
      (evidence_on orders (snd (run_knowledge sample_knowledge sample_run))))"
proof (rule confirmed_evidence_decides[OF _ sample_run_statuses _ sample_run_evidence])
  show "run_knowledge sample_knowledge sample_run
      = (fst (run_knowledge sample_knowledge sample_run), snd (run_knowledge sample_knowledge sample_run))"
    by simp
  show "\<nexists>q. knowledge_of sample_knowledge orders = Held CONFIRMED q"
    by (simp only: sample_unknown) simp
qed

lemma sample_correction:
  "is_ok (fst (propose_knowledge (\<lambda>s. s) after_inferred confirmed True (Some 10) 20))"
  by code_simp

lemma sample_correction_subject:
  "proposal_subject after_inferred corrected = proposal_subject after_inferred confirmed"
  by (simp add: sample_evidence_def semantic_subject_def)


lemma sample_reaches_inferred: "knowledge_reaches sample_knowledge after_inferred"
proof (rule reaches_propose[where mid = "\<lambda>s. s", OF reaches_here reaches_here])
  show "propose_knowledge (\<lambda>s. s) sample_knowledge inferred False None 10
      = (Inr (projr (fst (propose_knowledge (\<lambda>s. s) sample_knowledge inferred False None 10))), after_inferred)"
    using step_eq[OF sample_steps(1)] by (simp only: after_inferred_def)
qed (simp add: sample_evidence_def)

lemma after_inferred_reaches: "knowledge_reaches after_inferred after_confirmed"
proof (rule reaches_propose[where mid = "\<lambda>s. s", OF reaches_here reaches_here])
  show "propose_knowledge (\<lambda>s. s) after_inferred confirmed False None 20
      = (Inr (projr (fst (propose_knowledge (\<lambda>s. s) after_inferred confirmed False None 20))), after_confirmed)"
    using step_eq[OF sample_steps(2)] by (simp only: after_confirmed_def)
qed (simp add: sample_evidence_def)

text \<open>The run of the race: the import reads before the confirmation and writes after it.\<close>

definition race_end :: knowledge_store where
  "race_end = snd (propose_knowledge (\<lambda>_. after_confirmed) after_inferred imported False None 30)"

lemma race_step: "is_ok (fst (propose_knowledge (\<lambda>_. after_confirmed) after_inferred imported False None 30))"
  by code_simp

lemma race_reaches: "knowledge_reaches sample_knowledge race_end"
proof (rule reaches_propose[where mid = "\<lambda>_. after_confirmed",
      OF sample_reaches_inferred after_inferred_reaches])
  show "propose_knowledge (\<lambda>_. after_confirmed) after_inferred imported False None 30
      = (Inr (projr (fst (propose_knowledge (\<lambda>_. after_confirmed) after_inferred imported False None 30))), race_end)"
    using step_eq[OF race_step] by (simp only: race_end_def)
qed (simp add: sample_evidence_def)




section \<open>A metric\<close>

definition sample_metric :: analytic_definition where
  "sample_metric = Metric_Definition
     \<lparr>md_tenant_id = ''t'', md_data_source_id = ''d'', md_catalog_version_id = ''v'',
      md_metric_key = ''revenue'', md_name = ''Revenue'', md_description = ''Paid amount'',
      md_expression_sql = ''sum(x)'', md_normalized_expression_sql = ''SUM(x)'',
      md_object_refs = [''s.o.x'', ''s.o.day''], md_grain_refs = [''s.o.day''],
      md_dimension_refs = [], md_concept_keys = [], md_rule_keys = [],
      md_content_classification = INTERNAL, md_status = CONFIRMED, md_source = ''human'',
      md_confidence = PFin 1, md_actor_id = Some ''ana'', md_reason = None, md_id = ''m1'',
      md_created_at = 3\<rparr>"

lemma sample_metric_valid: "analytic_post_init sample_metric = Inr ()"
proof -
  have "is_ok (analytic_post_init sample_metric)" by code_simp
  then show ?thesis by (auto simp: is_ok_iff)
qed

lemma sample_metric_step:
  "is_ok (fst (propose_analytic_semantic_definition (\<lambda>s. s) sample_knowledge sample_metric False None 10))"
  by code_simp

definition sample_metric_write :: "analytic_resolution knowledge_write" where
  "sample_metric_write =
     projr (fst (propose_analytic_semantic_definition (\<lambda>s. s) sample_knowledge sample_metric False None 10))"

definition sample_metric_store :: knowledge_store where
  "sample_metric_store =
     snd (propose_analytic_semantic_definition (\<lambda>s. s) sample_knowledge sample_metric False None 10)"

lemma sample_metric_run:
  "propose_analytic_semantic_definition (\<lambda>s. s) sample_knowledge sample_metric False None 10
     = (Inr (fst sample_metric_write, snd sample_metric_write), sample_metric_store)"
  using sample_metric_step
  by (simp add: sample_metric_write_def sample_metric_store_def prod_eq_iff is_ok_projr)

lemma sample_rows_valid: "rows_from_valid sample_knowledge"
  by (simp add: rows_from_valid_def sample_knowledge_def)

theorem proposed_asset_reads_back_witness:
  "(\<exists>ds. list_analytic_semantic_definitions sample_metric_store (an_tenant_id sample_metric)
        (an_data_source_id sample_metric) (fst (analytic_definition_kind_and_key sample_metric))
        (snd (analytic_definition_kind_and_key sample_metric)) = Inr ds
      \<and> sample_metric \<in> set ds)
   \<and> analytic_get sample_metric_store (analytic_subject sample_metric) = Some (fst sample_metric_write)"
  by (rule proposed_asset_reads_back[OF sample_metric_run sample_metric_valid sample_rows_valid])

end
