(* ===== verification/Catalog_Store.thy ===== *)
theory Catalog_Store
  imports Semantic_Store
begin

text \<open>
  The physical catalog of \<open>catalog/repository.py\<close>: data sources, catalog versions, schema
  objects, columns and relationships, beside the knowledge tables.  Each operation checks what
  it refers to, builds the entity and inserts it in one transaction with its audit event; the
  constraints of \<open>sqlite_schema.sql\<close> (primary keys, unique columns, foreign keys) are checked
  at the insert.  Fresh identifiers and the clock are arguments.
\<close>

section \<open>State\<close>

record relationship =
  rl_tenant_id :: string
  rl_catalog_version_id :: string
  rl_source_object_id :: string
  rl_target_object_id :: string
  rl_name :: string
  rl_source_columns :: "string list"
  rl_target_columns :: "string list"
  rl_status :: epistemic_status
  rl_source :: string
  rl_confidence :: pyfloat
  rl_id :: string

datatype catalog_audit =
    Version_Created string string int
  | Object_Created string string object_kind
  | Column_Created string string classification
  | Relationship_Created string string string string
  | Connection_Tested string bool

record catalog_store =
  ct_sources :: "data_source list"
  ct_knowledge :: knowledge_store
  ct_objects :: "schema_object list"
  ct_columns :: "column_definition list"
  ct_relationships :: "relationship list"
  ct_audit :: "catalog_audit list"

datatype catalog_error =
    Cat_Source_Missing | Cat_Version_Missing | Cat_Object_Missing | Cat_Integrity
  | Cat_Version_Not_Positive | Cat_Ordinal_Not_Positive
  | Cat_Relationship_Required | Cat_Relationship_Lengths | Cat_Relationship_Confidence
  | Cat_Unsupported_Activity | Cat_Knowledge knowledge_error | Cat_Evidence knowledge_model_error

definition catalog_version_post_init :: "catalog_version \<Rightarrow> catalog_error + unit" where
  "catalog_version_post_init v = raise_if (cv_version v < 1) Cat_Version_Not_Positive"

definition column_definition_post_init :: "column_definition \<Rightarrow> catalog_error + unit" where
  "column_definition_post_init c = raise_if (cd_ordinal c < 1) Cat_Ordinal_Not_Positive"

definition relationship_post_init :: "relationship \<Rightarrow> catalog_error + unit" where
  "relationship_post_init r = first_raise
     [(blank (rl_name r) \<or> rl_source_columns r = [] \<or> rl_target_columns r = [], Cat_Relationship_Required),
      (length (rl_source_columns r) \<noteq> length (rl_target_columns r), Cat_Relationship_Lengths),
      (\<not> confidence_ok (rl_confidence r), Cat_Relationship_Confidence)]"

abbreviation ct_versions :: "catalog_store \<Rightarrow> catalog_version list" where
  "ct_versions s \<equiv> ks_versions (ct_knowledge s)"

definition append_catalog_audit :: "catalog_audit \<Rightarrow> catalog_store \<Rightarrow> catalog_store" where
  "append_catalog_audit e s = s\<lparr>ct_audit := ct_audit s @ [e]\<rparr>"

section \<open>Reads\<close>

definition catalog_source :: "catalog_store \<Rightarrow> string \<Rightarrow> string \<Rightarrow> data_source option" where
  "catalog_source s t d = fetch_one (\<lambda>r. ds_tenant_id r = t \<and> ds_id r = d) (ct_sources s)"

definition versions_of :: "catalog_store \<Rightarrow> string \<Rightarrow> string \<Rightarrow> catalog_version list" where
  "versions_of s t d = filter (\<lambda>v. cv_tenant_id v = t \<and> cv_data_source_id v = d) (ct_versions s)"

text \<open>\<open>ORDER BY version DESC LIMIT 1\<close>.\<close>

definition latest_version :: "catalog_store \<Rightarrow> string \<Rightarrow> string \<Rightarrow> catalog_version option" where
  "latest_version s t d = first_by (\<lambda>v. - cv_version v) (\<lambda>v. cv_tenant_id v = t \<and> cv_data_source_id v = d)
     (ct_versions s)"

definition objects_of :: "catalog_store \<Rightarrow> string \<Rightarrow> string \<Rightarrow> schema_object list" where
  "objects_of s t v =
     sort_key (\<lambda>r. (so_schema_name r, so_name r))
       (filter (\<lambda>r. so_tenant_id r = t \<and> so_catalog_version_id r = v) (ct_objects s))"

definition columns_of :: "catalog_store \<Rightarrow> string \<Rightarrow> string \<Rightarrow> column_definition list" where
  "columns_of s t obj =
     sort_key cd_ordinal (filter (\<lambda>c. cd_tenant_id c = t \<and> cd_schema_object_id c = obj) (ct_columns s))"

text \<open>The join of the columns with the objects of a version, in the objects' order.\<close>

definition version_columns :: "catalog_store \<Rightarrow> string \<Rightarrow> string \<Rightarrow> column_definition list" where
  "version_columns s t v = concat (map (\<lambda>so. columns_of s t (so_id so)) (objects_of s t v))"

definition relationships_of :: "catalog_store \<Rightarrow> string \<Rightarrow> string \<Rightarrow> relationship list" where
  "relationships_of s t v =
     sort_key rl_name
       (filter (\<lambda>r. rl_tenant_id r = t \<and> rl_catalog_version_id r = v) (ct_relationships s))"

section \<open>Writes\<close>

definition record_source_activity ::
  "catalog_store \<Rightarrow> string \<Rightarrow> string \<Rightarrow> string \<Rightarrow> (catalog_error + unit) \<times> catalog_store" where
  "record_source_activity s t d event_type =
     (if event_type \<notin> {''data_source.connection_test_succeeded'', ''data_source.connection_test_failed''}
      then (Inl Cat_Unsupported_Activity, s)
      else if catalog_source s t d = None then (Inl Cat_Source_Missing, s)
      else (Inr (), append_catalog_audit
              (Connection_Tested d (event_type = ''data_source.connection_test_succeeded'')) s))"

text \<open>
  \<open>create_catalog_version\<close>: the next number is read before the transaction, the unique
  constraint refuses it when another replica (\<open>mid\<close>) took it.
\<close>

definition next_version :: "catalog_store \<Rightarrow> string \<Rightarrow> string \<Rightarrow> int" where
  "next_version s t d =
     (case map cv_version (versions_of s t d) of [] \<Rightarrow> 1 | v # vs \<Rightarrow> fold max vs v + 1)"

definition create_catalog_version ::
  "(catalog_store \<Rightarrow> catalog_store) \<Rightarrow> catalog_store \<Rightarrow> string \<Rightarrow> string \<Rightarrow> string \<Rightarrow> timestamp
     \<Rightarrow> (catalog_error + catalog_version) \<times> catalog_store" where
  "create_catalog_version mid s t d i now =
     (if catalog_source s t d = None then (Inl Cat_Source_Missing, s)
      else
        (let v = \<lparr>cv_tenant_id = t, cv_data_source_id = d, cv_version = next_version s t d,
                  cv_id = i, cv_created_at = now\<rparr>;
             s1 = mid s
         in case catalog_version_post_init v of
              Inl e \<Rightarrow> (Inl e, s)
            | Inr _ \<Rightarrow>
                if (\<exists>x \<in> set (ct_versions s1). cv_id x = i
                     \<or> (cv_tenant_id x = t \<and> cv_data_source_id x = d \<and> cv_version x = cv_version v))
                   \<or> catalog_source s1 t d = None
                then (Inl Cat_Integrity, s1)
                else (Inr v, append_catalog_audit (Version_Created i d (cv_version v))
                        (s1\<lparr>ct_knowledge := (ct_knowledge s1)
                            \<lparr>ks_versions := ks_versions (ct_knowledge s1) @ [v]\<rparr>\<rparr>))))"

definition create_schema_object ::
  "catalog_store \<Rightarrow> string \<Rightarrow> string \<Rightarrow> string \<Rightarrow> string \<Rightarrow> string \<Rightarrow> object_kind \<Rightarrow> string option
     \<Rightarrow> string \<Rightarrow> (catalog_error + schema_object) \<times> catalog_store" where
  "create_schema_object s t d v schema name kind def_sql i =
     (if fetch_one (\<lambda>x. cv_tenant_id x = t \<and> cv_id x = v \<and> cv_data_source_id x = d) (ct_versions s) = None
      then (Inl Cat_Version_Missing, s)
      else
        (let so = \<lparr>so_tenant_id = t, so_data_source_id = d, so_catalog_version_id = v,
                   so_schema_name = strip schema, so_name = strip name, so_kind = kind,
                   so_definition_sql = def_sql, so_id = i\<rparr>
         in if \<exists>x \<in> set (ct_objects s). so_id x = i
                 \<or> (so_tenant_id x = t \<and> so_catalog_version_id x = v
                     \<and> so_schema_name x = so_schema_name so \<and> so_name x = so_name so)
            then (Inl Cat_Integrity, s)
            else (Inr so, append_catalog_audit (Object_Created i v kind)
                            (s\<lparr>ct_objects := ct_objects s @ [so]\<rparr>))))"

definition has_object :: "catalog_store \<Rightarrow> string \<Rightarrow> string \<Rightarrow> bool" where
  "has_object s t i = (fetch_one (\<lambda>x. so_tenant_id x = t \<and> so_id x = i) (ct_objects s) \<noteq> None)"

definition create_column ::
  "catalog_store \<Rightarrow> string \<Rightarrow> string \<Rightarrow> string \<Rightarrow> string \<Rightarrow> int \<Rightarrow> bool \<Rightarrow> classification
     \<Rightarrow> string option \<Rightarrow> bool \<Rightarrow> string \<Rightarrow> (catalog_error + column_definition) \<times> catalog_store" where
  "create_column s t obj name physical ordinal nullable cls default_expr primary i =
     (if \<not> has_object s t obj then (Inl Cat_Object_Missing, s)
      else
        (let c = \<lparr>cd_tenant_id = t, cd_schema_object_id = obj, cd_name = strip name,
                  cd_physical_type = strip physical, cd_ordinal = ordinal, cd_nullable = nullable,
                  cd_classification = cls, cd_default_expression = default_expr,
                  cd_is_primary_key = primary, cd_id = i\<rparr>
         in case column_definition_post_init c of
              Inl e \<Rightarrow> (Inl e, s)
            | Inr _ \<Rightarrow>
                if \<exists>x \<in> set (ct_columns s). cd_id x = i
                     \<or> (cd_tenant_id x = t \<and> cd_schema_object_id x = obj \<and> cd_name x = cd_name c)
                then (Inl Cat_Integrity, s)
                else (Inr c, append_catalog_audit (Column_Created i obj cls)
                        (s\<lparr>ct_columns := ct_columns s @ [c]\<rparr>))))"

definition create_relationship ::
  "catalog_store \<Rightarrow> string \<Rightarrow> string \<Rightarrow> string \<Rightarrow> string \<Rightarrow> string \<Rightarrow> string list \<Rightarrow> string list
     \<Rightarrow> epistemic_status \<Rightarrow> string \<Rightarrow> pyfloat \<Rightarrow> string
     \<Rightarrow> (catalog_error + relationship) \<times> catalog_store" where
  "create_relationship s t v source_id target_id name source_cols target_cols st src confidence i =
     (if fetch_one (\<lambda>x. cv_tenant_id x = t \<and> cv_id x = v) (ct_versions s) = None
      then (Inl Cat_Version_Missing, s)
      else if \<not> has_object s t source_id then (Inl Cat_Object_Missing, s)
      else if \<not> has_object s t target_id then (Inl Cat_Object_Missing, s)
      else
        (let r = \<lparr>rl_tenant_id = t, rl_catalog_version_id = v, rl_source_object_id = source_id,
                  rl_target_object_id = target_id, rl_name = strip name,
                  rl_source_columns = source_cols, rl_target_columns = target_cols,
                  rl_status = st, rl_source = src, rl_confidence = confidence, rl_id = i\<rparr>
         in case relationship_post_init r of
              Inl e \<Rightarrow> (Inl e, s)
            | Inr _ \<Rightarrow>
                if \<exists>x \<in> set (ct_relationships s). rl_id x = i
                     \<or> (rl_tenant_id x = t \<and> rl_catalog_version_id x = v \<and> rl_name x = rl_name r)
                then (Inl Cat_Integrity, s)
                else (Inr r, append_catalog_audit (Relationship_Created i v source_id target_id)
                        (s\<lparr>ct_relationships := ct_relationships s @ [r]\<rparr>))))"

text \<open>A proposal of a semantic definition, on the knowledge part of the catalog.\<close>

definition propose_semantic ::
  "catalog_store \<Rightarrow> semantic_definition \<Rightarrow> bool \<Rightarrow> timestamp option \<Rightarrow> timestamp
     \<Rightarrow> (catalog_error + semantic_resolution knowledge_write) \<times> catalog_store" where
  "propose_semantic s d explicit_supersede expected now =
     (case propose_semantic_definition (\<lambda>k. k) (ct_knowledge s) d explicit_supersede expected now of
        (Inl e, k) \<Rightarrow> (Inl (Cat_Knowledge e), s\<lparr>ct_knowledge := k\<rparr>)
      | (Inr w, k) \<Rightarrow> (Inr w, s\<lparr>ct_knowledge := k\<rparr>))"

end
