(* ===== verification/Semantic_Governance.thy ===== *)
theory Semantic_Governance
  imports Catalog_Store
begin

text \<open>
  The readers and the human side of the catalog: the schema explorer
  (\<open>catalog/explorer.py\<close>) and the governance of semantic definitions
  (\<open>catalog/governance.py\<close>), with its review queue, evidence history and corrections.
\<close>

section \<open>The latest version and its references\<close>

datatype governance_error =
    Gov_Source_Missing | Gov_Not_Ingested | Gov_Object_Unknown | Gov_Description_Required
  | Gov_Concurrency knowledge_error | Gov_Evidence knowledge_model_error | Gov_Store catalog_error
  | Gov_Key_Error

text \<open>
  \<open>references\<close>: the objects of the version and their columns.  The join of the columns finds
  each one under its object.
\<close>

definition column_reference :: "schema_object \<Rightarrow> column_definition \<Rightarrow> string" where
  "column_reference so c = so_reference so @ ''.'' @ cd_name c"

definition version_references :: "catalog_store \<Rightarrow> string \<Rightarrow> string \<Rightarrow> string list" where
  "version_references s t v =
     map so_reference (objects_of s t v)
     @ concat (map (\<lambda>so. map (column_reference so) (columns_of s t (so_id so))) (objects_of s t v))"

definition latest_context ::
  "catalog_store \<Rightarrow> string \<Rightarrow> string \<Rightarrow> governance_error + (catalog_version \<times> string list)" where
  "latest_context s t d =
     (if catalog_source s t d = None then Inl Gov_Source_Missing
      else case latest_version s t d of
        None \<Rightarrow> Inl Gov_Not_Ingested
      | Some v \<Rightarrow> Inr (v, version_references s t (cv_id v)))"

definition require_object_ref ::
  "catalog_store \<Rightarrow> string \<Rightarrow> string \<Rightarrow> string \<Rightarrow> governance_error + unit" where
  "require_object_ref s t d ref =
     bind_result (latest_context s t d) (\<lambda>(v, refs). raise_if (ref \<notin> set refs) Gov_Object_Unknown)"

section \<open>Governance\<close>

record semantic_evidence_entry =
  see_definition :: semantic_definition
  see_selected :: bool

definition semantic_history ::
  "catalog_store \<Rightarrow> string \<Rightarrow> string \<Rightarrow> string \<Rightarrow> governance_error + semantic_evidence_entry list" where
  "semantic_history s t d ref =
     bind_result (require_object_ref s t d ref) (\<lambda>_.
       let current = get_semantic_resolution (ct_knowledge s) t d ref
       in Inr (map (\<lambda>x. \<lparr>see_definition = x,
                        see_selected = (case current of
                            None \<Rightarrow> False
                          | Some r \<Rightarrow> sr_selected_definition_id r = Some (sd_id x))\<rparr>)
            (list_semantic_definitions (ct_knowledge s) t d ref)))"

record semantic_review_item =
  sri_resolution :: semantic_resolution
  sri_evidence :: "semantic_evidence_entry list"

definition list_review_queue ::
  "catalog_store \<Rightarrow> string \<Rightarrow> string \<Rightarrow> governance_error + semantic_review_item list" where
  "list_review_queue s t d =
     bind_result (latest_context s t d) (\<lambda>(v, refs).
       collect_results
         (map (\<lambda>r. bind_result (semantic_history s t d (sr_object_ref r))
                     (\<lambda>h. Inr \<lparr>sri_resolution = r, sri_evidence = h\<rparr>))
            (filter (\<lambda>r. sr_object_ref r \<in> set refs)
               (list_semantic_resolutions (ct_knowledge s) t d {INFERRED, CONFLICTING}))))"

text \<open>\<open>SemanticResolutionConflictError\<close>, which the service turns into a concurrency error.\<close>

fun resolution_conflict :: "catalog_error \<Rightarrow> bool" where
  "resolution_conflict (Cat_Knowledge No_Longer_Matches) = True"
| "resolution_conflict (Cat_Knowledge Expected_Required) = True"
| "resolution_conflict (Cat_Knowledge Changed_Since_Loaded) = True"
| "resolution_conflict _ = False"

definition correction_error :: "catalog_error \<Rightarrow> governance_error" where
  "correction_error e =
     (case e of Cat_Knowledge k \<Rightarrow> if resolution_conflict e then Gov_Concurrency k else Gov_Store e
              | _ \<Rightarrow> Gov_Store e)"

text \<open>
  The description of a correction: the one given, or the current one when it is absent or
  blank.
\<close>

definition final_description :: "semantic_resolution option \<Rightarrow> string option \<Rightarrow> string" where
  "final_description current description =
     (let given = (case description of None \<Rightarrow> [] | Some x \<Rightarrow> strip x)
      in if given = [] then (case current of None \<Rightarrow> [] | Some r \<Rightarrow> sr_description r) else given)"

definition correct_semantic ::
  "catalog_store \<Rightarrow> string \<Rightarrow> string \<Rightarrow> string \<Rightarrow> string \<Rightarrow> string option \<Rightarrow> string option
     \<Rightarrow> timestamp option \<Rightarrow> string \<Rightarrow> timestamp \<Rightarrow> timestamp
     \<Rightarrow> (governance_error + semantic_definition \<times> semantic_resolution) \<times> catalog_store" where
  "correct_semantic s t d ref actor description reason expected i created now =
     (case latest_context s t d of
        Inl e \<Rightarrow> (Inl e, s)
      | Inr (v, refs) \<Rightarrow>
          if ref \<notin> set refs then (Inl Gov_Object_Unknown, s)
          else
            (let text = final_description (get_semantic_resolution (ct_knowledge s) t d ref) description
             in if text = [] then (Inl Gov_Description_Required, s)
                else
                  (let x = \<lparr>sd_tenant_id = t, sd_catalog_version_id = cv_id v, sd_object_ref = ref,
                            sd_description = text, sd_status = CONFIRMED, sd_source = ''human_correction'',
                            sd_confidence = PFin 1, sd_actor_id = Some actor, sd_reason = reason,
                            sd_id = i, sd_created_at = created\<rparr>
                   in case semantic_definition_post_init x of
                        Inl e \<Rightarrow> (Inl (Gov_Evidence e), s)
                      | Inr _ \<Rightarrow>
                          (case propose_semantic s x True expected now of
                             (Inl e, s') \<Rightarrow> (Inl (correction_error e), s')
                           | (Inr (r, _), s') \<Rightarrow> (Inr (x, r), s')))))"

section \<open>The schema explorer\<close>

record semantic_explorer_entry =
  sxe_description :: string
  sxe_status :: epistemic_status
  sxe_confidence :: pyfloat
  sxe_updated_at :: timestamp

definition semantic_entry :: "semantic_resolution option \<Rightarrow> semantic_explorer_entry option" where
  "semantic_entry r = map_option (\<lambda>x. \<lparr>sxe_description = sr_description x, sxe_status = sr_status x,
     sxe_confidence = sr_confidence x, sxe_updated_at = sr_updated_at x\<rparr>) r"

record column_explorer_entry =
  cxe_name :: string
  cxe_physical_type :: string
  cxe_ordinal :: int
  cxe_nullable :: bool
  cxe_classification :: classification
  cxe_default_expression :: "string option"
  cxe_is_primary_key :: bool
  cxe_semantics :: "semantic_explorer_entry option"

record object_explorer_entry =
  oxe_id :: string
  oxe_reference :: string
  oxe_schema_name :: string
  oxe_name :: string
  oxe_kind :: object_kind
  oxe_definition_sql :: "string option"
  oxe_semantics :: "semantic_explorer_entry option"
  oxe_columns :: "column_explorer_entry list"

record relationship_explorer_entry =
  rxe_name :: string
  rxe_source_object_ref :: string
  rxe_target_object_ref :: string
  rxe_source_columns :: "string list"
  rxe_target_columns :: "string list"
  rxe_status :: epistemic_status
  rxe_confidence :: pyfloat

record schema_explorer_snapshot =
  ses_data_source_id :: string
  ses_catalog_version_id :: string
  ses_catalog_version :: int
  ses_created_at :: timestamp
  ses_objects :: "object_explorer_entry list"
  ses_relationships :: "relationship_explorer_entry list"

text \<open>
  The dict \<open>semantics\<close> of the source's resolutions by reference, in the order of
  \<open>list_semantic_resolutions\<close>; a later entry replaces an earlier one.
\<close>

definition semantics_by_ref :: "catalog_store \<Rightarrow> string \<Rightarrow> string \<Rightarrow> string \<Rightarrow> semantic_resolution option" where
  "semantics_by_ref s t d =
     map_of (rev (map (\<lambda>r. (sr_object_ref r, r)) (list_semantic_resolutions (ct_knowledge s) t d {})))"

definition column_entry ::
  "(string \<Rightarrow> semantic_resolution option) \<Rightarrow> schema_object \<Rightarrow> column_definition \<Rightarrow> column_explorer_entry" where
  "column_entry semantics so c =
     \<lparr>cxe_name = cd_name c, cxe_physical_type = cd_physical_type c, cxe_ordinal = cd_ordinal c,
      cxe_nullable = cd_nullable c, cxe_classification = cd_classification c,
      cxe_default_expression = cd_default_expression c, cxe_is_primary_key = cd_is_primary_key c,
      cxe_semantics = semantic_entry (semantics (column_reference so c))\<rparr>"

text \<open>\<open>columns_by_object\<close>: the columns of the version grouped by their object.\<close>

definition object_entry ::
  "(string \<Rightarrow> semantic_resolution option) \<Rightarrow> column_definition list \<Rightarrow> schema_object
     \<Rightarrow> object_explorer_entry" where
  "object_entry semantics columns so =
     \<lparr>oxe_id = so_id so, oxe_reference = so_reference so, oxe_schema_name = so_schema_name so,
      oxe_name = so_name so, oxe_kind = so_kind so, oxe_definition_sql = so_definition_sql so,
      oxe_semantics = semantic_entry (semantics (so_reference so)),
      oxe_columns = map (column_entry semantics so)
        (filter (\<lambda>c. cd_schema_object_id c = so_id so) columns)\<rparr>"

definition relationship_entry ::
  "(string \<times> string) list \<Rightarrow> relationship \<Rightarrow> governance_error + relationship_explorer_entry" where
  "relationship_entry refs r =
     (case (map_of refs (rl_source_object_id r), map_of refs (rl_target_object_id r)) of
        (Some src, Some tgt) \<Rightarrow> Inr
          \<lparr>rxe_name = rl_name r, rxe_source_object_ref = src, rxe_target_object_ref = tgt,
           rxe_source_columns = rl_source_columns r, rxe_target_columns = rl_target_columns r,
           rxe_status = rl_status r, rxe_confidence = rl_confidence r\<rparr>
      | _ \<Rightarrow> Inl Gov_Key_Error)"

definition explore_latest ::
  "catalog_store \<Rightarrow> string \<Rightarrow> string \<Rightarrow> governance_error + schema_explorer_snapshot" where
  "explore_latest s t d =
     (if catalog_source s t d = None then Inl Gov_Source_Missing
      else case latest_version s t d of
        None \<Rightarrow> Inl Gov_Not_Ingested
      | Some v \<Rightarrow>
          (let objects = objects_of s t (cv_id v);
               columns = version_columns s t (cv_id v);
               semantics = semantics_by_ref s t d;
               refs = rev (map (\<lambda>so. (so_id so, so_reference so)) objects)
           in bind_result (collect_results (map (relationship_entry refs) (relationships_of s t (cv_id v))))
                (\<lambda>rels. Inr
                  \<lparr>ses_data_source_id = d, ses_catalog_version_id = cv_id v,
                   ses_catalog_version = cv_version v, ses_created_at = cv_created_at v,
                   ses_objects = map (object_entry semantics columns) objects,
                   ses_relationships = rels\<rparr>)))"

end
