(* ===== verification/Catalog_Ingestion.thy ===== *)
theory Catalog_Ingestion
  imports Catalog_Store Contracts
begin

text \<open>
  Ingestion of a schema snapshot, \<open>catalog/ingestion.py\<close>, and the offline imports of
  \<open>catalog/offline_import.py\<close>.  A snapshot is validated as a whole and then written by the
  catalog's operations one by one, each in a transaction of its own: an operation that raises
  leaves what the earlier ones committed.  A connector or DDL parser is a function argument.
  Identifiers and clock readings are drawn in order from an environment, by a counter.
  Ingestion is modelled as one process runs it.
\<close>

section \<open>Validation\<close>

datatype snapshot_error =
    Snap_Other_Source | Snap_Other_Dialect | Snap_Duplicate_Objects | Snap_Duplicate_Columns string
  | Snap_Duplicate_Ordinals string | Snap_Duplicate_Relationships | Snap_Unknown_Object string
  | Snap_Unknown_Source_Columns string | Snap_Unknown_Target_Columns string

datatype ingestion_error =
    Ing_Source_Missing | Ing_Connector_Missing string | Ing_Connector_Failed string
  | Ing_Invalid_Snapshot snapshot_error | Ing_Catalog catalog_error | Ing_Unknown_Reference
  | Ing_Mode data_source_type | Ing_No_Parser | Ing_Schema_Required | Ing_Parse_Error string

text \<open>The dict \<open>objects_by_ref\<close>: the last object of a reference wins.\<close>

definition objects_by_ref :: "schema_object_snapshot list \<Rightarrow> string \<Rightarrow> schema_object_snapshot option" where
  "objects_by_ref objs r = map_of (rev (map (\<lambda>x. (os_reference x, x)) objs)) r"

fun object_error :: "schema_object_snapshot \<Rightarrow> snapshot_error option" where
  "object_error x =
     (if has_duplicates (map cs_name (os_columns x)) then Some (Snap_Duplicate_Columns (os_reference x))
      else if has_duplicates (map cs_ordinal (os_columns x))
      then Some (Snap_Duplicate_Ordinals (os_reference x)) else None)"

definition relationship_error ::
  "schema_object_snapshot list \<Rightarrow> relationship_snapshot \<Rightarrow> snapshot_error option" where
  "relationship_error objs r =
     (case (objects_by_ref objs (rs_source_object_ref r), objects_by_ref objs (rs_target_object_ref r)) of
        (Some src, Some tgt) \<Rightarrow>
          if \<not> set (rs_source_columns r) \<subseteq> set (map cs_name (os_columns src))
          then Some (Snap_Unknown_Source_Columns (rs_name r))
          else if \<not> set (rs_target_columns r) \<subseteq> set (map cs_name (os_columns tgt))
          then Some (Snap_Unknown_Target_Columns (rs_name r)) else None
      | _ \<Rightarrow> Some (Snap_Unknown_Object (rs_name r)))"

fun first_error :: "('a \<Rightarrow> 'e option) \<Rightarrow> 'a list \<Rightarrow> 'e option" where
  "first_error f [] = None"
| "first_error f (x # xs) = (case f x of Some e \<Rightarrow> Some e | None \<Rightarrow> first_error f xs)"

definition validate_snapshot :: "data_source_snapshot \<Rightarrow> string \<Rightarrow> string \<Rightarrow> ingestion_error + unit" where
  "validate_snapshot snap expected_source expected_dialect =
     (if dn_data_source_id snap \<noteq> expected_source then Inl (Ing_Invalid_Snapshot Snap_Other_Source)
      else if casefold (dn_dialect snap) \<noteq> casefold expected_dialect
      then Inl (Ing_Invalid_Snapshot Snap_Other_Dialect)
      else if has_duplicates (map os_reference (dn_objects snap))
      then Inl (Ing_Invalid_Snapshot Snap_Duplicate_Objects)
      else case first_error object_error (dn_objects snap) of
        Some e \<Rightarrow> Inl (Ing_Invalid_Snapshot e)
      | None \<Rightarrow>
          if has_duplicates (map rs_name (dn_relationships snap))
          then Inl (Ing_Invalid_Snapshot Snap_Duplicate_Relationships)
          else case first_error (relationship_error (dn_objects snap)) (dn_relationships snap) of
            Some e \<Rightarrow> Inl (Ing_Invalid_Snapshot e)
          | None \<Rightarrow> Inr ())"

section \<open>Writing a snapshot\<close>

record id_supply =
  su_uuid :: "nat \<Rightarrow> string"
  su_clock :: "nat \<Rightarrow> timestamp"

type_synonym 'a ingesting = "(ingestion_error + 'a) \<times> catalog_store \<times> nat"

text \<open>
  \<open>_import_description\<close>: the definition draws an identifier and its creation time, the
  proposal the time of the resolution.
\<close>

definition import_description ::
  "id_supply \<Rightarrow> string \<Rightarrow> string \<Rightarrow> string \<Rightarrow> string \<Rightarrow> string \<Rightarrow> catalog_store \<Rightarrow> nat \<Rightarrow> unit ingesting" where
  "import_description su t v ref description src s n =
     (let d = \<lparr>sd_tenant_id = t, sd_catalog_version_id = v, sd_object_ref = ref,
               sd_description = description, sd_status = IMPORTED, sd_source = src,
               sd_confidence = PFin 1, sd_actor_id = None, sd_reason = None,
               sd_id = su_uuid su n, sd_created_at = su_clock su n\<rparr>
      in case semantic_definition_post_init d of
           Inl e \<Rightarrow> (Inl (Ing_Catalog (Cat_Evidence e)), s, Suc n)
         | Inr _ \<Rightarrow>
             (case propose_semantic s d False None (su_clock su (Suc n)) of
                (Inl e, s') \<Rightarrow> (Inl (Ing_Catalog e), s', Suc (Suc n))
              | (Inr _, s') \<Rightarrow> (Inr (), s', Suc (Suc n))))"

text \<open>\<open>if comment:\<close>, true of a non-empty string; the count of imported descriptions.\<close>

definition import_comment ::
  "id_supply \<Rightarrow> string \<Rightarrow> string \<Rightarrow> string \<Rightarrow> string option \<Rightarrow> string \<Rightarrow> catalog_store \<Rightarrow> nat \<Rightarrow> nat ingesting" where
  "import_comment su t v ref comment src s n =
     (case comment of
        None \<Rightarrow> (Inr 0, s, n)
      | Some c \<Rightarrow>
          if c = [] then (Inr 0, s, n)
          else case import_description su t v ref c src s n of
                 (Inl e, s', n') \<Rightarrow> (Inl e, s', n')
               | (Inr _, s', n') \<Rightarrow> (Inr 1, s', n'))"

fun import_columns ::
  "id_supply \<Rightarrow> string \<Rightarrow> string \<Rightarrow> string \<Rightarrow> string \<Rightarrow> string \<Rightarrow> column_snapshot list \<Rightarrow> catalog_store \<Rightarrow> nat
     \<Rightarrow> nat ingesting" where
  "import_columns su t v ref obj src [] s n = (Inr 0, s, n)"
| "import_columns su t v ref obj src (c # cs) s n =
     (case create_column s t obj (cs_name c) (cs_physical_type c) (cs_ordinal c) (cs_nullable c)
             (cs_classification c) (cs_default_expression c) (cs_is_primary_key c) (su_uuid su n) of
        (Inl e, s1) \<Rightarrow> (Inl (Ing_Catalog e), s1, Suc n)
      | (Inr _, s1) \<Rightarrow>
          (case import_comment su t v (ref @ ''.'' @ cs_name c) (cs_comment c) src s1 (Suc n) of
             (Inl e, s2, n2) \<Rightarrow> (Inl e, s2, n2)
           | (Inr k, s2, n2) \<Rightarrow>
               (case import_columns su t v ref obj src cs s2 n2 of
                  (Inl e, s3, n3) \<Rightarrow> (Inl e, s3, n3)
                | (Inr ks, s3, n3) \<Rightarrow> (Inr (k + ks), s3, n3))))"

text \<open>The object loop returns the identifiers by reference, and the counts.\<close>

type_synonym object_ids = "(string \<times> string) list"

fun import_objects ::
  "id_supply \<Rightarrow> string \<Rightarrow> string \<Rightarrow> string \<Rightarrow> string \<Rightarrow> schema_object_snapshot list \<Rightarrow> catalog_store \<Rightarrow> nat
     \<Rightarrow> (object_ids \<times> nat \<times> nat) ingesting" where
  "import_objects su t d v src [] s n = (Inr ([], 0, 0), s, n)"
| "import_objects su t d v src (x # xs) s n =
     (case create_schema_object s t d v (os_schema_name x) (os_name x) (os_kind x) (os_definition_sql x)
             (su_uuid su n) of
        (Inl e, s1) \<Rightarrow> (Inl (Ing_Catalog e), s1, Suc n)
      | (Inr so, s1) \<Rightarrow>
          (case import_comment su t v (os_reference x) (os_comment x) src s1 (Suc n) of
             (Inl e, s2, n2) \<Rightarrow> (Inl e, s2, n2)
           | (Inr k, s2, n2) \<Rightarrow>
               (case import_columns su t v (os_reference x) (so_id so) src (os_columns x) s2 n2 of
                  (Inl e, s3, n3) \<Rightarrow> (Inl e, s3, n3)
                | (Inr ks, s3, n3) \<Rightarrow>
                    (case import_objects su t d v src xs s3 n3 of
                       (Inl e, s4, n4) \<Rightarrow> (Inl e, s4, n4)
                     | (Inr (ids, cols, descs), s4, n4) \<Rightarrow>
                         (Inr ((os_reference x, so_id so) # ids, length (os_columns x) + cols,
                               k + ks + descs), s4, n4)))))"

fun import_relationships ::
  "id_supply \<Rightarrow> string \<Rightarrow> string \<Rightarrow> object_ids \<Rightarrow> relationship_snapshot list \<Rightarrow> catalog_store \<Rightarrow> nat
     \<Rightarrow> unit ingesting" where
  "import_relationships su t v ids [] s n = (Inr (), s, n)"
| "import_relationships su t v ids (r # rs) s n =
     (case (map_of ids (rs_source_object_ref r), map_of ids (rs_target_object_ref r)) of
        (Some src, Some tgt) \<Rightarrow>
          (case create_relationship s t v src tgt (rs_name r) (rs_source_columns r) (rs_target_columns r)
                  IMPORTED ''database_foreign_key'' (PFin 1) (su_uuid su n) of
             (Inl e, s1) \<Rightarrow> (Inl (Ing_Catalog e), s1, Suc n)
           | (Inr _, s1) \<Rightarrow> import_relationships su t v ids rs s1 (Suc n))
      | _ \<Rightarrow> (Inl Ing_Unknown_Reference, s, n))"

record ingestion_report =
  ir_catalog_version_id :: string
  ir_catalog_version :: int
  ir_object_count :: nat
  ir_column_count :: nat
  ir_relationship_count :: nat
  ir_imported_description_count :: nat

definition ingest_snapshot ::
  "id_supply \<Rightarrow> string \<Rightarrow> string \<Rightarrow> data_source_snapshot \<Rightarrow> string \<Rightarrow> catalog_store \<Rightarrow> nat
     \<Rightarrow> ingestion_report ingesting" where
  "ingest_snapshot su t d snap src s n =
     (case catalog_source s t d of
        None \<Rightarrow> (Inl Ing_Source_Missing, s, n)
      | Some ds \<Rightarrow>
          (case validate_snapshot snap d (ds_dialect ds) of
             Inl e \<Rightarrow> (Inl e, s, n)
           | Inr _ \<Rightarrow>
               (case create_catalog_version (\<lambda>s. s) s t d (su_uuid su n) (su_clock su n) of
                  (Inl e, s1) \<Rightarrow> (Inl (Ing_Catalog e), s1, Suc n)
                | (Inr v, s1) \<Rightarrow>
                    (case import_objects su t d (cv_id v) src (dn_objects snap) s1 (Suc n) of
                       (Inl e, s2, n2) \<Rightarrow> (Inl e, s2, n2)
                     | (Inr (ids, cols, descs), s2, n2) \<Rightarrow>
                         (case import_relationships su t (cv_id v) ids (dn_relationships snap) s2 n2 of
                            (Inl e, s3, n3) \<Rightarrow> (Inl e, s3, n3)
                          | (Inr _, s3, n3) \<Rightarrow>
                              (Inr \<lparr>ir_catalog_version_id = cv_id v, ir_catalog_version = cv_version v,
                                    ir_object_count = length (dn_objects snap), ir_column_count = cols,
                                    ir_relationship_count = length (dn_relationships snap),
                                    ir_imported_description_count = descs\<rparr>, s3, n3))))))"

section \<open>Connectors and offline imports\<close>

text \<open>
  The registered connectors, keyed by folded dialect, and what introspecting a source gives:
  a snapshot or an exception of the named type.
\<close>

type_synonym connectors =
  "(string \<times> ((data_source \<Rightarrow> string + data_source_snapshot) \<times> (data_source \<Rightarrow> string list))) list"

definition find_connector ::
  "connectors \<Rightarrow> string \<Rightarrow> ((data_source \<Rightarrow> string + data_source_snapshot) \<times> (data_source \<Rightarrow> string list)) option" where
  "find_connector cs dialect = map_of (rev (map (\<lambda>(k, c). (casefold k, c)) cs)) (casefold dialect)"

definition ingest ::
  "id_supply \<Rightarrow> connectors \<Rightarrow> string \<Rightarrow> string \<Rightarrow> catalog_store \<Rightarrow> nat \<Rightarrow> ingestion_report ingesting" where
  "ingest su cs t d s n =
     (case catalog_source s t d of
        None \<Rightarrow> (Inl Ing_Source_Missing, s, n)
      | Some ds \<Rightarrow>
          (case find_connector cs (ds_dialect ds) of
             None \<Rightarrow> (Inl (Ing_Connector_Missing (ds_dialect ds)), s, n)
           | Some (introspect, _) \<Rightarrow>
               (case introspect ds of
                  Inl e \<Rightarrow> (Inl (Ing_Connector_Failed e), s, n)
                | Inr snap \<Rightarrow> ingest_snapshot su t d snap ''database_comment'' s n)))"

record connection_test_report =
  tr_data_source_id :: string
  tr_dialect :: string
  tr_object_count :: nat
  tr_relationship_count :: nat
  tr_capabilities :: "string list"

definition test_connection ::
  "connectors \<Rightarrow> string \<Rightarrow> string \<Rightarrow> catalog_store \<Rightarrow> (ingestion_error + connection_test_report) \<times> catalog_store" where
  "test_connection cs t d s =
     (case catalog_source s t d of
        None \<Rightarrow> (Inl Ing_Source_Missing, s)
      | Some ds \<Rightarrow>
          (case find_connector cs (ds_dialect ds) of
             None \<Rightarrow> (Inl (Ing_Connector_Missing (ds_dialect ds)), s)
           | Some (introspect, capabilities) \<Rightarrow>
               (case bind_result (map_sum Ing_Connector_Failed id (introspect ds)) (\<lambda>snap.
                     bind_result (validate_snapshot snap d (ds_dialect ds)) (\<lambda>_.
                       Inr \<lparr>tr_data_source_id = d, tr_dialect = ds_dialect ds,
                            tr_object_count = length (dn_objects snap),
                            tr_relationship_count = length (dn_relationships snap),
                            tr_capabilities = sort (capabilities ds)\<rparr>)) of
                  Inl e \<Rightarrow> (Inl e, snd (record_source_activity s t d ''data_source.connection_test_failed''))
                | Inr r \<Rightarrow> (Inr r, snd (record_source_activity s t d ''data_source.connection_test_succeeded'')))))"

definition require_source_type ::
  "catalog_store \<Rightarrow> string \<Rightarrow> string \<Rightarrow> data_source_type list \<Rightarrow> ingestion_error + data_source" where
  "require_source_type s t d allowed =
     (case catalog_source s t d of
        None \<Rightarrow> Inl Ing_Source_Missing
      | Some ds \<Rightarrow> if ds_source_type ds \<in> set allowed then Inr ds else Inl (Ing_Mode (ds_source_type ds)))"

definition import_manual ::
  "id_supply \<Rightarrow> string \<Rightarrow> string \<Rightarrow> data_source_snapshot \<Rightarrow> catalog_store \<Rightarrow> nat \<Rightarrow> ingestion_report ingesting" where
  "import_manual su t d snap s n =
     (case require_source_type s t d [MANUAL_SCHEMA, HYBRID] of
        Inl e \<Rightarrow> (Inl e, s, n)
      | Inr ds \<Rightarrow> ingest_snapshot su t d (snap\<lparr>dn_dialect := ds_dialect ds\<rparr>) ''database_comment'' s n)"

text \<open>
  The DDL parsers are keyed by folded dialect; a parser takes the source, the text and the
  schema and gives a snapshot or a parse error.
\<close>

type_synonym ddl_parsers = "(string \<times> (string \<Rightarrow> string \<Rightarrow> string \<Rightarrow> string + data_source_snapshot)) list"

definition default_ddl_schema :: "string \<Rightarrow> string option" where
  "default_ddl_schema dialect =
     (if casefold dialect \<in> {''postgres'', ''postgresql''} then Some ''public''
      else if casefold dialect \<in> {''mssql'', ''sqlserver'', ''tsql''} then Some ''dbo'' else None)"

definition import_ddl ::
  "id_supply \<Rightarrow> ddl_parsers \<Rightarrow> string \<Rightarrow> string \<Rightarrow> string \<Rightarrow> string option \<Rightarrow> catalog_store \<Rightarrow> nat
     \<Rightarrow> ingestion_report ingesting" where
  "import_ddl su parsers t d ddl schema s n =
     (case require_source_type s t d [DDL_IMPORT, HYBRID] of
        Inl e \<Rightarrow> (Inl e, s, n)
      | Inr ds \<Rightarrow>
          (case map_of (rev (map (\<lambda>(k, p). (casefold k, p)) parsers)) (casefold (ds_dialect ds)) of
             None \<Rightarrow> (Inl Ing_No_Parser, s, n)
           | Some parse \<Rightarrow>
               (case (case schema of Some x \<Rightarrow> Some x | None \<Rightarrow> default_ddl_schema (ds_dialect ds)) of
                  None \<Rightarrow> (Inl Ing_Schema_Required, s, n)
                | Some x \<Rightarrow>
                    (case parse d ddl x of
                       Inl e \<Rightarrow> (Inl (Ing_Parse_Error e), s, n)
                     | Inr snap \<Rightarrow> ingest_snapshot su t d snap ''database_comment'' s n))))"

end
