(* ===== verification/Ingestion_Safety.thy ===== *)
theory Ingestion_Safety
  imports Catalog_Ingestion Governed_Store
begin

text \<open>
  What ingestion does to the catalog: a success writes a new latest version that lists exactly
  the objects, columns and relationships of the snapshot and leaves the earlier versions as
  they were.
\<close>

section \<open>Sorting and views\<close>

lemma insort_key_map: "map g (insort_key (\<lambda>x. f (g x)) x xs) = insort_key f (g x) (map g xs)"
  by (induction xs) simp_all

lemma sort_key_map: "map g (sort_key (\<lambda>x. f (g x)) xs) = sort_key f (map g xs)"
  by (induction xs) (simp_all add: insort_key_map)

type_synonym column_view =
  "string \<times> string \<times> int \<times> bool \<times> classification \<times> string option \<times> bool"

definition column_view :: "column_definition \<Rightarrow> column_view" where
  "column_view c = (cd_name c, cd_physical_type c, cd_ordinal c, cd_nullable c, cd_classification c,
     cd_default_expression c, cd_is_primary_key c)"

definition column_snapshot_view :: "column_snapshot \<Rightarrow> column_view" where
  "column_snapshot_view c = (strip (cs_name c), strip (cs_physical_type c), cs_ordinal c, cs_nullable c,
     cs_classification c, cs_default_expression c, cs_is_primary_key c)"

fun view_ordinal :: "column_view \<Rightarrow> int" where
  "view_ordinal (_, _, i, _) = i"

lemma view_ordinal_simps [simp]:
  "view_ordinal (column_view c) = cd_ordinal c" "view_ordinal (column_snapshot_view d) = cs_ordinal d"
  by (simp_all add: column_view_def column_snapshot_view_def)

type_synonym object_view = "string \<times> string \<times> object_kind \<times> string option \<times> column_view list"

definition object_view :: "catalog_store \<Rightarrow> string \<Rightarrow> schema_object \<Rightarrow> object_view" where
  "object_view s t so = (so_schema_name so, so_name so, so_kind so, so_definition_sql so,
     map column_view (columns_of s t (so_id so)))"

definition object_snapshot_view :: "schema_object_snapshot \<Rightarrow> object_view" where
  "object_snapshot_view x = (strip (os_schema_name x), strip (os_name x), os_kind x, os_definition_sql x,
     map column_snapshot_view (sort_key cs_ordinal (os_columns x)))"

fun view_names :: "object_view \<Rightarrow> string \<times> string" where
  "view_names (a, b, _) = (a, b)"

lemma view_names_simps [simp]:
  "view_names (object_view s t so) = (so_schema_name so, so_name so)"
  "view_names (object_snapshot_view x) = (strip (os_schema_name x), strip (os_name x))"
  by (simp_all add: object_view_def object_snapshot_view_def)

section \<open>The pieces of an import\<close>

definition same_physical :: "catalog_store \<Rightarrow> catalog_store \<Rightarrow> bool" where
  "same_physical s s' = (ct_objects s' = ct_objects s \<and> ct_columns s' = ct_columns s
     \<and> ct_relationships s' = ct_relationships s \<and> ct_sources s' = ct_sources s
     \<and> ct_versions s' = ct_versions s)"

lemma propose_semantic_same: "propose_semantic s d e x n = (r, s') \<Longrightarrow> same_physical s s'"
  unfolding propose_semantic_def same_physical_def
  by (auto split: prod.splits sum.splits dest: propose_semantic_versions)

lemma import_description_same:
  "import_description su t v ref txt src s n = (r, s', n') \<Longrightarrow> same_physical s s'"
  unfolding import_description_def Let_def
  by (auto simp: same_physical_def split: prod.splits sum.splits dest: propose_semantic_same[unfolded same_physical_def])

lemma import_comment_same:
  "import_comment su t v ref c src s n = (r, s', n') \<Longrightarrow> same_physical s s'"
  unfolding import_comment_def
  by (auto simp: same_physical_def split: option.splits prod.splits sum.splits if_splits
      dest: import_description_same[unfolded same_physical_def])

lemma create_column_Inr:
  assumes "create_column s t obj nm ph i nl cl de pk cid = (Inr c, s')"
  shows "s' = append_catalog_audit (Column_Created cid obj cl) (s\<lparr>ct_columns := ct_columns s @ [c]\<rparr>)
    \<and> c = \<lparr>cd_tenant_id = t, cd_schema_object_id = obj, cd_name = strip nm,
           cd_physical_type = strip ph, cd_ordinal = i, cd_nullable = nl, cd_classification = cl,
           cd_default_expression = de, cd_is_primary_key = pk, cd_id = cid\<rparr>"
  using assms unfolding create_column_def Let_def by (auto split: if_splits sum.splits)

lemma import_columns_Inr:
  "import_columns su t v ref obj src cs s n = (Inr k, s', n') \<Longrightarrow>
    \<exists>new. ct_columns s' = ct_columns s @ new \<and> map column_view new = map column_snapshot_view cs
      \<and> (\<forall>c \<in> set new. cd_tenant_id c = t \<and> cd_schema_object_id c = obj)
      \<and> ct_objects s' = ct_objects s \<and> ct_relationships s' = ct_relationships s
      \<and> ct_sources s' = ct_sources s \<and> ct_versions s' = ct_versions s"
proof (induction cs arbitrary: s n k s' n')
  case (Cons x xs)
  obtain c s1 k1 s2 n2 k2 where step:
    "create_column s t obj (cs_name x) (cs_physical_type x) (cs_ordinal x) (cs_nullable x)
       (cs_classification x) (cs_default_expression x) (cs_is_primary_key x) (su_uuid su n) = (Inr c, s1)"
    "import_comment su t v (ref @ ''.'' @ cs_name x) (cs_comment x) src s1 (Suc n) = (Inr k1, s2, n2)"
    "import_columns su t v ref obj src xs s2 n2 = (Inr k2, s', n')"
    using Cons.prems by (auto split: prod.splits sum.splits)
  have c: "column_view c = column_snapshot_view x \<and> cd_tenant_id c = t \<and> cd_schema_object_id c = obj"
    using create_column_Inr[OF step(1)] by (auto simp: column_view_def column_snapshot_view_def)
  have s1: "ct_columns s1 = ct_columns s @ [c]" "ct_objects s1 = ct_objects s"
    "ct_relationships s1 = ct_relationships s" "ct_sources s1 = ct_sources s" "ct_versions s1 = ct_versions s"
    using create_column_Inr[OF step(1)] by (auto simp: append_catalog_audit_def)
  have s2: "ct_columns s2 = ct_columns s1" "ct_objects s2 = ct_objects s1"
    "ct_relationships s2 = ct_relationships s1" "ct_sources s2 = ct_sources s1" "ct_versions s2 = ct_versions s1"
    using import_comment_same[OF step(2)] by (simp_all add: same_physical_def)
  obtain new where new: "ct_columns s' = ct_columns s2 @ new"
    "map column_view new = map column_snapshot_view xs"
    "\<forall>c \<in> set new. cd_tenant_id c = t \<and> cd_schema_object_id c = obj"
    "ct_objects s' = ct_objects s2" "ct_relationships s' = ct_relationships s2"
    "ct_sources s' = ct_sources s2" "ct_versions s' = ct_versions s2"
    using Cons.IH[OF step(3)] by blast
  show ?case
    using c s1 s2 new by (intro exI[of _ "c # new"]) simp
qed simp

text \<open>What the object loop adds: an object and its columns for each snapshot object.\<close>

definition object_matches :: "string \<Rightarrow> string \<Rightarrow> schema_object_snapshot \<Rightarrow> schema_object \<Rightarrow> bool" where
  "object_matches t v x so =
     (so_tenant_id so = t \<and> so_catalog_version_id so = v \<and> so_schema_name so = strip (os_schema_name x)
      \<and> so_name so = strip (os_name x) \<and> so_kind so = os_kind x
      \<and> so_definition_sql so = os_definition_sql x)"

definition columns_match :: "string \<Rightarrow> schema_object_snapshot \<Rightarrow> schema_object \<times> column_definition list \<Rightarrow> bool" where
  "columns_match t x p =
     (map column_view (snd p) = map column_snapshot_view (os_columns x)
      \<and> (\<forall>c \<in> set (snd p). cd_tenant_id c = t \<and> cd_schema_object_id c = so_id (fst p)))"

lemma create_object_Inr:
  assumes "create_schema_object s t d v sn nm kd df i = (Inr so, s')"
  shows "s' = append_catalog_audit (Object_Created i v kd) (s\<lparr>ct_objects := ct_objects s @ [so]\<rparr>)
    \<and> so = \<lparr>so_tenant_id = t, so_data_source_id = d, so_catalog_version_id = v,
            so_schema_name = strip sn, so_name = strip nm, so_kind = kd,
            so_definition_sql = df, so_id = i\<rparr>
    \<and> i \<notin> so_id ` set (ct_objects s)"
  using assms unfolding create_schema_object_def Let_def by (auto split: if_splits)

lemma import_objects_Inr:
  "import_objects su t d v src xs s n = (Inr (ids, cols, descs), s', n') \<Longrightarrow>
    \<exists>new. ct_objects s' = ct_objects s @ map fst new
      \<and> ct_columns s' = ct_columns s @ concat (map snd new)
      \<and> list_all2 (\<lambda>x p. object_matches t v x (fst p) \<and> columns_match t x p) xs new
      \<and> ids = map2 (\<lambda>x p. (os_reference x, so_id (fst p))) xs new
      \<and> distinct (map (\<lambda>p. so_id (fst p)) new)
      \<and> (\<forall>p \<in> set new. so_id (fst p) \<notin> so_id ` set (ct_objects s))
      \<and> ct_relationships s' = ct_relationships s \<and> ct_sources s' = ct_sources s
      \<and> ct_versions s' = ct_versions s"
proof (induction xs arbitrary: s n ids cols descs s' n')
  case (Cons x xs)
  obtain so s1 k1 s2 n2 k2 s3 n3 ids' cols' descs' where step:
    "create_schema_object s t d v (os_schema_name x) (os_name x) (os_kind x) (os_definition_sql x)
       (su_uuid su n) = (Inr so, s1)"
    "import_comment su t v (os_reference x) (os_comment x) src s1 (Suc n) = (Inr k1, s2, n2)"
    "import_columns su t v (os_reference x) (so_id so) src (os_columns x) s2 n2 = (Inr k2, s3, n3)"
    "import_objects su t d v src xs s3 n3 = (Inr (ids', cols', descs'), s', n')"
    "ids = (os_reference x, so_id so) # ids'"
    using Cons.prems by (auto split: prod.splits sum.splits)
  have so: "object_matches t v x so" "so_id so \<notin> so_id ` set (ct_objects s)"
    using create_object_Inr[OF step(1)] by (auto simp: object_matches_def)
  have s1: "ct_columns s1 = ct_columns s" "ct_objects s1 = ct_objects s @ [so]"
    "ct_relationships s1 = ct_relationships s" "ct_sources s1 = ct_sources s" "ct_versions s1 = ct_versions s"
    using create_object_Inr[OF step(1)] by (auto simp: append_catalog_audit_def)
  have s2: "ct_columns s2 = ct_columns s1" "ct_objects s2 = ct_objects s1"
    "ct_relationships s2 = ct_relationships s1" "ct_sources s2 = ct_sources s1" "ct_versions s2 = ct_versions s1"
    using import_comment_same[OF step(2)] by (simp_all add: same_physical_def)
  obtain cs where cs: "ct_columns s3 = ct_columns s2 @ cs" "columns_match t x (so, cs)"
    "ct_objects s3 = ct_objects s2" "ct_relationships s3 = ct_relationships s2"
    "ct_sources s3 = ct_sources s2" "ct_versions s3 = ct_versions s2"
    using import_columns_Inr[OF step(3)] by (auto simp: columns_match_def)
  obtain new where new: "ct_objects s' = ct_objects s3 @ map fst new"
    "ct_columns s' = ct_columns s3 @ concat (map snd new)"
    "list_all2 (\<lambda>x p. object_matches t v x (fst p) \<and> columns_match t x p) xs new"
    "ids' = map2 (\<lambda>x p. (os_reference x, so_id (fst p))) xs new"
    "distinct (map (\<lambda>p. so_id (fst p)) new)"
    "\<forall>p \<in> set new. so_id (fst p) \<notin> so_id ` set (ct_objects s3)"
    "ct_relationships s' = ct_relationships s3" "ct_sources s' = ct_sources s3"
    "ct_versions s' = ct_versions s3"
    using Cons.IH[OF step(4)] by blast
  show ?case
    using so s1 s2 cs new step(5) by (intro exI[of _ "(so, cs) # new"]) (auto simp: image_iff)
qed simp


section \<open>Relationships\<close>

definition object_reference :: "catalog_store \<Rightarrow> string \<Rightarrow> string \<Rightarrow> string option" where
  "object_reference s t i =
     map_option so_reference (fetch_one (\<lambda>x. so_tenant_id x = t \<and> so_id x = i) (ct_objects s))"

type_synonym relationship_view =
  "string \<times> string option \<times> string option \<times> string list \<times> string list \<times> epistemic_status \<times> string \<times> pyfloat"

definition relationship_view :: "catalog_store \<Rightarrow> string \<Rightarrow> relationship \<Rightarrow> relationship_view" where
  "relationship_view s t r =
     (rl_name r, object_reference s t (rl_source_object_id r), object_reference s t (rl_target_object_id r),
      rl_source_columns r, rl_target_columns r, rl_status r, rl_source r, rl_confidence r)"

definition stored_reference :: "schema_object_snapshot \<Rightarrow> string" where
  "stored_reference x = strip (os_schema_name x) @ ''.'' @ strip (os_name x)"

definition relationship_snapshot_view ::
  "schema_object_snapshot list \<Rightarrow> relationship_snapshot \<Rightarrow> relationship_view" where
  "relationship_snapshot_view objs r =
     (strip (rs_name r), map_option stored_reference (objects_by_ref objs (rs_source_object_ref r)),
      map_option stored_reference (objects_by_ref objs (rs_target_object_ref r)),
      rs_source_columns r, rs_target_columns r, IMPORTED, ''database_foreign_key'', PFin 1)"

definition relationship_matches ::
  "string \<Rightarrow> string \<Rightarrow> object_ids \<Rightarrow> relationship_snapshot \<Rightarrow> relationship \<Rightarrow> bool" where
  "relationship_matches t v ids r rel =
     (map_of ids (rs_source_object_ref r) = Some (rl_source_object_id rel)
      \<and> map_of ids (rs_target_object_ref r) = Some (rl_target_object_id rel)
      \<and> rl_tenant_id rel = t \<and> rl_catalog_version_id rel = v \<and> rl_name rel = strip (rs_name r)
      \<and> rl_source_columns rel = rs_source_columns r \<and> rl_target_columns rel = rs_target_columns r
      \<and> rl_status rel = IMPORTED \<and> rl_source rel = ''database_foreign_key'' \<and> rl_confidence rel = PFin 1)"

lemma create_relationship_Inr:
  assumes "create_relationship s t v si ti nm sc tc st sr cf i = (Inr r, s')"
  shows "s' = append_catalog_audit (Relationship_Created i v si ti)
      (s\<lparr>ct_relationships := ct_relationships s @ [r]\<rparr>)
    \<and> r = \<lparr>rl_tenant_id = t, rl_catalog_version_id = v, rl_source_object_id = si,
           rl_target_object_id = ti, rl_name = strip nm, rl_source_columns = sc,
           rl_target_columns = tc, rl_status = st, rl_source = sr, rl_confidence = cf, rl_id = i\<rparr>"
  using assms unfolding create_relationship_def Let_def by (auto split: if_splits sum.splits)

lemma import_relationships_Inr:
  "import_relationships su t v ids rs s n = (Inr u, s', n') \<Longrightarrow>
    \<exists>new. ct_relationships s' = ct_relationships s @ new
      \<and> list_all2 (relationship_matches t v ids) rs new
      \<and> ct_objects s' = ct_objects s \<and> ct_columns s' = ct_columns s
      \<and> ct_sources s' = ct_sources s \<and> ct_versions s' = ct_versions s"
proof (induction rs arbitrary: s n)
  case (Cons r rs)
  obtain si ti rel s1 where step:
    "map_of ids (rs_source_object_ref r) = Some si" "map_of ids (rs_target_object_ref r) = Some ti"
    "create_relationship s t v si ti (rs_name r) (rs_source_columns r) (rs_target_columns r)
        IMPORTED ''database_foreign_key'' (PFin 1) (su_uuid su n) = (Inr rel, s1)"
    "import_relationships su t v ids rs s1 (Suc n) = (Inr u, s', n')"
    using Cons.prems by (auto split: prod.splits sum.splits option.splits)
  have rel: "relationship_matches t v ids r rel"
    using create_relationship_Inr[OF step(3)] step(1,2) by (auto simp: relationship_matches_def)
  have s1: "ct_relationships s1 = ct_relationships s @ [rel]" "ct_objects s1 = ct_objects s"
    "ct_columns s1 = ct_columns s" "ct_sources s1 = ct_sources s" "ct_versions s1 = ct_versions s"
    using create_relationship_Inr[OF step(3)] by (auto simp: append_catalog_audit_def)
  obtain new where "ct_relationships s' = ct_relationships s1 @ new"
    "list_all2 (relationship_matches t v ids) rs new" "ct_objects s' = ct_objects s1"
    "ct_columns s' = ct_columns s1" "ct_sources s' = ct_sources s1" "ct_versions s' = ct_versions s1"
    using Cons.IH[OF step(4)] by blast
  then show ?case using rel s1 by (intro exI[of _ "rel # new"]) simp
qed simp

lemma fetch_one_append: "(\<forall>x \<in> set a. \<not> P x) \<Longrightarrow> fetch_one P (a @ b) = fetch_one P b"
  by (induction a) auto

lemma validated_distinct_references:
  "validate_snapshot snap d dialect = Inr u \<Longrightarrow> distinct (map os_reference (dn_objects snap))"
  unfolding validate_snapshot_def by (auto split: if_splits option.splits)

lemma objects_by_ref_distinct:
  "distinct (map os_reference xs) \<Longrightarrow> x \<in> set xs \<Longrightarrow> objects_by_ref xs (os_reference x) = Some x"
  unfolding objects_by_ref_def by (rule map_of_is_SomeI) (auto simp: rev_map comp_def distinct_map)

definition unique_objects :: "catalog_store \<Rightarrow> string \<Rightarrow> schema_object list \<Rightarrow> bool" where
  "unique_objects s t objs = (\<forall>x \<in> set objs. object_reference s t (so_id x) = Some (so_reference x))"

lemma list_all2_right: "list_all2 P xs ys \<Longrightarrow> y \<in> set ys \<Longrightarrow> \<exists>x \<in> set xs. P x y"
  by (induction rule: list_all2_induct) auto

text \<open>An object that an import added is the only one of its tenant with its identifier.\<close>

lemma new_object_reference:
  assumes objs: "ct_objects s' = ct_objects s @ map fst new"
    and matched: "list_all2 (\<lambda>x p. object_matches t v x (fst p) \<and> columns_match t x p) xs new"
    and dist: "distinct (map (\<lambda>p. so_id (fst p)) new)"
    and fresh: "\<forall>p \<in> set new. so_id (fst p) \<notin> so_id ` set (ct_objects s)"
    and p: "p \<in> set new"
  shows "object_reference s' t (so_id (fst p)) = Some (so_reference (fst p))"
proof -
  let ?P = "\<lambda>x. so_tenant_id x = t \<and> so_id x = so_id (fst p)"
  have none: "\<forall>x \<in> set (ct_objects s). \<not> ?P x" using bspec[OF fresh p] by (metis image_eqI)
  have "fetch_one ?P (map fst new) = Some (fst p)"
  proof (rule unique_key_fetch[where key = so_id])
    show "unique_key so_id (map fst new)" using dist by (simp add: unique_key_def comp_def)
    show "fst p \<in> set (map fst new)" using p by simp
    show "?P (fst p)" using list_all2_right[OF matched p] by (auto simp: object_matches_def)
  qed simp
  then show ?thesis by (simp add: object_reference_def objs fetch_one_append[OF none])
qed

lemma new_objects_unique:
  assumes "ct_objects s' = ct_objects s @ map fst new"
    and "list_all2 (\<lambda>x p. object_matches t v x (fst p) \<and> columns_match t x p) xs new"
    and "distinct (map (\<lambda>p. so_id (fst p)) new)"
    and "\<forall>p \<in> set new. so_id (fst p) \<notin> so_id ` set (ct_objects s)"
  shows "unique_objects s' t (map fst new)"
  using new_object_reference[OF assms] by (auto simp: unique_objects_def)

text \<open>The identifier an import kept for a reference names the stored object of that reference.\<close>

lemma stored_object_of_reference:
  assumes objs: "ct_objects s' = ct_objects s @ map fst new"
    and matched: "list_all2 (\<lambda>x p. object_matches t v x (fst p) \<and> columns_match t x p) xs new"
    and ids: "ids = map2 (\<lambda>x p. (os_reference x, so_id (fst p))) xs new"
    and dist: "distinct (map (\<lambda>p. so_id (fst p)) new)"
    and fresh: "\<forall>p \<in> set new. so_id (fst p) \<notin> so_id ` set (ct_objects s)"
    and refs: "distinct (map os_reference xs)" and found: "map_of ids r = Some i"
  shows "object_reference s' t i = map_option stored_reference (objects_by_ref xs r)"
proof -
  have "(r, i) \<in> set ids" using found by (rule map_of_SomeD)
  then obtain j where j: "j < length xs" "j < length new" "r = os_reference (xs ! j)" "i = so_id (fst (new ! j))"
    by (auto simp: ids in_set_zip)
  have m: "object_matches t v (xs ! j) (fst (new ! j))"
    using matched j(1) by (simp add: list_all2_conv_all_nth)
  have "object_reference s' t i = Some (so_reference (fst (new ! j)))"
    unfolding j(4) by (rule new_object_reference[OF objs matched dist fresh]) (use j(2) in simp)
  moreover have "so_reference (fst (new ! j)) = stored_reference (xs ! j)"
    using m by (simp add: so_reference_def stored_reference_def object_matches_def)
  moreover have "objects_by_ref xs r = Some (xs ! j)"
    unfolding j(3) by (rule objects_by_ref_distinct[OF refs]) (use j(1) in simp)
  ultimately show ?thesis by simp
qed


section \<open>The new version\<close>

text \<open>The foreign keys of the physical tables.\<close>

definition catalog_linked :: "catalog_store \<Rightarrow> bool" where
  "catalog_linked s =
     ((\<forall>c \<in> set (ct_columns s). cd_schema_object_id c \<in> so_id ` set (ct_objects s))
      \<and> (\<forall>x \<in> set (ct_objects s). so_catalog_version_id x \<in> cv_id ` set (ct_versions s))
      \<and> (\<forall>r \<in> set (ct_relationships s). rl_catalog_version_id r \<in> cv_id ` set (ct_versions s)))"

lemma fold_max_ge: "x \<in> set (v # vs) \<Longrightarrow> x \<le> fold max vs (v::int)"
proof (induction vs arbitrary: v x)
  case (Cons w vs)
  show ?case
  proof (cases "x \<in> set (max w v # vs)")
    case True
    then show ?thesis using Cons.IH[OF True] by simp
  next
    case False
    then have "x = v \<or> x = w" using Cons.prems by auto
    then have "x \<le> max w v" by auto
    also have "\<dots> \<le> fold max vs (max w v)" by (rule Cons.IH) simp
    finally show ?thesis by simp
  qed
qed simp

lemma next_version_greater: "v \<in> set (versions_of s t d) \<Longrightarrow> cv_version v < next_version s t d"
proof -
  assume v: "v \<in> set (versions_of s t d)"
  then obtain w ws where ws: "map cv_version (versions_of s t d) = w # ws"
    by (cases "map cv_version (versions_of s t d)") auto
  have "cv_version v \<in> set (w # ws)" using v unfolding ws[symmetric] by simp
  then show ?thesis using fold_max_ge[of "cv_version v" w ws] by (simp add: next_version_def ws)
qed

lemma create_version_Inr:
  assumes "create_catalog_version (\<lambda>s. s) s t d i now = (Inr v, s')"
  shows "v = \<lparr>cv_tenant_id = t, cv_data_source_id = d, cv_version = next_version s t d,
           cv_id = i, cv_created_at = now\<rparr>"
    and "ct_versions s' = ct_versions s @ [v]" "i \<notin> cv_id ` set (ct_versions s)"
    and "ct_objects s' = ct_objects s" "ct_columns s' = ct_columns s"
      "ct_relationships s' = ct_relationships s" "ct_sources s' = ct_sources s"
  using assms unfolding create_catalog_version_def Let_def
  by (auto simp: append_catalog_audit_def split: if_splits sum.splits)

lemma created_version_is_latest:
  assumes "create_catalog_version (\<lambda>s. s) s t d i now = (Inr v, s1)" "ct_versions s' = ct_versions s1"
  shows "latest_version s' t d = Some v"
proof -
  let ?P = "\<lambda>v. cv_tenant_id v = t \<and> cv_data_source_id v = d"
  have vs: "ct_versions s' = ct_versions s @ [v]" "?P v"
    using create_version_Inr(1,2)[OF assms(1)] assms(2) by auto
  obtain w where w: "latest_version s' t d = Some w"
    using vs first_by_None[of "\<lambda>v. - cv_version v" ?P "ct_versions s'"]
    by (cases "latest_version s' t d") (auto simp: latest_version_def)
  have w_props: "w \<in> set (ct_versions s')" "?P w" "cv_version v \<le> cv_version w"
    using first_by_Some[OF w[unfolded latest_version_def]] vs by auto
  have "w \<notin> set (ct_versions s)"
  proof
    assume "w \<in> set (ct_versions s)"
    then have "cv_version w < next_version s t d"
      using w_props(2) by (intro next_version_greater) (simp add: versions_of_def)
    then show False using w_props(3) create_version_Inr(1)[OF assms(1)] by simp
  qed
  then show ?thesis using w w_props(1) vs(1) by simp
qed

lemma filter_none: "(\<And>x. x \<in> set xs \<Longrightarrow> \<not> P x) \<Longrightarrow> filter P xs = []"
  by (simp add: filter_empty_conv)

lemma filter_all: "(\<And>x. x \<in> set xs \<Longrightarrow> P x) \<Longrightarrow> filter P xs = xs"
  by (simp add: filter_id_conv)

text \<open>The columns the store lists for a new object are those its import added.\<close>

lemma filter_concat_own:
  assumes "distinct (map key ps)" "p \<in> set ps" "\<And>q c. q \<in> set ps \<Longrightarrow> c \<in> set (snd q) \<Longrightarrow> owner c = key q"
  shows "filter (\<lambda>c. owner c = key p) (concat (map snd ps)) = snd p"
  using assms
proof (induction ps)
  case (Cons q qs)
  have own: "c \<in> set (snd q) \<Longrightarrow> owner c = key q" for c using Cons.prems(3) by simp
  show ?case
  proof (cases "p = q")
    case True
    then have "key p \<notin> key ` set qs" using Cons.prems(1) by simp
    have "filter (\<lambda>c. owner c = key p) (concat (map snd qs)) = []"
    proof (rule filter_none)
      fix c assume "c \<in> set (concat (map snd qs))"
      then obtain r where r: "r \<in> set qs" "c \<in> set (snd r)" by auto
      then have "owner c = key r" using Cons.prems(3) by simp
      then show "owner c \<noteq> key p" using imageI[OF r(1), of key] \<open>key p \<notin> key ` set qs\<close> by metis
    qed
    moreover have "filter (\<lambda>c. owner c = key p) (snd q) = snd q"
      using own True by (intro filter_all) simp
    ultimately show ?thesis using True by simp
  next
    case False
    then have p: "p \<in> set qs" using Cons.prems(2) by simp
    then have "key q \<noteq> key p" using Cons.prems(1) by (metis distinct.simps(2) image_eqI list.map(2) set_map)
    then have "filter (\<lambda>c. owner c = key p) (snd q) = []" using own by (intro filter_none) auto
    then show ?thesis using Cons.IH p Cons.prems(1,3) by simp
  qed
qed simp


text \<open>The tables after a successful ingestion, in terms of what was there before.\<close>

lemma ingest_success:
  assumes "ingest_snapshot su t d snap src s n = (Inr report, s', n')"
  obtains v new rels ids where
    "latest_version s' t d = Some v" "ir_catalog_version_id report = cv_id v"
    "ir_catalog_version report = cv_version v" "cv_id v \<notin> cv_id ` set (ct_versions s)"
    "ct_versions s' = ct_versions s @ [v]"
    "ct_objects s' = ct_objects s @ map fst new" "ct_columns s' = ct_columns s @ concat (map snd new)"
    "ct_relationships s' = ct_relationships s @ rels"
    "list_all2 (\<lambda>x p. object_matches t (cv_id v) x (fst p) \<and> columns_match t x p) (dn_objects snap) new"
    "ids = map2 (\<lambda>x p. (os_reference x, so_id (fst p))) (dn_objects snap) new"
    "distinct (map (\<lambda>p. so_id (fst p)) new)"
    "\<forall>p \<in> set new. so_id (fst p) \<notin> so_id ` set (ct_objects s)"
    "list_all2 (relationship_matches t (cv_id v) ids) (dn_relationships snap) rels"
    "distinct (map os_reference (dn_objects snap))"
    "catalog_source s' t d \<noteq> None"
proof -
  obtain ds where ds: "catalog_source s t d = Some ds"
    using assms by (cases "catalog_source s t d") (simp_all add: ingest_snapshot_def)
  obtain u where u: "validate_snapshot snap d (ds_dialect ds) = Inr u"
    using assms by (cases "validate_snapshot snap d (ds_dialect ds)") (simp_all add: ingest_snapshot_def ds)
  obtain r1 s1 where c: "create_catalog_version (\<lambda>s. s) s t d (su_uuid su n) (su_clock su n) = (r1, s1)"
    by fastforce
  obtain v where v1: "r1 = Inr v"
    using assms by (cases r1) (simp_all add: ingest_snapshot_def ds u c)
  obtain r2 s2 n2 where imp: "import_objects su t d (cv_id v) src (dn_objects snap) s1 (Suc n) = (r2, s2, n2)"
    by (metis prod_cases3)
  obtain ids cols descs where r2: "r2 = Inr (ids, cols, descs)"
    using assms by (cases r2) (auto simp: ingest_snapshot_def ds u c v1 imp)
  obtain r3 s3 n3 where r: "import_relationships su t (cv_id v) ids (dn_relationships snap) s2 n2 = (r3, s3, n3)"
    by (metis prod_cases3)
  have r3: "r3 = Inr () \<and> s3 = s' \<and> n3 = n' \<and> ir_catalog_version_id report = cv_id v
      \<and> ir_catalog_version report = cv_version v"
    using assms by (cases r3) (auto simp: ingest_snapshot_def ds u c v1 imp r2 r)
  note step = u c[unfolded v1] imp[unfolded r2]
  have step4: "import_relationships su t (cv_id v) ids (dn_relationships snap) s2 n2 = (Inr (), s', n')"
    using r r3 by simp
  obtain new where objs: "ct_objects s2 = ct_objects s1 @ map fst new"
    "ct_columns s2 = ct_columns s1 @ concat (map snd new)"
    "list_all2 (\<lambda>x p. object_matches t (cv_id v) x (fst p) \<and> columns_match t x p) (dn_objects snap) new"
    "ids = map2 (\<lambda>x p. (os_reference x, so_id (fst p))) (dn_objects snap) new"
    "distinct (map (\<lambda>p. so_id (fst p)) new)"
    "\<forall>p \<in> set new. so_id (fst p) \<notin> so_id ` set (ct_objects s1)"
    "ct_relationships s2 = ct_relationships s1" "ct_versions s2 = ct_versions s1"
    "ct_sources s2 = ct_sources s1"
    using import_objects_Inr[OF step(3)] by blast
  obtain rels where rels: "ct_relationships s' = ct_relationships s2 @ rels"
    "list_all2 (relationship_matches t (cv_id v) ids) (dn_relationships snap) rels"
    "ct_objects s' = ct_objects s2" "ct_columns s' = ct_columns s2" "ct_versions s' = ct_versions s2"
    "ct_sources s' = ct_sources s2"
    using import_relationships_Inr[OF step4] by blast
  note v = create_version_Inr[OF step(2)]
  show thesis
  proof (rule that[where v = v and new = new and rels = rels and ids = ids])
    show "latest_version s' t d = Some v"
      by (rule created_version_is_latest[OF step(2)]) (simp add: rels(5) objs(8))
    show "cv_id v \<notin> cv_id ` set (ct_versions s)" using v(1,3) by simp
    show "ct_versions s' = ct_versions s @ [v]" using v(2) objs(8) rels(5) by simp
    show "\<forall>p \<in> set new. so_id (fst p) \<notin> so_id ` set (ct_objects s)" using objs(6) v(4) by simp
    show "distinct (map os_reference (dn_objects snap))"
      by (rule validated_distinct_references[OF step(1)])
    show "catalog_source s' t d \<noteq> None"
      using ds by (simp add: catalog_source_def rels(6) objs(9) v(7))
  qed (use r3 v objs rels in simp_all)
qed

lemma list_all2_map_eq:
  "list_all2 P xs ys \<Longrightarrow> (\<And>x y. x \<in> set xs \<Longrightarrow> y \<in> set ys \<Longrightarrow> P x y \<Longrightarrow> f x = g y) \<Longrightarrow> map f xs = map g ys"
  by (induction rule: list_all2_induct) auto

lemma new_columns_listed:
  assumes linked: "catalog_linked s"
    and cols: "ct_columns s' = ct_columns s @ concat (map snd new)"
    and matched: "list_all2 (\<lambda>x p. object_matches t v x (fst p) \<and> columns_match t x p) xs new"
    and dist: "distinct (map (\<lambda>p. so_id (fst p)) new)"
    and fresh: "\<forall>p \<in> set new. so_id (fst p) \<notin> so_id ` set (ct_objects s)"
    and p: "p \<in> set new"
  shows "columns_of s' t (so_id (fst p)) = sort_key cd_ordinal (snd p)"
proof -
  have owner: "cd_tenant_id c = t \<and> cd_schema_object_id c = so_id (fst q)"
    if q: "q \<in> set new" and c: "c \<in> set (snd q)" for q c
    using list_all2_right[OF matched q] c by (auto simp: columns_match_def)
  have "filter (\<lambda>c. cd_tenant_id c = t \<and> cd_schema_object_id c = so_id (fst p)) (ct_columns s) = []"
    using linked bspec[OF fresh p] unfolding catalog_linked_def by (intro filter_none) metis
  moreover have "filter (\<lambda>c. cd_tenant_id c = t \<and> cd_schema_object_id c = so_id (fst p)) (concat (map snd new))
      = filter (\<lambda>c. cd_schema_object_id c = so_id (fst p)) (concat (map snd new))"
    using owner by (intro filter_cong) auto
  moreover have "filter (\<lambda>c. cd_schema_object_id c = so_id (fst p)) (concat (map snd new)) = snd p"
    using filter_concat_own[of "\<lambda>p. so_id (fst p)" new p cd_schema_object_id] dist p owner by simp
  ultimately show ?thesis by (simp add: columns_of_def cols)
qed

lemma columns_view_sorted:
  "columns_match t x p \<Longrightarrow>
    map column_view (sort_key cd_ordinal (snd p)) = map column_snapshot_view (sort_key cs_ordinal (os_columns x))"
  using sort_key_map[of column_view view_ordinal "snd p"]
    sort_key_map[of column_snapshot_view view_ordinal "os_columns x"]
  by (simp add: columns_match_def)


section \<open>The links survive whatever happens\<close>

lemma linked_same_physical: "same_physical s s' \<Longrightarrow> catalog_linked s \<Longrightarrow> catalog_linked s'"
  by (simp add: same_physical_def catalog_linked_def)

lemma create_object_linked:
  "create_schema_object s t d v sn nm kd df i = (r, s') \<Longrightarrow> catalog_linked s \<Longrightarrow> catalog_linked s'"
  unfolding create_schema_object_def Let_def
  by (auto simp: catalog_linked_def append_catalog_audit_def
      split: if_splits dest!: fetch_one_Some_iff_mem)

lemma create_column_linked:
  "create_column s t obj nm ph i nl cl de pk cid = (r, s') \<Longrightarrow> catalog_linked s \<Longrightarrow> catalog_linked s'"
  unfolding create_column_def Let_def has_object_def
  by (auto simp: catalog_linked_def append_catalog_audit_def
      split: if_splits sum.splits dest!: fetch_one_Some_iff_mem)

lemma create_relationship_linked:
  "create_relationship s t v si ti nm sc tc st sr cf i = (r, s') \<Longrightarrow> catalog_linked s \<Longrightarrow> catalog_linked s'"
  unfolding create_relationship_def Let_def
  by (auto simp: catalog_linked_def append_catalog_audit_def
      split: if_splits sum.splits dest!: fetch_one_Some_iff_mem)

lemma create_version_linked:
  "create_catalog_version (\<lambda>s. s) s t d i now = (r, s') \<Longrightarrow> catalog_linked s \<Longrightarrow> catalog_linked s'"
  unfolding create_catalog_version_def Let_def
  by (auto simp: catalog_linked_def append_catalog_audit_def split: if_splits sum.splits)

lemma import_comment_linked:
  "import_comment su t v ref c src s n = (r, s', n') \<Longrightarrow> catalog_linked s \<Longrightarrow> catalog_linked s'"
  by (auto dest: import_comment_same intro: linked_same_physical)

lemma import_columns_linked:
  "import_columns su t v ref obj src cs s n = (r, s', n') \<Longrightarrow> catalog_linked s \<Longrightarrow> catalog_linked s'"
proof (induction cs arbitrary: s n r s' n')
  case (Cons c cs)
  then show ?case
    by (auto split: prod.splits sum.splits dest: create_column_linked import_comment_linked)
qed simp

lemma import_objects_linked:
  "import_objects su t d v src xs s n = (r, s', n') \<Longrightarrow> catalog_linked s \<Longrightarrow> catalog_linked s'"
proof (induction xs arbitrary: s n r s' n')
  case (Cons x xs)
  have chain: "catalog_linked s3"
    if "create_schema_object s t d v (os_schema_name x) (os_name x) (os_kind x) (os_definition_sql x)
          (su_uuid su n) = (q1, s1)"
      "import_comment su t v (os_reference x) (os_comment x) src s1 n1 = (q2, s2, n2)"
      "import_columns su t v (os_reference x) oid src (os_columns x) s2 n2 = (q3, s3, n3)"
    for q1 s1 n1 q2 s2 n2 oid q3 s3 n3
    by (rule import_columns_linked[OF that(3) import_comment_linked[OF that(2)
          create_object_linked[OF that(1) Cons.prems(2)]]])
  show ?case
    using Cons.prems
    by (auto split: prod.splits sum.splits dest: create_object_linked import_comment_linked
        import_columns_linked Cons.IH[OF _ chain])
qed simp

lemma import_relationships_linked:
  "import_relationships su t v ids rs s n = (r, s', n') \<Longrightarrow> catalog_linked s \<Longrightarrow> catalog_linked s'"
proof (induction rs arbitrary: s n r s' n')
  case (Cons x xs)
  then show ?case
    by (auto split: prod.splits sum.splits option.splits dest: create_relationship_linked)
qed simp

lemma ingest_snapshot_linked:
  "ingest_snapshot su t d snap src s n = (r, s', n') \<Longrightarrow> catalog_linked s \<Longrightarrow> catalog_linked s'"
  unfolding ingest_snapshot_def
  by (auto split: option.splits prod.splits sum.splits
      dest: create_version_linked import_objects_linked import_relationships_linked)

section \<open>The stored snapshot\<close>

lemma relationships_view_match:
  assumes "relationship_matches t v ids r rel"
    and "\<And>x i. map_of ids x = Some i \<Longrightarrow> object_reference s' t i = map_option stored_reference (objects_by_ref objs x)"
  shows "relationship_view s' t rel = relationship_snapshot_view objs r"
  using assms(1) assms(2)[of "rs_source_object_ref r"] assms(2)[of "rs_target_object_ref r"]
  by (simp add: relationship_view_def relationship_snapshot_view_def relationship_matches_def)

fun view_name :: "relationship_view \<Rightarrow> string" where
  "view_name (nm, _) = nm"

lemma earlier_versions_kept:
  assumes "catalog_linked s" "cv_id v \<notin> cv_id ` set (ct_versions s)" "w \<noteq> cv_id v"
    and objs: "ct_objects s' = ct_objects s @ map fst new" and cols: "ct_columns s' = ct_columns s @ concat (map snd new)"
    and rels: "ct_relationships s' = ct_relationships s @ rels"
    and matched: "list_all2 (\<lambda>x p. object_matches t (cv_id v) x (fst p) \<and> columns_match t x p) xs new"
    and fresh: "\<forall>p \<in> set new. so_id (fst p) \<notin> so_id ` set (ct_objects s)"
    and rmatched: "list_all2 (relationship_matches t (cv_id v) ids) rs rels"
  shows "objects_of s' t w = objects_of s t w" "version_columns s' t w = version_columns s t w"
    "relationships_of s' t w = relationships_of s t w"
proof -
  have "filter (\<lambda>r. so_tenant_id r = t \<and> so_catalog_version_id r = w) (map fst new) = []"
  proof (rule filter_none)
    fix x assume "x \<in> set (map fst new)"
    then obtain p where "p \<in> set new" "x = fst p" by auto
    then show "\<not> (so_tenant_id x = t \<and> so_catalog_version_id x = w)"
      using list_all2_right[OF matched] assms(3) by (fastforce simp: object_matches_def)
  qed
  then show o: "objects_of s' t w = objects_of s t w" by (simp add: objects_of_def objs)
  have "columns_of s' t (so_id x) = columns_of s t (so_id x)" if x: "x \<in> set (objects_of s t w)" for x
  proof -
    have "x \<in> set (ct_objects s)" using x by (simp add: objects_of_def)
    then have "\<forall>p \<in> set new. so_id (fst p) \<noteq> so_id x" using fresh by force
    then have "filter (\<lambda>c. cd_tenant_id c = t \<and> cd_schema_object_id c = so_id x) (concat (map snd new)) = []"
      using list_all2_right[OF matched] by (intro filter_none) (fastforce simp: columns_match_def)
    then show ?thesis by (simp add: columns_of_def cols)
  qed
  then show "version_columns s' t w = version_columns s t w"
    by (simp add: version_columns_def o cong: map_cong)
  have "filter (\<lambda>r. rl_tenant_id r = t \<and> rl_catalog_version_id r = w) rels = []"
    using list_all2_right[OF rmatched] assms(3)
    by (intro filter_none) (fastforce simp: relationship_matches_def)
  then show "relationships_of s' t w = relationships_of s t w" by (simp add: relationships_of_def rels)
qed

text \<open>A successful ingestion, seen through the listings of the catalog.\<close>

lemma ingestion_stores_snapshot:
  assumes "ingest_snapshot su t d snap src s n = (Inr report, s', n')" "catalog_linked s"
  shows "\<exists>v. latest_version s' t d = Some v
    \<and> ir_catalog_version_id report = cv_id v \<and> ir_catalog_version report = cv_version v
    \<and> map (object_view s' t) (objects_of s' t (cv_id v))
        = sort_key view_names (map object_snapshot_view (dn_objects snap))
    \<and> map (relationship_view s' t) (relationships_of s' t (cv_id v))
        = sort_key view_name (map (relationship_snapshot_view (dn_objects snap)) (dn_relationships snap))
    \<and> (\<forall>w. w \<noteq> cv_id v \<longrightarrow> objects_of s' t w = objects_of s t w
          \<and> version_columns s' t w = version_columns s t w
          \<and> relationships_of s' t w = relationships_of s t w)
    \<and> catalog_source s' t d \<noteq> None \<and> distinct (map so_id (objects_of s' t (cv_id v)))
    \<and> (\<forall>r \<in> set (relationships_of s' t (cv_id v)).
        {rl_source_object_id r, rl_target_object_id r} \<subseteq> so_id ` set (objects_of s' t (cv_id v)))
    \<and> unique_objects s' t (objects_of s' t (cv_id v))"
  using assms(1)
proof (cases rule: ingest_success)
  case (1 v new rels ids)
  have no_obj: "filter (\<lambda>r. so_tenant_id r = t \<and> so_catalog_version_id r = cv_id v) (ct_objects s) = []"
    using assms(2) 1(4) unfolding catalog_linked_def by (intro filter_none) metis
  have no_rel: "filter (\<lambda>r. rl_tenant_id r = t \<and> rl_catalog_version_id r = cv_id v) (ct_relationships s) = []"
    using assms(2) 1(4) unfolding catalog_linked_def by (intro filter_none) metis
  have all_obj: "filter (\<lambda>r. so_tenant_id r = t \<and> so_catalog_version_id r = cv_id v) (map fst new) = map fst new"
    using list_all2_right[OF 1(9)] by (intro filter_all) (auto simp: object_matches_def)
  have all_rel: "filter (\<lambda>r. rl_tenant_id r = t \<and> rl_catalog_version_id r = cv_id v) rels = rels"
    using list_all2_right[OF 1(13)] by (intro filter_all) (auto simp: relationship_matches_def)
  have obj_views: "map object_snapshot_view (dn_objects snap) = map (\<lambda>p. object_view s' t (fst p)) new"
  proof (rule list_all2_map_eq[OF 1(9)])
    fix x p assume p: "p \<in> set new" and m: "object_matches t (cv_id v) x (fst p) \<and> columns_match t x p"
    have "columns_of s' t (so_id (fst p)) = sort_key cd_ordinal (snd p)"
      by (rule new_columns_listed[OF assms(2) 1(7) 1(9) 1(11) 1(12) p])
    then show "object_snapshot_view x = object_view s' t (fst p)"
      using m columns_view_sorted[of t x p] by (simp add: object_view_def object_snapshot_view_def object_matches_def)
  qed
  have "map (object_view s' t) (objects_of s' t (cv_id v))
      = sort_key view_names (map (object_view s' t) (map fst new))"
    using sort_key_map[of "object_view s' t" view_names "map fst new"]
    by (simp add: objects_of_def 1(6) no_obj all_obj)
  then have objects: "map (object_view s' t) (objects_of s' t (cv_id v))
      = sort_key view_names (map object_snapshot_view (dn_objects snap))"
    by (simp add: obj_views comp_def)
  have rel_views: "map (relationship_snapshot_view (dn_objects snap)) (dn_relationships snap)
      = map (relationship_view s' t) rels"
    by (rule list_all2_map_eq[OF 1(13)])
      (rule relationships_view_match[symmetric, OF _ stored_object_of_reference[OF 1(6) 1(9) 1(10) 1(11) 1(12) 1(14)]])
  have "view_name (relationship_view s' t r) = rl_name r" for r by (simp add: relationship_view_def)
  then have "map (relationship_view s' t) (relationships_of s' t (cv_id v))
      = sort_key view_name (map (relationship_view s' t) rels)"
    using sort_key_map[of "relationship_view s' t" view_name rels]
    by (simp add: relationships_of_def 1(8) no_rel all_rel)
  moreover have listed: "objects_of s' t (cv_id v) = sort_key (\<lambda>r. (so_schema_name r, so_name r)) (map fst new)"
    by (simp add: objects_of_def 1(6) no_obj all_obj)
  moreover have "distinct (map so_id (objects_of s' t (cv_id v)))"
    using 1(11) unfolding listed by (simp add: distinct_map comp_def)
      (auto simp: distinct_map inj_on_def)
  moreover have "{rl_source_object_id r, rl_target_object_id r} \<subseteq> so_id ` set (map fst new)"
    if in_rels: "r \<in> set rels" for r
  proof -
    have ids: "snd y \<in> so_id ` set (map fst new)" if "y \<in> set ids" for y
      using that by (auto simp: 1(10) elim!: in_set_zipE) (metis fst_conv image_eqI)
    obtain x where "relationship_matches t (cv_id v) ids x r" using list_all2_right[OF 1(13) in_rels] by blast
    then show ?thesis
      using ids[of "(rs_source_object_ref x, rl_source_object_id r)"]
        ids[of "(rs_target_object_ref x, rl_target_object_id r)"]
      by (simp add: relationship_matches_def map_of_SomeD)
  qed
  moreover have "set (relationships_of s' t (cv_id v)) = set rels"
    by (simp add: relationships_of_def 1(8) no_rel all_rel)
  moreover have "unique_objects s' t (map fst new)"
    by (rule new_objects_unique[OF 1(6) 1(9) 1(11) 1(12)])
  ultimately show ?thesis
    using 1(1-3) 1(15) objects rel_views
      earlier_versions_kept[OF assms(2) 1(4) _ 1(6) 1(7) 1(8) 1(9) 1(12) 1(13)]
    by (intro exI[of _ v]) (simp add: unique_objects_def)
qed

end
