(* ===== verification/Governance_Safety.thy ===== *)
theory Governance_Safety
  imports Semantic_Governance Ingestion_Safety Knowledge_Safety
begin

text \<open>
  The schema explorer shows an ingested snapshot as it was ingested, and a human correction of
  a description takes effect exactly once, from the version of the resolution its author saw.
\<close>

section \<open>The explorer\<close>

definition column_entry_view :: "column_explorer_entry \<Rightarrow> column_view" where
  "column_entry_view c = (cxe_name c, cxe_physical_type c, cxe_ordinal c, cxe_nullable c,
     cxe_classification c, cxe_default_expression c, cxe_is_primary_key c)"

definition object_entry_view :: "object_explorer_entry \<Rightarrow> object_view" where
  "object_entry_view x = (oxe_schema_name x, oxe_name x, oxe_kind x, oxe_definition_sql x,
     map column_entry_view (oxe_columns x))"

type_synonym relationship_shape = "string \<times> string option \<times> string option \<times> string list \<times> string list"

definition relationship_entry_shape :: "relationship_explorer_entry \<Rightarrow> relationship_shape" where
  "relationship_entry_shape r = (rxe_name r, Some (rxe_source_object_ref r), Some (rxe_target_object_ref r),
     rxe_source_columns r, rxe_target_columns r)"

fun view_shape :: "relationship_view \<Rightarrow> relationship_shape" where
  "view_shape (a, b, c, d, e, _) = (a, b, c, d, e)"

fun shape_name :: "relationship_shape \<Rightarrow> string" where
  "shape_name (a, _) = a"

lemma shape_name_view [simp]: "shape_name (view_shape r) = view_name r"
  by (cases r) simp

lemma column_entry_view_entry [simp]: "column_entry_view (column_entry sem so c) = column_view c"
  by (simp add: column_entry_view_def column_entry_def column_view_def)

lemma columns_of_owner: "c \<in> set (columns_of s t i) \<Longrightarrow> cd_schema_object_id c = i"
  by (auto simp: columns_of_def)

lemma explored_columns:
  assumes "distinct (map so_id (objects_of s t v))" "so \<in> set (objects_of s t v)"
  shows "filter (\<lambda>c. cd_schema_object_id c = so_id so) (version_columns s t v) = columns_of s t (so_id so)"
proof -
  let ?ps = "map (\<lambda>so. (so, columns_of s t (so_id so))) (objects_of s t v)"
  have "version_columns s t v = concat (map snd ?ps)" by (simp add: version_columns_def comp_def)
  moreover have "filter (\<lambda>c. cd_schema_object_id c = so_id (fst (so, columns_of s t (so_id so)))) (concat (map snd ?ps))
      = snd (so, columns_of s t (so_id so))"
  proof (rule filter_concat_own[where key = "\<lambda>p. so_id (fst p)"])
    show "distinct (map (\<lambda>p. so_id (fst p)) ?ps)" using assms(1) by (simp add: comp_def)
    show "(so, columns_of s t (so_id so)) \<in> set ?ps" using assms(2) by simp
  qed (auto simp: columns_of_owner)
  ultimately show ?thesis by simp
qed

lemma explored_object_view:
  assumes "distinct (map so_id (objects_of s t v))" "so \<in> set (objects_of s t v)"
  shows "object_entry_view (object_entry sem (version_columns s t v) so) = object_view s t so"
  by (simp add: object_entry_view_def object_entry_def object_view_def explored_columns[OF assms] comp_def)

lemma map_of_rev_distinct:
  "distinct (map key xs) \<Longrightarrow> x \<in> set xs \<Longrightarrow> map_of (rev (map (\<lambda>x. (key x, f x)) xs)) (key x) = Some (f x)"
  by (rule map_of_is_SomeI) (auto simp: rev_map comp_def distinct_map)

lemma explored_relationship:
  assumes objs: "distinct (map so_id objs)" "unique_objects s t objs"
    and ends: "{rl_source_object_id r, rl_target_object_id r} \<subseteq> so_id ` set objs"
  shows "\<exists>e. relationship_entry (rev (map (\<lambda>so. (so_id so, so_reference so)) objs)) r = Inr e
    \<and> relationship_entry_shape e = view_shape (relationship_view s t r)"
proof -
  obtain a b where ab: "a \<in> set objs" "b \<in> set objs" "rl_source_object_id r = so_id a" "rl_target_object_id r = so_id b"
    using ends by auto
  have "object_reference s t (so_id a) = Some (so_reference a)" "object_reference s t (so_id b) = Some (so_reference b)"
    using objs(2) ab by (simp_all add: unique_objects_def)
  then show ?thesis
    using map_of_rev_distinct[OF objs(1) ab(1), of so_reference] map_of_rev_distinct[OF objs(1) ab(2), of so_reference]
    by (simp add: relationship_entry_def ab(3,4) relationship_entry_shape_def relationship_view_def)
qed

lemma collect_results_views:
  "(\<And>x. x \<in> set xs \<Longrightarrow> \<exists>y. f x = Inr y \<and> g y = h x) \<Longrightarrow>
    \<exists>ys. collect_results (map f xs) = Inr ys \<and> map g ys = map h xs"
proof (induction xs)
  case (Cons x xs)
  obtain y where "f x = Inr y" "g y = h x" using Cons.prems[of x] by auto
  moreover obtain ys where "collect_results (map f xs) = Inr ys" "map g ys = map h xs"
    using Cons by auto
  ultimately show ?case by simp
qed simp

text \<open>
  C28: A snapshot that is ingested is what the schema explorer shows from then on: the latest
  version of the data source has exactly the snapshot's objects, each with its columns in
  order, and exactly its relationships between the objects they reference, with names
  stripped and the listings sorted by name.  Every earlier version still lists what it listed.
\<close>

theorem explorer_shows_ingested_snapshot:
  assumes "ingest_snapshot su t d snap src s n = (Inr report, s', n')" "catalog_linked s"
  shows "\<exists>e. explore_latest s' t d = Inr e
    \<and> ses_catalog_version_id e = ir_catalog_version_id report
    \<and> ses_catalog_version e = ir_catalog_version report
    \<and> map object_entry_view (ses_objects e)
        = sort_key view_names (map object_snapshot_view (dn_objects snap))
    \<and> map relationship_entry_shape (ses_relationships e)
        = map view_shape (sort_key view_name
            (map (relationship_snapshot_view (dn_objects snap)) (dn_relationships snap)))
    \<and> (\<forall>w. w \<noteq> ses_catalog_version_id e \<longrightarrow> objects_of s' t w = objects_of s t w
          \<and> version_columns s' t w = version_columns s t w
          \<and> relationships_of s' t w = relationships_of s t w)"
proof -
  obtain v where v: "latest_version s' t d = Some v" "ir_catalog_version_id report = cv_id v"
    "ir_catalog_version report = cv_version v"
    "map (object_view s' t) (objects_of s' t (cv_id v))
       = sort_key view_names (map object_snapshot_view (dn_objects snap))"
    "map (relationship_view s' t) (relationships_of s' t (cv_id v))
       = sort_key view_name (map (relationship_snapshot_view (dn_objects snap)) (dn_relationships snap))"
    "\<forall>w. w \<noteq> cv_id v \<longrightarrow> objects_of s' t w = objects_of s t w
          \<and> version_columns s' t w = version_columns s t w \<and> relationships_of s' t w = relationships_of s t w"
    "catalog_source s' t d \<noteq> None" "distinct (map so_id (objects_of s' t (cv_id v)))"
    "\<forall>r \<in> set (relationships_of s' t (cv_id v)).
       {rl_source_object_id r, rl_target_object_id r} \<subseteq> so_id ` set (objects_of s' t (cv_id v))"
    "unique_objects s' t (objects_of s' t (cv_id v))"
    using ingestion_stores_snapshot[OF assms] by blast
  have shown: "\<exists>e. relationship_entry (rev (map (\<lambda>so. (so_id so, so_reference so)) (objects_of s' t (cv_id v)))) r
        = Inr e \<and> relationship_entry_shape e = view_shape (relationship_view s' t r)"
    if "r \<in> set (relationships_of s' t (cv_id v))" for r
    using explored_relationship[OF v(8) v(10)] v(9) that by simp
  obtain rels where rels: "collect_results (map (relationship_entry
        (rev (map (\<lambda>so. (so_id so, so_reference so)) (objects_of s' t (cv_id v)))))
        (relationships_of s' t (cv_id v))) = Inr rels"
    "map relationship_entry_shape rels
       = map (\<lambda>r. view_shape (relationship_view s' t r)) (relationships_of s' t (cv_id v))"
    using collect_results_views[where xs = "relationships_of s' t (cv_id v)" and g = relationship_entry_shape
        and h = "\<lambda>r. view_shape (relationship_view s' t r)", OF shown] by blast
  have views: "map (\<lambda>so. object_entry_view (object_entry (semantics_by_ref s' t d) (version_columns s' t (cv_id v)) so))
      (objects_of s' t (cv_id v)) = map (object_view s' t) (objects_of s' t (cv_id v))"
    using explored_object_view[OF v(8)] by simp
  have "map relationship_entry_shape rels = map view_shape
      (map (relationship_view s' t) (relationships_of s' t (cv_id v)))"
    by (simp add: rels(2))
  then show ?thesis
    using v(1-3,6,7) rels(1) views
    by (simp add: explore_latest_def Let_def v(4,5)[symmetric] comp_def)
qed


section \<open>Corrections\<close>

lemma propose_semantic_Inr:
  "propose_semantic s x e expected now = (Inr w, s') \<Longrightarrow>
    propose_semantic_definition (\<lambda>k. k) (ct_knowledge s) x e expected now = (Inr w, ct_knowledge s')
    \<and> s' = s\<lparr>ct_knowledge := ct_knowledge s'\<rparr>"
  unfolding propose_semantic_def by (auto split: prod.splits sum.splits)

lemma correct_semantic_Inr:
  assumes "correct_semantic s t d ref actor description reason expected i created now = (Inr (x, r), s')"
  obtains v refs a where
    "latest_context s t d = Inr (v, refs)" "ref \<in> set refs"
    "x = \<lparr>sd_tenant_id = t, sd_catalog_version_id = cv_id v, sd_object_ref = ref,
          sd_description = final_description (get_semantic_resolution (ct_knowledge s) t d ref) description,
          sd_status = CONFIRMED, sd_source = ''human_correction'', sd_confidence = PFin 1,
          sd_actor_id = Some actor, sd_reason = reason, sd_id = i, sd_created_at = created\<rparr>"
    "propose_semantic s x True expected now = (Inr (r, a), s')"
  using assms unfolding correct_semantic_def Let_def
  by (auto split: sum.splits prod.splits if_splits)

lemma latest_context_Inr:
  assumes "latest_context s t d = Inr (v, refs)"
  shows "latest_version s t d = Some v" "refs = version_references s t (cv_id v)"
  using assms unfolding latest_context_def by (auto split: option.splits if_splits)

lemma latest_version_Some:
  "latest_version s t d = Some v \<Longrightarrow> v \<in> set (ct_versions s) \<and> cv_tenant_id v = t \<and> cv_data_source_id v = d"
  unfolding latest_version_def by (drule first_by_Some) auto

text \<open>A version's identifier is unique, so the version of a correction has its data source.\<close>

lemma version_source_of_latest:
  assumes "unique_key cv_id (ct_versions s)" "latest_version s t d = Some v"
  shows "catalog_version_data_source (ct_knowledge s) t (cv_id v) = Inr d"
proof -
  have v: "v \<in> set (ct_versions s)" "cv_tenant_id v = t" "cv_data_source_id v = d"
    using latest_version_Some[OF assms(2)] by auto
  have "fetch_one (\<lambda>r. cv_tenant_id r = t \<and> cv_id r = cv_id v) (ct_versions s) = Some v"
    by (rule unique_key_fetch[OF assms(1) v(1)]) (use v in auto)
  then show ?thesis using v(3) by (simp add: catalog_version_data_source_def)
qed

lemma correction_effect:
  assumes "correct_semantic s t d ref actor description reason expected i created now = (Inr (x, r), s')"
    and "unique_key cv_id (ct_versions s)"
  shows "map_option sr_updated_at (get_semantic_resolution (ct_knowledge s) t d ref) = expected
    \<and> (\<exists>v. latest_version s t d = Some v \<and> ref \<in> set (version_references s t (cv_id v)))
    \<and> get_semantic_resolution (ct_knowledge s') t d ref = Some r
    \<and> sr_status r = CONFIRMED \<and> sr_selected_definition_id r = Some (sd_id x)
    \<and> sr_description r = final_description (get_semantic_resolution (ct_knowledge s) t d ref) description
    \<and> x \<in> set (ks_semantic_definitions (ct_knowledge s'))
    \<and> (\<forall>k. k \<noteq> Semantic_Subject (t, d, ref) \<longrightarrow>
         knowledge_of (ct_knowledge s') k = knowledge_of (ct_knowledge s) k)
    \<and> (\<forall>u. expected = Some u \<longrightarrow> u < sr_updated_at r) \<and> ct_versions s' = ct_versions s"
  using assms(1)
proof (cases rule: correct_semantic_Inr)
  case (1 v refs a)
  note latest = latest_context_Inr[OF 1(1)]
  have source: "catalog_version_data_source (ct_knowledge s) t (cv_id v) = Inr d"
    by (rule version_source_of_latest[OF assms(2) latest(1)])
  have fields: "sd_tenant_id x = t" "sd_catalog_version_id x = cv_id v" "sd_object_ref x = ref"
    "sd_status x = CONFIRMED"
    "sd_description x = final_description (get_semantic_resolution (ct_knowledge s) t d ref) description"
    using 1(3) by simp_all
  have subject: "semantic_subject (ct_knowledge s) x = (t, d, ref)"
    by (simp add: semantic_subject_def fields source)
  note stored = propose_semantic_Inr[OF 1(4), THEN conjunct1]
  have get: "get_semantic_resolution (ct_knowledge s') t d ref = Some r"
    using semantic_get_after[OF stored] by (simp add: subject semantic_get_def)
  obtain decision where dec: "semantic_decision (get_semantic_resolution (ct_knowledge s) t d ref) x True expected
        = Inr decision" "a = rd_action decision"
      "semantic_outcome (get_semantic_resolution (ct_knowledge s) t d ref) x d a now = Inr r"
      "ks_semantic_definitions (ct_knowledge s') = ks_semantic_definitions (ct_knowledge s) @ [x]"
    using stored by (rule propose_semantic_success) (auto simp: fields source)
  note sup = semantic_supersede[OF dec(1) dec(3)[unfolded dec(2)]]
  have "a = ACCEPT" using dec(1,2) by (auto simp: semantic_decision_def bind_result_Inr_iff decide_def)
  then have selected: "sr_selected_definition_id r = Some (sd_id x)"
    using dec(3) by (auto simp: semantic_outcome_def)
  have frame: "\<forall>k. k \<noteq> Semantic_Subject (t, d, ref) \<longrightarrow> knowledge_of (ct_knowledge s') k = knowledge_of (ct_knowledge s) k"
    using knowledge_step_success[of "ct_knowledge s" "Semantic_Proposal x" True expected now a "ct_knowledge s'"]
      stored fields(4) by (simp add: spec_step_def subject)
  have versions: "ct_versions s' = ct_versions s"
    using propose_semantic_same[OF 1(4)] by (simp add: same_physical_def)
  show ?thesis
    using latest 1(2) sup get selected dec(4) frame versions fields(5) by simp
qed

text \<open>
  A correction that succeeds was made from the current version of the resolution of an
  object or column of the latest catalog version; afterwards the resolution of that reference
  is the one returned, confirmed, with the corrected description (the current one when none
  was given), selecting the human definition; nothing else is known differently, and the
  same expected version cannot be used again.
\<close>

theorem correction_takes_effect_once:
  assumes "correct_semantic s t d ref actor description reason expected i created now = (Inr (x, r), s')"
    and "unique_key cv_id (ct_versions s)"
  shows "map_option sr_updated_at (get_semantic_resolution (ct_knowledge s) t d ref) = expected
    \<and> (\<exists>v. latest_version s t d = Some v \<and> ref \<in> set (version_references s t (cv_id v)))
    \<and> get_semantic_resolution (ct_knowledge s') t d ref = Some r
    \<and> sr_status r = CONFIRMED \<and> sr_selected_definition_id r = Some (sd_id x)
    \<and> sr_description r = final_description (get_semantic_resolution (ct_knowledge s) t d ref) description
    \<and> x \<in> set (ks_semantic_definitions (ct_knowledge s'))
    \<and> (\<forall>k. k \<noteq> Semantic_Subject (t, d, ref) \<longrightarrow> knowledge_of (ct_knowledge s') k = knowledge_of (ct_knowledge s) k)
    \<and> \<not> is_ok (fst (correct_semantic s' t d ref actor2 description2 reason2 expected i2 created2 now2))"
proof -
  note effect = correction_effect[OF assms]
  have "\<not> is_ok (fst (correct_semantic s' t d ref actor2 description2 reason2 expected i2 created2 now2))"
  proof
    assume ok: "is_ok (fst (correct_semantic s' t d ref actor2 description2 reason2 expected i2 created2 now2))"
    obtain res s2 where run: "correct_semantic s' t d ref actor2 description2 reason2 expected i2 created2 now2
        = (res, s2)" by fastforce
    obtain y r2 where "res = Inr (y, r2)" using ok run by (auto simp: is_ok_iff)
    then have "map_option sr_updated_at (get_semantic_resolution (ct_knowledge s') t d ref) = expected"
      using correction_effect[of s' t d ref actor2 description2 reason2 expected i2 created2 now2 y r2 s2]
        run assms(2) effect by simp
    then show False using effect by auto
  qed
  then show ?thesis using effect by blast
qed

end
