(* ===== verification/Catalog_Examples.thy ===== *)
theory Catalog_Examples
  imports Governance_Safety
begin

text \<open>
  A small data source on which the properties of ingestion and governance are applied, and the
  snapshot whose ingestion stops half way.
\<close>

section \<open>A sample snapshot\<close>

definition sample_catalog :: catalog_store where
  "sample_catalog =
     \<lparr>ct_sources = [\<lparr>ds_tenant_id = ''t'', ds_name = ''db'', ds_source_type = DIRECT_DB,
        ds_dialect = ''postgres'', ds_capabilities = [INTROSPECT], ds_connection_secret_ref = None,
        ds_id = ''d'', ds_created_at = 0\<rparr>],
      ct_knowledge = \<lparr>ks_versions = [], ks_semantic_definitions = [], ks_semantic_resolutions = [],
        ks_concept_definitions = [], ks_concept_resolutions = [], ks_analytic_definitions = [],
        ks_analytic_resolutions = [], ks_audit = []\<rparr>,
      ct_objects = [], ct_columns = [], ct_relationships = [], ct_audit = []\<rparr>"

definition sample_supply :: id_supply where
  "sample_supply = \<lparr>su_uuid = (\<lambda>n. replicate (Suc n) CHR ''u''), su_clock = int\<rparr>"

definition sample_column :: "string \<Rightarrow> int \<Rightarrow> string option \<Rightarrow> column_snapshot" where
  "sample_column name i comment =
     \<lparr>cs_name = name, cs_physical_type = ''integer'', cs_ordinal = i, cs_nullable = False,
      cs_default_expression = None, cs_is_primary_key = True, cs_comment = comment,
      cs_classification = INTERNAL\<rparr>"

definition sample_object :: "string \<Rightarrow> string option \<Rightarrow> column_snapshot list \<Rightarrow> schema_object_snapshot" where
  "sample_object name comment columns =
     \<lparr>os_schema_name = ''s'', os_name = name, os_kind = TABLE_KIND, os_columns = columns,
      os_definition_sql = None, os_comment = comment\<rparr>"

definition sample_snapshot :: data_source_snapshot where
  "sample_snapshot =
     \<lparr>dn_data_source_id = ''d'', dn_dialect = ''postgres'',
      dn_objects = [sample_object ''users'' (Some ''People'') [sample_column ''id'' 1 None],
                    sample_object ''orders'' None
                      [sample_column ''user_id'' 2 (Some ''Buyer''), sample_column ''id'' 1 None]],
      dn_relationships = [\<lparr>rs_name = ''fk'', rs_source_object_ref = ''s.orders'',
        rs_target_object_ref = ''s.users'', rs_source_columns = [''user_id''],
        rs_target_columns = [''id'']\<rparr>]\<rparr>"

abbreviation "sample_ingestion \<equiv>
  ingest_snapshot sample_supply ''t'' ''d'' sample_snapshot ''database_comment'' sample_catalog 0"

lemma sample_ingested: "is_ok (fst sample_ingestion)"
  by code_simp

definition sample_report :: ingestion_report where
  "sample_report = projr (fst sample_ingestion)"

definition sample_ingested_catalog :: catalog_store where
  "sample_ingested_catalog = fst (snd sample_ingestion)"

lemma sample_ingestion_result:
  "sample_ingestion = (Inr sample_report, sample_ingested_catalog, snd (snd sample_ingestion))"
  using is_ok_projr[OF sample_ingested]
  by (simp add: sample_report_def sample_ingested_catalog_def prod_eq_iff)

lemma sample_linked: "catalog_linked sample_catalog"
  by (simp add: catalog_linked_def sample_catalog_def)

theorem explorer_shows_ingested_snapshot_witness:
  "\<exists>e. explore_latest sample_ingested_catalog ''t'' ''d'' = Inr e
    \<and> ses_catalog_version_id e = ir_catalog_version_id sample_report
    \<and> ses_catalog_version e = ir_catalog_version sample_report
    \<and> map object_entry_view (ses_objects e)
        = sort_key view_names (map object_snapshot_view (dn_objects sample_snapshot))
    \<and> map relationship_entry_shape (ses_relationships e)
        = map view_shape (sort_key view_name
            (map (relationship_snapshot_view (dn_objects sample_snapshot)) (dn_relationships sample_snapshot)))"
  using explorer_shows_ingested_snapshot[OF sample_ingestion_result sample_linked] by blast

section \<open>A correction\<close>

abbreviation "sample_correction_run \<equiv> correct_semantic sample_ingested_catalog ''t'' ''d'' ''s.users''
  ''ana'' (Some '' Customers '') None (Some 3) ''c1'' 50 60"

lemma sample_correction_ok: "is_ok (fst sample_correction_run)"
  by code_simp

lemma sample_correction_result:
  "sample_correction_run = (Inr (fst (projr (fst sample_correction_run)), snd (projr (fst sample_correction_run))),
     snd sample_correction_run)"
  using is_ok_projr[OF sample_correction_ok] by (simp add: prod_eq_iff)

lemma sample_unique_versions: "unique_key cv_id (ct_versions sample_ingested_catalog)"
proof -
  have "length (ct_versions sample_ingested_catalog) = 1" by code_simp
  then show ?thesis by (cases "ct_versions sample_ingested_catalog") (auto simp: unique_key_def)
qed

theorem correction_takes_effect_once_witness:
  "sr_status (snd (projr (fst sample_correction_run))) = CONFIRMED
   \<and> \<not> is_ok (fst (correct_semantic (snd sample_correction_run) ''t'' ''d'' ''s.users'' ''bob''
        (Some ''Clients'') None (Some 3) ''c2'' 70 80))"
  using correction_takes_effect_once[OF sample_correction_result sample_unique_versions,
      of "''bob''" "Some ''Clients''" None "''c2''" 70 80] by blast

section \<open>A snapshot that is half stored\<close>

definition blank_comment_snapshot :: data_source_snapshot where
  "blank_comment_snapshot = sample_snapshot
     \<lparr>dn_objects := [sample_object ''users'' (Some '' '') [sample_column ''id'' 1 None],
                    sample_object ''orders'' None
                      [sample_column ''user_id'' 2 None, sample_column ''id'' 1 None]]\<rparr>"

abbreviation "blank_comment_ingestion \<equiv>
  ingest_snapshot sample_supply ''t'' ''d'' blank_comment_snapshot ''database_comment''
    sample_ingested_catalog 20"


end
