(* ===== verification/Search_Text.thy ===== *)
theory Search_Text
  imports Prelude
begin

text \<open>
  \<open>normalize_search_term\<close> of \<open>domain/text.py\<close>: case folding, compatibility decomposition
  without the combining marks, and the word tokens joined by single blanks, on the code points
  below 256.  Decompositions that leave the range keep a character of the same word class (the
  micro sign itself for the Greek letter, a slash for the fraction slash).
\<close>

definition nfkd_base :: "nat \<Rightarrow> string" where
  "nfkd_base n =
     (if n = 160 \<or> n = 168 \<or> n = 175 \<or> n = 180 \<or> n = 184 then '' ''
      else if n = 170 then ''a'' else if n = 186 then ''o''
      else if n = 178 then ''2'' else if n = 179 then ''3'' else if n = 185 then ''1''
      else if n = 188 then ''1/4'' else if n = 189 then ''1/2'' else if n = 190 then ''3/4''
      else if 192 \<le> n \<and> n \<le> 197 then ''A'' else if n = 199 then ''C''
      else if 200 \<le> n \<and> n \<le> 203 then ''E'' else if 204 \<le> n \<and> n \<le> 207 then ''I''
      else if n = 209 then ''N'' else if 210 \<le> n \<and> n \<le> 214 then ''O''
      else if 217 \<le> n \<and> n \<le> 220 then ''U'' else if n = 221 then ''Y''
      else if 224 \<le> n \<and> n \<le> 229 then ''a'' else if n = 231 then ''c''
      else if 232 \<le> n \<and> n \<le> 235 then ''e'' else if 236 \<le> n \<and> n \<le> 239 then ''i''
      else if n = 241 then ''n'' else if 242 \<le> n \<and> n \<le> 246 then ''o''
      else if 249 \<le> n \<and> n \<le> 252 then ''u'' else if n = 253 \<or> n = 255 then ''y''
      else [char_of n])"

definition without_accents :: "string \<Rightarrow> string" where
  "without_accents s = concat (map (\<lambda>c. nfkd_base (code_point c)) s)"

definition word_char :: "char \<Rightarrow> bool" where
  "word_char c = (py_isalnum c \<or> c = CHR ''_'')"

text \<open>\<open>re.findall(r"\w+", s)\<close>: the maximal runs of word characters.\<close>

fun word_runs :: "string \<Rightarrow> string \<Rightarrow> string list" where
  "word_runs acc [] = (if acc = [] then [] else [rev acc])"
| "word_runs acc (c # cs) =
     (if word_char c then word_runs (c # acc) cs
      else if acc = [] then word_runs [] cs
      else rev acc # word_runs [] cs)"

definition word_tokens :: "string \<Rightarrow> string list" where
  "word_tokens s = word_runs [] s"

definition normalize_term :: "string \<Rightarrow> string" where
  "normalize_term value = py_join '' '' (word_tokens (without_accents (casefold value)))"

text \<open>\<open>needle in haystack\<close>.\<close>

fun is_prefix :: "string \<Rightarrow> string \<Rightarrow> bool" where
  "is_prefix [] ys = True"
| "is_prefix (x # xs) [] = False"
| "is_prefix (x # xs) (y # ys) = (x = y \<and> is_prefix xs ys)"

fun is_infix :: "string \<Rightarrow> string \<Rightarrow> bool" where
  "is_infix xs [] = (xs = [])"
| "is_infix xs (y # ys) = (is_prefix xs (y # ys) \<or> is_infix xs ys)"

text \<open>The test \<open>f" {term} " in normalized_query\<close>.\<close>

definition term_in_query :: "string \<Rightarrow> string \<Rightarrow> bool" where
  "term_in_query t normalized_query = is_infix ('' '' @ t @ '' '') normalized_query"

lemma word_runs_chars:
  "w \<in> set (word_runs acc s) \<Longrightarrow> \<forall>c \<in> set acc. word_char c \<Longrightarrow> w \<noteq> [] \<and> (\<forall>c \<in> set w. word_char c)"
proof (induction acc s arbitrary: w rule: word_runs.induct)
  case (1 acc)
  then show ?case by (simp split: if_splits)
next
  case (2 acc c cs)
  consider "word_char c" | "\<not> word_char c" "acc = []" | "\<not> word_char c" "acc \<noteq> []" by blast
  then show ?case
  proof cases
    case 1
    then show ?thesis using "2.IH"(1)[OF 1, of w] "2.prems" by simp
  next
    case c: 2
    then show ?thesis using "2.IH"(2)[OF c(1,2), of w] "2.prems" by simp
  next
    case c: 3
    then show ?thesis using "2.IH"(3)[OF c(1,2), of w] "2.prems" by auto
  qed
qed

lemma word_tokens_chars: "w \<in> set (word_tokens s) \<Longrightarrow> w \<noteq> [] \<and> (\<forall>c \<in> set w. word_char c)"
  using word_runs_chars[of w "[]" s] by (simp add: word_tokens_def)

end
