(* ===== verification/Concept_Service.thy ===== *)
theory Concept_Service
  imports Semantic_Governance Search_Text
begin

text \<open>
  Business concepts, \<open>catalog/business_concepts.py\<close>: proposals of imported or inferred
  evidence, human corrections whose terms must not belong to another confirmed concept, the
  evidence history and review queue, and the resolution of the business terms of a question.
  Modelled as one process runs it.
\<close>

datatype concept_error =
    Con_Catalog governance_error | Con_Proposal_Status | Con_Key_Not_Lowercase | Con_Not_Unique
  | Con_Name_Is_Synonym | Con_Invalid knowledge_model_error | Con_Unknown_Objects "string list"
  | Con_Term_Conflict | Con_Concurrency knowledge_error | Con_Store knowledge_error
  | Con_Not_Found | Con_Blank_Query

section \<open>Definitions\<close>

text \<open>\<open>_canonical_values\<close>: the stripped values, refused when two of them are the same.\<close>

definition canonical_values :: "bool \<Rightarrow> string list \<Rightarrow> concept_error + string list" where
  "canonical_values normalized_unique values =
     (let clean = map strip values
      in if has_duplicates (if normalized_unique then map normalize_term clean else clean)
         then Inl Con_Not_Unique else Inr clean)"

definition require_object_refs :: "string list \<Rightarrow> string list \<Rightarrow> concept_error + unit" where
  "require_object_refs refs known =
     (let missing = filter (\<lambda>v. v \<notin> set known) refs
      in raise_if (missing \<noteq> []) (Con_Unknown_Objects missing))"

record concept_input =
  ci_concept_key :: string
  ci_name :: string
  ci_description :: string
  ci_synonyms :: "string list"
  ci_object_refs :: "string list"
  ci_content_classification :: classification
  ci_status :: epistemic_status
  ci_source :: string
  ci_confidence :: pyfloat
  ci_actor_id :: "string option"
  ci_reason :: "string option"

definition concept_definition ::
  "string \<Rightarrow> string \<Rightarrow> catalog_version \<Rightarrow> concept_input \<Rightarrow> string list \<Rightarrow> string \<Rightarrow> timestamp
     \<Rightarrow> concept_error + business_concept_definition" where
  "concept_definition t d v x refs i created =
     (let key = strip (ci_concept_key x)
      in if key \<noteq> casefold key then Inl Con_Key_Not_Lowercase
         else
           (let name = strip (ci_name x)
            in bind_result (canonical_values True (ci_synonyms x)) (\<lambda>synonyms.
                 if normalize_term name \<in> set (map normalize_term synonyms) then Inl Con_Name_Is_Synonym
                 else
                   (let c = \<lparr>bcd_tenant_id = t, bcd_data_source_id = d, bcd_catalog_version_id = cv_id v,
                             bcd_concept_key = key, bcd_name = name,
                             bcd_description = strip (ci_description x), bcd_synonyms = synonyms,
                             bcd_object_refs = refs,
                             bcd_content_classification = ci_content_classification x,
                             bcd_status = ci_status x, bcd_source = strip (ci_source x),
                             bcd_confidence = ci_confidence x,
                             bcd_actor_id = map_option strip (ci_actor_id x),
                             bcd_reason = map_option strip (ci_reason x), bcd_id = i,
                             bcd_created_at = created\<rparr>
                    in map_sum Con_Invalid (\<lambda>_. c) (business_concept_definition_post_init c)))))"

text \<open>The steps \<open>propose\<close> and \<open>correct\<close> share: the latest version, the references, the definition.\<close>

definition concept_context ::
  "catalog_store \<Rightarrow> string \<Rightarrow> string \<Rightarrow> concept_error + (catalog_version \<times> string list)" where
  "concept_context s t d = map_sum Con_Catalog id (latest_context s t d)"

definition prepared_definition ::
  "catalog_store \<Rightarrow> string \<Rightarrow> string \<Rightarrow> concept_input \<Rightarrow> string \<Rightarrow> timestamp
     \<Rightarrow> concept_error + business_concept_definition" where
  "prepared_definition s t d x i created =
     bind_result (concept_context s t d) (\<lambda>(v, known).
     bind_result (canonical_values False (ci_object_refs x)) (\<lambda>refs.
     bind_result (require_object_refs refs known) (\<lambda>_.
       concept_definition t d v x refs i created)))"

definition propose_concept_on ::
  "catalog_store \<Rightarrow> business_concept_definition \<Rightarrow> bool \<Rightarrow> timestamp option \<Rightarrow> timestamp
     \<Rightarrow> (knowledge_error + business_concept_resolution knowledge_write) \<times> catalog_store" where
  "propose_concept_on s c explicit_supersede expected now =
     (case propose_business_concept_definition (\<lambda>k. k) (ct_knowledge s) c explicit_supersede expected now of
        (r, k) \<Rightarrow> (r, s\<lparr>ct_knowledge := k\<rparr>))"

definition concept_propose ::
  "catalog_store \<Rightarrow> string \<Rightarrow> string \<Rightarrow> concept_input \<Rightarrow> string \<Rightarrow> timestamp \<Rightarrow> timestamp
     \<Rightarrow> (concept_error + business_concept_definition \<times> business_concept_resolution knowledge_write) \<times> catalog_store" where
  "concept_propose s t d x i created now =
     (if ci_status x \<notin> {IMPORTED, INFERRED, UNKNOWN} then (Inl Con_Proposal_Status, s)
      else case prepared_definition s t d x i created of
        Inl e \<Rightarrow> (Inl e, s)
      | Inr c \<Rightarrow>
          (case propose_concept_on s c False None now of
             (Inl e, s') \<Rightarrow> (Inl (Con_Store e), s')
           | (Inr w, s') \<Rightarrow> (Inr (c, w), s')))"

section \<open>Terms\<close>

text \<open>\<open>_concept_terms\<close>: the normalised name, key and synonyms, sorted, without blank ones.\<close>

definition key_words :: "string \<Rightarrow> string" where
  "key_words k = map (\<lambda>c. if c = CHR ''_'' then CHR '' '' else c) k"

definition terms_of :: "string \<Rightarrow> string \<Rightarrow> string list \<Rightarrow> string list" where
  "terms_of name key synonyms =
     sorted_set (map normalize_term (filter (\<lambda>v. \<not> blank v) (name # key_words key # synonyms)))"

definition definition_terms :: "business_concept_definition \<Rightarrow> string list" where
  "definition_terms c = terms_of (bcd_name c) (bcd_concept_key c) (bcd_synonyms c)"

definition concept_terms :: "business_concept_resolution \<Rightarrow> string list" where
  "concept_terms c = terms_of (bcr_name c) (bcr_concept_key c) (bcr_synonyms c)"

definition require_unique_confirmed_terms ::
  "catalog_store \<Rightarrow> business_concept_definition \<Rightarrow> concept_error + unit" where
  "require_unique_confirmed_terms s c =
     raise_if
       (\<exists>cur \<in> set (list_business_concept_resolutions (ct_knowledge s) (bcd_tenant_id c)
                       (bcd_data_source_id c) {CONFIRMED}).
          bcr_concept_key cur \<noteq> bcd_concept_key c
          \<and> set (definition_terms c) \<inter> set (concept_terms cur) \<noteq> {})
       Con_Term_Conflict"

definition concept_store_error :: "knowledge_error \<Rightarrow> concept_error" where
  "concept_store_error e =
     (if e \<in> {No_Longer_Matches, Expected_Required, Changed_Since_Loaded} then Con_Concurrency e
      else Con_Store e)"

text \<open>A correction is confirmed evidence of full confidence from a human.\<close>

definition human_input :: "concept_input \<Rightarrow> concept_input" where
  "human_input x = x\<lparr>ci_status := CONFIRMED, ci_source := ''human_correction'', ci_confidence := PFin 1\<rparr>"

definition concept_correct ::
  "catalog_store \<Rightarrow> string \<Rightarrow> string \<Rightarrow> concept_input \<Rightarrow> timestamp option \<Rightarrow> string \<Rightarrow> timestamp \<Rightarrow> timestamp
     \<Rightarrow> (concept_error + business_concept_definition \<times> business_concept_resolution) \<times> catalog_store" where
  "concept_correct s t d x expected i created now =
     (case bind_result (prepared_definition s t d (human_input x) i created) (\<lambda>c.
             bind_result (require_unique_confirmed_terms s c) (\<lambda>_. Inr c)) of
        Inl e \<Rightarrow> (Inl e, s)
      | Inr c \<Rightarrow>
          (case propose_concept_on s c True expected now of
             (Inl e, s') \<Rightarrow> (Inl (concept_store_error e), s')
           | (Inr (r, _), s') \<Rightarrow> (Inr (c, r), s')))"

section \<open>Listings\<close>

definition require_concept_source :: "catalog_store \<Rightarrow> string \<Rightarrow> string \<Rightarrow> concept_error + unit" where
  "require_concept_source s t d =
     raise_if (catalog_source s t d = None) (Con_Catalog Gov_Source_Missing)"

definition list_concepts ::
  "catalog_store \<Rightarrow> string \<Rightarrow> string \<Rightarrow> concept_error + business_concept_resolution list" where
  "list_concepts s t d =
     bind_result (require_concept_source s t d) (\<lambda>_.
       Inr (list_business_concept_resolutions (ct_knowledge s) t d {}))"

record concept_evidence_entry =
  cee_definition :: business_concept_definition
  cee_selected :: bool

definition concept_history ::
  "catalog_store \<Rightarrow> string \<Rightarrow> string \<Rightarrow> string \<Rightarrow> concept_error + concept_evidence_entry list" where
  "concept_history s t d key =
     bind_result (require_concept_source s t d) (\<lambda>_.
       case get_business_concept_resolution (ct_knowledge s) t d key of
         None \<Rightarrow> Inl Con_Not_Found
       | Some cur \<Rightarrow> Inr (map (\<lambda>c. \<lparr>cee_definition = c,
                               cee_selected = (bcr_selected_definition_id cur = Some (bcd_id c))\<rparr>)
                           (list_business_concept_definitions (ct_knowledge s) t d key)))"

definition concept_review_queue ::
  "catalog_store \<Rightarrow> string \<Rightarrow> string
     \<Rightarrow> concept_error + (business_concept_resolution \<times> concept_evidence_entry list) list" where
  "concept_review_queue s t d =
     bind_result (require_concept_source s t d) (\<lambda>_.
       collect_results
         (map (\<lambda>r. bind_result (concept_history s t d (bcr_concept_key r)) (\<lambda>h. Inr (r, h)))
            (list_business_concept_resolutions (ct_knowledge s) t d {INFERRED, CONFLICTING})))"

section \<open>Resolving the terms of a question\<close>

record concept_match =
  cm_resolution :: business_concept_resolution
  cm_matched_terms :: "string list"

record term_ambiguity =
  tm_term :: string
  tm_concept_keys :: "string list"

record term_resolution =
  tr_matches :: "concept_match list"
  tr_ambiguities :: "term_ambiguity list"

text \<open>
  \<open>term_map\<close>: each term of the confirmed concepts, in order of first appearance, with the
  concepts that have it; \<open>matched\<close>: those that occur in the question as whole words.
\<close>

definition term_map ::
  "business_concept_resolution list \<Rightarrow> (string \<times> business_concept_resolution list) list" where
  "term_map concepts =
     map (\<lambda>w. (w, filter (\<lambda>c. w \<in> set (concept_terms c)) concepts))
       (dedupe (concat (map concept_terms concepts)))"

definition matched_terms_of ::
  "business_concept_resolution list \<Rightarrow> string \<Rightarrow> (string \<times> business_concept_resolution list) list" where
  "matched_terms_of concepts normalized_query =
     filter (\<lambda>(w, _). term_in_query w normalized_query) (term_map concepts)"

definition term_ambiguities ::
  "(string \<times> business_concept_resolution list) list \<Rightarrow> term_ambiguity list" where
  "term_ambiguities matched =
     map (\<lambda>(w, cs). \<lparr>tm_term = w, tm_concept_keys = sort (map bcr_concept_key cs)\<rparr>)
       (filter (\<lambda>(w, cs). length cs > 1) (sort_key fst matched))"

definition concept_matches ::
  "(string \<times> business_concept_resolution list) list \<Rightarrow> concept_match list" where
  "concept_matches matched =
     (let single = map (\<lambda>(w, cs). (w, hd cs)) (filter (\<lambda>(w, cs). \<not> length cs > 1) matched)
      in map (\<lambda>key.
           (let own = filter (\<lambda>(w, c). bcr_concept_key c = key) single
            in \<lparr>cm_resolution = snd (hd own),
                cm_matched_terms = sort_key (\<lambda>w. (- int (length w), w)) (map fst own)\<rparr>))
         (sort (dedupe (map (\<lambda>(w, c). bcr_concept_key c) single))))"

definition resolve_terms ::
  "catalog_store \<Rightarrow> string \<Rightarrow> string \<Rightarrow> string \<Rightarrow> concept_error + term_resolution" where
  "resolve_terms s t d query =
     bind_result (require_concept_source s t d) (\<lambda>_.
       let normalized_query = '' '' @ normalize_term query @ '' ''
       in if blank normalized_query then Inl Con_Blank_Query
          else
            (let matched = matched_terms_of
                   (list_business_concept_resolutions (ct_knowledge s) t d {CONFIRMED}) normalized_query
             in Inr \<lparr>tr_matches = concept_matches matched, tr_ambiguities = term_ambiguities matched\<rparr>))"

end
