(* ===== verification/Sql_Dialects.thy ===== *)
theory Sql_Dialects
  imports Prelude
begin

text \<open>
  The SQL dialects of \<open>sql_engine/validator.py\<close>: the capability records, the registry that
  resolves a dialect's name and its aliases, and the spelling rule of \<open>identifiers.py\<close>.
  A \<open>frozenset\<close> of names is a list.
\<close>

record dialect_capabilities =
  dc_dialect :: string
  dc_sqlglot_name :: string
  dc_supports_cte :: bool
  dc_supports_set_operations :: bool
  dc_supports_limit :: bool
  dc_aliases :: "string list"
  dc_dangerous_functions :: "string list"
  dc_allowed_anonymous_functions :: "string list"

definition POSTGRESQL_CAPABILITIES :: dialect_capabilities where
  "POSTGRESQL_CAPABILITIES =
     \<lparr>dc_dialect = ''postgresql'', dc_sqlglot_name = ''postgres'', dc_supports_cte = True,
      dc_supports_set_operations = True, dc_supports_limit = True,
      dc_aliases = [''postgres'', ''postgresql''],
      dc_dangerous_functions = 
        [''dblink'', ''dblink_exec'', ''lo_export'', ''lo_import'', ''nextval'',
         ''pg_advisory_lock'', ''pg_advisory_unlock'', ''pg_cancel_backend'', ''pg_ls_dir'',
         ''pg_read_binary_file'', ''pg_read_file'', ''pg_reload_conf'', ''pg_sleep'',
         ''pg_stat_file'', ''pg_terminate_backend'', ''set_config'', ''setval''],
      dc_allowed_anonymous_functions = 
        [''age'', ''array_to_string'', ''concat_ws'', ''date_bin'', ''date_part'',
         ''json_build_array'', ''json_build_object'', ''json_extract_path_text'',
         ''jsonb_build_array'', ''jsonb_build_object'', ''jsonb_extract_path_text'',
         ''make_date'', ''make_interval'', ''make_time'', ''make_timestamp'',
         ''make_timestamptz'', ''regexp_matches'', ''regexp_split_to_array'', ''split_part'',
         ''string_to_array'', ''timezone'', ''width_bucket'']\<rparr>"

definition MYSQL_CAPABILITIES :: dialect_capabilities where
  "MYSQL_CAPABILITIES =
     \<lparr>dc_dialect = ''mysql'', dc_sqlglot_name = ''mysql'', dc_supports_cte = True,
      dc_supports_set_operations = True, dc_supports_limit = True,
      dc_aliases = [''mysql''],
      dc_dangerous_functions = 
        [''benchmark'', ''get_lock'', ''is_free_lock'', ''is_used_lock'', ''load_file'',
         ''master_pos_wait'', ''release_all_locks'', ''release_lock'', ''sleep'', ''sys_exec'',
         ''sys_eval''],
      dc_allowed_anonymous_functions = 
        [''concat_ws'', ''date_format'', ''datediff'', ''extractvalue'', ''find_in_set'',
         ''from_unixtime'', ''group_concat'', ''json_extract'', ''json_object'', ''json_unquote'',
         ''last_day'', ''makedate'', ''period_diff'', ''regexp_like'', ''str_to_date'',
         ''timestampdiff'', ''unix_timestamp'']\<rparr>"

definition MARIADB_CAPABILITIES :: dialect_capabilities where
  "MARIADB_CAPABILITIES =
     \<lparr>dc_dialect = ''mariadb'', dc_sqlglot_name = ''mysql'', dc_supports_cte = True,
      dc_supports_set_operations = True, dc_supports_limit = True,
      dc_aliases = [''mariadb''],
      dc_dangerous_functions = dc_dangerous_functions MYSQL_CAPABILITIES,
      dc_allowed_anonymous_functions = dc_allowed_anonymous_functions MYSQL_CAPABILITIES\<rparr>"

definition ORACLE_CAPABILITIES :: dialect_capabilities where
  "ORACLE_CAPABILITIES =
     \<lparr>dc_dialect = ''oracle'', dc_sqlglot_name = ''oracle'', dc_supports_cte = True,
      dc_supports_set_operations = True, dc_supports_limit = True,
      dc_aliases = [''oracle''],
      dc_dangerous_functions = 
        [''dbms_lock.sleep'', ''request'', ''sleep'', ''utl_file.fopen'', ''utl_http.request''],
      dc_allowed_anonymous_functions = 
        [''add_months'', ''decode'', ''last_day'', ''listagg'', ''months_between'', ''nvl2'',
         ''regexp_like'', ''regexp_substr'', ''to_char'', ''to_date'', ''to_timestamp'',
         ''trunc'']\<rparr>"

definition SQLSERVER_CAPABILITIES :: dialect_capabilities where
  "SQLSERVER_CAPABILITIES =
     \<lparr>dc_dialect = ''sqlserver'', dc_sqlglot_name = ''tsql'', dc_supports_cte = True,
      dc_supports_set_operations = True, dc_supports_limit = True,
      dc_aliases = [''mssql'', ''sqlserver'', ''tsql''],
      dc_dangerous_functions = 
        [''openquery'', ''opendatasource'', ''openrowset'', ''xp_cmdshell''],
      dc_allowed_anonymous_functions = 
        [''datefromparts'', ''eomonth'', ''format'', ''iif'', ''parsename'', ''string_agg'',
         ''try_cast'', ''try_convert'']\<rparr>"

section \<open>Registry\<close>

definition dialect_aliases :: "dialect_capabilities \<Rightarrow> string list" where
  "dialect_aliases c = (if dc_aliases c = [] then [dc_dialect c] else dc_aliases c)"

text \<open>The keys \<open>aliases | {item.dialect}\<close>, folded.\<close>

definition registry_keys :: "dialect_capabilities \<Rightarrow> string list" where
  "registry_keys c = map casefold (remdups (dialect_aliases c @ [dc_dialect c]))"

text \<open>
  \<open>DialectRegistry.__init__\<close>: an alias may be given twice for equal capabilities only.  The
  error is the alias, folded.
\<close>

type_synonym dialect_registry = "(string \<times> dialect_capabilities) list"

fun register_keys ::
  "dialect_registry \<Rightarrow> string list \<Rightarrow> dialect_capabilities \<Rightarrow> string + dialect_registry" where
  "register_keys m [] c = Inr m"
| "register_keys m (k # ks) c =
     (case map_of m k of
        Some c' \<Rightarrow> if c' \<noteq> c then Inl k else register_keys ((k, c) # m) ks c
      | None \<Rightarrow> register_keys ((k, c) # m) ks c)"

fun register_dialects ::
  "dialect_registry \<Rightarrow> dialect_capabilities list \<Rightarrow> string + dialect_registry" where
  "register_dialects m [] = Inr m"
| "register_dialects m (c # cs) =
     bind_result (register_keys m (registry_keys c) c) (\<lambda>m'. register_dialects m' cs)"

definition DEFAULT_CAPABILITIES :: "dialect_capabilities list" where
  "DEFAULT_CAPABILITIES =
     [POSTGRESQL_CAPABILITIES, MYSQL_CAPABILITIES, MARIADB_CAPABILITIES, ORACLE_CAPABILITIES,
      SQLSERVER_CAPABILITIES]"

definition DEFAULT_DIALECT_REGISTRY :: "string + dialect_registry" where
  "DEFAULT_DIALECT_REGISTRY = register_dialects [] DEFAULT_CAPABILITIES"

definition registry_resolve :: "dialect_registry \<Rightarrow> string \<Rightarrow> dialect_capabilities option" where
  "registry_resolve m dialect = map_of m (casefold (strip dialect))"

definition registry_supports :: "dialect_registry \<Rightarrow> string \<Rightarrow> bool" where
  "registry_supports m dialect = (registry_resolve m dialect \<noteq> None)"

definition registry_dialects :: "dialect_registry \<Rightarrow> string list" where
  "registry_dialects m = sorted_set (map (dc_dialect \<circ> snd) m)"

text \<open>\<open>None\<close> is the \<open>UnsupportedDialectError\<close>.\<close>

definition sqlglot_dialect_name :: "string \<Rightarrow> string option" where
  "sqlglot_dialect_name dialect =
     (case DEFAULT_DIALECT_REGISTRY of
        Inl _ \<Rightarrow> None
      | Inr m \<Rightarrow> map_option dc_sqlglot_name (registry_resolve m dialect))"

section \<open>Identifiers\<close>

text \<open>
  \<open>str.upper\<close>; the upper case of the micro sign and of the y with diaeresis
  lies outside the range of characters, so both are kept.
\<close>

definition py_upper_char :: "char \<Rightarrow> string" where
  "py_upper_char c =
     (let n = code_point c
      in if (97 \<le> n \<and> n \<le> 122) \<or> (224 \<le> n \<and> n \<le> 254 \<and> n \<noteq> 247) then [char_of (n - 32)]
         else if n = 223 then ''SS'' else [c])"

definition py_upper :: "string \<Rightarrow> string" where
  "py_upper s = concat (map py_upper_char s)"

record sql_identifier =
  id_name :: string
  id_quoted :: bool

definition normalize_identifier :: "string \<Rightarrow> sql_identifier \<Rightarrow> sql_identifier" where
  "normalize_identifier dialect i =
     (if id_quoted i then i
      else if dialect = ''postgres'' then i\<lparr>id_name := py_lower (id_name i)\<rparr>
      else if dialect = ''oracle'' then i\<lparr>id_name := py_upper (id_name i)\<rparr>
      else i)"

end
