(* ===== verification/Sql_Validator.thy ===== *)
theory Sql_Validator
  imports Sql_Dialects Contracts
begin

text \<open>
  \<open>DialectSQLValidator\<close> of \<open>sql_engine/validator.py\<close>: whether a proposed statement is one
  read-only query over the allowed tables and columns, with its preview limit, and the lineage
  of its output columns.

  The parser, the scope analysis and the printer are \<open>sqlglot\<close>'s and arguments here.  What the
  validator reads of a parsed statement is a \<open>statement_view\<close>: the nodes with the class names
  of each (for \<open>isinstance\<close>) and of its ancestors, the scopes \<open>traverse_scope\<close> gives, and the
  limit.  Tables and columns are nodes with an identity, as \<open>id(...)\<close> is.  The view of a
  statement depends on the spelling of its identifiers, which the validator normalises first;
  the scopes are read a second time after the references have been bound.
\<close>

section \<open>Parsed statements\<close>

record sql_node =
  sn_classes :: "string list"
  sn_name :: string
  sn_parents :: "string list list"

record table_node =
  tn_id :: nat
  tn_catalog :: string
  tn_db :: string
  tn_name :: string
  tn_alias :: string
  tn_sql :: string

record column_node =
  cn_id :: nat
  cn_is_star :: bool
  cn_catalog :: string
  cn_db :: string
  cn_table :: string
  cn_name :: string
  cn_sql :: string

text \<open>
  A source of a scope: a table, the scope of a derived table or CTE (its identity, its column
  list and the output names of its query), or neither.
\<close>

datatype scope_source = Physical table_node | Derived nat "string list" "string list" | Other_Source

record select_item =
  si_output :: string
  si_named :: bool
  si_columns :: "column_node list"

text \<open>\<open>qs_ancestors\<close>: the source names of the enclosing scopes, from the parent outwards.\<close>

record query_scope =
  qs_id :: nat
  qs_is_select :: bool
  qs_selected_sources :: "(string \<times> scope_source) list"
  qs_columns :: "column_node list"
  qs_outer_columns :: "string list"
  qs_ancestors :: "string list list"
  qs_can_be_correlated :: bool
  qs_selects :: "select_item list"

text \<open>\<open>ln_count\<close> is the number of a static integer literal.\<close>

record limit_node =
  ln_count :: "int option"
  ln_percent :: bool
  ln_with_ties :: bool

text \<open>The names the validator writes into table and column nodes.\<close>

record name_bindings =
  nb_tables :: "(nat \<times> string \<times> string) list"
  nb_columns :: "(nat \<times> string) list"

text \<open>\<open>Inl ()\<close> is the \<open>OptimizeError\<close> of an ambiguous scope.\<close>

record statement_view =
  st_classes :: "string list"
  st_nodes :: "sql_node list"
  st_scopes :: "unit + query_scope list"
  st_bound_scopes :: "name_bindings \<Rightarrow> unit + query_scope list"
  st_limit :: "limit_node option"

record raw_statement =
  rw_identifiers :: "sql_identifier list"
  rw_view :: "sql_identifier list \<Rightarrow> statement_view"

text \<open>The parser of a dialect (\<open>Inl\<close> the text of a \<open>ParseError\<close>) and the printer.\<close>

record sql_library =
  sl_parse :: "string \<Rightarrow> string \<Rightarrow> string + raw_statement option list"
  sl_render :: "string \<Rightarrow> statement_view \<Rightarrow> name_bindings \<Rightarrow> limit_node option \<Rightarrow> string"

definition normalize_identifiers :: "string \<Rightarrow> raw_statement \<Rightarrow> statement_view" where
  "normalize_identifiers dialect r = rw_view r (map (normalize_identifier dialect) (rw_identifiers r))"

definition isa :: "string list \<Rightarrow> string list \<Rightarrow> bool" where
  "isa classes wanted = (\<exists>c \<in> set classes. c \<in> set wanted)"

definition find_all :: "string list \<Rightarrow> statement_view \<Rightarrow> sql_node list" where
  "find_all wanted st = filter (\<lambda>n. isa (sn_classes n) wanted) (st_nodes st)"

definition type_name :: "string list \<Rightarrow> string" where
  "type_name classes = (case classes of [] \<Rightarrow> [] | c # _ \<Rightarrow> c)"

section \<open>Issues\<close>

type_synonym issues = "validation_issue list"

definition blocking_issue :: "string \<Rightarrow> string \<Rightarrow> validation_issue" where
  "blocking_issue code message = \<lparr>vi_code = code, vi_message = message, vi_blocking = True\<rparr>"

definition add_issue :: "string \<Rightarrow> string \<Rightarrow> issues \<Rightarrow> issues" where
  "add_issue code message issues =
     (if \<exists>i \<in> set issues. vi_code i = code \<and> vi_message i = message then issues
      else issues @ [blocking_issue code message])"

definition add_issue_if :: "bool \<Rightarrow> string \<Rightarrow> string \<Rightarrow> issues \<Rightarrow> issues" where
  "add_issue_if b code message issues = (if b then add_issue code message issues else issues)"

definition rejected :: "string \<Rightarrow> validation_issue \<Rightarrow> validation_result" where
  "rejected dialect i =
     \<lparr>vr_dialect = dialect, vr_normalized_sql = None, vr_issues = [i], vr_referenced_tables = [],
      vr_referenced_columns = [], vr_output_lineage = [], vr_output_lineage_complete = False\<rparr>"

section \<open>Tables and columns of the context\<close>

text \<open>\<open>candidate.count(".") == 1\<close>, and the column names of a table in \<open>columns_by_table\<close>.\<close>

definition one_dot :: "string \<Rightarrow> bool" where
  "one_dot s = (length (filter (\<lambda>c. c = CHR ''.'') s) = 1)"

definition table_matches :: "table_node \<Rightarrow> string list \<Rightarrow> string list" where
  "table_matches t allowed_tables =
     (if tn_db t \<noteq> []
      then filter (\<lambda>c. one_dot c \<and> c = tn_db t @ ''.'' @ tn_name t) allowed_tables
      else filter (\<lambda>c. one_dot c \<and> rsplit_last c = tn_name t) allowed_tables)"

definition column_allowed :: "string list \<Rightarrow> string \<Rightarrow> string \<Rightarrow> bool" where
  "column_allowed allowed_columns table_ref column_name =
     (\<exists>c \<in> set allowed_columns. CHR ''.'' \<in> set c \<and> rsplit_first c = table_ref
        \<and> rsplit_last c = column_name)"

definition resolve_table_silent :: "table_node \<Rightarrow> string list \<Rightarrow> string option" where
  "resolve_table_silent t allowed_tables =
     (if tn_catalog t \<noteq> [] \<or> tn_name t = [] then None
      else case table_matches t allowed_tables of [m] \<Rightarrow> Some m | _ \<Rightarrow> None)"

definition resolve_table :: "table_node \<Rightarrow> string list \<Rightarrow> issues \<Rightarrow> string option \<times> issues" where
  "resolve_table t allowed_tables issues =
     (if tn_catalog t \<noteq> [] then
        (None, add_issue ''cross_catalog_reference''
           (''Cross-catalog reference '' @ tn_sql t @ '' is not allowed'') issues)
      else if tn_name t = [] then
        (None, add_issue ''invalid_table_reference'' ''Table reference has no name'' issues)
      else case table_matches t allowed_tables of
        [m] \<Rightarrow> (Some m, issues)
      | [] \<Rightarrow> (None, add_issue ''table_not_allowed''
                 (''Table '' @ tn_sql t @ '' is outside the allowed context'') issues)
      | ms \<Rightarrow> (None, add_issue ''ambiguous_table''
                 (''Unqualified table '' @ tn_name t @ '' matches multiple schemas; candidates: ''
                  @ py_join '', '' (sort ms)) issues))"

section \<open>References\<close>

record references =
  rf_issues :: issues
  rf_tables :: "string list"
  rf_columns :: "string list"
  rf_bind_tables :: "(nat \<times> string) list"
  rf_bind_columns :: "(nat \<times> string) list"

text \<open>The dicts \<open>sources\<close>, \<open>physical_nodes\<close> and \<open>derived_outputs\<close> of a scope.\<close>

record scope_names =
  sc_sources :: "(string \<times> string option) list"
  sc_physical :: "(string \<times> table_node) list"
  sc_derived :: "(string \<times> string list) list"

definition read_source ::
  "string list \<Rightarrow> string \<times> scope_source \<Rightarrow> scope_names \<times> references \<Rightarrow> scope_names \<times> references" where
  "read_source allowed_tables e acc =
     (case (e, acc) of ((alias, source), (names, refs)) \<Rightarrow>
       (case source of
          Physical t \<Rightarrow>
            (let (resolved, issues) = resolve_table t allowed_tables (rf_issues refs);
                 names' = names\<lparr>sc_sources := sc_sources names @ [(alias, resolved)],
                                sc_physical := sc_physical names @ [(alias, t)]\<rparr>
             in (names',
                 case resolved of
                   None \<Rightarrow> refs\<lparr>rf_issues := issues\<rparr>
                 | Some r \<Rightarrow> refs\<lparr>rf_issues := issues, rf_tables := rf_tables refs @ [r],
                                   rf_bind_tables := rf_bind_tables refs @ [(tn_id t, r)]\<rparr>))
        | Derived i outer named \<Rightarrow>
            (names\<lparr>sc_sources := sc_sources names @ [(alias, None)],
                   sc_derived := sc_derived names @ [(alias, if outer \<noteq> [] then outer else named)]\<rparr>,
             refs)
        | Other_Source \<Rightarrow> (names\<lparr>sc_sources := sc_sources names @ [(alias, None)]\<rparr>, refs)))"

definition read_sources ::
  "string list \<Rightarrow> query_scope \<Rightarrow> references \<Rightarrow> scope_names \<times> references" where
  "read_sources allowed_tables sc refs =
     fold (read_source allowed_tables) (qs_selected_sources sc)
       (\<lparr>sc_sources = [], sc_physical = [], sc_derived = []\<rparr>, refs)"

definition count_name :: "string \<Rightarrow> string list \<Rightarrow> nat" where
  "count_name n names = length (filter (\<lambda>x. x = n) names)"

definition validate_derived_column :: "column_node \<Rightarrow> string list list \<Rightarrow> issues \<Rightarrow> issues" where
  "validate_derived_column c outputs issues =
     add_issue_if (sum_list (map (count_name (cn_name c)) outputs) \<noteq> 1) ''unresolved_derived_column''
       (''Column '' @ cn_sql c @ '' does not resolve to one derived output'') issues"

definition note_issue :: "string \<Rightarrow> string \<Rightarrow> references \<Rightarrow> references" where
  "note_issue code message refs = refs\<lparr>rf_issues := add_issue code message (rf_issues refs)\<rparr>"

definition note_column :: "string \<Rightarrow> column_node \<Rightarrow> string \<Rightarrow> references \<Rightarrow> references" where
  "note_column table_ref c alias refs =
     refs\<lparr>rf_columns := rf_columns refs @ [table_ref @ ''.'' @ cn_name c],
          rf_bind_columns := rf_bind_columns refs @ [(cn_id c, alias)]\<rparr>"

text \<open>A column with a qualifier among the sources of its scope.\<close>

definition read_qualified_column ::
  "string list \<Rightarrow> scope_names \<Rightarrow> column_node \<Rightarrow> string option \<Rightarrow> references \<Rightarrow> references" where
  "read_qualified_column allowed_columns names c table_ref refs =
     (let q = cn_table c
      in if cn_db c \<noteq> []
            \<and> (case map_of (sc_physical names) q of
                 None \<Rightarrow> True
               | Some t \<Rightarrow> tn_alias t \<noteq> [] \<or> table_ref \<noteq> Some (cn_db c @ ''.'' @ q))
         then note_issue ''unknown_table_alias''
                (''Column '' @ cn_sql c @ '' does not match its physical source'') refs
         else case table_ref of
           None \<Rightarrow>
             (case map_of (sc_derived names) q of
                None \<Rightarrow> refs
              | Some out \<Rightarrow> refs\<lparr>rf_issues := validate_derived_column c [out] (rf_issues refs)\<rparr>)
         | Some r \<Rightarrow>
             if \<not> column_allowed allowed_columns r (cn_name c)
             then note_issue ''column_not_allowed''
                    (''Column '' @ r @ ''.'' @ cn_name c @ '' is outside the allowed context'') refs
             else note_column r c q refs)"

definition physical_sources :: "scope_names \<Rightarrow> (string \<times> string) list" where
  "physical_sources names =
     concat (map (\<lambda>(a, r). case r of None \<Rightarrow> [] | Some x \<Rightarrow> [(a, x)]) (sc_sources names))"

text \<open>An unqualified column belongs to the one source that has it.\<close>

fun bind_match :: "column_node \<Rightarrow> (string \<times> string) list \<Rightarrow> references \<Rightarrow> references" where
  "bind_match c [(alias, r)] refs = note_column r c alias refs"
| "bind_match c [] refs =
     note_issue ''column_not_allowed''
       (''Column '' @ cn_name c @ '' is outside the allowed context'') refs"
| "bind_match c ms refs =
     note_issue ''ambiguous_column''
       (''Unqualified column '' @ cn_name c @ '' matches multiple tables; candidates: ''
        @ py_join '', '' (sort (map (\<lambda>(_, r). r @ ''.'' @ cn_name c) ms))) refs"

definition read_unqualified_column ::
  "string list \<Rightarrow> scope_names \<Rightarrow> column_node \<Rightarrow> references \<Rightarrow> references" where
  "read_unqualified_column allowed_columns names c refs =
     (let physical = physical_sources names;
          has_derived = (\<exists>s \<in> set (sc_sources names). snd s = None)
      in if has_derived \<and> physical \<noteq> []
         then note_issue ''ambiguous_derived_column''
                (''Unqualified column '' @ cn_name c @ '' mixes physical and derived sources'') refs
         else if has_derived
         then refs\<lparr>rf_issues := validate_derived_column c (map snd (sc_derived names)) (rf_issues refs)\<rparr>
         else bind_match c
                (filter (\<lambda>(_, r). column_allowed allowed_columns r (cn_name c)) physical) refs)"

definition read_column ::
  "string list \<Rightarrow> query_scope \<Rightarrow> scope_names \<Rightarrow> column_node \<Rightarrow> references \<Rightarrow> references" where
  "read_column allowed_columns sc names c refs =
     (if cn_is_star c then refs
      else if cn_catalog c \<noteq> []
      then note_issue ''cross_catalog_reference'' ''Cross-catalog column is not allowed'' refs
      else if cn_table c = [] then read_unqualified_column allowed_columns names c refs
      else case map_of (sc_sources names) (cn_table c) of
        Some table_ref \<Rightarrow> read_qualified_column allowed_columns names c table_ref refs
      | None \<Rightarrow>
          if (\<exists>a \<in> set (qs_ancestors sc). cn_table c \<in> set a) \<and> qs_can_be_correlated sc then refs
          else note_issue ''unknown_table_alias''
                 (''Column '' @ cn_sql c @ '' uses an unknown table alias'') refs)"

definition read_scope ::
  "string list \<Rightarrow> string list \<Rightarrow> query_scope \<Rightarrow> references \<Rightarrow> references" where
  "read_scope allowed_tables allowed_columns sc refs =
     (let (names, refs') = read_sources allowed_tables sc refs
      in fold (read_column allowed_columns sc names) (qs_columns sc) refs')"

definition resolve_references ::
  "query_scope list \<Rightarrow> string list \<Rightarrow> string list \<Rightarrow> issues \<Rightarrow> references" where
  "resolve_references scopes allowed_tables allowed_columns issues =
     fold (read_scope allowed_tables allowed_columns) scopes
       \<lparr>rf_issues = issues, rf_tables = [], rf_columns = [], rf_bind_tables = [], rf_bind_columns = []\<rparr>"

text \<open>
  Binding: \<open>schema, name = reference.split(".")\<close>, a \<open>ValueError\<close> unless the reference has one
  dot.
\<close>

definition bind_names :: "references \<Rightarrow> name_bindings option" where
  "bind_names refs =
     (if \<exists>b \<in> set (rf_bind_tables refs). \<not> one_dot (snd b) then None
      else Some \<lparr>nb_tables = map (\<lambda>(i, r). (i, rsplit_first r, rsplit_last r)) (rf_bind_tables refs),
                 nb_columns = rf_bind_columns refs\<rparr>)"

section \<open>Statement checks\<close>

definition READ_ONLY_ROOTS :: "string list" where
  "READ_ONLY_ROOTS = [''Select'', ''Union'', ''Intersect'', ''Except'']"

definition PROHIBITED_NODE_TYPES :: "string list" where
  "PROHIBITED_NODE_TYPES =
     [''Alter'', ''Analyze'', ''Cache'', ''Command'', ''Copy'', ''Create'', ''Delete'', ''Drop'',
      ''Execute'', ''Grant'', ''Insert'', ''LoadData'', ''Merge'', ''Revoke'', ''Set'', ''Transaction'',
      ''TruncateTable'', ''Uncache'', ''Update'', ''Use'']"

text \<open>\<open>isinstance(parent, exp.Count)\<close>, or a column below a count.\<close>

definition is_count_star :: "sql_node \<Rightarrow> bool" where
  "is_count_star n =
     (case sn_parents n of
        [] \<Rightarrow> False
      | p # ps \<Rightarrow> isa p [''Count'']
          \<or> (isa p [''Column''] \<and> (case ps of [] \<Rightarrow> False | pp # _ \<Rightarrow> isa pp [''Count''])))"

definition check_node_types :: "statement_view \<Rightarrow> issues \<Rightarrow> issues" where
  "check_node_types st issues =
     (let i1 = add_issue_if (\<not> isa (st_classes st) READ_ONLY_ROOTS) ''statement_not_allowed''
                 (''Statement '' @ type_name (st_classes st) @ '' is not a read-only SELECT query'') issues;
          i2 = (case find_all PROHIBITED_NODE_TYPES st of
                  [] \<Rightarrow> i1
                | n # _ \<Rightarrow> add_issue ''write_or_administrative_operation''
                    (''SQL contains prohibited operation '' @ type_name (sn_classes n)) i1);
          i3 = add_issue_if (find_all [''Into''] st \<noteq> []) ''select_into_not_allowed''
                 ''SELECT INTO can create a table and is not allowed'' i2
      in add_issue_if (find_all [''Lock''] st \<noteq> []) ''locking_clause_not_allowed''
           ''Row-locking clauses such as FOR UPDATE are not allowed'' i3)"

text \<open>\<open>re.fullmatch(r"[A-Za-z_][A-Za-z0-9_]*", name)\<close>.\<close>

definition placeholder_name_ok :: "string \<Rightarrow> bool" where
  "placeholder_name_ok v =
     (v \<noteq> [] \<and> (\<forall>c \<in> set v. py_isascii c \<and> (py_isalnum c \<or> c = CHR ''_''))
      \<and> \<not> py_isdigit_ascii (hd v))"

definition joined_or_none :: "string list \<Rightarrow> string" where
  "joined_or_none xs = (if xs = [] then ''none'' else py_join '', '' xs)"

definition validate_parameters :: "statement_view \<Rightarrow> sql_proposal \<Rightarrow> issues \<Rightarrow> issues" where
  "validate_parameters st p issues =
     (let declared = map qpd_name (sp_parameters p);
          placeholders = find_all [''Placeholder''] st;
          invalid = filter (\<lambda>n. \<not> placeholder_name_ok (sn_name n)) placeholders;
          used = map sn_name (filter (\<lambda>n. placeholder_name_ok (sn_name n)) placeholders);
          missing = joined_or_none (sorted_set (filter (\<lambda>n. n \<notin> set used) declared));
          undeclared = joined_or_none (sorted_set (filter (\<lambda>n. n \<notin> set declared) used));
          i1 = add_issue_if (length (sp_parameters p) > 50) ''too_many_parameters''
                 ''A generated query can declare at most 50 parameters'' issues;
          i2 = add_issue_if (find_all [''Parameter''] st \<noteq> [] \<or> invalid \<noteq> [])
                 ''parameter_syntax_not_allowed'' ''Use only governed named :parameter placeholders'' i1;
          i3 = add_issue_if (set used \<noteq> set declared) ''parameter_declaration_mismatch''
                 (''SQL placeholders do not match governed declarations; unused declarations: ''
                  @ missing @ ''; undeclared placeholders: '' @ undeclared) i2
      in add_issue_if (\<exists>n \<in> set placeholders. \<exists>a \<in> set (sn_parents n). isa a [''Limit'', ''Offset''])
           ''parameter_position_not_allowed'' ''Preview LIMIT and OFFSET cannot be parameterized'' i3)"

definition check_function :: "dialect_capabilities \<Rightarrow> sql_node \<Rightarrow> issues \<Rightarrow> issues" where
  "check_function cap n issues =
     (let f = casefold (sn_name n)
      in if f \<in> set (dc_dangerous_functions cap)
         then add_issue ''dangerous_function'' (''Function '' @ f @ '' is not allowed'') issues
         else add_issue_if (f \<notin> set (dc_allowed_anonymous_functions cap)) ''function_not_allowlisted''
                (''Function '' @ f @ '' is not in the read-only allowlist'') issues)"

definition check_star :: "sql_node \<Rightarrow> issues \<Rightarrow> issues" where
  "check_star n issues = add_issue_if (\<not> is_count_star n) ''wildcard_not_allowed''
     ''Wildcard projections are not allowed; columns must be explicit'' issues"

definition check_statement ::
  "dialect_capabilities \<Rightarrow> statement_view \<Rightarrow> sql_proposal \<Rightarrow> issues" where
  "check_statement cap st p =
     fold check_star (find_all [''Star''] st)
       (fold (check_function cap) (find_all [''Anonymous''] st)
          (validate_parameters st p (check_node_types st [])))"

text \<open>\<open>_validate_output_names\<close>, for one scope.\<close>

definition check_output_names :: "query_scope \<Rightarrow> issues \<Rightarrow> issues" where
  "check_output_names sc issues =
     (if \<not> qs_is_select sc then issues
      else
        (let names = map (\<lambda>i. if si_named i then si_output i else []) (qs_selects sc);
             known = filter (\<lambda>n. n \<noteq> []) names;
             i1 = add_issue_if (has_duplicates known
                      \<or> (qs_outer_columns sc \<noteq> [] \<and> has_duplicates (qs_outer_columns sc)))
                    ''duplicate_output_name''
                    ''Output column names must be unique; provide distinct explicit aliases'' issues
         in add_issue_if (length names > 1 \<and> (\<exists>n \<in> set names. n = [])) ''output_alias_required''
              ''Expressions in multi-column results require explicit output aliases'' i1))"

section \<open>Output lineage\<close>

text \<open>
  The outputs of a scope: for each name the base columns it is computed from and whether they
  are all known.  A set of columns is a sorted list.
\<close>

type_synonym scope_outputs = "string \<rightharpoonup> string list \<times> bool"

datatype lineage_source = From_Table string | From_Outputs scope_outputs | From_Nothing

definition lineage_from_source ::
  "string list \<Rightarrow> lineage_source \<Rightarrow> string \<Rightarrow> string list option" where
  "lineage_from_source allowed_columns source column_name =
     (case source of
        From_Table r \<Rightarrow>
          if column_allowed allowed_columns r column_name then Some [r @ ''.'' @ column_name] else None
      | From_Outputs m \<Rightarrow>
          (case m column_name of Some (refs, True) \<Rightarrow> Some refs | _ \<Rightarrow> None)
      | From_Nothing \<Rightarrow> None)"

definition resolve_output_column ::
  "string list \<Rightarrow> (string \<times> lineage_source) list \<Rightarrow> column_node \<Rightarrow> string list option" where
  "resolve_output_column allowed_columns sources c =
     (if cn_table c \<noteq> [] then
        (case map_of sources (cn_table c) of
           None \<Rightarrow> None
         | Some src \<Rightarrow> lineage_from_source allowed_columns src (cn_name c))
      else
        (case concat (map (\<lambda>(_, src). case lineage_from_source allowed_columns src (cn_name c) of
                             None \<Rightarrow> [] | Some refs \<Rightarrow> [refs]) sources) of
           [refs] \<Rightarrow> Some refs
         | _ \<Rightarrow> None))"

definition lineage_sources ::
  "string list \<Rightarrow> (nat \<rightharpoonup> scope_outputs) \<Rightarrow> query_scope \<Rightarrow> (string \<times> lineage_source) list" where
  "lineage_sources allowed_tables outputs sc =
     map (\<lambda>(alias, source). (alias,
        case source of
          Physical t \<Rightarrow>
            (case resolve_table_silent t allowed_tables of None \<Rightarrow> From_Nothing | Some r \<Rightarrow> From_Table r)
        | Derived i _ _ \<Rightarrow>
            (case outputs i of None \<Rightarrow> From_Nothing | Some m \<Rightarrow> From_Outputs m)
        | Other_Source \<Rightarrow> From_Nothing)) (qs_selected_sources sc)"

definition item_columns :: "query_scope \<Rightarrow> select_item \<Rightarrow> column_node list" where
  "item_columns sc i =
     filter (\<lambda>c. cn_id c \<in> set (map cn_id (qs_columns sc)) \<and> \<not> cn_is_star c) (si_columns i)"

text \<open>The columns of one projection: what they resolve to, and whether all of them do.\<close>

definition item_lineage ::
  "string list \<Rightarrow> (string \<times> lineage_source) list \<Rightarrow> query_scope \<Rightarrow> select_item \<Rightarrow> string list \<times> bool" where
  "item_lineage allowed_columns sources sc i =
     (let resolved = map (resolve_output_column allowed_columns sources) (item_columns sc i)
      in (sorted_set (concat (map (\<lambda>r. case r of None \<Rightarrow> [] | Some refs \<Rightarrow> refs) resolved)),
          None \<notin> set resolved))"

record lineage_state =
  lg_outputs :: scope_outputs
  lg_items :: "output_column_lineage list"
  lg_complete :: bool

definition add_item ::
  "string list \<Rightarrow> (string \<times> lineage_source) list \<Rightarrow> query_scope \<Rightarrow> select_item \<Rightarrow> lineage_state
     \<Rightarrow> lineage_error + lineage_state" where
  "add_item allowed_columns sources sc i g =
     (if si_output i = [] \<or> lg_outputs g (si_output i) \<noteq> None then Inr (g\<lparr>lg_complete := False\<rparr>)
      else
        (let (refs, complete) = item_lineage allowed_columns sources sc i;
             item = \<lparr>ocl_output_name = si_output i, ocl_source_columns = refs\<rparr>
         in bind_result (output_column_lineage_post_init item) (\<lambda>_.
              Inr \<lparr>lg_outputs = (lg_outputs g)(si_output i \<mapsto> (refs, complete)),
                   lg_items = lg_items g @ [item],
                   lg_complete = (lg_complete g \<and> complete)\<rparr>)))"

fun add_items ::
  "string list \<Rightarrow> (string \<times> lineage_source) list \<Rightarrow> query_scope \<Rightarrow> select_item list \<Rightarrow> lineage_state
     \<Rightarrow> lineage_error + lineage_state" where
  "add_items allowed_columns sources sc [] g = Inr g"
| "add_items allowed_columns sources sc (i # is) g =
     bind_result (add_item allowed_columns sources sc i g) (add_items allowed_columns sources sc is)"

text \<open>A column list of a CTE or derived table renames the outputs, when the lengths agree.\<close>

definition renamed_outputs :: "query_scope \<Rightarrow> lineage_state \<Rightarrow> scope_outputs" where
  "renamed_outputs sc g =
     (if qs_outer_columns sc = [] then lg_outputs g
      else if length (qs_outer_columns sc) = length (lg_items g)
      then map_of (rev (map (\<lambda>(n, item). (n, the (lg_outputs g (ocl_output_name item))))
                     (zip (qs_outer_columns sc) (lg_items g))))
      else Map.empty)"

definition scope_lineage ::
  "string list \<Rightarrow> string list \<Rightarrow> (nat \<rightharpoonup> scope_outputs) \<Rightarrow> query_scope
     \<Rightarrow> lineage_error + lineage_state" where
  "scope_lineage allowed_tables allowed_columns outputs sc =
     bind_result
       (add_items allowed_columns (lineage_sources allowed_tables outputs sc) sc (qs_selects sc)
          \<lparr>lg_outputs = Map.empty, lg_items = [], lg_complete = True\<rparr>)
       (\<lambda>g. Inr (g\<lparr>lg_complete := (lg_complete g \<and> length (lg_items g) = length (qs_selects sc))\<rparr>))"

text \<open>The loop over the scopes; the last scope is the root of the statement.\<close>

fun output_lineage_of ::
  "string list \<Rightarrow> string list \<Rightarrow> query_scope list \<Rightarrow> (nat \<rightharpoonup> scope_outputs)
     \<Rightarrow> lineage_error + (output_column_lineage list \<times> bool)" where
  "output_lineage_of allowed_tables allowed_columns [] outputs = Inr ([], False)"
| "output_lineage_of allowed_tables allowed_columns (sc # scs) outputs =
     (if \<not> qs_is_select sc
      then if scs = [] then Inr ([], False)
           else output_lineage_of allowed_tables allowed_columns scs (outputs(qs_id sc \<mapsto> Map.empty))
      else bind_result (scope_lineage allowed_tables allowed_columns outputs sc) (\<lambda>g.
             if scs = [] then Inr (lg_items g, lg_complete g)
             else output_lineage_of allowed_tables allowed_columns scs
                    (outputs(qs_id sc \<mapsto> renamed_outputs sc g))))"

definition resolve_output_lineage ::
  "query_scope list \<Rightarrow> string list \<Rightarrow> string list \<Rightarrow> lineage_error + (output_column_lineage list \<times> bool)" where
  "resolve_output_lineage scopes allowed_tables allowed_columns =
     output_lineage_of allowed_tables allowed_columns scopes Map.empty"

section \<open>The preview limit\<close>

definition static_limit :: "int \<Rightarrow> limit_node" where
  "static_limit n = \<lparr>ln_count = Some n, ln_percent = False, ln_with_ties = False\<rparr>"

text \<open>\<open>_apply_limit\<close>: the limit of the limited statement and the issue.\<close>

definition apply_limit :: "limit_node option \<Rightarrow> int \<Rightarrow> limit_node option \<times> validation_issue option" where
  "apply_limit limit max_rows =
     (case limit of
        None \<Rightarrow> (Some (static_limit max_rows),
                  Some \<lparr>vi_code = ''limit_added'',
                        vi_message = ''LIMIT '' @ show_int max_rows @ '' was added for preview safety'',
                        vi_blocking = False\<rparr>)
      | Some l \<Rightarrow>
          (case ln_count l of
             None \<Rightarrow> (limit, Some (blocking_issue ''dynamic_limit_not_allowed''
                                     ''Preview LIMIT must be a static integer''))
           | Some requested \<Rightarrow>
               if requested > max_rows \<or> ln_with_ties l
               then (Some (static_limit (min requested max_rows)),
                     Some \<lparr>vi_code = ''limit_capped'',
                           vi_message = ''Preview row limit was capped at '' @ show_int max_rows,
                           vi_blocking = False\<rparr>)
               else (limit, None)))"

section \<open>Validation\<close>

datatype validator_error =
    VE_Max_Rows | VE_Reference_Split | VE_Lineage lineage_error | VE_Duplicate_Alias string

definition any_blocking :: "issues \<Rightarrow> bool" where
  "any_blocking issues = (\<exists>i \<in> set issues. vi_blocking i)"

text \<open>The end of \<open>validate\<close>: the declarations against the references, and the limit.\<close>

definition finish_validation ::
  "sql_library \<Rightarrow> dialect_capabilities \<Rightarrow> sql_proposal \<Rightarrow> statement_view \<Rightarrow> references \<Rightarrow> name_bindings
     \<Rightarrow> output_column_lineage list \<times> bool \<Rightarrow> int \<Rightarrow> validation_result" where
  "finish_validation lib cap p st refs bindings lineage max_rows =
     (let i1 = add_issue_if (set (sp_tables p) \<noteq> set (rf_tables refs)) ''declared_table_mismatch''
                 ''Declared tables do not match the SQL AST'' (rf_issues refs);
          i2 = add_issue_if (set (sp_columns p) \<noteq> set (rf_columns refs)) ''declared_column_mismatch''
                 ''Declared columns do not match the SQL AST'' i1;
          result = (\<lambda>sql issues.
             \<lparr>vr_dialect = dc_dialect cap, vr_normalized_sql = sql, vr_issues = issues,
              vr_referenced_tables = sorted_set (rf_tables refs),
              vr_referenced_columns = sorted_set (rf_columns refs),
              vr_output_lineage = fst lineage, vr_output_lineage_complete = snd lineage\<rparr>)
      in if any_blocking i2 then result None i2
         else if \<not> isa (st_classes st) [''Query'']
         then result None (i2 @ [blocking_issue ''statement_not_allowed''
                ''Only read-only query roots can receive a preview limit''])
         else
           (let (limit, limit_issue) = apply_limit (st_limit st) max_rows;
                i3 = i2 @ (case limit_issue of None \<Rightarrow> [] | Some i \<Rightarrow> [i])
            in if any_blocking i3 then result None i3
               else result (Some (sl_render lib (dc_sqlglot_name cap) st bindings limit)) i3))"

definition validate_view ::
  "sql_library \<Rightarrow> dialect_capabilities \<Rightarrow> sql_proposal \<Rightarrow> statement_view \<Rightarrow> string list \<Rightarrow> string list
     \<Rightarrow> int \<Rightarrow> validator_error + validation_result" where
  "validate_view lib cap p st allowed_tables allowed_columns max_rows =
     (let ambiguous = rejected (dc_dialect cap)
            (blocking_issue ''ambiguous_scope'' ''SQL source scope is ambiguous'')
      in case st_scopes st of
           Inl _ \<Rightarrow> Inr ambiguous
         | Inr scopes \<Rightarrow>
             (let issues = fold check_output_names scopes (check_statement cap st p);
                  refs = resolve_references scopes allowed_tables allowed_columns issues
              in case bind_names refs of
                   None \<Rightarrow> Inl VE_Reference_Split
                 | Some bindings \<Rightarrow>
                     (case st_bound_scopes st bindings of
                        Inl _ \<Rightarrow> Inr ambiguous
                      | Inr bound_scopes \<Rightarrow>
                          (case resolve_output_lineage bound_scopes allowed_tables allowed_columns of
                             Inl e \<Rightarrow> Inl (VE_Lineage e)
                           | Inr lineage \<Rightarrow>
                               Inr (finish_validation lib cap p st refs bindings lineage max_rows)))))"

definition validate_sql ::
  "sql_library \<Rightarrow> dialect_capabilities \<Rightarrow> sql_proposal \<Rightarrow> string list \<Rightarrow> string list \<Rightarrow> int
     \<Rightarrow> validator_error + validation_result" where
  "validate_sql lib cap p allowed_tables allowed_columns max_rows =
     (let reject = (\<lambda>code message. Inr (rejected (dc_dialect cap) (blocking_issue code message)))
      in if \<not> (1 \<le> max_rows \<and> max_rows \<le> 10000) then Inl VE_Max_Rows
         else if casefold (sp_dialect p) \<notin> set (dialect_aliases cap)
         then Inr (rejected (sp_dialect p) (blocking_issue ''unsupported_dialect''
                (''Validator for '' @ dc_dialect cap @ '' cannot validate dialect '' @ sp_dialect p)))
         else if sp_needs_clarification p
         then reject ''clarification_required''
                (''SQL cannot be validated until the ambiguity is resolved''
                 @ (let details = py_join ''; '' (sp_ambiguities p)
                    in if details = [] then [] else '': '' @ details))
         else case sl_parse lib (dc_sqlglot_name cap) (sp_sql p) of
           Inl e \<Rightarrow> reject ''parse_error'' (''Invalid '' @ dc_dialect cap @ '' SQL: '' @ e)
         | Inr [None] \<Rightarrow> reject ''parse_error'' ''SQL statement is empty''
         | Inr [Some raw] \<Rightarrow>
             validate_view lib cap p (normalize_identifiers (dc_sqlglot_name cap) raw)
               allowed_tables allowed_columns max_rows
         | Inr _ \<Rightarrow> reject ''multiple_statements'' ''Exactly one SQL statement is allowed'')"

section \<open>The registry of validators\<close>

text \<open>\<open>SQLValidatorRegistry.__init__\<close>: no alias may be given twice.\<close>

fun register_validator_keys ::
  "dialect_registry \<Rightarrow> string list \<Rightarrow> dialect_capabilities \<Rightarrow> validator_error + dialect_registry" where
  "register_validator_keys m [] c = Inr m"
| "register_validator_keys m (k # ks) c =
     (if map_of m k \<noteq> None then Inl (VE_Duplicate_Alias k)
      else register_validator_keys ((k, c) # m) ks c)"

fun register_validators ::
  "dialect_registry \<Rightarrow> dialect_capabilities list \<Rightarrow> validator_error + dialect_registry" where
  "register_validators m [] = Inr m"
| "register_validators m (c # cs) =
     bind_result (register_validator_keys m (registry_keys c) c) (\<lambda>m'. register_validators m' cs)"

definition validate_with ::
  "sql_library \<Rightarrow> dialect_registry \<Rightarrow> sql_proposal \<Rightarrow> string list \<Rightarrow> string list \<Rightarrow> int
     \<Rightarrow> validator_error + validation_result" where
  "validate_with lib validators p allowed_tables allowed_columns max_rows =
     (case map_of validators (casefold (sp_dialect p)) of
        None \<Rightarrow> Inr (rejected (sp_dialect p) (blocking_issue ''unsupported_dialect''
                  (''Unsupported SQL dialect: '' @ sp_dialect p)))
      | Some cap \<Rightarrow> validate_sql lib cap p allowed_tables allowed_columns max_rows)"

end
