(* ===== verification/Analytics_Service.thy ===== *)
theory Analytics_Service
  imports Concept_Service Analytic_Store Sql_Validator
begin

text \<open>
  Metrics and business rules, \<open>catalog/analytics_semantics.py\<close>: the checks of a SQL fragment and
  of what it depends on, proposals and human corrections, the listings, and the context of a
  question: the confirmed metrics and rules that it names, that its concepts select, or that a
  selected metric needs.  Modelled as one process runs it.
\<close>

section \<open>SQL fragments\<close>

text \<open>
  What the service reads of an expression: its nodes, its columns and its text in a dialect.
  A projection is an alias (of an expression, when \<open>this\<close> is one) or an expression; likewise
  \<open>fs_where\<close> is the condition of a WHERE clause when there is one.
\<close>

record sql_expression =
  se_nodes :: "sql_node list"
  se_columns :: "column_node list"
  se_sql :: "string \<Rightarrow> string"

datatype projection = Alias_Of "sql_expression option" | Plain sql_expression

record fragment_statement =
  fs_is_select :: bool
  fs_projections :: "projection list"
  fs_where :: "sql_expression option option"

type_synonym fragment_parser = "string \<Rightarrow> string \<Rightarrow> string + fragment_statement option list"

datatype fragment_error =
    Frag_Length | Frag_Dialect string | Frag_Parse string | Frag_Not_One | Frag_Index_Error | Frag_No_Where
  | Frag_Invalid | Frag_Prohibited string | Frag_Function string | Frag_No_Columns | Frag_Unqualified
  | Frag_No_Aggregate | Frag_Predicate_In_Metric | Frag_Aggregate_In_Rule | Frag_Not_Boolean

definition PROHIBITED_FRAGMENT_TYPES :: "string list" where
  "PROHIBITED_FRAGMENT_TYPES =
     [''Select'', ''Subquery'', ''Table'', ''Star'', ''Parameter'', ''Placeholder'', ''Alias'', ''Window'']"

definition ALLOWED_ANONYMOUS_FUNCTIONS :: "string list" where
  "ALLOWED_ANONYMOUS_FUNCTIONS =
     [''age'', ''date_bin'', ''date_part'', ''make_date'', ''split_part'', ''timezone'', ''width_bucket'']"

text \<open>\<open>next(expression.find_all(...), None)\<close>.\<close>

definition first_node :: "string list \<Rightarrow> sql_expression \<Rightarrow> sql_node option" where
  "first_node classes e = find (\<lambda>n. isa (sn_classes n) classes) (se_nodes e)"

definition fragment_dialect :: "string \<Rightarrow> fragment_error + string" where
  "fragment_dialect value = (case sqlglot_dialect_name value of
      None \<Rightarrow> Inl (Frag_Dialect value) | Some n \<Rightarrow> Inr n)"

definition column_refs :: "sql_expression \<Rightarrow> fragment_error + string list" where
  "column_refs e =
     (if \<exists>c \<in> set (se_columns e). cn_catalog c \<noteq> [] \<or> cn_db c = [] \<or> cn_table c = [] \<or> cn_name c = []
      then Inl Frag_Unqualified
      else Inr (sorted_set (map (\<lambda>c. cn_db c @ ''.'' @ cn_table c @ ''.'' @ cn_name c) (se_columns e))))"

text \<open>The expression of the parsed wrapper: the first projection, or the condition.\<close>

definition fragment_candidate :: "bool \<Rightarrow> fragment_statement \<Rightarrow> fragment_error + sql_expression option" where
  "fragment_candidate metric st =
     (if metric then
        (case fs_projections st of
           [] \<Rightarrow> Inl Frag_Index_Error
         | Alias_Of x # _ \<Rightarrow> Inr x
         | Plain e # _ \<Rightarrow> Inr (Some e))
      else (case fs_where st of None \<Rightarrow> Inl Frag_No_Where | Some x \<Rightarrow> Inr x))"

definition check_fragment :: "sql_expression \<Rightarrow> fragment_error + sql_expression" where
  "check_fragment e =
     bind_result (case first_node PROHIBITED_FRAGMENT_TYPES e of
        Some n \<Rightarrow> Inl (Frag_Prohibited (type_name (sn_classes n))) | None \<Rightarrow> Inr ()) (\<lambda>_.
     bind_result (case find (\<lambda>n. isa (sn_classes n) [''Anonymous'']
                             \<and> casefold (sn_name n) \<notin> set ALLOWED_ANONYMOUS_FUNCTIONS) (se_nodes e) of
        Some n \<Rightarrow> Inl (Frag_Function (casefold (sn_name n))) | None \<Rightarrow> Inr ()) (\<lambda>_.
     bind_result (column_refs e) (\<lambda>refs. if refs = [] then Inl Frag_No_Columns else Inr e)))"

definition parse_fragment ::
  "fragment_parser \<Rightarrow> string \<Rightarrow> string \<Rightarrow> bool \<Rightarrow> fragment_error + sql_expression" where
  "parse_fragment parse value dialect metric =
     (if strip value = [] \<or> length value > 20000 then Inl Frag_Length
      else bind_result (fragment_dialect dialect) (\<lambda>read.
        case parse read (if metric then ''SELECT '' @ value @ '' AS __value''
                         else ''SELECT 1 WHERE '' @ value) of
          Inl e \<Rightarrow> Inl (Frag_Parse e)
        | Inr [Some st] \<Rightarrow>
            if \<not> fs_is_select st then Inl Frag_Not_One
            else bind_result (fragment_candidate metric st) (\<lambda>candidate.
              case candidate of None \<Rightarrow> Inl Frag_Invalid | Some e \<Rightarrow> check_fragment e)
        | Inr _ \<Rightarrow> Inl Frag_Not_One))"

definition validate_metric_expression ::
  "fragment_parser \<Rightarrow> string \<Rightarrow> string \<Rightarrow> fragment_error + (string \<times> string list)" where
  "validate_metric_expression parse value dialect =
     bind_result (parse_fragment parse value dialect True) (\<lambda>e.
       if first_node [''AggFunc''] e = None then Inl Frag_No_Aggregate
       else if first_node [''Predicate'', ''Filter'', ''Case''] e \<noteq> None then Inl Frag_Predicate_In_Metric
       else bind_result (fragment_dialect dialect) (\<lambda>n.
            bind_result (column_refs e) (\<lambda>refs. Inr (se_sql e n, refs))))"

definition validate_rule_predicate ::
  "fragment_parser \<Rightarrow> string \<Rightarrow> string \<Rightarrow> fragment_error + (string \<times> string list)" where
  "validate_rule_predicate parse value dialect =
     bind_result (parse_fragment parse value dialect False) (\<lambda>e.
       if first_node [''AggFunc''] e \<noteq> None then Inl Frag_Aggregate_In_Rule
       else if first_node [''Predicate'', ''And'', ''Or'', ''Not''] e = None then Inl Frag_Not_Boolean
       else bind_result (fragment_dialect dialect) (\<lambda>n.
            bind_result (column_refs e) (\<lambda>refs. Inr (se_sql e n, refs))))"

section \<open>Requirements\<close>

datatype analytic_error =
    An_Source_Missing | An_Not_Ingested | An_Fragment fragment_error | An_Bad_Columns | An_No_Grain
  | An_Unknown_Columns "string list" | An_Key_Case | An_Dependency_Case | An_Dependency_Duplicate
  | An_Concepts concept_error | An_Concepts_Unconfirmed "string list" | An_Rules_Unconfirmed "string list"
  | An_Invalid knowledge_model_error | An_Proposal_Status | An_Name_Conflict string
  | An_Concurrency knowledge_error | An_Store knowledge_error | An_Not_Found

definition stored :: "knowledge_error + 'a \<Rightarrow> analytic_error + 'a" where
  "stored = map_sum An_Store id"

definition require_analytic_source :: "catalog_store \<Rightarrow> string \<Rightarrow> string \<Rightarrow> analytic_error + unit" where
  "require_analytic_source s t d = raise_if (catalog_source s t d = None) An_Source_Missing"

definition column_references :: "catalog_store \<Rightarrow> string \<Rightarrow> string \<Rightarrow> string list" where
  "column_references s t v =
     concat (map (\<lambda>so. map (column_reference so) (columns_of s t (so_id so))) (objects_of s t v))"

definition analytic_context ::
  "catalog_store \<Rightarrow> string \<Rightarrow> string \<Rightarrow> analytic_error + (catalog_version \<times> string list \<times> string)" where
  "analytic_context s t d =
     (case catalog_source s t d of
        None \<Rightarrow> Inl An_Source_Missing
      | Some src \<Rightarrow>
          (case latest_version s t d of
             None \<Rightarrow> Inl An_Not_Ingested
           | Some v \<Rightarrow> Inr (v, column_references s t (cv_id v), ds_dialect src)))"

definition require_known_refs :: "string list \<Rightarrow> string list \<Rightarrow> analytic_error + unit" where
  "require_known_refs values known =
     (let missing = filter (\<lambda>v. v \<notin> set known) values
      in raise_if (missing \<noteq> []) (An_Unknown_Columns missing))"

definition clean_key :: "string \<Rightarrow> analytic_error + string" where
  "clean_key value = (let k = strip value in if k \<noteq> casefold k then Inl An_Key_Case else Inr k)"

definition canonical_keys :: "string list \<Rightarrow> analytic_error + string list" where
  "canonical_keys values =
     (let ks = map strip values
      in if \<exists>k \<in> set ks. k \<noteq> casefold k then Inl An_Dependency_Case
         else if has_duplicates ks then Inl An_Dependency_Duplicate else Inr ks)"

definition canonical_columns :: "string list \<Rightarrow> analytic_error + string list" where
  "canonical_columns values =
     (let cs = map strip values
      in if [] \<in> set cs \<or> has_duplicates cs then Inl An_Bad_Columns else Inr cs)"

definition list_metrics ::
  "catalog_store \<Rightarrow> string \<Rightarrow> string \<Rightarrow> analytic_error + metric_resolution list" where
  "list_metrics s t d =
     bind_result (require_analytic_source s t d) (\<lambda>_.
     bind_result (stored (list_analytic_semantic_resolutions (ct_knowledge s) t d (Some METRIC) {}))
       (\<lambda>rs. Inr (concat (map (\<lambda>r. case r of Metric_Resolution m \<Rightarrow> [m] | Rule_Resolution _ \<Rightarrow> []) rs))))"

definition list_business_rules ::
  "catalog_store \<Rightarrow> string \<Rightarrow> string \<Rightarrow> analytic_error + business_rule_resolution list" where
  "list_business_rules s t d =
     bind_result (require_analytic_source s t d) (\<lambda>_.
     bind_result (stored (list_analytic_semantic_resolutions (ct_knowledge s) t d (Some BUSINESS_RULE) {}))
       (\<lambda>rs. Inr (concat (map (\<lambda>r. case r of Rule_Resolution x \<Rightarrow> [x] | Metric_Resolution _ \<Rightarrow> []) rs))))"

text \<open>The dictionaries of the current resolutions by key; a later entry replaces an earlier one.\<close>

definition unconfirmed_keys :: "(string \<times> epistemic_status) list \<Rightarrow> string list \<Rightarrow> string list" where
  "unconfirmed_keys entries keys = filter (\<lambda>k. map_of (rev entries) k \<noteq> Some CONFIRMED) keys"

definition require_confirmed_concepts ::
  "catalog_store \<Rightarrow> string \<Rightarrow> string \<Rightarrow> string list \<Rightarrow> analytic_error + unit" where
  "require_confirmed_concepts s t d keys =
     bind_result (map_sum An_Concepts id (list_concepts s t d)) (\<lambda>cs.
       let missing = unconfirmed_keys (map (\<lambda>c. (bcr_concept_key c, bcr_status c)) cs) keys
       in raise_if (missing \<noteq> []) (An_Concepts_Unconfirmed missing))"

definition require_confirmed_rules ::
  "catalog_store \<Rightarrow> string \<Rightarrow> string \<Rightarrow> string list \<Rightarrow> analytic_error + unit" where
  "require_confirmed_rules s t d keys =
     bind_result (list_business_rules s t d) (\<lambda>rs.
       let missing = unconfirmed_keys (map (\<lambda>r. (brr_rule_key r, brr_status r)) rs) keys
       in raise_if (missing \<noteq> []) (An_Rules_Unconfirmed missing))"

section \<open>Definitions\<close>

record metric_input =
  mi_metric_key :: string
  mi_name :: string
  mi_description :: string
  mi_expression_sql :: string
  mi_grain_refs :: "string list"
  mi_dimension_refs :: "string list"
  mi_concept_keys :: "string list"
  mi_rule_keys :: "string list"
  mi_content_classification :: classification
  mi_status :: epistemic_status
  mi_source :: string
  mi_confidence :: pyfloat
  mi_actor_id :: "string option"
  mi_reason :: "string option"

record rule_input =
  ri_rule_key :: string
  ri_name :: string
  ri_description :: string
  ri_predicate_sql :: string
  ri_concept_keys :: "string list"
  ri_content_classification :: classification
  ri_status :: epistemic_status
  ri_source :: string
  ri_confidence :: pyfloat
  ri_actor_id :: "string option"
  ri_reason :: "string option"

text \<open>The columns of a metric: those of its expression, its grain and its dimensions.\<close>

definition metric_columns ::
  "string list \<Rightarrow> metric_input \<Rightarrow> string list \<Rightarrow> analytic_error + (string list \<times> string list \<times> string list)" where
  "metric_columns known x expression_refs =
     bind_result (canonical_columns (mi_grain_refs x)) (\<lambda>grain.
     bind_result (canonical_columns (mi_dimension_refs x)) (\<lambda>dimensions.
     bind_result (raise_if (grain = []) An_No_Grain) (\<lambda>_.
     bind_result (require_known_refs grain known) (\<lambda>_.
     bind_result (require_known_refs dimensions known) (\<lambda>_.
       let object_refs = sorted_set (expression_refs @ grain @ dimensions)
       in bind_result (require_known_refs object_refs known) (\<lambda>_. Inr (object_refs, grain, dimensions)))))))"

text \<open>The dependencies of a metric, which must be confirmed.\<close>

definition metric_dependencies ::
  "catalog_store \<Rightarrow> string \<Rightarrow> string \<Rightarrow> metric_input \<Rightarrow> analytic_error + (string list \<times> string list)" where
  "metric_dependencies s t d x =
     bind_result (canonical_keys (mi_concept_keys x)) (\<lambda>concepts.
     bind_result (canonical_keys (mi_rule_keys x)) (\<lambda>rules.
     bind_result (require_confirmed_concepts s t d concepts) (\<lambda>_.
     bind_result (require_confirmed_rules s t d rules) (\<lambda>_. Inr (concepts, rules)))))"

definition metric_definition_of ::
  "fragment_parser \<Rightarrow> catalog_store \<Rightarrow> string \<Rightarrow> string \<Rightarrow> metric_input \<Rightarrow> string \<Rightarrow> timestamp
     \<Rightarrow> analytic_error + metric_definition" where
  "metric_definition_of parse s t d x i created =
     bind_result (analytic_context s t d) (\<lambda>(v, known, dialect).
     bind_result (map_sum An_Fragment id (validate_metric_expression parse (mi_expression_sql x) dialect))
       (\<lambda>(normalized, expression_refs).
     bind_result (metric_columns known x expression_refs) (\<lambda>(object_refs, grain, dimensions).
     bind_result (metric_dependencies s t d x) (\<lambda>(concepts, rules).
     bind_result (clean_key (mi_metric_key x)) (\<lambda>key.
       let m = \<lparr>md_tenant_id = t, md_data_source_id = d, md_catalog_version_id = cv_id v,
                md_metric_key = key, md_name = strip (mi_name x), md_description = strip (mi_description x),
                md_expression_sql = strip (mi_expression_sql x), md_normalized_expression_sql = normalized,
                md_object_refs = object_refs, md_grain_refs = grain, md_dimension_refs = dimensions,
                md_concept_keys = concepts, md_rule_keys = rules,
                md_content_classification = mi_content_classification x, md_status = mi_status x,
                md_source = strip (mi_source x), md_confidence = mi_confidence x,
                md_actor_id = map_option strip (mi_actor_id x), md_reason = map_option strip (mi_reason x),
                md_id = i, md_created_at = created\<rparr>
       in map_sum An_Invalid (\<lambda>_. m) (metric_definition_post_init m))))))"

definition rule_definition_of ::
  "fragment_parser \<Rightarrow> catalog_store \<Rightarrow> string \<Rightarrow> string \<Rightarrow> rule_input \<Rightarrow> string \<Rightarrow> timestamp
     \<Rightarrow> analytic_error + business_rule_definition" where
  "rule_definition_of parse s t d x i created =
     bind_result (analytic_context s t d) (\<lambda>(v, known, dialect).
     bind_result (map_sum An_Fragment id (validate_rule_predicate parse (ri_predicate_sql x) dialect))
       (\<lambda>(normalized, object_refs).
     bind_result (require_known_refs object_refs known) (\<lambda>_.
     bind_result (canonical_keys (ri_concept_keys x)) (\<lambda>concepts.
     bind_result (require_confirmed_concepts s t d concepts) (\<lambda>_.
     bind_result (clean_key (ri_rule_key x)) (\<lambda>key.
       let r = \<lparr>brd_tenant_id = t, brd_data_source_id = d, brd_catalog_version_id = cv_id v,
                brd_rule_key = key, brd_name = strip (ri_name x), brd_description = strip (ri_description x),
                brd_predicate_sql = strip (ri_predicate_sql x), brd_normalized_predicate_sql = normalized,
                brd_object_refs = object_refs, brd_concept_keys = concepts,
                brd_content_classification = ri_content_classification x, brd_status = ri_status x,
                brd_source = strip (ri_source x), brd_confidence = ri_confidence x,
                brd_actor_id = map_option strip (ri_actor_id x), brd_reason = map_option strip (ri_reason x),
                brd_id = i, brd_created_at = created\<rparr>
       in map_sum An_Invalid (\<lambda>_. r) (business_rule_definition_post_init r)))))))"

section \<open>Proposals and corrections\<close>

definition propose_asset_on ::
  "catalog_store \<Rightarrow> analytic_definition \<Rightarrow> bool \<Rightarrow> timestamp option \<Rightarrow> timestamp
     \<Rightarrow> (knowledge_error + analytic_resolution knowledge_write) \<times> catalog_store" where
  "propose_asset_on s d explicit_supersede expected now =
     (case propose_analytic_semantic_definition (\<lambda>k. k) (ct_knowledge s) d explicit_supersede expected now of
        (r, k) \<Rightarrow> (r, s\<lparr>ct_knowledge := k\<rparr>))"

definition proposal_status_ok :: "epistemic_status \<Rightarrow> bool" where
  "proposal_status_ok st = (st \<in> {IMPORTED, INFERRED, UNKNOWN})"

definition propose_asset ::
  "catalog_store \<Rightarrow> analytic_error + analytic_definition \<Rightarrow> timestamp
     \<Rightarrow> (analytic_error + analytic_resolution knowledge_write) \<times> catalog_store" where
  "propose_asset s prepared now =
     (case prepared of
        Inl e \<Rightarrow> (Inl e, s)
      | Inr c \<Rightarrow> (case propose_asset_on s c False None now of (r, s') \<Rightarrow> (stored r, s')))"

definition propose_metric ::
  "fragment_parser \<Rightarrow> catalog_store \<Rightarrow> string \<Rightarrow> string \<Rightarrow> metric_input \<Rightarrow> string \<Rightarrow> timestamp \<Rightarrow> timestamp
     \<Rightarrow> (analytic_error + analytic_resolution knowledge_write) \<times> catalog_store" where
  "propose_metric parse s t d x i created now =
     (if \<not> proposal_status_ok (mi_status x) then (Inl An_Proposal_Status, s)
      else propose_asset s (map_sum id Metric_Definition (metric_definition_of parse s t d x i created)) now)"

definition propose_business_rule ::
  "fragment_parser \<Rightarrow> catalog_store \<Rightarrow> string \<Rightarrow> string \<Rightarrow> rule_input \<Rightarrow> string \<Rightarrow> timestamp \<Rightarrow> timestamp
     \<Rightarrow> (analytic_error + analytic_resolution knowledge_write) \<times> catalog_store" where
  "propose_business_rule parse s t d x i created now =
     (if \<not> proposal_status_ok (ri_status x) then (Inl An_Proposal_Status, s)
      else propose_asset s (map_sum id Rule_Definition (rule_definition_of parse s t d x i created)) now)"

text \<open>A confirmed name belongs to one asset of its kind.\<close>

fun asset_name :: "analytic_definition \<Rightarrow> string" where
  "asset_name (Metric_Definition m) = md_name m"
| "asset_name (Rule_Definition r) = brd_name r"

fun resolution_name :: "analytic_resolution \<Rightarrow> string" where
  "resolution_name (Metric_Resolution m) = mr_name m"
| "resolution_name (Rule_Resolution r) = brr_name r"

definition require_unique_confirmed_name ::
  "catalog_store \<Rightarrow> analytic_definition \<Rightarrow> analytic_error + unit" where
  "require_unique_confirmed_name s c =
     (let (kind, key) = analytic_definition_kind_and_key c
      in bind_result (stored (list_analytic_semantic_resolutions (ct_knowledge s) (an_tenant_id c)
             (an_data_source_id c) (Some kind) {CONFIRMED})) (\<lambda>rs.
           case find (\<lambda>cur. snd (analytic_resolution_kind_and_key cur) \<noteq> key
                        \<and> normalize_term (resolution_name cur) = normalize_term (asset_name c)) rs of
             None \<Rightarrow> Inr ()
           | Some cur \<Rightarrow> Inl (An_Name_Conflict (snd (analytic_resolution_kind_and_key cur)))))"

definition analytic_store_error :: "knowledge_error \<Rightarrow> analytic_error" where
  "analytic_store_error e =
     (if e \<in> {No_Longer_Matches, Expected_Required, Changed_Since_Loaded} then An_Concurrency e
      else An_Store e)"

definition correct_asset ::
  "catalog_store \<Rightarrow> analytic_error + analytic_definition \<Rightarrow> timestamp option \<Rightarrow> timestamp
     \<Rightarrow> (analytic_error + analytic_resolution knowledge_write) \<times> catalog_store" where
  "correct_asset s prepared expected now =
     (case bind_result prepared (\<lambda>c. bind_result (require_unique_confirmed_name s c) (\<lambda>_. Inr c)) of
        Inl e \<Rightarrow> (Inl e, s)
      | Inr c \<Rightarrow> (case propose_asset_on s c True expected now of
                    (r, s') \<Rightarrow> (map_sum analytic_store_error id r, s')))"

text \<open>A correction is confirmed evidence of full confidence from a human.\<close>

definition human_metric :: "metric_input \<Rightarrow> metric_input" where
  "human_metric x = x\<lparr>mi_status := CONFIRMED, mi_source := ''human_correction'', mi_confidence := PFin 1\<rparr>"

definition human_rule :: "rule_input \<Rightarrow> rule_input" where
  "human_rule x = x\<lparr>ri_status := CONFIRMED, ri_source := ''human_correction'', ri_confidence := PFin 1\<rparr>"

definition correct_metric ::
  "fragment_parser \<Rightarrow> catalog_store \<Rightarrow> string \<Rightarrow> string \<Rightarrow> metric_input \<Rightarrow> timestamp option \<Rightarrow> string
     \<Rightarrow> timestamp \<Rightarrow> timestamp \<Rightarrow> (analytic_error + analytic_resolution knowledge_write) \<times> catalog_store" where
  "correct_metric parse s t d x expected i created now =
     correct_asset s (map_sum id Metric_Definition (metric_definition_of parse s t d (human_metric x) i created))
       expected now"

definition correct_business_rule ::
  "fragment_parser \<Rightarrow> catalog_store \<Rightarrow> string \<Rightarrow> string \<Rightarrow> rule_input \<Rightarrow> timestamp option \<Rightarrow> string
     \<Rightarrow> timestamp \<Rightarrow> timestamp \<Rightarrow> (analytic_error + analytic_resolution knowledge_write) \<times> catalog_store" where
  "correct_business_rule parse s t d x expected i created now =
     correct_asset s (map_sum id Rule_Definition (rule_definition_of parse s t d (human_rule x) i created))
       expected now"

section \<open>History and review\<close>

record analytic_evidence_entry =
  aee_definition :: analytic_definition
  aee_selected :: bool

fun selected_definition_id :: "analytic_resolution \<Rightarrow> string option" where
  "selected_definition_id (Metric_Resolution m) = mr_selected_definition_id m"
| "selected_definition_id (Rule_Resolution r) = brr_selected_definition_id r"

definition analytic_history ::
  "catalog_store \<Rightarrow> string \<Rightarrow> string \<Rightarrow> analytic_semantic_kind \<Rightarrow> string
     \<Rightarrow> analytic_error + analytic_evidence_entry list" where
  "analytic_history s t d kind key =
     bind_result (require_analytic_source s t d) (\<lambda>_.
     bind_result (stored (get_analytic_semantic_resolution (ct_knowledge s) t d kind key)) (\<lambda>cur.
       case cur of
         None \<Rightarrow> Inl An_Not_Found
       | Some r \<Rightarrow>
           bind_result (stored (list_analytic_semantic_definitions (ct_knowledge s) t d kind key)) (\<lambda>ds.
             Inr (map (\<lambda>x. \<lparr>aee_definition = x, aee_selected = (selected_definition_id r = Some (an_id x))\<rparr>) ds))))"

record analytic_review_item =
  ari_resolution :: analytic_resolution
  ari_evidence :: "analytic_evidence_entry list"

definition analytic_review_queue ::
  "catalog_store \<Rightarrow> string \<Rightarrow> string \<Rightarrow> analytic_error + analytic_review_item list" where
  "analytic_review_queue s t d =
     bind_result (require_analytic_source s t d) (\<lambda>_.
     bind_result (stored (list_analytic_semantic_resolutions (ct_knowledge s) t d None {INFERRED, CONFLICTING}))
       (\<lambda>rs. collect_results
         (map (\<lambda>r. bind_result (case analytic_resolution_kind_and_key r of (kind, key) \<Rightarrow>
                                   analytic_history s t d kind key)
                     (\<lambda>h. Inr \<lparr>ari_resolution = r, ari_evidence = h\<rparr>)) rs)))"

section \<open>The context of a question\<close>

record metric_match =
  mm_resolution :: metric_resolution
  mm_matched_terms :: "string list"

record business_rule_match =
  bm_resolution :: business_rule_resolution
  bm_matched_terms :: "string list"
  bm_selected_by_metrics :: "string list"

record analytic_question_context =
  ac_metrics :: "metric_match list"
  ac_business_rules :: "business_rule_match list"

definition matched_terms :: "string \<Rightarrow> string \<Rightarrow> string \<Rightarrow> string list" where
  "matched_terms normalized_query name key =
     filter (\<lambda>term. term_in_query term normalized_query)
       (sorted_set [normalize_term name, normalize_term (key_words key)])"

definition intersects :: "string list \<Rightarrow> string list \<Rightarrow> bool" where
  "intersects xs ys = (\<exists>x \<in> set xs. x \<in> set ys)"

definition metric_matches ::
  "string \<Rightarrow> string list \<Rightarrow> metric_resolution list \<Rightarrow> metric_match list" where
  "metric_matches normalized_query concept_keys metrics =
     map (\<lambda>m. \<lparr>mm_resolution = m, mm_matched_terms = matched_terms normalized_query (mr_name m) (mr_metric_key m)\<rparr>)
       (filter (\<lambda>m. mr_status m = CONFIRMED
            \<and> (matched_terms normalized_query (mr_name m) (mr_metric_key m) \<noteq> []
               \<or> intersects concept_keys (mr_concept_keys m))) metrics)"

text \<open>\<open>selected_by_rule\<close>: the metrics that need a rule.\<close>

definition selected_by :: "metric_match list \<Rightarrow> string \<Rightarrow> string list" where
  "selected_by metrics rule_key =
     sort (concat (map (\<lambda>m. map (\<lambda>_. mr_metric_key (mm_resolution m))
                              (filter (\<lambda>k. k = rule_key) (mr_rule_keys (mm_resolution m)))) metrics))"

definition rule_matches ::
  "string \<Rightarrow> string list \<Rightarrow> metric_match list \<Rightarrow> business_rule_resolution list \<Rightarrow> business_rule_match list" where
  "rule_matches normalized_query concept_keys metrics rules =
     map (\<lambda>r. \<lparr>bm_resolution = r,
               bm_matched_terms = matched_terms normalized_query (brr_name r) (brr_rule_key r),
               bm_selected_by_metrics = selected_by metrics (brr_rule_key r)\<rparr>)
       (filter (\<lambda>r. brr_status r = CONFIRMED
            \<and> (matched_terms normalized_query (brr_name r) (brr_rule_key r) \<noteq> []
               \<or> selected_by metrics (brr_rule_key r) \<noteq> []
               \<or> intersects concept_keys (brr_concept_keys r))) rules)"

definition resolve_for_query ::
  "catalog_store \<Rightarrow> string \<Rightarrow> string \<Rightarrow> string \<Rightarrow> string list \<Rightarrow> analytic_error + analytic_question_context" where
  "resolve_for_query s t d query concept_keys =
     bind_result (require_analytic_source s t d) (\<lambda>_.
     let normalized_query = '' '' @ normalize_term query @ '' ''
     in bind_result (list_metrics s t d) (\<lambda>ms.
        let metrics = metric_matches normalized_query concept_keys ms
        in bind_result (list_business_rules s t d) (\<lambda>rs.
             Inr \<lparr>ac_metrics = metrics,
                  ac_business_rules = rule_matches normalized_query concept_keys metrics rs\<rparr>)))"

end
