(* ===== verification/Concept_Safety.thy ===== *)
theory Concept_Safety
  imports Concept_Service Governed_Assets
begin

text \<open>
  Confirmed business terms are unambiguous: a human correction may not take a term of another
  confirmed concept, and no other operation confirms a concept, so resolving the terms of a
  question finds for each term at most one concept.
\<close>

section \<open>The invariant\<close>

abbreviation "concept_rows s \<equiv> ks_concept_resolutions (ct_knowledge s)"

definition concept_row_key :: "business_concept_resolution \<Rightarrow> subject_key" where
  "concept_row_key r = (bcr_tenant_id r, bcr_data_source_id r, bcr_concept_key r)"

definition terms_clash :: "business_concept_resolution \<Rightarrow> business_concept_resolution \<Rightarrow> bool" where
  "terms_clash a b =
     (bcr_tenant_id a = bcr_tenant_id b \<and> bcr_data_source_id a = bcr_data_source_id b
      \<and> bcr_concept_key a \<noteq> bcr_concept_key b
      \<and> bcr_status a = CONFIRMED \<and> bcr_status b = CONFIRMED
      \<and> set (concept_terms a) \<inter> set (concept_terms b) \<noteq> {})"

definition unambiguous :: "catalog_store \<Rightarrow> bool" where
  "unambiguous s =
     (unique_key concept_row_key (concept_rows s)
      \<and> (\<forall>a \<in> set (concept_rows s). \<forall>b \<in> set (concept_rows s). \<not> terms_clash a b))"

lemma terms_clash_sym: "terms_clash a b \<Longrightarrow> terms_clash b a"
  by (auto simp: terms_clash_def)

lemma not_terms_clash_self [simp]: "\<not> terms_clash a a"
  by (simp add: terms_clash_def)

lemma unique_key_sql_upsert:
  assumes "unique_key key rows" "\<And>x. same x \<longleftrightarrow> key x = key r"
  shows "unique_key key (sql_upsert same r rows)"
proof (cases "\<exists>x \<in> set rows. same x")
  case True
  have "map key (sql_update same (\<lambda>_. r) rows) = map key rows"
    using assms(2) by (simp add: sql_update_def)
  then show ?thesis using True assms(1) by (simp add: sql_upsert_def unique_key_def)
next
  case False
  then show ?thesis using assms by (simp add: sql_upsert_def unique_key_append)
qed

text \<open>What a stored proposal of a concept leaves in the table.\<close>

lemma concept_upserted:
  assumes "propose_concept_on s c e expected now = (Inr (r, a), s')"
  shows "a = KEEP_CURRENT \<and> concept_rows s' = concept_rows s
    \<or> a \<noteq> KEEP_CURRENT \<and> concept_rows s' = sql_upsert (\<lambda>x. concept_row_key x = concept_row_key r) r (concept_rows s)"
proof -
  obtain k where k: "propose_business_concept_definition (\<lambda>k. k) (ct_knowledge s) c e expected now = (Inr (r, a), k)"
    "s' = s\<lparr>ct_knowledge := k\<rparr>"
    using assms by (auto simp: propose_concept_on_def split: prod.splits)
  from k(1) show ?thesis
    by (rule propose_concept_success)
      (auto simp: k(2) upsert_business_concept_resolution_def concept_row_key_def)
qed

lemma concept_not_stored:
  "propose_concept_on s c e expected now = (Inl err, s') \<Longrightarrow> concept_rows s' = concept_rows s"
  by (auto simp: propose_concept_on_def split: prod.splits dest: propose_concept_error)

lemma upsert_keeps_unambiguous:
  assumes "unambiguous s"
    and rows: "concept_rows s' = sql_upsert (\<lambda>x. concept_row_key x = concept_row_key r) r (concept_rows s)"
    and free: "\<And>x. x \<in> set (concept_rows s) \<Longrightarrow> \<not> terms_clash r x"
  shows "unambiguous s'"
  unfolding unambiguous_def
proof (intro conjI ballI)
  show "unique_key concept_row_key (concept_rows s')"
    unfolding rows by (rule unique_key_sql_upsert) (use assms(1) in \<open>auto simp: unambiguous_def\<close>)
  fix a b assume "a \<in> set (concept_rows s')" "b \<in> set (concept_rows s')"
  then have "a = r \<or> a \<in> set (concept_rows s)" "b = r \<or> b \<in> set (concept_rows s)"
    by (auto simp: rows dest!: sql_upsert_mem)
  then show "\<not> terms_clash a b"
    using free assms(1) terms_clash_sym by (auto simp: unambiguous_def)
qed

section \<open>Proposals and corrections\<close>

lemma prepared_fields:
  assumes "prepared_definition s t d x i created = Inr c"
  shows "bcd_status c = ci_status x" "bcd_tenant_id c = t" "bcd_data_source_id c = d"
proof -
  obtain v refs where "concept_definition t d v x refs i created = Inr c"
    using assms by (auto simp: prepared_definition_def bind_result_Inr_iff)
  then show "bcd_status c = ci_status x" "bcd_tenant_id c = t" "bcd_data_source_id c = d"
    by (auto simp: concept_definition_def Let_def bind_result_Inr_iff map_sum_def
        split: if_splits sum.splits)
qed

lemma unconfirmed_outcome:
  assumes "concept_outcome cur c a n = Inr r" "a \<noteq> KEEP_CURRENT" "bcd_status c \<noteq> CONFIRMED"
  shows "bcr_status r \<noteq> CONFIRMED"
  using assms by (cases a) (auto simp: concept_outcome_def bind_result_Inr_iff)

lemma accepted_outcome:
  assumes "concept_outcome cur c ACCEPT n = Inr r"
  shows "bcr_tenant_id r = bcd_tenant_id c" "bcr_data_source_id r = bcd_data_source_id c"
    "bcr_concept_key r = bcd_concept_key c" "concept_terms r = definition_terms c"
  using assms by (auto simp: concept_outcome_def concept_terms_def definition_terms_def)

lemma concept_propose_unambiguous:
  assumes "concept_propose s t d x i created now = (res, s')" "unambiguous s"
  shows "unambiguous s'"
proof (cases "s' = s")
  case False
  then obtain c w where c: "ci_status x \<noteq> CONFIRMED" "prepared_definition s t d x i created = Inr c"
    "propose_concept_on s c False None now = (w, s')"
    using assms(1) unfolding concept_propose_def by (auto split: if_splits sum.splits prod.splits)
  show ?thesis
  proof (cases w)
    case (Inl err)
    then show ?thesis using concept_not_stored c(3) assms(2) by (simp add: unambiguous_def)
  next
    case (Inr ra)
    obtain r a where ra: "ra = (r, a)" by (cases ra)
    note w = c(3)[unfolded Inr ra]
    show ?thesis
    proof (cases "a = KEEP_CURRENT")
      case True
      then show ?thesis using concept_upserted[OF w] assms(2) by (simp add: unambiguous_def)
    next
      case keep: False
      obtain k cur where "concept_outcome cur c a now = Inr r"
        using w by (auto simp: propose_concept_on_def split: prod.splits elim!: propose_concept_success)
      then have "bcr_status r \<noteq> CONFIRMED"
        using unconfirmed_outcome keep c(1) prepared_fields(1)[OF c(2)] by simp
      then show ?thesis
        using upsert_keeps_unambiguous[OF assms(2)] concept_upserted[OF w] keep
        by (simp add: terms_clash_def)
    qed
  qed
qed (use assms in simp)

lemma concept_correct_unambiguous:
  assumes "concept_correct s t d x expected i created now = (res, s')" "unambiguous s"
  shows "unambiguous s'"
proof (cases "s' = s")
  case False
  then obtain c w where c: "prepared_definition s t d (human_input x) i created = Inr c"
    "require_unique_confirmed_terms s c = Inr ()" "propose_concept_on s c True expected now = (w, s')"
    using assms(1) unfolding concept_correct_def
    by (auto simp: bind_result_Inr_iff split: sum.splits prod.splits)
  show ?thesis
  proof (cases w)
    case (Inl err)
    then show ?thesis using concept_not_stored c(3) assms(2) by (simp add: unambiguous_def)
  next
    case (Inr ra)
    obtain r a where ra: "ra = (r, a)" by (cases ra)
    note w = c(3)[unfolded Inr ra]
    obtain cur where out: "concept_decision cur c True expected = Inr (decide ACCEPT
          ''Explicit human correction supersedes the concept resolution'')"
        "a = ACCEPT" "concept_outcome cur c a now = Inr r"
      using w by (auto simp: propose_concept_on_def concept_decision_def bind_result_Inr_iff decide_def
          split: prod.splits elim!: propose_concept_success)
    note fields = accepted_outcome[OF out(3)[unfolded out(2)]]
    have "\<not> terms_clash r y" if y: "y \<in> set (concept_rows s)" for y
    proof
      assume clash: "terms_clash r y"
      then have "y \<in> set (list_business_concept_resolutions (ct_knowledge s) (bcd_tenant_id c)
            (bcd_data_source_id c) {CONFIRMED})"
        using y fields by (auto simp: list_business_concept_resolutions_def latest_updates_def terms_clash_def)
      then show False using c(2) clash fields
        by (auto simp: require_unique_confirmed_terms_def raise_if_def terms_clash_def split: if_splits)
    qed
    then show ?thesis
      using upsert_keeps_unambiguous[OF assms(2)] concept_upserted[OF w] out(2) by simp
  qed
qed (use assms in simp)


text \<open>
  The states of the catalog: proposals, corrections, and any operation that leaves the
  concept resolutions alone (ingestion, the governance of descriptions, of metrics and rules).
\<close>

inductive concept_reaches :: "catalog_store \<Rightarrow> catalog_store \<Rightarrow> bool" where
  concept_here: "concept_reaches s s"
| concept_proposed: "\<lbrakk>concept_reaches s0 s; concept_propose s t d x i created now = (r, s')\<rbrakk>
    \<Longrightarrow> concept_reaches s0 s'"
| concept_corrected: "\<lbrakk>concept_reaches s0 s; concept_correct s t d x expected i created now = (r', s')\<rbrakk>
    \<Longrightarrow> concept_reaches s0 s'"
| concept_other: "\<lbrakk>concept_reaches s0 s; concept_rows s' = concept_rows s\<rbrakk> \<Longrightarrow> concept_reaches s0 s'"

lemma concept_reaches_unambiguous: "concept_reaches s s' \<Longrightarrow> unambiguous s \<Longrightarrow> unambiguous s'"
proof (induction rule: concept_reaches.induct)
  case (concept_other s0 s s')
  then show ?case by (simp add: unambiguous_def)
qed (blast intro: concept_propose_unambiguous concept_correct_unambiguous)+

section \<open>Resolution of terms\<close>

abbreviation "confirmed_concepts s t d \<equiv> list_business_concept_resolutions (ct_knowledge s) t d {CONFIRMED}"

lemma set_confirmed_concepts:
  "set (confirmed_concepts s t d) =
     {r \<in> set (concept_rows s). bcr_tenant_id r = t \<and> bcr_data_source_id r = d \<and> bcr_status r = CONFIRMED}"
  by (auto simp: list_business_concept_resolutions_def latest_updates_def)

lemma distinct_confirmed_keys:
  assumes "unambiguous s"
  shows "distinct (map bcr_concept_key (confirmed_concepts s t d))"
proof -
  have rows: "distinct (concept_rows s)" "inj_on concept_row_key (set (concept_rows s))"
    using assms by (simp_all add: unambiguous_def unique_key_def distinct_map)
  have "distinct (confirmed_concepts s t d)"
    using rows(1) by (simp add: list_business_concept_resolutions_def latest_updates_def)
  moreover have "inj_on bcr_concept_key (set (confirmed_concepts s t d))"
    using rows(2) by (auto simp: inj_on_def set_confirmed_concepts concept_row_key_def)
  ultimately show ?thesis by (simp add: distinct_map)
qed

lemma one_concept_per_term:
  assumes "unambiguous s"
  shows "length (filter (\<lambda>c. w \<in> set (concept_terms c)) (confirmed_concepts s t d)) \<le> 1"
proof (rule ccontr)
  let ?own = "filter (\<lambda>c. w \<in> set (concept_terms c)) (confirmed_concepts s t d)"
  assume "\<not> length ?own \<le> 1"
  then obtain a b cs where ab: "?own = a # b # cs" by (cases ?own; cases "tl ?own") auto
  have "distinct (map bcr_concept_key ?own)"
    using distinct_confirmed_keys[OF assms] by (rule distinct_map_filter)
  then have "bcr_concept_key a \<noteq> bcr_concept_key b" by (simp add: ab)
  moreover have "a \<in> set ?own" "b \<in> set ?own" by (simp_all add: ab)
  then have "a \<in> set (confirmed_concepts s t d)" "w \<in> set (concept_terms a)"
    "b \<in> set (confirmed_concepts s t d)" "w \<in> set (concept_terms b)" by auto
  ultimately have "terms_clash a b" by (auto simp: terms_clash_def set_confirmed_concepts)
  then show False
    using assms \<open>a \<in> set (confirmed_concepts s t d)\<close> \<open>b \<in> set (confirmed_concepts s t d)\<close>
    by (auto simp: unambiguous_def set_confirmed_concepts)
qed

lemma set_matched_terms:
  "set (matched_terms_of concepts q) =
     {(w, filter (\<lambda>c. w \<in> set (concept_terms c)) concepts) | w.
        (\<exists>c \<in> set concepts. w \<in> set (concept_terms c)) \<and> term_in_query w q}"
  by (auto simp: matched_terms_of_def term_map_def)

text \<open>With one concept per term, the matches pair each concept with its terms that occur.\<close>

lemma concept_matches_of_single:
  assumes single: "\<And>w. length (filter (\<lambda>c. w \<in> set (concept_terms c)) concepts) \<le> 1"
    and keys: "distinct (map bcr_concept_key concepts)"
  shows "set (map (\<lambda>m. (cm_resolution m, set (cm_matched_terms m))) (concept_matches (matched_terms_of concepts q)))
    = {(c, {w \<in> set (concept_terms c). term_in_query w q}) | c.
         c \<in> set concepts \<and> (\<exists>w \<in> set (concept_terms c). term_in_query w q)}"
    (is "?lhs = ?rhs")
proof -
  define pairs where "pairs = map (\<lambda>(w, cs). (w, hd cs)) (filter (\<lambda>(w, cs). \<not> length cs > 1) (matched_terms_of concepts q))"
  have pair_iff: "(w, c) \<in> set pairs \<longleftrightarrow> c \<in> set concepts \<and> w \<in> set (concept_terms c) \<and> term_in_query w q" for w c
  proof
    assume "(w, c) \<in> set pairs"
    then have w: "\<exists>c \<in> set concepts. w \<in> set (concept_terms c)" "term_in_query w q"
      "c = hd (filter (\<lambda>c. w \<in> set (concept_terms c)) concepts)"
      by (auto simp: pairs_def set_matched_terms)
    then have "filter (\<lambda>c. w \<in> set (concept_terms c)) concepts \<noteq> []" by (auto simp: filter_empty_conv)
    then have "c \<in> set (filter (\<lambda>c. w \<in> set (concept_terms c)) concepts)"
      unfolding w(3) by (rule hd_in_set)
    then show "c \<in> set concepts \<and> w \<in> set (concept_terms c) \<and> term_in_query w q" using w(2) by simp
  next
    assume c: "c \<in> set concepts \<and> w \<in> set (concept_terms c) \<and> term_in_query w q"
    then have "c \<in> set (filter (\<lambda>c. w \<in> set (concept_terms c)) concepts)" by simp
    then have "filter (\<lambda>c. w \<in> set (concept_terms c)) concepts = [c]"
      using single[of w] by (cases "filter (\<lambda>c. w \<in> set (concept_terms c)) concepts") auto
    then have "(w, [c]) \<in> set (matched_terms_of concepts q)"
      using c by (auto simp: set_matched_terms)
    then show "(w, c) \<in> set pairs" by (force simp: pairs_def)
  qed
  have same: "c = c'" if "c \<in> set concepts" "c' \<in> set concepts" "bcr_concept_key c = bcr_concept_key c'" for c c'
    using keys that by (auto simp: distinct_map inj_on_def)
  define own where "own key = filter (\<lambda>(w, c). bcr_concept_key c = key) pairs" for key
  have own_iff: "(w, c') \<in> set (own (bcr_concept_key c))
      \<longleftrightarrow> c' = c \<and> w \<in> set (concept_terms c) \<and> term_in_query w q" if "c \<in> set concepts" for w c c'
    using that same by (auto simp: own_def pair_iff)
  have entry: "snd (hd (own (bcr_concept_key c))) = c
      \<and> set (map fst (own (bcr_concept_key c))) = {w \<in> set (concept_terms c). term_in_query w q}"
    if c: "c \<in> set concepts" and w: "w \<in> set (concept_terms c)" "term_in_query w q" for c w
  proof -
    have "(w, c) \<in> set (own (bcr_concept_key c))" using own_iff[OF c] w by simp
    then have "hd (own (bcr_concept_key c)) \<in> set (own (bcr_concept_key c))" by (intro hd_in_set) auto
    then have "snd (hd (own (bcr_concept_key c))) = c"
      using own_iff[OF c, of "fst (hd (own (bcr_concept_key c)))" "snd (hd (own (bcr_concept_key c)))"] by simp
    moreover have "set (map fst (own (bcr_concept_key c))) = {w \<in> set (concept_terms c). term_in_query w q}"
      using own_iff[OF c] by force
    ultimately show ?thesis by simp
  qed
  define keys_of where "keys_of = sort (dedupe (map (\<lambda>(w, c). bcr_concept_key c) pairs))"
  have matches: "concept_matches (matched_terms_of concepts q) =
    map (\<lambda>key. \<lparr>cm_resolution = snd (hd (own key)),
      cm_matched_terms = sort_key (\<lambda>w. (- int (length w), w)) (map fst (own key))\<rparr>) keys_of"
    unfolding concept_matches_def Let_def pairs_def own_def keys_of_def by (rule refl)
  have "set keys_of = bcr_concept_key ` snd ` set pairs"
    by (force simp: keys_of_def image_image)
  then have "?lhs = (\<lambda>key. (snd (hd (own key)), set (map fst (own key)))) ` (bcr_concept_key ` snd ` set pairs)"
    unfolding matches by (simp add: image_image)
  also have "\<dots> = ?rhs"
  proof (intro set_eqI iffI)
    fix z assume "z \<in> (\<lambda>key. (snd (hd (own key)), set (map fst (own key)))) ` (bcr_concept_key ` snd ` set pairs)"
    then obtain w c where wc: "(w, c) \<in> set pairs"
      "z = (snd (hd (own (bcr_concept_key c))), set (map fst (own (bcr_concept_key c))))"
      by auto
    then show "z \<in> ?rhs" using entry[of c w] pair_iff[of w c] by auto
  next
    fix z assume "z \<in> ?rhs"
    then obtain c w where c: "z = (c, {w \<in> set (concept_terms c). term_in_query w q})" "c \<in> set concepts"
      "w \<in> set (concept_terms c)" "term_in_query w q" by auto
    have "(w, c) \<in> set pairs" using c by (simp add: pair_iff)
    then have "bcr_concept_key c \<in> bcr_concept_key ` snd ` set pairs" by force
    moreover have "z = (snd (hd (own (bcr_concept_key c))), set (map fst (own (bcr_concept_key c))))"
      using entry[OF c(2-4)] c(1) by simp
    ultimately show "z \<in> (\<lambda>key. (snd (hd (own key)), set (map fst (own key)))) ` (bcr_concept_key ` snd ` set pairs)"
      by (rule rev_image_eqI)
  qed
  finally show ?thesis .
qed


end
