(* ===== verification/Analytics_Safety.thy ===== *)
theory Analytics_Safety
  imports Analytics_Service Concept_Safety
begin

text \<open>
  Confirmed knowledge stays confirmed, so a metric or business rule never loses the concepts
  and rules it depends on: whatever is proposed, corrected or ingested, what the service gives
  a question contains every rule its metrics need, and rests on confirmed concepts only.
\<close>

section \<open>Confirmations last\<close>

context governed_store
begin

lemma confirmed_stays:
  assumes "propose s d e x n = (res, s')" "e \<or> d_status d \<noteq> CONFIRMED" "d_status d \<noteq> CONFLICTING"
    and "get s k = Some r" "r_status r = CONFIRMED"
  shows "\<exists>r'. get s' k = Some r' \<and> r_status r' = CONFIRMED"
proof (cases res)
  case (Inl err)
  then have "s' = s" using refused[of s d e x n err s'] assms(1) by simp
  then show ?thesis using assms(4,5) by simp
next
  case (Inr w)
  consider "k \<noteq> subject s d" | "k = subject s d" e | "k = subject s d" "\<not> e" by blast
  then show ?thesis
  proof cases
    case 1
    then show ?thesis using framed assms(1,4,5) by auto
  next
    case 2
    then show ?thesis using superseded[of s d x n w s'] assms(1) Inr by auto
  next
    case 3
    have "known s' k = admit (Held CONFIRMED (r_payload r)) (d_status d, d_payload d)"
      using admitted[of s d x n w s'] assms 3 Inr by simp
    also have "\<dots> = Held CONFIRMED (r_payload r)"
      using 3 assms(2) by (intro admit_unconfirmed_settled) simp_all
    finally show ?thesis by (cases "get s' k") (auto simp: hold_def split: if_splits)
  qed
qed

end

section \<open>The invariant\<close>

abbreviation "asset_rows s \<equiv> ks_analytic_resolutions (ct_knowledge s)"

definition arr_subject :: "analytic_resolution_row \<Rightarrow> asset_key" where
  "arr_subject row = (arr_tenant_id row, arr_data_source_id row, arr_asset_kind row, arr_asset_key row)"

fun concept_deps :: "analytic_resolution \<Rightarrow> string list" where
  "concept_deps (Metric_Resolution m) = mr_concept_keys m"
| "concept_deps (Rule_Resolution r) = brr_concept_keys r"

fun rule_deps :: "analytic_resolution \<Rightarrow> string list" where
  "rule_deps (Metric_Resolution m) = mr_rule_keys m"
| "rule_deps (Rule_Resolution r) = []"

fun proposed_concepts :: "analytic_definition \<Rightarrow> string list" where
  "proposed_concepts (Metric_Definition m) = md_concept_keys m"
| "proposed_concepts (Rule_Definition r) = brd_concept_keys r"

fun proposed_rules :: "analytic_definition \<Rightarrow> string list" where
  "proposed_rules (Metric_Definition m) = md_rule_keys m"
| "proposed_rules (Rule_Definition r) = []"

definition concept_confirmed :: "catalog_store \<Rightarrow> string \<Rightarrow> string \<Rightarrow> string \<Rightarrow> bool" where
  "concept_confirmed s t d k =
     (\<exists>r. concept_get (ct_knowledge s) (t, d, k) = Some r \<and> bcr_status r = CONFIRMED)"

definition rule_confirmed :: "catalog_store \<Rightarrow> string \<Rightarrow> string \<Rightarrow> string \<Rightarrow> bool" where
  "rule_confirmed s t d k =
     (\<exists>r. analytic_get (ct_knowledge s) (t, d, BUSINESS_RULE, k) = Some r \<and> analytic_status r = CONFIRMED)"

definition deps_confirmed :: "catalog_store \<Rightarrow> string \<Rightarrow> string \<Rightarrow> string list \<Rightarrow> string list \<Rightarrow> bool" where
  "deps_confirmed s t d concepts rules =
     ((\<forall>k \<in> set concepts. concept_confirmed s t d k) \<and> (\<forall>k \<in> set rules. rule_confirmed s t d k))"

definition names_apart :: "catalog_store \<Rightarrow> bool" where
  "names_apart s = (\<forall>t d kind k k' r r'.
     analytic_get (ct_knowledge s) (t, d, kind, k) = Some r \<longrightarrow> analytic_status r = CONFIRMED \<longrightarrow>
     analytic_get (ct_knowledge s) (t, d, kind, k') = Some r' \<longrightarrow> analytic_status r' = CONFIRMED \<longrightarrow>
     normalize_term (resolution_name r) = normalize_term (resolution_name r') \<longrightarrow> k = k')"

definition grounded :: "catalog_store \<Rightarrow> bool" where
  "grounded s =
     (unique_key concept_row_key (concept_rows s) \<and> unique_key arr_subject (asset_rows s)
      \<and> (\<forall>t d kind k r. analytic_get (ct_knowledge s) (t, d, kind, k) = Some r
           \<longrightarrow> deps_confirmed s t d (concept_deps r) (rule_deps r))
      \<and> names_apart s)"

lemma concept_get_iff:
  assumes "unique_key concept_row_key (concept_rows s)"
  shows "concept_get (ct_knowledge s) (t, d, k) = Some r
    \<longleftrightarrow> r \<in> set (concept_rows s) \<and> concept_row_key r = (t, d, k)"
proof
  assume "concept_get (ct_knowledge s) (t, d, k) = Some r"
  then show "r \<in> set (concept_rows s) \<and> concept_row_key r = (t, d, k)"
    by (auto simp: concept_get_def get_business_concept_resolution_def concept_row_key_def
        dest: fetch_one_Some_iff_mem)
next
  assume r: "r \<in> set (concept_rows s) \<and> concept_row_key r = (t, d, k)"
  then show "concept_get (ct_knowledge s) (t, d, k) = Some r"
    unfolding concept_get_def get_business_concept_resolution_def
    by (simp, intro unique_key_fetch[OF assms]) (auto simp: concept_row_key_def)
qed

lemma asset_row_get:
  assumes "unique_key arr_subject (asset_rows s)" "row \<in> set (asset_rows s)"
    and "analytic_resolution_from_row row = Inr r"
  shows "analytic_get (ct_knowledge s) (arr_subject row) = Some r"
proof -
  have "fetch_one (\<lambda>r. arr_tenant_id r = arr_tenant_id row \<and> arr_data_source_id r = arr_data_source_id row
      \<and> arr_asset_kind r = arr_asset_kind row \<and> arr_asset_key r = arr_asset_key row) (asset_rows s) = Some row"
    by (rule unique_key_fetch[OF assms(1,2)]) (auto simp: arr_subject_def)
  then show ?thesis
    using assms(3) by (simp add: analytic_get_def arr_subject_def get_analytic_semantic_resolution_def)
qed

lemma asset_get_row:
  assumes "analytic_get (ct_knowledge s) k = Some r"
  shows "\<exists>row \<in> set (asset_rows s). arr_subject row = k \<and> analytic_resolution_from_row row = Inr r"
  using assms
  by (auto simp: analytic_get_def get_analytic_semantic_resolution_def bind_result_Inr_iff arr_subject_def
      split: prod.splits sum.splits option.splits dest!: fetch_one_Some_iff_mem)

lemma from_row_status: "analytic_resolution_from_row row = Inr r \<Longrightarrow> analytic_status r = arr_status row"
  by (cases "arr_asset_kind row")
    (auto simp: analytic_resolution_from_row_def bind_result_Inr_iff Let_def)

section \<open>Proposals on the two tables\<close>

lemma deps_of_outcome:
  "concept_deps (analytic_resolution_from_definition c u) = proposed_concepts c"
  "rule_deps (analytic_resolution_from_definition c u) = proposed_rules c"
  "resolution_name (analytic_resolution_from_definition c u) = asset_name c"
  "concept_deps (analytic_conflict r x u) = concept_deps r"
  "rule_deps (analytic_conflict r x u) = rule_deps r"
  by (cases c; cases r; simp)+

text \<open>What an asset depends on after a proposal: what it did before, or what was proposed.\<close>

lemma asset_after_proposal:
  assumes "propose_analytic_semantic_definition (\<lambda>s. s) s c e x n = (res, s')" "analytic_get s' k = Some r"
  shows "(\<exists>r0. analytic_get s k = Some r0 \<and> concept_deps r = concept_deps r0 \<and> rule_deps r = rule_deps r0)
    \<or> (k = analytic_subject c \<and> concept_deps r = proposed_concepts c \<and> rule_deps r = proposed_rules c)"
proof (cases res)
  case (Inl err)
  then have "s' = s" using assms(1) by (auto dest: propose_analytic_error)
  then show ?thesis using assms(2) by auto
next
  case (Inr ra)
  obtain r1 a where ra: "ra = (r1, a)" by (cases ra)
  note ok = assms(1)[unfolded Inr ra]
  show ?thesis
  proof (cases "k = analytic_subject c")
    case True
    then have r: "r = r1" using analytic_get_after(1)[OF ok] assms(2) by simp
    from ok obtain decision where "analytic_outcome (analytic_get s (analytic_subject c)) c a n = Inr r1"
      by (rule propose_analytic_success)
    then show ?thesis
      by (cases a) (auto simp: r True analytic_outcome_def bind_result_Inr_iff require_current_resolution_def
          deps_of_outcome split: option.splits)
  next
    case False
    then have "analytic_get s k = Some r" using analytic_get_after(2)[OF ok False] assms(2) by simp
    then show ?thesis by blast
  qed
qed

text \<open>Unconfirmed evidence never gives a confirmed asset that was not there.\<close>

lemma unconfirmed_asset_proposal:
  assumes "propose_analytic_semantic_definition (\<lambda>s. s) s c False x n = (res, s')" "an_status c \<noteq> CONFIRMED"
    and "analytic_get s' k = Some r" "analytic_status r = CONFIRMED"
  shows "analytic_get s k = Some r"
proof (cases res)
  case (Inl err)
  then have "s' = s" using assms(1) by (auto dest: propose_analytic_error)
  then show ?thesis using assms(3) by auto
next
  case (Inr ra)
  obtain r1 a where ra: "ra = (r1, a)" by (cases ra)
  note ok = assms(1)[unfolded Inr ra]
  show ?thesis
  proof (cases "k = analytic_subject c")
    case True
    then have r: "r = r1" using analytic_get_after(1)[OF ok] assms(3) by simp
    from ok obtain decision where "analytic_outcome (analytic_get s (analytic_subject c)) c a n = Inr r1"
      by (rule propose_analytic_success)
    then show ?thesis
      using assms(2,4)
      by (cases a) (auto simp: r True analytic_outcome_def bind_result_Inr_iff require_current_resolution_def
          analytic_resolution_from_definition_view analytic_conflict_status split: option.splits)
  next
    case False
    then show ?thesis using analytic_get_after(2)[OF ok False] assms(3) by simp
  qed
qed

lemma asset_rows_after_proposal:
  assumes "propose_analytic_semantic_definition (\<lambda>s. s) s c e x n = (res, s')"
    and "unique_key arr_subject (ks_analytic_resolutions s)"
  shows "unique_key arr_subject (ks_analytic_resolutions s')"
proof (cases res)
  case (Inl err)
  then have "s' = s" using assms(1) by (auto dest: propose_analytic_error)
  then show ?thesis using assms(2) by simp
next
  case (Inr ra)
  obtain r a where ra: "ra = (r, a)" by (cases ra)
  from assms(1)[unfolded Inr ra] show ?thesis
  proof (rule propose_analytic_success)
    assume rows: "ks_analytic_resolutions s' = (if a = KEEP_CURRENT then ks_analytic_resolutions s
        else ks_analytic_resolutions (upsert_analytic_semantic_resolution r s))"
    show ?thesis
      unfolding rows upsert_analytic_semantic_resolution_def Let_def
      using assms(2) by (auto intro!: unique_key_sql_upsert simp: arr_subject_def)
  qed
qed

lemma concepts_after_asset_proposal:
  assumes "propose_analytic_semantic_definition (\<lambda>s. s) s c e x n = (res, s')"
  shows "ks_concept_resolutions s' = ks_concept_resolutions s"
proof (cases res)
  case (Inl err)
  then have "s' = s" using assms(1) by (auto dest: propose_analytic_error)
  then show ?thesis by simp
next
  case (Inr ra)
  obtain r a where ra: "ra = (r, a)" by (cases ra)
  from assms(1)[unfolded Inr ra] show ?thesis by (rule propose_analytic_success)
qed

lemma assets_after_concept_proposal:
  assumes "propose_business_concept_definition (\<lambda>s. s) s c e x n = (res, s')"
  shows "ks_analytic_resolutions s' = ks_analytic_resolutions s"
proof (cases res)
  case (Inl err)
  then have "s' = s" using assms(1) by (auto dest: propose_concept_error)
  then show ?thesis by simp
next
  case (Inr ra)
  obtain r a where ra: "ra = (r, a)" by (cases ra)
  from assms(1)[unfolded Inr ra] show ?thesis by (rule propose_concept_success)
qed

section \<open>Each step keeps the invariant\<close>

lemma grounded_concept_step:
  assumes "grounded s" "propose_concept_on s c e x n = (res, s')"
    and "e \<or> bcd_status c \<noteq> CONFIRMED" "bcd_status c \<noteq> CONFLICTING"
  shows "grounded s'"
proof -
  obtain k where k: "propose_business_concept_definition (\<lambda>k. k) (ct_knowledge s) c e x n = (res, k)"
    "s' = s\<lparr>ct_knowledge := k\<rparr>"
    using assms(2) by (auto simp: propose_concept_on_def split: prod.splits)
  have rows: "asset_rows s' = asset_rows s"
    using assets_after_concept_proposal[OF k(1)] k(2) by simp
  then have get: "analytic_get (ct_knowledge s') = analytic_get (ct_knowledge s)"
    by (rule analytic_get_resolutions)
  have concepts: "concept_confirmed s' t d q" if "concept_confirmed s t d q" for t d q
    using that concept_table.confirmed_stays[OF k(1) assms(3,4)] by (auto simp: concept_confirmed_def k(2))
  have "unique_key concept_row_key (concept_rows s')"
  proof (cases res)
    case (Inl err)
    then show ?thesis using concept_not_stored assms(1,2) by (simp add: grounded_def)
  next
    case (Inr ra)
    obtain r a where ra: "ra = (r, a)" by (cases ra)
    show ?thesis
      using concept_upserted[OF assms(2)[unfolded Inr ra]] assms(1)
      by (auto simp: grounded_def intro!: unique_key_sql_upsert)
  qed
  then show ?thesis
    using assms(1) concepts
    by (simp add: grounded_def rows get deps_confirmed_def rule_confirmed_def names_apart_def)
qed

lemma listed_asset:
  assumes "unique_key arr_subject (asset_rows s)"
    and "list_analytic_semantic_resolutions (ct_knowledge s) t d kind sts = Inr rs"
  shows "r \<in> set rs \<longleftrightarrow> (\<exists>kd k. analytic_get (ct_knowledge s) (t, d, kd, k) = Some r
    \<and> (kind = None \<or> kind = Some kd) \<and> (sts = {} \<or> analytic_status r \<in> sts))"
proof -
  let ?rows = "{row \<in> set (asset_rows s). arr_tenant_id row = t \<and> arr_data_source_id row = d
      \<and> (kind = None \<or> kind = Some (arr_asset_kind row)) \<and> (sts = {} \<or> arr_status row \<in> sts)}"
  define found where "found = latest_updates arr_updated_at (\<lambda>r. kind_order (arr_asset_kind r))
      (sort_key arr_asset_key (filter (\<lambda>r. arr_tenant_id r = t \<and> arr_data_source_id r = d
         \<and> (kind = None \<or> kind = Some (arr_asset_kind r)) \<and> (sts = {} \<or> arr_status r \<in> sts)) (asset_rows s)))"
  have found: "map analytic_resolution_from_row found = map Inr rs"
    by (rule collect_results_Inr) (rule assms(2)[unfolded list_analytic_semantic_resolutions_def, folded found_def])
  have rows: "set found = ?rows"
    unfolding found_def latest_updates_def set_sort set_filter by blast
  have "r \<in> set rs \<longleftrightarrow> (Inr r :: knowledge_error + analytic_resolution) \<in> set (map Inr rs)" by auto
  also have "\<dots> \<longleftrightarrow> (\<exists>row \<in> set found. analytic_resolution_from_row row = Inr r)"
    unfolding found[symmetric] set_map image_iff by (rule bex_cong[OF refl eq_commute])
  finally have mem: "r \<in> set rs \<longleftrightarrow> (\<exists>row \<in> ?rows. analytic_resolution_from_row row = Inr r)"
    unfolding rows .
  show ?thesis
  proof
    assume "r \<in> set rs"
    then obtain row where row: "row \<in> ?rows" "analytic_resolution_from_row row = Inr r" using mem by blast
    then have "analytic_get (ct_knowledge s) (t, d, arr_asset_kind row, arr_asset_key row) = Some r"
      using asset_row_get[OF assms(1) _ row(2)] by (simp add: arr_subject_def)
    then show "\<exists>kd k. analytic_get (ct_knowledge s) (t, d, kd, k) = Some r
        \<and> (kind = None \<or> kind = Some kd) \<and> (sts = {} \<or> analytic_status r \<in> sts)"
      using row(1) from_row_status[OF row(2)] by auto
  next
    assume "\<exists>kd k. analytic_get (ct_knowledge s) (t, d, kd, k) = Some r
        \<and> (kind = None \<or> kind = Some kd) \<and> (sts = {} \<or> analytic_status r \<in> sts)"
    then obtain kd k where get: "analytic_get (ct_knowledge s) (t, d, kd, k) = Some r"
      "kind = None \<or> kind = Some kd" "sts = {} \<or> analytic_status r \<in> sts" by blast
    obtain row where "row \<in> set (asset_rows s)" "arr_subject row = (t, d, kd, k)"
      "analytic_resolution_from_row row = Inr r"
      using asset_get_row[OF get(1)] by blast
    then show "r \<in> set rs" using get(2,3) from_row_status mem by (auto simp: arr_subject_def)
  qed
qed

lemma got_key: "analytic_get s (t, d, kind, k) = Some r \<Longrightarrow> analytic_resolution_kind_and_key r = (kind, k)"
  by (drule analytic_get_subject) (simp add: resolution_subject_def)

lemma correction_name_free:
  assumes "unique_key arr_subject (asset_rows s)" "require_unique_confirmed_name s c = Inr ()"
    and "analytic_definition_kind_and_key c = (kind, key)"
    and "analytic_get (ct_knowledge s) (an_tenant_id c, an_data_source_id c, kind, k) = Some r"
    and "analytic_status r = CONFIRMED"
    and "normalize_term (resolution_name r) = normalize_term (asset_name c)"
  shows "k = key"
proof -
  obtain rs where rs: "list_analytic_semantic_resolutions (ct_knowledge s) (an_tenant_id c)
      (an_data_source_id c) (Some kind) {CONFIRMED} = Inr rs"
    "find (\<lambda>cur. snd (analytic_resolution_kind_and_key cur) \<noteq> key
       \<and> normalize_term (resolution_name cur) = normalize_term (asset_name c)) rs = None"
    using assms(2,3)
    by (auto simp: require_unique_confirmed_name_def bind_result_Inr_iff stored_def map_sum_Inr_iff
        split: option.splits)
  have "r \<in> set rs" using listed_asset[OF assms(1) rs(1)] assms(4,5) by blast
  then show ?thesis using rs(2) assms(6) got_key[OF assms(4)] by (auto simp: find_None_iff)
qed

lemma corrected_asset:
  assumes "propose_analytic_semantic_definition (\<lambda>s. s) s c True x n = (Inr (r, a), s')"
  shows "resolution_name r = asset_name c"
proof -
  from assms obtain decision where d: "analytic_decision (analytic_get s (analytic_subject c)) c True x = Inr decision"
    "a = rd_action decision" "analytic_outcome (analytic_get s (analytic_subject c)) c a n = Inr r"
    by (rule propose_analytic_success)
  then have "a = ACCEPT" by (auto simp: analytic_decision_def bind_result_Inr_iff decide_def)
  then show ?thesis using d(3) by (auto simp: analytic_outcome_def deps_of_outcome)
qed

lemma names_apart_correction:
  assumes "unique_key arr_subject (asset_rows s)" "names_apart s" "require_unique_confirmed_name s c = Inr ()"
    and p: "propose_analytic_semantic_definition (\<lambda>s. s) (ct_knowledge s) c True x n = (Inr (r, a), ct_knowledge s')"
  shows "names_apart s'"
  unfolding names_apart_def
proof (intro allI impI)
  fix t d kind k k' q q'
  assume q: "analytic_get (ct_knowledge s') (t, d, kind, k) = Some q" "analytic_status q = CONFIRMED"
    and q': "analytic_get (ct_knowledge s') (t, d, kind, k') = Some q'" "analytic_status q' = CONFIRMED"
    and same: "normalize_term (resolution_name q) = normalize_term (resolution_name q')"
  obtain kd key where sub: "analytic_definition_kind_and_key c = (kd, key)"
    by (cases "analytic_definition_kind_and_key c") simp
  have subject: "analytic_subject c = (an_tenant_id c, an_data_source_id c, kd, key)"
    by (simp add: analytic_subject_def sub)
  have new: "y = r" if "analytic_get (ct_knowledge s') (analytic_subject c) = Some y" for y
    using that analytic_get_after(1)[OF p] by simp
  have old: "analytic_get (ct_knowledge s) z = Some y"
    if "analytic_get (ct_knowledge s') z = Some y" "z \<noteq> analytic_subject c" for z y
    using that analytic_get_after(2)[OF p] by simp
  have free: "j = key"
    if y: "analytic_get (ct_knowledge s') (t, d, kind, j) = Some y" "analytic_status y = CONFIRMED"
      "normalize_term (resolution_name y) = normalize_term (asset_name c)"
      and own: "(t, d, kind, i) = analytic_subject c" for i j y
  proof (cases "(t, d, kind, j) = analytic_subject c")
    case True
    then show ?thesis using subject by simp
  next
    case False
    have "t = an_tenant_id c" "d = an_data_source_id c" "kind = kd" using own subject by simp_all
    then show ?thesis using correction_name_free[OF assms(1,3) sub] old[OF y(1) False] y(2,3) by simp
  qed
  note corrected = corrected_asset[OF p]
  have via: "i = j"
    if "(t, d, kind, i) = analytic_subject c" "analytic_get (ct_knowledge s') (t, d, kind, i) = Some x"
      "analytic_get (ct_knowledge s') (t, d, kind, j) = Some y" "analytic_status y = CONFIRMED"
      "normalize_term (resolution_name x) = normalize_term (resolution_name y)" for i j x y
  proof -
    have "x = r" using new that(1,2) by simp
    then have "normalize_term (resolution_name y) = normalize_term (asset_name c)"
      using that(5) corrected by simp
    then show ?thesis using free[OF that(3,4) _ that(1)] that(1) subject by simp
  qed
  consider "(t, d, kind, k) = analytic_subject c" | "(t, d, kind, k') = analytic_subject c"
    | "(t, d, kind, k) \<noteq> analytic_subject c" "(t, d, kind, k') \<noteq> analytic_subject c" by blast
  then show "k = k'"
  proof cases
    case 1
    then show ?thesis using via[OF 1 q(1) q' same] by simp
  next
    case 2
    then show ?thesis using via[OF 2 q'(1) q same[symmetric]] by simp
  next
    case 3
    show ?thesis
      by (rule assms(2)[unfolded names_apart_def, rule_format, OF old[OF q(1) 3(1)] q(2) old[OF q'(1) 3(2)] q'(2) same])
  qed
qed

lemma grounded_asset_step:
  assumes "grounded s" "propose_asset_on s c e x n = (res, s')"
    and "e \<or> an_status c \<noteq> CONFIRMED" "an_status c \<noteq> CONFLICTING"
    and deps: "deps_confirmed s (an_tenant_id c) (an_data_source_id c) (proposed_concepts c) (proposed_rules c)"
    and names: "e \<Longrightarrow> require_unique_confirmed_name s c = Inr ()"
  shows "grounded s'"
proof -
  obtain k where k: "propose_analytic_semantic_definition (\<lambda>k. k) (ct_knowledge s) c e x n = (res, k)"
    "s' = s\<lparr>ct_knowledge := k\<rparr>"
    using assms(2) by (auto simp: propose_asset_on_def split: prod.splits)
  then have p: "propose_analytic_semantic_definition (\<lambda>k. k) (ct_knowledge s) c e x n = (res, ct_knowledge s')"
    by simp
  have rows: "concept_rows s' = concept_rows s" using concepts_after_asset_proposal[OF p] .
  have concepts: "concept_confirmed s' t d q \<longleftrightarrow> concept_confirmed s t d q" for t d q
    by (simp add: concept_confirmed_def concept_get_def get_business_concept_resolution_def rows)
  have rules: "rule_confirmed s' t d q" if "rule_confirmed s t d q" for t d q
    using that analytic_table.confirmed_stays[OF p assms(3,4)] by (auto simp: rule_confirmed_def)
  have stay: "deps_confirmed s t d cs rs \<Longrightarrow> deps_confirmed s' t d cs rs" for t d cs rs
    using concepts rules by (auto simp: deps_confirmed_def)
  have "deps_confirmed s' t d (concept_deps r) (rule_deps r)"
    if "analytic_get (ct_knowledge s') (t, d, kind, i) = Some r" for t d kind i r
    using asset_after_proposal[OF p that] assms(1) deps
    by (intro stay) (auto simp: grounded_def analytic_subject_def)
  moreover have "names_apart s'"
  proof (cases e)
    case True
    show ?thesis
    proof (cases res)
      case (Inl err)
      then have "s' = s" using propose_analytic_error[of "ct_knowledge s" c e x n err] k by simp
      then show ?thesis using assms(1) by (simp add: grounded_def)
    next
      case (Inr ra)
      obtain r a where ra: "ra = (r, a)" by (cases ra)
      have "propose_analytic_semantic_definition (\<lambda>s. s) (ct_knowledge s) c True x n
          = (Inr (r, a), ct_knowledge s')"
        using p True by (simp add: Inr ra)
      then show ?thesis
        by (rule names_apart_correction[rotated 3]) (use assms(1) names True in \<open>simp_all add: grounded_def\<close>)
    qed
  next
    case False
    have old: "analytic_get (ct_knowledge s) i = Some r"
      if "analytic_get (ct_knowledge s') i = Some r" "analytic_status r = CONFIRMED" for i r
      using unconfirmed_asset_proposal[of "ct_knowledge s" c x n res "ct_knowledge s'" i r] p assms(3) False that
      by simp
    have "names_apart s" using assms(1) by (simp add: grounded_def)
    then show ?thesis unfolding names_apart_def by (blast dest: old)
  qed
  moreover have "unique_key arr_subject (asset_rows s')"
    using asset_rows_after_proposal[OF p] assms(1) by (simp add: grounded_def)
  ultimately show ?thesis using assms(1) unfolding grounded_def rows by blast
qed

section \<open>The operations of the services\<close>

lemma unconfirmed_keys_none:
  "unconfirmed_keys entries keys = [] \<Longrightarrow> k \<in> set keys \<Longrightarrow> (k, CONFIRMED) \<in> set entries"
  by (auto simp: unconfirmed_keys_def filter_empty_conv dest!: map_of_SomeD)

lemma required_concepts:
  assumes "require_confirmed_concepts s t d keys = Inr u" "unique_key concept_row_key (concept_rows s)"
    and "k \<in> set keys"
  shows "concept_confirmed s t d k"
proof -
  obtain cs where cs: "list_concepts s t d = Inr cs"
    "unconfirmed_keys (map (\<lambda>c. (bcr_concept_key c, bcr_status c)) cs) keys = []"
    using assms(1) by (auto simp: require_confirmed_concepts_def bind_result_Inr_iff Let_def raise_if_def
        map_sum_Inr_iff split: if_splits)
  obtain c where "c \<in> set cs" "bcr_concept_key c = k" "bcr_status c = CONFIRMED"
    using unconfirmed_keys_none[OF cs(2) assms(3)] by auto
  then show ?thesis
    using cs(1) concept_get_iff[OF assms(2), of t d k c]
    by (auto simp: concept_confirmed_def list_concepts_def bind_result_Inr_iff concept_row_key_def
        list_business_concept_resolutions_def latest_updates_def)
qed

lemma listed_rule:
  assumes "list_business_rules s t d = Inr rs" "unique_key arr_subject (asset_rows s)"
  shows "r \<in> set rs \<longleftrightarrow> (\<exists>k. analytic_get (ct_knowledge s) (t, d, BUSINESS_RULE, k) = Some (Rule_Resolution r))"
proof -
  obtain as where as: "list_analytic_semantic_resolutions (ct_knowledge s) t d (Some BUSINESS_RULE) {} = Inr as"
    "rs = concat (map (\<lambda>r. case r of Rule_Resolution x \<Rightarrow> [x] | Metric_Resolution _ \<Rightarrow> []) as)"
    using assms(1) by (auto simp: list_business_rules_def bind_result_Inr_iff stored_def map_sum_Inr_iff)
  have "r \<in> set rs \<longleftrightarrow> Rule_Resolution r \<in> set as"
    by (auto simp: as(2) split: analytic_resolution.splits intro!: bexI[of _ "Rule_Resolution r"])
  then show ?thesis using listed_asset[OF assms(2) as(1)] by simp
qed

lemma listed_metric:
  assumes "list_metrics s t d = Inr ms" "unique_key arr_subject (asset_rows s)"
  shows "m \<in> set ms \<longleftrightarrow> (\<exists>k. analytic_get (ct_knowledge s) (t, d, METRIC, k) = Some (Metric_Resolution m))"
proof -
  obtain as where as: "list_analytic_semantic_resolutions (ct_knowledge s) t d (Some METRIC) {} = Inr as"
    "ms = concat (map (\<lambda>r. case r of Metric_Resolution m \<Rightarrow> [m] | Rule_Resolution _ \<Rightarrow> []) as)"
    using assms(1) by (auto simp: list_metrics_def bind_result_Inr_iff stored_def map_sum_Inr_iff)
  have "m \<in> set ms \<longleftrightarrow> Metric_Resolution m \<in> set as"
    by (auto simp: as(2) split: analytic_resolution.splits intro!: bexI[of _ "Metric_Resolution m"])
  then show ?thesis using listed_asset[OF assms(2) as(1)] by simp
qed

lemma required_rules:
  assumes "require_confirmed_rules s t d keys = Inr u" "unique_key arr_subject (asset_rows s)"
    and "k \<in> set keys"
  shows "rule_confirmed s t d k"
proof -
  obtain rs where rs: "list_business_rules s t d = Inr rs"
    "unconfirmed_keys (map (\<lambda>r. (brr_rule_key r, brr_status r)) rs) keys = []"
    using assms(1) by (auto simp: require_confirmed_rules_def bind_result_Inr_iff Let_def raise_if_def split: if_splits)
  obtain r where r: "r \<in> set rs" "brr_rule_key r = k" "brr_status r = CONFIRMED"
    using unconfirmed_keys_none[OF rs(2) assms(3)] by auto
  then obtain i where "analytic_get (ct_knowledge s) (t, d, BUSINESS_RULE, i) = Some (Rule_Resolution r)"
    using listed_rule[OF rs(1) assms(2)] by blast
  then show ?thesis using r got_key by (fastforce simp: rule_confirmed_def)
qed

text \<open>What a prepared asset guarantees.\<close>

definition admissible :: "catalog_store \<Rightarrow> epistemic_status \<Rightarrow> analytic_definition \<Rightarrow> bool" where
  "admissible s st c =
     (an_status c = st \<and> st \<noteq> CONFLICTING
      \<and> deps_confirmed s (an_tenant_id c) (an_data_source_id c) (proposed_concepts c) (proposed_rules c))"

lemma prepared_metric:
  assumes "metric_definition_of parse s t d x i created = Inr m"
    and "unique_key concept_row_key (concept_rows s)" "unique_key arr_subject (asset_rows s)"
  shows "admissible s (mi_status x) (Metric_Definition m)"
proof -
  from assms(1) obtain concepts rules where deps: "metric_dependencies s t d x = Inr (concepts, rules)"
    and m: "md_tenant_id m = t" "md_data_source_id m = d" "md_concept_keys m = concepts" "md_rule_keys m = rules"
      "md_status m = mi_status x" "metric_definition_post_init m = Inr ()"
    by (auto simp: metric_definition_of_def bind_result_Inr_iff Let_def map_sum_Inr_iff split: prod.splits)
  have "require_confirmed_concepts s t d concepts = Inr ()" "require_confirmed_rules s t d rules = Inr ()"
    using deps by (auto simp: metric_dependencies_def bind_result_Inr_iff)
  then show ?thesis
    using required_concepts required_rules assms(2,3) m post_init_not_conflicting(3)[OF m(6)]
    by (simp add: admissible_def deps_confirmed_def analytic_row_def)
qed

lemma prepared_rule:
  assumes "rule_definition_of parse s t d x i created = Inr r"
    and "unique_key concept_row_key (concept_rows s)"
  shows "admissible s (ri_status x) (Rule_Definition r)"
proof -
  from assms(1) have r: "require_confirmed_concepts s t d (brd_concept_keys r) = Inr ()"
    "brd_tenant_id r = t" "brd_data_source_id r = d" "brd_status r = ri_status x"
    "business_rule_definition_post_init r = Inr ()"
    by (auto simp: rule_definition_of_def bind_result_Inr_iff Let_def map_sum_Inr_iff split: prod.splits)
  then show ?thesis
    using required_concepts[OF r(1) assms(2)] post_init_not_conflicting(4)[OF r(5)]
    by (simp add: admissible_def deps_confirmed_def analytic_row_def)
qed

lemma grounded_propose_asset:
  assumes "grounded s" "propose_asset s prepared now = (res, s')"
    and "\<And>c. prepared = Inr c \<Longrightarrow> admissible s st c" "st \<noteq> CONFIRMED"
  shows "grounded s'"
proof (cases prepared)
  case (Inl e)
  then show ?thesis using assms(1,2) by (simp add: propose_asset_def)
next
  case (Inr c)
  then obtain r where r: "propose_asset_on s c False None now = (r, s')"
    using assms(2) by (auto simp: propose_asset_def split: prod.splits)
  show ?thesis
    using grounded_asset_step[OF assms(1) r] assms(3)[OF Inr] assms(4) by (auto simp: admissible_def)
qed

lemma grounded_correct_asset:
  assumes "grounded s" "correct_asset s prepared expected now = (res, s')"
    and "\<And>c. prepared = Inr c \<Longrightarrow> admissible s st c"
  shows "grounded s'"
proof (cases "s' = s")
  case False
  then obtain c r where c: "prepared = Inr c" "require_unique_confirmed_name s c = Inr ()"
    "propose_asset_on s c True expected now = (r, s')"
    using assms(2) unfolding correct_asset_def
    by (auto simp: bind_result_Inr_iff split: sum.splits prod.splits)
  show ?thesis
    using grounded_asset_step[OF assms(1) c(3)] assms(3)[OF c(1)] c(2) by (auto simp: admissible_def)
qed (use assms(1) in simp)

lemmas grounded_tables = grounded_def[THEN iffD1, THEN conjunct1]
  grounded_def[THEN iffD1, THEN conjunct2, THEN conjunct1]

lemma admissible_metric:
  "grounded s \<Longrightarrow> map_sum id Metric_Definition (metric_definition_of parse s t d x i created) = Inr c
    \<Longrightarrow> admissible s (mi_status x) c"
  using prepared_metric grounded_tables by (auto simp: map_sum_Inr_iff)

lemma admissible_rule:
  "grounded s \<Longrightarrow> map_sum id Rule_Definition (rule_definition_of parse s t d x i created) = Inr c
    \<Longrightarrow> admissible s (ri_status x) c"
  using prepared_rule grounded_tables by (auto simp: map_sum_Inr_iff)

lemma proposal_status_unconfirmed: "proposal_status_ok st \<Longrightarrow> st \<noteq> CONFIRMED"
  by (auto simp: proposal_status_ok_def)

lemma grounded_assets:
  assumes "grounded s"
  shows "propose_metric parse s t d x i created now = (r, s') \<Longrightarrow> grounded s'"
    and "propose_business_rule parse s t d y i created now = (r, s') \<Longrightarrow> grounded s'"
    and "correct_metric parse s t d x expected i created now = (r, s') \<Longrightarrow> grounded s'"
    and "correct_business_rule parse s t d y expected i created now = (r, s') \<Longrightarrow> grounded s'"
proof -
  show "grounded s'" if "propose_metric parse s t d x i created now = (r, s')"
    using that assms grounded_propose_asset[OF assms _ admissible_metric[OF assms] proposal_status_unconfirmed]
    by (auto simp: propose_metric_def split: if_splits)
  show "grounded s'" if "propose_business_rule parse s t d y i created now = (r, s')"
    using that assms grounded_propose_asset[OF assms _ admissible_rule[OF assms] proposal_status_unconfirmed]
    by (auto simp: propose_business_rule_def split: if_splits)
  show "correct_metric parse s t d x expected i created now = (r, s') \<Longrightarrow> grounded s'"
    unfolding correct_metric_def by (rule grounded_correct_asset[OF assms _ admissible_metric[OF assms]])
  show "correct_business_rule parse s t d y expected i created now = (r, s') \<Longrightarrow> grounded s'"
    unfolding correct_business_rule_def by (rule grounded_correct_asset[OF assms _ admissible_rule[OF assms]])
qed

lemma prepared_not_conflicting: "prepared_definition s t d x i created = Inr c \<Longrightarrow> bcd_status c \<noteq> CONFLICTING"
  by (auto simp: prepared_definition_def concept_definition_def bind_result_Inr_iff Let_def map_sum_Inr_iff
      split: if_splits dest!: post_init_not_conflicting(2))

lemma grounded_concepts:
  assumes "grounded s"
  shows "concept_propose s t d x i created now = (r, s') \<Longrightarrow> grounded s'"
    and "concept_correct s t d x expected i created now = (r', s') \<Longrightarrow> grounded s'"
proof -
  show "grounded s'" if step: "concept_propose s t d x i created now = (r, s')"
  proof (cases "s' = s")
    case False
    then obtain c w where c: "ci_status x \<noteq> CONFIRMED" "prepared_definition s t d x i created = Inr c"
      "propose_concept_on s c False None now = (w, s')"
      using step unfolding concept_propose_def by (auto split: if_splits sum.splits prod.splits)
    then show ?thesis
      using grounded_concept_step[OF assms c(3)] prepared_fields(1)[OF c(2)] prepared_not_conflicting[OF c(2)] by simp
  qed (use assms in simp)
  show "grounded s'" if step: "concept_correct s t d x expected i created now = (r', s')"
  proof (cases "s' = s")
    case False
    then obtain c w where c: "prepared_definition s t d (human_input x) i created = Inr c"
      "propose_concept_on s c True expected now = (w, s')"
      using step unfolding concept_correct_def by (auto simp: bind_result_Inr_iff split: sum.splits prod.splits)
    then show ?thesis using grounded_concept_step[OF assms c(2)] prepared_not_conflicting[OF c(1)] by simp
  qed (use assms in simp)
qed

text \<open>
  The states of the catalog: proposals and corrections of concepts, metrics and rules, and any
  operation that leaves their resolutions alone (ingestion, the governance of descriptions).
\<close>

inductive assets_reach :: "catalog_store \<Rightarrow> catalog_store \<Rightarrow> bool" where
  assets_here: "assets_reach s s"
| concept_proposal: "\<lbrakk>assets_reach s0 s; concept_propose s t d x i created now = (r, s')\<rbrakk> \<Longrightarrow> assets_reach s0 s'"
| concept_correction: "\<lbrakk>assets_reach s0 s; concept_correct s t d x expected i created now = (r', s')\<rbrakk>
    \<Longrightarrow> assets_reach s0 s'"
| metric_proposal: "\<lbrakk>assets_reach s0 s; propose_metric parse s t d m i created now = (w, s')\<rbrakk> \<Longrightarrow> assets_reach s0 s'"
| metric_correction: "\<lbrakk>assets_reach s0 s; correct_metric parse s t d m expected i created now = (w, s')\<rbrakk>
    \<Longrightarrow> assets_reach s0 s'"
| rule_proposal: "\<lbrakk>assets_reach s0 s; propose_business_rule parse s t d b i created now = (w, s')\<rbrakk> \<Longrightarrow> assets_reach s0 s'"
| rule_correction: "\<lbrakk>assets_reach s0 s; correct_business_rule parse s t d b expected i created now = (w, s')\<rbrakk>
    \<Longrightarrow> assets_reach s0 s'"
| other_step: "\<lbrakk>assets_reach s0 s; concept_rows s' = concept_rows s; asset_rows s' = asset_rows s\<rbrakk> \<Longrightarrow> assets_reach s0 s'"

lemma grounded_other:
  assumes "grounded s" "concept_rows s' = concept_rows s" "asset_rows s' = asset_rows s"
  shows "grounded s'"
proof -
  have "analytic_get (ct_knowledge s') = analytic_get (ct_knowledge s)"
    using assms(3) by (rule analytic_get_resolutions)
  moreover have "concept_get (ct_knowledge s') = concept_get (ct_knowledge s)"
    by (intro ext) (simp add: concept_get_def get_business_concept_resolution_def assms(2) split: prod.split)
  ultimately show ?thesis
    using assms by (simp add: grounded_def deps_confirmed_def rule_confirmed_def concept_confirmed_def names_apart_def)
qed

lemma assets_reach_grounded: "assets_reach s s' \<Longrightarrow> grounded s \<Longrightarrow> grounded s'"
  by (induction rule: assets_reach.induct) (blast intro: grounded_assets grounded_concepts grounded_other)+

section \<open>What a question is given\<close>

lemma selected_by_mem:
  "m \<in> set ms \<Longrightarrow> k \<in> set (mr_rule_keys (mm_resolution m)) \<Longrightarrow> mr_metric_key (mm_resolution m) \<in> set (selected_by ms k)"
  by (auto simp: selected_by_def)


end
