(* ===== verification/Concept_Examples.thy ===== *)
theory Concept_Examples
  imports Concept_Safety Catalog_Examples
begin

text \<open>
  The resolution of terms applied to the data source of the catalog examples, after a human
  confirmed a concept on it.
\<close>

definition sample_concept :: "string \<Rightarrow> string \<Rightarrow> string list \<Rightarrow> concept_input" where
  "sample_concept key name synonyms =
     \<lparr>ci_concept_key = key, ci_name = name, ci_description = ''d'', ci_synonyms = synonyms,
      ci_object_refs = [''s.users''], ci_content_classification = INTERNAL, ci_status = UNKNOWN,
      ci_source = '' '', ci_confidence = PFin 0, ci_actor_id = Some ''ana'', ci_reason = Some ''r''\<rparr>"

text \<open>The catalog with one version of one object.\<close>

definition one_object_catalog :: catalog_store where
  "one_object_catalog = sample_catalog
     \<lparr>ct_knowledge := (ct_knowledge sample_catalog)
        \<lparr>ks_versions := [\<lparr>cv_tenant_id = ''t'', cv_data_source_id = ''d'', cv_version = 1, cv_id = ''v'',
                           cv_created_at = 0\<rparr>]\<rparr>,
      ct_objects := [\<lparr>so_tenant_id = ''t'', so_data_source_id = ''d'', so_catalog_version_id = ''v'',
        so_schema_name = ''s'', so_name = ''users'', so_kind = TABLE_KIND, so_definition_sql = None,
        so_id = ''o''\<rparr>]\<rparr>"

definition sample_concept_definition :: business_concept_definition where
  "sample_concept_definition = projr (prepared_definition one_object_catalog ''t'' ''d''
     (human_input (sample_concept ''c'' ''B'' [])) ''k1'' 100)"

definition sample_concept_catalog :: catalog_store where
  "sample_concept_catalog =
     snd (propose_concept_on one_object_catalog sample_concept_definition True None 110)"

text \<open>The parts of the correction are evaluated one by one.\<close>

lemma sample_concept_prepared:
  "is_ok (prepared_definition one_object_catalog ''t'' ''d''
     (human_input (sample_concept ''c'' ''B'' [])) ''k1'' 100)"
  by code_simp

lemma sample_concept_unique:
  "is_ok (require_unique_confirmed_terms one_object_catalog sample_concept_definition)"
  by code_simp

lemma sample_concept_stored:
  "is_ok (fst (propose_concept_on one_object_catalog sample_concept_definition True None 110))"
  by code_simp

lemma sample_concept_corrected:
  "\<exists>r. concept_correct one_object_catalog ''t'' ''d''
      (sample_concept ''c'' ''B'' []) None ''k1'' 100 110
    = (Inr r, sample_concept_catalog)"
proof -
  obtain r a where "propose_concept_on one_object_catalog sample_concept_definition True None 110
      = (Inr (r, a), sample_concept_catalog)"
    using is_ok_projr[OF sample_concept_stored]
    by (metis sample_concept_catalog_def prod.collapse)
  then show ?thesis
    using is_ok_projr[OF sample_concept_prepared] is_ok_projr[OF sample_concept_unique]
    by (simp add: concept_correct_def bind_result_def sample_concept_definition_def[symmetric])
qed

abbreviation "sample_resolution_run \<equiv>
  resolve_terms sample_concept_catalog ''t'' ''d'' ''b, B?''"

lemma sample_resolution_ok: "is_ok sample_resolution_run"
  by code_simp

lemma sample_concept_reached: "concept_reaches one_object_catalog sample_concept_catalog"
  using sample_concept_corrected concept_reaches.concept_corrected[OF concept_reaches.concept_here]
  by blast

lemma sample_unambiguous: "unambiguous one_object_catalog"
proof -
  have "concept_rows one_object_catalog = []" by code_simp
  then show ?thesis by (simp add: unambiguous_def unique_key_def)
qed


end
