(* ===== verification/Analytics_Examples.thy ===== *)
theory Analytics_Examples
  imports Analytics_Safety Concept_Examples
begin

text \<open>
  The context of a question on a data source with one column, after a human confirmed a rule
  and a metric that needs it.
\<close>

definition amount_column :: column_node where
  "amount_column = \<lparr>cn_id = 0, cn_is_star = False, cn_catalog = [], cn_db = ''s'', cn_table = ''users'',
     cn_name = ''x'', cn_sql = ''s.users.x''\<rparr>"

definition fragment_with :: "string \<Rightarrow> string \<Rightarrow> sql_expression" where
  "fragment_with cls sql =
     \<lparr>se_nodes = [\<lparr>sn_classes = [''N'', cls], sn_name = [], sn_parents = []\<rparr>], se_columns = [amount_column],
      se_sql = (\<lambda>_. sql)\<rparr>"

text \<open>A parser that reads every fragment as a sum, or as a condition.\<close>

definition sample_parser :: fragment_parser where
  "sample_parser read sql =
     Inr [Some \<lparr>fs_is_select = True, fs_projections = [Alias_Of (Some (fragment_with ''AggFunc'' ''SUM(x)''))],
                fs_where = Some (Some (fragment_with ''Predicate'' ''x > 0''))\<rparr>]"

definition column_catalog :: catalog_store where
  "column_catalog = one_object_catalog
     \<lparr>ct_columns := [\<lparr>cd_tenant_id = ''t'', cd_schema_object_id = ''o'', cd_name = ''x'',
        cd_physical_type = ''int'', cd_ordinal = 1, cd_nullable = True, cd_classification = INTERNAL,
        cd_default_expression = None, cd_is_primary_key = False, cd_id = ''c''\<rparr>]\<rparr>"

definition sample_rule :: rule_input where
  "sample_rule = \<lparr>ri_rule_key = ''r'', ri_name = ''R'', ri_description = ''d'', ri_predicate_sql = ''p'',
     ri_concept_keys = [], ri_content_classification = INTERNAL, ri_status = UNKNOWN, ri_source = ''s'',
     ri_confidence = PFin 0, ri_actor_id = Some ''ana'', ri_reason = Some ''y''\<rparr>"

definition sample_metric :: metric_input where
  "sample_metric = \<lparr>mi_metric_key = ''m'', mi_name = ''M'', mi_description = ''d'', mi_expression_sql = ''e'',
     mi_grain_refs = [''s.users.x''], mi_dimension_refs = [], mi_concept_keys = [], mi_rule_keys = [''r''],
     mi_content_classification = INTERNAL, mi_status = UNKNOWN, mi_source = ''s'',
     mi_confidence = PFin 0, mi_actor_id = Some ''ana'', mi_reason = Some ''y''\<rparr>"

text \<open>What the two corrections store.\<close>

definition sample_rule_definition :: analytic_definition where
  "sample_rule_definition = Rule_Definition
     \<lparr>brd_tenant_id = ''t'', brd_data_source_id = ''d'', brd_catalog_version_id = ''v'', brd_rule_key = ''r'',
      brd_name = ''R'', brd_description = ''d'', brd_predicate_sql = ''p'', brd_normalized_predicate_sql = ''x > 0'',
      brd_object_refs = [''s.users.x''], brd_concept_keys = [], brd_content_classification = INTERNAL,
      brd_status = CONFIRMED, brd_source = ''human_correction'', brd_confidence = PFin 1,
      brd_actor_id = Some ''ana'', brd_reason = Some ''y'', brd_id = ''k1'', brd_created_at = 100\<rparr>"

definition sample_metric_definition :: analytic_definition where
  "sample_metric_definition = Metric_Definition
     \<lparr>md_tenant_id = ''t'', md_data_source_id = ''d'', md_catalog_version_id = ''v'', md_metric_key = ''m'',
      md_name = ''M'', md_description = ''d'', md_expression_sql = ''e'', md_normalized_expression_sql = ''SUM(x)'',
      md_object_refs = [''s.users.x''], md_grain_refs = [''s.users.x''], md_dimension_refs = [],
      md_concept_keys = [], md_rule_keys = [''r''], md_content_classification = INTERNAL,
      md_status = CONFIRMED, md_source = ''human_correction'', md_confidence = PFin 1,
      md_actor_id = Some ''ana'', md_reason = Some ''y'', md_id = ''k2'', md_created_at = 120\<rparr>"

definition with_assets :: "analytic_resolution list \<Rightarrow> catalog_store" where
  "with_assets rs = column_catalog
     \<lparr>ct_knowledge := (ct_knowledge column_catalog)\<lparr>ks_analytic_resolutions := map analytic_resolution_row rs\<rparr>\<rparr>"

definition rule_catalog :: catalog_store where
  "rule_catalog = with_assets [analytic_resolution_from_definition sample_rule_definition 110]"

definition metric_catalog :: catalog_store where
  "metric_catalog = with_assets [analytic_resolution_from_definition sample_rule_definition 110,
     analytic_resolution_from_definition sample_metric_definition 130]"

text \<open>The parts of the corrections are evaluated one by one.\<close>

lemma sample_rule_prepared:
  "map_sum id Rule_Definition
     (rule_definition_of sample_parser column_catalog ''t'' ''d'' (human_rule sample_rule) ''k1'' 100)
   = Inr sample_rule_definition"
  by code_simp

lemma sample_rule_free:
  "is_ok (require_unique_confirmed_name column_catalog sample_rule_definition)"
  by code_simp

lemma sample_rule_stored:
  "asset_rows (snd (propose_asset_on column_catalog sample_rule_definition True None 110)) = asset_rows rule_catalog"
  by code_simp

lemma sample_metric_prepared:
  "map_sum id Metric_Definition
     (metric_definition_of sample_parser rule_catalog ''t'' ''d'' (human_metric sample_metric) ''k2'' 120)
   = Inr sample_metric_definition"
  by code_simp

lemma sample_metric_free:
  "is_ok (require_unique_confirmed_name rule_catalog sample_metric_definition)"
  by code_simp

lemma sample_metric_stored:
  "asset_rows (snd (propose_asset_on rule_catalog sample_metric_definition True None 130)) = asset_rows metric_catalog"
  by code_simp

lemma correct_asset_stored:
  assumes "prepared = Inr c" "is_ok (require_unique_confirmed_name s c)"
  shows "\<exists>w. correct_asset s prepared x n = (w, snd (propose_asset_on s c True x n))"
  using is_ok_projr[OF assms(2)] assms(1)
  by (cases "propose_asset_on s c True x n") (simp add: correct_asset_def bind_result_def)

lemma no_concepts: "concept_rows column_catalog = []" "concept_rows rule_catalog = []" "concept_rows metric_catalog = []"
  by code_simp+

lemma stored_concepts: "concept_rows (snd (propose_asset_on s c e x n)) = concept_rows s"
  using concepts_after_asset_proposal[of "ct_knowledge s" c e x n]
  by (simp add: propose_asset_on_def split: prod.splits)

lemma sample_knowledge_reached: "assets_reach column_catalog metric_catalog"
proof -
  obtain w where "correct_business_rule sample_parser column_catalog ''t'' ''d'' sample_rule None ''k1'' 100 110
      = (w, snd (propose_asset_on column_catalog sample_rule_definition True None 110))"
    unfolding correct_business_rule_def using correct_asset_stored[OF sample_rule_prepared sample_rule_free] by blast
  from assets_reach.rule_correction[OF assets_reach.assets_here this]
  have "assets_reach column_catalog rule_catalog"
    by (rule assets_reach.other_step) (simp_all only: sample_rule_stored stored_concepts no_concepts)
  moreover obtain w' where "correct_metric sample_parser rule_catalog ''t'' ''d'' sample_metric None ''k2'' 120 130
      = (w', snd (propose_asset_on rule_catalog sample_metric_definition True None 130))"
    unfolding correct_metric_def using correct_asset_stored[OF sample_metric_prepared sample_metric_free] by blast
  ultimately have "assets_reach column_catalog (snd (propose_asset_on rule_catalog sample_metric_definition True None 130))"
    by (rule assets_reach.metric_correction)
  then show ?thesis
    by (rule assets_reach.other_step) (simp_all only: sample_metric_stored stored_concepts no_concepts)
qed

lemma column_catalog_grounded: "grounded column_catalog"
proof -
  have "asset_rows column_catalog = []" by code_simp
  then show ?thesis
    by (simp add: grounded_def no_concepts unique_key_def names_apart_def analytic_get_def
        get_analytic_semantic_resolution_def)
qed

abbreviation "sample_question \<equiv> resolve_for_query metric_catalog ''t'' ''d'' ''m?'' []"

lemma sample_question_ok: "is_ok sample_question"
  by code_simp


end
