(* ===== verification/Validator_Safety.thy ===== *)
theory Validator_Safety
  imports Sql_Validator
begin

text \<open>
  What an accepted statement is: a read-only query whose nodes, functions and placeholders
  are admitted, whose tables and columns are those of the context and of the declarations, and
  whose result is limited.  The validator collects issues; a statement is accepted when no
  check adds one, which the order \<open>grows\<close> on issue lists carries through the checks.
\<close>

section \<open>Issues only grow\<close>

definition grows :: "issues \<Rightarrow> issues \<Rightarrow> bool" where
  "grows a b = (\<exists>xs. b = a @ xs \<and> (\<forall>x \<in> set xs. vi_blocking x))"

lemma grows_refl [simp, intro]: "grows a a"
  by (simp add: grows_def)

lemma grows_trans: "grows a b \<Longrightarrow> grows b c \<Longrightarrow> grows a c"
  by (fastforce simp: grows_def)

lemma grows_Nil: "grows a b \<Longrightarrow> b = [] \<Longrightarrow> a = []"
  by (auto simp: grows_def)

lemma grows_blocking: "grows [] b \<Longrightarrow> \<not> any_blocking b \<Longrightarrow> b = []"
  by (cases b) (auto simp: grows_def any_blocking_def)

lemma add_issue_not_Nil [simp]: "add_issue c m is \<noteq> []"
  by (auto simp: add_issue_def)

lemma add_issue_if_Nil [simp]: "add_issue_if b c m is = [] \<longleftrightarrow> \<not> b \<and> is = []"
  by (simp add: add_issue_if_def)

lemma grows_add_issue [simp, intro]: "grows a (add_issue c m a)"
  by (auto simp: grows_def add_issue_def blocking_issue_def)

lemma grows_add_issue_if [simp, intro]: "grows a (add_issue_if b c m a)"
  by (simp add: add_issue_if_def)

lemma grows_add_issue_if_trans: "grows a b \<Longrightarrow> grows a (add_issue_if p c m b)"
  by (blast intro: grows_trans)

lemma grows_fold:
  assumes "\<And>x i. grows i (f x i)"
  shows "grows i (fold f xs i)"
proof (induction xs arbitrary: i)
  case (Cons x xs)
  then show ?case using grows_trans[OF assms[of i x]] by simp
qed simp

lemma fold_issues_Nil:
  assumes "\<And>x i. grows i (f x i)" "fold f xs i = []"
  shows "i = [] \<and> (\<forall>x \<in> set xs. f x [] = [])"
  using assms(2)
proof (induction xs arbitrary: i)
  case (Cons x xs)
  then have "f x i = []" by simp
  moreover from this have "i = []" using grows_Nil[OF assms(1)] by blast
  ultimately show ?case using Cons by simp
qed simp

section \<open>Statement checks\<close>

lemma grows_check_node_types: "grows i (check_node_types st i)"
  unfolding check_node_types_def Let_def
  by (intro grows_add_issue_if_trans)
     (auto split: list.split intro: grows_trans[OF grows_add_issue_if grows_add_issue])

lemma check_node_types_Nil:
  "check_node_types st i = [] \<longleftrightarrow> i = [] \<and> isa (st_classes st) READ_ONLY_ROOTS
     \<and> find_all (PROHIBITED_NODE_TYPES @ [''Into'', ''Lock'']) st = []"
proof -
  have "find_all (PROHIBITED_NODE_TYPES @ [''Into'', ''Lock'']) st = [] \<longleftrightarrow>
      find_all PROHIBITED_NODE_TYPES st = [] \<and> find_all [''Into''] st = [] \<and> find_all [''Lock''] st = []"
    by (auto simp: find_all_def filter_empty_conv isa_def)
  then show ?thesis
    by (auto simp: check_node_types_def Let_def split: list.splits)
qed

lemma grows_validate_parameters: "grows i (validate_parameters st p i)"
  unfolding validate_parameters_def Let_def by (intro grows_add_issue_if_trans grows_refl)

definition parameters_governed :: "statement_view \<Rightarrow> sql_proposal \<Rightarrow> bool" where
  "parameters_governed st p =
     (find_all [''Parameter''] st = []
      \<and> (\<forall>n \<in> set (find_all [''Placeholder''] st). placeholder_name_ok (sn_name n)
           \<and> (\<forall>a \<in> set (sn_parents n). \<not> isa a [''Limit'', ''Offset'']))
      \<and> sn_name ` set (find_all [''Placeholder''] st) = qpd_name ` set (sp_parameters p)
      \<and> length (sp_parameters p) \<le> 50)"

lemma validate_parameters_Nil:
  "validate_parameters st p i = [] \<longleftrightarrow> i = [] \<and> parameters_governed st p"
proof -
  let ?ps = "find_all [''Placeholder''] st"
  show ?thesis
  proof (cases "\<forall>n \<in> set ?ps. placeholder_name_ok (sn_name n)")
    case True
    then have "filter (\<lambda>n. placeholder_name_ok (sn_name n)) ?ps = ?ps"
      "filter (\<lambda>n. \<not> placeholder_name_ok (sn_name n)) ?ps = []" by simp_all
    then show ?thesis
      using True unfolding validate_parameters_def Let_def parameters_governed_def
      by (auto simp: not_less)
  next
    case False
    then have "filter (\<lambda>n. \<not> placeholder_name_ok (sn_name n)) ?ps \<noteq> []"
      by (auto simp: filter_empty_conv)
    then show ?thesis
      using False unfolding validate_parameters_def Let_def parameters_governed_def by auto
  qed
qed

lemma grows_check_function: "grows i (check_function cap n i)"
  by (simp add: check_function_def Let_def)

lemma check_function_Nil:
  "check_function cap n i = [] \<longleftrightarrow> i = [] \<and> casefold (sn_name n) \<in> set (dc_allowed_anonymous_functions cap)
     \<and> casefold (sn_name n) \<notin> set (dc_dangerous_functions cap)"
  by (auto simp: check_function_def Let_def)

lemma grows_check_star: "grows i (check_star n i)"
  by (simp add: check_star_def)

lemma check_star_Nil: "check_star n i = [] \<longleftrightarrow> i = [] \<and> is_count_star n"
  by (auto simp: check_star_def)

text \<open>What the statement checks admit.\<close>

definition statement_admitted :: "dialect_capabilities \<Rightarrow> statement_view \<Rightarrow> sql_proposal \<Rightarrow> bool" where
  "statement_admitted cap st p =
     (isa (st_classes st) READ_ONLY_ROOTS
      \<and> (\<forall>n \<in> set (st_nodes st).
           \<not> isa (sn_classes n) (PROHIBITED_NODE_TYPES @ [''Into'', ''Lock'', ''Parameter''])
           \<and> (isa (sn_classes n) [''Star''] \<longrightarrow> is_count_star n)
           \<and> (isa (sn_classes n) [''Anonymous''] \<longrightarrow>
                casefold (sn_name n) \<in> set (dc_allowed_anonymous_functions cap)
                \<and> casefold (sn_name n) \<notin> set (dc_dangerous_functions cap)))
      \<and> parameters_governed st p)"

lemma grows_check_statement: "grows [] (check_statement cap st p)"
  unfolding check_statement_def
  by (rule grows_trans[OF grows_check_node_types[of _ st]],
      rule grows_trans[OF grows_validate_parameters[of _ st p]],
      rule grows_trans[OF grows_fold[OF grows_check_function[of _ cap]]],
      rule grows_fold[OF grows_check_star])

lemma check_statement_Nil:
  assumes "check_statement cap st p = []"
  shows "statement_admitted cap st p"
proof -
  note stars = fold_issues_Nil[OF grows_check_star assms[unfolded check_statement_def]]
  note funs = fold_issues_Nil[OF grows_check_function stars[THEN conjunct1]]
  note params = funs[THEN conjunct1, unfolded validate_parameters_Nil]
  note types = params[THEN conjunct1, unfolded check_node_types_Nil]
  have mixed: "isa cs (a @ b) \<longleftrightarrow> isa cs a \<or> isa cs b" for cs a b by (auto simp: isa_def)
  show ?thesis
    unfolding statement_admitted_def
  proof (intro conjI ballI)
    fix n assume n: "n \<in> set (st_nodes st)"
    have "\<not> isa (sn_classes n) [''Parameter'']"
      using params n by (auto simp: parameters_governed_def find_all_def filter_empty_conv)
    moreover have "\<not> isa (sn_classes n) (PROHIBITED_NODE_TYPES @ [''Into'', ''Lock''])"
      using types n by (simp add: find_all_def filter_empty_conv)
    ultimately show "\<not> isa (sn_classes n) (PROHIBITED_NODE_TYPES @ [''Into'', ''Lock'', ''Parameter''])"
      using mixed[of "sn_classes n" "PROHIBITED_NODE_TYPES @ [''Into'', ''Lock'']" "[''Parameter'']"] by simp
    show "isa (sn_classes n) [''Star''] \<longrightarrow> is_count_star n"
      using stars n by (auto simp: find_all_def check_star_Nil)
    have "check_function cap n [] = []" if "isa (sn_classes n) [''Anonymous'']"
      using funs n that by (simp add: find_all_def)
    then show "isa (sn_classes n) [''Anonymous''] \<longrightarrow>
        casefold (sn_name n) \<in> set (dc_allowed_anonymous_functions cap)
        \<and> casefold (sn_name n) \<notin> set (dc_dangerous_functions cap)"
      by (auto simp: check_function_Nil)
  qed (use types params in auto)
qed

lemma grows_check_output_names: "grows i (check_output_names sc i)"
  by (auto simp: check_output_names_def Let_def intro: grows_add_issue_if_trans)

section \<open>Tables\<close>

text \<open>The one table of the context that a table node denotes.\<close>

definition denotes :: "string list \<Rightarrow> table_node \<Rightarrow> string \<Rightarrow> bool" where
  "denotes allowed_tables t r =
     (tn_catalog t = [] \<and> tn_name t \<noteq> [] \<and> table_matches t allowed_tables = [r])"

lemma resolve_table_silent_iff: "resolve_table_silent t tabs = Some r \<longleftrightarrow> denotes tabs t r"
  by (auto simp: resolve_table_silent_def denotes_def split: list.splits)

lemma resolve_table_fst [simp]: "fst (resolve_table t tabs is) = resolve_table_silent t tabs"
  by (auto simp: resolve_table_def resolve_table_silent_def split: list.splits)

lemma resolve_table_issues:
  "grows is (snd (resolve_table t tabs is))"
  "snd (resolve_table t tabs is) = [] \<longleftrightarrow> is = [] \<and> resolve_table_silent t tabs \<noteq> None"
  by (auto simp: resolve_table_def resolve_table_silent_def split: list.splits)

lemma denotes_allowed:
  assumes "denotes tabs t r"
  shows "r \<in> set tabs" "one_dot r"
    "tn_db t \<noteq> [] \<Longrightarrow> r = tn_db t @ ''.'' @ tn_name t"
    "tn_db t = [] \<Longrightarrow> rsplit_last r = tn_name t"
proof -
  have "r \<in> set (table_matches t tabs)" using assms by (simp add: denotes_def)
  then show "r \<in> set tabs" "one_dot r" "tn_db t \<noteq> [] \<Longrightarrow> r = tn_db t @ ''.'' @ tn_name t"
    "tn_db t = [] \<Longrightarrow> rsplit_last r = tn_name t"
    by (auto simp: table_matches_def split: if_splits)
qed

text \<open>The names of a scope and the tables it adds, as functions of its sources.\<close>

fun source_ref :: "string list \<Rightarrow> scope_source \<Rightarrow> string option" where
  "source_ref tabs (Physical t) = resolve_table_silent t tabs"
| "source_ref tabs (Derived i outer named) = None"
| "source_ref tabs Other_Source = None"

definition derived_names :: "string list \<Rightarrow> string list \<Rightarrow> string list" where
  "derived_names outer named = (if outer \<noteq> [] then outer else named)"

definition names_of :: "string list \<Rightarrow> (string \<times> scope_source) list \<Rightarrow> scope_names" where
  "names_of tabs sources =
     \<lparr>sc_sources = map (\<lambda>(a, s). (a, source_ref tabs s)) sources,
      sc_physical = concat (map (\<lambda>(a, s). case s of Physical t \<Rightarrow> [(a, t)] | _ \<Rightarrow> []) sources),
      sc_derived = concat (map (\<lambda>(a, s). case s of
        Derived i outer named \<Rightarrow> [(a, derived_names outer named)] | _ \<Rightarrow> []) sources)\<rparr>"

definition join_names :: "scope_names \<Rightarrow> scope_names \<Rightarrow> scope_names" where
  "join_names m n = \<lparr>sc_sources = sc_sources m @ sc_sources n, sc_physical = sc_physical m @ sc_physical n,
     sc_derived = sc_derived m @ sc_derived n\<rparr>"

text \<open>The tables the sources of a scope denote, with the nodes bound to them.\<close>

definition tables_of :: "string list \<Rightarrow> (string \<times> scope_source) list \<Rightarrow> (nat \<times> string) list" where
  "tables_of tabs sources = concat (map (\<lambda>(a, s). case s of
     Physical t \<Rightarrow> (case resolve_table_silent t tabs of None \<Rightarrow> [] | Some r \<Rightarrow> [(tn_id t, r)]) | _ \<Rightarrow> []) sources)"

definition sources_resolved :: "string list \<Rightarrow> (string \<times> scope_source) list \<Rightarrow> bool" where
  "sources_resolved tabs sources = (\<forall>(a, s) \<in> set sources. \<forall>t. s = Physical t \<longrightarrow> (\<exists>r. denotes tabs t r))"

lemma read_source_step:
  "read_source tabs (a, src) (names, refs) = (names', refs') \<Longrightarrow>
     names' = join_names names (names_of tabs [(a, src)])
     \<and> grows (rf_issues refs) (rf_issues refs')
     \<and> (rf_issues refs' = [] \<longrightarrow> sources_resolved tabs [(a, src)])
     \<and> rf_tables refs' = rf_tables refs @ map snd (tables_of tabs [(a, src)])
     \<and> rf_bind_tables refs' = rf_bind_tables refs @ tables_of tabs [(a, src)]
     \<and> rf_columns refs' = rf_columns refs"
proof (cases src)
  case (Physical t)
  assume step: "read_source tabs (a, src) (names, refs) = (names', refs')"
  obtain r i where ri: "resolve_table t tabs (rf_issues refs) = (r, i)" by force
  have r: "r = resolve_table_silent t tabs" using resolve_table_fst[of t tabs "rf_issues refs"] ri by simp
  have i: "grows (rf_issues refs) i" "i = [] \<longrightarrow> r \<noteq> None"
    using resolve_table_issues[where t = t and tabs = tabs] ri r by (metis snd_conv)+
  show ?thesis
    using step i unfolding r
    by (cases "resolve_table_silent t tabs"; cases names)
       (auto simp: read_source_def Physical ri r names_of_def join_names_def tables_of_def
         sources_resolved_def resolve_table_silent_iff[symmetric])
qed (cases names; auto simp: read_source_def names_of_def join_names_def tables_of_def
      sources_resolved_def derived_names_def)+

lemma join_names_of: "join_names (join_names m (names_of tabs xs)) (names_of tabs ys) = join_names m (names_of tabs (xs @ ys))"
  by (simp add: join_names_def names_of_def)

lemma read_source_fold:
  "fold (read_source tabs) sources (names, refs) = (names', refs') \<Longrightarrow>
     names' = join_names names (names_of tabs sources)
     \<and> grows (rf_issues refs) (rf_issues refs')
     \<and> (rf_issues refs' = [] \<longrightarrow> sources_resolved tabs sources)
     \<and> rf_tables refs' = rf_tables refs @ map snd (tables_of tabs sources)
     \<and> rf_bind_tables refs' = rf_bind_tables refs @ tables_of tabs sources
     \<and> rf_columns refs' = rf_columns refs"
proof (induction sources arbitrary: names refs)
  case Nil
  then show ?case by (simp add: join_names_def names_of_def tables_of_def sources_resolved_def)
next
  case (Cons e sources)
  obtain a src where e: "e = (a, src)" by force
  obtain names1 refs1 where one: "read_source tabs (a, src) (names, refs) = (names1, refs1)" by force
  note step = read_source_step[OF one]
  note rest = Cons.IH[of names1 refs1] Cons.prems one e
  have ih: "names' = join_names names1 (names_of tabs sources)
     \<and> grows (rf_issues refs1) (rf_issues refs')
     \<and> (rf_issues refs' = [] \<longrightarrow> sources_resolved tabs sources)
     \<and> rf_tables refs' = rf_tables refs1 @ map snd (tables_of tabs sources)
     \<and> rf_bind_tables refs' = rf_bind_tables refs1 @ tables_of tabs sources
     \<and> rf_columns refs' = rf_columns refs1"
    using Cons.IH[of names1 refs1] Cons.prems one e by simp
  have "grows (rf_issues refs) (rf_issues refs')" using step ih grows_trans by blast
  moreover have "sources_resolved tabs (e # sources)" if "rf_issues refs' = []"
    using step ih grows_Nil that e by (auto simp: sources_resolved_def)
  moreover have "tables_of tabs (e # sources) = tables_of tabs [(a, src)] @ tables_of tabs sources"
    by (simp add: tables_of_def e)
  ultimately show ?case
    using step ih join_names_of[of names tabs "[(a, src)]" sources] e by simp
qed

lemma read_sources_props:
  assumes "read_sources tabs sc refs = (names, refs')"
  shows "names = names_of tabs (qs_selected_sources sc)
     \<and> grows (rf_issues refs) (rf_issues refs')
     \<and> (rf_issues refs' = [] \<longrightarrow> sources_resolved tabs (qs_selected_sources sc))
     \<and> rf_tables refs' = rf_tables refs @ map snd (tables_of tabs (qs_selected_sources sc))
     \<and> rf_bind_tables refs' = rf_bind_tables refs @ tables_of tabs (qs_selected_sources sc)
     \<and> rf_columns refs' = rf_columns refs"
  using read_source_fold[OF assms[unfolded read_sources_def]] by (simp add: join_names_def)

section \<open>Columns\<close>

lemma rsplit_join: "CHR ''.'' \<in> set c \<Longrightarrow> c = rsplit_first c @ ''.'' @ rsplit_last c"
proof -
  assume dot: "CHR ''.'' \<in> set c"
  let ?t = "takeWhile (\<lambda>d. d \<noteq> CHR ''.'') (rev c)" and ?d = "dropWhile (\<lambda>d. d \<noteq> CHR ''.'') (rev c)"
  have "?d \<noteq> []" using dot by (auto simp: dropWhile_eq_Nil_conv)
  then have "?d = CHR ''.'' # tl ?d" using hd_dropWhile[of "\<lambda>d. d \<noteq> CHR ''.''" "rev c"]
    by (cases ?d) auto
  then have "rev c = ?t @ CHR ''.'' # tl ?d" by (metis takeWhile_dropWhile_id)
  then have "c = rev (tl ?d) @ ''.'' @ rev ?t" by (metis append.assoc append_Cons append_Nil rev.simps(2) rev_append rev_rev_ident)
  then show ?thesis using dot by (simp add: rsplit_first_def rsplit_last_def)
qed

lemma column_allowed_mem: "column_allowed cols r n \<Longrightarrow> r @ ''.'' @ n \<in> set cols"
  by (auto simp: column_allowed_def dest: rsplit_join)

text \<open>
  What a column of a scope may be: a star, a column of an enclosing scope, or a column of one
  of the scope's sources; then it is an allowed column of the table the source denotes, or an
  output of the derived source.
\<close>

inductive column_from :: "string list \<Rightarrow> string list \<Rightarrow> scope_source \<Rightarrow> string \<Rightarrow> bool" for tabs cols where
  from_table: "\<lbrakk>denotes tabs t r; r @ ''.'' @ n \<in> set cols\<rbrakk> \<Longrightarrow> column_from tabs cols (Physical t) n"
| from_derived: "n \<in> set (derived_names outer named) \<Longrightarrow> column_from tabs cols (Derived i outer named) n"
| from_other: "column_from tabs cols Other_Source n"

definition column_admitted :: "string list \<Rightarrow> string list \<Rightarrow> query_scope \<Rightarrow> column_node \<Rightarrow> bool" where
  "column_admitted tabs cols sc c =
     (cn_is_star c
      \<or> (cn_catalog c = []
         \<and> ((\<exists>(a, s) \<in> set (qs_selected_sources sc). (cn_table c = a \<or> (cn_table c = [] \<and> s \<noteq> Other_Source))
               \<and> column_from tabs cols s (cn_name c))
            \<or> (cn_table c \<noteq> [] \<and> qs_can_be_correlated sc
                \<and> (\<exists>a \<in> set (qs_ancestors sc). cn_table c \<in> set a)))))"

lemma map_of_names:
  assumes "map_of (sc_sources (names_of tabs sources)) q = Some ref"
  obtains s where "(q, s) \<in> set sources" "ref = source_ref tabs s"
  using assms by (auto simp: names_of_def dest!: map_of_SomeD)

lemma source_ref_Some: "source_ref tabs s = Some r \<longleftrightarrow> (\<exists>t. s = Physical t \<and> denotes tabs t r)"
  by (cases s) (auto simp: resolve_table_silent_iff)

lemma source_ref_None:
  assumes "source_ref tabs s = None" "sources_resolved tabs sources" "(a, s) \<in> set sources"
  shows "s = Other_Source \<or> (\<exists>i outer named. s = Derived i outer named)"
  using assms by (cases s) (auto simp: sources_resolved_def resolve_table_silent_iff[symmetric])

lemma derived_column_ok:
  assumes "validate_derived_column c outputs is = []"
  shows "\<exists>out \<in> set outputs. cn_name c \<in> set out"
proof (rule ccontr)
  assume none: "\<not> ?thesis"
  have "map (count_name (cn_name c)) outputs = map (\<lambda>_. 0) outputs"
    using none by (auto simp: count_name_def filter_empty_conv)
  then have "sum_list (map (count_name (cn_name c)) outputs) = 0" by (simp only: sum_list_0)
  then show False using assms by (simp add: validate_derived_column_def del: sum_list_eq_0_iff)
qed

lemma derived_mem: "(a, out) \<in> set (sc_derived (names_of tabs sources)) \<longleftrightarrow>
    (\<exists>i outer named. (a, Derived i outer named) \<in> set sources \<and> out = derived_names outer named)"
  by (force simp: names_of_def split: scope_source.splits)

lemma physical_mem: "(a, r) \<in> set (physical_sources (names_of tabs sources)) \<longleftrightarrow>
    (\<exists>s. (a, s) \<in> set sources \<and> source_ref tabs s = Some r)"
  by (force simp: physical_sources_def names_of_def split: option.splits)

text \<open>What reading one column adds.\<close>

definition column_step ::
  "string list \<Rightarrow> references \<Rightarrow> references \<Rightarrow> bool" where
  "column_step cols refs refs' =
     (grows (rf_issues refs) (rf_issues refs') \<and> rf_tables refs' = rf_tables refs
      \<and> rf_bind_tables refs' = rf_bind_tables refs
      \<and> set (rf_columns refs) \<subseteq> set (rf_columns refs')
      \<and> set (rf_columns refs') \<subseteq> set (rf_columns refs) \<union> set cols)"

lemma column_step_refl [simp]: "column_step cols refs refs"
  by (auto simp: column_step_def)

lemma column_step_trans: "column_step cols a b \<Longrightarrow> column_step cols b c \<Longrightarrow> column_step cols a c"
  using grows_trans by (fastforce simp: column_step_def)

lemma column_step_note [simp]: "column_step cols refs (note_issue code m refs)"
  by (auto simp: column_step_def note_issue_def)

lemma note_issue_not_Nil [simp]: "rf_issues (note_issue code m refs) \<noteq> []"
  by (simp add: note_issue_def)

lemma column_step_derived [simp]:
  "column_step cols refs (refs\<lparr>rf_issues := validate_derived_column c out (rf_issues refs)\<rparr>)"
  by (auto simp: column_step_def validate_derived_column_def)

lemma column_step_column: "column_allowed cols r (cn_name c) \<Longrightarrow> column_step cols refs (note_column r c a refs)"
  by (auto simp: column_step_def note_column_def dest: column_allowed_mem)

lemma read_qualified_column_step: "column_step cols refs (read_qualified_column cols names c ref refs)"
  by (auto simp: read_qualified_column_def Let_def column_step_column split: option.splits)

lemma read_unqualified_column_step: "column_step cols refs (read_unqualified_column cols names c refs)"
proof -
  have "column_step cols refs (bind_match c ms refs)"
    if "\<forall>(a, r) \<in> set ms. column_allowed cols r (cn_name c)" for ms
    using that by (cases "(c, ms, refs)" rule: bind_match.cases) (auto simp: column_step_column)
  then show ?thesis by (simp add: read_unqualified_column_def Let_def)
qed

lemma read_column_step: "column_step cols refs (read_column cols sc names c refs)"
  by (auto simp: read_column_def read_qualified_column_step read_unqualified_column_step
      split: option.splits)

lemma admitted_by_source:
  assumes "cn_catalog c = []" "(a, s) \<in> set (qs_selected_sources sc)" "column_from tabs cols s (cn_name c)"
    and "cn_table c = a \<or> (cn_table c = [] \<and> s \<noteq> Other_Source)"
  shows "column_admitted tabs cols sc c"
  using assms by (auto simp: column_admitted_def)

lemma read_qualified_admitted:
  assumes names: "names = names_of tabs (qs_selected_sources sc)"
    and resolved: "sources_resolved tabs (qs_selected_sources sc)"
    and catalog: "cn_catalog c = []" and ref: "map_of (sc_sources names) (cn_table c) = Some ref"
    and clean: "rf_issues (read_qualified_column cols names c ref refs) = []"
  shows "column_admitted tabs cols sc c"
proof -
  obtain s where s: "(cn_table c, s) \<in> set (qs_selected_sources sc)" "ref = source_ref tabs s"
    using ref unfolding names by (rule map_of_names)
  show ?thesis
  proof (cases ref)
    case (Some r)
    then have "column_allowed cols r (cn_name c)"
      using clean by (auto simp: read_qualified_column_def Let_def split: if_splits)
    then have "column_from tabs cols s (cn_name c)"
      using s(2) Some source_ref_Some[of tabs s r] by (auto intro: from_table dest: column_allowed_mem)
    then show ?thesis using admitted_by_source[OF catalog s(1)] by simp
  next
    case None
    consider "s = Other_Source" | i out named where "s = Derived i out named"
      using source_ref_None[OF _ resolved s(1)] s(2) None by auto
    then show ?thesis
    proof cases
      case 1
      then show ?thesis using admitted_by_source[OF catalog s(1)] from_other by simp
    next
      case 2
      then have "(cn_table c, derived_names out named) \<in> set (sc_derived names)"
        using s(1) by (auto simp: names derived_mem)
      then obtain out' where out': "map_of (sc_derived names) (cn_table c) = Some out'"
        by (metis weak_map_of_SomeI)
      have "rf_issues (refs\<lparr>rf_issues := validate_derived_column c [out'] (rf_issues refs)\<rparr>) = []"
        using clean None out' by (auto simp: read_qualified_column_def Let_def split: if_splits)
      then have "cn_name c \<in> set out'" using derived_column_ok[of c "[out']"] by simp
      moreover obtain i' o' n' where "(cn_table c, Derived i' o' n') \<in> set (qs_selected_sources sc)"
          "out' = derived_names o' n'"
        using map_of_SomeD[OF out'] by (auto simp: names derived_mem)
      ultimately show ?thesis using admitted_by_source[OF catalog] from_derived by blast
    qed
  qed
qed

lemma read_unqualified_admitted:
  assumes names: "names = names_of tabs (qs_selected_sources sc)"
    and catalog: "cn_catalog c = []" and bare: "cn_table c = []"
    and clean: "rf_issues (read_unqualified_column cols names c refs) = []"
  shows "column_admitted tabs cols sc c"
proof (cases "\<exists>s \<in> set (sc_sources names). snd s = None")
  case True
  then have "rf_issues (refs\<lparr>rf_issues := validate_derived_column c (map snd (sc_derived names)) (rf_issues refs)\<rparr>) = []"
    using clean by (auto simp: read_unqualified_column_def Let_def split: if_splits)
  then have "validate_derived_column c (map snd (sc_derived names)) (rf_issues refs) = []" by simp
  from derived_column_ok[OF this]
  obtain out where "out \<in> set (map snd (sc_derived names))" "cn_name c \<in> set out" by blast
  then obtain a i o' n where "(a, Derived i o' n) \<in> set (qs_selected_sources sc)" "cn_name c \<in> set (derived_names o' n)"
    by (auto simp: names derived_mem)
  then show ?thesis using admitted_by_source[OF catalog] from_derived bare by blast
next
  case False
  let ?ms = "filter (\<lambda>(_, r). column_allowed cols r (cn_name c)) (physical_sources names)"
  have "rf_issues (bind_match c ?ms refs) = []"
    using clean False by (simp add: read_unqualified_column_def Let_def)
  then obtain a r where "?ms = [(a, r)]"
    by (cases "(c, ?ms, refs)" rule: bind_match.cases) (auto simp del: filter_eq_Cons_iff)
  then have ar: "(a, r) \<in> set ?ms" by simp
  then obtain s where "(a, s) \<in> set (qs_selected_sources sc)" "source_ref tabs s = Some r"
    "column_allowed cols r (cn_name c)"
    by (auto simp: names physical_mem)
  then show ?thesis
    using admitted_by_source[OF catalog] from_table bare column_allowed_mem source_ref_Some
    by (metis scope_source.distinct(3))
qed

lemma read_column_admitted:
  assumes names: "names = names_of tabs (qs_selected_sources sc)"
    and resolved: "sources_resolved tabs (qs_selected_sources sc)"
    and clean: "rf_issues (read_column cols sc names c refs) = []"
  shows "column_admitted tabs cols sc c"
proof (cases "cn_is_star c")
  case False
  have catalog: "cn_catalog c = []" using clean False by (auto simp: read_column_def split: if_splits)
  consider (inner) ref where "cn_table c \<noteq> []" "map_of (sc_sources names) (cn_table c) = Some ref"
    | (outer) "cn_table c \<noteq> []" "map_of (sc_sources names) (cn_table c) = None"
    | (bare) "cn_table c = []" by (cases "map_of (sc_sources names) (cn_table c)") auto
  then show ?thesis
  proof cases
    case outer
    then show ?thesis using clean False catalog
      by (auto simp: read_column_def column_admitted_def split: if_splits)
  next
    case inner
    then show ?thesis
      using read_qualified_admitted[OF names resolved catalog inner(2)] clean False catalog
      by (simp add: read_column_def)
  next
    case bare
    then show ?thesis
      using read_unqualified_admitted[OF names catalog bare] clean False catalog
      by (simp add: read_column_def)
  qed
qed (simp add: column_admitted_def)

section \<open>Scopes\<close>

lemma read_columns_fold:
  assumes "names = names_of tabs (qs_selected_sources sc)" "sources_resolved tabs (qs_selected_sources sc)"
  shows "column_step cols refs (fold (read_column cols sc names) cs refs)
    \<and> (rf_issues (fold (read_column cols sc names) cs refs) = [] \<longrightarrow> (\<forall>c \<in> set cs. column_admitted tabs cols sc c))"
proof (induction cs arbitrary: refs)
  case (Cons c cs)
  let ?r = "read_column cols sc names c refs"
  have step: "column_step cols refs ?r" by (rule read_column_step)
  have "rf_issues ?r = []" if "rf_issues (fold (read_column cols sc names) cs ?r) = []"
    using Cons[of ?r] that grows_Nil by (auto simp: column_step_def)
  then show ?case
    using Cons[of ?r] column_step_trans[OF step] read_column_admitted[OF assms] by auto
qed simp

definition scope_admitted :: "string list \<Rightarrow> string list \<Rightarrow> query_scope \<Rightarrow> bool" where
  "scope_admitted tabs cols sc =
     (sources_resolved tabs (qs_selected_sources sc)
      \<and> (\<forall>c \<in> set (qs_columns sc). column_admitted tabs cols sc c))"

abbreviation "scope_tables tabs sc \<equiv> set (map snd (tables_of tabs (qs_selected_sources sc)))"

lemma grows_read_columns:
  "column_step cols refs (fold (read_column cols sc names) cs refs)"
  by (induction cs arbitrary: refs) (auto intro: column_step_trans read_column_step)

lemma read_scope_props:
  "grows (rf_issues refs) (rf_issues (read_scope tabs cols sc refs))
   \<and> rf_bind_tables (read_scope tabs cols sc refs) = rf_bind_tables refs @ tables_of tabs (qs_selected_sources sc)
   \<and> set (rf_tables (read_scope tabs cols sc refs)) = set (rf_tables refs) \<union> scope_tables tabs sc
   \<and> set (rf_columns (read_scope tabs cols sc refs)) \<subseteq> set (rf_columns refs) \<union> set cols
   \<and> (rf_issues (read_scope tabs cols sc refs) = [] \<longrightarrow> scope_admitted tabs cols sc)"
proof -
  obtain names r1 where r1: "read_sources tabs sc refs = (names, r1)" by force
  note props = read_sources_props[OF r1]
  let ?r = "fold (read_column cols sc names) (qs_columns sc) r1"
  have r: "read_scope tabs cols sc refs = ?r" by (simp add: read_scope_def r1)
  have step: "column_step cols r1 ?r" by (rule grows_read_columns)
  have "scope_admitted tabs cols sc" if clean: "rf_issues ?r = []"
  proof -
    have "rf_issues r1 = []" using step clean grows_Nil by (auto simp: column_step_def)
    then have res: "sources_resolved tabs (qs_selected_sources sc)" using props by simp
    then show ?thesis
      using read_columns_fold[OF _ res, of names cols r1 "qs_columns sc"] props clean
      by (simp add: scope_admitted_def)
  qed
  moreover have "grows (rf_issues refs) (rf_issues ?r)"
    using props step grows_trans by (auto simp: column_step_def)
  ultimately show ?thesis
    using props step by (auto simp: r column_step_def)
qed

lemma resolve_references_fold:
  "grows (rf_issues refs) (rf_issues (fold (read_scope tabs cols) scopes refs))
   \<and> set (rf_bind_tables (fold (read_scope tabs cols) scopes refs))
       = set (rf_bind_tables refs) \<union> (\<Union>sc \<in> set scopes. set (tables_of tabs (qs_selected_sources sc)))
   \<and> set (rf_tables (fold (read_scope tabs cols) scopes refs)) = set (rf_tables refs) \<union> (\<Union>sc \<in> set scopes. scope_tables tabs sc)
   \<and> set (rf_columns (fold (read_scope tabs cols) scopes refs)) \<subseteq> set (rf_columns refs) \<union> set cols
   \<and> (rf_issues (fold (read_scope tabs cols) scopes refs) = [] \<longrightarrow> (\<forall>sc \<in> set scopes. scope_admitted tabs cols sc))"
proof (induction scopes arbitrary: refs)
  case (Cons sc scopes)
  let ?r = "read_scope tabs cols sc refs"
  let ?out = "fold (read_scope tabs cols) scopes ?r"
  note step = read_scope_props[of refs tabs cols sc]
  note s1 = step[THEN conjunct1] and s2 = step[THEN conjunct2, THEN conjunct1]
    and s3 = step[THEN conjunct2, THEN conjunct2, THEN conjunct1]
    and s4 = step[THEN conjunct2, THEN conjunct2, THEN conjunct2, THEN conjunct1]
    and s5 = step[THEN conjunct2, THEN conjunct2, THEN conjunct2, THEN conjunct2]
  note ih = Cons[of ?r]
  note i1 = ih[THEN conjunct1] and i2 = ih[THEN conjunct2, THEN conjunct1]
    and i3 = ih[THEN conjunct2, THEN conjunct2, THEN conjunct1]
    and i4 = ih[THEN conjunct2, THEN conjunct2, THEN conjunct2, THEN conjunct1]
    and i5 = ih[THEN conjunct2, THEN conjunct2, THEN conjunct2, THEN conjunct2]
  have "grows (rf_issues refs) (rf_issues ?out)" by (rule grows_trans[OF s1 i1])
  moreover have "set (rf_bind_tables ?out)
      = set (rf_bind_tables refs) \<union> (\<Union>sc \<in> set (sc # scopes). set (tables_of tabs (qs_selected_sources sc)))"
    unfolding i2 s2 by auto
  moreover have "set (rf_tables ?out)
      = set (rf_tables refs) \<union> (\<Union>sc \<in> set (sc # scopes). scope_tables tabs sc)"
    unfolding i3 s3 by auto
  moreover have "set (rf_columns ?out) \<subseteq> set (rf_columns refs) \<union> set cols"
    using i4 s4 by (rule subset_trans[OF _ Un_least[OF _ Un_upper2]])
  moreover have "\<forall>x \<in> set (sc # scopes). scope_admitted tabs cols x" if clean: "rf_issues ?out = []"
    using i5 s5 clean grows_Nil[OF i1 clean] by simp
  ultimately show ?case unfolding fold_simps by blast
qed simp

text \<open>Every reference that is bound has one dot, so splitting it never fails.\<close>

lemma tables_of_one_dot: "(i, r) \<in> set (tables_of tabs sources) \<Longrightarrow> r \<in> set tabs \<and> one_dot r"
proof -
  assume "(i, r) \<in> set (tables_of tabs sources)"
  then obtain t where "resolve_table_silent t tabs = Some r"
    by (auto simp: tables_of_def split: scope_source.splits option.splits)
  then show ?thesis using denotes_allowed by (simp add: resolve_table_silent_iff)
qed

lemma bind_names_total: "bind_names (resolve_references scopes tabs cols is) \<noteq> None"
proof -
  let ?r = "resolve_references scopes tabs cols is"
  have "set (rf_bind_tables ?r) = (\<Union>sc \<in> set scopes. set (tables_of tabs (qs_selected_sources sc)))"
    using resolve_references_fold[of _ tabs cols scopes] by (simp add: resolve_references_def)
  then show ?thesis using tables_of_one_dot by (fastforce simp: bind_names_def)
qed

section \<open>Accepted statements\<close>

lemma finish_accepts:
  assumes "vr_normalized_sql (finish_validation lib cap p st refs bindings lineage n) = Some sql"
    and grown: "grows [] (rf_issues refs)"
  shows "rf_issues refs = [] \<and> set (sp_tables p) = set (rf_tables refs)
    \<and> set (sp_columns p) = set (rf_columns refs)
    \<and> (\<forall>i. snd (apply_limit (st_limit st) n) = Some i \<longrightarrow> \<not> vi_blocking i)
    \<and> sql = sl_render lib (dc_sqlglot_name cap) st bindings (fst (apply_limit (st_limit st) n))"
proof -
  let ?i1 = "add_issue_if (set (sp_tables p) \<noteq> set (rf_tables refs)) ''declared_table_mismatch''
                 ''Declared tables do not match the SQL AST'' (rf_issues refs)"
  let ?i2 = "add_issue_if (set (sp_columns p) \<noteq> set (rf_columns refs)) ''declared_column_mismatch''
                 ''Declared columns do not match the SQL AST'' ?i1"
  have "\<not> any_blocking ?i2"
    using assms(1) by (auto simp: finish_validation_def Let_def split: if_splits)
  moreover have "grows [] ?i2"
    using grown by (intro grows_add_issue_if_trans)
  ultimately have nil: "?i2 = []" using grows_blocking by blast
  then have parts: "rf_issues refs = []" "set (sp_tables p) = set (rf_tables refs)"
    "set (sp_columns p) = set (rf_columns refs)" by (simp_all del: set_eq_subset)
  obtain limit li where limit: "apply_limit (st_limit st) n = (limit, li)" by force
  have "\<not> any_blocking (case li of None \<Rightarrow> [] | Some i \<Rightarrow> [i])
      \<and> sql = sl_render lib (dc_sqlglot_name cap) st bindings limit"
    using assms(1) nil
    by (simp add: finish_validation_def Let_def limit any_blocking_def split: if_splits)
  then show ?thesis using parts limit by (auto simp: any_blocking_def)
qed

lemma validate_view_accepts:
  assumes "validate_view lib cap p st tabs cols n = Inr v" "vr_normalized_sql v = Some sql"
  obtains scopes refs bindings bound lineage where
    "st_scopes st = Inr scopes"
    "refs = resolve_references scopes tabs cols (fold check_output_names scopes (check_statement cap st p))"
    "bind_names refs = Some bindings" "st_bound_scopes st bindings = Inr bound"
    "resolve_output_lineage bound tabs cols = Inr lineage"
    "v = finish_validation lib cap p st refs bindings lineage n"
    "rf_issues refs = []"
proof -
  obtain scopes where scopes: "st_scopes st = Inr scopes"
    using assms by (cases "st_scopes st") (auto simp: validate_view_def rejected_def)
  define refs where "refs = resolve_references scopes tabs cols (fold check_output_names scopes (check_statement cap st p))"
  obtain bindings where b: "bind_names refs = Some bindings"
    using bind_names_total refs_def by blast
  obtain bound where bound: "st_bound_scopes st bindings = Inr bound"
    using assms scopes b by (cases "st_bound_scopes st bindings")
      (auto simp: validate_view_def rejected_def refs_def Let_def)
  obtain lineage where lineage: "resolve_output_lineage bound tabs cols = Inr lineage"
    and v: "v = finish_validation lib cap p st refs bindings lineage n"
    using assms scopes b bound
    by (cases "resolve_output_lineage bound tabs cols") (auto simp: validate_view_def refs_def Let_def)
  have "grows [] (rf_issues refs)"
  proof -
    have "grows [] (fold check_output_names scopes (check_statement cap st p))"
      by (rule grows_trans[OF grows_check_statement grows_fold[OF grows_check_output_names]])
    moreover have "grows (fold check_output_names scopes (check_statement cap st p)) (rf_issues refs)"
      unfolding refs_def resolve_references_def
      using resolve_references_fold[THEN conjunct1, of "\<lparr>rf_issues = fold check_output_names scopes (check_statement cap st p),
          rf_tables = [], rf_columns = [], rf_bind_tables = [], rf_bind_columns = []\<rparr>" tabs cols scopes]
      by simp
    ultimately show ?thesis by (rule grows_trans)
  qed
  then have "rf_issues refs = []"
    using finish_accepts assms(2) unfolding v by blast
  then show thesis using that[OF scopes refs_def b bound lineage v] by simp
qed

lemma validate_sql_accepts:
  assumes "validate_sql lib cap p tabs cols n = Inr v" "vr_normalized_sql v = Some sql"
  obtains raw where "casefold (sp_dialect p) \<in> set (dialect_aliases cap)" "1 \<le> n" "n \<le> 10000"
    "\<not> sp_needs_clarification p" "sl_parse lib (dc_sqlglot_name cap) (sp_sql p) = Inr [Some raw]"
    "validate_view lib cap p (normalize_identifiers (dc_sqlglot_name cap) raw) tabs cols n = Inr v"
  using assms unfolding validate_sql_def Let_def
  by (auto simp: rejected_def split: if_splits sum.splits list.splits option.splits)

lemma sorted_set_cong: "set xs = set ys \<Longrightarrow> sorted_set xs = sorted_set ys"
  by (rule sorted_distinct_set_unique) simp_all

lemma finish_references:
  "vr_referenced_tables (finish_validation lib cap p st refs bindings lineage n) = sorted_set (rf_tables refs)"
  "vr_referenced_columns (finish_validation lib cap p st refs bindings lineage n) = sorted_set (rf_columns refs)"
  by (auto simp: finish_validation_def Let_def split: prod.split)

lemma scope_tables_iff:
  "r \<in> scope_tables tabs sc \<longleftrightarrow> (\<exists>a t. (a, Physical t) \<in> set (qs_selected_sources sc) \<and> denotes tabs t r)"
  unfolding tables_of_def
  by (force split: scope_source.splits option.splits simp: resolve_table_silent_iff[symmetric])

lemma accepted_statement:
  assumes "validate_sql lib cap p tabs cols max_rows = Inr v" "vr_normalized_sql v = Some sql"
  shows "\<exists>raw scopes. sl_parse lib (dc_sqlglot_name cap) (sp_sql p) = Inr [Some raw]
    \<and> statement_admitted cap (normalize_identifiers (dc_sqlglot_name cap) raw) p
    \<and> st_scopes (normalize_identifiers (dc_sqlglot_name cap) raw) = Inr scopes
    \<and> (\<forall>sc \<in> set scopes. scope_admitted tabs cols sc)
    \<and> set (sp_tables p) = (\<Union>sc \<in> set scopes. {r. \<exists>a t. (a, Physical t) \<in> set (qs_selected_sources sc) \<and> denotes tabs t r})
    \<and> set (sp_columns p) \<subseteq> set cols
    \<and> vr_referenced_tables v = sorted_set (sp_tables p) \<and> vr_referenced_columns v = sorted_set (sp_columns p)"
proof -
  obtain raw where raw: "sl_parse lib (dc_sqlglot_name cap) (sp_sql p) = Inr [Some raw]"
    "validate_view lib cap p (normalize_identifiers (dc_sqlglot_name cap) raw) tabs cols max_rows = Inr v"
    using assms by (rule validate_sql_accepts)
  let ?st = "normalize_identifiers (dc_sqlglot_name cap) raw"
  obtain scopes refs bindings bound lineage where parts: "st_scopes ?st = Inr scopes"
    "refs = resolve_references scopes tabs cols (fold check_output_names scopes (check_statement cap ?st p))"
    "v = finish_validation lib cap p ?st refs bindings lineage max_rows"
    "rf_issues refs = []"
    using raw(2) assms(2) by (rule validate_view_accepts)
  let ?init = "\<lparr>rf_issues = fold check_output_names scopes (check_statement cap ?st p), rf_tables = [],
      rf_columns = [], rf_bind_tables = [], rf_bind_columns = []\<rparr>"
  note fold = resolve_references_fold[of ?init tabs cols scopes, folded resolve_references_def, folded parts(2)]
  have grown: "grows [] (rf_issues refs)" by (simp add: parts(4))
  note fin = finish_accepts[OF assms(2)[unfolded parts(3)] grown]
  have "fold check_output_names scopes (check_statement cap ?st p) = []"
    using fold parts(4) grows_Nil[of "fold check_output_names scopes (check_statement cap ?st p)"] by simp
  from fold_issues_Nil[OF grows_check_output_names this]
  have "statement_admitted cap ?st p" by (blast intro: check_statement_Nil)
  moreover have "\<forall>sc \<in> set scopes. scope_admitted tabs cols sc" using fold parts(4) by simp
  moreover have tabs: "set (sp_tables p) = (\<Union>sc \<in> set scopes. scope_tables tabs sc)"
    using fold fin by simp
  moreover have "set (sp_columns p) \<subseteq> set cols" using fold fin by simp
  moreover have "vr_referenced_tables v = sorted_set (sp_tables p)" "vr_referenced_columns v = sorted_set (sp_columns p)"
    unfolding parts(3) finish_references
    by (rule sorted_set_cong, rule fin[THEN conjunct2, THEN conjunct1, symmetric],
        rule sorted_set_cong, rule fin[THEN conjunct2, THEN conjunct2, THEN conjunct1, symmetric])
  moreover have "(\<Union>sc \<in> set scopes. scope_tables tabs sc)
      = (\<Union>sc \<in> set scopes. {r. \<exists>a t. (a, Physical t) \<in> set (qs_selected_sources sc) \<and> denotes tabs t r})"
    by (rule SUP_cong[OF refl]) (rule set_eqI, simp only: scope_tables_iff mem_Collect_eq)
  ultimately show ?thesis using raw(1) parts(1) by (intro exI[of _ raw] exI[of _ scopes] conjI) simp_all
qed



end
