(* ===== verification/Validator_Lineage.thy ===== *)
theory Validator_Lineage
  imports Validator_Safety
begin

text \<open>
  The output lineage against a reference definition.  The validator computes it scope by scope
  with a dictionary of outputs; \<open>output_reads\<close> says directly which base columns an output of a
  scope is computed from, through derived tables and CTEs to any depth.  A lineage that is
  reported complete is exactly that relation, so the result processor, which masks by lineage,
  misses no source column of such a result.
\<close>

section \<open>The columns an output reads\<close>

definition output_names :: "query_scope \<Rightarrow> string list" where
  "output_names sc = (if qs_outer_columns sc = [] then map si_output (qs_selects sc) else qs_outer_columns sc)"

inductive output_reads ::
  "string list \<Rightarrow> string list \<Rightarrow> query_scope list \<Rightarrow> query_scope \<Rightarrow> string \<Rightarrow> string \<Rightarrow> bool"
  for tabs cols scs where
  reads_table: "\<lbrakk>qs_is_select sc; (n, i) \<in> set (zip (output_names sc) (qs_selects sc));
      c \<in> set (item_columns sc i); (a, Physical t) \<in> set (qs_selected_sources sc);
      cn_table c = a \<or> cn_table c = []; denotes tabs t r; column_allowed cols r (cn_name c)\<rbrakk>
    \<Longrightarrow> output_reads tabs cols scs sc n (r @ ''.'' @ cn_name c)"
| reads_derived: "\<lbrakk>qs_is_select sc; (n, i) \<in> set (zip (output_names sc) (qs_selects sc));
      c \<in> set (item_columns sc i); (a, Derived j outer named) \<in> set (qs_selected_sources sc);
      cn_table c = a \<or> cn_table c = []; sc' \<in> set scs; qs_id sc' = j;
      output_reads tabs cols scs sc' (cn_name c) b\<rbrakk>
    \<Longrightarrow> output_reads tabs cols scs sc n b"

inductive_simps output_reads_simps: "output_reads tabs cols scs sc n b"

text \<open>What one source contributes to a column name, and whether it offers the name at all.\<close>

fun source_reads ::
  "string list \<Rightarrow> string list \<Rightarrow> query_scope list \<Rightarrow> scope_source \<Rightarrow> string \<Rightarrow> string \<Rightarrow> bool" where
  "source_reads tabs cols scs (Physical t) n b =
     (\<exists>r. denotes tabs t r \<and> column_allowed cols r n \<and> b = r @ ''.'' @ n)"
| "source_reads tabs cols scs (Derived j outer named) n b =
     (\<exists>sc' \<in> set scs. qs_id sc' = j \<and> output_reads tabs cols scs sc' n b)"
| "source_reads tabs cols scs Other_Source n b = False"

fun offers :: "string list \<Rightarrow> string list \<Rightarrow> query_scope list \<Rightarrow> scope_source \<Rightarrow> string \<Rightarrow> bool" where
  "offers tabs cols scs (Physical t) n = (\<exists>r. denotes tabs t r \<and> column_allowed cols r n)"
| "offers tabs cols scs (Derived j outer named) n =
     (\<exists>sc' \<in> set scs. qs_id sc' = j \<and> n \<in> set (output_names sc'))"
| "offers tabs cols scs Other_Source n = False"

lemma output_reads_iff:
  "output_reads tabs cols scs sc n b \<longleftrightarrow> qs_is_select sc
     \<and> (\<exists>i c a s. (n, i) \<in> set (zip (output_names sc) (qs_selects sc)) \<and> c \<in> set (item_columns sc i)
          \<and> (a, s) \<in> set (qs_selected_sources sc) \<and> (cn_table c = a \<or> cn_table c = [])
          \<and> source_reads tabs cols scs s (cn_name c) b)"
    (is "?l \<longleftrightarrow> ?r")
proof
  assume ?l
  then show ?r
    by (subst (asm) output_reads_simps) (fastforce intro: exI[of _ "Physical _"])
next
  assume ?r
  then obtain i c a s where h: "qs_is_select sc" "(n, i) \<in> set (zip (output_names sc) (qs_selects sc))"
    "c \<in> set (item_columns sc i)" "(a, s) \<in> set (qs_selected_sources sc)"
    "cn_table c = a \<or> cn_table c = []" "source_reads tabs cols scs s (cn_name c) b" by blast
  show ?l
  proof (cases s)
    case (Physical t)
    then show ?thesis using h(6) reads_table[OF h(1-3) h(4)[unfolded Physical] h(5)] by auto
  next
    case (Derived j outer named)
    then show ?thesis using h(6) reads_derived[OF h(1-3) h(4)[unfolded Derived] h(5)] by auto
  qed (use h(6) in simp)
qed

lemma source_reads_offers: "source_reads tabs cols scs s n b \<Longrightarrow> offers tabs cols scs s n"
  by (cases s) (auto simp: output_reads_iff dest: set_zip_leftD)

section \<open>Well-formed scopes\<close>

definition tidy_scope :: "string list \<Rightarrow> string list \<Rightarrow> query_scope list \<Rightarrow> query_scope \<Rightarrow> bool" where
  "tidy_scope tabs cols scs sc =
     (distinct (map fst (qs_selected_sources sc))
      \<and> distinct (map si_output (qs_selects sc)) \<and> [] \<notin> set (map si_output (qs_selects sc))
      \<and> (qs_outer_columns sc = []
         \<or> distinct (qs_outer_columns sc) \<and> length (qs_outer_columns sc) = length (qs_selects sc))
      \<and> (\<forall>i \<in> set (qs_selects sc). \<forall>c \<in> set (item_columns sc i). cn_table c = [] \<longrightarrow>
           (\<forall>e \<in> set (qs_selected_sources sc). \<forall>e' \<in> set (qs_selected_sources sc).
              offers tabs cols scs (snd e) (cn_name c) \<and> offers tabs cols scs (snd e') (cn_name c) \<longrightarrow> e = e')))"

definition tidy_scopes :: "string list \<Rightarrow> string list \<Rightarrow> query_scope list \<Rightarrow> bool" where
  "tidy_scopes tabs cols scs =
     (distinct (map qs_id scs) \<and> (\<forall>sc \<in> set scs. tidy_scope tabs cols scs sc))"

section \<open>One scope\<close>

text \<open>The dictionary knows the outputs of the scopes seen so far.\<close>

definition outputs_known ::
  "string list \<Rightarrow> string list \<Rightarrow> query_scope list \<Rightarrow> query_scope list \<Rightarrow> (nat \<rightharpoonup> scope_outputs) \<Rightarrow> bool" where
  "outputs_known tabs cols scs seen outputs =
     ((\<forall>i. i \<notin> qs_id ` set seen \<longrightarrow> outputs i = None)
      \<and> (\<forall>sc \<in> set seen. \<exists>m. outputs (qs_id sc) = Some m
           \<and> (\<forall>n v. m n = Some v \<longrightarrow> n \<in> set (output_names sc)
                \<and> (snd v \<longrightarrow> set (fst v) = {b. output_reads tabs cols scs sc n b}))))"

abbreviation "lineage_source_of tabs outputs s \<equiv> (case s of
    Physical t \<Rightarrow> (case resolve_table_silent t tabs of None \<Rightarrow> From_Nothing | Some r \<Rightarrow> From_Table r)
  | Derived i _ _ \<Rightarrow> (case outputs i of None \<Rightarrow> From_Nothing | Some m \<Rightarrow> From_Outputs m)
  | Other_Source \<Rightarrow> From_Nothing)"

lemma lineage_from_source_reads:
  assumes known: "outputs_known tabs cols scs seen outputs" and seen: "set seen \<subseteq> set scs"
    and ids: "distinct (map qs_id scs)"
    and "lineage_from_source cols (lineage_source_of tabs outputs s) n = Some refs"
  shows "set refs = {b. source_reads tabs cols scs s n b} \<and> offers tabs cols scs s n"
proof (cases s)
  case (Physical t)
  then show ?thesis
    using assms(4) by (auto simp: lineage_from_source_def resolve_table_silent_iff denotes_def
        split: option.splits if_splits)
next
  case (Derived j outer named)
  then obtain m where m: "outputs j = Some m" "m n = Some (refs, True)"
    using assms(4) by (auto simp: lineage_from_source_def split: option.splits bool.splits)
  have "j \<in> qs_id ` set seen"
    using known m(1) by (metis outputs_known_def option.distinct(1))
  then obtain sc where sc: "sc \<in> set seen" "qs_id sc = j" by blast
  then have reads: "set refs = {b. output_reads tabs cols scs sc n b}" "n \<in> set (output_names sc)"
    using known m by (fastforce simp: outputs_known_def)+
  have "sc' = sc" if "sc' \<in> set scs" "qs_id sc' = j" for sc'
    using that sc seen ids by (auto simp: distinct_map inj_on_def)
  then have "(\<exists>sc' \<in> set scs. qs_id sc' = j \<and> output_reads tabs cols scs sc' n b)
      \<longleftrightarrow> output_reads tabs cols scs sc n b" for b
    using sc seen by blast
  then show ?thesis using reads sc seen by (auto simp: Derived)
qed (use assms(4) in \<open>simp add: lineage_from_source_def\<close>)

lemma one_match:
  assumes "concat (map (\<lambda>(a, s). case f s of None \<Rightarrow> [] | Some x \<Rightarrow> [x]) xs) = [y]"
  shows "\<exists>e \<in> set xs. f (snd e) = Some y"
proof -
  have "y \<in> set (concat (map (\<lambda>(a, s). case f s of None \<Rightarrow> [] | Some x \<Rightarrow> [x]) xs))" using assms by simp
  then show ?thesis by (force split: option.splits)
qed

lemma single_case: "(case xs of [x] \<Rightarrow> Some x | _ \<Rightarrow> None) = Some y \<Longrightarrow> xs = [y]"
  by (auto split: list.splits)

lemma resolve_output_column_reads:
  assumes known: "outputs_known tabs cols scs seen outputs" "set seen \<subseteq> set scs" "distinct (map qs_id scs)"
    and tidy: "tidy_scope tabs cols scs sc" and i: "i \<in> set (qs_selects sc)" "c \<in> set (item_columns sc i)"
    and refs: "resolve_output_column cols (lineage_sources tabs outputs sc) c = Some refs"
  shows "set refs = {b. \<exists>a s. (a, s) \<in> set (qs_selected_sources sc) \<and> (cn_table c = a \<or> cn_table c = [])
    \<and> source_reads tabs cols scs s (cn_name c) b}"
proof (cases "cn_table c = []")
  case False
  then obtain a s where s: "(a, s) \<in> set (qs_selected_sources sc)" "a = cn_table c"
    "lineage_from_source cols (lineage_source_of tabs outputs s) (cn_name c) = Some refs"
    using refs by (force simp: resolve_output_column_def lineage_sources_def
        split: option.splits dest!: map_of_SomeD)
  have "s' = s" if "(a, s') \<in> set (qs_selected_sources sc)" for s'
    using tidy s(1) that by (meson eq_key_imp_eq_value tidy_scope_def)
  then have "(\<exists>a s'. (a, s') \<in> set (qs_selected_sources sc) \<and> (cn_table c = a \<or> cn_table c = [])
      \<and> source_reads tabs cols scs s' (cn_name c) b) \<longleftrightarrow> source_reads tabs cols scs s (cn_name c) b" for b
    using s(1,2) False by blast
  then show ?thesis
    using lineage_from_source_reads[OF known s(3)] by simp
next
  case True
  let ?g = "\<lambda>src. lineage_from_source cols src (cn_name c)"
  have same: "map (\<lambda>(_, src). case ?g src of None \<Rightarrow> [] | Some x \<Rightarrow> [x]) (lineage_sources tabs outputs sc)
      = map (\<lambda>(a, s). case ?g (lineage_source_of tabs outputs s) of None \<Rightarrow> [] | Some x \<Rightarrow> [x])
          (qs_selected_sources sc)"
    by (simp only: lineage_sources_def map_map comp_def case_prod_unfold fst_conv snd_conv)
  have "(case concat (map (\<lambda>(_, src). case ?g src of None \<Rightarrow> [] | Some x \<Rightarrow> [x])
      (lineage_sources tabs outputs sc)) of [x] \<Rightarrow> Some x | _ \<Rightarrow> None) = Some refs"
    using refs True by (simp add: resolve_output_column_def)
  then have "concat (map (\<lambda>(_, src). case ?g src of None \<Rightarrow> [] | Some x \<Rightarrow> [x])
      (lineage_sources tabs outputs sc)) = [refs]"
    by (rule single_case)
  then have "concat (map (\<lambda>(a, s). case ?g (lineage_source_of tabs outputs s) of None \<Rightarrow> [] | Some x \<Rightarrow> [x])
      (qs_selected_sources sc)) = [refs]"
    unfolding same .
  from one_match[OF this]
  obtain e where e: "e \<in> set (qs_selected_sources sc)"
    "lineage_from_source cols (lineage_source_of tabs outputs (snd e)) (cn_name c) = Some refs" by blast
  note reads = lineage_from_source_reads[OF known e(2)]
  have "e' = e" if "e' \<in> set (qs_selected_sources sc)" "source_reads tabs cols scs (snd e') (cn_name c) b" for e' b
    using tidy i True e(1) that reads source_reads_offers unfolding tidy_scope_def by blast
  then have "(\<exists>a s. (a, s) \<in> set (qs_selected_sources sc) \<and> source_reads tabs cols scs s (cn_name c) b)
      \<longleftrightarrow> source_reads tabs cols scs (snd e) (cn_name c) b" for b
    using e(1) by (metis prod.collapse snd_conv)
  then show ?thesis using reads True by simp
qed

lemma item_lineage_reads:
  assumes "outputs_known tabs cols scs seen outputs" "set seen \<subseteq> set scs" "distinct (map qs_id scs)"
    and "tidy_scope tabs cols scs sc" "i \<in> set (qs_selects sc)"
    and "snd (item_lineage cols (lineage_sources tabs outputs sc) sc i)"
  shows "set (fst (item_lineage cols (lineage_sources tabs outputs sc) sc i))
    = {b. \<exists>c a s. c \<in> set (item_columns sc i) \<and> (a, s) \<in> set (qs_selected_sources sc)
         \<and> (cn_table c = a \<or> cn_table c = []) \<and> source_reads tabs cols scs s (cn_name c) b}"
proof -
  let ?f = "resolve_output_column cols (lineage_sources tabs outputs sc)"
  have each: "\<exists>refs. ?f c = Some refs \<and> set refs = {b. \<exists>a s. (a, s) \<in> set (qs_selected_sources sc)
      \<and> (cn_table c = a \<or> cn_table c = []) \<and> source_reads tabs cols scs s (cn_name c) b}"
    if c: "c \<in> set (item_columns sc i)" for c
  proof -
    have "?f c \<noteq> None" using assms(6) c by (force simp: item_lineage_def Let_def)
    then show ?thesis using resolve_output_column_reads[OF assms(1-5) c] by auto
  qed
  have "set (fst (item_lineage cols (lineage_sources tabs outputs sc) sc i))
      = (\<Union>c \<in> set (item_columns sc i). set (case ?f c of None \<Rightarrow> [] | Some refs \<Rightarrow> refs))"
    by (simp add: item_lineage_def Let_def)
  also have "\<dots> = (\<Union>c \<in> set (item_columns sc i). {b. \<exists>a s. (a, s) \<in> set (qs_selected_sources sc)
      \<and> (cn_table c = a \<or> cn_table c = []) \<and> source_reads tabs cols scs s (cn_name c) b})"
    by (rule SUP_cong[OF refl]) (use each in force)
  finally show ?thesis by auto
qed

section \<open>The loop over the scopes\<close>

definition lineage_item :: "string list \<Rightarrow> (string \<times> lineage_source) list \<Rightarrow> query_scope \<Rightarrow> select_item \<Rightarrow> output_column_lineage" where
  "lineage_item cols sources sc i =
     \<lparr>ocl_output_name = si_output i, ocl_source_columns = fst (item_lineage cols sources sc i)\<rparr>"

lemma map_of_rev:
  assumes "distinct (map fst xs)"
  shows "map_of (rev xs) = map_of xs"
proof
  fix k
  have "distinct (map fst (rev xs))" using assms by (simp add: rev_map[symmetric])
  then have "map_of (rev xs) k = Some v \<longleftrightarrow> map_of xs k = Some v" for v
    using assms by (simp add: map_of_eq_Some_iff)
  then show "map_of (rev xs) k = map_of xs k" by (metis not_Some_eq)
qed

lemma add_items_result:
  assumes "add_items cols sources sc js g = Inr g'"
    and "distinct (map si_output js)" "[] \<notin> set (map si_output js)"
    and "\<forall>i \<in> set js. lg_outputs g (si_output i) = None"
  shows "lg_outputs g' = lg_outputs g ++ map_of (map (\<lambda>i. (si_output i, item_lineage cols sources sc i)) js)
    \<and> lg_items g' = lg_items g @ map (lineage_item cols sources sc) js
    \<and> lg_complete g' = (lg_complete g \<and> (\<forall>i \<in> set js. snd (item_lineage cols sources sc i)))"
  using assms
proof (induction js arbitrary: g)
  case (Cons i js)
  obtain g1 where g1: "add_item cols sources sc i g = Inr g1" "add_items cols sources sc js g1 = Inr g'"
    using Cons.prems(1) by (auto simp: bind_result_Inr_iff)
  have one: "lg_outputs g1 = (lg_outputs g)(si_output i \<mapsto> item_lineage cols sources sc i)"
    "lg_items g1 = lg_items g @ [lineage_item cols sources sc i]"
    "lg_complete g1 = (lg_complete g \<and> snd (item_lineage cols sources sc i))"
    using g1(1) Cons.prems(3,4)
    by (auto simp: add_item_def lineage_item_def Let_def bind_result_Inr_iff split: prod.splits if_splits)
  have "\<forall>j \<in> set js. lg_outputs g1 (si_output j) = None"
    using Cons.prems(2,4) by (auto simp: one(1) image_iff)
  then have ih: "lg_outputs g' = lg_outputs g1 ++ map_of (map (\<lambda>i. (si_output i, item_lineage cols sources sc i)) js)
      \<and> lg_items g' = lg_items g1 @ map (lineage_item cols sources sc) js
      \<and> lg_complete g' = (lg_complete g1 \<and> (\<forall>i \<in> set js. snd (item_lineage cols sources sc i)))"
    using Cons.IH[OF g1(2)] Cons.prems(2,3) by simp
  let ?rest = "map (\<lambda>i. (si_output i, item_lineage cols sources sc i)) js"
  have "si_output i \<notin> dom (map_of ?rest)"
    using Cons.prems(2) by (simp add: dom_map_of_conv_image_fst image_image)
  then have "(lg_outputs g)(si_output i \<mapsto> item_lineage cols sources sc i) ++ map_of ?rest
      = (lg_outputs g ++ map_of ?rest)(si_output i \<mapsto> item_lineage cols sources sc i)"
    by (rule map_add_upd_left)
  also have "\<dots> = lg_outputs g ++ map_of ((si_output i, item_lineage cols sources sc i) # ?rest)"
    by (simp only: map_of.simps fst_conv snd_conv map_add_upd)
  finally have all: "lg_outputs g1 ++ map_of ?rest
      = lg_outputs g ++ map_of (map (\<lambda>i. (si_output i, item_lineage cols sources sc i)) (i # js))"
    by (simp only: one(1) list.map)
  have "lg_items g' = lg_items g @ map (lineage_item cols sources sc) (i # js)"
    "lg_complete g' = (lg_complete g \<and> (\<forall>i \<in> set (i # js). snd (item_lineage cols sources sc i)))"
    using ih one(2,3) by auto
  then show ?case using ih all by (intro conjI) (assumption | simp only: | blast)+
qed simp

lemma map_of_zip_select:
  assumes "map_of (zip ns (map f xs)) n = Some v" "distinct ns" "length ns = length xs"
  shows "\<exists>i. (n, i) \<in> set (zip ns xs) \<and> v = f i \<and> (\<forall>j. (n, j) \<in> set (zip ns xs) \<longrightarrow> j = i)"
proof -
  have "(n, v) \<in> set (zip ns (map f xs))" using assms(1) by (rule map_of_SomeD)
  then obtain k where k: "k < length ns" "ns ! k = n" "v = f (xs ! k)"
    using assms(3) by (auto simp: set_zip)
  have "j = xs ! k" if "(n, j) \<in> set (zip ns xs)" for j
    using that k assms(2,3) by (auto simp: set_zip nth_eq_iff_index_eq)
  moreover have "(n, xs ! k) \<in> set (zip ns xs)" using k assms(3) by (auto simp: set_zip)
  ultimately show ?thesis using k(3) by blast
qed

lemma scope_lineage_result:
  assumes tidy: "tidy_scope tabs cols scs sc" and g: "scope_lineage tabs cols outputs sc = Inr g"
  defines "item \<equiv> item_lineage cols (lineage_sources tabs outputs sc) sc"
  shows "lg_items g = map (lineage_item cols (lineage_sources tabs outputs sc) sc) (qs_selects sc)"
    and "lg_complete g = (\<forall>i \<in> set (qs_selects sc). snd (item i))"
    and "renamed_outputs sc g = map_of (zip (output_names sc) (map item (qs_selects sc)))"
proof -
  let ?init = "\<lparr>lg_outputs = Map.empty, lg_items = [], lg_complete = True\<rparr>"
  obtain g0 where g0: "add_items cols (lineage_sources tabs outputs sc) sc (qs_selects sc) ?init = Inr g0"
    "g = g0\<lparr>lg_complete := (lg_complete g0 \<and> length (lg_items g0) = length (qs_selects sc))\<rparr>"
    using g by (auto simp: scope_lineage_def bind_result_Inr_iff)
  note res = add_items_result[OF g0(1)] 
  have names: "distinct (map si_output (qs_selects sc))" "[] \<notin> set (map si_output (qs_selects sc))"
    using tidy by (simp_all add: tidy_scope_def)
  have out: "lg_outputs g = map_of (map (\<lambda>i. (si_output i, item i)) (qs_selects sc))"
    "lg_items g = map (lineage_item cols (lineage_sources tabs outputs sc) sc) (qs_selects sc)"
    "lg_complete g = (\<forall>i \<in> set (qs_selects sc). snd (item i))"
    using res[OF names] by (auto simp: g0(2) item_def)
  show "lg_items g = map (lineage_item cols (lineage_sources tabs outputs sc) sc) (qs_selects sc)"
    "lg_complete g = (\<forall>i \<in> set (qs_selects sc). snd (item i))" by (fact out)+
  have own: "lg_outputs g (si_output i) = Some (item i)" if "i \<in> set (qs_selects sc)" for i
    using that names(1) unfolding out(1) by (intro map_of_is_SomeI) (auto simp: comp_def)
  show "renamed_outputs sc g = map_of (zip (output_names sc) (map item (qs_selects sc)))"
  proof (cases "qs_outer_columns sc = []")
    case True
    then show ?thesis by (simp add: renamed_outputs_def output_names_def out(1) zip_map_map zip_same_conv_map comp_def)
  next
    case False
    then have outer: "distinct (qs_outer_columns sc)" "length (qs_outer_columns sc) = length (qs_selects sc)"
      using tidy by (auto simp: tidy_scope_def)
    have "map (\<lambda>(n, it). (n, the (lg_outputs g (ocl_output_name it)))) (zip (qs_outer_columns sc) (lg_items g))
        = zip (qs_outer_columns sc) (map item (qs_selects sc))"
      using outer(2) own by (auto simp: out(2) zip_map2 lineage_item_def dest!: set_zip_rightD)
    moreover have "map_of (rev (zip (qs_outer_columns sc) (map item (qs_selects sc))))
        = map_of (zip (qs_outer_columns sc) (map item (qs_selects sc)))"
      using outer by (intro map_of_rev) simp
    ultimately show ?thesis
      using False outer(2) by (simp add: renamed_outputs_def output_names_def out(2))
  qed
qed

lemma tidy_names:
  assumes "tidy_scope tabs cols scs sc"
  shows "distinct (output_names sc)" "length (output_names sc) = length (qs_selects sc)"
  using assms by (auto simp: tidy_scope_def output_names_def)

lemma renamed_outputs_known:
  assumes known: "outputs_known tabs cols scs seen outputs" "set seen \<subseteq> set scs" "distinct (map qs_id scs)"
    and tidy: "tidy_scope tabs cols scs sc" and sel: "qs_is_select sc"
    and g: "scope_lineage tabs cols outputs sc = Inr g" and v: "renamed_outputs sc g n = Some v"
  shows "n \<in> set (output_names sc) \<and> (snd v \<longrightarrow> set (fst v) = {b. output_reads tabs cols scs sc n b})"
proof -
  let ?item = "item_lineage cols (lineage_sources tabs outputs sc) sc"
  obtain i where i: "(n, i) \<in> set (zip (output_names sc) (qs_selects sc))" "v = ?item i"
    "\<forall>j. (n, j) \<in> set (zip (output_names sc) (qs_selects sc)) \<longrightarrow> j = i"
    using map_of_zip_select[OF v[unfolded scope_lineage_result(3)[OF tidy g]] tidy_names[OF tidy]] by blast
  have mem: "i \<in> set (qs_selects sc)" using i(1) by (rule set_zip_rightD)
  have "set (fst v) = {b. output_reads tabs cols scs sc n b}" if "snd v"
  proof (rule set_eqI)
    fix b
    have "b \<in> set (fst v) \<longleftrightarrow> (\<exists>c a s. c \<in> set (item_columns sc i) \<and> (a, s) \<in> set (qs_selected_sources sc)
         \<and> (cn_table c = a \<or> cn_table c = []) \<and> source_reads tabs cols scs s (cn_name c) b)"
      using item_lineage_reads[OF known tidy mem] that by (simp add: i(2))
    then show "b \<in> set (fst v) \<longleftrightarrow> b \<in> {b. output_reads tabs cols scs sc n b}"
      unfolding mem_Collect_eq output_reads_iff using i(1,3) sel by metis
  qed
  then show ?thesis using set_zip_leftD[OF i(1)] by simp
qed

lemma outputs_known_step:
  assumes known: "outputs_known tabs cols scs seen outputs"
    and fresh: "qs_id sc \<notin> qs_id ` set seen"
    and new: "\<And>n v. m n = Some v \<Longrightarrow> n \<in> set (output_names sc)
        \<and> (snd v \<longrightarrow> set (fst v) = {b. output_reads tabs cols scs sc n b})"
  shows "outputs_known tabs cols scs (seen @ [sc]) (outputs(qs_id sc \<mapsto> m))"
  unfolding outputs_known_def
proof (intro conjI allI impI ballI)
  fix i assume "i \<notin> qs_id ` set (seen @ [sc])"
  then show "(outputs(qs_id sc \<mapsto> m)) i = None" using known by (auto simp: outputs_known_def)
next
  fix x assume x: "x \<in> set (seen @ [sc])"
  show "\<exists>m'. (outputs(qs_id sc \<mapsto> m)) (qs_id x) = Some m' \<and> (\<forall>n v. m' n = Some v \<longrightarrow>
      n \<in> set (output_names x) \<and> (snd v \<longrightarrow> set (fst v) = {b. output_reads tabs cols scs x n b}))"
  proof (cases "x \<in> set seen")
    case True
    then have "qs_id x \<noteq> qs_id sc" using fresh by (metis imageI)
    then show ?thesis using known True by (simp add: outputs_known_def)
  next
    case False
    then show ?thesis using x new by auto
  qed
qed

lemma output_lineage_of_exact:
  assumes "output_lineage_of tabs cols rest outputs = Inr (lineage, True)"
    and "outputs_known tabs cols scs seen outputs" "scs = seen @ rest"
    and "distinct (map qs_id scs)" "\<forall>sc \<in> set scs. tidy_scope tabs cols scs sc" "qs_outer_columns (last scs) = []"
  shows "rest \<noteq> [] \<and> map ocl_output_name lineage = map si_output (qs_selects (last scs))
    \<and> (\<forall>l \<in> set lineage. set (ocl_source_columns l) = {b. output_reads tabs cols scs (last scs) (ocl_output_name l) b})"
  using assms(1-3)
proof (induction rest arbitrary: seen outputs)
  case (Cons sc rest)
  have sub: "set seen \<subseteq> set scs" and fresh: "qs_id sc \<notin> qs_id ` set seen"
    using Cons.prems(3) assms(4) by auto
  have tidy: "tidy_scope tabs cols scs sc" using Cons.prems(3) assms(5) by simp
  note known = Cons.prems(2) sub assms(4)
  have step: ?case if rest: "rest \<noteq> []"
    and run: "output_lineage_of tabs cols rest (outputs(qs_id sc \<mapsto> m)) = Inr (lineage, True)"
    and new: "\<And>n v. m n = Some v \<Longrightarrow> n \<in> set (output_names sc)
        \<and> (snd v \<longrightarrow> set (fst v) = {b. output_reads tabs cols scs sc n b})" for m
    using Cons.IH[OF run outputs_known_step[OF Cons.prems(2) fresh new]] Cons.prems(3) by simp
  show ?case
  proof (cases "qs_is_select sc")
    case False
    then show ?thesis using Cons.prems(1) step[of Map.empty] by (auto split: if_splits)
  next
    case sel: True
    obtain g where g: "scope_lineage tabs cols outputs sc = Inr g"
      using Cons.prems(1) sel by (auto simp: bind_result_Inr_iff)
    show ?thesis
    proof (cases "rest = []")
      case False
      then show ?thesis
        using Cons.prems(1) sel g step[of "renamed_outputs sc g"] renamed_outputs_known[OF known tidy sel g]
        by simp
    next
      case True
      let ?item = "item_lineage cols (lineage_sources tabs outputs sc) sc"
      have root: "last scs = sc" "lineage = lg_items g" "lg_complete g"
        using Cons.prems(1,3) sel g True by simp_all
      have names: "output_names sc = map si_output (qs_selects sc)"
        using assms(6) by (simp add: root(1) output_names_def)
      note items = scope_lineage_result[OF tidy g]
      have "set (fst (?item i)) = {b. output_reads tabs cols scs sc (si_output i) b}" if i: "i \<in> set (qs_selects sc)" for i
      proof -
        have "zip (output_names sc) (map ?item (qs_selects sc)) = map (\<lambda>i. (si_output i, ?item i)) (qs_selects sc)"
          by (simp add: names zip_map_map zip_same_conv_map)
        then have "map_of (zip (output_names sc) (map ?item (qs_selects sc))) (si_output i) = Some (?item i)"
          using i tidy_names(1)[OF tidy] unfolding names
          by (intro map_of_is_SomeI) (auto simp: comp_def)
        then show ?thesis
          using renamed_outputs_known[OF known tidy sel g, of "si_output i" "?item i"] items(2,3) root(3) i
          by simp
      qed
      then show ?thesis
        unfolding root(1,2) items(1) by (auto simp: lineage_item_def)
    qed
  qed
qed simp

lemma output_reads_allowed: "output_reads tabs cols scs sc n b \<Longrightarrow> b \<in> set cols"
  by (induction rule: output_reads.induct) (auto dest: column_allowed_mem)


end
