(* ===== verification/Validated_Execution.thy ===== *)
theory Validated_Execution
  imports Validator_Lineage Execution_Examples
begin

text \<open>
  The SQL validator behind the execution service: what \<open>execute\<close> sends to a plain data source is
  the rendering of a statement that stays within the tables and columns stored with the
  request; and a sample statement (a join with a derived table, limited to a percentage) on
  which the properties of the validator are applied.
\<close>

section \<open>What is executed was validated\<close>

lemma validate_with_accepts:
  assumes "validate_with lib validators p tabs cols n = Inr v" "vr_normalized_sql v = Some sql"
  shows "\<exists>cap. map_of validators (casefold (sp_dialect p)) = Some cap \<and> validate_sql lib cap p tabs cols n = Inr v"
  using assms by (auto simp: validate_with_def rejected_def split: option.splits)

text \<open>The proposal \<open>_revalidate\<close> builds from a stored request.\<close>

abbreviation stored_proposal :: "query_request \<Rightarrow> string \<Rightarrow> string \<Rightarrow> sql_proposal" where
  "stored_proposal r q dialect \<equiv> \<lparr>sp_intent = ''data_query'', sp_sql = q, sp_dialect = dialect,
        sp_tables = qr_referenced_tables r, sp_columns = qr_referenced_columns r,
        sp_parameters = qr_parameter_definitions r, sp_ambiguities = [], sp_needs_clarification = False\<rparr>"

lemma revalidate_accepts:
  assumes "revalidate sv r dialect = Inr sql"
  obtains q where "qr_normalized_sql r = Some q"
    "vr_accepted (sv_validate sv (stored_proposal r q dialect)
        (qr_referenced_tables r) (qr_referenced_columns r) (sv_max_rows sv))"
    "vr_normalized_sql (sv_validate sv (stored_proposal r q dialect)
        (qr_referenced_tables r) (qr_referenced_columns r) (sv_max_rows sv)) = Some sql"
  using assms by (auto simp: revalidate_def Let_def split: option.splits if_splits)


section \<open>A sample statement\<close>

text \<open>
  \<open>SELECT u.name AS k, d.m AS m FROM s.u AS u, (SELECT ssn AS m FROM u) AS d\<close>, with the limit
  \<open>FETCH FIRST 100 PERCENT ROWS ONLY\<close>.
\<close>

definition preview_column :: "nat \<Rightarrow> string \<Rightarrow> string \<Rightarrow> column_node" where
  "preview_column i table name =
     \<lparr>cn_id = i, cn_is_star = False, cn_catalog = [], cn_db = [], cn_table = table, cn_name = name,
      cn_sql = name\<rparr>"

definition preview_table :: "nat \<Rightarrow> string \<Rightarrow> string \<Rightarrow> table_node" where
  "preview_table i db alias =
     \<lparr>tn_id = i, tn_catalog = [], tn_db = db, tn_name = ''u'', tn_alias = alias, tn_sql = ''u''\<rparr>"

definition preview_scopes :: "string \<Rightarrow> query_scope list" where
  "preview_scopes inner =
     [\<lparr>qs_id = 1, qs_is_select = True, qs_selected_sources = [(''u'', Physical (preview_table 1 [] []))],
       qs_columns = [preview_column 11 inner ''ssn''], qs_outer_columns = [], qs_ancestors = [[''u'', ''d'']],
       qs_can_be_correlated = False,
       qs_selects = [\<lparr>si_output = ''m'', si_named = True, si_columns = [preview_column 11 inner ''ssn'']\<rparr>]\<rparr>,
      \<lparr>qs_id = 2, qs_is_select = True,
       qs_selected_sources = [(''u'', Physical (preview_table 2 ''s'' ''u'')), (''d'', Derived 1 [] [''m''])],
       qs_columns = [preview_column 21 ''u'' ''name'', preview_column 22 ''d'' ''m''], qs_outer_columns = [],
       qs_ancestors = [], qs_can_be_correlated = False,
       qs_selects = [\<lparr>si_output = ''k'', si_named = True, si_columns = [preview_column 21 ''u'' ''name'']\<rparr>,
                     \<lparr>si_output = ''m'', si_named = True, si_columns = [preview_column 22 ''d'' ''m'']\<rparr>]\<rparr>]"

definition preview_limit :: limit_node where
  "preview_limit = \<lparr>ln_count = Some 100, ln_percent = True, ln_with_ties = False\<rparr>"

definition preview_statement :: raw_statement where
  "preview_statement =
     \<lparr>rw_identifiers = [\<lparr>id_name = ''U'', id_quoted = False\<rparr>],
      rw_view = (\<lambda>_. \<lparr>st_classes = [''Select'', ''Query''],
        st_nodes = [\<lparr>sn_classes = [''Select'', ''Query''], sn_name = [], sn_parents = []\<rparr>],
        st_scopes = Inr (preview_scopes []), st_bound_scopes = (\<lambda>_. Inr (preview_scopes ''u'')),
        st_limit = Some preview_limit\<rparr>)\<rparr>"

definition preview_lib :: sql_library where
  "preview_lib = \<lparr>sl_parse = (\<lambda>_ _. Inr [Some preview_statement]), 
      sl_render = (\<lambda>_ _ _ limit. if (case limit of Some l \<Rightarrow> ln_percent l | None \<Rightarrow> False)
        then ''FETCH FIRST 100 PERCENT ROWS ONLY'' else ''LIMIT'')\<rparr>"

definition default_validators :: dialect_registry where
  "default_validators = projr (register_validators [] DEFAULT_CAPABILITIES)"

definition preview_proposal :: sql_proposal where
  "preview_proposal = \<lparr>sp_intent = ''data_query'', sp_sql = ''q'', sp_dialect = ''postgres'', sp_tables = [''s.u''],
     sp_columns = [''s.u.name'', ''s.u.ssn''], sp_parameters = [], sp_ambiguities = [],
     sp_needs_clarification = False\<rparr>"

abbreviation "preview_validation \<equiv>
  validate_sql preview_lib POSTGRESQL_CAPABILITIES preview_proposal [''s.u''] [''s.u.name'', ''s.u.ssn''] 500"

lemma preview_accepted: "is_ok preview_validation" "vr_normalized_sql (projr preview_validation) = Some ''FETCH FIRST 100 PERCENT ROWS ONLY''"
  by code_simp+




section \<open>The lineage of the sample\<close>

lemma preview_lineage:
  "resolve_output_lineage (preview_scopes ''u'') [''s.u''] [''s.u.name'', ''s.u.ssn'']
   = Inr ([\<lparr>ocl_output_name = ''k'', ocl_source_columns = [''s.u.name'']\<rparr>,
          \<lparr>ocl_output_name = ''m'', ocl_source_columns = [''s.u.ssn'']\<rparr>], True)"
  by code_simp

lemma preview_tidy: "tidy_scopes [''s.u''] [''s.u.name'', ''s.u.ssn''] (preview_scopes ''u'')"
  by (simp add: tidy_scopes_def tidy_scope_def preview_scopes_def item_columns_def preview_column_def)


section \<open>An execution behind the validator\<close>

definition validating_service :: execution_service where
  "validating_service = sample_service
     \<lparr>sv_validate := (\<lambda>p tabs cols n. case validate_with preview_lib default_validators p tabs cols n of
        Inr v \<Rightarrow> v | Inl _ \<Rightarrow> rejected (sp_dialect p) (blocking_issue [] []))\<rparr>"

definition validated_run :: "(execution_error + query_execution_run) \<times> world" where
  "validated_run = executeA validating_service ''t'' ''d'' ''r'' [] (sample_world approved_request)"

definition validated_query :: database_call where
  "validated_query = Execute_Call sample_source ''r'' ''FETCH FIRST 100 PERCENT ROWS ONLY'' []
     (w_store (snd (claim_executionA ''t'' ''r'' approved_request
        ((sample_world approved_request)\<lparr>w_step := 5\<rparr>))))"

lemma validating_service_wired:
  "vr_accepted (sv_validate validating_service p tabs cols n) \<Longrightarrow>
     validate_with preview_lib default_validators p tabs cols n = Inr (sv_validate validating_service p tabs cols n)"
  by (auto simp: validating_service_def vr_accepted_def rejected_def blocking_issue_def split: sum.splits)

lemma validated_query_sent:
  "executions (snd validated_run) = executions (sample_world approved_request) @ [validated_query]"
  by code_simp


end
