(* ===== verification/Learning_Store.thy ===== *)
theory Learning_Store
  imports Query_Store
begin

text \<open>
  The learning tables of \<open>catalog/repository.py\<close>: corrected SQL examples with their revisions,
  final feedback on query requests, golden evaluation candidates and their reviews.  The rows
  are immutable; the constraints and unique indexes of \<open>sqlite_schema.sql\<close> are checked at the
  insert.  What other replicas commit between the reads of an operation and its transaction is
  an argument \<open>mid\<close>.
\<close>

section \<open>Entities\<close>

datatype query_feedback_outcome = FB_Accepted | FB_Rejected | FB_Corrected

datatype golden_candidate_status = GC_Proposed | GC_Approved | GC_Rejected

record corrected_sql_example =
  ex_tenant_id :: string
  ex_data_source_id :: string
  ex_catalog_version_id :: string
  ex_question :: string
  ex_normalized_question :: string
  ex_sql_text :: string
  ex_normalized_sql :: string
  ex_referenced_tables :: "string list"
  ex_referenced_columns :: "string list"
  ex_actor_id :: string
  ex_revision :: int
  ex_content_classification :: classification
  ex_business_concepts :: "string list"
  ex_assumptions :: "string list"
  ex_reason :: "string option"
  ex_source_query_request_id :: "string option"
  ex_supersedes_example_id :: "string option"
  ex_id :: string
  ex_created_at :: timestamp

record query_feedback_event =
  fe_tenant_id :: string
  fe_data_source_id :: string
  fe_query_request_id :: string
  fe_outcome :: query_feedback_outcome
  fe_actor_id :: string
  fe_reason :: "string option"
  fe_corrected_sql_example_id :: "string option"
  fe_id :: string
  fe_created_at :: timestamp

record golden_evaluation_candidate =
  gc_tenant_id :: string
  gc_data_source_id :: string
  gc_catalog_version_id :: string
  gc_corrected_sql_example_id :: string
  gc_source_query_request_id :: string
  gc_question :: string
  gc_normalized_sql :: string
  gc_referenced_tables :: "string list"
  gc_referenced_columns :: "string list"
  gc_business_concepts :: "string list"
  gc_assumptions :: "string list"
  gc_content_classification :: classification
  gc_id :: string
  gc_created_at :: timestamp

record golden_candidate_review =
  gr_tenant_id :: string
  gr_candidate_id :: string
  gr_status :: golden_candidate_status
  gr_actor_id :: string
  gr_reason :: "string option"
  gr_id :: string
  gr_created_at :: timestamp

datatype learning_model_error =
    LM_Required | LM_Question_Length | LM_Sql_Length | LM_No_Table | LM_Blank_Item | LM_Duplicate_Item
  | LM_Revision | LM_Predecessor | LM_Blank_Optional | LM_Feedback_Link | LM_Decision

definition blank_option :: "string option \<Rightarrow> bool" where
  "blank_option v = (case v of None \<Rightarrow> False | Some x \<Rightarrow> blank x)"

definition corrected_sql_example_post_init :: "corrected_sql_example \<Rightarrow> learning_model_error + unit" where
  "corrected_sql_example_post_init e =
     (let lists = [ex_referenced_tables e, ex_referenced_columns e, ex_business_concepts e, ex_assumptions e]
      in first_raise
        [(\<exists>v \<in> {ex_tenant_id e, ex_data_source_id e, ex_catalog_version_id e, ex_question e,
                ex_normalized_question e, ex_sql_text e, ex_normalized_sql e, ex_actor_id e}. blank v, LM_Required),
         (length (ex_question e) > 10000, LM_Question_Length),
         (length (ex_sql_text e) > 200000 \<or> length (ex_normalized_sql e) > 200000, LM_Sql_Length),
         (ex_referenced_tables e = [], LM_No_Table),
         (\<exists>xs \<in> set lists. \<exists>x \<in> set xs. blank x, LM_Blank_Item),
         (\<exists>xs \<in> set lists. has_duplicates xs, LM_Duplicate_Item),
         (ex_revision e < 1, LM_Revision),
         ((ex_revision e = 1) \<noteq> (ex_supersedes_example_id e = None), LM_Predecessor),
         (\<exists>v \<in> {ex_reason e, ex_source_query_request_id e, ex_supersedes_example_id e}. blank_option v,
            LM_Blank_Optional)])"

definition query_feedback_event_post_init :: "query_feedback_event \<Rightarrow> learning_model_error + unit" where
  "query_feedback_event_post_init f = first_raise
     [(\<exists>v \<in> {fe_tenant_id f, fe_data_source_id f, fe_query_request_id f, fe_actor_id f}. blank v, LM_Required),
      ((fe_outcome f = FB_Corrected) \<noteq> (fe_corrected_sql_example_id f \<noteq> None), LM_Feedback_Link),
      (blank_option (fe_reason f), LM_Blank_Optional)]"

definition golden_evaluation_candidate_post_init ::
  "golden_evaluation_candidate \<Rightarrow> learning_model_error + unit" where
  "golden_evaluation_candidate_post_init c =
     (let lists = [gc_referenced_tables c, gc_referenced_columns c, gc_business_concepts c, gc_assumptions c]
      in first_raise
        [(\<exists>v \<in> {gc_tenant_id c, gc_data_source_id c, gc_catalog_version_id c, gc_corrected_sql_example_id c,
                gc_source_query_request_id c, gc_question c, gc_normalized_sql c}. blank v, LM_Required),
         (gc_referenced_tables c = [], LM_No_Table),
         (\<exists>xs \<in> set lists. \<exists>x \<in> set xs. blank x, LM_Blank_Item),
         (\<exists>xs \<in> set lists. has_duplicates xs, LM_Duplicate_Item)])"

definition golden_candidate_review_post_init :: "golden_candidate_review \<Rightarrow> learning_model_error + unit" where
  "golden_candidate_review_post_init r = first_raise
     [(\<exists>v \<in> {gr_tenant_id r, gr_candidate_id r, gr_actor_id r}. blank v, LM_Required),
      (gr_status r = GC_Proposed, LM_Decision),
      (blank_option (gr_reason r), LM_Blank_Optional)]"

section \<open>State\<close>

datatype learning_audit =
    Example_Recorded corrected_sql_example
  | Feedback_Recorded query_feedback_event
  | Candidate_Proposed golden_evaluation_candidate
  | Candidate_Reviewed golden_candidate_review

record learning_store =
  lt_query :: query_store
  lt_examples :: "corrected_sql_example list"
  lt_feedback :: "query_feedback_event list"
  lt_candidates :: "golden_evaluation_candidate list"
  lt_reviews :: "golden_candidate_review list"
  lt_audit :: "learning_audit list"

datatype learning_store_error =
    LS_Source_Missing | LS_Version_Missing | LS_Request_Missing | LS_Example_Conflict | LS_Governance_Conflict

text \<open>The foreign keys: rows of the same tenant.\<close>

definition source_row :: "learning_store \<Rightarrow> string \<Rightarrow> string \<Rightarrow> bool" where
  "source_row s t d = (get_data_source (lt_query s) t d \<noteq> None)"

definition version_row :: "learning_store \<Rightarrow> string \<Rightarrow> string \<Rightarrow> bool" where
  "version_row s t v = (\<exists>r \<in> set (qs_catalog_versions (lt_query s)). cv_tenant_id r = t \<and> cv_id r = v)"

definition request_row :: "learning_store \<Rightarrow> string \<Rightarrow> string \<Rightarrow> bool" where
  "request_row s t i = (get_query_request (lt_query s) t i \<noteq> None)"

definition example_row :: "learning_store \<Rightarrow> string \<Rightarrow> string \<Rightarrow> bool" where
  "example_row s t i = (\<exists>r \<in> set (lt_examples s). ex_tenant_id r = t \<and> ex_id r = i)"

definition append_learning_audit :: "learning_audit \<Rightarrow> learning_store \<Rightarrow> learning_store" where
  "append_learning_audit a s = s\<lparr>lt_audit := lt_audit s @ [a]\<rparr>"

section \<open>Corrected examples\<close>

text \<open>The predecessor of a revision: a row of the same source that nothing supersedes yet.\<close>

definition live_predecessor :: "learning_store \<Rightarrow> corrected_sql_example \<Rightarrow> string \<Rightarrow> corrected_sql_example option" where
  "live_predecessor s e p =
     fetch_one (\<lambda>x. ex_tenant_id x = ex_tenant_id e \<and> ex_data_source_id x = ex_data_source_id e \<and> ex_id x = p
        \<and> \<not> (\<exists>y \<in> set (lt_examples s). ex_tenant_id y = ex_tenant_id x
               \<and> ex_supersedes_example_id y = Some (ex_id x)))
       (lt_examples s)"

definition check_predecessor :: "learning_store \<Rightarrow> corrected_sql_example \<Rightarrow> learning_store_error + unit" where
  "check_predecessor s e =
     (case ex_supersedes_example_id e of
        None \<Rightarrow> Inr ()
      | Some p \<Rightarrow>
          (case live_predecessor s e p of
             None \<Rightarrow> Inl LS_Example_Conflict
           | Some x \<Rightarrow> raise_if (ex_normalized_question x \<noteq> ex_normalized_question e
                        \<or> ex_revision x + 1 \<noteq> ex_revision e) LS_Example_Conflict))"

definition check_example :: "learning_store \<Rightarrow> corrected_sql_example \<Rightarrow> learning_store_error + unit" where
  "check_example s e =
     bind_result (raise_if (\<not> source_row s (ex_tenant_id e) (ex_data_source_id e)) LS_Source_Missing) (\<lambda>_.
     bind_result (raise_if (\<not> (\<exists>v \<in> set (qs_catalog_versions (lt_query s)). cv_tenant_id v = ex_tenant_id e
          \<and> cv_id v = ex_catalog_version_id e \<and> cv_data_source_id v = ex_data_source_id e)) LS_Version_Missing) (\<lambda>_.
     bind_result (case ex_source_query_request_id e of
          None \<Rightarrow> Inr ()
        | Some i \<Rightarrow> raise_if (\<not> (\<exists>q \<in> set (qs_requests (lt_query s)). qr_tenant_id q = ex_tenant_id e
              \<and> qr_data_source_id q = ex_data_source_id e \<and> qr_id q = i)) LS_Request_Missing) (\<lambda>_.
       check_predecessor s e)))"

text \<open>The constraints of the table and its two partial unique indexes.\<close>

definition example_constraints :: "learning_store \<Rightarrow> corrected_sql_example \<Rightarrow> bool" where
  "example_constraints s e =
     (source_row s (ex_tenant_id e) (ex_data_source_id e) \<and> version_row s (ex_tenant_id e) (ex_catalog_version_id e)
      \<and> (\<forall>i \<in> set_option (ex_source_query_request_id e). request_row s (ex_tenant_id e) i)
      \<and> (\<forall>i \<in> set_option (ex_supersedes_example_id e). example_row s (ex_tenant_id e) i \<or> i = ex_id e)
      \<and> (ex_revision e = 1 \<and> ex_supersedes_example_id e = None
         \<or> ex_revision e > 1 \<and> ex_supersedes_example_id e \<noteq> None)
      \<and> (\<forall>x \<in> set (lt_examples s). ex_id x \<noteq> ex_id e)
      \<and> (ex_supersedes_example_id e = None \<longrightarrow>
          \<not> (\<exists>x \<in> set (lt_examples s). ex_tenant_id x = ex_tenant_id e \<and> ex_data_source_id x = ex_data_source_id e
               \<and> ex_normalized_question x = ex_normalized_question e \<and> ex_supersedes_example_id x = None))
      \<and> (ex_supersedes_example_id e \<noteq> None \<longrightarrow>
          \<not> (\<exists>x \<in> set (lt_examples s). ex_tenant_id x = ex_tenant_id e
               \<and> ex_supersedes_example_id x = ex_supersedes_example_id e)))"

definition create_corrected_sql_example ::
  "(learning_store \<Rightarrow> learning_store) \<Rightarrow> learning_store \<Rightarrow> corrected_sql_example
     \<Rightarrow> (learning_store_error + corrected_sql_example) \<times> learning_store" where
  "create_corrected_sql_example mid s e =
     (case check_example s e of
        Inl err \<Rightarrow> (Inl err, s)
      | Inr _ \<Rightarrow>
          (let s1 = mid s
           in if \<not> example_constraints s1 e then (Inl LS_Example_Conflict, s1)
              else (Inr e, append_learning_audit (Example_Recorded e) (s1\<lparr>lt_examples := lt_examples s1 @ [e]\<rparr>))))"

definition get_corrected_sql_example ::
  "learning_store \<Rightarrow> string \<Rightarrow> string \<Rightarrow> string \<Rightarrow> corrected_sql_example option" where
  "get_corrected_sql_example s t d i =
     fetch_one (\<lambda>x. ex_tenant_id x = t \<and> ex_data_source_id x = d \<and> ex_id x = i) (lt_examples s)"

definition list_corrected_sql_examples ::
  "learning_store \<Rightarrow> string \<Rightarrow> string \<Rightarrow> corrected_sql_example list" where
  "list_corrected_sql_examples s t d =
     sort_key (\<lambda>x. (ex_normalized_question x, ex_revision x, ex_created_at x, ex_id x))
       (filter (\<lambda>x. ex_tenant_id x = t \<and> ex_data_source_id x = d) (lt_examples s))"

section \<open>Feedback\<close>

definition feedback_constraints :: "learning_store \<Rightarrow> query_feedback_event \<Rightarrow> bool" where
  "feedback_constraints s f =
     (source_row s (fe_tenant_id f) (fe_data_source_id f) \<and> request_row s (fe_tenant_id f) (fe_query_request_id f)
      \<and> (\<forall>i \<in> set_option (fe_corrected_sql_example_id f). example_row s (fe_tenant_id f) i)
      \<and> (fe_outcome f = FB_Corrected) = (fe_corrected_sql_example_id f \<noteq> None)
      \<and> (\<forall>x \<in> set (lt_feedback s). fe_id x \<noteq> fe_id f
            \<and> \<not> (fe_tenant_id x = fe_tenant_id f \<and> fe_query_request_id x = fe_query_request_id f)))"

definition create_query_feedback_event ::
  "learning_store \<Rightarrow> query_feedback_event \<Rightarrow> (learning_store_error + query_feedback_event) \<times> learning_store" where
  "create_query_feedback_event s f =
     (if \<not> feedback_constraints s f then (Inl LS_Governance_Conflict, s)
      else (Inr f, append_learning_audit (Feedback_Recorded f) (s\<lparr>lt_feedback := lt_feedback s @ [f]\<rparr>)))"

definition get_query_feedback_event :: "learning_store \<Rightarrow> string \<Rightarrow> string \<Rightarrow> query_feedback_event option" where
  "get_query_feedback_event s t i =
     fetch_one (\<lambda>x. fe_tenant_id x = t \<and> fe_query_request_id x = i) (lt_feedback s)"

definition list_query_feedback_events :: "learning_store \<Rightarrow> string \<Rightarrow> string \<Rightarrow> query_feedback_event list" where
  "list_query_feedback_events s t d =
     sort_key (\<lambda>x. (fe_created_at x, fe_id x))
       (filter (\<lambda>x. fe_tenant_id x = t \<and> fe_data_source_id x = d) (lt_feedback s))"

section \<open>Golden candidates and their reviews\<close>

definition candidate_constraints :: "learning_store \<Rightarrow> golden_evaluation_candidate \<Rightarrow> bool" where
  "candidate_constraints s c =
     (source_row s (gc_tenant_id c) (gc_data_source_id c) \<and> version_row s (gc_tenant_id c) (gc_catalog_version_id c)
      \<and> example_row s (gc_tenant_id c) (gc_corrected_sql_example_id c)
      \<and> request_row s (gc_tenant_id c) (gc_source_query_request_id c)
      \<and> (\<forall>x \<in> set (lt_candidates s). gc_id x \<noteq> gc_id c
            \<and> \<not> (gc_tenant_id x = gc_tenant_id c
                 \<and> gc_corrected_sql_example_id x = gc_corrected_sql_example_id c)))"

definition create_golden_evaluation_candidate ::
  "learning_store \<Rightarrow> golden_evaluation_candidate
     \<Rightarrow> (learning_store_error + golden_evaluation_candidate) \<times> learning_store" where
  "create_golden_evaluation_candidate s c =
     (if \<not> candidate_constraints s c then (Inl LS_Governance_Conflict, s)
      else (Inr c, append_learning_audit (Candidate_Proposed c) (s\<lparr>lt_candidates := lt_candidates s @ [c]\<rparr>)))"

definition get_golden_evaluation_candidate ::
  "learning_store \<Rightarrow> string \<Rightarrow> string \<Rightarrow> golden_evaluation_candidate option" where
  "get_golden_evaluation_candidate s t i = fetch_one (\<lambda>x. gc_tenant_id x = t \<and> gc_id x = i) (lt_candidates s)"

definition list_golden_evaluation_candidates ::
  "learning_store \<Rightarrow> string \<Rightarrow> string \<Rightarrow> golden_evaluation_candidate list" where
  "list_golden_evaluation_candidates s t d =
     sort_key (\<lambda>x. (gc_created_at x, gc_id x))
       (filter (\<lambda>x. gc_tenant_id x = t \<and> gc_data_source_id x = d) (lt_candidates s))"

definition review_constraints :: "learning_store \<Rightarrow> golden_candidate_review \<Rightarrow> bool" where
  "review_constraints s r =
     ((\<exists>c \<in> set (lt_candidates s). gc_tenant_id c = gr_tenant_id r \<and> gc_id c = gr_candidate_id r)
      \<and> gr_status r \<noteq> GC_Proposed
      \<and> (\<forall>x \<in> set (lt_reviews s). gr_id x \<noteq> gr_id r
            \<and> \<not> (gr_tenant_id x = gr_tenant_id r \<and> gr_candidate_id x = gr_candidate_id r)))"

definition create_golden_candidate_review ::
  "learning_store \<Rightarrow> golden_candidate_review \<Rightarrow> (learning_store_error + golden_candidate_review) \<times> learning_store" where
  "create_golden_candidate_review s r =
     (if \<not> review_constraints s r then (Inl LS_Governance_Conflict, s)
      else (Inr r, append_learning_audit (Candidate_Reviewed r) (s\<lparr>lt_reviews := lt_reviews s @ [r]\<rparr>)))"

definition get_golden_candidate_review :: "learning_store \<Rightarrow> string \<Rightarrow> string \<Rightarrow> golden_candidate_review option" where
  "get_golden_candidate_review s t i =
     fetch_one (\<lambda>x. gr_tenant_id x = t \<and> gr_candidate_id x = i) (lt_reviews s)"

text \<open>The join of the reviews with the candidates of the source.\<close>

definition list_golden_candidate_reviews ::
  "learning_store \<Rightarrow> string \<Rightarrow> string \<Rightarrow> golden_candidate_review list" where
  "list_golden_candidate_reviews s t d =
     sort_key (\<lambda>x. (gr_created_at x, gr_id x))
       (filter (\<lambda>x. gr_tenant_id x = t \<and> (\<exists>c \<in> set (lt_candidates s). gc_tenant_id c = gr_tenant_id x
            \<and> gc_id c = gr_candidate_id x \<and> gc_data_source_id c = d)) (lt_reviews s))"

end
