(* ===== verification/Learning_Service.thy ===== *)
theory Learning_Service
  imports Learning_Store Search_Text Contracts
begin

text \<open>
  The learning loop, \<open>learning/service.py\<close> and \<open>learning/governance.py\<close>: corrected SQL is
  validated against the latest catalog and stored as the next revision for its question,
  retrieved for similar questions, and promoted to a golden candidate when feedback on a query
  request vouches for it.  A \<open>float\<close> score is a rational number.  What other replicas commit
  before the last transaction of an operation is an argument \<open>mid\<close>.
\<close>

section \<open>Questions\<close>

text \<open>\<open>re.sub(r"(?<=[a-z0-9])(?=[A-Z])", " ", s)\<close>.\<close>

fun camel_split :: "string \<Rightarrow> string" where
  "camel_split (c # d # cs) =
     (if (CHR ''a'' \<le> c \<and> c \<le> CHR ''z'' \<or> CHR ''0'' \<le> c \<and> c \<le> CHR ''9'') \<and> CHR ''A'' \<le> d \<and> d \<le> CHR ''Z''
      then c # CHR '' '' # camel_split (d # cs) else c # camel_split (d # cs))"
| "camel_split cs = cs"

definition STOP_WORDS :: "string list" where
  "STOP_WORDS =
     [''a'', ''and'', ''con'', ''da'', ''dei'', ''del'', ''della'', ''dimmi'', ''di'', ''e'', ''for'', ''gli'', ''i'', ''il'',
      ''in'', ''la'', ''le'', ''mostra'', ''of'', ''per'', ''qual'', ''quale'', ''quali'', ''quanta'', ''quante'',
      ''quanti'', ''quanto'', ''show'', ''the'', ''un'', ''una'']"

definition question_tokens :: "string \<Rightarrow> string list" where
  "question_tokens value =
     filter (\<lambda>w. w \<notin> set STOP_WORDS) (word_tokens (casefold (camel_split (without_accents value))))"

definition normalize_question :: "string \<Rightarrow> string" where
  "normalize_question value = py_join '' '' (question_tokens value)"

text \<open>\<open>str.split()\<close>.\<close>

fun space_runs :: "string \<Rightarrow> string \<Rightarrow> string list" where
  "space_runs acc [] = (if acc = [] then [] else [rev acc])"
| "space_runs acc (c # cs) =
     (if \<not> py_isspace c then space_runs (c # acc) cs
      else if acc = [] then space_runs [] cs
      else rev acc # space_runs [] cs)"

definition py_split :: "string \<Rightarrow> string list" where
  "py_split s = space_runs [] s"

definition jaccard :: "string list \<Rightarrow> string list \<Rightarrow> rat" where
  "jaccard l r =
     (if l @ r = [] then 0
      else of_nat (length (filter (\<lambda>x. x \<in> set r) (remdups l))) / of_nat (length (remdups (l @ r))))"

section \<open>The service\<close>

record learning_loop =
  ll_validate :: "sql_proposal \<Rightarrow> string list \<Rightarrow> string list \<Rightarrow> int \<Rightarrow> validation_result"
  ll_max_preview_rows :: int
  ll_minimum_score :: rat

datatype learning_error =
    LE_Preview_Rows | LE_Minimum_Score | LE_Source_Missing | LE_Not_Ingested | LE_No_Terms | LE_Request_Missing
  | LE_Active_Exists | LE_Stale_Predecessor | LE_Other_Question | LE_Proposal | LE_Rejected validation_result
  | LE_Model learning_model_error | LE_Concurrency | LE_Store learning_store_error | LE_Max_Results
  | LE_Feedback_Link | LE_Feedback_State query_request_state | LE_Feedback_Origin | LE_Feedback_Conflict
  | LE_No_Source_Request | LE_No_Feedback | LE_Incompatible "string list" "string list"
  | LE_Candidate_Conflict | LE_Candidate_Missing

definition learning_loop_init :: "learning_loop \<Rightarrow> learning_error + unit" where
  "learning_loop_init l = first_raise
     [(\<not> (1 \<le> ll_max_preview_rows l \<and> ll_max_preview_rows l \<le> 10000), LE_Preview_Rows),
      (\<not> (0 < ll_minimum_score l \<and> ll_minimum_score l \<le> 1), LE_Minimum_Score)]"

definition require_learning_source :: "learning_store \<Rightarrow> string \<Rightarrow> string \<Rightarrow> learning_error + data_source" where
  "require_learning_source s t d =
     (case get_data_source (lt_query s) t d of None \<Rightarrow> Inl LE_Source_Missing | Some x \<Rightarrow> Inr x)"

text \<open>The tables and columns of a version; the join of the columns finds each under its object.\<close>

definition catalog_tables :: "learning_store \<Rightarrow> string \<Rightarrow> string \<Rightarrow> string list" where
  "catalog_tables s t v = map so_reference (list_schema_objects (lt_query s) t v)"

definition catalog_columns :: "learning_store \<Rightarrow> string \<Rightarrow> string \<Rightarrow> string list" where
  "catalog_columns s t v =
     concat (map (\<lambda>so. map (\<lambda>c. so_reference so @ ''.'' @ cd_name c)
         (filter (\<lambda>c. cd_tenant_id c = t \<and> cd_schema_object_id c = so_id so) (qs_columns (lt_query s))))
       (list_schema_objects (lt_query s) t v))"

definition current_context ::
  "learning_store \<Rightarrow> string \<Rightarrow> string \<Rightarrow> learning_error + (data_source \<times> catalog_version \<times> string list \<times> string list)" where
  "current_context s t d =
     bind_result (require_learning_source s t d) (\<lambda>src.
       case get_latest_catalog_version (lt_query s) t d of
         None \<Rightarrow> Inl LE_Not_Ingested
       | Some v \<Rightarrow> Inr (src, v, catalog_tables s t (cv_id v), catalog_columns s t (cv_id v)))"

record example_entry =
  ee_example :: corrected_sql_example
  ee_is_active :: bool

definition list_examples ::
  "learning_store \<Rightarrow> string \<Rightarrow> string \<Rightarrow> bool \<Rightarrow> learning_error + example_entry list" where
  "list_examples s t d include_superseded =
     bind_result (require_learning_source s t d) (\<lambda>_.
       let examples = list_corrected_sql_examples s t d;
           superseded = map ex_supersedes_example_id examples;
           entries = map (\<lambda>e. \<lparr>ee_example = e, ee_is_active = (Some (ex_id e) \<notin> set superseded)\<rparr>) examples
       in Inr (if include_superseded then entries else filter ee_is_active entries))"

section \<open>Corrections\<close>

record correction_input =
  co_question :: string
  co_corrected_sql :: string
  co_actor_id :: string
  co_content_classification :: classification
  co_business_concepts :: "string list"
  co_assumptions :: "string list"
  co_reason :: "string option"
  co_source_query_request_id :: "string option"
  co_supersedes_example_id :: "string option"

text \<open>A proposal for the validator; \<open>SQLProposal.__post_init__\<close> refuses blank texts.\<close>

definition learning_proposal :: "string \<Rightarrow> string \<Rightarrow> string list \<Rightarrow> string list \<Rightarrow> learning_error + sql_proposal" where
  "learning_proposal sql dialect tables columns =
     (if blank dialect \<or> blank sql then Inl LE_Proposal
      else Inr \<lparr>sp_intent = ''data_query'', sp_sql = sql, sp_dialect = dialect, sp_tables = tables,
                sp_columns = columns, sp_parameters = [], sp_ambiguities = [], sp_needs_clarification = False\<rparr>)"

definition no_table_result :: "validation_result \<Rightarrow> validation_result" where
  "no_table_result v =
     \<lparr>vr_dialect = vr_dialect v, vr_normalized_sql = None,
      vr_issues = [\<lparr>vi_code = ''corrected_sql_no_table'',
                    vi_message = ''Corrected SQL must reference at least one catalog table'', vi_blocking = True\<rparr>],
      vr_referenced_tables = vr_referenced_tables v, vr_referenced_columns = vr_referenced_columns v,
      vr_output_lineage = [], vr_output_lineage_complete = False\<rparr>"

definition validate_corrected_sql ::
  "learning_loop \<Rightarrow> string \<Rightarrow> string \<Rightarrow> string list \<Rightarrow> string list \<Rightarrow> learning_error + validation_result" where
  "validate_corrected_sql l sql dialect tables columns =
     bind_result (learning_proposal sql dialect [] []) (\<lambda>p.
     let probe = ll_validate l p tables columns (ll_max_preview_rows l)
     in bind_result (learning_proposal sql dialect (vr_referenced_tables probe) (vr_referenced_columns probe)) (\<lambda>p2.
     let v = ll_validate l p2 tables columns (ll_max_preview_rows l)
     in if \<not> vr_accepted v \<or> vr_normalized_sql v = None then Inl (LE_Rejected v)
        else if vr_referenced_tables v = [] then Inl (LE_Rejected (no_table_result v))
        else Inr v))"

text \<open>The revision of a correction: the first for its question, or the next of its predecessor.\<close>

definition next_revision :: "example_entry list \<Rightarrow> string \<Rightarrow> string option \<Rightarrow> learning_error + int" where
  "next_revision entries question supersedes =
     (let active = map ee_example (filter ee_is_active entries)
      in case supersedes of
           None \<Rightarrow> if \<exists>e \<in> set active. ex_normalized_question e = question then Inl LE_Active_Exists else Inr 1
         | Some p \<Rightarrow>
             (case find (\<lambda>e. ex_id e = p) (rev active) of
                None \<Rightarrow> Inl LE_Stale_Predecessor
              | Some e \<Rightarrow> if ex_normalized_question e \<noteq> question then Inl LE_Other_Question
                          else Inr (ex_revision e + 1)))"

definition require_source_request ::
  "learning_store \<Rightarrow> string \<Rightarrow> string \<Rightarrow> string option \<Rightarrow> learning_error + unit" where
  "require_source_request s t d request =
     (case request of
        None \<Rightarrow> Inr ()
      | Some i \<Rightarrow> (case get_query_request (lt_query s) t i of
                     None \<Rightarrow> Inl LE_Request_Missing
                   | Some q \<Rightarrow> raise_if (qr_data_source_id q \<noteq> d) LE_Request_Missing))"

definition corrected_example ::
  "learning_loop \<Rightarrow> learning_store \<Rightarrow> string \<Rightarrow> string \<Rightarrow> correction_input \<Rightarrow> string \<Rightarrow> timestamp
     \<Rightarrow> learning_error + corrected_sql_example" where
  "corrected_example l s t d x i created =
     bind_result (current_context s t d) (\<lambda>(src, v, tables, columns).
     let question = strip (co_question x); normalized = normalize_question question
     in bind_result (raise_if (normalized = []) LE_No_Terms) (\<lambda>_.
     bind_result (require_source_request s t d (co_source_query_request_id x)) (\<lambda>_.
     bind_result (list_examples s t d True) (\<lambda>entries.
     bind_result (next_revision entries normalized (co_supersedes_example_id x)) (\<lambda>revision.
     bind_result (validate_corrected_sql l (strip (co_corrected_sql x)) (ds_dialect src) tables columns) (\<lambda>w.
     case vr_normalized_sql w of
       None \<Rightarrow> Inl (LE_Rejected w)
     | Some sql \<Rightarrow>
         (let e = \<lparr>ex_tenant_id = t, ex_data_source_id = d, ex_catalog_version_id = cv_id v,
                   ex_question = question, ex_normalized_question = normalized,
                   ex_sql_text = strip (co_corrected_sql x), ex_normalized_sql = sql,
                   ex_referenced_tables = vr_referenced_tables w, ex_referenced_columns = vr_referenced_columns w,
                   ex_actor_id = strip (co_actor_id x), ex_revision = revision,
                   ex_content_classification = co_content_classification x,
                   ex_business_concepts = map strip (co_business_concepts x),
                   ex_assumptions = map strip (co_assumptions x), ex_reason = map_option strip (co_reason x),
                   ex_source_query_request_id = co_source_query_request_id x,
                   ex_supersedes_example_id = co_supersedes_example_id x, ex_id = i, ex_created_at = created\<rparr>
          in map_sum LE_Model (\<lambda>_. e) (corrected_sql_example_post_init e))))))))"

definition correct_sql ::
  "learning_loop \<Rightarrow> (learning_store \<Rightarrow> learning_store) \<Rightarrow> learning_store \<Rightarrow> string \<Rightarrow> string \<Rightarrow> correction_input
     \<Rightarrow> string \<Rightarrow> timestamp \<Rightarrow> (learning_error + example_entry) \<times> learning_store" where
  "correct_sql l mid s t d x i created =
     (case corrected_example l s t d x i created of
        Inl e \<Rightarrow> (Inl e, s)
      | Inr e \<Rightarrow>
          (case create_corrected_sql_example mid s e of
             (Inl LS_Example_Conflict, s') \<Rightarrow> (Inl LE_Concurrency, s')
           | (Inl err, s') \<Rightarrow> (Inl (LE_Store err), s')
           | (Inr stored, s') \<Rightarrow> (Inr \<lparr>ee_example = stored, ee_is_active = True\<rparr>, s')))"

section \<open>Retrieval\<close>

record sql_example_match =
  em_example :: corrected_sql_example
  em_score :: rat

definition example_score :: "string \<Rightarrow> corrected_sql_example \<Rightarrow> rat" where
  "example_score normalized e =
     (if ex_normalized_question e = normalized then 1
      else jaccard (py_split normalized) (py_split (ex_normalized_question e)))"

definition example_usable :: "string list \<Rightarrow> string list \<Rightarrow> corrected_sql_example \<Rightarrow> bool" where
  "example_usable tables columns e =
     (set (ex_referenced_tables e) \<subseteq> set tables \<and> set (ex_referenced_columns e) \<subseteq> set columns)"

definition ranked_matches ::
  "learning_loop \<Rightarrow> string \<Rightarrow> string list \<Rightarrow> string list \<Rightarrow> corrected_sql_example list \<Rightarrow> sql_example_match list" where
  "ranked_matches l normalized tables columns examples =
     sort_key (\<lambda>m. (- em_score m, ex_normalized_question (em_example m), ex_id (em_example m)))
       (filter (\<lambda>m. em_score m \<ge> ll_minimum_score l)
         (map (\<lambda>e. \<lparr>em_example = e, em_score = example_score normalized e\<rparr>)
           (filter (example_usable tables columns) examples)))"

definition retrieve ::
  "learning_loop \<Rightarrow> learning_store \<Rightarrow> string \<Rightarrow> string \<Rightarrow> string \<Rightarrow> int \<Rightarrow> learning_error + sql_example_match list" where
  "retrieve l s t d question max_results =
     (if \<not> (0 \<le> max_results \<and> max_results \<le> 10) then Inl LE_Max_Results
      else bind_result (current_context s t d) (\<lambda>(src, v, tables, columns).
        if max_results = 0 then Inr []
        else
          (let normalized = normalize_question question
           in if py_split normalized = [] then Inl LE_No_Terms
              else bind_result (list_examples s t d False) (\<lambda>entries.
                Inr (take (nat max_results) (ranked_matches l normalized tables columns (map ee_example entries)))))))"

section \<open>Feedback\<close>

definition active_example ::
  "learning_store \<Rightarrow> string \<Rightarrow> string \<Rightarrow> string option \<Rightarrow> learning_error + corrected_sql_example" where
  "active_example s t d i =
     (case i of
        None \<Rightarrow> Inl LE_Feedback_Link
      | Some k \<Rightarrow> bind_result (list_examples s t d False) (\<lambda>entries.
          case find (\<lambda>e. ex_id (ee_example e) = k) entries of
            None \<Rightarrow> Inl LE_Feedback_Link | Some e \<Rightarrow> Inr (ee_example e)))"

definition accepted_states :: "query_request_state set" where
  "accepted_states = {READY_FOR_PREVIEW, APPROVED, EXECUTING, SUCCEEDED, RESULT_PROCESSING, COMPLETED}"

definition rejected_states :: "query_request_state set" where
  "rejected_states = {READY_FOR_PREVIEW, REJECTED}"

definition require_feedback_state :: "query_request \<Rightarrow> query_feedback_outcome \<Rightarrow> learning_error + unit" where
  "require_feedback_state q outcome =
     raise_if (qr_state q \<notin> (case outcome of
         FB_Accepted \<Rightarrow> accepted_states | FB_Rejected \<Rightarrow> rejected_states
       | FB_Corrected \<Rightarrow> accepted_states \<union> rejected_states))
       (LE_Feedback_State (qr_state q))"

definition feedback_of ::
  "learning_store \<Rightarrow> string \<Rightarrow> string \<Rightarrow> string \<Rightarrow> query_feedback_outcome \<Rightarrow> string \<Rightarrow> string option
     \<Rightarrow> string option \<Rightarrow> string \<Rightarrow> timestamp \<Rightarrow> learning_error + query_feedback_event" where
  "feedback_of s t d request outcome actor reason example i created =
     bind_result (require_learning_source s t d) (\<lambda>_.
       case get_query_request (lt_query s) t request of
         None \<Rightarrow> Inl LE_Feedback_Link
       | Some q \<Rightarrow>
           if qr_data_source_id q \<noteq> d then Inl LE_Feedback_Link
           else bind_result (require_feedback_state q outcome) (\<lambda>_.
           bind_result (if outcome = FB_Corrected
              then bind_result (active_example s t d example) (\<lambda>e.
                     raise_if (ex_source_query_request_id e \<noteq> Some request) LE_Feedback_Origin)
              else Inr ()) (\<lambda>_.
           let f = \<lparr>fe_tenant_id = t, fe_data_source_id = d, fe_query_request_id = request,
                    fe_outcome = outcome, fe_actor_id = strip actor, fe_reason = map_option strip reason,
                    fe_corrected_sql_example_id = example, fe_id = i, fe_created_at = created\<rparr>
           in map_sum LE_Model (\<lambda>_. f) (query_feedback_event_post_init f))))"

definition record_feedback ::
  "(learning_store \<Rightarrow> learning_store) \<Rightarrow> learning_store \<Rightarrow> string \<Rightarrow> string \<Rightarrow> string
     \<Rightarrow> query_feedback_outcome \<Rightarrow> string \<Rightarrow> string option \<Rightarrow> string option \<Rightarrow> string \<Rightarrow> timestamp
     \<Rightarrow> (learning_error + query_feedback_event) \<times> learning_store" where
  "record_feedback mid s t d request outcome actor reason example i created =
     (case feedback_of s t d request outcome actor reason example i created of
        Inl e \<Rightarrow> (Inl e, s)
      | Inr f \<Rightarrow>
          (case create_query_feedback_event (mid s) f of
             (Inl _, s') \<Rightarrow> (Inl LE_Feedback_Conflict, s')
           | (Inr stored, s') \<Rightarrow> (Inr stored, s')))"

record feedback_summary =
  fs_total_count :: nat
  fs_accepted_count :: nat
  fs_rejected_count :: nat
  fs_corrected_count :: nat
  fs_acceptance_rate :: "rat option"
  fs_correction_rate :: "rat option"

definition count_outcome :: "query_feedback_outcome \<Rightarrow> query_feedback_event list \<Rightarrow> nat" where
  "count_outcome outcome events = length (filter (\<lambda>f. fe_outcome f = outcome) events)"

definition summarize_feedback :: "learning_store \<Rightarrow> string \<Rightarrow> string \<Rightarrow> learning_error + feedback_summary" where
  "summarize_feedback s t d =
     bind_result (require_learning_source s t d) (\<lambda>_.
       let events = list_query_feedback_events s t d;
           total = length events;
           rate = (\<lambda>n. if total = 0 then None else Some (of_nat n / of_nat total))
       in Inr \<lparr>fs_total_count = total, fs_accepted_count = count_outcome FB_Accepted events,
               fs_rejected_count = count_outcome FB_Rejected events,
               fs_corrected_count = count_outcome FB_Corrected events,
               fs_acceptance_rate = rate (count_outcome FB_Accepted events),
               fs_correction_rate = rate (count_outcome FB_Corrected events)\<rparr>)"

section \<open>Golden candidates\<close>

record golden_candidate_entry =
  ge_candidate :: golden_evaluation_candidate
  ge_status :: golden_candidate_status
  ge_review :: "golden_candidate_review option"

text \<open>The example a candidate is made of: active, with a source request whose feedback names it.\<close>

definition vouched_example ::
  "learning_store \<Rightarrow> string \<Rightarrow> string \<Rightarrow> string \<Rightarrow> learning_error + (corrected_sql_example \<times> string)" where
  "vouched_example s t d k =
     bind_result (active_example s t d (Some k)) (\<lambda>e.
       case ex_source_query_request_id e of
         None \<Rightarrow> Inl LE_No_Source_Request
       | Some request \<Rightarrow>
           (case get_query_feedback_event s t request of
              None \<Rightarrow> Inl LE_No_Feedback
            | Some f \<Rightarrow>
                if fe_outcome f \<noteq> FB_Corrected \<or> fe_corrected_sql_example_id f \<noteq> Some (ex_id e)
                then Inl LE_No_Feedback else Inr (e, request)))"

definition candidate_of ::
  "learning_store \<Rightarrow> string \<Rightarrow> string \<Rightarrow> string \<Rightarrow> string \<Rightarrow> timestamp
     \<Rightarrow> learning_error + golden_evaluation_candidate" where
  "candidate_of s t d k i created =
     bind_result (require_learning_source s t d) (\<lambda>_.
     bind_result (vouched_example s t d k) (\<lambda>(e, request).
     case get_latest_catalog_version (lt_query s) t d of
       None \<Rightarrow> Inl LE_Not_Ingested
     | Some v \<Rightarrow>
         (let missing_tables = filter (\<lambda>x. x \<notin> set (catalog_tables s t (cv_id v))) (ex_referenced_tables e);
              missing_columns = filter (\<lambda>x. x \<notin> set (catalog_columns s t (cv_id v))) (ex_referenced_columns e)
          in if missing_tables \<noteq> [] \<or> missing_columns \<noteq> []
             then Inl (LE_Incompatible (sorted_set missing_tables) (sorted_set missing_columns))
             else
               (let c = \<lparr>gc_tenant_id = t, gc_data_source_id = d, gc_catalog_version_id = cv_id v,
                         gc_corrected_sql_example_id = ex_id e, gc_source_query_request_id = request,
                         gc_question = ex_question e, gc_normalized_sql = ex_normalized_sql e,
                         gc_referenced_tables = ex_referenced_tables e,
                         gc_referenced_columns = ex_referenced_columns e,
                         gc_business_concepts = ex_business_concepts e, gc_assumptions = ex_assumptions e,
                         gc_content_classification = ex_content_classification e, gc_id = i,
                         gc_created_at = created\<rparr>
                in map_sum LE_Model (\<lambda>_. c) (golden_evaluation_candidate_post_init c)))))"

definition promote_candidate ::
  "(learning_store \<Rightarrow> learning_store) \<Rightarrow> learning_store \<Rightarrow> string \<Rightarrow> string \<Rightarrow> string \<Rightarrow> string \<Rightarrow> timestamp
     \<Rightarrow> (learning_error + golden_candidate_entry) \<times> learning_store" where
  "promote_candidate mid s t d k i created =
     (case candidate_of s t d k i created of
        Inl e \<Rightarrow> (Inl e, s)
      | Inr c \<Rightarrow>
          (case create_golden_evaluation_candidate (mid s) c of
             (Inl _, s') \<Rightarrow> (Inl LE_Candidate_Conflict, s')
           | (Inr stored, s') \<Rightarrow> (Inr \<lparr>ge_candidate = stored, ge_status = GC_Proposed, ge_review = None\<rparr>, s')))"

definition candidate_entry ::
  "golden_evaluation_candidate \<Rightarrow> golden_candidate_review option \<Rightarrow> golden_candidate_entry" where
  "candidate_entry c r =
     \<lparr>ge_candidate = c, ge_status = (case r of None \<Rightarrow> GC_Proposed | Some x \<Rightarrow> gr_status x), ge_review = r\<rparr>"

definition list_candidates ::
  "learning_store \<Rightarrow> string \<Rightarrow> string \<Rightarrow> golden_candidate_status option
     \<Rightarrow> learning_error + golden_candidate_entry list" where
  "list_candidates s t d wanted =
     bind_result (require_learning_source s t d) (\<lambda>_.
       let reviews = map_of (rev (map (\<lambda>r. (gr_candidate_id r, r)) (list_golden_candidate_reviews s t d)));
           entries = map (\<lambda>c. candidate_entry c (reviews (gc_id c))) (list_golden_evaluation_candidates s t d)
       in Inr (case wanted of None \<Rightarrow> entries | Some st \<Rightarrow> filter (\<lambda>e. ge_status e = st) entries))"

definition review_candidate ::
  "(learning_store \<Rightarrow> learning_store) \<Rightarrow> learning_store \<Rightarrow> string \<Rightarrow> string \<Rightarrow> string \<Rightarrow> golden_candidate_status \<Rightarrow> string \<Rightarrow> string option \<Rightarrow> string
     \<Rightarrow> timestamp \<Rightarrow> (learning_error + golden_candidate_entry) \<times> learning_store" where
  "review_candidate mid s t d k decision actor reason i created =
     (case get_golden_evaluation_candidate s t k of
        None \<Rightarrow> (Inl LE_Candidate_Missing, s)
      | Some c \<Rightarrow>
          if gc_data_source_id c \<noteq> d then (Inl LE_Candidate_Missing, s)
          else
            (let r = \<lparr>gr_tenant_id = t, gr_candidate_id = k, gr_status = decision, gr_actor_id = strip actor,
                      gr_reason = map_option strip reason, gr_id = i, gr_created_at = created\<rparr>
             in case golden_candidate_review_post_init r of
                  Inl e \<Rightarrow> (Inl (LE_Model e), s)
                | Inr _ \<Rightarrow>
                    (case create_golden_candidate_review (mid s) r of
                       (Inl _, s') \<Rightarrow> (Inl LE_Candidate_Conflict, s')
                     | (Inr stored, s') \<Rightarrow>
                         (Inr \<lparr>ge_candidate = c, ge_status = gr_status stored, ge_review = Some stored\<rparr>, s'))))"

record golden_export_item =
  gx_candidate :: golden_evaluation_candidate
  gx_data_source_id :: string
  gx_dialect :: string

text \<open>
  \<open>export_approved\<close>: an item has the fields of its candidate beside the source and its dialect.
\<close>

definition export_approved ::
  "learning_store \<Rightarrow> string \<Rightarrow> string \<Rightarrow> learning_error + golden_export_item list" where
  "export_approved s t d =
     bind_result (require_learning_source s t d) (\<lambda>src.
     bind_result (list_candidates s t d (Some GC_Approved)) (\<lambda>entries.
       Inr (map (\<lambda>c. \<lparr>gx_candidate = c, gx_data_source_id = d, gx_dialect = ds_dialect src\<rparr>)
             (sort_key gc_id (map ge_candidate entries)))))"

end
