(* ===== verification/Learning_Safety.thy ===== *)
theory Learning_Safety
  imports Learning_Service Interference
begin

text \<open>
  What the learning tables guarantee however the operations of replicas interleave: the
  examples of a question form one chain of revisions with one active example, and what is
  exported for evaluation was corrected, vouched for by feedback and approved once.
\<close>

section \<open>The invariant\<close>

definition chains_ok :: "corrected_sql_example set \<Rightarrow> bool" where
  "chains_ok E =
     ((\<forall>x \<in> E. \<forall>y \<in> E. ex_id x = ex_id y \<longrightarrow> x = y)
      \<and> (\<forall>x \<in> E. ex_supersedes_example_id x = None \<longleftrightarrow> ex_revision x = 1)
      \<and> (\<forall>x \<in> E. \<forall>p. ex_supersedes_example_id x = Some p \<longrightarrow>
           (\<exists>y \<in> E. ex_id y = p \<and> ex_tenant_id y = ex_tenant_id x \<and> ex_data_source_id y = ex_data_source_id x
              \<and> ex_normalized_question y = ex_normalized_question x \<and> ex_revision y + 1 = ex_revision x
              \<and> 1 \<le> ex_revision y))
      \<and> (\<forall>x \<in> E. \<forall>y \<in> E. ex_tenant_id x = ex_tenant_id y \<and> ex_data_source_id x = ex_data_source_id y
           \<and> ex_normalized_question x = ex_normalized_question y
           \<and> ex_supersedes_example_id x = None \<and> ex_supersedes_example_id y = None \<longrightarrow> x = y)
      \<and> (\<forall>x \<in> E. \<forall>y \<in> E. ex_tenant_id x = ex_tenant_id y
           \<and> ex_supersedes_example_id x = ex_supersedes_example_id y
           \<and> ex_supersedes_example_id x \<noteq> None \<longrightarrow> x = y))"

text \<open>A candidate repeats an example that final feedback names as the correction of its request.\<close>

definition vouched :: "learning_store \<Rightarrow> golden_evaluation_candidate \<Rightarrow> bool" where
  "vouched s c =
     (\<exists>e \<in> set (lt_examples s). \<exists>f \<in> set (lt_feedback s).
        ex_tenant_id e = gc_tenant_id c \<and> ex_data_source_id e = gc_data_source_id c
        \<and> ex_id e = gc_corrected_sql_example_id c \<and> ex_question e = gc_question c
        \<and> ex_normalized_sql e = gc_normalized_sql c
        \<and> ex_source_query_request_id e = Some (gc_source_query_request_id c)
        \<and> fe_tenant_id f = gc_tenant_id c \<and> fe_query_request_id f = gc_source_query_request_id c
        \<and> fe_outcome f = FB_Corrected \<and> fe_corrected_sql_example_id f = Some (ex_id e))"

definition learning_good :: "learning_store \<Rightarrow> bool" where
  "learning_good s =
     (chains_ok (set (lt_examples s))
      \<and> unique_key (\<lambda>f. (fe_tenant_id f, fe_query_request_id f)) (lt_feedback s)
      \<and> unique_key gc_id (lt_candidates s)
      \<and> unique_key (\<lambda>c. (gc_tenant_id c, gc_corrected_sql_example_id c)) (lt_candidates s)
      \<and> unique_key (\<lambda>r. (gr_tenant_id r, gr_candidate_id r)) (lt_reviews s)
      \<and> (\<forall>c \<in> set (lt_candidates s). vouched s c))"

definition learning_evolves :: "learning_store \<Rightarrow> learning_store \<Rightarrow> bool" where
  "learning_evolves s s' =
     (set (lt_examples s) \<subseteq> set (lt_examples s') \<and> set (lt_feedback s) \<subseteq> set (lt_feedback s')
      \<and> set (lt_candidates s) \<subseteq> set (lt_candidates s') \<and> set (lt_reviews s) \<subseteq> set (lt_reviews s'))"

interpretation learning_forward: forward_store learning_good learning_evolves
  by unfold_locales (auto simp: learning_evolves_def)

abbreviation "learning_interference \<equiv> interference learning_good learning_evolves"

lemma vouched_evolves: "vouched s c \<Longrightarrow> learning_evolves s s' \<Longrightarrow> vouched s' c"
  unfolding vouched_def learning_evolves_def by (elim bexE) (blast intro: bexI)

section \<open>The operations keep it\<close>

lemma chains_ok_insert:
  assumes "chains_ok E"
    and new: "\<forall>x \<in> E. ex_id x \<noteq> ex_id e"
    and rev: "ex_supersedes_example_id e = None \<longleftrightarrow> ex_revision e = 1"
    and pred: "\<And>p. ex_supersedes_example_id e = Some p \<Longrightarrow>
      \<exists>y \<in> E. ex_id y = p \<and> ex_tenant_id y = ex_tenant_id e \<and> ex_data_source_id y = ex_data_source_id e
        \<and> ex_normalized_question y = ex_normalized_question e \<and> ex_revision y + 1 = ex_revision e \<and> 1 \<le> ex_revision y"
    and root: "ex_supersedes_example_id e = None \<Longrightarrow> \<forall>x \<in> E. \<not> (ex_tenant_id x = ex_tenant_id e
      \<and> ex_data_source_id x = ex_data_source_id e \<and> ex_normalized_question x = ex_normalized_question e
      \<and> ex_supersedes_example_id x = None)"
    and succ: "ex_supersedes_example_id e \<noteq> None \<Longrightarrow> \<forall>x \<in> E. \<not> (ex_tenant_id x = ex_tenant_id e
      \<and> ex_supersedes_example_id x = ex_supersedes_example_id e)"
  shows "chains_ok (insert e E)"
proof -
  note old = assms(1)[unfolded chains_ok_def]
  note ids = old[THEN conjunct1] and old = old[THEN conjunct2]
  note revs = old[THEN conjunct1] and old = old[THEN conjunct2]
  note preds = old[THEN conjunct1] and old = old[THEN conjunct2]
  note roots = old[THEN conjunct1] and succs = old[THEN conjunct2]
  show ?thesis
    unfolding chains_ok_def
  proof (intro conjI)
    show "\<forall>x \<in> insert e E. \<forall>y \<in> insert e E. ex_id x = ex_id y \<longrightarrow> x = y"
      using ids new by auto
    show "\<forall>x \<in> insert e E. ex_supersedes_example_id x = None \<longleftrightarrow> ex_revision x = 1"
      using revs rev by auto
    show "\<forall>x \<in> insert e E. \<forall>p. ex_supersedes_example_id x = Some p \<longrightarrow>
        (\<exists>y \<in> insert e E. ex_id y = p \<and> ex_tenant_id y = ex_tenant_id x \<and> ex_data_source_id y = ex_data_source_id x
          \<and> ex_normalized_question y = ex_normalized_question x \<and> ex_revision y + 1 = ex_revision x \<and> 1 \<le> ex_revision y)"
    proof (intro ballI allI impI)
      fix x p assume "x \<in> insert e E" "ex_supersedes_example_id x = Some p"
      then show "\<exists>y \<in> insert e E. ex_id y = p \<and> ex_tenant_id y = ex_tenant_id x \<and> ex_data_source_id y = ex_data_source_id x
          \<and> ex_normalized_question y = ex_normalized_question x \<and> ex_revision y + 1 = ex_revision x \<and> 1 \<le> ex_revision y"
        using preds[rule_format, of x p] pred[of p] by (cases "x = e") auto
    qed
    show "\<forall>x \<in> insert e E. \<forall>y \<in> insert e E. ex_tenant_id x = ex_tenant_id y
        \<and> ex_data_source_id x = ex_data_source_id y \<and> ex_normalized_question x = ex_normalized_question y
        \<and> ex_supersedes_example_id x = None \<and> ex_supersedes_example_id y = None \<longrightarrow> x = y"
    proof (intro ballI impI)
      fix x y assume "x \<in> insert e E" "y \<in> insert e E" "ex_tenant_id x = ex_tenant_id y
        \<and> ex_data_source_id x = ex_data_source_id y \<and> ex_normalized_question x = ex_normalized_question y
        \<and> ex_supersedes_example_id x = None \<and> ex_supersedes_example_id y = None"
      then show "x = y" using roots[rule_format, of x y] root by (cases "x = e"; cases "y = e") auto
    qed
    show "\<forall>x \<in> insert e E. \<forall>y \<in> insert e E. ex_tenant_id x = ex_tenant_id y
        \<and> ex_supersedes_example_id x = ex_supersedes_example_id y \<and> ex_supersedes_example_id x \<noteq> None \<longrightarrow> x = y"
    proof (intro ballI impI)
      fix x y assume "x \<in> insert e E" "y \<in> insert e E" "ex_tenant_id x = ex_tenant_id y
        \<and> ex_supersedes_example_id x = ex_supersedes_example_id y \<and> ex_supersedes_example_id x \<noteq> None"
      then show "x = y" using succs[rule_format, of x y] succ by (cases "x = e"; cases "y = e") auto
    qed
  qed
qed

text \<open>A predecessor that was read before the transaction is still there: rows are immutable.\<close>

lemma create_example_interference:
  assumes mid: "learning_interference mid"
  shows "learning_interference (\<lambda>s. snd (create_corrected_sql_example mid s e))"
  unfolding interference_def
proof (intro allI impI)
  fix s assume good: "learning_good s"
  let ?s1 = "mid s"
  have mid_s: "learning_good ?s1" "learning_evolves s ?s1"
    using learning_forward.interference_D[OF mid good] by simp_all
  consider (refused) "snd (create_corrected_sql_example mid s e) = s"
    | (conflict) "snd (create_corrected_sql_example mid s e) = ?s1"
    | (stored) "check_example s e = Inr ()" "example_constraints ?s1 e"
      "lt_examples (snd (create_corrected_sql_example mid s e)) = lt_examples ?s1 @ [e]"
      "lt_feedback (snd (create_corrected_sql_example mid s e)) = lt_feedback ?s1"
      "lt_candidates (snd (create_corrected_sql_example mid s e)) = lt_candidates ?s1"
      "lt_reviews (snd (create_corrected_sql_example mid s e)) = lt_reviews ?s1"
    by (cases "check_example s e"; cases "example_constraints ?s1 e")
      (auto simp: create_corrected_sql_example_def Let_def append_learning_audit_def)
  then show "learning_good (snd (create_corrected_sql_example mid s e))
      \<and> learning_evolves s (snd (create_corrected_sql_example mid s e))"
  proof cases
    case refused
    then show ?thesis using good learning_forward.evolves_refl by simp
  next
    case conflict
    then show ?thesis using mid_s by simp
  next
    case stored
    let ?s' = "snd (create_corrected_sql_example mid s e)"
    note c = stored(2)[unfolded example_constraints_def]
    have evolves: "learning_evolves ?s1 ?s'" using stored(3-6) by (auto simp: learning_evolves_def)
    have "\<exists>y \<in> set (lt_examples ?s1). ex_id y = p \<and> ex_tenant_id y = ex_tenant_id e
        \<and> ex_data_source_id y = ex_data_source_id e \<and> ex_normalized_question y = ex_normalized_question e
        \<and> ex_revision y + 1 = ex_revision e \<and> 1 \<le> ex_revision y"
      if p: "ex_supersedes_example_id e = Some p" for p
    proof -
      obtain y where y: "live_predecessor s e p = Some y" "ex_normalized_question y = ex_normalized_question e"
        "ex_revision y + 1 = ex_revision e"
        using stored(1) p by (auto simp: check_example_def check_predecessor_def bind_result_Inr_iff raise_if_def
            split: option.splits if_splits)
      have "y \<in> set (lt_examples s)" "ex_id y = p" "ex_tenant_id y = ex_tenant_id e"
        "ex_data_source_id y = ex_data_source_id e"
        using fetch_one_Some_iff_mem[OF y(1)[unfolded live_predecessor_def]] by auto
      moreover have "1 \<le> ex_revision y" using c p y(3) by auto
      ultimately show ?thesis using y mid_s(2) by (auto simp: learning_evolves_def)
    qed
    then have "chains_ok (insert e (set (lt_examples ?s1)))"
      using mid_s(1) c by (intro chains_ok_insert) (auto simp: learning_good_def)
    moreover have "\<forall>x \<in> set (lt_candidates ?s'). vouched ?s' x"
      using mid_s(1) vouched_evolves[OF _ evolves] stored(5) by (simp add: learning_good_def)
    ultimately have "learning_good ?s'" using mid_s(1) stored(3-6) by (simp add: learning_good_def)
    then show ?thesis using evolves mid_s(2) learning_forward.evolves_trans by blast
  qed
qed

lemma correct_interference:
  assumes "learning_interference mid"
  shows "learning_interference (\<lambda>s. snd (correct_sql l mid s t d x i created))"
  unfolding interference_def
proof (intro allI impI)
  fix s assume good: "learning_good s"
  show "learning_good (snd (correct_sql l mid s t d x i created))
      \<and> learning_evolves s (snd (correct_sql l mid s t d x i created))"
  proof (cases "corrected_example l s t d x i created")
    case (Inl e)
    then show ?thesis using good learning_forward.evolves_refl by (simp add: correct_sql_def)
  next
    case (Inr e)
    have "snd (correct_sql l mid s t d x i created) = snd (create_corrected_sql_example mid s e)"
      by (simp add: correct_sql_def Inr split: prod.splits sum.splits learning_store_error.splits)
    then show ?thesis
      using learning_forward.interference_D[OF create_example_interference[OF assms] good] by simp
  qed
qed

text \<open>The other operations insert at most one row into what \<open>mid\<close> left.\<close>

lemma feedback_outcome:
  obtains "snd (record_feedback mid s t d q oc ac re k i n) = s"
  | "snd (record_feedback mid s t d q oc ac re k i n) = mid s"
  | f where "feedback_constraints (mid s) f"
    "snd (record_feedback mid s t d q oc ac re k i n)
       = append_learning_audit (Feedback_Recorded f) ((mid s)\<lparr>lt_feedback := lt_feedback (mid s) @ [f]\<rparr>)"
proof (cases "feedback_of s t d q oc ac re k i n")
  case (Inl e)
  then show thesis by (intro that(1)) (simp add: record_feedback_def)
next
  case (Inr f)
  show thesis
  proof (cases "feedback_constraints (mid s) f")
    case True
    then show thesis by (intro that(3)) (simp_all add: record_feedback_def create_query_feedback_event_def Inr)
  next
    case False
    then show thesis by (intro that(2)) (simp add: record_feedback_def create_query_feedback_event_def Inr)
  qed
qed

lemma feedback_interference:
  assumes "learning_interference mid"
  shows "learning_interference (\<lambda>s. snd (record_feedback mid s t d q oc ac re k i n))"
  unfolding interference_def
proof (intro allI impI)
  fix s assume good: "learning_good s"
  note mid_s = learning_forward.interference_D[OF assms good]
  let ?s' = "snd (record_feedback mid s t d q oc ac re k i n)"
  show "learning_good ?s' \<and> learning_evolves s ?s'"
  proof (cases rule: feedback_outcome[of mid s t d q oc ac re k i n])
    case 1
    then show ?thesis using good learning_forward.evolves_refl by simp
  next
    case 2
    then show ?thesis using mid_s by simp
  next
    case (3 f)
    have rows: "lt_examples ?s' = lt_examples (mid s)" "lt_feedback ?s' = lt_feedback (mid s) @ [f]"
      "lt_candidates ?s' = lt_candidates (mid s)" "lt_reviews ?s' = lt_reviews (mid s)"
      by (simp_all add: 3(2) append_learning_audit_def)
    then have evolves: "learning_evolves (mid s) ?s'" by (auto simp: learning_evolves_def)
    have "unique_key (\<lambda>f. (fe_tenant_id f, fe_query_request_id f)) (lt_feedback ?s')"
      unfolding rows using mid_s 3(1) by (intro unique_key_append) (auto simp: learning_good_def feedback_constraints_def)
    moreover have "\<forall>x \<in> set (lt_candidates ?s'). vouched ?s' x"
      using mid_s vouched_evolves[OF _ evolves] rows(3) by (simp add: learning_good_def)
    ultimately show ?thesis
      using mid_s evolves rows learning_forward.evolves_trans by (auto simp: learning_good_def)
  qed
qed

lemmas find_mem = fetch_one_Some_iff_mem[unfolded fetch_one_def]

lemma active_entries:
  assumes "list_examples s t d False = Inr entries"
  shows "e \<in> ee_example ` set entries \<longleftrightarrow> e \<in> set (lt_examples s) \<and> ex_tenant_id e = t \<and> ex_data_source_id e = d
    \<and> \<not> (\<exists>y \<in> set (lt_examples s). ex_tenant_id y = t \<and> ex_data_source_id y = d
           \<and> ex_supersedes_example_id y = Some (ex_id e))"
proof -
  have active: "e \<in> ee_example ` set (filter ee_is_active
      (map (\<lambda>e. \<lparr>ee_example = e, ee_is_active = (Some (ex_id e) \<notin> set sup)\<rparr>) rows))
    \<longleftrightarrow> e \<in> set rows \<and> Some (ex_id e) \<notin> set sup" for sup rows
    by (auto simp: image_iff)
  have rows: "set (list_corrected_sql_examples s t d)
      = {x \<in> set (lt_examples s). ex_tenant_id x = t \<and> ex_data_source_id x = d}"
    by (auto simp: list_corrected_sql_examples_def)
  have eq: "entries = filter ee_is_active (map (\<lambda>e. \<lparr>ee_example = e, ee_is_active = (Some (ex_id e)
      \<notin> set (map ex_supersedes_example_id (list_corrected_sql_examples s t d)))\<rparr>) (list_corrected_sql_examples s t d))"
    using assms by (simp only: list_examples_def bind_result_Inr_iff Let_def if_False sum.inject) blast
  have "e \<in> ee_example ` set entries \<longleftrightarrow> e \<in> set (list_corrected_sql_examples s t d)
      \<and> Some (ex_id e) \<notin> set (map ex_supersedes_example_id (list_corrected_sql_examples s t d))"
    unfolding eq by (rule active)
  then show ?thesis unfolding set_map rows by force
qed

lemma candidate_vouched:
  assumes "candidate_of s t d k i created = Inr c"
  shows "vouched s c"
proof -
  obtain e q where v: "vouched_example s t d k = Inr (e, q)"
    and c: "gc_tenant_id c = t" "gc_data_source_id c = d" "gc_corrected_sql_example_id c = ex_id e"
      "gc_source_query_request_id c = q" "gc_question c = ex_question e" "gc_normalized_sql c = ex_normalized_sql e"
    using assms by (auto simp: candidate_of_def bind_result_Inr_iff Let_def map_sum_Inr_iff
        split: option.splits if_splits prod.splits)
  obtain e0 where e0: "active_example s t d (Some k) = Inr e0"
    and v0: "(case ex_source_query_request_id e0 of None \<Rightarrow> Inl LE_No_Source_Request
       | Some request \<Rightarrow>
           (case get_query_feedback_event s t request of
              None \<Rightarrow> Inl LE_No_Feedback
            | Some f \<Rightarrow>
                if fe_outcome f \<noteq> FB_Corrected \<or> fe_corrected_sql_example_id f \<noteq> Some (ex_id e0)
                then Inl LE_No_Feedback else Inr (e0, request))) = Inr (e, q)"
    using v unfolding vouched_example_def bind_result_Inr_iff by (elim exE conjE) (rule that)
  obtain f where e: "active_example s t d (Some k) = Inr e" "ex_source_query_request_id e = Some q"
    and f: "get_query_feedback_event s t q = Some f" "fe_outcome f = FB_Corrected"
      "fe_corrected_sql_example_id f = Some (ex_id e)"
    using e0 v0 by (cases "ex_source_query_request_id e0";
        cases "get_query_feedback_event s t (the (ex_source_query_request_id e0))") (auto split: if_splits)
  obtain entries where entries: "list_examples s t d False = Inr entries"
    and found: "(case find (\<lambda>x. ex_id (ee_example x) = k) entries of
        None \<Rightarrow> Inl LE_Feedback_Link | Some x \<Rightarrow> Inr (ee_example x)) = Inr e"
    using e(1) unfolding active_example_def option.case bind_result_Inr_iff by blast
  obtain x where "x \<in> set entries" "ee_example x = e"
    using found by (cases "find (\<lambda>x. ex_id (ee_example x) = k) entries") (auto dest: find_mem)
  then have "e \<in> ee_example ` set entries" by auto
  then have "e \<in> set (lt_examples s)" "ex_tenant_id e = t" "ex_data_source_id e = d"
    unfolding active_entries[OF entries] by auto
  moreover have "f \<in> set (lt_feedback s)" "fe_tenant_id f = t" "fe_query_request_id f = q"
    using fetch_one_Some_iff_mem[OF f(1)[unfolded get_query_feedback_event_def]] by auto
  ultimately show ?thesis unfolding vouched_def using c e(2) f(2,3) by (intro bexI[of _ e] bexI[of _ f]) auto
qed

lemma promote_outcome:
  obtains "snd (promote_candidate mid s t d k i n) = s"
  | "snd (promote_candidate mid s t d k i n) = mid s"
  | c where "candidate_of s t d k i n = Inr c" "candidate_constraints (mid s) c"
    "snd (promote_candidate mid s t d k i n)
       = append_learning_audit (Candidate_Proposed c) ((mid s)\<lparr>lt_candidates := lt_candidates (mid s) @ [c]\<rparr>)"
proof (cases "candidate_of s t d k i n")
  case (Inl e)
  then show thesis by (intro that(1)) (simp add: promote_candidate_def)
next
  case (Inr c)
  show thesis
  proof (cases "candidate_constraints (mid s) c")
    case True
    then show thesis
      by (intro that(3)[OF Inr]) (simp_all add: promote_candidate_def create_golden_evaluation_candidate_def Inr)
  next
    case False
    then show thesis
      by (intro that(2)) (simp add: promote_candidate_def create_golden_evaluation_candidate_def Inr)
  qed
qed

lemma promote_interference:
  assumes "learning_interference mid"
  shows "learning_interference (\<lambda>s. snd (promote_candidate mid s t d k i n))"
  unfolding interference_def
proof (intro allI impI)
  fix s assume good: "learning_good s"
  note mid_s = learning_forward.interference_D[OF assms good]
  let ?s' = "snd (promote_candidate mid s t d k i n)"
  show "learning_good ?s' \<and> learning_evolves s ?s'"
  proof (cases rule: promote_outcome[of mid s t d k i n])
    case 1
    then show ?thesis using good learning_forward.evolves_refl by simp
  next
    case 2
    then show ?thesis using mid_s by simp
  next
    case (3 c)
    have rows: "lt_examples ?s' = lt_examples (mid s)" "lt_feedback ?s' = lt_feedback (mid s)"
      "lt_candidates ?s' = lt_candidates (mid s) @ [c]" "lt_reviews ?s' = lt_reviews (mid s)"
      by (simp_all add: 3(3) append_learning_audit_def)
    then have evolves: "learning_evolves (mid s) ?s'" by (auto simp: learning_evolves_def)
    then have all: "learning_evolves s ?s'" using mid_s learning_forward.evolves_trans by blast
    have "unique_key gc_id (lt_candidates ?s')"
      "unique_key (\<lambda>c. (gc_tenant_id c, gc_corrected_sql_example_id c)) (lt_candidates ?s')"
      unfolding rows using mid_s 3(2)
      by (intro unique_key_append; auto simp: learning_good_def candidate_constraints_def)+
    moreover have "\<forall>x \<in> set (lt_candidates ?s'). vouched ?s' x"
      using mid_s vouched_evolves[OF _ evolves] vouched_evolves[OF candidate_vouched[OF 3(1)] all] rows(3)
      by (auto simp: learning_good_def)
    ultimately show ?thesis using mid_s all rows by (simp add: learning_good_def)
  qed
qed

lemma review_outcome:
  obtains "snd (review_candidate mid s t d k st ac re i n) = s"
  | "snd (review_candidate mid s t d k st ac re i n) = mid s"
  | r where "review_constraints (mid s) r"
    "snd (review_candidate mid s t d k st ac re i n)
       = append_learning_audit (Candidate_Reviewed r) ((mid s)\<lparr>lt_reviews := lt_reviews (mid s) @ [r]\<rparr>)"
proof -
  define r where "r = \<lparr>gr_tenant_id = t, gr_candidate_id = k, gr_status = st, gr_actor_id = strip ac,
      gr_reason = map_option strip re, gr_id = i, gr_created_at = n\<rparr>"
  note defs = review_candidate_def create_golden_candidate_review_def Let_def r_def[symmetric]
  have "snd (review_candidate mid s t d k st ac re i n) = s"
    if "\<not> (\<exists>c. get_golden_evaluation_candidate s t k = Some c \<and> gc_data_source_id c = d
          \<and> golden_candidate_review_post_init r = Inr ())"
    using that by (simp add: defs split: option.split sum.split)
  then consider (early) "snd (review_candidate mid s t d k st ac re i n) = s"
    | (create) c where "get_golden_evaluation_candidate s t k = Some c" "gc_data_source_id c = d"
        "golden_candidate_review_post_init r = Inr ()" by blast
  then show thesis
  proof cases
    case early
    then show thesis by (rule that(1))
  next
    case create
    show thesis
    proof (cases "review_constraints (mid s) r")
      case True
      then show thesis by (intro that(3)) (simp_all add: defs create)
    next
      case False
      then show thesis by (intro that(2)) (simp add: defs create)
    qed
  qed
qed

lemma review_interference:
  assumes "learning_interference mid"
  shows "learning_interference (\<lambda>s. snd (review_candidate mid s t d k st ac re i n))"
  unfolding interference_def
proof (intro allI impI)
  fix s assume good: "learning_good s"
  note mid_s = learning_forward.interference_D[OF assms good]
  let ?s' = "snd (review_candidate mid s t d k st ac re i n)"
  show "learning_good ?s' \<and> learning_evolves s ?s'"
  proof (cases rule: review_outcome[of mid s t d k st ac re i n])
    case 1
    then show ?thesis using good learning_forward.evolves_refl by simp
  next
    case 2
    then show ?thesis using mid_s by simp
  next
    case (3 r)
    have rows: "lt_examples ?s' = lt_examples (mid s)" "lt_feedback ?s' = lt_feedback (mid s)"
      "lt_candidates ?s' = lt_candidates (mid s)" "lt_reviews ?s' = lt_reviews (mid s) @ [r]"
      by (simp_all add: 3(2) append_learning_audit_def)
    then have evolves: "learning_evolves (mid s) ?s'" by (auto simp: learning_evolves_def)
    have "unique_key (\<lambda>r. (gr_tenant_id r, gr_candidate_id r)) (lt_reviews ?s')"
      unfolding rows using mid_s 3(1) by (intro unique_key_append) (auto simp: learning_good_def review_constraints_def)
    moreover have "\<forall>x \<in> set (lt_candidates ?s'). vouched ?s' x"
      using mid_s vouched_evolves[OF _ evolves] rows(3) by (simp add: learning_good_def)
    ultimately show ?thesis
      using mid_s evolves rows learning_forward.evolves_trans by (auto simp: learning_good_def)
  qed
qed

text \<open>
  What replicas do to the tables: the operations, each with others in the middle, one after
  another, and any change of the query tables.
\<close>

inductive learning_client :: "(learning_store \<Rightarrow> learning_store) \<Rightarrow> bool" where
  learning_idle: "learning_client (\<lambda>s. s)"
| learning_sequence: "learning_client f \<Longrightarrow> learning_client g \<Longrightarrow> learning_client (\<lambda>s. g (f s))"
| learning_query_change: "learning_client (\<lambda>s. s\<lparr>lt_query := h (lt_query s)\<rparr>)"
| learning_create: "learning_client mid \<Longrightarrow> learning_client (\<lambda>s. snd (create_corrected_sql_example mid s e))"
| learning_correct: "learning_client mid \<Longrightarrow> learning_client (\<lambda>s. snd (correct_sql l mid s t d x i n))"
| learning_feedback: "learning_client mid \<Longrightarrow> learning_client (\<lambda>s. snd (record_feedback mid s t d q oc ac re k i n))"
| learning_promote: "learning_client mid \<Longrightarrow> learning_client (\<lambda>s. snd (promote_candidate mid s t d k i n))"
| learning_review: "learning_client mid \<Longrightarrow> learning_client (\<lambda>s. snd (review_candidate mid s t d k st ac re i n))"

lemma learning_query_interference: "learning_interference (\<lambda>s. s\<lparr>lt_query := h (lt_query s)\<rparr>)"
  by (auto simp: interference_def learning_good_def learning_evolves_def vouched_def)

lemma learning_client_interference: "learning_client f \<Longrightarrow> learning_interference f"
  by (induction rule: learning_client.induct)
    (blast intro: learning_forward.interference_id learning_forward.interference_comp learning_query_interference
      create_example_interference correct_interference feedback_interference promote_interference review_interference)+

section \<open>Chains of revisions\<close>

abbreviation "same_question x y \<equiv> ex_tenant_id x = ex_tenant_id y \<and> ex_data_source_id x = ex_data_source_id y
  \<and> ex_normalized_question x = ex_normalized_question y"

lemma chains_ok_facts:
  assumes "chains_ok E" "x \<in> E"
  shows "y \<in> E \<Longrightarrow> ex_id x = ex_id y \<Longrightarrow> x = y"
    and "ex_supersedes_example_id x = None \<longleftrightarrow> ex_revision x = 1"
    and "ex_supersedes_example_id x = Some p \<Longrightarrow> \<exists>y \<in> E. ex_id y = p \<and> ex_tenant_id y = ex_tenant_id x
      \<and> ex_data_source_id y = ex_data_source_id x \<and> ex_normalized_question y = ex_normalized_question x
      \<and> ex_revision y + 1 = ex_revision x \<and> 1 \<le> ex_revision y"
    and "y \<in> E \<Longrightarrow> same_question x y \<Longrightarrow> ex_supersedes_example_id x = None \<Longrightarrow> ex_supersedes_example_id y = None \<Longrightarrow> x = y"
    and "y \<in> E \<Longrightarrow> ex_tenant_id x = ex_tenant_id y \<Longrightarrow> ex_supersedes_example_id x = Some p \<Longrightarrow>
      ex_supersedes_example_id y = Some p \<Longrightarrow> x = y"
proof -
  note ok = assms(1)[unfolded chains_ok_def]
  note rest = ok[THEN conjunct2]
  show "y \<in> E \<Longrightarrow> ex_id x = ex_id y \<Longrightarrow> x = y" using ok[THEN conjunct1] assms(2) by blast
  show "ex_supersedes_example_id x = None \<longleftrightarrow> ex_revision x = 1" using rest[THEN conjunct1] assms(2) by blast
  note rest = rest[THEN conjunct2]
  show "ex_supersedes_example_id x = Some p \<Longrightarrow> \<exists>y \<in> E. ex_id y = p \<and> ex_tenant_id y = ex_tenant_id x
      \<and> ex_data_source_id y = ex_data_source_id x \<and> ex_normalized_question y = ex_normalized_question x
      \<and> ex_revision y + 1 = ex_revision x \<and> 1 \<le> ex_revision y" using rest[THEN conjunct1] assms(2) by blast
  note rest = rest[THEN conjunct2]
  show "y \<in> E \<Longrightarrow> same_question x y \<Longrightarrow> ex_supersedes_example_id x = None \<Longrightarrow> ex_supersedes_example_id y = None \<Longrightarrow> x = y"
    using rest[THEN conjunct1] assms(2) by blast
  show "y \<in> E \<Longrightarrow> ex_tenant_id x = ex_tenant_id y \<Longrightarrow> ex_supersedes_example_id x = Some p \<Longrightarrow>
      ex_supersedes_example_id y = Some p \<Longrightarrow> x = y"
    using rest[THEN conjunct2, rule_format, OF assms(2), of y] by simp
qed

lemma chain_predecessor:
  assumes "chains_ok E" "x \<in> E" "ex_revision x \<noteq> 1"
  obtains y where "y \<in> E" "ex_supersedes_example_id x = Some (ex_id y)" "same_question y x"
    "ex_revision y + 1 = ex_revision x" "1 \<le> ex_revision y"
proof -
  obtain p where p: "ex_supersedes_example_id x = Some p"
    using chains_ok_facts(2)[OF assms(1,2)] assms(3) by (cases "ex_supersedes_example_id x") simp_all
  from chains_ok_facts(3)[OF assms(1,2) p] show thesis using that p by blast
qed

lemma chain_revision_positive:
  assumes "chains_ok E" "x \<in> E"
  shows "1 \<le> ex_revision x"
proof (cases "ex_revision x = 1")
  case False
  then show ?thesis by (rule chain_predecessor[OF assms]) simp
qed simp

lemma chain_same_revision:
  assumes ok: "chains_ok E"
  shows "x \<in> E \<Longrightarrow> y \<in> E \<Longrightarrow> same_question x y \<Longrightarrow> ex_revision x = int n + 1 \<Longrightarrow> ex_revision y = int n + 1 \<Longrightarrow> x = y"
proof (induction n arbitrary: x y)
  case 0
  then have "ex_supersedes_example_id x = None" "ex_supersedes_example_id y = None"
    using chains_ok_facts(2)[OF ok] by simp_all
  then show ?case using chains_ok_facts(4)[OF ok 0(1,2,3)] by simp
next
  case (Suc n)
  have "ex_revision x \<noteq> 1" "ex_revision y \<noteq> 1" using Suc.prems(4,5) by simp_all
  obtain x' where x': "x' \<in> E" "ex_supersedes_example_id x = Some (ex_id x')" "same_question x' x"
    "ex_revision x' + 1 = ex_revision x"
    using chain_predecessor[OF ok Suc.prems(1) \<open>ex_revision x \<noteq> 1\<close>] by blast
  obtain y' where y': "y' \<in> E" "ex_supersedes_example_id y = Some (ex_id y')" "same_question y' y"
    "ex_revision y' + 1 = ex_revision y"
    using chain_predecessor[OF ok Suc.prems(2) \<open>ex_revision y \<noteq> 1\<close>] by blast
  have "x' = y'" using Suc.IH[of x' y'] x' y' Suc.prems by simp
  then show ?case using chains_ok_facts(5)[OF ok Suc.prems(1,2) _ x'(2)] y'(2) Suc.prems(3) by simp
qed

lemma chain_downward:
  assumes ok: "chains_ok E"
  shows "x \<in> E \<Longrightarrow> ex_revision x = r + int n \<Longrightarrow> 1 \<le> r \<Longrightarrow> \<exists>y \<in> E. same_question y x \<and> ex_revision y = r"
proof (induction n arbitrary: x)
  case 0
  then show ?case by auto
next
  case (Suc n)
  have "ex_revision x \<noteq> 1" using Suc.prems(2,3) by simp
  then obtain x' where x': "x' \<in> E" "same_question x' x" "ex_revision x' + 1 = ex_revision x"
    using chain_predecessor[OF ok Suc.prems(1)] by blast
  then show ?case using Suc.IH[of x'] Suc.prems by auto
qed

definition question_examples :: "learning_store \<Rightarrow> string \<Rightarrow> string \<Rightarrow> string \<Rightarrow> corrected_sql_example set" where
  "question_examples s t d q =
     {e \<in> set (lt_examples s). ex_tenant_id e = t \<and> ex_data_source_id e = d \<and> ex_normalized_question e = q}"

lemma question_examples_inj:
  assumes "chains_ok (set (lt_examples s))"
  shows "inj_on ex_revision (question_examples s t d q)"
proof (rule inj_onI)
  fix x y assume xy: "x \<in> question_examples s t d q" "y \<in> question_examples s t d q" "ex_revision x = ex_revision y"
  have mem: "x \<in> set (lt_examples s)" "y \<in> set (lt_examples s)" "same_question x y"
    using xy(1,2) by (simp_all add: question_examples_def)
  have x: "ex_revision x = int (nat (ex_revision x - 1)) + 1"
    using chain_revision_positive[OF assms mem(1)] by simp
  show "x = y"
    by (rule chain_same_revision[OF assms mem x]) (rule trans[OF xy(3)[symmetric] x])
qed

lemma question_revisions:
  assumes "chains_ok (set (lt_examples s))"
  shows "ex_revision ` question_examples s t d q = {1..int (card (question_examples s t d q))}"
proof -
  let ?Q = "question_examples s t d q"
  let ?R = "ex_revision ` ?Q"
  have fin: "finite ?Q" by (simp add: question_examples_def)
  have closed: "r \<in> ?R" if r: "r' \<in> ?R" "1 \<le> r" "r \<le> r'" for r r'
  proof -
    obtain x where x: "x \<in> ?Q" "r' = ex_revision x" using r(1) by (rule imageE)
    have mem: "x \<in> set (lt_examples s)" using x(1) by (simp add: question_examples_def)
    have "ex_revision x = r + int (nat (r' - r))" using x(2) r(3) by simp
    from chain_downward[OF assms mem this r(2)] obtain y where
      y: "y \<in> set (lt_examples s)" "same_question y x" "ex_revision y = r" by blast
    have "y \<in> ?Q" using x(1) y(1,2) by (simp add: question_examples_def)
    then have "ex_revision y \<in> ?R" by (rule imageI)
    then show ?thesis unfolding y(3) .
  qed
  have positive: "1 \<le> r" if r: "r \<in> ?R" for r
  proof -
    obtain x where x: "x \<in> ?Q" "r = ex_revision x" using r by (rule imageE)
    have "x \<in> set (lt_examples s)" using x(1) by (simp add: question_examples_def)
    from chain_revision_positive[OF assms this] show ?thesis unfolding x(2) .
  qed
  obtain m where m: "0 \<le> m" "?R = {1..m}"
  proof (cases "?Q = {}")
    case True
    then show thesis using that[of 0] by simp
  next
    case False
    then have max: "Max ?R \<in> ?R" using fin by simp
    have "?R = {1..Max ?R}"
    proof (intro set_eqI iffI)
      fix r assume "r \<in> ?R"
      then show "r \<in> {1..Max ?R}" using positive fin by simp
    next
      fix r assume "r \<in> {1..Max ?R}"
      then show "r \<in> ?R" using closed[OF max] by simp
    qed
    then show thesis using that[of "Max ?R"] positive[OF max] by simp
  qed
  have "card ?Q = card ?R" using question_examples_inj[OF assms] by (simp add: card_image)
  then show ?thesis using m by simp
qed

lemma question_superseded:
  assumes ok: "chains_ok (set (lt_examples s))" and e: "e \<in> question_examples s t d q"
  shows "(\<exists>y \<in> set (lt_examples s). ex_tenant_id y = t \<and> ex_data_source_id y = d
      \<and> ex_supersedes_example_id y = Some (ex_id e)) \<longleftrightarrow> ex_revision e < int (card (question_examples s t d q))"
proof
  assume "\<exists>y \<in> set (lt_examples s). ex_tenant_id y = t \<and> ex_data_source_id y = d
      \<and> ex_supersedes_example_id y = Some (ex_id e)"
  then obtain y where y: "y \<in> set (lt_examples s)" "ex_supersedes_example_id y = Some (ex_id e)" by blast
  have "\<exists>z \<in> set (lt_examples s). ex_id z = ex_id e \<and> same_question z y \<and> ex_revision z + 1 = ex_revision y"
    using chains_ok_facts(3)[OF ok y] by blast
  then obtain z where z: "z \<in> set (lt_examples s)" "ex_id z = ex_id e" "same_question z y"
    "ex_revision z + 1 = ex_revision y" by blast
  have "z = e" using chains_ok_facts(1)[OF ok z(1) _ z(2)] e by (simp add: question_examples_def)
  then have "y \<in> question_examples s t d q" using y(1) z(3) e by (auto simp: question_examples_def)
  then have "ex_revision y \<in> {1..int (card (question_examples s t d q))}"
    unfolding question_revisions[OF ok, symmetric] by (rule imageI)
  then show "ex_revision e < int (card (question_examples s t d q))" using z(4) \<open>z = e\<close> by simp
next
  assume less: "ex_revision e < int (card (question_examples s t d q))"
  have "1 \<le> ex_revision e" using chain_revision_positive[OF ok] e by (auto simp: question_examples_def)
  then have "ex_revision e + 1 \<in> ex_revision ` question_examples s t d q"
    using less by (simp add: question_revisions[OF ok])
  then obtain y where y: "y \<in> question_examples s t d q" "ex_revision y = ex_revision e + 1" by auto
  have "y \<in> set (lt_examples s)" "ex_revision y \<noteq> 1"
    using y \<open>1 \<le> ex_revision e\<close> by (simp_all add: question_examples_def)
  then obtain z where z: "z \<in> set (lt_examples s)" "ex_supersedes_example_id y = Some (ex_id z)" "same_question z y"
    "ex_revision z + 1 = ex_revision y"
    using chain_predecessor[OF ok] by blast
  have "z \<in> question_examples s t d q" using z(1,3) y(1) by (auto simp: question_examples_def)
  then have "z = e" using question_examples_inj[OF ok] e y(2) z(4) by (auto dest: inj_onD)
  then show "\<exists>y \<in> set (lt_examples s). ex_tenant_id y = t \<and> ex_data_source_id y = d
      \<and> ex_supersedes_example_id y = Some (ex_id e)"
    using y(1) z(2) by (auto simp: question_examples_def)
qed

lemma client_good: "learning_client f \<Longrightarrow> learning_good s \<Longrightarrow> learning_good (f s) \<and> learning_evolves s (f s)"
  using learning_forward.interference_D[OF learning_client_interference] .

lemma active_is_last:
  assumes ok: "chains_ok (set (lt_examples s))" and entries: "list_examples s t d False = Inr entries"
  shows "{e \<in> ee_example ` set entries. ex_normalized_question e = q}
    = {e \<in> question_examples s t d q. ex_revision e = int (card (question_examples s t d q))}"
proof (intro Collect_cong)
  fix e
  have "ex_revision e \<le> int (card (question_examples s t d q))" if "e \<in> question_examples s t d q"
    using imageI[OF that, of ex_revision] unfolding question_revisions[OF ok] by simp
  then show "e \<in> ee_example ` set entries \<and> ex_normalized_question e = q
      \<longleftrightarrow> e \<in> question_examples s t d q \<and> ex_revision e = int (card (question_examples s t d q))"
    unfolding active_entries[OF entries]
    using question_superseded[OF ok, of e t d q]
    by (cases "e \<in> question_examples s t d q") (auto simp: question_examples_def)
qed

text \<open>
  C14: However the operations of replicas interleave, the corrected examples of a question form
  one chain: their revisions are exactly 1 to their number, and the service lists as active
  exactly the last one.
\<close>

theorem corrected_examples_form_chains:
  assumes "learning_client f" "learning_good s" "list_examples (f s) t d False = Inr entries"
  shows "inj_on ex_revision (question_examples (f s) t d q)
    \<and> ex_revision ` question_examples (f s) t d q = {1..int (card (question_examples (f s) t d q))}
    \<and> {e \<in> ee_example ` set entries. ex_normalized_question e = q}
      = {e \<in> question_examples (f s) t d q. ex_revision e = int (card (question_examples (f s) t d q))}"
proof -
  have ok: "chains_ok (set (lt_examples (f s)))" using client_good[OF assms(1,2)] by (simp add: learning_good_def)
  show ?thesis
    by (intro conjI question_examples_inj[OF ok] question_revisions[OF ok] active_is_last[OF ok assms(3)])
qed

end
