(* ===== verification/Learning_Results.thy ===== *)
theory Learning_Results
  imports Learning_Safety
begin

text \<open>
  What the learning loop hands to the rest of the program: the examples retrieved for a question
  and the candidates exported for evaluation.
\<close>

section \<open>Exported candidates\<close>

lemma map_of_keyed:
  assumes "inj_on k (set xs)"
  shows "map_of (rev (map (\<lambda>x. (k x, x)) xs)) a = Some x \<longleftrightarrow> x \<in> set xs \<and> k x = a"
proof
  assume "map_of (rev (map (\<lambda>x. (k x, x)) xs)) a = Some x"
  from map_of_SomeD[OF this] show "x \<in> set xs \<and> k x = a" by auto
next
  assume x: "x \<in> set xs \<and> k x = a"
  then have "(a, x) \<in> set (rev (map (\<lambda>x. (k x, x)) xs))" by auto
  from weak_map_of_SomeI[OF this] obtain y where y: "map_of (rev (map (\<lambda>x. (k x, x)) xs)) a = Some y" ..
  from map_of_SomeD[OF y] have "y \<in> set xs" "k y = k x" using x by auto
  then have "y = x" using x assms by (auto dest: inj_onD)
  then show "map_of (rev (map (\<lambda>x. (k x, x)) xs)) a = Some x" using y by simp
qed

text \<open>The final review of a candidate.\<close>

definition final_reviews :: "learning_store \<Rightarrow> golden_evaluation_candidate \<Rightarrow> golden_candidate_review set" where
  "final_reviews s c =
     {r \<in> set (lt_reviews s). gr_tenant_id r = gc_tenant_id c \<and> gr_candidate_id r = gc_id c}"

lemma final_reviews_unique:
  "learning_good s \<Longrightarrow> r \<in> final_reviews s c \<Longrightarrow> r' \<in> final_reviews s c \<Longrightarrow> r = r'"
  unfolding final_reviews_def learning_good_def
  by (rule unique_key_eq[of "\<lambda>r. (gr_tenant_id r, gr_candidate_id r)" "lt_reviews s"]) auto

lemma review_set:
  "set (list_golden_candidate_reviews s t d) = {r \<in> set (lt_reviews s). gr_tenant_id r = t
     \<and> (\<exists>c \<in> set (lt_candidates s). gc_tenant_id c = gr_tenant_id r \<and> gc_id c = gr_candidate_id r
          \<and> gc_data_source_id c = d)}"
  by (simp add: list_golden_candidate_reviews_def)

lemma candidate_set:
  "set (list_golden_evaluation_candidates s t d)
     = {c \<in> set (lt_candidates s). gc_tenant_id c = t \<and> gc_data_source_id c = d}"
  by (simp add: list_golden_evaluation_candidates_def)

lemma candidate_review:
  assumes "learning_good s" "c \<in> set (list_golden_evaluation_candidates s t d)"
  shows "map_of (rev (map (\<lambda>r. (gr_candidate_id r, r)) (list_golden_candidate_reviews s t d))) (gc_id c) = Some r
    \<longleftrightarrow> r \<in> final_reviews s c"
proof -
  have unique: "unique_key (\<lambda>r. (gr_tenant_id r, gr_candidate_id r)) (lt_reviews s)"
    using assms(1) by (simp add: learning_good_def)
  have "inj_on gr_candidate_id (set (list_golden_candidate_reviews s t d))"
    unfolding review_set by (rule inj_onI) (auto intro: unique_key_eq[OF unique])
  from map_of_keyed[OF this] show ?thesis
    using assms(2) unfolding review_set candidate_set final_reviews_def by auto
qed

lemma exported_candidates:
  assumes "learning_good s" "export_approved s t d = Inr items"
  shows "gx_candidate ` set items = {c \<in> set (lt_candidates s). gc_tenant_id c = t \<and> gc_data_source_id c = d
    \<and> (\<exists>r \<in> final_reviews s c. gr_status r = GC_Approved)}"
proof -
  let ?review = "map_of (rev (map (\<lambda>r. (gr_candidate_id r, r)) (list_golden_candidate_reviews s t d)))"
  let ?rows = "list_golden_evaluation_candidates s t d"
  let ?entry = "\<lambda>c. candidate_entry c (?review (gc_id c))"
  have status: "ge_status (?entry c) = GC_Approved \<longleftrightarrow> (\<exists>r. ?review (gc_id c) = Some r \<and> gr_status r = GC_Approved)" for c
    by (simp add: candidate_entry_def split: option.split)
  obtain dialect where items: "items = map (\<lambda>c. \<lparr>gx_candidate = c, gx_data_source_id = d, gx_dialect = dialect\<rparr>)
      (sort_key gc_id (map ge_candidate (filter (\<lambda>e. ge_status e = GC_Approved) (map ?entry ?rows))))"
    using assms(2) by (auto simp: export_approved_def list_candidates_def bind_result_Inr_iff)
  have "gx_candidate ` set items = ge_candidate ` set (filter (\<lambda>e. ge_status e = GC_Approved) (map ?entry ?rows))"
    unfolding items set_map image_image set_sort by simp
  also have "\<dots> = {c \<in> set ?rows. ge_status (?entry c) = GC_Approved}"
    by (force simp: image_iff candidate_entry_def)
  also have "\<dots> = {c \<in> set ?rows. \<exists>r \<in> final_reviews s c. gr_status r = GC_Approved}"
    unfolding status using candidate_review[OF assms(1)] by (intro Collect_cong conj_cong refl) auto
  finally show ?thesis unfolding candidate_set by auto
qed

lemma final_reviews_evolve: "learning_evolves s s' \<Longrightarrow> final_reviews s c \<subseteq> final_reviews s' c"
  by (auto simp: final_reviews_def learning_evolves_def)

text \<open>
  C15: A candidate that is exported for evaluation repeats a correction that the final feedback
  of its query request names, it has one final review, which approved it, and no later sequence
  of operations of any replicas takes it from the export.
\<close>

theorem exported_candidates_are_vouched:
  assumes "learning_client f" "learning_client g" "learning_good s"
    and "export_approved (f s) t d = Inr items" "export_approved (g (f s)) t d = Inr later"
    and "x \<in> set items"
  shows "gc_tenant_id (gx_candidate x) = t \<and> gc_data_source_id (gx_candidate x) = d
    \<and> vouched (f s) (gx_candidate x)
    \<and> (\<exists>r. final_reviews (g (f s)) (gx_candidate x) = {r} \<and> gr_status r = GC_Approved)
    \<and> gx_candidate x \<in> gx_candidate ` set later"
proof -
  note good = client_good[OF assms(1,3)]
  note later = client_good[OF assms(2) good[THEN conjunct1]]
  have c: "gx_candidate x \<in> set (lt_candidates (f s))" "gc_tenant_id (gx_candidate x) = t"
    "gc_data_source_id (gx_candidate x) = d" "\<exists>r \<in> final_reviews (f s) (gx_candidate x). gr_status r = GC_Approved"
    using imageI[OF assms(6), of gx_candidate] exported_candidates[OF good[THEN conjunct1] assms(4)] by auto
  then obtain r where r: "r \<in> final_reviews (g (f s)) (gx_candidate x)" "gr_status r = GC_Approved"
    using final_reviews_evolve[OF later[THEN conjunct2]] by blast
  have one: "final_reviews (g (f s)) (gx_candidate x) = {r}"
    using final_reviews_unique[OF later[THEN conjunct1] _ r(1)] r(1) by blast
  have "vouched (f s) (gx_candidate x)" using good c(1) by (simp add: learning_good_def)
  moreover have "gx_candidate x \<in> set (lt_candidates (g (f s)))"
    using later c(1) by (auto simp: learning_evolves_def)
  then have "gx_candidate x \<in> gx_candidate ` set later"
    unfolding exported_candidates[OF later[THEN conjunct1] assms(5)] using c(2,3) r by blast
  ultimately show ?thesis using c(2,3) one r(2) by blast
qed

section \<open>Retrieved examples\<close>

lemma take_keeps_least:
  assumes "sorted (map k xs)" "a \<in> set (take n xs)" "b \<in> set xs" "b \<notin> set (take n xs)"
  shows "k a \<le> k b"
proof -
  have "b \<in> set (drop n xs)" using assms(3,4) append_take_drop_id[of n xs] by (metis Un_iff set_append)
  moreover have "sorted (map k (take n xs) @ map k (drop n xs))" using assms(1) by (simp flip: map_append)
  ultimately show ?thesis using assms(2) by (auto simp: sorted_append)
qed

text \<open>Everything \<open>retrieve\<close> may give: the active examples that the catalog still supports.\<close>

definition retrievable ::
  "learning_loop \<Rightarrow> learning_store \<Rightarrow> string \<Rightarrow> string \<Rightarrow> string \<Rightarrow> catalog_version \<Rightarrow> sql_example_match set" where
  "retrievable l s t d question v =
     {m. (\<exists>entries. list_examples s t d False = Inr entries \<and> em_example m \<in> ee_example ` set entries)
        \<and> example_usable (catalog_tables s t (cv_id v)) (catalog_columns s t (cv_id v)) (em_example m)
        \<and> em_score m = example_score (normalize_question question) (em_example m)
        \<and> ll_minimum_score l \<le> em_score m}"

lemma ranked_set:
  assumes "list_examples s t d False = Inr entries"
  shows "set (ranked_matches l (normalize_question q) (catalog_tables s t (cv_id v)) (catalog_columns s t (cv_id v))
     (map ee_example entries)) = retrievable l s t d q v"
  unfolding retrievable_def assms by (auto simp: ranked_matches_def image_iff)

lemma ranked_sorted:
  "sorted (map (\<lambda>m. (- em_score m, ex_normalized_question (em_example m), ex_id (em_example m)))
     (ranked_matches l q tables columns examples))"
  by (simp add: ranked_matches_def)

lemma retrieve_is_prefix:
  assumes "retrieve l s t d q n = Inr ms"
  obtains v entries where "0 \<le> n" "n \<le> 10" "get_latest_catalog_version (lt_query s) t d = Some v"
    "list_examples s t d False = Inr entries"
    "ms = take (nat n) (ranked_matches l (normalize_question q) (catalog_tables s t (cv_id v))
       (catalog_columns s t (cv_id v)) (map ee_example entries))"
proof -
  have n: "0 \<le> n" "n \<le> 10" using assms by (auto simp: retrieve_def split: if_splits)
  obtain src v where v: "get_latest_catalog_version (lt_query s) t d = Some v"
    "require_learning_source s t d = Inr src"
    using assms n by (auto simp: retrieve_def current_context_def bind_result_Inr_iff split: option.splits)
  then obtain entries where entries: "list_examples s t d False = Inr entries" by (simp add: list_examples_def Let_def)
  show thesis
  proof (rule that[OF n v(1) entries])
    show "ms = take (nat n) (ranked_matches l (normalize_question q) (catalog_tables s t (cv_id v))
       (catalog_columns s t (cv_id v)) (map ee_example entries))"
      using assms n v entries
      by (auto simp: retrieve_def current_context_def Let_def split: if_splits)
  qed
qed

lemma active_questions_differ:
  assumes ok: "chains_ok (set (lt_examples s))" and entries: "list_examples s t d False = Inr entries"
    and "a \<in> ee_example ` set entries" "b \<in> ee_example ` set entries"
    and "ex_normalized_question a = ex_normalized_question b"
  shows "a = b"
proof -
  let ?q = "ex_normalized_question b"
  have "a \<in> {e \<in> ee_example ` set entries. ex_normalized_question e = ?q}"
    "b \<in> {e \<in> ee_example ` set entries. ex_normalized_question e = ?q}" using assms(3-5) by simp_all
  then have "a \<in> question_examples s t d ?q" "b \<in> question_examples s t d ?q" "ex_revision a = ex_revision b"
    unfolding active_is_last[OF ok entries] by simp_all
  then show ?thesis using inj_onD[OF question_examples_inj[OF ok]] by blast
qed


end
