(* ===== verification/Learning_Examples.thy ===== *)
theory Learning_Examples
  imports Learning_Results Execution_Examples
begin

text \<open>
  A question is corrected twice; feedback names the second correction, which becomes a golden
  candidate and is approved.
\<close>

definition sample_loop :: learning_loop where
  "sample_loop =
     \<lparr>ll_validate = (\<lambda>p ts cs _. \<lparr>vr_dialect = sp_dialect p, vr_normalized_sql = Some (sp_sql p), vr_issues = [],
         vr_referenced_tables = ts, vr_referenced_columns = [], vr_output_lineage = [],
         vr_output_lineage_complete = False\<rparr>),
      ll_max_preview_rows = 100, ll_minimum_score = 1 / 2\<rparr>"

definition sample_correction :: "string \<Rightarrow> string option \<Rightarrow> correction_input" where
  "sample_correction sql p =
     \<lparr>co_question = ''Mostra userNames'', co_corrected_sql = sql, co_actor_id = ''ana'',
      co_content_classification = INTERNAL, co_business_concepts = [], co_assumptions = [], co_reason = None,
      co_source_query_request_id = Some ''r'', co_supersedes_example_id = p\<rparr>"

definition sample_example :: "string \<Rightarrow> int \<Rightarrow> string option \<Rightarrow> string \<Rightarrow> timestamp \<Rightarrow> corrected_sql_example" where
  "sample_example sql n p i created =
     \<lparr>ex_tenant_id = ''t'', ex_data_source_id = ''d'', ex_catalog_version_id = ''v'',
      ex_question = ''Mostra userNames'', ex_normalized_question = ''user names'', ex_sql_text = sql,
      ex_normalized_sql = sql, ex_referenced_tables = [''s.u''], ex_referenced_columns = [], ex_actor_id = ''ana'',
      ex_revision = n, ex_content_classification = INTERNAL, ex_business_concepts = [], ex_assumptions = [],
      ex_reason = None, ex_source_query_request_id = Some ''r'', ex_supersedes_example_id = p, ex_id = i,
      ex_created_at = created\<rparr>"

definition sample_candidate :: golden_evaluation_candidate where
  "sample_candidate =
     \<lparr>gc_tenant_id = ''t'', gc_data_source_id = ''d'', gc_catalog_version_id = ''v'',
      gc_corrected_sql_example_id = ''e2'', gc_source_query_request_id = ''r'', gc_question = ''Mostra userNames'',
      gc_normalized_sql = ''q2'', gc_referenced_tables = [''s.u''], gc_referenced_columns = [],
      gc_business_concepts = [], gc_assumptions = [], gc_content_classification = INTERNAL, gc_id = ''c'',
      gc_created_at = 4\<rparr>"

definition sample_feedback :: query_feedback_event where
  "sample_feedback =
     \<lparr>fe_tenant_id = ''t'', fe_data_source_id = ''d'', fe_query_request_id = ''r'', fe_outcome = FB_Corrected,
      fe_actor_id = ''ana'', fe_reason = None, fe_corrected_sql_example_id = Some ''e2'', fe_id = ''f'',
      fe_created_at = 3\<rparr>"

definition sample_review :: golden_candidate_review where
  "sample_review = \<lparr>gr_tenant_id = ''t'', gr_candidate_id = ''c'', gr_status = GC_Approved, gr_actor_id = ''bob'',
     gr_reason = None, gr_id = ''g'', gr_created_at = 5\<rparr>"

definition learning_state ::
  "corrected_sql_example list \<Rightarrow> query_feedback_event list \<Rightarrow> golden_evaluation_candidate list
     \<Rightarrow> golden_candidate_review list \<Rightarrow> learning_audit list \<Rightarrow> learning_store" where
  "learning_state es fs cs rs audit =
     \<lparr>lt_query = sample_store approved_request, lt_examples = es, lt_feedback = fs, lt_candidates = cs,
      lt_reviews = rs, lt_audit = audit\<rparr>"

definition nothing_learned :: learning_store where
  "nothing_learned = learning_state [] [] [] [] []"

abbreviation "first_example \<equiv> sample_example ''q1'' 1 None ''e1'' 1"
abbreviation "second_example \<equiv> sample_example ''q2'' 2 (Some ''e1'') ''e2'' 2"

definition corrected_twice :: learning_store where
  "corrected_twice = learning_state [first_example, second_example] [] [] []
     [Example_Recorded first_example, Example_Recorded second_example]"

definition candidate_approved :: learning_store where
  "candidate_approved =
     learning_state [first_example, second_example] [sample_feedback] [sample_candidate] [sample_review]
       [Example_Recorded first_example, Example_Recorded second_example, Feedback_Recorded sample_feedback,
        Candidate_Proposed sample_candidate, Candidate_Reviewed sample_review]"

definition correct_twice :: "learning_store \<Rightarrow> learning_store" where
  "correct_twice s =
     (let s1 = snd (correct_sql sample_loop (\<lambda>s. s) s ''t'' ''d'' (sample_correction ''q1'' None) ''e1'' 1)
      in snd (correct_sql sample_loop (\<lambda>s. s) s1 ''t'' ''d'' (sample_correction ''q2'' (Some ''e1'')) ''e2'' 2))"

definition vouch_and_approve :: "learning_store \<Rightarrow> learning_store" where
  "vouch_and_approve s =
     (let s1 = snd (record_feedback (\<lambda>s. s) s ''t'' ''d'' ''r'' FB_Corrected ''ana'' None (Some ''e2'') ''f'' 3);
          s2 = snd (promote_candidate (\<lambda>s. s) s1 ''t'' ''d'' ''e2'' ''c'' 4)
      in snd (review_candidate (\<lambda>s. s) s2 ''t'' ''d'' ''c'' GC_Approved ''bob'' None ''g'' 5))"

text \<open>A second review comes too late.\<close>

definition reject_later :: "learning_store \<Rightarrow> learning_store" where
  "reject_later s = snd (review_candidate (\<lambda>s. s) s ''t'' ''d'' ''c'' GC_Rejected ''eve'' None ''h'' 6)"

lemma sample_clients:
  "learning_client correct_twice" "learning_client vouch_and_approve" "learning_client reject_later"
proof -
  note step = learning_client.intros(4-)[OF learning_idle]
  show "learning_client correct_twice"
    unfolding correct_twice_def Let_def by (rule learning_sequence[OF step(2) step(2)])
  show "learning_client vouch_and_approve"
    unfolding vouch_and_approve_def Let_def
    by (rule learning_sequence[OF learning_sequence[OF step(3) step(4)] step(5)])
  show "learning_client reject_later" unfolding reject_later_def by (rule step(5))
qed

lemma nothing_learned_good: "learning_good nothing_learned"
  by (simp add: learning_good_def nothing_learned_def learning_state_def chains_ok_def unique_key_def)

definition corrected_once :: learning_store where
  "corrected_once = learning_state [first_example] [] [] [] [Example_Recorded first_example]"

lemma sample_question: "normalize_question ''Mostra userNames'' = ''user names''"
  by code_simp

lemma current_sample:
  "current_context nothing_learned ''t'' ''d'' = Inr (sample_source,
     \<lparr>cv_tenant_id = ''t'', cv_data_source_id = ''d'', cv_version = 1, cv_id = ''v'', cv_created_at = 0\<rparr>,
     [''s.u''], [''s.u.name'', ''s.u.ssn''])"
  by code_simp

lemma sample_strips:
  "strip ''Mostra userNames'' = ''Mostra userNames''" "strip ''q1'' = ''q1''" "strip ''q2'' = ''q2''" "strip ''ana'' = ''ana''"
  by code_simp+

lemma current_once: "current_context corrected_once ''t'' ''d'' = current_context nothing_learned ''t'' ''d''"
  by code_simp

lemma sample_request_found:
  "require_source_request nothing_learned ''t'' ''d'' (Some ''r'') = Inr ()"
  "require_source_request corrected_once ''t'' ''d'' (Some ''r'') = Inr ()"
  by code_simp+

lemma nothing_listed: "list_examples nothing_learned ''t'' ''d'' True = Inr []"
  by code_simp

lemma once_listed: "list_examples corrected_once ''t'' ''d'' True = Inr [\<lparr>ee_example = first_example, ee_is_active = True\<rparr>]"
  by code_simp

lemma second_revision:
  "next_revision [\<lparr>ee_example = first_example, ee_is_active = True\<rparr>] ''user names'' (Some ''e1'') = Inr 2"
  by code_simp

definition sample_verdict :: "string \<Rightarrow> validation_result" where
  "sample_verdict sql = \<lparr>vr_dialect = ''postgres'', vr_normalized_sql = Some sql, vr_issues = [],
     vr_referenced_tables = [''s.u''], vr_referenced_columns = [], vr_output_lineage = [],
     vr_output_lineage_complete = False\<rparr>"

lemma sample_validated:
  "validate_corrected_sql sample_loop ''q1'' (ds_dialect sample_source) [''s.u''] [''s.u.name'', ''s.u.ssn'']
     = Inr (sample_verdict ''q1'')"
  "validate_corrected_sql sample_loop ''q2'' (ds_dialect sample_source) [''s.u''] [''s.u.name'', ''s.u.ssn'']
     = Inr (sample_verdict ''q2'')"
  by code_simp+

lemma sample_not_blank:
  "\<not> blank ''t''" "\<not> blank ''d''" "\<not> blank ''v''" "\<not> blank ''Mostra userNames''" "\<not> blank ''user names''"
  "\<not> blank ''q1''" "\<not> blank ''q2''" "\<not> blank ''ana''" "\<not> blank ''s.u''" "\<not> blank ''r''" "\<not> blank ''e1''"
  by code_simp+

lemma samples_valid:
  "corrected_sql_example_post_init first_example = Inr ()" "corrected_sql_example_post_init second_example = Inr ()"
  by (simp_all add: corrected_sql_example_post_init_def sample_example_def sample_not_blank blank_option_def
      has_duplicates_def)

lemmas sample_steps = corrected_example_def sample_correction_def Let_def sample_strips sample_question
  sample_request_found nothing_listed once_listed second_revision sample_validated current_once current_sample

lemma first_prepared:
  "corrected_example sample_loop nothing_learned ''t'' ''d'' (sample_correction ''q1'' None) ''e1'' 1 = Inr first_example"
  using samples_valid(1)
  by (simp add: sample_steps raise_if_def next_revision_def sample_verdict_def sample_example_def)

lemma first_stored: "create_corrected_sql_example (\<lambda>s. s) nothing_learned first_example = (Inr first_example, corrected_once)"
  by code_simp

lemma second_prepared:
  "corrected_example sample_loop corrected_once ''t'' ''d'' (sample_correction ''q2'' (Some ''e1'')) ''e2'' 2
   = Inr second_example"
  using samples_valid(2) second_revision once_listed
  by (simp add: sample_steps raise_if_def sample_verdict_def sample_example_def)

lemma second_stored: "create_corrected_sql_example (\<lambda>s. s) corrected_once second_example = (Inr second_example, corrected_twice)"
  by code_simp

lemma corrected_twice_reached: "correct_twice nothing_learned = corrected_twice"
  by (simp add: correct_twice_def correct_sql_def first_prepared first_stored second_prepared second_stored)

text \<open>The feedback, the candidate and its review, one table after another.\<close>

definition feedback_given :: learning_store where
  "feedback_given = learning_state [first_example, second_example] [sample_feedback] [] []
     [Example_Recorded first_example, Example_Recorded second_example, Feedback_Recorded sample_feedback]"

definition candidate_proposed :: learning_store where
  "candidate_proposed = learning_state [first_example, second_example] [sample_feedback] [sample_candidate] []
     [Example_Recorded first_example, Example_Recorded second_example, Feedback_Recorded sample_feedback,
      Candidate_Proposed sample_candidate]"

lemma feedback_prepared:
  "feedback_of corrected_twice ''t'' ''d'' ''r'' FB_Corrected ''ana'' None (Some ''e2'') ''f'' 3 = Inr sample_feedback"
  by code_simp

lemma feedback_stored:
  "create_query_feedback_event corrected_twice sample_feedback = (Inr sample_feedback, feedback_given)"
  by code_simp

lemma candidate_prepared: "candidate_of feedback_given ''t'' ''d'' ''e2'' ''c'' 4 = Inr sample_candidate"
  by code_simp

lemma candidate_stored:
  "create_golden_evaluation_candidate feedback_given sample_candidate = (Inr sample_candidate, candidate_proposed)"
  by code_simp

lemma candidate_found:
  "get_golden_evaluation_candidate candidate_proposed ''t'' ''c'' = Some sample_candidate"
  "get_golden_evaluation_candidate candidate_approved ''t'' ''c'' = Some sample_candidate"
  by code_simp+

lemma review_stored:
  "create_golden_candidate_review candidate_proposed sample_review = (Inr sample_review, candidate_approved)"
  by code_simp

lemma review_valid: "golden_candidate_review_post_init sample_review = Inr ()"
  by code_simp

lemma sample_promoted: "snd (promote_candidate (\<lambda>s. s) feedback_given ''t'' ''d'' ''e2'' ''c'' 4) = candidate_proposed"
  by (simp add: promote_candidate_def candidate_prepared candidate_stored)

lemma sample_reviewed:
  "snd (review_candidate (\<lambda>s. s) candidate_proposed ''t'' ''d'' ''c'' GC_Approved ''bob'' None ''g'' 5) = candidate_approved"
proof -
  have "strip ''bob'' = ''bob''" by code_simp
  then show ?thesis
    using review_valid review_stored
    by (simp add: review_candidate_def candidate_found sample_review_def) (simp add: sample_candidate_def)
qed

lemma candidate_approved_reached: "vouch_and_approve corrected_twice = candidate_approved"
  by (simp add: vouch_and_approve_def record_feedback_def feedback_prepared feedback_stored sample_promoted
      sample_reviewed Let_def)

lemma rejected_later: "reject_later candidate_approved = candidate_approved"
  by code_simp

lemma twice_active: "list_examples corrected_twice ''t'' ''d'' False
    = Inr [\<lparr>ee_example = second_example, ee_is_active = True\<rparr>]"
  by code_simp

lemma sample_exported: "export_approved candidate_approved ''t'' ''d''
    = Inr [\<lparr>gx_candidate = sample_candidate, gx_data_source_id = ''d'', gx_dialect = ''postgres''\<rparr>]"
  by code_simp

lemma sample_asked: "normalize_question ''mostra user names'' = ''user names''"
  by code_simp

lemma twice_version: "get_latest_catalog_version (lt_query corrected_twice) ''t'' ''d''
    = Some \<lparr>cv_tenant_id = ''t'', cv_data_source_id = ''d'', cv_version = 1, cv_id = ''v'', cv_created_at = 0\<rparr>"
  by code_simp

lemma current_twice: "current_context corrected_twice ''t'' ''d'' = current_context nothing_learned ''t'' ''d''"
  by code_simp

lemma sample_retrieved: "retrieve sample_loop corrected_twice ''t'' ''d'' ''mostra user names'' 3
    = Inr [\<lparr>em_example = second_example, em_score = 1\<rparr>]"
proof -
  have "py_split ''user names'' \<noteq> []" by code_simp
  then show ?thesis
    by (simp add: retrieve_def current_twice current_sample sample_asked twice_active ranked_matches_def
        example_usable_def example_score_def sample_example_def sample_loop_def)
qed

section \<open>The properties on these states\<close>

theorem corrected_examples_form_chains_witness:
  "ex_revision ` question_examples corrected_twice ''t'' ''d'' ''user names''
     = {1..int (card (question_examples corrected_twice ''t'' ''d'' ''user names''))}
   \<and> second_example \<in> question_examples corrected_twice ''t'' ''d'' ''user names''
   \<and> ex_revision second_example = int (card (question_examples corrected_twice ''t'' ''d'' ''user names''))"
proof -
  have "list_examples (correct_twice nothing_learned) ''t'' ''d'' False
      = Inr [\<lparr>ee_example = second_example, ee_is_active = True\<rparr>]"
    unfolding corrected_twice_reached by (rule twice_active)
  note chain = corrected_examples_form_chains[OF sample_clients(1) nothing_learned_good this, of "''user names''",
      unfolded corrected_twice_reached]
  have "second_example \<in> {e \<in> ee_example ` set [\<lparr>ee_example = second_example, ee_is_active = True\<rparr>].
      ex_normalized_question e = ''user names''}"
    by (simp add: sample_example_def)
  then show ?thesis using chain by blast
qed

theorem exported_candidates_are_vouched_witness:
  "vouched candidate_approved sample_candidate
   \<and> (\<exists>r. final_reviews candidate_approved sample_candidate = {r} \<and> gr_status r = GC_Approved)"
proof -
  let ?f = "\<lambda>s. vouch_and_approve (correct_twice s)"
  have f: "?f nothing_learned = candidate_approved" by (simp add: corrected_twice_reached candidate_approved_reached)
  let ?x = "\<lparr>gx_candidate = sample_candidate, gx_data_source_id = ''d'', gx_dialect = ''postgres''\<rparr>"
  have exports: "export_approved (?f nothing_learned) ''t'' ''d'' = Inr [?x]"
    "export_approved (reject_later (?f nothing_learned)) ''t'' ''d'' = Inr [?x]"
    unfolding f rejected_later by (rule sample_exported)+
  have x: "?x \<in> set [?x]" by simp
  note vouched = exported_candidates_are_vouched[OF learning_sequence[OF sample_clients(1,2)] sample_clients(3)
      nothing_learned_good exports x, unfolded f rejected_later golden_export_item.simps]
  show ?thesis using vouched by blast
qed


end
