(* ===== verification/Spec2Isabelle.thy ===== *)
theory Spec2Isabelle
  imports Execution_Examples Retention Gateway_Examples Security_Examples Knowledge_Examples
    Catalog_Examples Analytics_Examples Validated_Execution Learning_Examples
begin

text \<open>
  A verification development of SQLVerity-AI, the service that lets people query relational
  data sources in natural language under governance (Python, \<open>src/packages/\<close> and
  \<open>src/apps/api\<close>).  Paths below are relative to \<open>src/packages/\<close>.

  \<^bold>\<open>The program and its parts.\<close>  A \<open>catalog\<close> repository (one SQL database, SQLite or
  PostgreSQL) holds tenants and their data sources, the ingested schema of each source, the
  governed knowledge about it (descriptions, business concepts, metrics and rules), the query
  requests, and the operational tables (jobs, quotas, ledger, policies, credentials).  A
  request is generated through the LLM gateway, validated by the SQL engine, explained,
  approved and executed by the execution service, and its rows pass the result processor.
  Every transaction of the repository is one definition on an explicit store; services are
  compositions of them; errors are the left side of a sum, one constructor for each \<open>raise\<close>.

  \<^bold>\<open>Shared theories.\<close>  \<open>Prelude\<close>: Python strings, floats, results, the generic lemmas.
  \<open>Sql_Tables\<close>: the SQL fragment the repository issues, on lists of rows.  \<open>Interference\<close>: rely
  and guarantee for operations that interleave with other replicas.  \<open>Calendar\<close>: the dates of
  the ledger.  \<open>Search_Text\<close>: \<open>domain/text.py\<close>.  \<open>Domain_Model\<close>, \<open>Semantic_Models\<close> and
  \<open>Contracts\<close>: \<open>domain/models.py\<close> and \<open>domain/contracts.py\<close>, a dataclass as a record and its
  \<open>__post_init__\<close> as a function that gives the first check that raises.

  \<^bold>\<open>Queries.\<close>  \<open>Query_Request\<close> (\<open>QueryRequest\<close>, \<open>domain/query_state.py\<close>), \<open>Query_Store\<close> (the query
  methods of \<open>catalog/repository.py\<close>), \<open>Parameter_Binding\<close> (\<open>query/parameters.py\<close>),
  \<open>Result_Processor\<close> (\<open>result_engine/processor.py\<close>) and \<open>Execution_Service\<close>
  (\<open>query/execution.py\<close>, an action on a world of store, environment, clock and call log).
  \<open>Query_Invariants\<close> shows that approvals stay bound to what was approved, \<open>Execution_Safety\<close>
  that only an approved request reaches a database and with what, \<open>Execution_Outcomes\<close> what a
  method leaves behind without interference, \<open>Execution_Examples\<close> has the witnesses.

  \<^bold>\<open>SQL validation.\<close>  \<open>Sql_Dialects\<close> (the dialect registry, \<open>identifiers.py\<close>) and \<open>Sql_Validator\<close>
  (\<open>sql_engine/validator.py\<close>, on the nodes and scopes \<open>sqlglot\<close> gives).  \<open>Validator_Safety\<close> shows
  that accepted SQL stays within the allowed tables and columns and under its limit,
  \<open>Validator_Lineage\<close> that complete lineage is exact through derived tables,
  \<open>Validated_Execution\<close> what this means for the queries the execution service sends.

  \<^bold>\<open>Operations.\<close>  \<open>Request_Quota\<close> and \<open>Quota_Safety\<close> (\<open>security/quota.py\<close>), \<open>Background_Jobs\<close>,
  \<open>Job_Safety\<close> and \<open>Job_Worker\<close> (\<open>jobs/worker.py\<close>), \<open>Retention\<close> (\<open>operations/retention.py\<close>), each
  with its repository methods: limits, leases and what a purge may remove.

  \<^bold>\<open>Language models.\<close>  \<open>Finops_Ledger\<close> and \<open>Finops_Service\<close> (\<open>cost_engine/service.py\<close>) with
  \<open>Finops_Invariants\<close>: budgets hold up to overruns.  \<open>Egress_Policy\<close> and \<open>Egress_Safety\<close>
  (\<open>llm_gateway/policy.py\<close>): who may send what.  \<open>Llm_Gateway\<close> and \<open>Gateway_Safety\<close>
  (\<open>llm_gateway/gateway.py\<close>): what reaches a provider and that no reservation is lost.

  \<^bold>\<open>Access.\<close>  \<open>Security_Store\<close>, \<open>Oidc\<close> and \<open>Security_Service\<close> (\<open>security/oidc.py\<close>,
  \<open>security/service.py\<close>) with \<open>Security_Safety\<close>: exact access, keys, revocation, login.

  \<^bold>\<open>Governed knowledge.\<close>  \<open>Epistemic_Resolution\<close> (\<open>domain/epistemic.py\<close>), \<open>Semantic_Store\<close> and
  \<open>Analytic_Store\<close> (the proposals of \<open>catalog/repository.py\<close>).  \<open>Knowledge_Policy\<close> states the
  precedence of evidence abstractly and the locale of a policy, \<open>Governed_Store\<close> and
  \<open>Governed_Assets\<close> the locale of a table that refines it with its three interpretations,
  \<open>Knowledge_Safety\<close> the refinement of the whole catalog.  \<open>Knowledge_Examples\<close> has the witnesses
  and the lost update between two replicas.

  \<^bold>\<open>Catalog.\<close>  \<open>Catalog_Store\<close> (versions, objects, columns, relationships), \<open>Catalog_Ingestion\<close>
  (\<open>catalog/ingestion.py\<close>, \<open>offline_import.py\<close>), \<open>Semantic_Governance\<close> (\<open>governance.py\<close>,
  \<open>explorer.py\<close>), \<open>Concept_Service\<close> (\<open>business_concepts.py\<close>); \<open>Ingestion_Safety\<close>,
  \<open>Governance_Safety\<close> and \<open>Concept_Safety\<close> show that the explorer reads back what was ingested,
  that a correction takes effect once and that confirmed terms are unambiguous.
  \<open>Analytics_Service\<close> (\<open>analytics_semantics.py\<close>) and \<open>Analytics_Safety\<close>: confirmations last, so the
  metrics and rules a question is given are closed under what they depend on.

  \<^bold>\<open>Learning.\<close>  \<open>Learning_Store\<close> (the learning tables of \<open>catalog/repository.py\<close> with the constraints and
  unique indexes of \<open>sqlite_schema.sql\<close>) and \<open>Learning_Service\<close> (\<open>learning/service.py\<close>,
  \<open>governance.py\<close>).  \<open>Learning_Safety\<close> shows that revisions form chains however replicas interleave,
  \<open>Learning_Results\<close> what is retrieved and exported, \<open>Learning_Examples\<close> has the witnesses.

  \<^bold>\<open>Conventions.\<close>  Strings are lists of the code points below 256, on which the string methods
  are written out.  Timestamps are integers of microseconds.  A \<open>float\<close> is a rational or one of
  the special values; a \<open>Decimal\<close> is a rational, so the 28 digits of the decimal context are
  not reached.  Identifiers, clocks and random tokens are arguments.  Third-party code is an
  argument too: database drivers, providers, \<open>sqlglot\<close>, hash functions, connectors.  Where
  replicas matter, an argument \<open>mid\<close> is what other replicas commit between a read and the
  transaction that follows it; the services of the catalog are modelled as one process runs
  them.  Recursion is structural or has a measure; no definition needs fuel, and the life
  cycle's runs are bounded by a theorem.

  \<^bold>\<open>Not modelled.\<close>  The FastAPI application (\<open>apps/api/main.py\<close>: request decoding and routing to
  the services), drivers and connectors (\<open>connectors/\<close>, I/O on third-party drivers), the HTTP
  adapters of the providers, observability, evaluation and load tools, backup, configuration
  and migrations, the translation of statements to PostgreSQL (so a \<open>numeric(4,3)\<close> column's
  rounding of a confidence), the JSON encoding of rows other than the analytic payloads, query generation and memory
  (\<open>query/generation.py\<close>, \<open>memory.py\<close>, \<open>privacy.py\<close>), retrieval, authorized queries and
  inference, each an argument where a modelled part calls it.
\<close>

end
